(* ===== verification/Prelude.thy ===== *)
theory Prelude
  imports Main "HOL-Library.List_Lexorder" "HOL-Library.Char_ord"
begin

text \<open>
  Shared vocabulary of the development: the Python exceptions that the modelled code raises, the
  result type of fallible code, the library environment that a definition may consult, timestamps,
  and the generic lemmas about results, options and lists that the component theories use.

  Text is modelled as a \<open>string\<close> holding its UTF-8 bytes. The canonical encoder sorts
  keys by code point and writes UTF-8, and byte order on UTF-8 is code point order, so nothing is
  lost by the representation. Timestamps are UTC microseconds since the first instant that a
  Python \<open>datetime\<close> can hold, so comparison and subtraction are those of \<open>int\<close>.
\<close>

section \<open>Collections of rules\<close>

named_theorems result_simps \<open>rewriting of fallible computations\<close>
named_theorems permit_rules \<open>facts about the life cycle of an action permit\<close>
named_theorems evidence_rules \<open>facts about evidence attempts and their classification\<close>

section \<open>Exceptions and results\<close>

text \<open>
  The exception classes that reach a caller of the modelled functions. A contract validation
  error is a \<open>ValueError\<close>, as it is in pydantic. The payload is the message.
\<close>

datatype exn =
    TypeError string
  | ValueError string
  | RuntimeError string
  | OverflowError string
  | CancelledError
  | KeyError string
  | PermitAuthorityError string
  | RecoveryRuleViolation string
  | RecoveryVerificationError string

type_synonym 'a result = "exn + 'a"

text \<open>
  The classes that an \<open>except (TypeError, ValueError)\<close> clause catches: the three authority
  exceptions of the program derive from \<open>ValueError\<close>.
\<close>

fun is_type_or_value_error :: "exn \<Rightarrow> bool" where
  "is_type_or_value_error (TypeError _) = True"
| "is_type_or_value_error (ValueError _) = True"
| "is_type_or_value_error (PermitAuthorityError _) = True"
| "is_type_or_value_error (RecoveryRuleViolation _) = True"
| "is_type_or_value_error (RecoveryVerificationError _) = True"
| "is_type_or_value_error _ = False"

definition bind_result :: "'a result \<Rightarrow> ('a \<Rightarrow> 'b result) \<Rightarrow> 'b result" where
  "bind_result r f = (case r of Inl e \<Rightarrow> Inl e | Inr x \<Rightarrow> f x)"

lemma bind_result_simps [simp, result_simps]:
  "bind_result (Inl e) f = Inl e"
  "bind_result (Inr x) f = f x"
  by (simp_all add: bind_result_def)

lemma bind_result_eq_Inr [simp, result_simps]:
  "bind_result r f = Inr y \<longleftrightarrow> (\<exists>x. r = Inr x \<and> f x = Inr y)"
  by (cases r) simp_all

text \<open>A guard: the statement \<open>if not b: raise e\<close>.\<close>

definition require :: "bool \<Rightarrow> exn \<Rightarrow> unit result" where
  "require b e = (if b then Inr () else Inl e)"

lemma require_eq_Inr [simp, result_simps]: "require b e = Inr u \<longleftrightarrow> b"
  by (simp add: require_def)

lemma require_simps [simp, result_simps]:
  "require True e = Inr ()"
  "require False e = Inl e"
  by (simp_all add: require_def)

text \<open>
  The body of a model validator: the refusals in the order of the code, each with its condition.
  The first condition that holds raises its message; when none holds the value is returned.
\<close>

fun checked :: "(bool \<times> string) list \<Rightarrow> 'a \<Rightarrow> 'a result" where
  "checked [] x = Inr x"
| "checked ((bad, message) # cs) x = (if bad then Inl (ValueError message) else checked cs x)"

declare checked.simps [simp del]

lemma checked_eq_Inr [simp, result_simps]:
  "checked cs x = Inr y \<longleftrightarrow> y = x \<and> list_all (\<lambda>(bad, _). \<not> bad) cs"
  by (induction cs x rule: checked.induct) (auto simp: checked.simps)

lemma checked_cases:
  "checked cs x = Inr x \<or> (\<exists>m. checked cs x = Inl (ValueError m))"
  by (induction cs x rule: checked.induct) (auto simp: checked.simps)

text \<open>A comprehension whose body can raise: the first exception ends it.\<close>

fun map_result :: "('a \<Rightarrow> 'b result) \<Rightarrow> 'a list \<Rightarrow> 'b list result" where
  "map_result f [] = Inr []"
| "map_result f (x # xs) =
     bind_result (f x) (\<lambda>y. bind_result (map_result f xs) (\<lambda>ys. Inr (y # ys)))"

lemma map_result_eq_Inr:
  "map_result f xs = Inr ys \<longleftrightarrow> list_all2 (\<lambda>x y. f x = Inr y) xs ys"
proof (induction xs arbitrary: ys)
  case Nil
  show ?case by auto
next
  case (Cons x xs)
  then show ?case by (cases ys) auto
qed

section \<open>Timestamps\<close>

type_synonym time = int

text \<open>\<open>datetime.min\<close> and \<open>datetime.max\<close> in UTC, and the bound on \<open>timedelta\<close> (in microseconds).\<close>

definition datetime_min :: time where "datetime_min = 0"

definition datetime_max :: time where
  "datetime_max = 3652059 * 86400 * 1000000 - 1"

definition timedelta_max :: int where
  "timedelta_max = 999999999 * 86400 * 1000000 + 86399999999"

definition microseconds :: "int \<Rightarrow> int" where
  "microseconds s = s * 1000000"

text \<open>The largest value of a signed 64-bit field.\<close>

definition int64_max :: int where "int64_max = 2 ^ 63 - 1"

lemma int64_max_value: "int64_max = 9223372036854775807"
  by (simp add: int64_max_def)

section \<open>The library environment\<close>

text \<open>
  What the modelled code asks of libraries whose definition is not part of the repository or
  is too large to write out, as one record of functions:
  \<^item> \<open>env_sha256\<close>: \<open>hashlib.sha256(...).hexdigest()\<close>, from bytes to lower case hexadecimal;
  \<^item> \<open>env_wide_text\<close>: whether the characters beyond ASCII of a text are free of the Unicode
    categories that \<open>_validate_unicode_text\<close> refuses (the Unicode tables);
  \<^item> \<open>env_lower\<close>: \<open>str.lower\<close> on a text that is not ASCII (the Unicode tables);
  \<^item> \<open>env_wide_sensitive\<close>: whether one of the credential patterns of \<open>security.py\<close> occurs in a
    text that is not ASCII, where the classes \<open>\w\<close> and \<open>\s\<close> and the case folding of \<open>re\<close> follow
    the Unicode tables;
  \<^item> \<open>env_wide_redact\<close>: the text that \<open>redact_untrusted_text\<close> makes of a text that is not ASCII;
  \<^item> \<open>env_wide_escape\<close>: the text that the escapes of \<open>terminal_safe_text\<close> make of a text that is
    not ASCII (the Unicode tables);
  \<^item> \<open>env_wide_coordinate\<close>: whether \<open>_contains_target_coordinate_value\<close> takes a text that is not
    ASCII for a target coordinate (\<open>strip\<close>, \<open>lower\<close> and the case folding follow the tables);
  \<^item> \<open>env_wide_space\<close>: whether a text that is not ASCII has a character with \<open>isspace\<close>.
  Every definition that needs one takes the record as its first argument, so the theorems hold
  for every such library.
\<close>

record env =
  env_sha256 :: "string \<Rightarrow> string"
  env_wide_text :: "string \<Rightarrow> bool"
  env_lower :: "string \<Rightarrow> string"
  env_wide_sensitive :: "string \<Rightarrow> bool"
  env_wide_redact :: "string \<Rightarrow> string"
  env_wide_escape :: "string \<Rightarrow> string"
  env_wide_coordinate :: "string \<Rightarrow> bool"
  env_wide_space :: "string \<Rightarrow> bool"

text \<open>These two texts differ and have one digest.\<close>

definition digests_collide :: "env \<Rightarrow> string \<Rightarrow> string \<Rightarrow> bool" where
  "digests_collide E a b \<longleftrightarrow> a \<noteq> b \<and> env_sha256 E a = env_sha256 E b"

section \<open>Lists\<close>

text \<open>The check \<open>len(values) != len(set(values))\<close> of the contracts.\<close>

lemma length_card_distinct: "length xs = card (set xs) \<longleftrightarrow> distinct xs"
  by (metis card_distinct distinct_card)

lemma distinct_map_fst_map_of:
  "distinct (map fst kvs) \<Longrightarrow> (k, v) \<in> set kvs \<longleftrightarrow> map_of kvs k = Some v"
  by (metis map_of_SomeD map_of_eq_Some_iff)

lemma takeWhile_append_stop:
  "list_all P xs \<Longrightarrow> ys = [] \<or> \<not> P (hd ys) \<Longrightarrow> takeWhile P (xs @ ys) = xs"
  by (induction xs) (cases ys; auto)+

lemma append_token_eq:
  assumes "list_all P xs" "list_all P ys" "r = [] \<or> \<not> P (hd r)" "s = [] \<or> \<not> P (hd s)"
    and "xs @ r = ys @ s"
  shows "xs = ys \<and> r = s"
proof -
  have "xs = takeWhile P (xs @ r)" using assms(1,3) by (simp add: takeWhile_append_stop)
  also have "\<dots> = ys" using assms(2,4,5) by (simp add: takeWhile_append_stop)
  finally show ?thesis using assms(5) by simp
qed

text \<open>\<open>sorted(set(xs))\<close>: the sorted list of the distinct elements.\<close>

definition sorted_set :: "'a::linorder list \<Rightarrow> 'a list" where
  "sorted_set xs = sort (remdups xs)"

lemma set_sorted_set [simp]: "set (sorted_set xs) = set xs"
  by (simp add: sorted_set_def)

lemma distinct_sorted_set [simp]: "distinct (sorted_set xs)"
  by (simp add: sorted_set_def)

lemma sorted_sorted_set [simp]: "sorted (sorted_set xs)"
  by (simp add: sorted_set_def)

lemma sorted_set_cong: "set xs = set ys \<Longrightarrow> sorted_set xs = sorted_set ys"
  by (rule sorted_distinct_set_unique) simp_all

lemma sorted_set_eq_Nil [simp]: "sorted_set xs = [] \<longleftrightarrow> xs = []"
  by (metis set_empty set_sorted_set)

end
