(* ===== verification/Canonical_Json.thy ===== *)
theory Canonical_Json
  imports Prelude
begin

text \<open>
  The canonical wire encoding of \<open>contracts/base.py\<close> and \<open>contracts/codec.py\<close>: JSON values, the
  structural screen \<open>_validate_json\<close>, the compact key-sorted serialisation that
  \<open>json.dumps(..., ensure_ascii=False, separators=(",", ":"), sort_keys=True)\<close> performs, and the
  digests computed over it. The main result is that the encoding is injective up to the order of
  object keys, so that a digest comparison compares values, up to a collision of the hash.
\<close>

section \<open>JSON values\<close>

text \<open>
  A float is carried by the text that \<open>float.__repr__\<close> gives it, which is what \<open>json.dumps\<close>
  writes; \<open>FNonFinite\<close> stands for the infinities and NaN. An object is the list of its items.
\<close>

datatype pyfloat = FFinite string | FNonFinite

datatype json =
    JNull
  | JBool bool
  | JInt int
  | JFloat pyfloat
  | JStr string
  | JArr "json list"
  | JObj "(string \<times> json) list"

section \<open>Screening: \<open>_validate_json\<close>\<close>

definition ascii_text_ok :: "string \<Rightarrow> bool" where
  "ascii_text_ok s \<longleftrightarrow>
     list_all (\<lambda>c. of_char c < (128::nat) \<longrightarrow> 32 \<le> (of_char c :: nat) \<and> (of_char c :: nat) \<noteq> 127) s"

definition is_ascii :: "string \<Rightarrow> bool" where
  "is_ascii s \<longleftrightarrow> list_all (\<lambda>c. of_char c < (128::nat)) s"

text \<open>
  \<open>_validate_unicode_text\<close>: no character of a Unicode control, format, surrogate, private or
  separator category. Among the ASCII characters these are the codes below 32 and 127.
\<close>

definition validate_unicode_text :: "env \<Rightarrow> string \<Rightarrow> bool" where
  "validate_unicode_text E s \<longleftrightarrow> ascii_text_ok s \<and> (is_ascii s \<or> env_wide_text E s)"

text \<open>\<open>len(text)\<close> counts characters: the bytes that do not continue a UTF-8 sequence.\<close>

definition text_length :: "string \<Rightarrow> nat" where
  "text_length s = length (filter (\<lambda>c. \<not> (128 \<le> (of_char c :: nat) \<and> (of_char c :: nat) < 192)) s)"

definition key_bounds :: "env \<Rightarrow> string \<Rightarrow> bool" where
  "key_bounds E k \<longleftrightarrow> k \<noteq> [] \<and> text_length k \<le> 128 \<and> validate_unicode_text E k"

fun validate_json :: "env \<Rightarrow> nat \<Rightarrow> json \<Rightarrow> bool"
  and validate_json_items :: "env \<Rightarrow> nat \<Rightarrow> json list \<Rightarrow> bool"
  and validate_json_members :: "env \<Rightarrow> nat \<Rightarrow> (string \<times> json) list \<Rightarrow> bool" where
  "validate_json E d JNull = (d \<le> 12)"
| "validate_json E d (JBool b) = (d \<le> 12)"
| "validate_json E d (JStr s) = (d \<le> 12 \<and> validate_unicode_text E s)"
| "validate_json E d (JInt i) = (d \<le> 12 \<and> - (2 ^ 63) \<le> i \<and> i < 2 ^ 63)"
| "validate_json E d (JFloat f) = (d \<le> 12 \<and> f \<noteq> FNonFinite)"
| "validate_json E d (JArr xs) = (d \<le> 12 \<and> validate_json_items E (Suc d) xs)"
| "validate_json E d (JObj kvs) =
     (d \<le> 12 \<and> length kvs \<le> 128 \<and> validate_json_members E (Suc d) kvs)"
| "validate_json_items E d [] = True"
| "validate_json_items E d (x # xs) = (validate_json E d x \<and> validate_json_items E d xs)"
| "validate_json_members E d [] = True"
| "validate_json_members E d ((k, v) # kvs) =
     (key_bounds E k \<and> validate_json E d v \<and> validate_json_members E d kvs)"

section \<open>Serialisation\<close>

definition hex_digit :: "nat \<Rightarrow> char" where
  "hex_digit n = (if n < 10 then char_of (48 + n) else char_of (87 + n))"

text \<open>The string escapes of \<open>json.dumps\<close> with \<open>ensure_ascii=False\<close>.\<close>

definition escape_char :: "char \<Rightarrow> string" where
  "escape_char c =
     (let n = (of_char c :: nat); b = CHR 0x5C in
      if n = 34 then [b, CHR 0x22]
      else if n = 92 then [b, b]
      else if n = 8 then [b, CHR ''b'']
      else if n = 12 then [b, CHR ''f'']
      else if n = 10 then [b, CHR ''n'']
      else if n = 13 then [b, CHR ''r'']
      else if n = 9 then [b, CHR ''t'']
      else if n < 32 then [b, CHR ''u'', CHR ''0'', CHR ''0'', hex_digit (n div 16), hex_digit (n mod 16)]
      else [c])"

fun escape_text :: "string \<Rightarrow> string" where
  "escape_text [] = []"
| "escape_text (c # cs) = escape_char c @ escape_text cs"

definition json_string :: "string \<Rightarrow> string" where
  "json_string s = CHR 0x22 # escape_text s @ [CHR 0x22]"

fun nat_text :: "nat \<Rightarrow> string" where
  "nat_text n = (if n < 10 then [char_of (48 + n)] else nat_text (n div 10) @ [char_of (48 + n mod 10)])"

declare nat_text.simps [simp del]

definition int_text :: "int \<Rightarrow> string" where
  "int_text i = (if i < 0 then CHR ''-'' # nat_text (nat (- i)) else nat_text (nat i))"

definition float_text :: "pyfloat \<Rightarrow> string" where
  "float_text f = (case f of FFinite r \<Rightarrow> r | FNonFinite \<Rightarrow> ''NaN'')"

fun json_text :: "json \<Rightarrow> string"
  and json_items_text :: "json list \<Rightarrow> string"
  and json_members_text :: "(string \<times> json) list \<Rightarrow> string" where
  "json_text JNull = ''null''"
| "json_text (JBool b) = (if b then ''true'' else ''false'')"
| "json_text (JInt i) = int_text i"
| "json_text (JFloat f) = float_text f"
| "json_text (JStr s) = json_string s"
| "json_text (JArr xs) = ''['' @ json_items_text xs @ '']''"
| "json_text (JObj kvs) = CHR 0x7B # json_members_text kvs @ [CHR 0x7D]"
| "json_items_text [] = []"
| "json_items_text (x # xs) =
     json_text x @ (if xs = [] then [] else CHR '','' # json_items_text xs)"
| "json_members_text [] = []"
| "json_members_text (kv # kvs) =
     json_string (fst kv) @ CHR '':'' # json_text (snd kv) @
     (if kvs = [] then [] else CHR '','' # json_members_text kvs)"

text \<open>\<open>sort_keys=True\<close>, at every level.\<close>

fun json_sorted :: "json \<Rightarrow> json"
  and json_sorted_items :: "json list \<Rightarrow> json list"
  and json_sorted_members :: "(string \<times> json) list \<Rightarrow> (string \<times> json) list" where
  "json_sorted (JArr xs) = JArr (json_sorted_items xs)"
| "json_sorted (JObj kvs) = JObj (sort_key fst (json_sorted_members kvs))"
| "json_sorted JNull = JNull"
| "json_sorted (JBool b) = JBool b"
| "json_sorted (JInt i) = JInt i"
| "json_sorted (JFloat f) = JFloat f"
| "json_sorted (JStr s) = JStr s"
| "json_sorted_items [] = []"
| "json_sorted_items (x # xs) = json_sorted x # json_sorted_items xs"
| "json_sorted_members [] = []"
| "json_sorted_members (kv # kvs) = (fst kv, json_sorted (snd kv)) # json_sorted_members kvs"

definition json_bytes :: "json \<Rightarrow> string" where
  "json_bytes j = json_text (json_sorted j)"

text \<open>\<open>canonical_json_value_bytes\<close>: the screen, then the serialisation.\<close>

definition canonical_json_value_bytes :: "env \<Rightarrow> json \<Rightarrow> string result" where
  "canonical_json_value_bytes E v =
     (if validate_json E 0 v then Inr (json_bytes v)
      else Inl (ValueError ''JSON value is invalid''))"

text \<open>
  The digest of a contract: \<open>canonical_sha256\<close> of the model whose dump is the given value.
  The contract was validated when it was built, so the encoding cannot fail.
\<close>

definition canonical_sha256 :: "env \<Rightarrow> json \<Rightarrow> string" where
  "canonical_sha256 E j = env_sha256 E (json_bytes j)"

text \<open>\<open>hashlib.sha256(canonical_json_value_bytes(v)).hexdigest()\<close>.\<close>

definition value_sha256 :: "env \<Rightarrow> json \<Rightarrow> string result" where
  "value_sha256 E v = bind_result (canonical_json_value_bytes E v) (\<lambda>b. Inr (env_sha256 E b))"

section \<open>The encoding is injective\<close>

lemma of_char_neq: "c \<noteq> d \<longleftrightarrow> (of_char c :: nat) \<noteq> of_char d"
  by (simp add: of_char_eq_iff)

lemma of_char_less_256: "(of_char c :: nat) < 256"
  by (simp add: of_char_def)

fun hex_value :: "char \<Rightarrow> nat" where
  "hex_value c = (let n = of_char c in if n < 58 then n - 48 else n - 87)"

lemma hex_value_digit: "n < 16 \<Longrightarrow> hex_value (hex_digit n) = n"
  by (simp add: hex_digit_def Let_def)

lemma hex_digit_class: "n < 16 \<Longrightarrow> hex_digit n \<in> set ''0123456789abcdef''"
proof -
  assume "n < 16"
  then have "n \<in> set [0..<16]" by simp
  moreover have "char_of (48::nat) = CHR ''0''" "char_of (49::nat) = CHR ''1''"
    "char_of (50::nat) = CHR ''2''" "char_of (51::nat) = CHR ''3''" "char_of (52::nat) = CHR ''4''"
    "char_of (53::nat) = CHR ''5''" "char_of (54::nat) = CHR ''6''" "char_of (55::nat) = CHR ''7''"
    "char_of (56::nat) = CHR ''8''" "char_of (57::nat) = CHR ''9''" "char_of (97::nat) = CHR ''a''"
    "char_of (98::nat) = CHR ''b''" "char_of (99::nat) = CHR ''c''" "char_of (100::nat) = CHR ''d''"
    "char_of (101::nat) = CHR ''e''" "char_of (102::nat) = CHR ''f''"
    by (simp_all add: char_of_eq_iff)
  ultimately show ?thesis by (auto simp: upt_rec hex_digit_def)
qed

text \<open>Reading one escaped character back, with the rest of the input.\<close>

fun unescape_char :: "string \<Rightarrow> (char \<times> string) option" where
  "unescape_char [] = None"
| "unescape_char (c # cs) =
     (if c \<noteq> CHR 0x5C then Some (c, cs)
      else case cs of [] \<Rightarrow> None
        | d # ds \<Rightarrow>
          (if d = CHR 0x22 then Some (CHR 0x22, ds)
           else if d = CHR 0x5C then Some (CHR 0x5C, ds)
           else if d = CHR ''b'' then Some (CHR 0x08, ds)
           else if d = CHR ''f'' then Some (CHR 0x0C, ds)
           else if d = CHR ''n'' then Some (CHR 0x0A, ds)
           else if d = CHR ''r'' then Some (CHR 0x0D, ds)
           else if d = CHR ''t'' then Some (CHR 0x09, ds)
           else case ds of z1 # z2 # h # l # r \<Rightarrow> Some (char_of (16 * hex_value h + hex_value l), r)
             | _ \<Rightarrow> None))"

lemma char_code_cases: "(of_char c :: nat) = of_char d \<Longrightarrow> c = d"
  by (simp only: of_char_eq_iff)

lemma char_code_numeral: "(of_char c :: nat) = n \<Longrightarrow> c = char_of n"
  by (drule arg_cong [where f = "char_of :: nat \<Rightarrow> char"]) simp

lemma unescape_escape_char: "unescape_char (escape_char c @ r) = Some (c, r)"
proof -
  define n where "n = (of_char c :: nat)"
  have c: "c = char_of n" by (simp add: n_def)
  have e: "escape_char c =
     (let b = CHR 0x5C in
      if n = 34 then [b, CHR 0x22]
      else if n = 92 then [b, b]
      else if n = 8 then [b, CHR ''b'']
      else if n = 12 then [b, CHR ''f'']
      else if n = 10 then [b, CHR ''n'']
      else if n = 13 then [b, CHR ''r'']
      else if n = 9 then [b, CHR ''t'']
      else if n < 32 then [b, CHR ''u'', CHR ''0'', CHR ''0'', hex_digit (n div 16), hex_digit (n mod 16)]
      else [c])"
    by (simp add: escape_char_def n_def Let_def)
  consider (special) "n \<in> {34, 92, 8, 12, 10, 13, 9}"
    | (low) "n \<notin> {34, 92, 8, 12, 10, 13, 9}" "n < 32"
    | (plain) "n \<notin> {34, 92, 8, 12, 10, 13, 9}" "\<not> n < 32" by blast
  then show ?thesis
  proof cases
    case special
    then have "c \<in> {CHR 0x22, CHR 0x5C, CHR 0x08, CHR 0x0C, CHR 0x0A, CHR 0x0D, CHR 0x09}"
      using char_code_cases [of c "CHR 0x22"] char_code_cases [of c "CHR 0x5C"]
        char_code_cases [of c "CHR 0x08"] char_code_cases [of c "CHR 0x0C"]
        char_code_cases [of c "CHR 0x0A"] char_code_cases [of c "CHR 0x0D"]
        char_code_cases [of c "CHR 0x09"]
      unfolding n_def by (elim insertE emptyE) simp_all
    then show ?thesis by (elim insertE emptyE) (simp_all add: escape_char_def Let_def)
  next
    case low
    then have v: "16 * hex_value (hex_digit (n div 16)) + hex_value (hex_digit (n mod 16)) = n"
      by (simp add: hex_value_digit del: hex_value.simps)
    have "escape_char c =
      [CHR 0x5C, CHR ''u'', CHR ''0'', CHR ''0'', hex_digit (n div 16), hex_digit (n mod 16)]"
      using low by (simp add: e)
    then show ?thesis using v c by (simp del: hex_value.simps)
  next
    case plain
    then have "escape_char c = [c]" by (simp add: e)
    moreover have "c \<noteq> CHR 0x5C"
    proof
      assume "c = CHR 0x5C"
      then have "n = 92" by (simp add: n_def)
      with plain show False by simp
    qed
    ultimately show ?thesis by simp
  qed
qed

lemma escape_char_not_quote: "escape_char c = x # xs \<Longrightarrow> x \<noteq> CHR 0x22"
  by (auto simp: escape_char_def Let_def split: if_splits)

lemma escape_char_not_Nil: "escape_char c \<noteq> []"
  by (simp add: escape_char_def Let_def)

lemma escape_text_inj:
  "escape_text s @ CHR 0x22 # r = escape_text t @ CHR 0x22 # r' \<Longrightarrow> s = t \<and> r = r'"
proof (induction s arbitrary: t)
  case Nil
  show ?case
  proof (cases t)
    case (Cons d ds)
    obtain x xs where "escape_char d = x # xs" using escape_char_not_Nil by (cases "escape_char d") auto
    with escape_char_not_quote [OF this] Nil Cons show ?thesis by simp
  qed (use Nil in simp)
next
  case (Cons c cs)
  show ?case
  proof (cases t)
    case Nil
    obtain x xs where "escape_char c = x # xs" using escape_char_not_Nil by (cases "escape_char c") auto
    with escape_char_not_quote [OF this] Nil Cons.prems show ?thesis by simp
  next
    case (Cons d ds)
    have "escape_char c @ escape_text cs @ CHR 0x22 # r = escape_char d @ escape_text ds @ CHR 0x22 # r'"
      using Cons.prems Cons by simp
    then have "Some (c, escape_text cs @ CHR 0x22 # r) = Some (d, escape_text ds @ CHR 0x22 # r')"
      by (metis unescape_escape_char)
    then show ?thesis using Cons.IH [of ds] Cons by simp
  qed
qed

lemma json_string_inj: "json_string s @ r = json_string t @ r' \<Longrightarrow> s = t \<and> r = r'"
  by (rule escape_text_inj) (simp add: json_string_def)

text \<open>Numbers: a number is a token over a fixed alphabet, and the printed integer determines it.\<close>

definition number_char :: "char \<Rightarrow> bool" where
  "number_char c \<longleftrightarrow> c \<in> set ''0123456789.e+-''"

fun nat_value :: "nat \<Rightarrow> string \<Rightarrow> nat" where
  "nat_value a [] = a"
| "nat_value a (c # cs) = nat_value (10 * a + (of_char c - 48)) cs"

lemma nat_value_append: "nat_value a (xs @ ys) = nat_value (nat_value a xs) ys"
  by (induction xs arbitrary: a) auto

lemma nat_value_text: "nat_value 0 (nat_text n) = n"
proof (induction n rule: nat_text.induct)
  case (1 n)
  show ?case
  proof (cases "n < 10")
    case False
    with 1 show ?thesis by (subst nat_text.simps) (simp add: nat_value_append)
  qed (subst nat_text.simps, simp)
qed

lemma nat_text_inj: "nat_text m = nat_text n \<Longrightarrow> m = n"
  by (metis nat_value_text)

definition digit_char :: "char \<Rightarrow> bool" where
  "digit_char c \<longleftrightarrow> c \<in> set ''0123456789''"

lemma digit_char_of: "n < 10 \<Longrightarrow> digit_char (char_of (48 + n :: nat))"
proof -
  assume "n < 10"
  then have "n \<in> {0,1,2,3,4,5,6,7,8,9}" by auto
  moreover have "char_of (48::nat) = CHR ''0''" "char_of (49::nat) = CHR ''1''"
    "char_of (50::nat) = CHR ''2''" "char_of (51::nat) = CHR ''3''" "char_of (52::nat) = CHR ''4''"
    "char_of (53::nat) = CHR ''5''" "char_of (54::nat) = CHR ''6''" "char_of (55::nat) = CHR ''7''"
    "char_of (56::nat) = CHR ''8''" "char_of (57::nat) = CHR ''9''"
    by (simp_all add: char_of_eq_iff)
  ultimately show ?thesis by (elim insertE emptyE) (simp_all add: digit_char_def)
qed

lemma nat_text_digits: "list_all digit_char (nat_text n)"
proof (induction n rule: nat_text.induct)
  case (1 n)
  then show ?case by (subst nat_text.simps) (simp add: digit_char_of)
qed

lemma nat_text_not_Nil: "nat_text n \<noteq> []"
  by (subst nat_text.simps) simp

lemma digit_number_char: "digit_char c \<Longrightarrow> number_char c"
  by (auto simp: digit_char_def number_char_def)

lemma int_text_number: "list_all number_char (int_text i)"
proof -
  have "list_all number_char (nat_text n)" for n
    using nat_text_digits [of n] by (rule list.pred_mono_strong) (rule digit_number_char)
  moreover have "number_char CHR ''-''" by (simp add: number_char_def)
  ultimately show ?thesis by (simp add: int_text_def)
qed

lemma int_text_inj: "int_text i = int_text j \<Longrightarrow> i = j"
proof -
  assume eq: "int_text i = int_text j"
  have head: "nat_text n \<noteq> CHR ''-'' # xs" for n xs
    using nat_text_digits [of n] by (auto simp: digit_char_def)
  show ?thesis
    using eq head head [symmetric] by (auto simp: int_text_def split: if_splits dest: nat_text_inj)
qed


text \<open>
  The values that the encoder accepts: a finite float, printed as Python prints one, is a token of
  the number alphabet with a decimal point or an exponent.
\<close>

definition float_repr :: "string \<Rightarrow> bool" where
  "float_repr r \<longleftrightarrow> r \<noteq> [] \<and> list_all number_char r \<and> (CHR ''.'' \<in> set r \<or> CHR ''e'' \<in> set r)"

fun json_finite :: "json \<Rightarrow> bool"
  and json_finite_items :: "json list \<Rightarrow> bool"
  and json_finite_members :: "(string \<times> json) list \<Rightarrow> bool" where
  "json_finite (JFloat f) = (case f of FFinite r \<Rightarrow> float_repr r | FNonFinite \<Rightarrow> False)"
| "json_finite (JArr xs) = json_finite_items xs"
| "json_finite (JObj kvs) = json_finite_members kvs"
| "json_finite JNull = True"
| "json_finite (JBool b) = True"
| "json_finite (JInt i) = True"
| "json_finite (JStr s) = True"
| "json_finite_items [] = True"
| "json_finite_items (x # xs) = (json_finite x \<and> json_finite_items xs)"
| "json_finite_members [] = True"
| "json_finite_members (kv # kvs) = (json_finite (snd kv) \<and> json_finite_members kvs)"

text \<open>The first character tells the constructor.\<close>

definition token_class :: "char \<Rightarrow> nat" where
  "token_class c =
     (if c = CHR ''n'' then 0 else if c = CHR ''t'' then 1 else if c = CHR ''f'' then 2
      else if c = CHR 0x22 then 3 else if c = CHR ''['' then 4 else if c = CHR 0x7B then 5
      else if number_char c then 6 else 7)"

fun json_class :: "json \<Rightarrow> nat" where
  "json_class JNull = 0"
| "json_class (JBool b) = (if b then 1 else 2)"
| "json_class (JStr s) = 3"
| "json_class (JArr xs) = 4"
| "json_class (JObj kvs) = 5"
| "json_class (JInt i) = 6"
| "json_class (JFloat f) = 6"

lemma token_class_simps [simp]:
  "token_class CHR ''n'' = 0" "token_class CHR ''t'' = 1" "token_class CHR ''f'' = 2"
  "token_class CHR 0x22 = 3" "token_class CHR ''['' = 4" "token_class CHR 0x7B = 5"
  "token_class CHR '']'' = 7" "token_class CHR 0x7D = 7"
  by (simp_all add: token_class_def number_char_def)

lemma number_char_class: "number_char c \<Longrightarrow> token_class c = 6"
  by (auto simp: number_char_def token_class_def)

lemma number_token_class: "xs \<noteq> [] \<Longrightarrow> list_all number_char xs \<Longrightarrow> \<exists>c cs. xs = c # cs \<and> token_class c = 6"
  by (cases xs) (auto simp: number_char_class)

lemma int_text_not_Nil: "int_text i \<noteq> []"
  by (simp add: int_text_def nat_text_not_Nil)

lemma int_text_no_point: "CHR ''.'' \<notin> set (int_text i) \<and> CHR ''e'' \<notin> set (int_text i)"
proof -
  have "CHR ''.'' \<notin> set (nat_text n) \<and> CHR ''e'' \<notin> set (nat_text n)" for n
  proof -
    have "\<not> digit_char CHR ''.''" "\<not> digit_char CHR ''e''" by (simp_all add: digit_char_def)
    then show ?thesis using nat_text_digits [of n] by (metis list_all_iff)
  qed
  then show ?thesis by (simp add: int_text_def)
qed

lemma json_text_head:
  "json_finite j \<Longrightarrow> \<exists>c cs. json_text j = c # cs \<and> token_class c = json_class j"
proof (cases j)
  case (JInt i)
  then show ?thesis using number_token_class [OF int_text_not_Nil int_text_number] by simp
next
  case (JFloat f)
  assume "json_finite j"
  with JFloat obtain r where f: "f = FFinite r" "float_repr r" by (cases f) auto
  then show ?thesis using number_token_class [of r] JFloat by (simp add: float_repr_def float_text_def)
next
  case (JBool b)
  then show ?thesis by (cases b) simp_all
qed (simp_all add: json_string_def)

lemma json_class_le: "json_class j \<le> 6"
  by (cases j) auto

lemma json_text_not_closing:
  assumes "json_finite j"
  shows "json_text j @ u \<noteq> CHR '']'' # v" "json_text j @ u \<noteq> CHR 0x7D # v"
  using json_text_head [OF assms] json_class_le [of j] by auto

definition delimited :: "string \<Rightarrow> bool" where
  "delimited r \<longleftrightarrow> r = [] \<or> \<not> number_char (hd r)"

lemma delimited_simps [simp]:
  "delimited []" "delimited (CHR '','' # r)" "delimited (CHR '']'' # r)" "delimited (CHR 0x7D # r)"
  by (simp_all add: delimited_def number_char_def)

lemma json_text_class_eq:
  assumes "json_text j @ r = json_text j' @ r'" "json_finite j" "json_finite j'"
  shows "json_class j = json_class j'"
  using json_text_head [OF assms(2)] json_text_head [OF assms(3)] assms(1) by auto

text \<open>The text of a number is a token; two numbers with one token are one number.\<close>

fun number_json :: "json \<Rightarrow> bool" where
  "number_json (JInt _) = True"
| "number_json (JFloat _) = True"
| "number_json _ = False"

lemma number_json_text:
  assumes "number_json j" "json_finite j"
  shows "list_all number_char (json_text j)"
  using assms int_text_number
  by (cases j) (auto simp: float_text_def float_repr_def split: pyfloat.splits)

lemma number_json_inj:
  assumes "number_json j" "number_json j'" "json_finite j" "json_finite j'" "json_text j = json_text j'"
  shows "j = j'"
proof (cases j)
  case (JInt i)
  show ?thesis
  proof (cases j')
    case (JFloat f)
    with assms JInt int_text_no_point [of i] show ?thesis
      by (auto simp: float_text_def float_repr_def split: pyfloat.splits)
  qed (use assms JInt int_text_inj in auto)
next
  case (JFloat f)
  show ?thesis
  proof (cases j')
    case (JInt i)
    with assms JFloat int_text_no_point [of i] show ?thesis
      by (auto simp: float_text_def float_repr_def split: pyfloat.splits)
  qed (use assms JFloat in \<open>auto simp: float_text_def split: pyfloat.splits\<close>)
qed (use assms in auto)

lemma number_text_eq:
  assumes "number_json j" "number_json j'" "json_finite j" "json_finite j'"
    and "delimited r" "delimited r'" "json_text j @ r = json_text j' @ r'"
  shows "j = j' \<and> r = r'"
proof -
  have "json_text j = json_text j' \<and> r = r'"
    using append_token_eq [of number_char "json_text j" "json_text j'" r r'] assms number_json_text
    by (simp add: delimited_def)
  then show ?thesis using number_json_inj assms by blast
qed

lemma json_class_number: "json_class j = 6 \<Longrightarrow> number_json j"
  by (cases j) (auto split: if_splits)

lemma json_text_inj:
  "json_finite j \<Longrightarrow> json_finite j' \<Longrightarrow> delimited r \<Longrightarrow> delimited r' \<Longrightarrow>
     json_text j @ r = json_text j' @ r' \<Longrightarrow> j = j' \<and> r = r'"
  "json_finite_items xs \<Longrightarrow> json_finite_items ys \<Longrightarrow>
     json_items_text xs @ CHR '']'' # r = json_items_text ys @ CHR '']'' # r' \<Longrightarrow> xs = ys \<and> r = r'"
  "json_finite_members kvs \<Longrightarrow> json_finite_members kvs' \<Longrightarrow>
     json_members_text kvs @ CHR 0x7D # r = json_members_text kvs' @ CHR 0x7D # r' \<Longrightarrow>
     kvs = kvs' \<and> r = r'"
proof (induction j and xs and kvs arbitrary: j' r r' and ys r r' and kvs' r r'
    rule: json_text_json_items_text_json_members_text.induct)
  case 1
  note json_text_class_eq [OF 1(5,1,2)]
  with 1 show ?case by (cases j') (auto split: if_splits)
next
  case (2 b)
  note json_text_class_eq [OF 2(5,1,2)]
  with 2 show ?case by (cases j') (auto split: if_splits)
next
  case (3 i)
  note c = json_text_class_eq [OF 3(5,1,2)]
  show ?case by (rule number_text_eq) (use 3 c json_class_number [of j'] in simp_all)
next
  case (4 f)
  note c = json_text_class_eq [OF 4(5,1,2)]
  show ?case by (rule number_text_eq) (use 4 c json_class_number [of j'] in simp_all)
next
  case (5 s)
  note c = json_text_class_eq [OF 5(5,1,2)]
  then obtain t where "j' = JStr t" by (cases j') (auto split: if_splits)
  with 5 json_string_inj [of s r t r'] show ?case by simp
next
  case (6 xs)
  note c = json_text_class_eq [OF 6(6,2,3)]
  then obtain ys where j': "j' = JArr ys" by (cases j') (auto split: if_splits)
  have "json_items_text xs @ CHR '']'' # r = json_items_text ys @ CHR '']'' # r'" using 6(6) j' by simp
  with 6(1) [of ys r r'] 6(2,3) j' show ?case by simp
next
  case (7 kvs)
  note c = json_text_class_eq [OF 7(6,2,3)]
  then obtain ys where j': "j' = JObj ys" by (cases j') (auto split: if_splits)
  have "json_members_text kvs @ CHR 0x7D # r = json_members_text ys @ CHR 0x7D # r'" using 7(6) j' by simp
  with 7(1) [of ys r r'] 7(2,3) j' show ?case by simp
next
  case 8
  show ?case
  proof (cases ys)
    case (Cons y ys')
    with 8(2) have "json_finite y" by simp
    from json_text_not_closing(1) [OF this] have False
      using 8(3) [symmetric] Cons by simp
    then show ?thesis ..
  qed (use 8 in simp)
next
  case (9 x xs)
  show ?case
  proof (cases ys)
    case Nil
    from 9(3) have "json_finite x" by simp
    from json_text_not_closing(1) [OF this] have False using 9(5) Nil by simp
    then show ?thesis ..
  next
    case (Cons y ys')
    let ?t = "\<lambda>zs q. if zs = [] then CHR '']'' # q else CHR '','' # json_items_text zs @ CHR '']'' # q"
    have "json_text x @ ?t xs r = json_text y @ ?t ys' r'"
      using 9(5) Cons by (simp split: if_splits)
    moreover have "delimited (?t xs r)" "delimited (?t ys' r')" by simp_all
    ultimately have "x = y \<and> ?t xs r = ?t ys' r'" using 9(1) [of y] 9(3,4) Cons by simp
    then show ?thesis using 9(2) [of ys' r r'] 9(3,4) Cons by (simp split: if_splits)
  qed
next
  case 10
  show ?case
  proof (cases kvs')
    case (Cons kv kvs'')
    with 10 show ?thesis by (simp add: json_string_def)
  qed (use 10 in simp)
next
  case (11 kv kvs)
  show ?case
  proof (cases kvs')
    case Nil
    with 11(5) show ?thesis by (simp add: json_string_def)
  next
    case (Cons kv' kvs'')
    let ?t = "\<lambda>zs q. if zs = [] then CHR 0x7D # q else CHR '','' # json_members_text zs @ CHR 0x7D # q"
    have "json_string (fst kv) @ CHR '':'' # json_text (snd kv) @ ?t kvs r =
      json_string (fst kv') @ CHR '':'' # json_text (snd kv') @ ?t kvs'' r'"
      using 11(5) Cons by (simp split: if_splits)
    from json_string_inj [OF this] have "fst kv = fst kv'"
      "json_text (snd kv) @ ?t kvs r = json_text (snd kv') @ ?t kvs'' r'" by simp_all
    moreover have "delimited (?t kvs r)" "delimited (?t kvs'' r')" by simp_all
    ultimately have "kv = kv' \<and> ?t kvs r = ?t kvs'' r'"
      using 11(1) [of "snd kv'"] 11(3,4) Cons by (simp add: prod_eq_iff)
    then show ?thesis using 11(2) [of kvs'' r r'] 11(3,4) Cons by (simp split: if_splits)
  qed
qed


lemma set_json_sorted_members:
  "json_finite_members kvs \<longleftrightarrow> (\<forall>kv \<in> set kvs. json_finite (snd kv))"
  by (induction kvs) auto

lemma json_finite_sorted:
  "json_finite (json_sorted j) = json_finite j"
  "json_finite_items (json_sorted_items xs) = json_finite_items xs"
  "json_finite_members (json_sorted_members kvs) = json_finite_members kvs"
  by (induction j and xs and kvs rule: json_sorted_json_sorted_items_json_sorted_members.induct)
    (simp_all add: set_json_sorted_members)

lemma json_bytes_inj:
  assumes "json_finite a" "json_finite b" "json_bytes a = json_bytes b"
  shows "json_sorted a = json_sorted b"
  using json_text_inj(1) [of "json_sorted a" "json_sorted b" "[]" "[]"] assms
  by (simp add: json_bytes_def json_finite_sorted)


lemma canonical_sha256_eqD:
  assumes "json_finite a" "json_finite b" "canonical_sha256 E a = canonical_sha256 E b"
  shows "json_sorted a = json_sorted b \<or> digests_collide E (json_bytes a) (json_bytes b)"
proof (cases "json_bytes a = json_bytes b")
  case True
  then show ?thesis using json_bytes_inj [OF assms(1,2)] by simp
next
  case False
  then show ?thesis using assms(3) by (simp add: canonical_sha256_def digests_collide_def)
qed

text \<open>Two objects with one list of distinct keys and one sorted form agree value by value.\<close>

lemma json_sorted_members_map: "json_sorted_members kvs = map (\<lambda>(k, v). (k, json_sorted v)) kvs"
  by (induction kvs) auto

lemma json_sorted_items_map: "json_sorted_items xs = map json_sorted xs"
  by (induction xs) simp_all

lemma assoc_set_eq:
  assumes "map fst xs = map fst ys" "distinct (map fst xs)" "set xs = set ys"
  shows "xs = ys"
proof -
  have rebuild: "zs = map (\<lambda>k. (k, the (map_of zs k))) (map fst zs)" if "distinct (map fst zs)" for zs :: "('a \<times> 'b) list"
  proof -
    have "map (\<lambda>z. (fst z, the (map_of zs (fst z)))) zs = zs"
      by (rule map_idI) (use that in \<open>auto simp: map_of_is_SomeI\<close>)
    then show ?thesis by (simp add: comp_def)
  qed
  have "map_of xs = map_of ys"
    using assms by (subst map_of_inject_set) simp_all
  then show ?thesis using rebuild [of xs] rebuild [of ys] assms(1,2) by metis
qed

lemma json_sorted_members_eqD:
  assumes "json_sorted (JObj a) = json_sorted (JObj b)" "map fst a = map fst b" "distinct (map fst a)"
  shows "json_sorted_members a = json_sorted_members b"
proof (rule assoc_set_eq)
  have keys: "map fst (json_sorted_members c) = map fst c" for c :: "(string \<times> json) list"
    by (induction c) simp_all
  then show "map fst (json_sorted_members a) = map fst (json_sorted_members b)"
    "distinct (map fst (json_sorted_members a))" using assms(2,3) by simp_all
  show "set (json_sorted_members a) = set (json_sorted_members b)"
    using arg_cong [OF assms(1), of "\<lambda>j. case j of JObj kvs \<Rightarrow> set kvs | _ \<Rightarrow> {}"] by simp
qed

end
