(* ===== verification/Timestamps.thy ===== *)
theory Timestamps
  imports Canonical_Json
begin

text \<open>
  The wire text of a timestamp: \<open>datetime.isoformat\<close> in UTC with seconds or microseconds, the
  offset written as \<open>Z\<close> (\<open>_canonical_value\<close> of \<open>contracts/codec.py\<close>). A \<open>time\<close> is a number of
  microseconds since the first representable instant; the calendar is the proleptic Gregorian
  calendar of the standard library. Two instants have one text only when they are equal.
\<close>

section \<open>The calendar\<close>

definition leap_year :: "int \<Rightarrow> bool" where
  "leap_year y \<longleftrightarrow> y mod 4 = 0 \<and> (y mod 100 \<noteq> 0 \<or> y mod 400 = 0)"

definition days_before_year :: "int \<Rightarrow> int" where
  "days_before_year y = (y - 1) * 365 + (y - 1) div 4 - (y - 1) div 100 + (y - 1) div 400"

text \<open>The year of the day \<open>n\<close>, counted from 0 at 1 January of year 1.\<close>

definition year_of_day :: "int \<Rightarrow> int" where
  "year_of_day n =
     (let n400 = n div 146097; r400 = n mod 146097;
          n100 = r400 div 36524; r100 = r400 mod 36524;
          n4 = r100 div 1461; r4 = r100 mod 1461;
          n1 = r4 div 365;
          y = n400 * 400 + n100 * 100 + n4 * 4 + n1 + 1
      in if n1 = 4 \<or> n100 = 4 then y - 1 else y)"

definition month_lengths :: "bool \<Rightarrow> int list" where
  "month_lengths leap = [31, if leap then 29 else 28, 31, 30, 31, 30, 31, 31, 30, 31, 30, 31]"

fun month_day :: "int list \<Rightarrow> int \<Rightarrow> int \<Rightarrow> int \<times> int" where
  "month_day [] m n = (m, n + 1)"
| "month_day (l # ls) m n = (if n < l then (m, n + 1) else month_day ls (m + 1) (n - l))"

definition date_of_day :: "int \<Rightarrow> int \<times> int \<times> int" where
  "date_of_day n =
     (let y = year_of_day n in (y, month_day (month_lengths (leap_year y)) 1 (n - days_before_year y)))"

section \<open>The text\<close>

definition pad_text :: "nat \<Rightarrow> int \<Rightarrow> string" where
  "pad_text w n = replicate (w - length (nat_text (nat n))) CHR ''0'' @ nat_text (nat n)"

text \<open>Fields of a width, each followed by its separator.\<close>

fun fields_text :: "(nat \<times> int \<times> char) list \<Rightarrow> string" where
  "fields_text [] = []"
| "fields_text ((w, n, c) # fs) = pad_text w n @ c # fields_text fs"

definition stamp_fields ::
  "int \<times> int \<times> int \<Rightarrow> int \<Rightarrow> int \<Rightarrow> int \<Rightarrow> int \<Rightarrow> (nat \<times> int \<times> char) list" where
  "stamp_fields date h mi s us =
     (case date of (y, m, d) \<Rightarrow>
        [(4, y, CHR ''-''), (2, m, CHR ''-''), (2, d, CHR ''T''), (2, h, CHR '':''), (2, mi, CHR '':'')] @
        (if us = 0 then [(2, s, CHR ''Z'')] else [(2, s, CHR ''.''), (6, us, CHR ''Z'')]))"

definition iso_fields :: "time \<Rightarrow> (nat \<times> int \<times> char) list" where
  "iso_fields t =
     (let s = t div 1000000; sod = s mod 86400
      in stamp_fields (date_of_day (s div 86400)) (sod div 3600) (sod div 60 mod 60) (sod mod 60) (t mod 1000000))"

definition iso_text :: "time \<Rightarrow> string" where
  "iso_text t = fields_text (iso_fields t)"

definition time_json :: "time \<Rightarrow> json" where
  "time_json t = JStr (iso_text t)"

section \<open>The text determines the instant\<close>

lemma year_parts:
  fixes n :: int
  assumes "0 \<le> n"
  obtains a b c d e where
    "n = 146097 * a + 36524 * b + 1461 * c + 365 * d + e" "0 \<le> a"
    "year_of_day n = (if d = 4 \<or> b = 4 then 400 * a + 100 * b + 4 * c + d
       else 400 * a + 100 * b + 4 * c + d + 1)"
    "0 \<le> b" "0 \<le> c" "c \<le> 24" "0 \<le> d" "0 \<le> e" "e < 365"
    "b < 4 \<and> d < 4 \<or> b = 4 \<and> c = 0 \<and> d = 0 \<and> e = 0 \<or> b < 4 \<and> d = 4 \<and> e = 0 \<and> c \<le> 23"
proof -
  define a r where "a = n div 146097" and "r = n mod 146097"
  define b r' where "b = r div 36524" and "r' = r mod 36524"
  define c r'' where "c = r' div 1461" and "r'' = r' mod 1461"
  define d e where "d = r'' div 365" and "e = r'' mod 365"
  note defs = a_def r_def b_def r'_def c_def r''_def d_def e_def
  have r: "n = 146097 * a + r" "0 \<le> r" "r < 146097" by (simp_all add: a_def r_def)
  have r': "r = 36524 * b + r'" "0 \<le> r'" "r' < 36524" by (simp_all add: b_def r'_def)
  have r'': "r' = 1461 * c + r''" "0 \<le> r''" "r'' < 1461" by (simp_all add: c_def r''_def)
  have e: "r'' = 365 * d + e" "0 \<le> e" "e < 365" by (simp_all add: d_def e_def)
  have a0: "0 \<le> a" using assms by (simp add: a_def pos_imp_zdiv_nonneg_iff)
  have b0: "0 \<le> b" "b \<le> 4" using r r' by linarith+
  have c0: "0 \<le> c" "c \<le> 24" using r' r'' by linarith+
  have d0: "0 \<le> d" "d \<le> 4" using r'' e by linarith+
  have y: "year_of_day n = (if d = 4 \<or> b = 4 then 400 * a + 100 * b + 4 * c + d
       else 400 * a + 100 * b + 4 * c + d + 1)"
    by (simp add: year_of_day_def Let_def flip: defs)
  have "b < 4 \<and> d < 4 \<or> b = 4 \<and> c = 0 \<and> d = 0 \<and> e = 0 \<or> b < 4 \<and> d = 4 \<and> e = 0 \<and> c \<le> 23"
    using r r' r'' e b0 c0 d0 by (cases "b = 4"; cases "d = 4") linarith+
  with that [of a b c d e] r r' r'' e a0 b0 c0 d0 y show ?thesis by auto
qed


lemma div_quotient: "x = m * q + k \<Longrightarrow> 0 \<le> k \<Longrightarrow> k < m \<Longrightarrow> x div m = (q :: int)"
  by (simp add: div_pos_pos_trivial)

lemma mod_remainder: "x = m * q + k \<Longrightarrow> 0 \<le> k \<Longrightarrow> k < m \<Longrightarrow> x mod m = (k :: int)"
  by simp

lemma year_of_day_bounds:
  assumes "0 \<le> n"
  defines "y \<equiv> year_of_day n"
  shows "1 \<le> y" "0 \<le> n - days_before_year y"
    "n - days_before_year y < (if leap_year y then 366 else 365)"
proof -
  obtain a b c d e where p: "n = 146097 * a + 36524 * b + 1461 * c + 365 * d + e" "0 \<le> a"
      "year_of_day n = (if d = 4 \<or> b = 4 then 400 * a + 100 * b + 4 * c + d
         else 400 * a + 100 * b + 4 * c + d + 1)"
      "0 \<le> b" "0 \<le> c" "c \<le> 24" "0 \<le> d" "0 \<le> e" "e < 365"
      "b < 4 \<and> d < 4 \<or> b = 4 \<and> c = 0 \<and> d = 0 \<and> e = 0 \<or> b < 4 \<and> d = 4 \<and> e = 0 \<and> c \<le> 23"
    using year_parts [OF assms(1)] .
  consider (plain) "b < 4" "d < 4" | (cent) "b = 4" "c = 0" "d = 0" "e = 0" | (last) "b < 4" "d = 4" "e = 0" "c \<le> 23"
    using p(10) by blast
  then have "1 \<le> y \<and> 0 \<le> n - days_before_year y \<and>
      n - days_before_year y < (if leap_year y then 366 else 365)"
  proof cases
    case plain
    then have y: "y - 1 = 400 * a + 100 * b + 4 * c + d" by (simp add: y_def p(3))
    have "(y - 1) div 400 = a" "(y - 1) div 100 = 4 * a + b" "(y - 1) div 4 = 100 * a + 25 * b + c"
      subgoal by (rule div_quotient [where k = "100 * b + 4 * c + d"]) (use y plain p(4-7) in simp_all)
      subgoal by (rule div_quotient [where k = "4 * c + d"]) (use y plain p(4-7) in simp_all)
      subgoal by (rule div_quotient [where k = "d"]) (use y plain p(4-7) in simp_all)
      done
    then have "days_before_year y = 146097 * a + 36524 * b + 1461 * c + 365 * d"
      unfolding days_before_year_def y by simp
    then show ?thesis using p y by simp
  next
    case cent
    then have y: "y - 1 = 400 * a + 399" by (simp add: y_def p(3))
    have "(y - 1) div 400 = a" "(y - 1) div 100 = 4 * a + 3" "(y - 1) div 4 = 100 * a + 99"
      unfolding y by simp_all
    then have "days_before_year y = 146097 * a + 145731" unfolding days_before_year_def y by simp
    moreover have "leap_year y" using y by (simp add: leap_year_def)
    ultimately show ?thesis using p y cent by simp
  next
    case last
    then have y: "y - 1 = 400 * a + 100 * b + 4 * c + 3" by (simp add: y_def p(3))
    have d: "(y - 1) div 400 = a" "(y - 1) div 100 = 4 * a + b" "(y - 1) div 4 = 100 * a + 25 * b + c"
      subgoal by (rule div_quotient [where k = "100 * b + 4 * c + 3"]) (use y last p(4-7) in simp_all)
      subgoal by (rule div_quotient [where k = "4 * c + 3"]) (use y last p(4-7) in simp_all)
      subgoal by (rule div_quotient [where k = "3"]) (use y last p(4-7) in simp_all)
      done
    then have "days_before_year y = 146097 * a + 36524 * b + 1461 * c + 365 * 3"
      unfolding days_before_year_def y by simp
    moreover have "leap_year y"
    proof -
      have "y = 4 * (100 * a + 25 * b + c + 1)" using y by simp
      moreover have "y mod 100 = 4 * c + 4"
        by (rule mod_remainder [where q = "4 * a + b"]) (use y last p(5) in simp_all)
      ultimately show ?thesis using p(5) by (simp add: leap_year_def)
    qed
    ultimately show ?thesis using p y last by simp
  qed
  then show "1 \<le> y" "0 \<le> n - days_before_year y"
    "n - days_before_year y < (if leap_year y then 366 else 365)" by simp_all
qed


lemma month_day_bounds:
  "0 \<le> n \<Longrightarrow> n < sum_list ls \<Longrightarrow> month_day ls m n = (m', d) \<Longrightarrow> m \<le> m' \<and> 1 \<le> d"
  by (induction ls m n rule: month_day.induct) (auto split: if_splits)

lemma month_day_inj:
  "0 \<le> n \<Longrightarrow> 0 \<le> n' \<Longrightarrow> n < sum_list ls \<Longrightarrow> n' < sum_list ls \<Longrightarrow>
     month_day ls m n = month_day ls m n' \<Longrightarrow> n = n'"
proof (induction ls m n arbitrary: n' rule: month_day.induct)
  case (2 l ls m n)
  have step: "m + 1 \<le> fst (month_day ls (m + 1) (k - l))" if "l \<le> k" "k < sum_list (l # ls)" for k
    using month_day_bounds [of "k - l" ls "m + 1"] that by (cases "month_day ls (m + 1) (k - l)") auto
  show ?case
  proof (cases "n < l"; cases "n' < l")
    assume "n < l" "\<not> n' < l"
    with 2(6) step [of n'] 2(5) show ?thesis by (auto simp: prod_eq_iff)
  next
    assume "\<not> n < l" "n' < l"
    with 2(6) step [of n] 2(4) show ?thesis by (auto simp: prod_eq_iff)
  next
    assume c: "\<not> n < l" "\<not> n' < l"
    then have "n - l = n' - l" using 2(1) [of "n' - l"] 2(2-6) by simp
    then show ?thesis by simp
  qed (use 2(6) in simp)
qed simp

lemma sum_month_lengths: "sum_list (month_lengths leap) = (if leap then 366 else 365)"
  by (simp add: month_lengths_def)

lemma date_of_day_bounds:
  assumes "0 \<le> n" "date_of_day n = (y, m, d)"
  shows "1 \<le> y \<and> 1 \<le> m \<and> 1 \<le> d"
  using year_of_day_bounds [OF assms(1)] assms(2)
    month_day_bounds [of "n - days_before_year (year_of_day n)" "month_lengths (leap_year (year_of_day n))" 1 m d]
  by (auto simp: date_of_day_def Let_def sum_month_lengths)

lemma date_of_day_inj:
  assumes "0 \<le> n" "0 \<le> n'" "date_of_day n = date_of_day n'"
  shows "n = n'"
proof -
  have y: "year_of_day n = year_of_day n'" using assms(3) by (auto simp: date_of_day_def Let_def)
  then have "n - days_before_year (year_of_day n') = n' - days_before_year (year_of_day n')"
    using assms year_of_day_bounds [OF assms(1)] year_of_day_bounds [OF assms(2)]
    by (intro month_day_inj [where ls = "month_lengths (leap_year (year_of_day n'))" and m = 1])
      (auto simp: date_of_day_def Let_def sum_month_lengths)
  then show ?thesis by simp
qed

lemma nat_value_zeros: "nat_value 0 (replicate k CHR ''0'' @ xs) = nat_value 0 xs"
  by (induction k) simp_all

lemma pad_text_digits: "list_all digit_char (pad_text w n)"
proof -
  have "digit_char CHR ''0''" by (simp add: digit_char_def)
  then show ?thesis using nat_text_digits [of "nat n"] by (auto simp: pad_text_def list_all_iff)
qed

lemma pad_text_inj: "0 \<le> m \<Longrightarrow> 0 \<le> n \<Longrightarrow> pad_text w m = pad_text w n \<Longrightarrow> m = n"
  by (drule arg_cong [where f = "nat_value 0"]) (simp add: pad_text_def nat_value_zeros nat_value_text)

lemma iso_separators [simp]:
  "\<not> digit_char CHR ''-''" "\<not> digit_char CHR ''T''" "\<not> digit_char CHR '':''"
  "\<not> digit_char CHR ''.''" "\<not> digit_char CHR ''Z''"
  by (simp_all add: digit_char_def)

text \<open>The fields can be read back, because a field ends at the first character that is no digit.\<close>

lemma fields_text_inj:
  "\<forall>(w, n, c) \<in> set fs. \<not> digit_char c \<Longrightarrow> \<forall>(w, n, c) \<in> set gs. \<not> digit_char c \<Longrightarrow>
     fields_text fs = fields_text gs \<Longrightarrow>
     map (\<lambda>(w, n, c). (pad_text w n, c)) fs = map (\<lambda>(w, n, c). (pad_text w n, c)) gs"
proof (induction fs arbitrary: gs rule: fields_text.induct)
  case 1
  then show ?case by (cases gs rule: fields_text.cases) simp_all
next
  case (2 w n c fs)
  show ?case
  proof (cases gs rule: fields_text.cases)
    case (2 w' n' c' gs')
    have "pad_text w n = pad_text w' n' \<and> c # fields_text fs = c' # fields_text gs'"
      by (rule append_token_eq [of digit_char]) (use "2.prems" 2 pad_text_digits in simp_all)
    with "2.IH" [of gs'] "2.prems" 2 show ?thesis by simp
  qed (use "2.prems" in simp)
qed

lemma stamp_fields_separators: "\<forall>(w, n, c) \<in> set (stamp_fields date h mi s us). \<not> digit_char c"
  by (cases date) (simp add: stamp_fields_def)

lemma stamp_fields_inj:
  assumes "fields_text (stamp_fields (y, m, d) h mi s us) = fields_text (stamp_fields (y', m', d') h' mi' s' us')"
    and "0 \<le> y" "0 \<le> m" "0 \<le> d" "0 \<le> h" "0 \<le> mi" "0 \<le> s" "0 \<le> us"
    and "0 \<le> y'" "0 \<le> m'" "0 \<le> d'" "0 \<le> h'" "0 \<le> mi'" "0 \<le> s'" "0 \<le> us'"
  shows "(y, m, d) = (y', m', d') \<and> h = h' \<and> mi = mi' \<and> s = s' \<and> us = us'"
proof -
  have e: "map (\<lambda>(w, n, c). (pad_text w n, c)) (stamp_fields (y, m, d) h mi s us) =
      map (\<lambda>(w, n, c). (pad_text w n, c)) (stamp_fields (y', m', d') h' mi' s' us')"
    by (intro fields_text_inj stamp_fields_separators assms(1))
  show ?thesis
    using e pad_text_inj [of y y' 4] pad_text_inj [of m m' 2] pad_text_inj [of d d' 2] pad_text_inj [of h h' 2]
      pad_text_inj [of mi mi' 2] pad_text_inj [of s s' 2] pad_text_inj [of us us' 6] assms(2-)
    by (cases "us = 0"; cases "us' = 0") (simp_all add: stamp_fields_def)
qed

lemma clock_parts: "0 \<le> (s::int) \<Longrightarrow> s = s div 3600 * 3600 + s div 60 mod 60 * 60 + s mod 60"
proof -
  have "s div 3600 = s div 60 div 60" using zdiv_zmult2_eq [of 60 s 60] by simp
  moreover have "s = 60 * (s div 60) + s mod 60" by simp
  moreover have "s div 60 = 60 * (s div 60 div 60) + s div 60 mod 60" by simp
  ultimately show ?thesis by linarith
qed

lemma instant_parts: "t = (t div 1000000 div 86400 * 86400 + t div 1000000 mod 86400) * 1000000 + (t mod 1000000 :: int)"
  by simp

lemma iso_text_inj:
  assumes "0 \<le> t" "0 \<le> u" "iso_text t = iso_text u"
  shows "t = u"
proof -
  define day sod where "day t = t div 1000000 div 86400" and "sod t = t div 1000000 mod 86400" for t :: int
  have nonneg: "0 \<le> day x" "0 \<le> sod x" "0 \<le> sod x div 3600" if "0 \<le> x" for x
    using that by (simp_all add: day_def sod_def pos_imp_zdiv_nonneg_iff)
  obtain y m d where t: "date_of_day (day t) = (y, m, d)" by (cases "date_of_day (day t)")
  obtain y' m' d' where u: "date_of_day (day u) = (y', m', d')" by (cases "date_of_day (day u)")
  have "fields_text (stamp_fields (y, m, d) (sod t div 3600) (sod t div 60 mod 60) (sod t mod 60) (t mod 1000000)) =
      fields_text (stamp_fields (y', m', d') (sod u div 3600) (sod u div 60 mod 60) (sod u mod 60) (u mod 1000000))"
    using assms(3) by (simp only: iso_text_def iso_fields_def Let_def t u flip: day_def sod_def)
  then have e: "(y, m, d) = (y', m', d') \<and> sod t div 3600 = sod u div 3600 \<and>
      sod t div 60 mod 60 = sod u div 60 mod 60 \<and> sod t mod 60 = sod u mod 60 \<and> t mod 1000000 = u mod 1000000"
    using date_of_day_bounds [OF nonneg(1) [OF assms(1)] t] date_of_day_bounds [OF nonneg(1) [OF assms(2)] u]
      nonneg(3) [OF assms(1)] nonneg(3) [OF assms(2)]
    by (intro stamp_fields_inj) simp_all
  have "day t = day u"
    using date_of_day_inj [OF nonneg(1) [OF assms(1)] nonneg(1) [OF assms(2)]] e t u by simp
  moreover have "sod t = sod u"
  proof -
    have "sod t = sod t div 3600 * 3600 + sod t div 60 mod 60 * 60 + sod t mod 60"
      by (rule clock_parts [OF nonneg(2) [OF assms(1)]])
    also have "\<dots> = sod u div 3600 * 3600 + sod u div 60 mod 60 * 60 + sod u mod 60"
      by (simp only: e)
    also have "\<dots> = sod u" by (rule clock_parts [OF nonneg(2) [OF assms(2)], symmetric])
    finally show ?thesis .
  qed
  ultimately have "(day t * 86400 + sod t) * 1000000 + t mod 1000000 = (day u * 86400 + sod u) * 1000000 + u mod 1000000"
    by (simp only: e)
  then show ?thesis
    unfolding day_def sod_def by (simp only: instant_parts [symmetric])
qed

end
