(* ===== verification/Security.thy ===== *)
theory Security
  imports Canonical_Json
begin

text \<open>
  The screens of \<open>security.py\<close>: credential-shaped field names, credential signatures in text and
  their redaction. The patterns of the module are terms of a small regular expression language
  with the backtracking semantics of \<open>re\<close>: a match is a list of the ways to match, best first.
  On ASCII text the classes \<open>\b\<close>, \<open>\s\<close> and the case folding are written out; for other text they
  follow the Unicode tables and the environment answers.
\<close>

section \<open>Character classes\<close>

definition lower_letter :: "char \<Rightarrow> bool" where
  "lower_letter c \<longleftrightarrow> c \<in> set ''abcdefghijklmnopqrstuvwxyz''"

definition upper_letter :: "char \<Rightarrow> bool" where
  "upper_letter c \<longleftrightarrow> c \<in> set ''ABCDEFGHIJKLMNOPQRSTUVWXYZ''"

definition letter_or_digit :: "char \<Rightarrow> bool" where
  "letter_or_digit c \<longleftrightarrow> upper_letter c \<or> lower_letter c \<or> digit_char c"

definition regex_word :: "char \<Rightarrow> bool" where
  "regex_word c \<longleftrightarrow> letter_or_digit c \<or> c = CHR ''_''"

definition regex_space :: "char \<Rightarrow> bool" where
  "regex_space c \<longleftrightarrow> (let n = (of_char c :: nat) in n = 32 \<or> 9 \<le> n \<and> n \<le> 13 \<or> 28 \<le> n \<and> n \<le> 31)"

definition lower_char :: "char \<Rightarrow> char" where
  "lower_char c = (if upper_letter c then char_of (of_char c + (32::nat)) else c)"

definition text_lower :: "env \<Rightarrow> string \<Rightarrow> string" where
  "text_lower E s = (if is_ascii s then map lower_char s else env_lower E s)"

section \<open>Field names: \<open>is_sensitive_key\<close>\<close>

definition word_char :: "char \<Rightarrow> bool" where
  "word_char c \<longleftrightarrow> lower_letter c \<or> digit_char c"

text \<open>
  The substitution of \<open>([a-z0-9])([A-Z])\<close> by the two characters with an underscore between them:
  the second character of a match is a capital, so no match starts there.
\<close>

fun split_camel :: "string \<Rightarrow> string" where
  "split_camel (c # d # r) =
     (if word_char c \<and> upper_letter d then c # CHR ''_'' # split_camel (d # r) else c # split_camel (d # r))"
| "split_camel s = s"

text \<open>The nonempty parts between the runs of characters outside \<open>[a-z0-9]\<close>.\<close>

fun word_parts :: "string \<Rightarrow> string \<Rightarrow> string list" where
  "word_parts w [] = (if w = [] then [] else [w])"
| "word_parts w (c # cs) =
     (if word_char c then word_parts (w @ [c]) cs
      else (if w = [] then [] else [w]) @ word_parts [] cs)"

definition key_words :: "env \<Rightarrow> string \<Rightarrow> string list" where
  "key_words E key = word_parts [] (text_lower E (split_camel key))"

fun join_text :: "string \<Rightarrow> string list \<Rightarrow> string" where
  "join_text separator [] = []"
| "join_text separator [x] = x"
| "join_text separator (x # y # xs) = x @ separator @ join_text separator (y # xs)"

fun starts_with :: "string \<Rightarrow> string \<Rightarrow> bool" where
  "starts_with [] s = True"
| "starts_with (p # ps) [] = False"
| "starts_with (p # ps) (c # cs) = (p = c \<and> starts_with ps cs)"

fun occurs_in :: "string \<Rightarrow> string \<Rightarrow> bool" where
  "occurs_in p [] = starts_with p []"
| "occurs_in p (c # cs) = (starts_with p (c # cs) \<or> occurs_in p cs)"

definition sensitive_key_tokens :: "string list" where
  "sensitive_key_tokens =
     [''authorization'', ''cookie'', ''credential'', ''credentials'', ''header'', ''headers'', ''password'',
      ''secret'', ''token'']"

text \<open>\<open>_SENSITIVE_KEY_NAMES\<close>, each as its words.\<close>

definition sensitive_key_names :: "string list list" where
  "sensitive_key_names =
     [[''access'', ''key''], [''api'', ''key''], [''private'', ''key''], [''refresh'', ''key''],
      [''session'', ''key''], [''signing'', ''key'']]"

definition normalized_key :: "env \<Rightarrow> string \<Rightarrow> string" where
  "normalized_key E key = join_text ''_'' (key_words E key)"

definition is_sensitive_key :: "env \<Rightarrow> string \<Rightarrow> bool" where
  "is_sensitive_key E key \<longleftrightarrow> key \<noteq> [] \<and>
     (list_ex (\<lambda>w. w \<in> set sensitive_key_tokens) (key_words E key) \<or>
      list_ex (\<lambda>name. occurs_in (''_'' @ join_text ''_'' name @ ''_'') (''_'' @ normalized_key E key @ ''_''))
        sensitive_key_names \<or>
      list_ex (\<lambda>name. occurs_in (concat name) (concat (key_words E key))) sensitive_key_names)"

section \<open>Regular expressions\<close>

text \<open>
  \<open>Many n P\<close> is a greedy run of at least \<open>n\<close> characters of a class and \<open>Lazy P\<close> a lazy run;
  every repetition of the module repeats a class.
\<close>

datatype regex =
    Chars "char \<Rightarrow> bool"
  | Many nat "char \<Rightarrow> bool"
  | Lazy "char \<Rightarrow> bool"
  | Boundary
  | Not_Ahead regex
  | Empty
  | Seq regex regex
  | Alt regex regex

text \<open>A position in a text: the character before it and what follows.\<close>

type_synonym position = "char option \<times> string"

fun runs :: "(char \<Rightarrow> bool) \<Rightarrow> char option \<Rightarrow> string \<Rightarrow> position list" where
  "runs P p [] = [(p, [])]"
| "runs P p (c # cs) = (p, c # cs) # (if P c then runs P (Some c) cs else [])"

definition at_boundary :: "char option \<Rightarrow> string \<Rightarrow> bool" where
  "at_boundary p s \<longleftrightarrow>
     (case p of None \<Rightarrow> False | Some c \<Rightarrow> regex_word c) \<noteq> (case s of [] \<Rightarrow> False | c # _ \<Rightarrow> regex_word c)"

fun regex_match :: "regex \<Rightarrow> char option \<Rightarrow> string \<Rightarrow> position list" where
  "regex_match (Chars P) p s = (case s of [] \<Rightarrow> [] | c # cs \<Rightarrow> if P c then [(Some c, cs)] else [])"
| "regex_match (Many n P) p s = rev (drop n (runs P p s))"
| "regex_match (Lazy P) p s = runs P p s"
| "regex_match Boundary p s = (if at_boundary p s then [(p, s)] else [])"
| "regex_match (Not_Ahead r) p s = (if regex_match r p s = [] then [(p, s)] else [])"
| "regex_match Empty p s = [(p, s)]"
| "regex_match (Seq a b) p s = concat (map (\<lambda>(q, t). regex_match b q t) (regex_match a p s))"
| "regex_match (Alt a b) p s = regex_match a p s @ regex_match b p s"

text \<open>\<open>pattern.search(value) is not None\<close>.\<close>

fun regex_occurs :: "regex \<Rightarrow> char option \<Rightarrow> string \<Rightarrow> bool" where
  "regex_occurs r p [] = (regex_match r p [] \<noteq> [])"
| "regex_occurs r p (c # cs) = (regex_match r p (c # cs) \<noteq> [] \<or> regex_occurs r (Some c) cs)"

definition literal :: "string \<Rightarrow> regex" where
  "literal s = foldr (\<lambda>c r. Seq (Chars (\<lambda>d. d = c)) r) s Empty"

definition literal_ci :: "string \<Rightarrow> regex" where
  "literal_ci s = foldr (\<lambda>c r. Seq (Chars (\<lambda>d. lower_char d = c)) r) s Empty"

definition optional_gap :: regex where
  "optional_gap = Alt (Chars (\<lambda>c. c \<in> set '' _-'')) Empty"

definition regex_sequence :: "regex list \<Rightarrow> regex" where
  "regex_sequence rs = foldr Seq rs Empty"

fun alternatives :: "regex list \<Rightarrow> regex" where
  "alternatives [r] = r"
| "alternatives (r # rs) = Alt r (alternatives rs)"
| "alternatives [] = Not_Ahead Empty"

definition redacted :: string where
  "redacted = ''[REDACTED]''"

definition credential_char :: "char \<Rightarrow> bool" where
  "credential_char c \<longleftrightarrow> letter_or_digit c \<or> c \<in> set ''_-''"

text \<open>
  A pattern is a pair: what a substitution keeps and what it replaces. Only the pattern of
  assignments keeps a part of its match.
\<close>

definition assignment_secret :: "regex \<times> regex" where
  "assignment_secret =
     (regex_sequence
       [Boundary,
        alternatives
          [regex_sequence [literal_ci ''api'', optional_gap, literal_ci ''key''],
           regex_sequence [literal_ci ''access'', optional_gap, literal_ci ''key''],
           literal_ci ''authorization'', literal_ci ''credential'', literal_ci ''password'',
           regex_sequence [literal_ci ''private'', optional_gap, literal_ci ''key''],
           regex_sequence [literal_ci ''refresh'', optional_gap, literal_ci ''token''],
           literal_ci ''secret'',
           regex_sequence [literal_ci ''session'', optional_gap, literal_ci ''key''],
           literal_ci ''token''],
        Boundary, Many 0 regex_space, Chars (\<lambda>c. c \<in> set '':=''), Many 0 regex_space],
      regex_sequence [Not_Ahead (literal_ci ''[redacted]''), Many 1 (\<lambda>c. \<not> regex_space c \<and> c \<notin> set '',;'')])"

definition authorization_secret :: "regex \<times> regex" where
  "authorization_secret =
     (Empty, regex_sequence
       [Boundary, alternatives [literal_ci ''bearer'', literal_ci ''basic''], Many 1 regex_space,
        Many 8 (\<lambda>c. letter_or_digit c \<or> c \<in> set ''._~+/=-'')])"

definition jwt_secret :: "regex \<times> regex" where
  "jwt_secret =
     (Empty, regex_sequence
       [Boundary, literal ''eyJ'', Many 8 credential_char, literal ''.'', Many 8 credential_char, literal ''.'',
        Many 8 credential_char, Boundary])"

definition google_api_key :: "regex \<times> regex" where
  "google_api_key = (Empty, regex_sequence [Boundary, literal ''AIza'', Many 20 credential_char, Boundary])"

definition github_token :: "regex \<times> regex" where
  "github_token =
     (Empty, regex_sequence
       [Boundary,
        alternatives
          [regex_sequence [literal ''github_pat_'', Many 20 regex_word],
           regex_sequence [literal ''gh'', Chars (\<lambda>c. c \<in> set ''opru''), literal ''_'', Many 36 letter_or_digit],
           regex_sequence [literal ''ghs_'', Alt (Many 36 letter_or_digit)
             (regex_sequence [Many 1 digit_char, literal ''_eyJ'', Many 1 credential_char, literal ''.'',
                Many 1 credential_char, literal ''.'', Many 1 credential_char])]],
        Boundary])"

definition pem_private_key :: "regex \<times> regex" where
  "pem_private_key =
     (let label = Many 0 (\<lambda>c. upper_letter c \<or> digit_char c \<or> c = CHR '' '') in
      (Empty, regex_sequence
        [literal ''-----BEGIN '', label, literal ''PRIVATE KEY-----'', Lazy (\<lambda>_. True),
         literal ''-----END '', label, literal ''PRIVATE KEY-----'']))"

text \<open>The patterns in the order in which they are applied.\<close>

definition secret_patterns :: "(regex \<times> regex) list" where
  "secret_patterns =
     [pem_private_key, authorization_secret, jwt_secret, google_api_key, github_token, assignment_secret]"

section \<open>Detection and redaction\<close>

definition contains_sensitive_material :: "env \<Rightarrow> string \<Rightarrow> bool" where
  "contains_sensitive_material E s =
     (if is_ascii s then list_ex (\<lambda>(a, b). regex_occurs (Seq a b) None s) secret_patterns
      else env_wide_sensitive E s)"

text \<open>
  The best match of a pattern that consumes something: where the kept part ends, and where the
  match ends.
\<close>

definition best_match :: "regex \<Rightarrow> regex \<Rightarrow> char option \<Rightarrow> string \<Rightarrow> (position \<times> position) option" where
  "best_match a b p s =
     (case filter (\<lambda>(m, e). length (snd e) < length s)
        (concat (map (\<lambda>m. map (\<lambda>e. (m, e)) (regex_match b (fst m) (snd m))) (regex_match a p s))) of
        [] \<Rightarrow> None | x # _ \<Rightarrow> Some x)"

lemma best_match_shorter: "best_match a b p s = Some (m, e) \<Longrightarrow> length (snd e) < length s"
  unfolding best_match_def by (auto split: list.splits simp: filter_eq_Cons_iff)

text \<open>\<open>pattern.sub\<close>: leftmost matches that do not overlap, each with its second part replaced.\<close>

function redact_pattern :: "regex \<Rightarrow> regex \<Rightarrow> char option \<Rightarrow> string \<Rightarrow> string" where
  "redact_pattern a b p s =
     (case best_match a b p s of
        Some (m, e) \<Rightarrow> take (length s - length (snd m)) s @ redacted @ redact_pattern a b (fst e) (snd e)
      | None \<Rightarrow> (case s of [] \<Rightarrow> [] | c # cs \<Rightarrow> c # redact_pattern a b (Some c) cs))"
  by pat_completeness auto

termination by (relation "measure (\<lambda>(a, b, p, s). length s)") (auto dest: best_match_shorter)

declare redact_pattern.simps [simp del]

definition redact_untrusted_text :: "env \<Rightarrow> string \<Rightarrow> string result" where
  "redact_untrusted_text E s =
     (if 4096 < text_length s then Inl (ValueError ''untrusted text exceeds the sanitization limit'')
      else if is_ascii s then Inr (fold (\<lambda>(a, b) t. redact_pattern a b None t) secret_patterns s)
      else Inr (env_wide_redact E s))"

text \<open>The escapes that keep a text from altering a terminal, and the text that a report may show.\<close>

definition escape_control :: "char \<Rightarrow> string" where
  "escape_control c =
     (let n = (of_char c :: nat) in
      if n < 32 \<or> n = 127 then
        [CHR 0x5C, CHR ''u'', CHR ''0'', CHR ''0'', hex_digit (n div 16), hex_digit (n mod 16)]
      else [c])"

definition terminal_safe_text :: "env \<Rightarrow> string \<Rightarrow> string result" where
  "terminal_safe_text E s =
     bind_result (redact_untrusted_text E s) (\<lambda>t.
       Inr (if is_ascii t then concat (map escape_control t) else env_wide_escape E t))"

section \<open>Text without a credential\<close>

text \<open>A match consumes a prefix, and some matches have to consume a character of a class.\<close>

lemma runs_suffix: "(q, t) \<in> set (runs P p s) \<Longrightarrow> \<exists>u. s = u @ t \<and> list_all P u"
proof (induction P p s rule: runs.induct)
  case (2 P p c cs)
  then show ?case
  proof (cases "(q, t) = (p, c # cs)")
    case False
    with 2 obtain u where "P c" "cs = u @ t \<and> list_all P u" by (auto split: if_splits)
    then have "c # cs = (c # u) @ t \<and> list_all P (c # u)" by simp
    then show ?thesis by blast
  qed auto
qed auto

lemma regex_match_suffix: "(q, t) \<in> set (regex_match r p s) \<Longrightarrow> \<exists>u. s = u @ t"
proof (induction r arbitrary: p s q t)
  case (Chars P)
  then show ?case by (auto split: list.splits if_splits)
next
  case (Many n P)
  then show ?case using runs_suffix [of q t P p s] by (auto dest: in_set_dropD)
next
  case (Lazy P)
  then show ?case using runs_suffix [of q t P p s] by auto
next
  case (Seq a b)
  then obtain q' t' where "(q', t') \<in> set (regex_match a p s)" "(q, t) \<in> set (regex_match b q' t')" by auto
  with Seq.IH [of q' t' p s] Seq.IH(2) [of q t q' t'] show ?case by auto
next
  case (Alt a b)
  then show ?case by (auto split: if_splits)
qed (auto split: if_splits)

definition needs :: "regex \<Rightarrow> (char \<Rightarrow> bool) \<Rightarrow> bool" where
  "needs r Q \<longleftrightarrow> (\<forall>p s. regex_match r p s \<noteq> [] \<longrightarrow> list_ex Q s)"

lemma needs_Chars: "(\<And>c. P c \<Longrightarrow> Q c) \<Longrightarrow> needs (Chars P) Q"
  by (auto simp: needs_def split: list.splits if_splits)

lemma needs_Many: "0 < n \<Longrightarrow> (\<And>c. P c \<Longrightarrow> Q c) \<Longrightarrow> needs (Many n P) Q"
proof -
  assume n: "0 < n" and P: "\<And>c. P c \<Longrightarrow> Q c"
  have "list_ex Q s" if "drop n (runs P p s) \<noteq> []" for p s
  proof (cases s)
    case (Cons c cs)
    with that n show ?thesis by (cases n) (auto simp: P split: if_splits)
  qed (use that n in simp)
  then show ?thesis by (simp add: needs_def)
qed

lemma needsD: "needs r Q \<Longrightarrow> regex_match r p s \<noteq> [] \<Longrightarrow> list_ex Q s"
  by (simp add: needs_def)

lemma needs_Seq1: "needs a Q \<Longrightarrow> needs (Seq a b) Q"
  using needsD [of a Q] unfolding needs_def by (metis concat.simps(1) list.map(1) regex_match.simps(7))

lemma needs_Seq2:
  assumes "needs b Q"
  shows "needs (Seq a b) Q"
proof -
  have "list_ex Q s" if m: "regex_match (Seq a b) p s \<noteq> []" for p s
  proof -
    obtain q t where q: "(q, t) \<in> set (regex_match a p s)" "regex_match b q t \<noteq> []" using m by auto
    then obtain u where "s = u @ t" using regex_match_suffix by blast
    moreover have "list_ex Q t" using assms q(2) by (simp add: needs_def)
    ultimately show ?thesis by simp
  qed
  then show ?thesis by (simp add: needs_def)
qed

lemma needs_Alt: "needs a Q \<Longrightarrow> needs b Q \<Longrightarrow> needs (Alt a b) Q"
  by (auto simp: needs_def)

lemma regex_occurs_needs: "needs r Q \<Longrightarrow> regex_occurs r p s \<Longrightarrow> list_ex Q s"
proof (induction r p s rule: regex_occurs.induct)
  case (1 r p)
  then show ?case using needsD [of r Q p "[]"] by simp
next
  case (2 r p c cs)
  then show ?case using needsD [of r Q p "c # cs"] by auto
qed

text \<open>Lower case letters, digits and hyphens make no credential.\<close>

definition plain_char :: "char \<Rightarrow> bool" where
  "plain_char c \<longleftrightarrow> word_char c \<or> c = CHR ''-''"

lemma plain_text_is_ascii: "list_all plain_char s \<Longrightarrow> is_ascii s"
  unfolding is_ascii_def by (erule list.pred_mono_strong)
    (auto simp: plain_char_def word_char_def lower_letter_def digit_char_def)

lemma not_plain:
  "\<not> plain_char CHR '' ''" "\<not> plain_char CHR ''.''" "\<not> plain_char CHR ''I''" "\<not> plain_char CHR ''_''"
  "\<not> plain_char CHR '':''" "\<not> plain_char CHR ''=''" "\<not> plain_char CHR ''B''" "\<not> plain_char CHR ''J''"
  by (simp_all add: plain_char_def word_char_def lower_letter_def digit_char_def)

lemma space_not_plain: "regex_space c \<Longrightarrow> \<not> plain_char c"
  by (auto simp: plain_char_def word_char_def lower_letter_def digit_char_def regex_space_def)

lemma needs_literal: "c \<in> set s \<Longrightarrow> Q c \<Longrightarrow> needs (literal s) Q"
proof (induction s)
  case (Cons d s)
  show ?case
  proof (cases "c = d")
    case True
    with Cons.prems(2) show ?thesis unfolding literal_def by (auto intro: needs_Seq1 needs_Chars)
  next
    case False
    with Cons show ?thesis unfolding literal_def by (auto intro: needs_Seq2)
  qed
qed simp

lemma needs_regex_sequence: "r \<in> set rs \<Longrightarrow> needs r Q \<Longrightarrow> needs (regex_sequence rs) Q"
  unfolding regex_sequence_def by (induction rs) (auto intro: needs_Seq1 needs_Seq2)

text \<open>
  A class \<open>P\<close> of characters that lacks the space, the dot or \<open>J\<close>, \<open>I\<close> and one of the characters of
  \<open>gh_\<close> matches no pattern but perhaps the assignment of a secret.
\<close>

lemma other_patterns_need_outside:
  assumes "(a, b) \<in> set secret_patterns"
    and outside: "\<not> P CHR '' ''" "list_ex (\<lambda>c. \<not> P c) ''J.''" "\<not> P CHR ''I''" "list_ex (\<lambda>c. \<not> P c) ''gh_''" "\<And>c. regex_space c \<Longrightarrow> \<not> P c"
  shows "needs (Seq a b) (\<lambda>c. \<not> P c) \<or> (a, b) = assignment_secret"
proof -
  have pem: "needs (snd pem_private_key) (\<lambda>c. \<not> P c)"
    unfolding pem_private_key_def Let_def snd_conv
    by (rule needs_regex_sequence [where r = "literal ''-----BEGIN ''"])
      (simp, rule needs_literal [where c = "CHR '' ''"], simp_all add: outside)
  have auth: "needs (snd authorization_secret) (\<lambda>c. \<not> P c)"
    unfolding authorization_secret_def snd_conv
    by (rule needs_regex_sequence [where r = "Many 1 regex_space"]) (simp, rule needs_Many, simp_all add: outside)
  have jwt: "needs (snd jwt_secret) (\<lambda>c. \<not> P c)"
    unfolding jwt_secret_def snd_conv
    using outside(2) needs_regex_sequence [where r = "literal ''.''"] needs_regex_sequence [where r = "literal ''eyJ''"]
      needs_literal [of "CHR ''.''" "''.''"] needs_literal [of "CHR ''J''" "''eyJ''"]
    by auto
  have google: "needs (snd google_api_key) (\<lambda>c. \<not> P c)"
    unfolding google_api_key_def snd_conv
    by (rule needs_regex_sequence [where r = "literal ''AIza''"])
      (simp, rule needs_literal [where c = "CHR ''I''"], simp_all add: outside)
  have under: "needs (literal s) (\<lambda>c. \<not> P c)" if "\<not> P k" "k \<in> set s" for s k
    using that(2) by (rule needs_literal) (rule that(1))
  have gh: "needs (regex_sequence [literal ''gh'', r, literal ''_'', t]) (\<lambda>c. \<not> P c)" for r t
    using outside(4) needs_regex_sequence [of "literal ''gh''" "[literal ''gh'', r, literal ''_'', t]"]
      needs_regex_sequence [of "literal ''_''" "[literal ''gh'', r, literal ''_'', t]"]
      under [of "CHR ''g''" "''gh''"] under [of "CHR ''h''" "''gh''"] under [of "CHR ''_''" "''_''"]
    by auto
  obtain k where k: "\<not> P k" "k \<in> set ''gh_''" using outside(4) by (auto simp: list_ex_iff)
  have github: "needs (snd github_token) (\<lambda>c. \<not> P c)"
    unfolding github_token_def snd_conv
    apply (rule needs_regex_sequence [where r = "alternatives _"])
     apply (rule list.set_intros(2))
     apply (rule list.set_intros(1))
    unfolding alternatives.simps
    apply (intro needs_Alt)
      apply (rule needs_regex_sequence [where r = "literal ''github_pat_''"], simp, rule under [OF k(1)], use k(2) in force)
     apply (rule gh)
    apply (rule needs_regex_sequence [where r = "literal ''ghs_''"], simp, rule under [OF k(1)], use k(2) in force)
    done
  have "needs b (\<lambda>c. \<not> P c) \<or> (a, b) = assignment_secret"
    using assms(1) pem auth jwt google github
    unfolding secret_patterns_def list.set insert_iff empty_iff prod_eq_iff fst_conv snd_conv by auto
  then show ?thesis by (blast intro: needs_Seq2)
qed

lemma secret_patterns_need_outside:
  assumes "(a, b) \<in> set secret_patterns"
    and outside: "\<not> P CHR '' ''" "list_ex (\<lambda>c. \<not> P c) ''J.''" "\<not> P CHR ''I''" "list_ex (\<lambda>c. \<not> P c) ''gh_''" "\<And>c. regex_space c \<Longrightarrow> \<not> P c"
    and assign: "needs (fst assignment_secret) (\<lambda>c. \<not> P c)"
  shows "needs (Seq a b) (\<lambda>c. \<not> P c)"
  using other_patterns_need_outside [OF assms(1) outside] assign by (metis fst_conv needs_Seq1)

lemma secret_patterns_need:
  assumes "(a, b) \<in> set secret_patterns"
  shows "needs (Seq a b) (\<lambda>c. \<not> plain_char c)"
proof (rule secret_patterns_need_outside [OF assms])
  show "needs (fst assignment_secret) (\<lambda>c. \<not> plain_char c)"
    unfolding assignment_secret_def fst_conv
    by (rule needs_regex_sequence [where r = "Chars (\<lambda>c. c \<in> set '':='')"])
      (simp, rule needs_Chars, auto simp: not_plain)
qed (simp_all add: not_plain space_not_plain)

text \<open>The characters of an evidence identifier and of an image digest spell none of the words for a secret.\<close>

definition evidence_char :: "char \<Rightarrow> bool" where
  "evidence_char c \<longleftrightarrow> c \<in> set ''evidence:sh0123456789abcdef''"

lemma needs_literal_ci:
  "c \<in> set s \<Longrightarrow> (\<And>d. lower_char d = c \<Longrightarrow> Q d) \<Longrightarrow> needs (literal_ci s) Q"
proof (induction s)
  case (Cons d s)
  show ?case
  proof (cases "c = d")
    case True
    with Cons.prems(2) show ?thesis unfolding literal_ci_def by (auto intro: needs_Seq1 needs_Chars)
  next
    case False
    with Cons show ?thesis unfolding literal_ci_def by (auto intro: needs_Seq2)
  qed
qed simp

lemma lower_char_evidence: "evidence_char d \<Longrightarrow> lower_char d = d"
  unfolding evidence_char_def by (auto simp: lower_char_def upper_letter_def)

lemma secret_letters_not_evidence: "c \<in> set ''krpt'' \<Longrightarrow> \<not> evidence_char c"
  by (auto simp: evidence_char_def)

lemma lower_char_not_evidence:
  assumes "lower_char d = c" "c \<in> set ''krpt''"
  shows "\<not> evidence_char d"
proof
  assume "evidence_char d"
  then have "evidence_char c" using lower_char_evidence assms(1) by metis
  then show False using secret_letters_not_evidence [OF assms(2)] by contradiction
qed

lemma evidence_patterns_need:
  assumes "(a, b) \<in> set secret_patterns"
  shows "needs (Seq a b) (\<lambda>c. \<not> evidence_char c)"
proof (rule secret_patterns_need_outside [OF assms])
  have ci: "needs (literal_ci s) (\<lambda>c. \<not> evidence_char c)" if "list_ex (\<lambda>c. c \<in> set ''krpt'') s" for s
  proof -
    from that obtain c where c: "c \<in> set s" "c \<in> set ''krpt''" by (auto simp: list_ex_iff)
    show ?thesis by (rule needs_literal_ci [OF c(1)]) (rule lower_char_not_evidence [OF _ c(2)])
  qed
  have two: "needs (regex_sequence [r, optional_gap, literal_ci ''key'']) (\<lambda>c. \<not> evidence_char c)"
    "needs (regex_sequence [r, optional_gap, literal_ci ''token'']) (\<lambda>c. \<not> evidence_char c)" for r
    by (rule needs_regex_sequence [where r = "literal_ci ''key''"], simp, rule ci, simp)
      (rule needs_regex_sequence [where r = "literal_ci ''token''"], simp, rule ci, simp)
  show "needs (fst assignment_secret) (\<lambda>c. \<not> evidence_char c)"
    unfolding assignment_secret_def fst_conv
    apply (rule needs_regex_sequence [where r = "alternatives _"])
     apply (rule list.set_intros(2))
     apply (rule list.set_intros(1))
    unfolding alternatives.simps
    by (intro needs_Alt two ci; simp)
qed (auto simp: evidence_char_def regex_space_def)

text \<open>Words of lower case letters, dots, hyphens and underscores that lack a \<open>g\<close> or lack an \<open>h\<close>.\<close>

definition label_char :: "char \<Rightarrow> char \<Rightarrow> bool" where
  "label_char k c \<longleftrightarrow> (plain_char c \<or> c \<in> set ''_.'') \<and> c \<noteq> k"

lemma label_patterns_need:
  assumes "(a, b) \<in> set secret_patterns" "k \<in> set ''gh''"
  shows "needs (Seq a b) (\<lambda>c. \<not> label_char k c)"
proof (rule secret_patterns_need_outside [OF assms(1)])
  show "needs (fst assignment_secret) (\<lambda>c. \<not> label_char k c)"
    unfolding assignment_secret_def fst_conv
    by (rule needs_regex_sequence [where r = "Chars (\<lambda>c. c \<in> set '':='')"])
      (simp, rule needs_Chars, auto simp: not_plain label_char_def)
  show "\<not> label_char k c" if "regex_space c" for c
    using that space_not_plain [OF that] by (auto simp: label_char_def regex_space_def)
qed (use assms(2) in \<open>auto simp: not_plain label_char_def\<close>)


lemma outside_patterns_not_sensitive:
  assumes "list_all P s" "is_ascii s"
    and "\<And>a b. (a, b) \<in> set secret_patterns \<Longrightarrow> needs (Seq a b) (\<lambda>c. \<not> P c)"
  shows "\<not> contains_sensitive_material E s"
proof
  assume "contains_sensitive_material E s"
  then obtain a b where "(a, b) \<in> set secret_patterns" "regex_occurs (Seq a b) None s"
    using assms(2) by (auto simp: contains_sensitive_material_def list_ex_iff)
  then have "list_ex (\<lambda>c. \<not> P c) s" using regex_occurs_needs assms(3) by blast
  then show False using assms(1) by (auto simp: list_ex_iff list_all_iff)
qed

lemma plain_text_not_sensitive: "list_all plain_char s \<Longrightarrow> \<not> contains_sensitive_material E s"
  using outside_patterns_not_sensitive [OF _ plain_text_is_ascii secret_patterns_need] by blast

lemma label_text_not_sensitive:
  "list_all (label_char k) s \<Longrightarrow> k \<in> set ''gh'' \<Longrightarrow> \<not> contains_sensitive_material E s"
proof (rule outside_patterns_not_sensitive [OF _ _ label_patterns_need])
  assume s: "list_all (label_char k) s"
  have "(of_char c :: nat) < 128" if "label_char k c" for c
    using that by (auto simp: label_char_def plain_char_def word_char_def lower_letter_def digit_char_def)
  then show "is_ascii s" unfolding is_ascii_def by (rule list.pred_mono_strong [OF s])
qed

text \<open>Names with dots and slashes, which have no capital letter.\<close>

definition path_char :: "char \<Rightarrow> bool" where
  "path_char c \<longleftrightarrow> plain_char c \<or> c \<in> set ''./''"

lemma path_patterns_need: "(a, b) \<in> set secret_patterns \<Longrightarrow> needs (Seq a b) (\<lambda>c. \<not> path_char c)"
proof (rule secret_patterns_need_outside)
  show "needs (fst assignment_secret) (\<lambda>c. \<not> path_char c)"
    unfolding assignment_secret_def fst_conv
    by (rule needs_regex_sequence [where r = "Chars (\<lambda>c. c \<in> set '':='')"])
      (simp, rule needs_Chars, auto simp: not_plain path_char_def)
  show "\<not> path_char c" if "regex_space c" for c
    using that space_not_plain [OF that] by (auto simp: path_char_def regex_space_def)
qed (auto simp: not_plain path_char_def plain_char_def word_char_def lower_letter_def digit_char_def)

lemma path_text_not_sensitive:
  assumes "list_all path_char s"
  shows "\<not> contains_sensitive_material E s"
proof (rule outside_patterns_not_sensitive [OF assms _ path_patterns_need])
  have "(of_char c :: nat) < 128" if "path_char c" for c
    using that by (auto simp: path_char_def plain_char_def word_char_def lower_letter_def digit_char_def)
  then show "is_ascii s" unfolding is_ascii_def by (rule list.pred_mono_strong [OF assms])
qed

lemma evidence_text_not_sensitive: "list_all evidence_char s \<Longrightarrow> \<not> contains_sensitive_material E s"
proof (rule outside_patterns_not_sensitive [OF _ _ evidence_patterns_need])
  assume s: "list_all evidence_char s"
  have "(of_char c :: nat) < 128" if "evidence_char c" for c
    using that unfolding evidence_char_def by auto
  then show "is_ascii s" unfolding is_ascii_def by (rule list.pred_mono_strong [OF s])
qed

text \<open>
  The name of an observation has the letters of one word for a secret, but not in their order.
\<close>

definition observation_char :: "char \<Rightarrow> bool" where
  "observation_char c \<longleftrightarrow> c \<in> set ''observation:0123456789abcdef''"

lemma lower_char_observation:
  assumes "lower_char d = c"
  shows "observation_char d \<Longrightarrow> d = c" "c \<in> set ''hklp'' \<Longrightarrow> \<not> observation_char d"
proof -
  have "lower_char d = d" if "observation_char d"
    using that unfolding observation_char_def by (auto simp: lower_char_def upper_letter_def)
  then show same: "observation_char d \<Longrightarrow> d = c" using assms by metis
  have "\<not> observation_char c" if "c \<in> set ''hklp''"
    using that by (auto simp: observation_char_def)
  then show "c \<in> set ''hklp'' \<Longrightarrow> \<not> observation_char d" using same by metis
qed

lemma assignment_needs_secret:
  assumes "regex_match (fst assignment_secret) p s \<noteq> []"
  shows "list_ex (\<lambda>c. \<not> observation_char c) s \<or> starts_with ''secret'' s"
proof -
  have ci: "needs (literal_ci w) (\<lambda>c. \<not> observation_char c)" if "list_ex (\<lambda>c. c \<in> set ''hklp'') w" for w
  proof -
    from that obtain c where c: "c \<in> set w" "c \<in> set ''hklp''" by (auto simp: list_ex_iff)
    show ?thesis by (rule needs_literal_ci [OF c(1)]) (rule lower_char_observation(2) [OF _ c(2)])
  qed
  have two: "needs (regex_sequence [r, optional_gap, literal_ci ''key'']) (\<lambda>c. \<not> observation_char c)"
    "needs (regex_sequence [r, optional_gap, literal_ci ''token'']) (\<lambda>c. \<not> observation_char c)" for r
    by (rule needs_regex_sequence [where r = "literal_ci ''key''"], simp, rule ci, simp)
      (rule needs_regex_sequence [where r = "literal_ci ''token''"], simp, rule ci, simp)
  have alt: "regex_match (Alt a b) p s \<noteq> [] \<longleftrightarrow> regex_match a p s \<noteq> [] \<or> regex_match b p s \<noteq> []" for a b
    by simp
  have secret: "list_ex (\<lambda>c. \<not> observation_char c) s \<or> starts_with w s"
    if "regex_match (literal_ci w) p s \<noteq> []" for w p s
    using that
  proof (induction w arbitrary: p s)
    case (Cons c w)
    then obtain d t where s: "s = d # t" "lower_char d = c" "regex_match (literal_ci w) (Some d) t \<noteq> []"
      by (cases s) (auto simp: literal_ci_def split: if_splits)
    show ?case using Cons.IH [OF s(3)] lower_char_observation(1) [OF s(2)] by (auto simp: s(1))
  qed simp
  have first: "regex_match r p s \<noteq> []" if "regex_match (Seq r x) p s \<noteq> []" for r x
    using that by (cases "regex_match r p s") simp_all
  have boundary: "regex_match (Seq Boundary x) p s = (if at_boundary p s then regex_match x p s else [])" for x
    by simp
  have gap: "regex_match r p s \<noteq> []" if "regex_match (regex_sequence (Boundary # r # rs)) p s \<noteq> []" for r rs
    using that unfolding regex_sequence_def foldr.simps o_apply boundary by (metis first)
  note alternatives = gap [OF assms [unfolded assignment_secret_def fst_conv], unfolded alternatives.simps alt]
  show ?thesis
    using alternatives secret [of "''secret''" p s]
      needsD [OF two(1)] needsD [OF two(2)] needsD [OF ci [of "''authorization''"]] needsD [OF ci [of "''credential''"]]
      needsD [OF ci [of "''password''"]] needsD [OF ci [of "''token''"]]
    by simp blast
qed

lemma regex_occurs_at: "regex_occurs r p s \<Longrightarrow> \<exists>q u t. s = u @ t \<and> regex_match r q t \<noteq> []"
proof (induction r p s rule: regex_occurs.induct)
  case (2 r p c cs)
  show ?case
  proof (cases "regex_match r p (c # cs) = []")
    case True
    with 2 obtain q u t where "cs = u @ t" "regex_match r q t \<noteq> []" by auto
    then have "c # cs = (c # u) @ t \<and> regex_match r q t \<noteq> []" by simp
    then show ?thesis by blast
  qed (metis append_Nil)
qed (metis append_Nil regex_occurs.simps(1))

lemma starts_with_append: "starts_with p s \<longleftrightarrow> (\<exists>t. s = p @ t)"
  by (induction p s rule: starts_with.induct) auto

lemma occurs_in_append: "occurs_in p s \<longleftrightarrow> (\<exists>u t. s = u @ p @ t)"
proof (induction s)
  case (Cons c s)
  have "(\<exists>u t. c # s = u @ p @ t) \<longleftrightarrow> (\<exists>t. c # s = p @ t) \<or> (\<exists>u t. s = u @ p @ t)"
    by (metis Cons_eq_append_conv append_Cons append_Nil)
  then show ?case using Cons by (simp add: starts_with_append)
qed (auto simp: starts_with_append)

lemma observation_text_not_sensitive:
  assumes "list_all observation_char s" "\<not> occurs_in ''secret'' s"
  shows "\<not> contains_sensitive_material E s"
proof
  assume sensitive: "contains_sensitive_material E s"
  have "(of_char c :: nat) < 128" if "observation_char c" for c
    using that unfolding observation_char_def by auto
  then have "is_ascii s" unfolding is_ascii_def by (rule list.pred_mono_strong [OF assms(1)])
  with sensitive obtain a b where ab: "(a, b) \<in> set secret_patterns" "regex_occurs (Seq a b) None s"
    by (auto simp: contains_sensitive_material_def list_ex_iff)
  obtain q u t where t: "s = u @ t" "regex_match (Seq a b) q t \<noteq> []" using regex_occurs_at [OF ab(2)] by blast
  have "needs (Seq a b) (\<lambda>c. \<not> observation_char c) \<or> (a, b) = assignment_secret"
    by (rule other_patterns_need_outside [OF ab(1)]) (auto simp: observation_char_def regex_space_def)
  then have "list_ex (\<lambda>c. \<not> observation_char c) t \<or> starts_with ''secret'' t"
  proof
    assume ab: "(a, b) = assignment_secret"
    have "regex_match a q t \<noteq> []" using t(2) by (cases "regex_match a q t") simp_all
    then show ?thesis using assignment_needs_secret [of q t] unfolding ab [symmetric] fst_conv by blast
  qed (use needsD t(2) in blast)
  then show False using assms t(1) by (auto simp: list_all_iff list_ex_iff occurs_in_append starts_with_append)
qed

lemma observation_name_not_sensitive:
  assumes "list_all (\<lambda>c. c \<in> set ''0123456789abcdef'') h"
  shows "\<not> contains_sensitive_material E (''observation:'' @ h)"
proof (rule observation_text_not_sensitive)
  show "list_all observation_char (''observation:'' @ h)"
    using assms by (auto simp: observation_char_def list_all_iff)
  have "starts_with ''secret'' (c # s) \<Longrightarrow> c = CHR ''s''" for c s by simp
  then have "\<not> occurs_in ''secret'' h"
    using assms by (induction h) (auto simp del: starts_with.simps(3))
  then show "\<not> occurs_in ''secret'' (''observation:'' @ h)" by simp
qed

text \<open>Redaction leaves a text without a credential as it is.\<close>

lemma best_match_None:
  "regex_match (Seq a b) p s = [] \<Longrightarrow> best_match a b p s = None"
proof -
  assume "regex_match (Seq a b) p s = []"
  then have "\<forall>m\<in>set (regex_match a p s). regex_match b (fst m) (snd m) = []" by auto
  then have "concat (map (\<lambda>m. map (\<lambda>e. (m, e)) (regex_match b (fst m) (snd m))) (regex_match a p s)) = []"
    by simp
  then show ?thesis unfolding best_match_def by (simp only: filter.simps list.case)
qed

lemma redact_pattern_id: "\<not> regex_occurs (Seq a b) p s \<Longrightarrow> redact_pattern a b p s = s"
proof (induction s arbitrary: p)
  case Nil
  then have "best_match a b p [] = None" by (intro best_match_None) (simp del: regex_match.simps)
  then show ?case by (simp add: redact_pattern.simps)
next
  case (Cons c cs)
  then have "best_match a b p (c # cs) = None" by (intro best_match_None) (simp del: regex_match.simps)
  moreover have "redact_pattern a b (Some c) cs = cs" using Cons by (simp del: regex_match.simps)
  ultimately show ?case by (simp add: redact_pattern.simps [of a b p "c # cs"])
qed

lemma fold_redact_id:
  "list_all (\<lambda>(a, b). \<not> regex_occurs (Seq a b) None s) ps \<Longrightarrow>
     fold (\<lambda>(a, b) t. redact_pattern a b None t) ps s = s"
  by (induction ps) (auto simp: redact_pattern_id simp del: regex_occurs.simps regex_match.simps)

lemma plain_text_redacts:
  assumes "list_all plain_char s" "text_length s \<le> 4096"
  shows "redact_untrusted_text E s = Inr s"
proof -
  have clean: "\<not> contains_sensitive_material E s" by (rule plain_text_not_sensitive [OF assms(1)])
  have "is_ascii s" by (rule plain_text_is_ascii [OF assms(1)])
  with clean have "list_all (\<lambda>(a, b). \<not> regex_occurs (Seq a b) None s) secret_patterns"
    by (auto simp: contains_sensitive_material_def list_ex_iff list_all_iff)
  from fold_redact_id [OF this] show ?thesis
    using assms(2) \<open>is_ascii s\<close> by (simp add: redact_untrusted_text_def)
qed

end
