(* ===== verification/Contracts.thy ===== *)
theory Contracts
  imports Timestamps Security
begin

text \<open>
  The shared wire contracts of \<open>contracts/base.py\<close>, \<open>contracts/common.py\<close>,
  \<open>contracts/evidence.py\<close> and \<open>contracts/envelope.py\<close>. A contract class is a record; the checks
  that its construction performs are a predicate \<open>..._fields_ok\<close> for the annotated fields and a
  function \<open>validate_...\<close> for the model validator, which raises as the code does; the value
  that its canonical encoding writes is a function \<open>..._json\<close>. A record stands for the object
  that the constructor returns, so a sanitised text is the text after its sanitising.
\<close>

section \<open>Field types\<close>

definition identifier_start :: "char \<Rightarrow> bool" where
  "identifier_start c \<longleftrightarrow> letter_or_digit c"

definition identifier_char :: "char \<Rightarrow> bool" where
  "identifier_char c \<longleftrightarrow> identifier_start c \<or> c \<in> set ''._:-''"

text \<open>
  \<open>Identifier\<close>: the pattern admits ASCII only, so \<open>_validate_unicode_text\<close> never refuses what
  the pattern accepts.
\<close>

definition identifier_ok :: "env \<Rightarrow> string \<Rightarrow> bool" where
  "identifier_ok E s \<longleftrightarrow>
     s \<noteq> [] \<and> length s \<le> 128 \<and> identifier_start (hd s) \<and> list_all identifier_char (tl s) \<and>
     \<not> contains_sensitive_material E s"

definition lower_hex :: "char \<Rightarrow> bool" where
  "lower_hex c \<longleftrightarrow> c \<in> set ''0123456789abcdef''"

definition sha256_digest_ok :: "string \<Rightarrow> bool" where
  "sha256_digest_ok s \<longleftrightarrow> length s = 64 \<and> list_all lower_hex s"

definition bounded_text_ok :: "env \<Rightarrow> nat \<Rightarrow> string \<Rightarrow> bool" where
  "bounded_text_ok E n s \<longleftrightarrow> 1 \<le> text_length s \<and> text_length s \<le> n \<and> validate_unicode_text E s"

definition non_empty_text_ok :: "env \<Rightarrow> string \<Rightarrow> bool" where
  "non_empty_text_ok E s \<longleftrightarrow> bounded_text_ok E 4096 s"

text \<open>The text of a report: redacted, escaped and bounded.\<close>

definition sanitize_boundary_text :: "env \<Rightarrow> string \<Rightarrow> string result" where
  "sanitize_boundary_text E s =
     bind_result (terminal_safe_text E s) (\<lambda>t.
       if 1 \<le> text_length t \<and> text_length t \<le> 4096 then Inr t
       else Inl (ValueError ''sanitized text exceeds the public boundary limit''))"

definition short_text_ok :: "env \<Rightarrow> string \<Rightarrow> bool" where
  "short_text_ok E s \<longleftrightarrow> bounded_text_ok E 512 s"

text \<open>An aware timestamp, normalised to UTC: an instant that a \<open>datetime\<close> can hold.\<close>

definition time_ok :: "time \<Rightarrow> bool" where
  "time_ok t \<longleftrightarrow> datetime_min \<le> t \<and> t \<le> datetime_max"

definition int_ok :: "int \<Rightarrow> int \<Rightarrow> bool" where
  "int_ok low n \<longleftrightarrow> low \<le> n \<and> n \<le> int64_max"

definition option_ok :: "('a \<Rightarrow> bool) \<Rightarrow> 'a option \<Rightarrow> bool" where
  "option_ok P x = (case x of None \<Rightarrow> True | Some y \<Rightarrow> P y)"

lemma option_ok_simps [simp]: "option_ok P None" "option_ok P (Some x) = P x"
  by (simp_all add: option_ok_def)

definition length_ok :: "nat \<Rightarrow> nat \<Rightarrow> 'a list \<Rightarrow> bool" where
  "length_ok low high xs \<longleftrightarrow> low \<le> length xs \<and> length xs \<le> high"

text \<open>
  The bounded JSON objects \<open>SmallJsonObject\<close>, \<open>ArgumentsObject\<close> and so on: a Python
  \<open>dict\<close> has one item per key.
\<close>

type_synonym json_object = "(string \<times> json) list"

definition json_object_ok :: "env \<Rightarrow> nat \<Rightarrow> nat \<Rightarrow> json_object \<Rightarrow> bool" where
  "json_object_ok E low high kvs \<longleftrightarrow>
     length_ok low high kvs \<and> distinct (map fst kvs) \<and> validate_json E 0 (JObj kvs)"

text \<open>\<open>reject_sensitive_keys\<close> and \<open>reject_sensitive_values\<close>, as the tests that they pass.\<close>

fun free_of_sensitive_keys :: "env \<Rightarrow> json \<Rightarrow> bool"
  and items_free_of_sensitive_keys :: "env \<Rightarrow> json list \<Rightarrow> bool"
  and members_free_of_sensitive_keys :: "env \<Rightarrow> json_object \<Rightarrow> bool" where
  "free_of_sensitive_keys E (JObj kvs) = members_free_of_sensitive_keys E kvs"
| "free_of_sensitive_keys E (JArr xs) = items_free_of_sensitive_keys E xs"
| "free_of_sensitive_keys E v = True"
| "items_free_of_sensitive_keys E [] = True"
| "items_free_of_sensitive_keys E (x # xs) =
     (free_of_sensitive_keys E x \<and> items_free_of_sensitive_keys E xs)"
| "members_free_of_sensitive_keys E [] = True"
| "members_free_of_sensitive_keys E (kv # kvs) =
     (\<not> is_sensitive_key E (fst kv) \<and> free_of_sensitive_keys E (snd kv) \<and>
      members_free_of_sensitive_keys E kvs)"

fun free_of_sensitive_values :: "env \<Rightarrow> json \<Rightarrow> bool"
  and items_free_of_sensitive_values :: "env \<Rightarrow> json list \<Rightarrow> bool"
  and members_free_of_sensitive_values :: "env \<Rightarrow> json_object \<Rightarrow> bool" where
  "free_of_sensitive_values E (JStr s) = (\<not> contains_sensitive_material E s)"
| "free_of_sensitive_values E (JObj kvs) = members_free_of_sensitive_values E kvs"
| "free_of_sensitive_values E (JArr xs) = items_free_of_sensitive_values E xs"
| "free_of_sensitive_values E v = True"
| "items_free_of_sensitive_values E [] = True"
| "items_free_of_sensitive_values E (x # xs) =
     (free_of_sensitive_values E x \<and> items_free_of_sensitive_values E xs)"
| "members_free_of_sensitive_values E [] = True"
| "members_free_of_sensitive_values E (kv # kvs) =
     (free_of_sensitive_values E (snd kv) \<and> members_free_of_sensitive_values E kvs)"

definition secret_keys_message :: string where
  "secret_keys_message = ''secret-bearing fields are not allowed''"

definition secret_values_message :: string where
  "secret_values_message = ''secret-bearing values are not allowed''"

text \<open>A field constraint that pydantic enforces itself, before the model validator runs.\<close>

definition field_message :: string where
  "field_message = ''field constraint''"

text \<open>Dumps of optional fields, texts and times.\<close>

definition option_json :: "('a \<Rightarrow> json) \<Rightarrow> 'a option \<Rightarrow> json" where
  "option_json f x = (case x of None \<Rightarrow> JNull | Some y \<Rightarrow> f y)"

definition strings_json :: "string list \<Rightarrow> json" where
  "strings_json xs = JArr (map JStr xs)"

definition text_members :: "(string \<times> string) list \<Rightarrow> json_object" where
  "text_members kvs = map (\<lambda>(k, v). (k, JStr v)) kvs"

section \<open>\<open>contracts/common.py\<close>\<close>

datatype classification = COMMITTED | NOT_COMMITTED | PARTIAL | PENDING | UNKNOWN

fun classification_text :: "classification \<Rightarrow> string" where
  "classification_text COMMITTED = ''COMMITTED''"
| "classification_text NOT_COMMITTED = ''NOT_COMMITTED''"
| "classification_text PARTIAL = ''PARTIAL''"
| "classification_text PENDING = ''PENDING''"
| "classification_text UNKNOWN = ''UNKNOWN''"

datatype ambiguity_kind =
  TIMEOUT | CONNECTION_RESET | PROCESS_INTERRUPTED | MISSING_TOOL_RESULT | PROVIDER_UNAVAILABLE | OTHER

fun ambiguity_kind_text :: "ambiguity_kind \<Rightarrow> string" where
  "ambiguity_kind_text TIMEOUT = ''TIMEOUT''"
| "ambiguity_kind_text CONNECTION_RESET = ''CONNECTION_RESET''"
| "ambiguity_kind_text PROCESS_INTERRUPTED = ''PROCESS_INTERRUPTED''"
| "ambiguity_kind_text MISSING_TOOL_RESULT = ''MISSING_TOOL_RESULT''"
| "ambiguity_kind_text PROVIDER_UNAVAILABLE = ''PROVIDER_UNAVAILABLE''"
| "ambiguity_kind_text OTHER = ''OTHER''"

record ambiguous_execution =
  ax_kind :: ambiguity_kind
  ax_observed_at :: time
  ax_detail :: "string option"

definition validate_ambiguous_execution :: "env \<Rightarrow> ambiguous_execution \<Rightarrow> ambiguous_execution result" where
  "validate_ambiguous_execution E a = checked
     [(\<not> (time_ok (ax_observed_at a) \<and> option_ok (short_text_ok E) (ax_detail a)), field_message),
      (\<not> option_ok (\<lambda>d. free_of_sensitive_values E (JStr d)) (ax_detail a), secret_values_message)] a"

definition ambiguous_execution_json :: "ambiguous_execution \<Rightarrow> json" where
  "ambiguous_execution_json a = JObj
     [(''kind'', JStr (ambiguity_kind_text (ax_kind a))),
      (''observed_at'', time_json (ax_observed_at a)),
      (''detail'', option_json JStr (ax_detail a))]"

record capability_ref =
  cref_name :: string
  cref_version :: string

definition capability_ref_ok :: "env \<Rightarrow> capability_ref \<Rightarrow> bool" where
  "capability_ref_ok E c \<longleftrightarrow> identifier_ok E (cref_name c) \<and> identifier_ok E (cref_version c)"

definition capability_ref_json :: "capability_ref \<Rightarrow> json" where
  "capability_ref_json c = JObj [(''name'', JStr (cref_name c)), (''version'', JStr (cref_version c))]"

record target_binding =
  tb_target_kind :: string
  tb_scope :: json_object
  tb_resource :: json_object

definition target_binding_fields_ok :: "env \<Rightarrow> target_binding \<Rightarrow> bool" where
  "target_binding_fields_ok E b \<longleftrightarrow>
     identifier_ok E (tb_target_kind b) \<and> json_object_ok E 1 32 (tb_scope b) \<and>
     json_object_ok E 1 32 (tb_resource b)"

definition validate_target_binding :: "env \<Rightarrow> target_binding \<Rightarrow> target_binding result" where
  "validate_target_binding E b = checked
     [(\<not> target_binding_fields_ok E b, field_message),
      (\<not> free_of_sensitive_keys E (JObj (tb_scope b)), secret_keys_message),
      (\<not> free_of_sensitive_keys E (JObj (tb_resource b)), secret_keys_message),
      (\<not> free_of_sensitive_values E (JObj (tb_scope b)), secret_values_message),
      (\<not> free_of_sensitive_values E (JObj (tb_resource b)), secret_values_message)] b"

definition target_binding_json :: "target_binding \<Rightarrow> json" where
  "target_binding_json b = JObj
     [(''target_kind'', JStr (tb_target_kind b)),
      (''scope'', JObj (tb_scope b)),
      (''resource'', JObj (tb_resource b))]"

record target_constraint =
  tc_target_kind :: string
  tc_scope :: json_object

definition validate_target_constraint :: "env \<Rightarrow> target_constraint \<Rightarrow> target_constraint result" where
  "validate_target_constraint E c = checked
     [(\<not> (identifier_ok E (tc_target_kind c) \<and> json_object_ok E 1 32 (tc_scope c)), field_message),
      (\<not> free_of_sensitive_keys E (JObj (tc_scope c)), secret_keys_message),
      (\<not> free_of_sensitive_values E (JObj (tc_scope c)), secret_values_message)] c"

definition target_constraint_json :: "target_constraint \<Rightarrow> json" where
  "target_constraint_json c = JObj
     [(''target_kind'', JStr (tc_target_kind c)), (''scope'', JObj (tc_scope c))]"

record original_invocation =
  oi_invocation_id :: string
  oi_function_call_id :: "string option"
  oi_tool_name :: string
  oi_tool_version :: string
  oi_arguments :: json_object
  oi_arguments_sha256 :: string

definition original_invocation_fields_ok :: "env \<Rightarrow> original_invocation \<Rightarrow> bool" where
  "original_invocation_fields_ok E i \<longleftrightarrow>
     identifier_ok E (oi_invocation_id i) \<and> option_ok (identifier_ok E) (oi_function_call_id i) \<and>
     identifier_ok E (oi_tool_name i) \<and> identifier_ok E (oi_tool_version i) \<and>
     json_object_ok E 0 64 (oi_arguments i) \<and> sha256_digest_ok (oi_arguments_sha256 i)"

definition validate_original_invocation :: "env \<Rightarrow> original_invocation \<Rightarrow> original_invocation result" where
  "validate_original_invocation E i =
     bind_result (checked
       [(\<not> original_invocation_fields_ok E i, field_message),
        (\<not> free_of_sensitive_keys E (JObj (oi_arguments i)), secret_keys_message),
        (\<not> free_of_sensitive_values E (JObj (oi_arguments i)), secret_values_message)] i) (\<lambda>i.
     bind_result (value_sha256 E (JObj (oi_arguments i))) (\<lambda>digest. checked
       [(digest \<noteq> oi_arguments_sha256 i, ''invocation argument digest does not match arguments'')] i))"

definition original_invocation_json :: "original_invocation \<Rightarrow> json" where
  "original_invocation_json i = JObj
     [(''invocation_id'', JStr (oi_invocation_id i)),
      (''function_call_id'', option_json JStr (oi_function_call_id i)),
      (''tool_name'', JStr (oi_tool_name i)),
      (''tool_version'', JStr (oi_tool_version i)),
      (''arguments'', JObj (oi_arguments i)),
      (''arguments_sha256'', JStr (oi_arguments_sha256 i))]"

text \<open>An object is valid when its constructor returns it.\<close>

definition accepted :: "('a \<Rightarrow> 'a result) \<Rightarrow> 'a \<Rightarrow> bool" where
  "accepted validate x \<longleftrightarrow> (case validate x of Inl _ \<Rightarrow> False | Inr _ \<Rightarrow> True)"

lemma accepted_iff: "accepted validate x \<longleftrightarrow> (\<exists>y. validate x = Inr y)"
  by (simp add: accepted_def split: sum.splits)

record evidence_budget =
  eb_max_probes :: int
  eb_max_elapsed_ms :: int
  eb_max_total_result_bytes :: int
  eb_max_cost_units :: int

definition evidence_budget_ok :: "evidence_budget \<Rightarrow> bool" where
  "evidence_budget_ok b \<longleftrightarrow>
     1 \<le> eb_max_probes b \<and> eb_max_probes b \<le> 64 \<and> int_ok 1 (eb_max_elapsed_ms b) \<and>
     int_ok 1 (eb_max_total_result_bytes b) \<and> int_ok 1 (eb_max_cost_units b)"

definition evidence_budget_json :: "evidence_budget \<Rightarrow> json" where
  "evidence_budget_json b = JObj
     [(''max_probes'', JInt (eb_max_probes b)),
      (''max_elapsed_ms'', JInt (eb_max_elapsed_ms b)),
      (''max_total_result_bytes'', JInt (eb_max_total_result_bytes b)),
      (''max_cost_units'', JInt (eb_max_cost_units b))]"

record freshness_policy =
  fp_max_age_seconds :: int
  fp_clock_skew_seconds :: int

definition freshness_policy_ok :: "freshness_policy \<Rightarrow> bool" where
  "freshness_policy_ok p \<longleftrightarrow> int_ok 1 (fp_max_age_seconds p) \<and> int_ok 0 (fp_clock_skew_seconds p)"

definition freshness_policy_json :: "freshness_policy \<Rightarrow> json" where
  "freshness_policy_json p = JObj
     [(''max_age_seconds'', JInt (fp_max_age_seconds p)),
      (''clock_skew_seconds'', JInt (fp_clock_skew_seconds p))]"

record policy_references =
  pr_authority :: string
  pr_classification :: string
  pr_action :: string

definition policy_references_ok :: "env \<Rightarrow> policy_references \<Rightarrow> bool" where
  "policy_references_ok E p \<longleftrightarrow>
     identifier_ok E (pr_authority p) \<and> identifier_ok E (pr_classification p) \<and> identifier_ok E (pr_action p)"

definition policy_references_json :: "policy_references \<Rightarrow> json" where
  "policy_references_json p = JObj
     [(''authority'', JStr (pr_authority p)),
      (''classification'', JStr (pr_classification p)),
      (''action'', JStr (pr_action p))]"

text \<open>
  Correlation fields are a \<open>dict\<close> from identifiers to texts, kept as its list of items.
\<close>

type_synonym correlation = "(string \<times> string) list"

definition correlation_ok :: "env \<Rightarrow> correlation \<Rightarrow> bool" where
  "correlation_ok E c \<longleftrightarrow>
     length c \<le> 32 \<and> distinct (map fst c) \<and>
     list_all (\<lambda>(k, v). identifier_ok E k \<and> non_empty_text_ok E v) c"

definition correlation_keys_free :: "env \<Rightarrow> correlation \<Rightarrow> bool" where
  "correlation_keys_free E c \<longleftrightarrow> free_of_sensitive_keys E (JObj (text_members c))"

definition correlation_values_free :: "env \<Rightarrow> correlation \<Rightarrow> bool" where
  "correlation_values_free E c \<longleftrightarrow> free_of_sensitive_values E (JObj (text_members c))"

record envelope_context =
  ec_invocation :: original_invocation
  ec_enabled_capabilities :: "capability_ref list"
  ec_correlation_fields :: correlation
  ec_evidence_budget :: evidence_budget
  ec_freshness :: freshness_policy
  ec_policies :: policy_references

definition envelope_context_fields_ok :: "env \<Rightarrow> envelope_context \<Rightarrow> bool" where
  "envelope_context_fields_ok E c \<longleftrightarrow>
     accepted (validate_original_invocation E) (ec_invocation c) \<and>
     length_ok 1 64 (ec_enabled_capabilities c) \<and>
     list_all (capability_ref_ok E) (ec_enabled_capabilities c) \<and>
     correlation_ok E (ec_correlation_fields c) \<and>
     evidence_budget_ok (ec_evidence_budget c) \<and> freshness_policy_ok (ec_freshness c) \<and>
     policy_references_ok E (ec_policies c)"

definition validate_envelope_context :: "env \<Rightarrow> envelope_context \<Rightarrow> envelope_context result" where
  "validate_envelope_context E c = checked
     [(\<not> envelope_context_fields_ok E c, field_message),
      (\<not> distinct (map (\<lambda>r. (cref_name r, cref_version r)) (ec_enabled_capabilities c)),
         ''enabled capability identities must be unique''),
      (\<not> correlation_keys_free E (ec_correlation_fields c), secret_keys_message),
      (\<not> correlation_values_free E (ec_correlation_fields c), secret_values_message)] c"

definition envelope_context_json :: "envelope_context \<Rightarrow> json" where
  "envelope_context_json c = JObj
     [(''invocation'', original_invocation_json (ec_invocation c)),
      (''enabled_capabilities'', JArr (map capability_ref_json (ec_enabled_capabilities c))),
      (''correlation_fields'', JObj (text_members (ec_correlation_fields c))),
      (''evidence_budget'', evidence_budget_json (ec_evidence_budget c)),
      (''freshness'', freshness_policy_json (ec_freshness c)),
      (''policies'', policy_references_json (ec_policies c))]"

record raw_observation_reference =
  ro_sha256 :: string
  ro_reference :: string
  ro_byte_count :: int

definition raw_observation_ok :: "env \<Rightarrow> raw_observation_reference \<Rightarrow> bool" where
  "raw_observation_ok E r \<longleftrightarrow>
     sha256_digest_ok (ro_sha256 r) \<and> identifier_ok E (ro_reference r) \<and> int_ok 0 (ro_byte_count r)"

definition raw_observation_json :: "raw_observation_reference \<Rightarrow> json" where
  "raw_observation_json r = JObj
     [(''sha256'', JStr (ro_sha256 r)),
      (''reference'', JStr (ro_reference r)),
      (''byte_count'', JInt (ro_byte_count r))]"

record evidence_provenance =
  epv_source :: string
  epv_source_record :: string
  epv_adapter_version :: string
  epv_retrieved_at :: time

definition evidence_provenance_ok :: "env \<Rightarrow> evidence_provenance \<Rightarrow> bool" where
  "evidence_provenance_ok E p \<longleftrightarrow>
     identifier_ok E (epv_source p) \<and> non_empty_text_ok E (epv_source_record p) \<and>
     identifier_ok E (epv_adapter_version p) \<and> time_ok (epv_retrieved_at p)"

definition evidence_provenance_json :: "evidence_provenance \<Rightarrow> json" where
  "evidence_provenance_json p = JObj
     [(''source'', JStr (epv_source p)),
      (''source_record'', JStr (epv_source_record p)),
      (''adapter_version'', JStr (epv_adapter_version p)),
      (''retrieved_at'', time_json (epv_retrieved_at p))]"

record freshness_window =
  fw_valid_from :: time
  fw_valid_until :: time

definition validate_freshness_window :: "freshness_window \<Rightarrow> freshness_window result" where
  "validate_freshness_window w = checked
     [(\<not> (time_ok (fw_valid_from w) \<and> time_ok (fw_valid_until w)), field_message),
      (fw_valid_until w < fw_valid_from w, ''freshness window must be ordered'')] w"

definition freshness_window_json :: "freshness_window \<Rightarrow> json" where
  "freshness_window_json w = JObj
     [(''valid_from'', time_json (fw_valid_from w)), (''valid_until'', time_json (fw_valid_until w))]"

section \<open>\<open>contracts/evidence.py\<close>\<close>

datatype evidence_authority = TARGET_STATE | SUPPLEMENTARY | WEAK_AUTHORITY

fun evidence_authority_text :: "evidence_authority \<Rightarrow> string" where
  "evidence_authority_text TARGET_STATE = ''TARGET_STATE''"
| "evidence_authority_text SUPPLEMENTARY = ''SUPPLEMENTARY''"
| "evidence_authority_text WEAK_AUTHORITY = ''WEAK''"

datatype effect_assertion_state = ESTABLISHED | NOT_ESTABLISHED | UNVERIFIED

fun effect_assertion_state_text :: "effect_assertion_state \<Rightarrow> string" where
  "effect_assertion_state_text ESTABLISHED = ''ESTABLISHED''"
| "effect_assertion_state_text NOT_ESTABLISHED = ''NOT_ESTABLISHED''"
| "effect_assertion_state_text UNVERIFIED = ''UNVERIFIED''"

datatype operation_status = ACTIVE | UNRESOLVED | TERMINAL_COMMITTED | TERMINAL_NOT_COMMITTED

fun operation_status_text :: "operation_status \<Rightarrow> string" where
  "operation_status_text ACTIVE = ''ACTIVE''"
| "operation_status_text UNRESOLVED = ''UNRESOLVED''"
| "operation_status_text TERMINAL_COMMITTED = ''TERMINAL_COMMITTED''"
| "operation_status_text TERMINAL_NOT_COMMITTED = ''TERMINAL_NOT_COMMITTED''"

record effect_assertion =
  ea_effect_id :: string
  ea_state :: effect_assertion_state

definition effect_assertion_json :: "effect_assertion \<Rightarrow> json" where
  "effect_assertion_json a = JObj
     [(''effect_id'', JStr (ea_effect_id a)),
      (''state'', JStr (effect_assertion_state_text (ea_state a)))]"

definition normalized_evidence_version :: string where
  "normalized_evidence_version = ''reconcile/normalized-evidence/v1''"

definition evidence_decision_version :: string where
  "evidence_decision_version = ''reconcile/evidence-decision/v1''"

text \<open>The field \<open>schema_version\<close> is a literal of the class, so the record does not carry it.\<close>

record normalized_evidence =
  ev_evidence_id :: string
  ev_capability_name :: string
  ev_capability_version :: string
  ev_target :: target_binding
  ev_provenance :: evidence_provenance
  ev_observed_at :: time
  ev_freshness :: freshness_window
  ev_correlation :: correlation
  ev_authority :: evidence_authority
  ev_authority_policy_version :: string
  ev_effect_assertions :: "effect_assertion list"
  ev_operation_status :: "operation_status option"
  ev_raw_observation :: raw_observation_reference

definition normalized_evidence_fields_ok :: "env \<Rightarrow> normalized_evidence \<Rightarrow> bool" where
  "normalized_evidence_fields_ok E e \<longleftrightarrow>
     identifier_ok E (ev_evidence_id e) \<and> identifier_ok E (ev_capability_name e) \<and>
     identifier_ok E (ev_capability_version e) \<and>
     accepted (validate_target_binding E) (ev_target e) \<and>
     evidence_provenance_ok E (ev_provenance e) \<and> time_ok (ev_observed_at e) \<and>
     accepted validate_freshness_window (ev_freshness e) \<and>
     correlation_ok E (ev_correlation e) \<and> identifier_ok E (ev_authority_policy_version e) \<and>
     length_ok 0 64 (ev_effect_assertions e) \<and>
     list_all (\<lambda>a. identifier_ok E (ea_effect_id a)) (ev_effect_assertions e) \<and>
     raw_observation_ok E (ev_raw_observation e)"

definition validate_normalized_evidence :: "env \<Rightarrow> normalized_evidence \<Rightarrow> normalized_evidence result" where
  "validate_normalized_evidence E e = checked
     [(\<not> normalized_evidence_fields_ok E e, field_message),
      (\<not> distinct (map ea_effect_id (ev_effect_assertions e)),
         ''effect assertions must have unique identifiers''),
      (\<not> correlation_keys_free E (ev_correlation e), secret_keys_message),
      (\<not> correlation_values_free E (ev_correlation e), secret_values_message),
      (\<not> free_of_sensitive_values E (JStr (epv_source_record (ev_provenance e))), secret_values_message),
      (\<not> (fw_valid_from (ev_freshness e) \<le> ev_observed_at e \<and>
          ev_observed_at e \<le> fw_valid_until (ev_freshness e)),
         ''observation must fall inside its freshness window''),
      (ev_authority e \<noteq> TARGET_STATE \<and> ev_operation_status e \<noteq> None,
         ''non-target evidence cannot assert authoritative operation status''),
      (ev_authority e \<noteq> TARGET_STATE \<and> list_ex (\<lambda>a. ea_state a \<noteq> UNVERIFIED) (ev_effect_assertions e),
         ''non-target evidence cannot establish expected effects''),
      (ev_operation_status e = Some TERMINAL_NOT_COMMITTED \<and>
       list_ex (\<lambda>a. ea_state a = ESTABLISHED) (ev_effect_assertions e),
         ''terminal non-execution cannot coexist with an established effect'')] e"

definition normalized_evidence_json :: "normalized_evidence \<Rightarrow> json" where
  "normalized_evidence_json e = JObj
     [(''schema_version'', JStr normalized_evidence_version),
      (''evidence_id'', JStr (ev_evidence_id e)),
      (''capability_name'', JStr (ev_capability_name e)),
      (''capability_version'', JStr (ev_capability_version e)),
      (''target'', target_binding_json (ev_target e)),
      (''provenance'', evidence_provenance_json (ev_provenance e)),
      (''observed_at'', time_json (ev_observed_at e)),
      (''freshness'', freshness_window_json (ev_freshness e)),
      (''correlation'', JObj (text_members (ev_correlation e))),
      (''authority'', JStr (evidence_authority_text (ev_authority e))),
      (''authority_policy_version'', JStr (ev_authority_policy_version e)),
      (''effect_assertions'', JArr (map effect_assertion_json (ev_effect_assertions e))),
      (''operation_status'', option_json (\<lambda>s. JStr (operation_status_text s)) (ev_operation_status e)),
      (''raw_observation'', raw_observation_json (ev_raw_observation e))]"

datatype evidence_disposition = ADMITTED | WEAK_EVIDENCE | REJECTED_EVIDENCE

fun evidence_disposition_text :: "evidence_disposition \<Rightarrow> string" where
  "evidence_disposition_text ADMITTED = ''ADMITTED''"
| "evidence_disposition_text WEAK_EVIDENCE = ''WEAK''"
| "evidence_disposition_text REJECTED_EVIDENCE = ''REJECTED''"

datatype evidence_reason =
    AUTHORITATIVE_EXACT_CORRELATION | AUTHORITATIVE_AFFIRMATIVE_NON_EXECUTION
  | AUTHORITATIVE_ACTIVE_STATUS | NON_AUTHORITATIVE_LOG_ONLY | NOT_FOUND_ABSENCE_ONLY
  | STALE_OBSERVATION | CORRELATION_MISMATCH | SCOPE_MISMATCH | UNSUPPORTED_CAPABILITY
  | MALFORMED_OBSERVATION | UNVERIFIABLE_AUTHORITY | CONFLICTING_AUTHORITY | BUDGET_EXHAUSTED
  | PROBE_TIMEOUT | RESULT_TOO_LARGE | DUPLICATE_CANDIDATES | CLOCK_AMBIGUITY
  | EXPECTED_EFFECT_MISMATCH

fun evidence_reason_text :: "evidence_reason \<Rightarrow> string" where
  "evidence_reason_text AUTHORITATIVE_EXACT_CORRELATION = ''authoritative_exact_correlation''"
| "evidence_reason_text AUTHORITATIVE_AFFIRMATIVE_NON_EXECUTION = ''authoritative_affirmative_non_execution''"
| "evidence_reason_text AUTHORITATIVE_ACTIVE_STATUS = ''authoritative_active_status''"
| "evidence_reason_text NON_AUTHORITATIVE_LOG_ONLY = ''non_authoritative_log_only''"
| "evidence_reason_text NOT_FOUND_ABSENCE_ONLY = ''not_found_absence_only''"
| "evidence_reason_text STALE_OBSERVATION = ''stale_observation''"
| "evidence_reason_text CORRELATION_MISMATCH = ''correlation_mismatch''"
| "evidence_reason_text SCOPE_MISMATCH = ''scope_mismatch''"
| "evidence_reason_text UNSUPPORTED_CAPABILITY = ''unsupported_capability''"
| "evidence_reason_text MALFORMED_OBSERVATION = ''malformed_observation''"
| "evidence_reason_text UNVERIFIABLE_AUTHORITY = ''unverifiable_authority''"
| "evidence_reason_text CONFLICTING_AUTHORITY = ''conflicting_authority''"
| "evidence_reason_text BUDGET_EXHAUSTED = ''budget_exhausted''"
| "evidence_reason_text PROBE_TIMEOUT = ''probe_timeout''"
| "evidence_reason_text RESULT_TOO_LARGE = ''result_too_large''"
| "evidence_reason_text DUPLICATE_CANDIDATES = ''duplicate_candidates''"
| "evidence_reason_text CLOCK_AMBIGUITY = ''clock_ambiguity''"
| "evidence_reason_text EXPECTED_EFFECT_MISMATCH = ''expected_effect_mismatch''"

definition admitted_reasons :: "evidence_reason list" where
  "admitted_reasons =
     [AUTHORITATIVE_ACTIVE_STATUS, AUTHORITATIVE_AFFIRMATIVE_NON_EXECUTION, AUTHORITATIVE_EXACT_CORRELATION]"

definition weak_reasons :: "evidence_reason list" where
  "weak_reasons = [NON_AUTHORITATIVE_LOG_ONLY, NOT_FOUND_ABSENCE_ONLY]"

record evidence_decision =
  ed_evidence_id :: string
  ed_disposition :: evidence_disposition
  ed_reason :: evidence_reason

fun reason_compatible :: "evidence_disposition \<Rightarrow> evidence_reason \<Rightarrow> bool" where
  "reason_compatible ADMITTED r \<longleftrightarrow> r \<in> set admitted_reasons"
| "reason_compatible WEAK_EVIDENCE r \<longleftrightarrow> r \<in> set weak_reasons"
| "reason_compatible REJECTED_EVIDENCE r \<longleftrightarrow> r \<notin> set admitted_reasons \<union> set weak_reasons"

definition validate_evidence_decision :: "env \<Rightarrow> evidence_decision \<Rightarrow> evidence_decision result" where
  "validate_evidence_decision E d = checked
     [(\<not> identifier_ok E (ed_evidence_id d), field_message),
      (\<not> reason_compatible (ed_disposition d) (ed_reason d),
         ''evidence reason is incompatible with disposition'')] d"

definition evidence_decision_json :: "evidence_decision \<Rightarrow> json" where
  "evidence_decision_json d = JObj
     [(''schema_version'', JStr evidence_decision_version),
      (''evidence_id'', JStr (ed_evidence_id d)),
      (''disposition'', JStr (evidence_disposition_text (ed_disposition d))),
      (''reason'', JStr (evidence_reason_text (ed_reason d)))]"
section \<open>Printable texts pass the Unicode screen\<close>

lemma printable_text_ok:
  assumes "list_all (\<lambda>c. 32 \<le> (of_char c :: nat) \<and> (of_char c :: nat) < 127) s"
  shows "validate_unicode_text E s"
proof -
  have "ascii_text_ok s" "is_ascii s"
    unfolding ascii_text_ok_def is_ascii_def by (rule list.pred_mono_strong [OF assms]; simp)+
  then show ?thesis by (simp add: validate_unicode_text_def)
qed

lemma digit_char_printable: "digit_char c \<Longrightarrow> 32 \<le> (of_char c :: nat) \<and> (of_char c :: nat) < 127"
  unfolding digit_char_def by auto

lemma identifier_char_printable: "identifier_char c \<Longrightarrow> 32 \<le> (of_char c :: nat) \<and> (of_char c :: nat) < 127"
  unfolding identifier_char_def identifier_start_def letter_or_digit_def digit_char_def upper_letter_def lower_letter_def
  by auto

lemma lower_hex_printable: "lower_hex c \<Longrightarrow> 32 \<le> (of_char c :: nat) \<and> (of_char c :: nat) < 127"
  unfolding lower_hex_def by auto

lemma identifier_text_ok: "identifier_ok E s \<Longrightarrow> validate_unicode_text E' s"
proof (rule printable_text_ok)
  assume s: "identifier_ok E s"
  then have "list_all identifier_char s"
    by (cases s) (simp_all add: identifier_ok_def identifier_char_def)
  then show "list_all (\<lambda>c. 32 \<le> (of_char c :: nat) \<and> (of_char c :: nat) < 127) s"
    by (rule list.pred_mono_strong) (rule identifier_char_printable)
qed

lemma sha256_text_ok: "sha256_digest_ok s \<Longrightarrow> validate_unicode_text E' s"
proof (rule printable_text_ok)
  assume s: "sha256_digest_ok s"
  then have "list_all lower_hex s" by (simp add: sha256_digest_ok_def)
  then show "list_all (\<lambda>c. 32 \<le> (of_char c :: nat) \<and> (of_char c :: nat) < 127) s"
    by (rule list.pred_mono_strong) (rule lower_hex_printable)
qed

lemma pad_text_printable: "list_all (\<lambda>c. 32 \<le> (of_char c :: nat) \<and> (of_char c :: nat) < 127) (pad_text w n)"
  using pad_text_digits by (rule list.pred_mono_strong) (rule digit_char_printable)

lemma fields_text_printable:
  "\<forall>(w, n, c) \<in> set fs. 32 \<le> (of_char c :: nat) \<and> (of_char c :: nat) < 127 \<Longrightarrow>
    list_all (\<lambda>c. 32 \<le> (of_char c :: nat) \<and> (of_char c :: nat) < 127) (fields_text fs)"
  by (induction fs rule: fields_text.induct) (simp_all add: pad_text_printable)

lemma iso_text_ok: "validate_unicode_text E (iso_text t)"
proof (rule printable_text_ok)
  have "\<forall>(w, n, c) \<in> set (stamp_fields d h mi s us). 32 \<le> (of_char c :: nat) \<and> (of_char c :: nat) < 127" for d h mi s us
    by (cases d) (simp add: stamp_fields_def)
  then show "list_all (\<lambda>c. 32 \<le> (of_char c :: nat) \<and> (of_char c :: nat) < 127) (iso_text t)"
    unfolding iso_text_def iso_fields_def Let_def by (rule fields_text_printable)
qed

lemma validate_json_items_iff: "validate_json_items E d xs \<longleftrightarrow> list_all (validate_json E d) xs"
  by (induction xs) simp_all

lemma state_texts [simp]: "validate_unicode_text E (effect_assertion_state_text st)"
  by (cases st) (simp_all add: validate_unicode_text_def ascii_text_ok_def is_ascii_def)

lemma status_texts [simp]: "validate_unicode_text E (operation_status_text os)"
  by (cases os) (simp_all add: validate_unicode_text_def ascii_text_ok_def is_ascii_def)

lemma classification_texts [simp]: "validate_unicode_text E (classification_text c)"
  by (cases c) (simp_all add: validate_unicode_text_def ascii_text_ok_def is_ascii_def)

section \<open>Plain texts are identifiers\<close>

lemma plain_identifier_char: "plain_char c \<Longrightarrow> identifier_char c"
  by (auto simp: plain_char_def word_char_def identifier_char_def identifier_start_def letter_or_digit_def)

lemma plain_identifier_ok:
  assumes "s \<noteq> []" "length s \<le> 128" "hd s \<noteq> CHR ''-''" "list_all plain_char s"
  shows "identifier_ok E s"
proof -
  have "identifier_start (hd s)"
    using assms by (cases s) (auto simp: plain_char_def word_char_def identifier_start_def letter_or_digit_def)
  moreover have "list_all identifier_char (tl s)"
    using assms by (cases s) (auto intro: list.pred_mono_strong plain_identifier_char)
  ultimately show ?thesis using assms plain_text_not_sensitive by (simp add: identifier_ok_def)
qed

lemmas plain_chars = plain_char_def word_char_def lower_letter_def digit_char_def

lemma lower_hex_plain: "lower_hex c \<Longrightarrow> plain_char c"
  by (auto simp: lower_hex_def plain_chars)

lemma digest_text_ok [simp]:
  "sha256_digest_ok d \<Longrightarrow> validate_unicode_text E d" "sha256_digest_ok d \<Longrightarrow> \<not> contains_sensitive_material E d"
proof -
  assume d: "sha256_digest_ok d"
  then show "validate_unicode_text E d" by (rule sha256_text_ok)
  from d have "list_all plain_char d"
    unfolding sha256_digest_ok_def by (blast intro: list.pred_mono_strong lower_hex_plain)
  then show "\<not> contains_sensitive_material E d" by (rule plain_text_not_sensitive)
qed

lemma permit_id_ok: "sha256_digest_ok h \<Longrightarrow> identifier_ok E (''permit-'' @ take 32 h)"
proof (rule plain_identifier_ok)
  assume h: "sha256_digest_ok h"
  then have "list_all plain_char h"
    unfolding sha256_digest_ok_def by (blast intro: list.pred_mono_strong lower_hex_plain)
  then have "list_all plain_char (take 32 h)" by (auto simp: list_all_iff dest: in_set_takeD)
  then show "list_all plain_char (''permit-'' @ take 32 h)" by (simp add: plain_chars)
qed simp_all

end
