(* ===== verification/Envelope.thy ===== *)
theory Envelope
  imports Contracts
begin

text \<open>
  The execution, effect, capability and probe contracts of \<open>contracts/envelope.py\<close>.
\<close>

section \<open>Target coordinates\<close>

definition target_coordinate_tokens :: "string list" where
  "target_coordinate_tokens =
     [''address'', ''bucket'', ''credential'', ''credentials'', ''database'', ''document'', ''domain'',
      ''endpoint'', ''headers'', ''header'', ''host'', ''hostname'', ''method'', ''object'', ''path'',
      ''port'', ''project'', ''resource'', ''scope'', ''target'', ''token'', ''uri'', ''url'']"

fun object_keys :: "env \<Rightarrow> json \<Rightarrow> string list"
  and item_object_keys :: "env \<Rightarrow> json list \<Rightarrow> string list"
  and member_object_keys :: "env \<Rightarrow> json_object \<Rightarrow> string list" where
  "object_keys E (JObj kvs) = member_object_keys E kvs"
| "object_keys E (JArr xs) = item_object_keys E xs"
| "object_keys E v = []"
| "item_object_keys E [] = []"
| "item_object_keys E (x # xs) = object_keys E x @ item_object_keys E xs"
| "member_object_keys E [] = []"
| "member_object_keys E (kv # kvs) =
     key_words E (fst kv) @ object_keys E (snd kv) @ member_object_keys E kvs"

text \<open>\<open>_reject_target_coordinates\<close>, as the words that it refuses.\<close>

definition forbidden_coordinates :: "env \<Rightarrow> json_object \<Rightarrow> string list" where
  "forbidden_coordinates E v = filter (\<lambda>w. w \<in> set (object_keys E (JObj v))) target_coordinate_tokens"

definition coordinates_message :: "env \<Rightarrow> json_object \<Rightarrow> string" where
  "coordinates_message E v =
     ''target coordinates are controller-owned: '' @ join_text '', '' (sort (forbidden_coordinates E v))"

text \<open>\<open>_reject_schema_indirection\<close>, as the schemas that pass it.\<close>

definition dollar_key :: "string \<Rightarrow> bool" where
  "dollar_key k \<longleftrightarrow> (case k of [] \<Rightarrow> False | c # _ \<Rightarrow> c = CHR ''$'')"

fun free_of_indirection :: "bool \<Rightarrow> json \<Rightarrow> bool"
  and items_free_of_indirection :: "json list \<Rightarrow> bool"
  and members_free_of_indirection :: "bool \<Rightarrow> json_object \<Rightarrow> bool" where
  "free_of_indirection root (JObj kvs) = members_free_of_indirection root kvs"
| "free_of_indirection root (JArr xs) = items_free_of_indirection xs"
| "free_of_indirection root v = True"
| "items_free_of_indirection [] = True"
| "items_free_of_indirection (x # xs) = (free_of_indirection False x \<and> items_free_of_indirection xs)"
| "members_free_of_indirection root [] = True"
| "members_free_of_indirection root (kv # kvs) =
     (\<not> (dollar_key (fst kv) \<and> (fst kv \<noteq> ''$schema'' \<or> \<not> root)) \<and>
      free_of_indirection False (snd kv) \<and> members_free_of_indirection root kvs)"

section \<open>Effects and envelopes\<close>

record expected_effect =
  ee_effect_id :: string
  ee_commit_scope :: string
  ee_predicate :: json_object
  ee_description :: string

definition expected_effect_fields_ok :: "env \<Rightarrow> expected_effect \<Rightarrow> bool" where
  "expected_effect_fields_ok E e \<longleftrightarrow>
     identifier_ok E (ee_effect_id e) \<and> identifier_ok E (ee_commit_scope e) \<and>
     json_object_ok E 1 32 (ee_predicate e) \<and> non_empty_text_ok E (ee_description e)"

definition validate_expected_effect :: "env \<Rightarrow> expected_effect \<Rightarrow> expected_effect result" where
  "validate_expected_effect E e = checked
     [(\<not> expected_effect_fields_ok E e, field_message),
      (\<not> free_of_sensitive_keys E (JObj (ee_predicate e)), secret_keys_message),
      (\<not> free_of_sensitive_values E (JObj (ee_predicate e)), secret_values_message),
      (\<not> free_of_sensitive_values E (JStr (ee_description e)), secret_values_message)] e"

definition expected_effect_json :: "expected_effect \<Rightarrow> json" where
  "expected_effect_json e = JObj
     [(''schema_version'', JStr ''reconcile/expected-effect/v1''),
      (''effect_id'', JStr (ee_effect_id e)),
      (''commit_scope'', JStr (ee_commit_scope e)),
      (''predicate'', JObj (ee_predicate e)),
      (''description'', JStr (ee_description e))]"

record execution_envelope =
  xe_investigation_id :: string
  xe_operation_id :: string
  xe_target :: target_binding
  xe_invoked_at :: time
  xe_ambiguity :: ambiguous_execution
  xe_expected_effects :: "expected_effect list"
  xe_context :: envelope_context

definition execution_envelope_fields_ok :: "env \<Rightarrow> execution_envelope \<Rightarrow> bool" where
  "execution_envelope_fields_ok E e \<longleftrightarrow>
     identifier_ok E (xe_investigation_id e) \<and> identifier_ok E (xe_operation_id e) \<and>
     accepted (validate_target_binding E) (xe_target e) \<and> time_ok (xe_invoked_at e) \<and>
     accepted (validate_ambiguous_execution E) (xe_ambiguity e) \<and>
     length_ok 1 64 (xe_expected_effects e) \<and>
     list_all (accepted (validate_expected_effect E)) (xe_expected_effects e) \<and>
     accepted (validate_envelope_context E) (xe_context e)"

definition validate_execution_envelope :: "env \<Rightarrow> execution_envelope \<Rightarrow> execution_envelope result" where
  "validate_execution_envelope E e = checked
     [(\<not> execution_envelope_fields_ok E e, field_message),
      (\<not> distinct (map ee_effect_id (xe_expected_effects e)),
         ''expected effect identifiers must be unique'')] e"

definition execution_envelope_json :: "execution_envelope \<Rightarrow> json" where
  "execution_envelope_json e = JObj
     [(''schema_version'', JStr ''reconcile/execution-envelope/v1''),
      (''investigation_id'', JStr (xe_investigation_id e)),
      (''operation_id'', JStr (xe_operation_id e)),
      (''target'', target_binding_json (xe_target e)),
      (''invoked_at'', time_json (xe_invoked_at e)),
      (''ambiguity'', ambiguous_execution_json (xe_ambiguity e)),
      (''expected_effects'', JArr (map expected_effect_json (xe_expected_effects e))),
      (''context'', envelope_context_json (xe_context e))]"

section \<open>Capabilities and probe requests\<close>

record observation_capability =
  oc_name :: string
  oc_version :: string
  oc_argument_schema :: json_object
  oc_allowed_targets :: "target_constraint list"
  oc_timeout_ms :: int
  oc_result_byte_ceiling :: int
  oc_cost_units :: int

definition observation_capability_fields_ok :: "env \<Rightarrow> observation_capability \<Rightarrow> bool" where
  "observation_capability_fields_ok E c \<longleftrightarrow>
     identifier_ok E (oc_name c) \<and> identifier_ok E (oc_version c) \<and>
     json_object_ok E 0 128 (oc_argument_schema c) \<and>
     length_ok 1 32 (oc_allowed_targets c) \<and>
     list_all (accepted (validate_target_constraint E)) (oc_allowed_targets c) \<and>
     int_ok 1 (oc_timeout_ms c) \<and> int_ok 1 (oc_result_byte_ceiling c) \<and> int_ok 1 (oc_cost_units c)"

definition draft_2020_12 :: string where
  "draft_2020_12 = ''https://json-schema.org/draft/2020-12/schema''"

text \<open>
  \<open>check_schema\<close> stands for \<open>Draft202012Validator.check_schema\<close> of the library \<open>jsonschema\<close>:
  whether the schema is valid against its meta-schema.
\<close>

definition validate_observation_capability ::
  "env \<Rightarrow> (json_object \<Rightarrow> bool) \<Rightarrow> observation_capability \<Rightarrow> observation_capability result" where
  "validate_observation_capability E check_schema c = checked
     [(\<not> observation_capability_fields_ok E c, field_message),
      (map_of (oc_argument_schema c) ''type'' \<noteq> Some (JStr ''object''),
         ''capability argument schema must describe an object''),
      (map_of (oc_argument_schema c) ''additionalProperties'' \<noteq> Some (JBool False),
         ''capability argument schema must reject extra properties''),
      (map_of (oc_argument_schema c) ''$schema'' \<noteq> Some (JStr draft_2020_12),
         ''capability argument schema must declare JSON Schema 2020-12''),
      (\<not> check_schema (oc_argument_schema c), ''capability argument schema is invalid''),
      (\<not> free_of_indirection True (JObj (oc_argument_schema c)),
         ''capability argument schemas cannot use indirection''),
      (\<not> free_of_sensitive_keys E (JObj (oc_argument_schema c)), secret_keys_message),
      (forbidden_coordinates E (oc_argument_schema c) \<noteq> [], coordinates_message E (oc_argument_schema c)),
      (\<not> distinct (map (\<lambda>t. (tc_target_kind t, json_bytes (JObj (tc_scope t)))) (oc_allowed_targets c)),
         ''allowed target constraints must be unique'')] c"

definition observation_capability_json :: "observation_capability \<Rightarrow> json" where
  "observation_capability_json c = JObj
     [(''schema_version'', JStr ''reconcile/observation-capability/v1''),
      (''name'', JStr (oc_name c)),
      (''version'', JStr (oc_version c)),
      (''read_only'', JBool True),
      (''argument_schema'', JObj (oc_argument_schema c)),
      (''allowed_targets'', JArr (map target_constraint_json (oc_allowed_targets c))),
      (''timeout_ms'', JInt (oc_timeout_ms c)),
      (''result_byte_ceiling'', JInt (oc_result_byte_ceiling c)),
      (''cost_units'', JInt (oc_cost_units c))]"

record probe_request =
  pq_capability_name :: string
  pq_capability_version :: string
  pq_relevant_effect_ids :: "string list"
  pq_arguments :: json_object
  pq_rationale :: string

definition probe_request_fields_ok :: "env \<Rightarrow> probe_request \<Rightarrow> bool" where
  "probe_request_fields_ok E r \<longleftrightarrow>
     identifier_ok E (pq_capability_name r) \<and> identifier_ok E (pq_capability_version r) \<and>
     length_ok 1 64 (pq_relevant_effect_ids r) \<and> list_all (identifier_ok E) (pq_relevant_effect_ids r) \<and>
     json_object_ok E 0 64 (pq_arguments r) \<and> non_empty_text_ok E (pq_rationale r)"

definition validate_probe_request :: "env \<Rightarrow> probe_request \<Rightarrow> probe_request result" where
  "validate_probe_request E r = checked
     [(\<not> probe_request_fields_ok E r, field_message),
      (\<not> distinct (pq_relevant_effect_ids r), ''relevant effect identifiers must be unique''),
      (\<not> free_of_sensitive_keys E (JObj (pq_arguments r)), secret_keys_message),
      (\<not> free_of_sensitive_values E (JObj (pq_arguments r)), secret_values_message),
      (forbidden_coordinates E (pq_arguments r) \<noteq> [], coordinates_message E (pq_arguments r))] r"

definition probe_request_json :: "probe_request \<Rightarrow> json" where
  "probe_request_json r = JObj
     [(''schema_version'', JStr ''reconcile/probe-request/v1''),
      (''capability_name'', JStr (pq_capability_name r)),
      (''capability_version'', JStr (pq_capability_version r)),
      (''relevant_effect_ids'', strings_json (pq_relevant_effect_ids r)),
      (''arguments'', JObj (pq_arguments r)),
      (''rationale'', JStr (pq_rationale r))]"

end
