(* ===== verification/Recovery_Contracts.thy ===== *)
theory Recovery_Contracts
  imports Envelope
begin

text \<open>
  The contracts of proof-scoped recovery and single-use action authority, \<open>contracts/recovery.py\<close>:
  semantic action identities, recovery chains, hypotheses and possible histories, certificates,
  ambiguity witnesses and action permits. The lemmas show that the depth-first search of a chain
  accepts exactly the acyclic chains, and what a validated permit and certificate promise.
\<close>

section \<open>Semantic actions and chains\<close>

definition semantic_action_sha256 ::
  "env \<Rightarrow> string \<Rightarrow> string \<Rightarrow> string \<Rightarrow> json_object \<Rightarrow> target_binding \<Rightarrow> string list \<Rightarrow> string \<Rightarrow> string result" where
  "semantic_action_sha256 E key_version tool_name tool_version semantic_arguments target effects profile =
     value_sha256 E (JObj
       [(''action_profile_version'', JStr profile),
        (''expected_effect_sha256s'', strings_json effects),
        (''key_version'', JStr key_version),
        (''semantic_arguments'', JObj semantic_arguments),
        (''target'', target_binding_json target),
        (''tool_name'', JStr tool_name),
        (''tool_version'', JStr tool_version)])"

record envelope_reference =
  xr_investigation_id :: string
  xr_operation_id :: string
  xr_envelope_sha256 :: string

definition envelope_reference_ok :: "env \<Rightarrow> envelope_reference \<Rightarrow> bool" where
  "envelope_reference_ok E r \<longleftrightarrow>
     identifier_ok E (xr_investigation_id r) \<and> identifier_ok E (xr_operation_id r) \<and>
     sha256_digest_ok (xr_envelope_sha256 r)"

definition envelope_reference_json :: "envelope_reference \<Rightarrow> json" where
  "envelope_reference_json r = JObj
     [(''investigation_id'', JStr (xr_investigation_id r)),
      (''operation_id'', JStr (xr_operation_id r)),
      (''envelope_sha256'', JStr (xr_envelope_sha256 r))]"

record semantic_action =
  sa_key_version :: string
  sa_tool_name :: string
  sa_tool_version :: string
  sa_semantic_arguments :: json_object
  sa_target :: target_binding
  sa_expected_effect_sha256s :: "string list"
  sa_action_profile_version :: string
  sa_semantic_action_sha256 :: string

definition semantic_action_fields_ok :: "env \<Rightarrow> semantic_action \<Rightarrow> bool" where
  "semantic_action_fields_ok E a \<longleftrightarrow>
     identifier_ok E (sa_key_version a) \<and> identifier_ok E (sa_tool_name a) \<and>
     identifier_ok E (sa_tool_version a) \<and> json_object_ok E 0 64 (sa_semantic_arguments a) \<and>
     accepted (validate_target_binding E) (sa_target a) \<and>
     length_ok 1 64 (sa_expected_effect_sha256s a) \<and>
     list_all sha256_digest_ok (sa_expected_effect_sha256s a) \<and>
     identifier_ok E (sa_action_profile_version a) \<and> sha256_digest_ok (sa_semantic_action_sha256 a)"

definition validate_semantic_action :: "env \<Rightarrow> semantic_action \<Rightarrow> semantic_action result" where
  "validate_semantic_action E a =
     bind_result (checked
       [(\<not> semantic_action_fields_ok E a, field_message),
        (\<not> free_of_sensitive_keys E (JObj (sa_semantic_arguments a)), secret_keys_message),
        (\<not> free_of_sensitive_values E (JObj (sa_semantic_arguments a)), secret_values_message),
        (\<not> distinct (sa_expected_effect_sha256s a), ''semantic action effect digests must be unique'')] a) (\<lambda>a.
     bind_result (semantic_action_sha256 E (sa_key_version a) (sa_tool_name a) (sa_tool_version a)
       (sa_semantic_arguments a) (sa_target a) (sa_expected_effect_sha256s a) (sa_action_profile_version a))
       (\<lambda>expected. checked
         [(expected \<noteq> sa_semantic_action_sha256 a,
             ''semantic action digest does not match its trusted fields'')] a))"

definition semantic_action_json :: "semantic_action \<Rightarrow> json" where
  "semantic_action_json a = JObj
     [(''key_version'', JStr (sa_key_version a)),
      (''tool_name'', JStr (sa_tool_name a)),
      (''tool_version'', JStr (sa_tool_version a)),
      (''semantic_arguments'', JObj (sa_semantic_arguments a)),
      (''target'', target_binding_json (sa_target a)),
      (''expected_effect_sha256s'', strings_json (sa_expected_effect_sha256s a)),
      (''action_profile_version'', JStr (sa_action_profile_version a)),
      (''semantic_action_sha256'', JStr (sa_semantic_action_sha256 a))]"

record recovery_node =
  rn_node_id :: string
  rn_chain_profile_version :: string
  rn_semantic_action :: semantic_action
  rn_depends_on :: "string list"
  rn_envelope :: envelope_reference

definition recovery_node_fields_ok :: "env \<Rightarrow> recovery_node \<Rightarrow> bool" where
  "recovery_node_fields_ok E n \<longleftrightarrow>
     identifier_ok E (rn_node_id n) \<and> identifier_ok E (rn_chain_profile_version n) \<and>
     accepted (validate_semantic_action E) (rn_semantic_action n) \<and>
     length_ok 0 32 (rn_depends_on n) \<and> list_all (identifier_ok E) (rn_depends_on n) \<and>
     envelope_reference_ok E (rn_envelope n)"

definition validate_recovery_node :: "env \<Rightarrow> recovery_node \<Rightarrow> recovery_node result" where
  "validate_recovery_node E n = checked
     [(\<not> recovery_node_fields_ok E n, field_message),
      (\<not> distinct (rn_depends_on n), ''node dependencies must be unique''),
      (rn_node_id n \<in> set (rn_depends_on n), ''a recovery node cannot depend on itself'')] n"

definition recovery_node_json :: "recovery_node \<Rightarrow> json" where
  "recovery_node_json n = JObj
     [(''node_id'', JStr (rn_node_id n)),
      (''chain_profile_version'', JStr (rn_chain_profile_version n)),
      (''semantic_action'', semantic_action_json (rn_semantic_action n)),
      (''depends_on'', strings_json (rn_depends_on n)),
      (''envelope'', envelope_reference_json (rn_envelope n))]"

record recovery_chain =
  rc_chain_id :: string
  rc_chain_profile_version :: string
  rc_nodes :: "recovery_node list"
  rc_created_at :: time

definition recovery_chain_fields_ok :: "env \<Rightarrow> recovery_chain \<Rightarrow> bool" where
  "recovery_chain_fields_ok E c \<longleftrightarrow>
     identifier_ok E (rc_chain_id c) \<and> identifier_ok E (rc_chain_profile_version c) \<and>
     length_ok 1 32 (rc_nodes c) \<and> list_all (accepted (validate_recovery_node E)) (rc_nodes c) \<and>
     time_ok (rc_created_at c)"

text \<open>
  The search \<open>visit\<close> of \<open>RecoveryChain.validate_graph\<close>. The sets \<open>visiting\<close> and \<open>visited\<close> are
  lists; the set of visited nodes is threaded through the calls, and the node leaves \<open>visiting\<close>
  when its call returns. The code iterates over a set of dependencies, here in the order of the
  list: the verdict does not depend on the order (\<open>visit_all_acyclic\<close> below).
\<close>

definition unvisited_count :: "(string \<times> string list) list \<Rightarrow> string list \<Rightarrow> nat" where
  "unvisited_count dependencies visiting = card (fst ` set dependencies - set visiting)"

lemma unvisited_count_less:
  assumes "map_of dependencies node = Some ds" "node \<notin> set visiting"
  shows "unvisited_count dependencies (node # visiting) < unvisited_count dependencies visiting"
proof -
  have "node \<in> fst ` set dependencies" using assms(1) by (metis domI dom_map_of_conv_image_fst)
  then show ?thesis
    unfolding unvisited_count_def using assms(2) by (intro psubset_card_mono) auto
qed

function visit :: "(string \<times> string list) list \<Rightarrow> string list \<Rightarrow> string list \<Rightarrow> string \<Rightarrow> string list result"
  and visit_all :: "(string \<times> string list) list \<Rightarrow> string list \<Rightarrow> string list \<Rightarrow> string list \<Rightarrow> string list result" where
  "visit dependencies visiting visited node =
     (if node \<in> set visiting then Inl (ValueError ''recovery chain must be acyclic'')
      else if node \<in> set visited then Inr visited
      else case map_of dependencies node of
        None \<Rightarrow> Inl (KeyError node)
      | Some ds \<Rightarrow> bind_result (visit_all dependencies (node # visiting) visited ds)
          (\<lambda>visited'. Inr (node # visited')))"
| "visit_all dependencies visiting visited [] = Inr visited"
| "visit_all dependencies visiting visited (d # ds) =
     bind_result (visit dependencies visiting visited d)
       (\<lambda>visited'. visit_all dependencies visiting visited' ds)"
  by pat_completeness auto

termination
  by (relation "measures
     [\<lambda>a. case a of Inl (dependencies, visiting, _, _) \<Rightarrow> unvisited_count dependencies visiting
        | Inr (dependencies, visiting, _, _) \<Rightarrow> unvisited_count dependencies visiting,
      \<lambda>a. case a of Inl _ \<Rightarrow> 0 | Inr (_, _, _, ds) \<Rightarrow> Suc (length ds)]")
    (auto simp: unvisited_count_less)

declare visit.simps [simp del]

definition chain_dependencies :: "recovery_chain \<Rightarrow> (string \<times> string list) list" where
  "chain_dependencies c = map (\<lambda>n. (rn_node_id n, rn_depends_on n)) (rc_nodes c)"

definition validate_recovery_chain :: "env \<Rightarrow> recovery_chain \<Rightarrow> recovery_chain result" where
  "validate_recovery_chain E c =
     bind_result (checked
       [(\<not> recovery_chain_fields_ok E c, field_message),
        (\<not> distinct (map rn_node_id (rc_nodes c)), ''recovery node identifiers must be unique''),
        (\<not> distinct (map (\<lambda>n. sa_semantic_action_sha256 (rn_semantic_action n)) (rc_nodes c)),
           ''recovery semantic action keys must be unique''),
        (\<not> distinct (map (\<lambda>n. (xr_investigation_id (rn_envelope n), xr_operation_id (rn_envelope n),
             xr_envelope_sha256 (rn_envelope n))) (rc_nodes c)),
           ''recovery envelope references must be unique''),
        (list_ex (\<lambda>n. rn_chain_profile_version n \<noteq> rc_chain_profile_version c) (rc_nodes c),
           ''node chain profile versions must match the chain''),
        (list_ex (\<lambda>n. list_ex (\<lambda>d. d \<notin> set (map rn_node_id (rc_nodes c))) (rn_depends_on n)) (rc_nodes c),
           ''recovery node references a missing dependency'')] c) (\<lambda>c.
     bind_result (visit_all (chain_dependencies c) [] [] (map rn_node_id (rc_nodes c))) (\<lambda>_. Inr c))"

definition recovery_chain_json :: "recovery_chain \<Rightarrow> json" where
  "recovery_chain_json c = JObj
     [(''schema_version'', JStr ''reconcile/recovery-chain/v1''),
      (''chain_id'', JStr (rc_chain_id c)),
      (''chain_profile_version'', JStr (rc_chain_profile_version c)),
      (''nodes'', JArr (map recovery_node_json (rc_nodes c))),
      (''created_at'', time_json (rc_created_at c))]"

section \<open>A chain is accepted exactly when its dependencies are acyclic\<close>

definition dependency_relation :: "(string \<times> string list) list \<Rightarrow> (string \<times> string) set" where
  "dependency_relation dependencies = {(n, d). \<exists>ds. map_of dependencies n = Some ds \<and> d \<in> set ds}"

definition settled :: "(string \<times> string list) list \<Rightarrow> string set \<Rightarrow> bool" where
  "settled dependencies V \<longleftrightarrow>
     (\<forall>n\<in>V. map_of dependencies n \<noteq> None) \<and>
     (\<forall>(n, d) \<in> dependency_relation dependencies. n \<in> V \<longrightarrow> d \<in> V) \<and>
     (\<forall>n\<in>V. (n, n) \<notin> (dependency_relation dependencies)\<^sup>+)"

lemma settled_closed:
  assumes "settled dependencies V" "(m, n) \<in> (dependency_relation dependencies)\<^sup>*" "m \<in> V"
  shows "n \<in> V"
  using assms(2,3,1) by (induction rule: rtrancl_induct) (auto simp: settled_def)

lemma settled_insert:
  assumes "settled dependencies V" "map_of dependencies n = Some ds" "set ds \<subseteq> V" "n \<notin> V"
  shows "settled dependencies (insert n V)"
proof -
  let ?R = "dependency_relation dependencies"
  have succ: "d \<in> V" if "(n, d) \<in> ?R" for d
    using that assms(2,3) by (auto simp: dependency_relation_def)
  have "(n, n) \<notin> ?R\<^sup>+"
  proof
    assume "(n, n) \<in> ?R\<^sup>+"
    then obtain d where "(n, d) \<in> ?R" "(d, n) \<in> ?R\<^sup>*" by (blast dest: tranclD)
    then have "n \<in> V" using settled_closed [OF assms(1)] succ by blast
    with assms(4) show False ..
  qed
  then show ?thesis using assms(1,2) succ by (auto simp: settled_def)
qed

lemma visit_settles:
  "visit dependencies visiting visited node = Inr visited' \<Longrightarrow>
     settled dependencies (set visited) \<Longrightarrow> set visited \<inter> set visiting = {} \<Longrightarrow>
     settled dependencies (set visited') \<and> set visited \<subseteq> set visited' \<and> node \<in> set visited' \<and>
     set visited' \<inter> set visiting = {}"
  "visit_all dependencies visiting visited ds = Inr visited' \<Longrightarrow>
     settled dependencies (set visited) \<Longrightarrow> set visited \<inter> set visiting = {} \<Longrightarrow>
     settled dependencies (set visited') \<and> set visited \<subseteq> set visited' \<and> set ds \<subseteq> set visited' \<and>
     set visited' \<inter> set visiting = {}"
proof (induction dependencies visiting visited node and dependencies visiting visited ds
    arbitrary: visited' and visited' rule: visit_visit_all.induct)
  case (1 dependencies visiting visited node)
  show ?case
  proof (cases "node \<in> set visited")
    case False
    with 1(2) obtain ds v where ds: "map_of dependencies node = Some ds" "node \<notin> set visiting"
        and v: "visit_all dependencies (node # visiting) visited ds = Inr v" "visited' = node # v"
      by (auto simp: visit.simps split: if_splits option.splits)
    have "settled dependencies (set v) \<and> set visited \<subseteq> set v \<and> set ds \<subseteq> set v \<and>
        set v \<inter> set (node # visiting) = {}"
      using 1(1) [OF ds(2) False ds(1) v(1) 1(3)] 1(4) False by simp
    moreover from this have "settled dependencies (insert node (set v))"
      by (intro settled_insert [OF _ ds(1)]) auto
    ultimately show ?thesis using v(2) ds(2) by auto
  qed (use 1 in \<open>auto simp: visit.simps split: if_splits\<close>)
next
  case (3 dependencies visiting visited d ds)
  then obtain v where v: "visit dependencies visiting visited d = Inr v"
      "visit_all dependencies visiting v ds = Inr visited'" by auto
  have first: "settled dependencies (set v) \<and> set visited \<subseteq> set v \<and> d \<in> set v \<and> set v \<inter> set visiting = {}"
    using 3(1) [OF v(1) 3(4,5)] .
  then have "settled dependencies (set visited') \<and> set v \<subseteq> set visited' \<and> set ds \<subseteq> set visited' \<and>
      set visited' \<inter> set visiting = {}"
    using 3(2) [OF v(2)] by simp
  with first show ?case by auto
qed auto

lemma visit_error:
  "visit dependencies visiting visited node = Inl e \<Longrightarrow>
     \<forall>x\<in>set visiting. (x, node) \<in> (dependency_relation dependencies)\<^sup>+ \<Longrightarrow>
     map_of dependencies node \<noteq> None \<Longrightarrow>
     \<forall>(n, d) \<in> dependency_relation dependencies. map_of dependencies d \<noteq> None \<Longrightarrow>
     \<not> acyclic (dependency_relation dependencies)"
  "visit_all dependencies visiting visited ds = Inl e \<Longrightarrow>
     \<forall>x\<in>set visiting. \<forall>d\<in>set ds. (x, d) \<in> (dependency_relation dependencies)\<^sup>+ \<Longrightarrow>
     \<forall>d\<in>set ds. map_of dependencies d \<noteq> None \<Longrightarrow>
     \<forall>(n, d) \<in> dependency_relation dependencies. map_of dependencies d \<noteq> None \<Longrightarrow>
     \<not> acyclic (dependency_relation dependencies)"
proof (induction dependencies visiting visited node and dependencies visiting visited ds
    arbitrary: e and e rule: visit_visit_all.induct)
  case (1 dependencies visiting visited node)
  let ?R = "dependency_relation dependencies"
  show ?case
  proof (cases "node \<in> set visiting")
    case True
    with 1(3) show ?thesis by (auto simp: acyclic_def)
  next
    case False
    obtain ds where ds: "map_of dependencies node = Some ds" using 1(4) by auto
    with False 1(2) have v: "node \<notin> set visited" "visit_all dependencies (node # visiting) visited ds = Inl e"
      by (auto simp: visit.simps bind_result_def split: if_splits sum.splits)
    have step: "(node, d) \<in> ?R" if "d \<in> set ds" for d
      using ds that by (auto simp: dependency_relation_def)
    have "\<forall>x\<in>set (node # visiting). \<forall>d\<in>set ds. (x, d) \<in> ?R\<^sup>+"
      using 1(3) step by (auto intro: trancl_into_trancl)
    moreover have "\<forall>d\<in>set ds. map_of dependencies d \<noteq> None" using 1(5) step by blast
    ultimately show ?thesis by (rule 1(1) [OF False v(1) ds v(2) _ _ 1(5)])
  qed
next
  case (3 dependencies visiting visited d ds)
  show ?case
  proof (cases "visit dependencies visiting visited d")
    case (Inl e')
    then show ?thesis using 3(1) [OF Inl _ _ 3(6)] 3(4,5) by simp
  next
    case (Inr v)
    then show ?thesis using 3(2) [OF _ _ _ 3(6)] 3(3-5) by simp
  qed
qed simp

lemma visit_all_acyclic:
  assumes "\<forall>(n, d) \<in> dependency_relation dependencies. d \<in> fst ` set dependencies"
  shows "(\<exists>visited. visit_all dependencies [] [] (map fst dependencies) = Inr visited) \<longleftrightarrow>
    acyclic (dependency_relation dependencies)"
proof
  assume "\<exists>visited. visit_all dependencies [] [] (map fst dependencies) = Inr visited"
  then obtain visited where "settled dependencies (set visited)" "fst ` set dependencies \<subseteq> set visited"
    using visit_settles(2) [of dependencies "[]" "[]" "map fst dependencies"]
    by (auto simp: settled_def)
  moreover have "x \<in> fst ` set dependencies" if cycle: "(x, x) \<in> (dependency_relation dependencies)\<^sup>+" for x
  proof -
    obtain d where "(x, d) \<in> dependency_relation dependencies" using tranclD [OF cycle] by blast
    then show ?thesis by (auto simp: dependency_relation_def dest: map_of_SomeD intro: rev_image_eqI)
  qed
  ultimately show "acyclic (dependency_relation dependencies)"
    unfolding acyclic_def settled_def by (meson subsetD)
next
  assume acyclic: "acyclic (dependency_relation dependencies)"
  have known: "map_of dependencies d \<noteq> None" if "d \<in> fst ` set dependencies" for d
    using that by (simp add: map_of_eq_None_iff)
  show "\<exists>visited. visit_all dependencies [] [] (map fst dependencies) = Inr visited"
  proof (cases "visit_all dependencies [] [] (map fst dependencies)")
    case (Inl e)
    from visit_error(2) [OF this] assms known acyclic show ?thesis by fastforce
  qed auto
qed

lemma chain_dependencies_known:
  assumes "set (concat (map rn_depends_on (rc_nodes c))) \<subseteq> set (map rn_node_id (rc_nodes c))"
  shows "\<forall>(n, d) \<in> dependency_relation (chain_dependencies c). d \<in> fst ` set (chain_dependencies c)"
proof (rule ballI, clarify)
  fix n d
  assume "(n, d) \<in> dependency_relation (chain_dependencies c)"
  then obtain ds where "(n, ds) \<in> set (chain_dependencies c)" "d \<in> set ds"
    by (auto simp: dependency_relation_def dest: map_of_SomeD)
  then obtain x where "x \<in> set (rc_nodes c)" "d \<in> set (rn_depends_on x)"
    by (auto simp: chain_dependencies_def)
  then have "d \<in> set (concat (map rn_depends_on (rc_nodes c)))" by auto
  with assms have "d \<in> set (map rn_node_id (rc_nodes c))" by blast
  moreover have "map fst (chain_dependencies c) = map rn_node_id (rc_nodes c)"
    by (simp add: chain_dependencies_def)
  ultimately show "d \<in> fst ` set (chain_dependencies c)" by (metis list.set_map)
qed

lemma validate_recovery_chain_eq:
  "validate_recovery_chain E c = Inr c' \<longleftrightarrow>
     c' = c \<and> recovery_chain_fields_ok E c \<and> distinct (map rn_node_id (rc_nodes c)) \<and>
     distinct (map (\<lambda>n. sa_semantic_action_sha256 (rn_semantic_action n)) (rc_nodes c)) \<and>
     distinct (map (\<lambda>n. (xr_investigation_id (rn_envelope n), xr_operation_id (rn_envelope n),
       xr_envelope_sha256 (rn_envelope n))) (rc_nodes c)) \<and>
     set (map rn_chain_profile_version (rc_nodes c)) \<subseteq> {rc_chain_profile_version c} \<and>
     set (concat (map rn_depends_on (rc_nodes c))) \<subseteq> set (map rn_node_id (rc_nodes c)) \<and>
     acyclic (dependency_relation (chain_dependencies c))"
proof -
  let ?ids = "map rn_node_id (rc_nodes c)"
  have ids: "map fst (chain_dependencies c) = ?ids"
    by (simp add: chain_dependencies_def)
  have profiles: "list_ex (\<lambda>n. rn_chain_profile_version n \<noteq> rc_chain_profile_version c) (rc_nodes c) \<longleftrightarrow>
      \<not> set (map rn_chain_profile_version (rc_nodes c)) \<subseteq> {rc_chain_profile_version c}"
    by (auto simp: list_ex_iff)
  have deps: "list_ex (\<lambda>n. list_ex (\<lambda>d. d \<notin> set ?ids) (rn_depends_on n)) (rc_nodes c) \<longleftrightarrow>
      \<not> set (concat (map rn_depends_on (rc_nodes c))) \<subseteq> set ?ids"
    by (auto simp: list_ex_iff)
  have search: "(\<exists>v. visit_all (chain_dependencies c) [] [] ?ids = Inr v) \<longleftrightarrow>
      acyclic (dependency_relation (chain_dependencies c))"
    if "set (concat (map rn_depends_on (rc_nodes c))) \<subseteq> set ?ids"
    using visit_all_acyclic [OF chain_dependencies_known [OF that]] ids by simp
  have one: "(\<exists>x. (x = c \<and> P) \<and> (\<exists>v. f x = Inr v \<and> (Inr x :: recovery_chain result) = Inr c')) \<longleftrightarrow>
      c' = c \<and> P \<and> (\<exists>v. f c = Inr v)" for P and f :: "recovery_chain \<Rightarrow> string list result"
    by auto
  have "validate_recovery_chain E c = Inr c' \<longleftrightarrow>
      c' = c \<and> list_all (\<lambda>(bad, _). \<not> bad)
       [(\<not> recovery_chain_fields_ok E c, field_message),
        (\<not> distinct ?ids, ''recovery node identifiers must be unique''),
        (\<not> distinct (map (\<lambda>n. sa_semantic_action_sha256 (rn_semantic_action n)) (rc_nodes c)),
           ''recovery semantic action keys must be unique''),
        (\<not> distinct (map (\<lambda>n. (xr_investigation_id (rn_envelope n), xr_operation_id (rn_envelope n),
             xr_envelope_sha256 (rn_envelope n))) (rc_nodes c)),
           ''recovery envelope references must be unique''),
        (\<not> set (map rn_chain_profile_version (rc_nodes c)) \<subseteq> {rc_chain_profile_version c},
           ''node chain profile versions must match the chain''),
        (\<not> set (concat (map rn_depends_on (rc_nodes c))) \<subseteq> set ?ids,
           ''recovery node references a missing dependency'')] \<and>
      (\<exists>v. visit_all (chain_dependencies c) [] [] ?ids = Inr v)"
    unfolding validate_recovery_chain_def profiles deps bind_result_eq_Inr checked_eq_Inr by (rule one)
  moreover have "set (concat (map rn_depends_on (rc_nodes c))) \<subseteq> set ?ids \<longrightarrow>
      (\<exists>v. visit_all (chain_dependencies c) [] [] ?ids = Inr v) = acyclic (dependency_relation (chain_dependencies c))"
    using search by blast
  ultimately show ?thesis
    unfolding list.pred_inject(2) eqTrueI [OF list.pred_inject(1)] prod.case not_not by argo
qed

section \<open>Hypotheses and histories\<close>

record hypothesized_effect =
  he_effect_id :: string
  he_state :: effect_assertion_state
  he_cited_evidence_ids :: "string list"

definition validate_hypothesized_effect :: "env \<Rightarrow> hypothesized_effect \<Rightarrow> hypothesized_effect result" where
  "validate_hypothesized_effect E e = checked
     [(\<not> (identifier_ok E (he_effect_id e) \<and> length_ok 0 64 (he_cited_evidence_ids e) \<and>
          list_all (identifier_ok E) (he_cited_evidence_ids e)), field_message),
      (\<not> distinct (he_cited_evidence_ids e), ''effect hypothesis citations must be unique'')] e"

definition hypothesized_effect_json :: "hypothesized_effect \<Rightarrow> json" where
  "hypothesized_effect_json e = JObj
     [(''effect_id'', JStr (he_effect_id e)),
      (''state'', JStr (effect_assertion_state_text (he_state e))),
      (''cited_evidence_ids'', strings_json (he_cited_evidence_ids e))]"

record possible_history =
  ph_history_id :: string
  ph_classification :: classification
  ph_effect_states :: "hypothesized_effect list"
  ph_compatible_evidence_ids :: "string list"
  ph_summary :: string

definition possible_history_fields_ok :: "env \<Rightarrow> possible_history \<Rightarrow> bool" where
  "possible_history_fields_ok E h \<longleftrightarrow>
     identifier_ok E (ph_history_id h) \<and> length_ok 1 64 (ph_effect_states h) \<and>
     list_all (accepted (validate_hypothesized_effect E)) (ph_effect_states h) \<and>
     length_ok 0 64 (ph_compatible_evidence_ids h) \<and>
     list_all (identifier_ok E) (ph_compatible_evidence_ids h) \<and> non_empty_text_ok E (ph_summary h)"

definition validate_possible_history :: "env \<Rightarrow> possible_history \<Rightarrow> possible_history result" where
  "validate_possible_history E h =
     (let states = map he_state (ph_effect_states h) in checked
     [(\<not> possible_history_fields_ok E h, field_message),
      (\<not> distinct (map he_effect_id (ph_effect_states h)), ''history effect identifiers must be unique''),
      (\<not> distinct (ph_compatible_evidence_ids h), ''history evidence identifiers must be unique''),
      (\<not> list_all (\<lambda>e. set (he_cited_evidence_ids e) \<subseteq> set (ph_compatible_evidence_ids h)) (ph_effect_states h),
         ''history effect citations must be compatible evidence''),
      (ph_classification h = COMMITTED \<and> list_ex (\<lambda>s. s \<noteq> ESTABLISHED) states,
         ''COMMITTED history requires every effect established''),
      (ph_classification h = NOT_COMMITTED \<and> list_ex (\<lambda>s. s \<noteq> NOT_ESTABLISHED) states,
         ''NOT_COMMITTED history requires every effect absent''),
      (ph_classification h = PARTIAL \<and>
       (UNVERIFIED \<in> set states \<or> ESTABLISHED \<notin> set states \<or> NOT_ESTABLISHED \<notin> set states),
         ''PARTIAL history requires a complete mixed effect state''),
      (ph_classification h = PENDING \<and> UNVERIFIED \<notin> set states,
         ''PENDING history requires an unresolved effect'')] h)"

definition possible_history_json :: "possible_history \<Rightarrow> json" where
  "possible_history_json h = JObj
     [(''history_id'', JStr (ph_history_id h)),
      (''classification'', JStr (classification_text (ph_classification h))),
      (''effect_states'', JArr (map hypothesized_effect_json (ph_effect_states h))),
      (''compatible_evidence_ids'', strings_json (ph_compatible_evidence_ids h)),
      (''summary'', JStr (ph_summary h))]"

record missing_evidence =
  me_effect_ids :: "string list"
  me_reason :: string

definition validate_missing_evidence :: "env \<Rightarrow> missing_evidence \<Rightarrow> missing_evidence result" where
  "validate_missing_evidence E m = checked
     [(\<not> (length_ok 1 64 (me_effect_ids m) \<and> list_all (identifier_ok E) (me_effect_ids m) \<and>
          non_empty_text_ok E (me_reason m)), field_message),
      (\<not> distinct (me_effect_ids m), ''missing-evidence effect identifiers must be unique'')] m"

datatype permit_action = PA_CONTINUE | PA_RETRY

fun permit_action_text :: "permit_action \<Rightarrow> string" where
  "permit_action_text PA_CONTINUE = ''CONTINUE''"
| "permit_action_text PA_RETRY = ''RETRY''"

record proposed_transition =
  pt_action :: permit_action
  pt_source_node_id :: string
  pt_target_node_id :: string
  pt_rationale :: string

definition validate_proposed_transition :: "env \<Rightarrow> proposed_transition \<Rightarrow> proposed_transition result" where
  "validate_proposed_transition E t = checked
     [(\<not> (identifier_ok E (pt_source_node_id t) \<and> identifier_ok E (pt_target_node_id t) \<and>
          non_empty_text_ok E (pt_rationale t)), field_message),
      (pt_action t = PA_RETRY \<and> pt_target_node_id t \<noteq> pt_source_node_id t,
         ''a retry proposal must target its source node''),
      (pt_action t = PA_CONTINUE \<and> pt_target_node_id t = pt_source_node_id t,
         ''a continuation proposal must target a successor node'')] t"

record gemini_hypothesis =
  gh_hypothesis_id :: string
  gh_chain_id :: string
  gh_node_id :: string
  gh_semantic_action_sha256 :: string
  gh_report_sha256 :: string
  gh_proposed_classification :: classification
  gh_effect_hypotheses :: "hypothesized_effect list"
  gh_cited_evidence_ids :: "string list"
  gh_confidence_basis_points :: int
  gh_alternative_histories :: "possible_history list"
  gh_missing_evidence :: "missing_evidence list"
  gh_proposed_probe :: "probe_request option"
  gh_proposed_transition :: "proposed_transition option"
  gh_explanation :: string
  gh_created_at :: time

definition gemini_hypothesis_fields_ok :: "env \<Rightarrow> gemini_hypothesis \<Rightarrow> bool" where
  "gemini_hypothesis_fields_ok E h \<longleftrightarrow>
     list_all (identifier_ok E) [gh_hypothesis_id h, gh_chain_id h, gh_node_id h] \<and>
     sha256_digest_ok (gh_semantic_action_sha256 h) \<and> sha256_digest_ok (gh_report_sha256 h) \<and>
     length_ok 1 64 (gh_effect_hypotheses h) \<and>
     list_all (accepted (validate_hypothesized_effect E)) (gh_effect_hypotheses h) \<and>
     length_ok 0 64 (gh_cited_evidence_ids h) \<and> list_all (identifier_ok E) (gh_cited_evidence_ids h) \<and>
     0 \<le> gh_confidence_basis_points h \<and> gh_confidence_basis_points h \<le> 10000 \<and>
     length_ok 0 8 (gh_alternative_histories h) \<and>
     list_all (accepted (validate_possible_history E)) (gh_alternative_histories h) \<and>
     length_ok 0 64 (gh_missing_evidence h) \<and>
     list_all (accepted (validate_missing_evidence E)) (gh_missing_evidence h) \<and>
     option_ok (accepted (validate_probe_request E)) (gh_proposed_probe h) \<and>
     option_ok (accepted (validate_proposed_transition E)) (gh_proposed_transition h) \<and>
     non_empty_text_ok E (gh_explanation h) \<and> time_ok (gh_created_at h)"

definition validate_gemini_hypothesis :: "env \<Rightarrow> gemini_hypothesis \<Rightarrow> gemini_hypothesis result" where
  "validate_gemini_hypothesis E h =
     (let referenced = concat (map he_cited_evidence_ids (gh_effect_hypotheses h)) @
        concat (map ph_compatible_evidence_ids (gh_alternative_histories h)) in checked
     [(\<not> gemini_hypothesis_fields_ok E h, field_message),
      (\<not> distinct (map he_effect_id (gh_effect_hypotheses h)),
         ''hypothesis effect identifiers must be unique''),
      (\<not> distinct (gh_cited_evidence_ids h), ''hypothesis evidence citations must be unique''),
      (\<not> distinct (map ph_history_id (gh_alternative_histories h)),
         ''alternative history identifiers must be unique''),
      (\<not> distinct (concat (map me_effect_ids (gh_missing_evidence h))),
         ''missing-evidence effect identifiers must be unique''),
      (gh_proposed_probe h \<noteq> None \<and> gh_proposed_transition h \<noteq> None,
         ''a hypothesis may propose one probe or one action, not both''),
      (\<not> set referenced \<subseteq> set (gh_cited_evidence_ids h),
         ''hypothesis details cite undeclared evidence''),
      (gh_cited_evidence_ids h = [] \<and> gh_missing_evidence h = [],
         ''a hypothesis requires evidence citations or missing evidence''),
      (\<not> option_ok (\<lambda>t. pt_source_node_id t = gh_node_id h) (gh_proposed_transition h),
         ''a proposed transition must start at the bound node''),
      (\<not> option_ok (\<lambda>p. set (pq_relevant_effect_ids p) \<subseteq> set (map he_effect_id (gh_effect_hypotheses h)))
           (gh_proposed_probe h),
         ''a proposed probe references an unknown effect'')] h)"

section \<open>Certificates\<close>

record evidence_binding =
  eb_evidence_id :: string
  eb_evidence_sha256 :: string
  eb_raw_observation_sha256 :: string
  eb_valid_until :: time

definition evidence_binding_ok :: "env \<Rightarrow> evidence_binding \<Rightarrow> bool" where
  "evidence_binding_ok E b \<longleftrightarrow>
     identifier_ok E (eb_evidence_id b) \<and> sha256_digest_ok (eb_evidence_sha256 b) \<and>
     sha256_digest_ok (eb_raw_observation_sha256 b) \<and> time_ok (eb_valid_until b)"

definition evidence_binding_json :: "evidence_binding \<Rightarrow> json" where
  "evidence_binding_json b = JObj
     [(''evidence_id'', JStr (eb_evidence_id b)),
      (''evidence_sha256'', JStr (eb_evidence_sha256 b)),
      (''raw_observation_sha256'', JStr (eb_raw_observation_sha256 b)),
      (''valid_until'', time_json (eb_valid_until b))]"

record certified_transition =
  ct_action :: permit_action
  ct_source_node_id :: string
  ct_target_node_id :: string
  ct_semantic_action_sha256 :: string
  ct_tool_name :: string
  ct_tool_version :: string
  ct_arguments_sha256 :: string
  ct_target_sha256 :: string
  ct_precondition_sha256 :: string

definition certified_transition_fields_ok :: "env \<Rightarrow> certified_transition \<Rightarrow> bool" where
  "certified_transition_fields_ok E t \<longleftrightarrow>
     list_all (identifier_ok E) [ct_source_node_id t, ct_target_node_id t, ct_tool_name t, ct_tool_version t] \<and>
     list_all sha256_digest_ok [ct_semantic_action_sha256 t, ct_arguments_sha256 t, ct_target_sha256 t,
       ct_precondition_sha256 t]"

definition validate_certified_transition :: "env \<Rightarrow> certified_transition \<Rightarrow> certified_transition result" where
  "validate_certified_transition E t = checked
     [(\<not> certified_transition_fields_ok E t, field_message),
      (ct_action t = PA_RETRY \<and> ct_target_node_id t \<noteq> ct_source_node_id t,
         ''a retry transition must target its source node''),
      (ct_action t = PA_CONTINUE \<and> ct_target_node_id t = ct_source_node_id t,
         ''a continuation transition must target a successor node'')] t"

definition certified_transition_json :: "certified_transition \<Rightarrow> json" where
  "certified_transition_json t = JObj
     [(''action'', JStr (permit_action_text (ct_action t))),
      (''source_node_id'', JStr (ct_source_node_id t)),
      (''target_node_id'', JStr (ct_target_node_id t)),
      (''semantic_action_sha256'', JStr (ct_semantic_action_sha256 t)),
      (''tool_name'', JStr (ct_tool_name t)),
      (''tool_version'', JStr (ct_tool_version t)),
      (''arguments_sha256'', JStr (ct_arguments_sha256 t)),
      (''target_sha256'', JStr (ct_target_sha256 t)),
      (''precondition_sha256'', JStr (ct_precondition_sha256 t))]"

text \<open>
  The three fields \<open>..._satisfied\<close> of a certificate are the literal \<open>True\<close> and are written by
  the dump; the record does not carry them.
\<close>

record certificate =
  vc_certificate_id :: string
  vc_chain_id :: string
  vc_node_id :: string
  vc_semantic_action_sha256 :: string
  vc_chain_sha256 :: string
  vc_node_sha256 :: string
  vc_envelope_sha256 :: string
  vc_report_sha256 :: string
  vc_proof_sha256 :: string
  vc_target :: target_binding
  vc_target_sha256 :: string
  vc_evidence :: "evidence_binding list"
  vc_authority_policy_version :: string
  vc_correlation_policy_version :: string
  vc_freshness_policy_version :: string
  vc_classification_policy_version :: string
  vc_action_policy_version :: string
  vc_action_profile_version :: string
  vc_verifier_version :: string
  vc_classification :: classification
  vc_transition :: "certified_transition option"
  vc_issued_at :: time
  vc_expires_at :: time

definition certificate_fields_ok :: "env \<Rightarrow> certificate \<Rightarrow> bool" where
  "certificate_fields_ok E c \<longleftrightarrow>
     list_all (identifier_ok E)
       [vc_certificate_id c, vc_chain_id c, vc_node_id c, vc_authority_policy_version c,
        vc_correlation_policy_version c, vc_freshness_policy_version c, vc_classification_policy_version c,
        vc_action_policy_version c, vc_action_profile_version c, vc_verifier_version c] \<and>
     list_all sha256_digest_ok
       [vc_semantic_action_sha256 c, vc_chain_sha256 c, vc_node_sha256 c, vc_envelope_sha256 c,
        vc_report_sha256 c, vc_proof_sha256 c, vc_target_sha256 c] \<and>
     accepted (validate_target_binding E) (vc_target c) \<and>
     length_ok 1 64 (vc_evidence c) \<and> list_all (evidence_binding_ok E) (vc_evidence c) \<and>
     option_ok (accepted (validate_certified_transition E)) (vc_transition c) \<and>
     time_ok (vc_issued_at c) \<and> time_ok (vc_expires_at c)"

text \<open>The action that a classification can authorise.\<close>

fun authorised_action :: "classification \<Rightarrow> permit_action option" where
  "authorised_action COMMITTED = Some PA_CONTINUE"
| "authorised_action NOT_COMMITTED = Some PA_RETRY"
| "authorised_action _ = None"

definition validate_certificate :: "env \<Rightarrow> certificate \<Rightarrow> certificate result" where
  "validate_certificate E c = checked
     [(\<not> certificate_fields_ok E c, field_message),
      (vc_target_sha256 c \<noteq> canonical_sha256 E (target_binding_json (vc_target c)),
         ''certificate target digest does not match its target''),
      (vc_expires_at c \<le> vc_issued_at c, ''certificate validity interval must be nonempty''),
      (\<not> distinct (map eb_evidence_id (vc_evidence c)), ''certificate evidence identifiers must be unique''),
      (\<not> distinct (map eb_evidence_sha256 (vc_evidence c)), ''certificate evidence digests must be unique''),
      (vc_evidence c \<noteq> [] \<and> Min (set (map eb_valid_until (vc_evidence c))) < vc_expires_at c,
         ''certificate outlives supporting evidence''),
      (vc_classification c = UNKNOWN, ''UNKNOWN requires an ambiguity witness''),
      (\<not> option_ok (\<lambda>t. ct_source_node_id t = vc_node_id c) (vc_transition c),
         ''certificate transition must start at the bound node''),
      (\<not> option_ok (\<lambda>t. authorised_action (vc_classification c) = Some (ct_action t)) (vc_transition c),
         ''classification cannot authorize this transition'')] c"

definition certificate_json :: "certificate \<Rightarrow> json" where
  "certificate_json c = JObj
     [(''schema_version'', JStr ''reconcile/verified-certificate/v1''),
      (''certificate_id'', JStr (vc_certificate_id c)),
      (''chain_id'', JStr (vc_chain_id c)),
      (''node_id'', JStr (vc_node_id c)),
      (''semantic_action_sha256'', JStr (vc_semantic_action_sha256 c)),
      (''chain_sha256'', JStr (vc_chain_sha256 c)),
      (''node_sha256'', JStr (vc_node_sha256 c)),
      (''envelope_sha256'', JStr (vc_envelope_sha256 c)),
      (''report_sha256'', JStr (vc_report_sha256 c)),
      (''proof_sha256'', JStr (vc_proof_sha256 c)),
      (''target'', target_binding_json (vc_target c)),
      (''target_sha256'', JStr (vc_target_sha256 c)),
      (''evidence'', JArr (map evidence_binding_json (vc_evidence c))),
      (''authority_satisfied'', JBool True),
      (''correlation_satisfied'', JBool True),
      (''freshness_satisfied'', JBool True),
      (''authority_policy_version'', JStr (vc_authority_policy_version c)),
      (''correlation_policy_version'', JStr (vc_correlation_policy_version c)),
      (''freshness_policy_version'', JStr (vc_freshness_policy_version c)),
      (''classification_policy_version'', JStr (vc_classification_policy_version c)),
      (''action_policy_version'', JStr (vc_action_policy_version c)),
      (''action_profile_version'', JStr (vc_action_profile_version c)),
      (''verifier_version'', JStr (vc_verifier_version c)),
      (''classification'', JStr (classification_text (vc_classification c))),
      (''transition'', option_json certified_transition_json (vc_transition c)),
      (''issued_at'', time_json (vc_issued_at c)),
      (''expires_at'', time_json (vc_expires_at c))]"

section \<open>Ambiguity witnesses\<close>

record discriminating_observation =
  do_observation_id :: string
  do_description :: string
  do_capability_name :: "string option"
  do_capability_version :: "string option"
  do_relevant_effect_ids :: "string list"
  do_distinguishes_history_ids :: "string list"

definition discriminating_observation_fields_ok :: "env \<Rightarrow> discriminating_observation \<Rightarrow> bool" where
  "discriminating_observation_fields_ok E d \<longleftrightarrow>
     identifier_ok E (do_observation_id d) \<and> non_empty_text_ok E (do_description d) \<and>
     option_ok (identifier_ok E) (do_capability_name d) \<and>
     option_ok (identifier_ok E) (do_capability_version d) \<and>
     length_ok 0 64 (do_relevant_effect_ids d) \<and> list_all (identifier_ok E) (do_relevant_effect_ids d) \<and>
     length_ok 2 8 (do_distinguishes_history_ids d) \<and>
     list_all (identifier_ok E) (do_distinguishes_history_ids d)"

definition validate_discriminating_observation ::
  "env \<Rightarrow> discriminating_observation \<Rightarrow> discriminating_observation result" where
  "validate_discriminating_observation E d = checked
     [(\<not> discriminating_observation_fields_ok E d, field_message),
      ((do_capability_name d = None) \<noteq> (do_capability_version d = None),
         ''discriminating capability identity must be complete''),
      (\<not> distinct (do_relevant_effect_ids d), ''discriminating effect identifiers must be unique''),
      (\<not> distinct (do_distinguishes_history_ids d), ''distinguished history identifiers must be unique'')] d"

definition discriminating_observation_json :: "discriminating_observation \<Rightarrow> json" where
  "discriminating_observation_json d = JObj
     [(''observation_id'', JStr (do_observation_id d)),
      (''description'', JStr (do_description d)),
      (''capability_name'', option_json JStr (do_capability_name d)),
      (''capability_version'', option_json JStr (do_capability_version d)),
      (''relevant_effect_ids'', strings_json (do_relevant_effect_ids d)),
      (''distinguishes_history_ids'', strings_json (do_distinguishes_history_ids d))]"

record ambiguity_witness =
  aw_witness_id :: string
  aw_chain_id :: string
  aw_node_id :: string
  aw_semantic_action_sha256 :: string
  aw_chain_sha256 :: string
  aw_node_sha256 :: string
  aw_envelope_sha256 :: string
  aw_report_sha256 :: string
  aw_proof_sha256 :: string
  aw_target :: target_binding
  aw_target_sha256 :: string
  aw_evidence :: "evidence_binding list"
  aw_possible_histories :: "possible_history list"
  aw_discriminating_observations :: "discriminating_observation list"
  aw_conflicting_evidence_ids :: "string list"
  aw_verifier_version :: string
  aw_created_at :: time

definition ambiguity_witness_fields_ok :: "env \<Rightarrow> ambiguity_witness \<Rightarrow> bool" where
  "ambiguity_witness_fields_ok E w \<longleftrightarrow>
     list_all (identifier_ok E) [aw_witness_id w, aw_chain_id w, aw_node_id w, aw_verifier_version w] \<and>
     list_all sha256_digest_ok
       [aw_semantic_action_sha256 w, aw_chain_sha256 w, aw_node_sha256 w, aw_envelope_sha256 w,
        aw_report_sha256 w, aw_proof_sha256 w, aw_target_sha256 w] \<and>
     accepted (validate_target_binding E) (aw_target w) \<and>
     length_ok 0 64 (aw_evidence w) \<and> list_all (evidence_binding_ok E) (aw_evidence w) \<and>
     length_ok 2 8 (aw_possible_histories w) \<and>
     list_all (accepted (validate_possible_history E)) (aw_possible_histories w) \<and>
     length_ok 1 8 (aw_discriminating_observations w) \<and>
     list_all (accepted (validate_discriminating_observation E)) (aw_discriminating_observations w) \<and>
     length_ok 0 64 (aw_conflicting_evidence_ids w) \<and>
     list_all (identifier_ok E) (aw_conflicting_evidence_ids w) \<and> time_ok (aw_created_at w)"

text \<open>What distinguishes two possible histories: their outcome and their evidence.\<close>

definition history_signature ::
  "possible_history \<Rightarrow> classification \<times> (string \<times> effect_assertion_state \<times> string list) list \<times> string list" where
  "history_signature h =
     (ph_classification h,
      map (\<lambda>e. (he_effect_id e, he_state e, sort (he_cited_evidence_ids e))) (ph_effect_states h),
      sort (ph_compatible_evidence_ids h))"

definition validate_ambiguity_witness :: "env \<Rightarrow> ambiguity_witness \<Rightarrow> ambiguity_witness result" where
  "validate_ambiguity_witness E w =
     (let evidence_ids = map eb_evidence_id (aw_evidence w);
          history_ids = map ph_history_id (aw_possible_histories w) in checked
     [(\<not> ambiguity_witness_fields_ok E w, field_message),
      (aw_target_sha256 w \<noteq> canonical_sha256 E (target_binding_json (aw_target w)),
         ''witness target digest does not match its target''),
      (\<not> distinct evidence_ids, ''witness evidence identifiers must be unique''),
      (\<not> distinct history_ids, ''possible history identifiers must be unique''),
      (\<not> distinct (map history_signature (aw_possible_histories w)),
         ''possible history outcomes and evidence alternatives must be unique''),
      (list_ex (\<lambda>h. \<not> set (ph_compatible_evidence_ids h) \<subseteq> set evidence_ids) (aw_possible_histories w),
         ''possible history references unknown evidence''),
      (\<not> set (aw_conflicting_evidence_ids w) \<subseteq> set evidence_ids,
         ''conflict set references unknown evidence''),
      (\<not> distinct (aw_conflicting_evidence_ids w), ''conflicting evidence identifiers must be unique''),
      (list_ex (\<lambda>d. \<not> set (do_distinguishes_history_ids d) \<subseteq> set history_ids)
         (aw_discriminating_observations w),
         ''discriminating observation references unknown history'')] w)"

definition ambiguity_witness_json :: "ambiguity_witness \<Rightarrow> json" where
  "ambiguity_witness_json w = JObj
     [(''schema_version'', JStr ''reconcile/ambiguity-witness/v1''),
      (''witness_id'', JStr (aw_witness_id w)),
      (''chain_id'', JStr (aw_chain_id w)),
      (''node_id'', JStr (aw_node_id w)),
      (''semantic_action_sha256'', JStr (aw_semantic_action_sha256 w)),
      (''chain_sha256'', JStr (aw_chain_sha256 w)),
      (''node_sha256'', JStr (aw_node_sha256 w)),
      (''envelope_sha256'', JStr (aw_envelope_sha256 w)),
      (''report_sha256'', JStr (aw_report_sha256 w)),
      (''proof_sha256'', JStr (aw_proof_sha256 w)),
      (''target'', target_binding_json (aw_target w)),
      (''target_sha256'', JStr (aw_target_sha256 w)),
      (''evidence'', JArr (map evidence_binding_json (aw_evidence w))),
      (''possible_histories'', JArr (map possible_history_json (aw_possible_histories w))),
      (''discriminating_observations'',
         JArr (map discriminating_observation_json (aw_discriminating_observations w))),
      (''conflicting_evidence_ids'', strings_json (aw_conflicting_evidence_ids w)),
      (''verifier_version'', JStr (aw_verifier_version w)),
      (''created_at'', time_json (aw_created_at w))]"

section \<open>Action permits\<close>

datatype permit_state = ISSUED | CLAIMED | COMPLETED | EXPIRED

fun permit_state_text :: "permit_state \<Rightarrow> string" where
  "permit_state_text ISSUED = ''ISSUED''"
| "permit_state_text CLAIMED = ''CLAIMED''"
| "permit_state_text COMPLETED = ''COMPLETED''"
| "permit_state_text EXPIRED = ''EXPIRED''"

datatype completion_outcome = SUCCEEDED | REJECTED | OUTCOME_UNKNOWN

fun completion_outcome_text :: "completion_outcome \<Rightarrow> string" where
  "completion_outcome_text SUCCEEDED = ''SUCCEEDED''"
| "completion_outcome_text REJECTED = ''REJECTED''"
| "completion_outcome_text OUTCOME_UNKNOWN = ''OUTCOME_UNKNOWN''"

text \<open>The literals \<open>schema_version\<close> and \<open>max_uses\<close> are written by the dump.\<close>

record action_permit =
  ap_permit_id :: string
  ap_certificate_id :: string
  ap_certificate_sha256 :: string
  ap_chain_id :: string
  ap_source_node_id :: string
  ap_target_node_id :: string
  ap_semantic_action_sha256 :: string
  ap_action :: permit_action
  ap_action_profile_version :: string
  ap_action_policy_version :: string
  ap_tool_name :: string
  ap_tool_version :: string
  ap_arguments_sha256 :: string
  ap_target_sha256 :: string
  ap_precondition_sha256 :: string
  ap_issued_at :: time
  ap_expires_at :: time
  ap_state :: permit_state
  ap_revision :: int
  ap_claim_id :: "string option"
  ap_claimed_at :: "time option"
  ap_completed_at :: "time option"
  ap_completion_outcome :: "completion_outcome option"
  ap_expired_at :: "time option"

definition action_permit_version :: string where
  "action_permit_version = ''reconcile/action-permit/v1''"

definition action_permit_fields_ok :: "env \<Rightarrow> action_permit \<Rightarrow> bool" where
  "action_permit_fields_ok E p \<longleftrightarrow>
     list_all (identifier_ok E)
       [ap_permit_id p, ap_certificate_id p, ap_chain_id p, ap_source_node_id p, ap_target_node_id p,
        ap_action_profile_version p, ap_action_policy_version p, ap_tool_name p, ap_tool_version p] \<and>
     list_all sha256_digest_ok
       [ap_certificate_sha256 p, ap_semantic_action_sha256 p, ap_arguments_sha256 p, ap_target_sha256 p,
        ap_precondition_sha256 p] \<and>
     time_ok (ap_issued_at p) \<and> time_ok (ap_expires_at p) \<and> int_ok 0 (ap_revision p) \<and>
     option_ok (identifier_ok E) (ap_claim_id p) \<and> option_ok time_ok (ap_claimed_at p) \<and>
     option_ok time_ok (ap_completed_at p) \<and> option_ok time_ok (ap_expired_at p)"

definition lifecycle_fields_match :: "action_permit \<Rightarrow> bool" where
  "lifecycle_fields_match p \<longleftrightarrow>
     (case ap_state p of
        ISSUED \<Rightarrow> ap_revision p = 0 \<and> ap_claim_id p = None \<and> ap_claimed_at p = None \<and>
          ap_completed_at p = None \<and> ap_completion_outcome p = None \<and> ap_expired_at p = None
      | CLAIMED \<Rightarrow> ap_revision p = 1 \<and> ap_claim_id p \<noteq> None \<and> ap_claimed_at p \<noteq> None \<and>
          ap_completed_at p = None \<and> ap_completion_outcome p = None \<and> ap_expired_at p = None
      | COMPLETED \<Rightarrow> ap_revision p = 2 \<and> ap_claim_id p \<noteq> None \<and> ap_claimed_at p \<noteq> None \<and>
          ap_completed_at p \<noteq> None \<and> ap_completion_outcome p \<noteq> None \<and> ap_expired_at p = None
      | EXPIRED \<Rightarrow> ap_revision p = 1 \<and> ap_claim_id p = None \<and> ap_claimed_at p = None \<and>
          ap_completed_at p = None \<and> ap_completion_outcome p = None \<and> ap_expired_at p \<noteq> None)"

definition validate_action_permit :: "env \<Rightarrow> action_permit \<Rightarrow> action_permit result" where
  "validate_action_permit E p = checked
     [(\<not> action_permit_fields_ok E p, field_message),
      (ap_expires_at p \<le> ap_issued_at p, ''permit validity interval must be nonempty''),
      (ap_action p = PA_RETRY \<and> ap_target_node_id p \<noteq> ap_source_node_id p,
         ''a retry permit must target its source node''),
      (ap_action p = PA_CONTINUE \<and> ap_target_node_id p = ap_source_node_id p,
         ''a continuation permit must target a successor node''),
      (\<not> lifecycle_fields_match p, ''permit fields do not match its lifecycle state''),
      (\<not> option_ok (\<lambda>claimed. ap_issued_at p \<le> claimed \<and> claimed < ap_expires_at p) (ap_claimed_at p),
         ''permit claim must occur inside its validity interval''),
      (\<not> option_ok (\<lambda>completed. option_ok (\<lambda>claimed. claimed \<le> completed) (ap_claimed_at p)) (ap_completed_at p),
         ''permit completion cannot precede its claim''),
      (\<not> option_ok (\<lambda>expired. ap_expires_at p \<le> expired) (ap_expired_at p),
         ''permit cannot expire before its validity ends'')] p"

definition valid_permit :: "env \<Rightarrow> action_permit \<Rightarrow> bool" where
  "valid_permit E p \<longleftrightarrow> accepted (validate_action_permit E) p"

lemma validate_action_permit_eq [result_simps]:
  "validate_action_permit E p = Inr q \<longleftrightarrow> q = p \<and> valid_permit E p"
  by (auto simp: valid_permit_def validate_action_permit_def accepted_iff)

text \<open>
  The dump of a permit, in three groups: the immutable authority, the presentation fields
  \<open>certificate_sha256\<close> and \<open>issued_at\<close>, and the fields that the life cycle changes.
\<close>

definition permit_authority_members :: "action_permit \<Rightarrow> json_object" where
  "permit_authority_members p =
     [(''schema_version'', JStr action_permit_version),
      (''permit_id'', JStr (ap_permit_id p)),
      (''certificate_id'', JStr (ap_certificate_id p)),
      (''chain_id'', JStr (ap_chain_id p)),
      (''source_node_id'', JStr (ap_source_node_id p)),
      (''target_node_id'', JStr (ap_target_node_id p)),
      (''semantic_action_sha256'', JStr (ap_semantic_action_sha256 p)),
      (''action'', JStr (permit_action_text (ap_action p))),
      (''action_profile_version'', JStr (ap_action_profile_version p)),
      (''action_policy_version'', JStr (ap_action_policy_version p)),
      (''tool_name'', JStr (ap_tool_name p)),
      (''tool_version'', JStr (ap_tool_version p)),
      (''arguments_sha256'', JStr (ap_arguments_sha256 p)),
      (''target_sha256'', JStr (ap_target_sha256 p)),
      (''precondition_sha256'', JStr (ap_precondition_sha256 p)),
      (''expires_at'', time_json (ap_expires_at p)),
      (''max_uses'', JInt 1)]"

definition permit_lifecycle_members :: "action_permit \<Rightarrow> json_object" where
  "permit_lifecycle_members p =
     [(''state'', JStr (permit_state_text (ap_state p))),
      (''revision'', JInt (ap_revision p)),
      (''claim_id'', option_json JStr (ap_claim_id p)),
      (''claimed_at'', option_json time_json (ap_claimed_at p)),
      (''completed_at'', option_json time_json (ap_completed_at p)),
      (''completion_outcome'', option_json (\<lambda>x. JStr (completion_outcome_text x)) (ap_completion_outcome p)),
      (''expired_at'', option_json time_json (ap_expired_at p))]"

definition permit_presentation_members :: "action_permit \<Rightarrow> json_object" where
  "permit_presentation_members p =
     [(''certificate_sha256'', JStr (ap_certificate_sha256 p)), (''issued_at'', time_json (ap_issued_at p))]"

definition action_permit_json :: "action_permit \<Rightarrow> json" where
  "action_permit_json p =
     JObj (permit_authority_members p @ permit_presentation_members p @ permit_lifecycle_members p)"

definition permit_sha256 :: "env \<Rightarrow> action_permit \<Rightarrow> string" where
  "permit_sha256 E p = canonical_sha256 E (action_permit_json p)"

section \<open>A permit is determined by its digest\<close>

lemma json_sorted_option_json [simp]:
  "json_sorted (option_json f x) = option_json (json_sorted \<circ> f) x"
  by (cases x) (simp_all add: option_json_def)

lemma json_sorted_time_json [simp]: "json_sorted (time_json t) = time_json t"
  by (simp add: time_json_def)

lemma option_json_inj:
  assumes "\<And>x y. P x \<Longrightarrow> P y \<Longrightarrow> f x = f y \<Longrightarrow> x = y" "\<And>x. f x \<noteq> JNull"
    and "option_ok P x" "option_ok P y" "option_json f x = option_json f y"
  shows "x = y"
  using assms by (cases x; cases y) (auto simp: option_json_def dest: sym)

lemma time_json_inj: "time_ok t \<Longrightarrow> time_ok u \<Longrightarrow> time_json t = time_json u \<Longrightarrow> t = u"
  by (rule iso_text_inj) (simp_all add: time_ok_def datetime_min_def time_json_def)

lemma option_JStr_inj: "option_json JStr x = option_json JStr y \<Longrightarrow> x = y"
  by (rule option_json_inj [where P = "\<lambda>_. True"]) (auto simp: option_ok_def split: option.splits)

lemma option_time_inj:
  "option_ok time_ok x \<Longrightarrow> option_ok time_ok y \<Longrightarrow> option_json time_json x = option_json time_json y \<Longrightarrow> x = y"
  by (erule option_json_inj [rotated 2]) (auto simp: time_json_inj, simp add: time_json_def)

lemma permit_action_text_inj: "permit_action_text a = permit_action_text b \<Longrightarrow> a = b"
  by (cases a; cases b) simp_all

lemma permit_state_text_inj: "permit_state_text a = permit_state_text b \<Longrightarrow> a = b"
  by (cases a; cases b) simp_all

lemma completion_outcome_text_inj: "completion_outcome_text a = completion_outcome_text b \<Longrightarrow> a = b"
  by (cases a; cases b) simp_all

lemma option_outcome_inj:
  "option_json (\<lambda>x. JStr (completion_outcome_text x)) x = option_json (\<lambda>x. JStr (completion_outcome_text x)) y \<Longrightarrow> x = y"
  by (rule option_json_inj [where P = "\<lambda>_. True"])
    (auto simp: option_ok_def completion_outcome_text_inj split: option.splits)

lemma permit_member_keys:
  "map fst (permit_authority_members p @ permit_presentation_members p @ permit_lifecycle_members p) =
   map fst (permit_authority_members q @ permit_presentation_members q @ permit_lifecycle_members q)"
  "distinct (map fst (permit_authority_members p @ permit_presentation_members p @ permit_lifecycle_members p))"
  by (simp_all add: permit_authority_members_def permit_presentation_members_def permit_lifecycle_members_def)

text \<open>The fields that a comparison of two authority dumps compares.\<close>

definition permit_authority_fields :: "action_permit \<Rightarrow> string list \<times> permit_action \<times> time" where
  "permit_authority_fields p =
     ([ap_permit_id p, ap_certificate_id p, ap_chain_id p, ap_source_node_id p, ap_target_node_id p,
       ap_semantic_action_sha256 p, ap_action_profile_version p, ap_action_policy_version p, ap_tool_name p,
       ap_tool_version p, ap_arguments_sha256 p, ap_target_sha256 p, ap_precondition_sha256 p],
      ap_action p, ap_expires_at p)"

lemma permit_authority_members_eqD:
  assumes "json_sorted_members (permit_authority_members p) = json_sorted_members (permit_authority_members q)"
    and "time_ok (ap_expires_at p)" "time_ok (ap_expires_at q)"
  shows "permit_authority_fields p = permit_authority_fields q"
  using assms(1) time_json_inj [OF assms(2,3)] permit_action_text_inj [of "ap_action p" "ap_action q"]
  by (simp add: permit_authority_members_def permit_authority_fields_def)

lemma permit_lifecycle_members_eqD:
  assumes "json_sorted_members (permit_lifecycle_members p) = json_sorted_members (permit_lifecycle_members q)"
    and "action_permit_fields_ok E p" "action_permit_fields_ok E q"
  shows "ap_state p = ap_state q \<and> ap_revision p = ap_revision q \<and> ap_claim_id p = ap_claim_id q \<and>
    ap_claimed_at p = ap_claimed_at q \<and> ap_completed_at p = ap_completed_at q \<and>
    ap_completion_outcome p = ap_completion_outcome q \<and> ap_expired_at p = ap_expired_at q"
proof -
  have sorted_times: "json_sorted \<circ> JStr = JStr" "json_sorted \<circ> time_json = time_json"
    "json_sorted \<circ> (\<lambda>x. JStr (completion_outcome_text x)) = (\<lambda>x. JStr (completion_outcome_text x))"
    by auto
  have e: "permit_state_text (ap_state p) = permit_state_text (ap_state q)" "ap_revision p = ap_revision q"
    "option_json JStr (ap_claim_id p) = option_json JStr (ap_claim_id q)"
    "option_json time_json (ap_claimed_at p) = option_json time_json (ap_claimed_at q)"
    "option_json time_json (ap_completed_at p) = option_json time_json (ap_completed_at q)"
    "option_json (\<lambda>x. JStr (completion_outcome_text x)) (ap_completion_outcome p) =
     option_json (\<lambda>x. JStr (completion_outcome_text x)) (ap_completion_outcome q)"
    "option_json time_json (ap_expired_at p) = option_json time_json (ap_expired_at q)"
    using assms(1) by (simp_all add: permit_lifecycle_members_def sorted_times)
  have ok: "option_ok time_ok (ap_claimed_at p)" "option_ok time_ok (ap_claimed_at q)"
    "option_ok time_ok (ap_completed_at p)" "option_ok time_ok (ap_completed_at q)"
    "option_ok time_ok (ap_expired_at p)" "option_ok time_ok (ap_expired_at q)"
    using assms(2,3) by (simp_all add: action_permit_fields_ok_def)
  show ?thesis
    using permit_state_text_inj [OF e(1)] e(2) option_JStr_inj [OF e(3)] option_time_inj [OF ok(1,2) e(4)]
      option_time_inj [OF ok(3,4) e(5)] option_outcome_inj [OF e(6)] option_time_inj [OF ok(5,6) e(7)]
    by simp
qed

lemma json_sorted_members_append [simp]:
  "json_sorted_members (xs @ ys) = json_sorted_members xs @ json_sorted_members ys"
  by (induction xs) simp_all

lemma length_json_sorted_members [simp]: "length (json_sorted_members xs) = length xs"
  by (induction xs) simp_all

lemma permit_members_length:
  "length (permit_authority_members p) = 17" "length (permit_presentation_members p) = 2"
  by (simp_all add: permit_authority_members_def permit_presentation_members_def)

lemma action_permit_json_inj:
  assumes "json_sorted (action_permit_json p) = json_sorted (action_permit_json q)"
    and ok: "action_permit_fields_ok E p" "action_permit_fields_ok E q"
  shows "p = q"
proof -
  have "json_sorted_members (permit_authority_members p @ permit_presentation_members p @ permit_lifecycle_members p) =
      json_sorted_members (permit_authority_members q @ permit_presentation_members q @ permit_lifecycle_members q)"
    using assms(1) unfolding action_permit_json_def by (rule json_sorted_members_eqD) (rule permit_member_keys)+
  then have groups: "json_sorted_members (permit_authority_members p) = json_sorted_members (permit_authority_members q)"
      "json_sorted_members (permit_presentation_members p) = json_sorted_members (permit_presentation_members q)"
      "json_sorted_members (permit_lifecycle_members p) = json_sorted_members (permit_lifecycle_members q)"
    by (simp_all add: permit_members_length)
  have times: "time_ok (ap_expires_at p)" "time_ok (ap_expires_at q)" "time_ok (ap_issued_at p)" "time_ok (ap_issued_at q)"
    using ok by (simp_all add: action_permit_fields_ok_def)
  have "ap_certificate_sha256 p = ap_certificate_sha256 q \<and> ap_issued_at p = ap_issued_at q"
    using groups(2) time_json_inj [OF times(3,4)] by (simp add: permit_presentation_members_def)
  then show ?thesis
    using permit_authority_members_eqD [OF groups(1) times(1,2)] permit_lifecycle_members_eqD [OF groups(3) ok]
    by (simp add: permit_authority_fields_def)
qed

lemma json_finite_time_json [simp]: "json_finite (time_json t)"
  by (simp add: time_json_def)

lemma json_finite_option_json [simp]: "(\<And>y. json_finite (f y)) \<Longrightarrow> json_finite (option_json f x)"
  by (cases x) (simp_all add: option_json_def)

lemma json_finite_action_permit: "json_finite (action_permit_json p)"
  by (simp add: action_permit_json_def permit_authority_members_def permit_presentation_members_def
      permit_lifecycle_members_def)

lemma permit_sha256_eqD:
  assumes "permit_sha256 E p = permit_sha256 E q" "valid_permit E p" "valid_permit E q"
  shows "p = q \<or> digests_collide E (json_bytes (action_permit_json p)) (json_bytes (action_permit_json q))"
proof -
  have ok: "action_permit_fields_ok E p" "action_permit_fields_ok E q"
    using assms(2,3) by (simp_all add: valid_permit_def validate_action_permit_def accepted_iff)
  show ?thesis
    using canonical_sha256_eqD [OF json_finite_action_permit json_finite_action_permit, of E p q]
      action_permit_json_inj [OF _ ok] assms(1)
    unfolding permit_sha256_def by blast
qed

section \<open>What a valid permit promises\<close>

lemma valid_permit_fields: "valid_permit E p \<Longrightarrow> action_permit_fields_ok E p"
  by (simp add: valid_permit_def validate_action_permit_def accepted_iff)

lemma valid_permit_iff:
  "valid_permit E p \<longleftrightarrow>
     action_permit_fields_ok E p \<and> ap_issued_at p < ap_expires_at p \<and>
     (ap_action p = PA_RETRY \<longleftrightarrow> ap_target_node_id p = ap_source_node_id p) \<and>
     lifecycle_fields_match p \<and>
     option_ok (\<lambda>claimed. ap_issued_at p \<le> claimed \<and> claimed < ap_expires_at p) (ap_claimed_at p) \<and>
     option_ok (\<lambda>completed. option_ok (\<lambda>claimed. claimed \<le> completed) (ap_claimed_at p)) (ap_completed_at p) \<and>
     option_ok (\<lambda>expired. ap_expires_at p \<le> expired) (ap_expired_at p)"
  by (cases "ap_action p") (auto simp: valid_permit_def validate_action_permit_def accepted_iff)

text \<open>The life cycle moves, as they change the record: \<open>model_copy(update=...)\<close>.\<close>

definition issued_copy :: "action_permit \<Rightarrow> action_permit" where
  "issued_copy p = p\<lparr>ap_state := ISSUED, ap_revision := 0, ap_claim_id := None, ap_claimed_at := None,
     ap_completed_at := None, ap_completion_outcome := None, ap_expired_at := None\<rparr>"

definition claimed_copy :: "action_permit \<Rightarrow> string \<Rightarrow> time \<Rightarrow> action_permit" where
  "claimed_copy p claim_id at =
     p\<lparr>ap_state := CLAIMED, ap_revision := 1, ap_claim_id := Some claim_id, ap_claimed_at := Some at\<rparr>"

definition expired_copy :: "action_permit \<Rightarrow> time \<Rightarrow> action_permit" where
  "expired_copy p at = p\<lparr>ap_state := EXPIRED, ap_revision := 1, ap_expired_at := Some at\<rparr>"

definition completed_copy :: "action_permit \<Rightarrow> time \<Rightarrow> completion_outcome \<Rightarrow> action_permit" where
  "completed_copy p at outcome =
     p\<lparr>ap_state := COMPLETED, ap_revision := 2, ap_completed_at := Some at,
       ap_completion_outcome := Some outcome\<rparr>"

lemmas permit_copies = issued_copy_def claimed_copy_def expired_copy_def completed_copy_def

lemma int_ok_revision [simp]: "int_ok 0 0" "int_ok 0 1" "int_ok 0 2"
  by (simp_all add: int_ok_def int64_max_def)

lemma valid_permit_lifecycle:
  "valid_permit E p \<Longrightarrow> lifecycle_fields_match p"
  by (simp add: valid_permit_iff)

lemma issued_permit_fields [permit_rules]:
  "valid_permit E p \<Longrightarrow> ap_state p = ISSUED \<Longrightarrow>
     ap_revision p = 0 \<and> ap_claim_id p = None \<and> ap_claimed_at p = None \<and> ap_completed_at p = None \<and>
     ap_completion_outcome p = None \<and> ap_expired_at p = None"
  by (drule valid_permit_lifecycle) (simp add: lifecycle_fields_match_def)

lemma claimed_permit_fields [permit_rules]:
  assumes "valid_permit E p" "ap_state p = CLAIMED"
  obtains c at where "ap_revision p = 1" "ap_claim_id p = Some c" "ap_claimed_at p = Some at"
    "ap_completed_at p = None" "ap_completion_outcome p = None" "ap_expired_at p = None"
    "ap_issued_at p \<le> at" "at < ap_expires_at p"
  using assms by (auto simp: valid_permit_iff lifecycle_fields_match_def)

lemma valid_issued_copy: "valid_permit E p \<Longrightarrow> valid_permit E (issued_copy p)"
  by (simp add: valid_permit_iff issued_copy_def action_permit_fields_ok_def lifecycle_fields_match_def)

lemma valid_claimed_copy:
  assumes "valid_permit E p" "ap_state p = ISSUED" "identifier_ok E c"
    and "ap_issued_at p \<le> at" "at < ap_expires_at p"
  shows "valid_permit E (claimed_copy p c at)"
proof -
  have "time_ok at" using assms by (simp add: valid_permit_iff action_permit_fields_ok_def time_ok_def)
  then show ?thesis
    using assms issued_permit_fields [OF assms(1,2)]
    by (simp add: valid_permit_iff claimed_copy_def action_permit_fields_ok_def lifecycle_fields_match_def)
qed

lemma valid_expired_copy:
  assumes "valid_permit E p" "ap_state p = ISSUED" "ap_expires_at p \<le> at" "time_ok at"
  shows "valid_permit E (expired_copy p at)"
  using assms issued_permit_fields [OF assms(1,2)]
  by (simp add: valid_permit_iff expired_copy_def action_permit_fields_ok_def lifecycle_fields_match_def)

lemma valid_completed_copy:
  assumes "valid_permit E p" "ap_state p = CLAIMED" "time_ok at"
    and "option_ok (\<lambda>claimed. claimed \<le> at) (ap_claimed_at p)"
  shows "valid_permit E (completed_copy p at outcome)"
  using assms claimed_permit_fields [OF assms(1,2)]
  by (auto simp: valid_permit_iff completed_copy_def action_permit_fields_ok_def lifecycle_fields_match_def)

lemma issued_copy_simps [simp]:
  "issued_copy (claimed_copy p c at) = issued_copy p"
  "issued_copy (expired_copy p at) = issued_copy p"
  "issued_copy (completed_copy p at outcome) = issued_copy p"
  "issued_copy (issued_copy p) = issued_copy p"
  by (simp_all add: permit_copies)

lemma issued_copy_id: "valid_permit E p \<Longrightarrow> ap_state p = ISSUED \<Longrightarrow> issued_copy p = p"
  by (drule (1) issued_permit_fields) (cases p, simp add: issued_copy_def)

lemma copy_authority_fields [simp]:
  "permit_authority_fields (issued_copy p) = permit_authority_fields p"
  "permit_authority_fields (claimed_copy p c at) = permit_authority_fields p"
  "permit_authority_fields (expired_copy p at) = permit_authority_fields p"
  "permit_authority_fields (completed_copy p at outcome) = permit_authority_fields p"
  by (simp_all add: permit_copies permit_authority_fields_def)

end
