(* ===== verification/Permits.thy ===== *)
theory Permits
  imports Recovery_Contracts
begin

text \<open>
  The durable single-use permit transitions of \<open>persistence/permits.py\<close>: the logical identity of a
  permit, audit events, claim and completion requests, the two transition functions and the
  replay that validates an audit history against the permit it leads to. The \<open>type(x) is not C\<close>
  guards of the code are the types of the arguments here.
\<close>

section \<open>Logical identity\<close>

definition action_permit_id :: "env \<Rightarrow> string \<Rightarrow> certified_transition \<Rightarrow> string result" where
  "action_permit_id E certificate_id transition =
     (if certificate_id = [] then Inl (TypeError ''certificate identifier must be a nonempty string'')
      else bind_result (value_sha256 E (JObj
          [(''certificate_id'', JStr certificate_id),
           (''schema_version'', JStr action_permit_version),
           (''transition'', certified_transition_json transition)]))
        (\<lambda>digest. Inr (''permit-'' @ take 32 digest)))"

definition sealed_transition :: "action_permit \<Rightarrow> certified_transition" where
  "sealed_transition p =
     \<lparr>ct_action = ap_action p,
      ct_source_node_id = ap_source_node_id p,
      ct_target_node_id = ap_target_node_id p,
      ct_semantic_action_sha256 = ap_semantic_action_sha256 p,
      ct_tool_name = ap_tool_name p,
      ct_tool_version = ap_tool_version p,
      ct_arguments_sha256 = ap_arguments_sha256 p,
      ct_target_sha256 = ap_target_sha256 p,
      ct_precondition_sha256 = ap_precondition_sha256 p\<rparr>"

definition action_permit_transition :: "env \<Rightarrow> action_permit \<Rightarrow> certified_transition result" where
  "action_permit_transition E p = validate_certified_transition E (sealed_transition p)"

definition validate_action_permit_identity :: "env \<Rightarrow> action_permit \<Rightarrow> unit result" where
  "validate_action_permit_identity E p =
     bind_result (action_permit_transition E p) (\<lambda>transition.
     bind_result (action_permit_id E (ap_certificate_id p) transition) (\<lambda>expected.
     require (ap_permit_id p = expected)
       (ValueError ''permit identifier does not match its logical authority'')))"

text \<open>Two dumps with the presentation fields, and for the authority the life cycle fields, left out.\<close>

definition same_action_permit_authority :: "env \<Rightarrow> action_permit \<Rightarrow> action_permit \<Rightarrow> bool result" where
  "same_action_permit_authority E left right =
     bind_result (validate_action_permit_identity E left) (\<lambda>_.
     bind_result (validate_action_permit_identity E right) (\<lambda>_.
     bind_result (canonical_json_value_bytes E (JObj (permit_authority_members left))) (\<lambda>a.
     bind_result (canonical_json_value_bytes E (JObj (permit_authority_members right))) (\<lambda>b.
     Inr (a = b)))))"

definition same_action_permit_state :: "env \<Rightarrow> action_permit \<Rightarrow> action_permit \<Rightarrow> bool result" where
  "same_action_permit_state E left right =
     bind_result (validate_action_permit_identity E left) (\<lambda>_.
     bind_result (validate_action_permit_identity E right) (\<lambda>_.
     bind_result (canonical_json_value_bytes E
       (JObj (permit_authority_members left @ permit_lifecycle_members left))) (\<lambda>a.
     bind_result (canonical_json_value_bytes E
       (JObj (permit_authority_members right @ permit_lifecycle_members right))) (\<lambda>b.
     Inr (a = b)))))"

section \<open>Audit events and requests\<close>

datatype audit_kind =
  K_ISSUED | K_BLOCKED | K_CLAIMED | K_COMPLETED | K_REJECTED | K_EXPIRED | K_OUTCOME_UNKNOWN

datatype denial_reason =
  D_BINDING_MISMATCH | D_NON_MONOTONIC_TIME | D_NOT_YET_VALID | D_EXPIRED | D_ALREADY_CLAIMED | D_ALREADY_COMPLETED

record audit_event =
  ae_event_id :: string
  ae_permit_id :: string
  ae_sequence :: int
  ae_kind :: audit_kind
  ae_permit_revision :: int
  ae_permit_sha256 :: string
  ae_occurred_at :: time
  ae_claim_id :: "string option"
  ae_denial_reason :: "denial_reason option"
  ae_completion_outcome :: "completion_outcome option"

definition audit_event_fields_ok :: "env \<Rightarrow> audit_event \<Rightarrow> bool" where
  "audit_event_fields_ok E e \<longleftrightarrow>
     identifier_ok E (ae_event_id e) \<and> identifier_ok E (ae_permit_id e) \<and> int_ok 1 (ae_sequence e) \<and>
     int_ok 0 (ae_permit_revision e) \<and> sha256_digest_ok (ae_permit_sha256 e) \<and>
     time_ok (ae_occurred_at e) \<and> option_ok (identifier_ok E) (ae_claim_id e)"

fun completion_kind :: "completion_outcome \<Rightarrow> audit_kind" where
  "completion_kind SUCCEEDED = K_COMPLETED"
| "completion_kind REJECTED = K_REJECTED"
| "completion_kind OUTCOME_UNKNOWN = K_OUTCOME_UNKNOWN"

definition event_matches_kind :: "audit_event \<Rightarrow> bool" where
  "event_matches_kind e \<longleftrightarrow>
     (case ae_kind e of
        K_ISSUED \<Rightarrow> ae_permit_revision e = 0 \<and> ae_claim_id e = None \<and> ae_denial_reason e = None \<and>
          ae_completion_outcome e = None
      | K_BLOCKED \<Rightarrow> ae_claim_id e \<noteq> None \<and> ae_denial_reason e \<noteq> None \<and>
          ae_denial_reason e \<noteq> Some D_EXPIRED \<and> ae_completion_outcome e = None
      | K_CLAIMED \<Rightarrow> ae_permit_revision e = 1 \<and> ae_claim_id e \<noteq> None \<and> ae_denial_reason e = None \<and>
          ae_completion_outcome e = None
      | K_EXPIRED \<Rightarrow> ae_permit_revision e = 1 \<and> ae_claim_id e \<noteq> None \<and>
          ae_denial_reason e = Some D_EXPIRED \<and> ae_completion_outcome e = None
      | K_COMPLETED \<Rightarrow> ae_permit_revision e = 2 \<and> ae_claim_id e \<noteq> None \<and> ae_denial_reason e = None \<and>
          ae_completion_outcome e = Some SUCCEEDED
      | K_REJECTED \<Rightarrow> ae_permit_revision e = 2 \<and> ae_claim_id e \<noteq> None \<and> ae_denial_reason e = None \<and>
          ae_completion_outcome e = Some REJECTED
      | K_OUTCOME_UNKNOWN \<Rightarrow> ae_permit_revision e = 2 \<and> ae_claim_id e \<noteq> None \<and> ae_denial_reason e = None \<and>
          ae_completion_outcome e = Some OUTCOME_UNKNOWN)"

definition validate_audit_event :: "env \<Rightarrow> audit_event \<Rightarrow> audit_event result" where
  "validate_audit_event E e = checked
     [(\<not> audit_event_fields_ok E e, field_message),
      (\<not> event_matches_kind e, ''permit audit fields do not match the event kind'')] e"

record claim_request =
  cq_permit_id :: string
  cq_claim_id :: string
  cq_issued_permit_sha256 :: string
  cq_certificate_id :: string
  cq_certificate_sha256 :: string
  cq_chain_id :: string
  cq_source_node_id :: string
  cq_target_node_id :: string
  cq_semantic_action_sha256 :: string
  cq_action_profile_version :: string
  cq_action_policy_version :: string
  cq_tool_name :: string
  cq_tool_version :: string
  cq_arguments_sha256 :: string
  cq_target_sha256 :: string
  cq_precondition_sha256 :: string
  cq_requested_at :: time

definition claim_request_ok :: "env \<Rightarrow> claim_request \<Rightarrow> bool" where
  "claim_request_ok E r \<longleftrightarrow>
     list_all (identifier_ok E)
       [cq_permit_id r, cq_claim_id r, cq_certificate_id r, cq_chain_id r, cq_source_node_id r,
        cq_target_node_id r, cq_action_profile_version r, cq_action_policy_version r, cq_tool_name r,
        cq_tool_version r] \<and>
     list_all sha256_digest_ok
       [cq_issued_permit_sha256 r, cq_certificate_sha256 r, cq_semantic_action_sha256 r,
        cq_arguments_sha256 r, cq_target_sha256 r, cq_precondition_sha256 r] \<and>
     time_ok (cq_requested_at r)"

record completion_request =
  kq_permit_id :: string
  kq_claim_id :: string
  kq_claimed_permit_sha256 :: string
  kq_outcome :: completion_outcome
  kq_completed_at :: time

definition completion_request_ok :: "env \<Rightarrow> completion_request \<Rightarrow> bool" where
  "completion_request_ok E r \<longleftrightarrow>
     identifier_ok E (kq_permit_id r) \<and> identifier_ok E (kq_claim_id r) \<and>
     sha256_digest_ok (kq_claimed_permit_sha256 r) \<and> time_ok (kq_completed_at r)"

section \<open>Transitions\<close>

record permit_mutation =
  pm_permit :: action_permit
  pm_event :: audit_event
  pm_denial_reason :: "denial_reason option"

definition event_identifier :: "int \<Rightarrow> string" where
  "event_identifier sequence = ''permit-audit-'' @ int_text sequence"

definition permit_event ::
  "env \<Rightarrow> action_permit \<Rightarrow> int \<Rightarrow> audit_kind \<Rightarrow> time \<Rightarrow> string option \<Rightarrow> denial_reason option \<Rightarrow>
   completion_outcome option \<Rightarrow> audit_event" where
  "permit_event E p sequence kind occurred_at claim_id denial_reason outcome =
     \<lparr>ae_event_id = event_identifier sequence,
      ae_permit_id = ap_permit_id p,
      ae_sequence = sequence,
      ae_kind = kind,
      ae_permit_revision = ap_revision p,
      ae_permit_sha256 = permit_sha256 E p,
      ae_occurred_at = occurred_at,
      ae_claim_id = claim_id,
      ae_denial_reason = denial_reason,
      ae_completion_outcome = outcome\<rparr>"

definition issued_audit_event :: "env \<Rightarrow> action_permit \<Rightarrow> audit_event result" where
  "issued_audit_event E p =
     (if ap_state p \<noteq> ISSUED then Inl (TypeError ''an exact issued action permit is required'')
      else validate_audit_event E (permit_event E p 1 K_ISSUED (ap_issued_at p) None None None))"

definition mutation ::
  "env \<Rightarrow> action_permit \<Rightarrow> int \<Rightarrow> audit_kind \<Rightarrow> time \<Rightarrow> string option \<Rightarrow> denial_reason option \<Rightarrow>
   completion_outcome option \<Rightarrow> permit_mutation result" where
  "mutation E p sequence kind occurred_at claim_id denial_reason outcome =
     bind_result (validate_audit_event E
         (permit_event E p sequence kind occurred_at claim_id denial_reason outcome))
       (\<lambda>event. Inr \<lparr>pm_permit = p, pm_event = event, pm_denial_reason = denial_reason\<rparr>)"

definition claim_bindings :: "env \<Rightarrow> action_permit \<Rightarrow> claim_request \<Rightarrow> bool" where
  "claim_bindings E p r \<longleftrightarrow>
     cq_permit_id r = ap_permit_id p \<and>
     cq_issued_permit_sha256 r = permit_sha256 E p \<and>
     cq_certificate_id r = ap_certificate_id p \<and>
     cq_certificate_sha256 r = ap_certificate_sha256 p \<and>
     cq_chain_id r = ap_chain_id p \<and>
     cq_source_node_id r = ap_source_node_id p \<and>
     cq_target_node_id r = ap_target_node_id p \<and>
     cq_semantic_action_sha256 r = ap_semantic_action_sha256 p \<and>
     cq_action_profile_version r = ap_action_profile_version p \<and>
     cq_action_policy_version r = ap_action_policy_version p \<and>
     cq_tool_name r = ap_tool_name p \<and>
     cq_tool_version r = ap_tool_version p \<and>
     cq_arguments_sha256 r = ap_arguments_sha256 p \<and>
     cq_target_sha256 r = ap_target_sha256 p \<and>
     cq_precondition_sha256 r = ap_precondition_sha256 p"

definition blocked_claim ::
  "env \<Rightarrow> action_permit \<Rightarrow> claim_request \<Rightarrow> int \<Rightarrow> denial_reason \<Rightarrow> time \<Rightarrow> permit_mutation result" where
  "blocked_claim E p r sequence reason audit_at =
     mutation E p sequence K_BLOCKED audit_at (Some (cq_claim_id r)) (Some reason) None"

definition evaluate_permit_claim ::
  "env \<Rightarrow> action_permit \<Rightarrow> claim_request \<Rightarrow> int \<Rightarrow> time \<Rightarrow> permit_mutation result" where
  "evaluate_permit_claim E p r audit_sequence audit_not_before =
     (if cq_requested_at r < audit_not_before then
        blocked_claim E p r audit_sequence D_NON_MONOTONIC_TIME audit_not_before
      else if cq_requested_at r < ap_issued_at p then
        blocked_claim E p r audit_sequence D_NOT_YET_VALID (ap_issued_at p)
      else if ap_state p = ISSUED \<and> ap_expires_at p \<le> cq_requested_at r then
        bind_result (validate_action_permit E (expired_copy p (cq_requested_at r))) (\<lambda>expired.
          mutation E expired audit_sequence K_EXPIRED (cq_requested_at r) (Some (cq_claim_id r))
            (Some D_EXPIRED) None)
      else if ap_state p = CLAIMED then
        blocked_claim E p r audit_sequence D_ALREADY_CLAIMED (cq_requested_at r)
      else if ap_state p \<in> {COMPLETED, EXPIRED} then
        blocked_claim E p r audit_sequence D_ALREADY_COMPLETED (cq_requested_at r)
      else if \<not> claim_bindings E p r then
        blocked_claim E p r audit_sequence D_BINDING_MISMATCH (cq_requested_at r)
      else
        bind_result (validate_action_permit E (claimed_copy p (cq_claim_id r) (cq_requested_at r)))
          (\<lambda>claimed. mutation E claimed audit_sequence K_CLAIMED (cq_requested_at r)
             (Some (cq_claim_id r)) None None))"

definition exact_claim :: "env \<Rightarrow> action_permit \<Rightarrow> completion_request \<Rightarrow> time \<Rightarrow> bool" where
  "exact_claim E p r audit_not_before \<longleftrightarrow>
     kq_permit_id r = ap_permit_id p \<and>
     Some (kq_claim_id r) = ap_claim_id p \<and>
     kq_claimed_permit_sha256 r = permit_sha256 E p \<and>
     (case ap_claimed_at p of None \<Rightarrow> False | Some claimed_at \<Rightarrow> claimed_at \<le> kq_completed_at r) \<and>
     audit_not_before \<le> kq_completed_at r"

definition completion_denial :: "action_permit \<Rightarrow> completion_request \<Rightarrow> time \<Rightarrow> denial_reason" where
  "completion_denial p r audit_not_before =
     (if ap_state p \<in> {COMPLETED, EXPIRED} then D_ALREADY_COMPLETED
      else if kq_completed_at r < audit_not_before then D_NON_MONOTONIC_TIME
      else D_BINDING_MISMATCH)"

definition evaluate_permit_completion ::
  "env \<Rightarrow> action_permit \<Rightarrow> completion_request \<Rightarrow> int \<Rightarrow> time \<Rightarrow> permit_mutation result" where
  "evaluate_permit_completion E p r audit_sequence audit_not_before =
     (if ap_state p = CLAIMED \<and> exact_claim E p r audit_not_before then
        bind_result (validate_action_permit E (completed_copy p (kq_completed_at r) (kq_outcome r)))
          (\<lambda>completed. mutation E completed audit_sequence (completion_kind (kq_outcome r))
             (kq_completed_at r) (Some (kq_claim_id r)) None (Some (kq_outcome r)))
      else
        mutation E p audit_sequence K_BLOCKED (max (kq_completed_at r) audit_not_before)
          (Some (kq_claim_id r)) (Some (completion_denial p r audit_not_before)) None)"

section \<open>Replaying an audit history\<close>

definition history_replacement :: "env \<Rightarrow> action_permit \<Rightarrow> audit_event \<Rightarrow> action_permit result" where
  "history_replacement E current event =
     (if ae_kind event = K_BLOCKED then Inr current
      else if ae_kind event = K_CLAIMED \<and> ap_state current = ISSUED \<and> ae_claim_id event \<noteq> None then
        validate_action_permit E (claimed_copy current (the (ae_claim_id event)) (ae_occurred_at event))
      else if ae_kind event = K_EXPIRED \<and> ap_state current = ISSUED then
        validate_action_permit E (expired_copy current (ae_occurred_at event))
      else if ae_kind event \<in> {K_COMPLETED, K_REJECTED, K_OUTCOME_UNKNOWN} \<and> ap_state current = CLAIMED \<and>
          ae_claim_id event = ap_claim_id current \<and> ae_completion_outcome event \<noteq> None then
        validate_action_permit E
          (completed_copy current (ae_occurred_at event) (the (ae_completion_outcome event)))
      else Inl (ValueError ''permit audit transition is invalid''))"

definition history_step ::
  "env \<Rightarrow> action_permit \<Rightarrow> int \<Rightarrow> action_permit \<times> time \<Rightarrow> audit_event \<Rightarrow> (action_permit \<times> time) result" where
  "history_step E p sequence state event =
     (case state of (current, previous_at) \<Rightarrow>
      if ae_permit_id event \<noteq> ap_permit_id p \<or> ae_sequence event \<noteq> sequence \<or>
         ae_event_id event \<noteq> event_identifier sequence then
        Inl (ValueError ''permit audit sequence is invalid'')
      else if sequence = 1 then Inr (current, previous_at)
      else if ae_occurred_at event < previous_at then
        Inl (ValueError ''permit audit timestamps are not monotonic'')
      else bind_result (history_replacement E current event) (\<lambda>replacement.
        if ae_permit_revision event \<noteq> ap_revision replacement \<or>
           ae_permit_sha256 event \<noteq> permit_sha256 E replacement then
          Inl (ValueError ''permit audit does not bind its state revision'')
        else Inr (replacement, ae_occurred_at event)))"

fun replay_events ::
  "env \<Rightarrow> action_permit \<Rightarrow> int \<Rightarrow> action_permit \<times> time \<Rightarrow> audit_event list \<Rightarrow> (action_permit \<times> time) result" where
  "replay_events E p sequence state [] = Inr state"
| "replay_events E p sequence state (event # events) =
     bind_result (history_step E p sequence state event)
       (\<lambda>state'. replay_events E p (sequence + 1) state' events)"

definition validate_permit_audit_history ::
  "env \<Rightarrow> action_permit \<Rightarrow> audit_event list \<Rightarrow> unit result" where
  "validate_permit_audit_history E p events =
     bind_result (validate_action_permit E (issued_copy p)) (\<lambda>issued.
     case events of
       [] \<Rightarrow> Inl (ValueError ''permit audit history does not begin at issuance'')
     | first # _ \<Rightarrow>
        bind_result (issued_audit_event E issued) (\<lambda>issuance.
        if first \<noteq> issuance then Inl (ValueError ''permit audit history does not begin at issuance'')
        else bind_result (replay_events E p 1 (issued, ae_occurred_at first) events) (\<lambda>(current, _).
          require (current = p)
            (ValueError ''permit audit history does not reproduce durable state''))))"

section \<open>Comparing permits\<close>

lemma validate_json_members_append [simp]:
  "validate_json_members E d (xs @ ys) \<longleftrightarrow> validate_json_members E d xs \<and> validate_json_members E d ys"
  by (induction xs) auto

lemma permit_authority_members_ok:
  assumes "valid_permit E p"
  shows "validate_json_members E (Suc 0) (permit_authority_members p)"
proof -
  have texts: "validate_unicode_text E (permit_action_text (ap_action p))"
    by (rule printable_text_ok, cases "ap_action p") simp_all
  have keys: "list_all (key_bounds E) (map fst (permit_authority_members p))"
    by (simp add: permit_authority_members_def key_bounds_def text_length_def printable_text_ok)
  have version: "validate_unicode_text E action_permit_version"
    by (rule printable_text_ok) (simp add: action_permit_version_def)
  have "action_permit_fields_ok E p" using assms by (rule valid_permit_fields)
  then show ?thesis
    using texts keys version
    by (simp add: permit_authority_members_def action_permit_fields_ok_def identifier_text_ok [of E]
        sha256_text_ok iso_text_ok time_json_def)
qed

lemma validate_option_json:
  "(\<And>y. x = Some y \<Longrightarrow> validate_json E d (f y)) \<Longrightarrow> d \<le> 12 \<Longrightarrow> validate_json E d (option_json f x)"
  by (cases x) (simp_all add: option_json_def)

lemma permit_lifecycle_members_ok:
  assumes "valid_permit E p"
  shows "validate_json_members E (Suc 0) (permit_lifecycle_members p)"
proof -
  have fields: "action_permit_fields_ok E p" using assms by (rule valid_permit_fields)
  have state: "validate_unicode_text E (permit_state_text (ap_state p))"
    by (rule printable_text_ok, cases "ap_state p") simp_all
  have outcome: "validate_unicode_text E (completion_outcome_text x)" for x
    by (rule printable_text_ok, cases x) simp_all
  have keys: "list_all (key_bounds E) (map fst (permit_lifecycle_members p))"
    by (simp add: permit_lifecycle_members_def key_bounds_def text_length_def printable_text_ok)
  have claim: "validate_json E (Suc 0) (option_json JStr (ap_claim_id p))"
    using fields by (intro validate_option_json) (auto simp: action_permit_fields_ok_def identifier_text_ok [of E])
  have times: "validate_json E (Suc 0) (option_json time_json x)" for x
    by (intro validate_option_json) (simp_all add: time_json_def iso_text_ok)
  have outcomes: "validate_json E (Suc 0) (option_json (\<lambda>x. JStr (completion_outcome_text x)) x)" for x
    by (intro validate_option_json) (simp_all add: outcome)
  have "- (2 ^ 63) \<le> ap_revision p \<and> ap_revision p < 2 ^ 63"
    using fields by (simp add: action_permit_fields_ok_def int_ok_def int64_max_def)
  then show ?thesis
    using state keys claim times outcomes by (simp add: permit_lifecycle_members_def)
qed

lemma permit_dump_bytes:
  assumes "valid_permit E p"
  shows "canonical_json_value_bytes E (JObj (permit_authority_members p)) =
      Inr (json_bytes (JObj (permit_authority_members p)))"
    "canonical_json_value_bytes E (JObj (permit_authority_members p @ permit_lifecycle_members p)) =
      Inr (json_bytes (JObj (permit_authority_members p @ permit_lifecycle_members p)))"
  using permit_authority_members_ok [OF assms] permit_lifecycle_members_ok [OF assms]
  by (simp_all add: canonical_json_value_bytes_def permit_authority_members_def permit_lifecycle_members_def)

lemma json_bytes_members_eqD:
  assumes "json_bytes (JObj a) = json_bytes (JObj b)" "json_finite (JObj a)" "json_finite (JObj b)"
    and "map fst a = map fst b" "distinct (map fst a)"
  shows "json_sorted_members a = json_sorted_members b"
  using json_sorted_members_eqD [OF json_bytes_inj [OF assms(2,3,1)] assms(4,5)] .

lemma permit_authority_keys:
  "map fst (permit_authority_members p) = map fst (permit_authority_members q)"
  "distinct (map fst (permit_authority_members p))"
  "json_finite (JObj (permit_authority_members p))"
  by (simp_all add: permit_authority_members_def)

lemma permit_state_keys:
  "map fst (permit_authority_members p @ permit_lifecycle_members p) =
   map fst (permit_authority_members q @ permit_lifecycle_members q)"
  "distinct (map fst (permit_authority_members p @ permit_lifecycle_members p))"
  "json_finite (JObj (permit_authority_members p @ permit_lifecycle_members p))"
  by (simp_all add: permit_authority_members_def permit_lifecycle_members_def)

lemma permit_authority_bytes:
  assumes "valid_permit E p" "valid_permit E q"
  shows "json_bytes (JObj (permit_authority_members p)) = json_bytes (JObj (permit_authority_members q)) \<longleftrightarrow>
    permit_authority_fields p = permit_authority_fields q"
proof
  have t: "time_ok (ap_expires_at p)" "time_ok (ap_expires_at q)"
    using assms [THEN valid_permit_fields] by (simp_all add: action_permit_fields_ok_def)
  assume "json_bytes (JObj (permit_authority_members p)) = json_bytes (JObj (permit_authority_members q))"
  from json_bytes_members_eqD [OF this permit_authority_keys(3) permit_authority_keys(3) permit_authority_keys(1,2)]
  show "permit_authority_fields p = permit_authority_fields q" by (rule permit_authority_members_eqD [OF _ t])
qed (simp add: permit_authority_fields_def permit_authority_members_def)

lemma same_authority_result:
  assumes "valid_permit E p" "valid_permit E q"
    and "validate_action_permit_identity E p = Inr ()" "validate_action_permit_identity E q = Inr ()"
  shows "same_action_permit_authority E p q = Inr (permit_authority_fields p = permit_authority_fields q)"
  using assms permit_authority_bytes [OF assms(1,2)]
  by (simp add: same_action_permit_authority_def permit_dump_bytes)

text \<open>What the state comparison adds to the authority.\<close>

definition permit_state_fields ::
  "action_permit \<Rightarrow> permit_state \<times> int \<times> string option \<times> time option \<times> time option \<times> completion_outcome option \<times> time option" where
  "permit_state_fields p =
     (ap_state p, ap_revision p, ap_claim_id p, ap_claimed_at p, ap_completed_at p,
      ap_completion_outcome p, ap_expired_at p)"

lemma same_state_result:
  assumes "valid_permit E p" "valid_permit E q"
    and "validate_action_permit_identity E p = Inr ()" "validate_action_permit_identity E q = Inr ()"
  shows "same_action_permit_state E p q =
    Inr (permit_authority_fields p = permit_authority_fields q \<and> permit_state_fields p = permit_state_fields q)"
proof -
  note fields = assms(1,2) [THEN valid_permit_fields]
  have t: "time_ok (ap_expires_at p)" "time_ok (ap_expires_at q)"
    using fields by (simp_all add: action_permit_fields_ok_def)
  let ?d = "\<lambda>p. JObj (permit_authority_members p @ permit_lifecycle_members p)"
  have "permit_authority_fields p = permit_authority_fields q \<and> permit_state_fields p = permit_state_fields q"
    if "json_bytes (?d p) = json_bytes (?d q)"
  proof -
    have "json_sorted_members (permit_authority_members p) = json_sorted_members (permit_authority_members q) \<and>
        json_sorted_members (permit_lifecycle_members p) = json_sorted_members (permit_lifecycle_members q)"
      using json_bytes_members_eqD [OF that permit_state_keys(3) permit_state_keys(3) permit_state_keys(1,2)]
      by (simp add: permit_members_length)
    then show ?thesis
      using permit_authority_members_eqD [OF _ t] permit_lifecycle_members_eqD [OF _ fields]
      by (simp add: permit_state_fields_def)
  qed
  then have "json_bytes (?d p) = json_bytes (?d q) \<longleftrightarrow>
      permit_authority_fields p = permit_authority_fields q \<and> permit_state_fields p = permit_state_fields q"
    by (auto simp: permit_authority_fields_def permit_state_fields_def permit_authority_members_def permit_lifecycle_members_def)
  with assms show ?thesis
    by (simp add: same_action_permit_state_def permit_dump_bytes)
qed

text \<open>One identifier stands for one certificate and one transition, up to a collision of the
  truncated digest.\<close>

definition identity_json :: "string \<Rightarrow> certified_transition \<Rightarrow> json" where
  "identity_json certificate_id transition = JObj
     [(''certificate_id'', JStr certificate_id),
      (''schema_version'', JStr action_permit_version),
      (''transition'', certified_transition_json transition)]"

definition short_digests_collide :: "env \<Rightarrow> string \<Rightarrow> string \<Rightarrow> bool" where
  "short_digests_collide E a b \<longleftrightarrow> a \<noteq> b \<and> take 32 (env_sha256 E a) = take 32 (env_sha256 E b)"

lemma identity_json_inj:
  assumes "json_sorted (identity_json c t) = json_sorted (identity_json d u)"
  shows "c = d \<and> t = u"
proof -
  have "json_sorted_members [(''certificate_id'', JStr c), (''schema_version'', JStr action_permit_version),
      (''transition'', certified_transition_json t)] =
    json_sorted_members [(''certificate_id'', JStr d), (''schema_version'', JStr action_permit_version),
      (''transition'', certified_transition_json u)]"
    by (rule json_sorted_members_eqD [OF assms [unfolded identity_json_def]]) simp_all
  then have c: "c = d" and "json_sorted (certified_transition_json t) = json_sorted (certified_transition_json u)"
    by simp_all
  from json_sorted_members_eqD [OF this(2) [unfolded certified_transition_json_def]]
  have "t = u" by (cases t; cases u) (simp add: permit_action_text_inj)
  with c show ?thesis by simp
qed

lemma action_permit_id_eqD:
  assumes "action_permit_id E c t = Inr i" "action_permit_id E d u = Inr i"
  shows "(c = d \<and> t = u) \<or> short_digests_collide E (json_bytes (identity_json c t)) (json_bytes (identity_json d u))"
proof -
  have i: "i = ''permit-'' @ take 32 (env_sha256 E (json_bytes (identity_json c t)))"
    "i = ''permit-'' @ take 32 (env_sha256 E (json_bytes (identity_json d u)))"
    using assms by (simp_all add: action_permit_id_def value_sha256_def canonical_json_value_bytes_def
        identity_json_def split: if_splits)
  have finite: "json_finite (identity_json c t)" for c t
    by (simp add: identity_json_def certified_transition_json_def)
  show ?thesis
  proof (cases "json_bytes (identity_json c t) = json_bytes (identity_json d u)")
    case True
    from identity_json_inj [OF json_bytes_inj [OF finite finite True]] show ?thesis by simp
  next
    case False
    then show ?thesis using i by (simp add: short_digests_collide_def)
  qed
qed

end
