(* ===== verification/Permit_Machine.thy ===== *)
theory Permit_Machine
  imports Permits
begin

text \<open>
  The contract of the permit transitions as a state machine: a step relation on permits labelled
  with audit events, and the runs from issuance. The transition functions refine the steps, and the
  replay of an audit history accepts exactly the histories of runs. The safety properties are then
  rule inductions on runs.
\<close>

section \<open>The machine\<close>

inductive permit_step :: "env \<Rightarrow> int \<Rightarrow> time \<Rightarrow> action_permit \<Rightarrow> audit_event \<Rightarrow> action_permit \<Rightarrow> bool"
  for E n previous where
  step_blocked:
    "previous \<le> at \<Longrightarrow> d \<noteq> D_EXPIRED \<Longrightarrow>
     permit_step E n previous p (permit_event E p n K_BLOCKED at (Some c) (Some d) None) p"
| step_claimed:
    "previous \<le> at \<Longrightarrow> ap_state p = ISSUED \<Longrightarrow> ap_issued_at p \<le> at \<Longrightarrow> at < ap_expires_at p \<Longrightarrow>
     p' = claimed_copy p c at \<Longrightarrow>
     permit_step E n previous p (permit_event E p' n K_CLAIMED at (Some c) None None) p'"
| step_expired:
    "previous \<le> at \<Longrightarrow> ap_state p = ISSUED \<Longrightarrow> ap_expires_at p \<le> at \<Longrightarrow> p' = expired_copy p at \<Longrightarrow>
     permit_step E n previous p (permit_event E p' n K_EXPIRED at (Some c) (Some D_EXPIRED) None) p'"
| step_completed:
    "previous \<le> at \<Longrightarrow> ap_state p = CLAIMED \<Longrightarrow> ap_claim_id p = Some c \<Longrightarrow>
     option_ok (\<lambda>claimed. claimed \<le> at) (ap_claimed_at p) \<Longrightarrow> p' = completed_copy p at outcome \<Longrightarrow>
     permit_step E n previous p
       (permit_event E p' n (completion_kind outcome) at (Some c) None (Some outcome)) p'"

inductive_cases permit_step_cases: "permit_step E n previous p e p'"

definition issuance :: "env \<Rightarrow> action_permit \<Rightarrow> audit_event" where
  "issuance E p = permit_event E p 1 K_ISSUED (ap_issued_at p) None None None"

inductive permit_run :: "env \<Rightarrow> audit_event list \<Rightarrow> action_permit \<Rightarrow> bool" for E where
  run_issued: "valid_permit E p \<Longrightarrow> ap_state p = ISSUED \<Longrightarrow> permit_run E [issuance E p] p"
| run_step:
    "permit_run E events p \<Longrightarrow>
     permit_step E (int (length events) + 1) (ae_occurred_at (last events)) p e p' \<Longrightarrow>
     audit_event_fields_ok E e \<Longrightarrow> permit_run E (events @ [e]) p'"

section \<open>Audit events are well formed\<close>

text \<open>The documented form of \<open>hexdigest\<close>: 64 lower case hexadecimal digits.\<close>

definition hexdigest_ok :: "env \<Rightarrow> bool" where
  "hexdigest_ok E \<longleftrightarrow> (\<forall>s. sha256_digest_ok (env_sha256 E s))"

lemma permit_sha256_ok: "hexdigest_ok E \<Longrightarrow> sha256_digest_ok (permit_sha256 E p)"
  by (simp add: hexdigest_ok_def permit_sha256_def canonical_sha256_def)

lemma length_nat_text: "0 < k \<Longrightarrow> n < 10 ^ k \<Longrightarrow> length (nat_text n) \<le> k"
proof (induction n arbitrary: k rule: nat_text.induct)
  case (1 n)
  show ?case
  proof (cases "n < 10")
    case True
    then show ?thesis using 1(2) by (simp add: nat_text.simps)
  next
    case False
    then have "1 < k" using 1(2,3) by (cases "k = 1") auto
    then obtain j where k: "k = Suc j" "0 < j" by (cases k) auto
    have "n div 10 < 10 ^ j" using 1(3) k by (simp add: less_mult_imp_div_less)
    then have "length (nat_text (n div 10)) \<le> j" by (rule 1(1) [OF False k(2)])
    moreover have "nat_text n = nat_text (n div 10) @ [char_of (48 + n mod 10)]"
      using False by (subst nat_text.simps) simp
    ultimately show ?thesis using k by simp
  qed
qed

lemma digit_plain_char: "digit_char c \<Longrightarrow> plain_char c"
  by (simp add: plain_char_def word_char_def)

lemma event_identifier_ok:
  assumes "int_ok 1 n"
  shows "identifier_ok E (event_identifier n)"
proof -
  have shape: "event_identifier n = ''permit-audit-'' @ nat_text (nat n)"
    using assms by (simp add: event_identifier_def int_text_def int_ok_def)
  have "nat n \<le> 9223372036854775807" using assms by (simp add: int_ok_def int64_max_def nat_le_iff)
  also have "\<dots> < 10 ^ 19" by simp
  finally have len: "length (nat_text (nat n)) \<le> 19" by (rule length_nat_text [rotated]) simp
  have plain: "list_all plain_char (nat_text (nat n))"
    using nat_text_digits by (rule list.pred_mono_strong) (rule digit_plain_char)
  moreover have "list_all plain_char ''permit-audit-''"
    by (simp add: plain_char_def word_char_def lower_letter_def)
  ultimately have "\<not> contains_sensitive_material E (event_identifier n)"
    by (intro plain_text_not_sensitive) (simp add: shape)
  moreover have "list_all identifier_char (nat_text (nat n))"
    using nat_text_digits
    by (rule list.pred_mono_strong) (simp add: identifier_char_def identifier_start_def letter_or_digit_def)
  moreover have "identifier_start CHR ''p''" "list_all identifier_char ''ermit-audit-''"
    by (simp_all add: identifier_char_def identifier_start_def letter_or_digit_def lower_letter_def)
  ultimately show ?thesis using len by (simp add: identifier_ok_def shape)
qed

lemma permit_event_fields [simp]:
  "ae_event_id (permit_event E p n k at c d x) = event_identifier n"
  "ae_permit_id (permit_event E p n k at c d x) = ap_permit_id p"
  "ae_sequence (permit_event E p n k at c d x) = n"
  "ae_kind (permit_event E p n k at c d x) = k"
  "ae_permit_revision (permit_event E p n k at c d x) = ap_revision p"
  "ae_permit_sha256 (permit_event E p n k at c d x) = permit_sha256 E p"
  "ae_occurred_at (permit_event E p n k at c d x) = at"
  "ae_claim_id (permit_event E p n k at c d x) = c"
  "ae_denial_reason (permit_event E p n k at c d x) = d"
  "ae_completion_outcome (permit_event E p n k at c d x) = x"
  by (simp_all add: permit_event_def)

lemma permit_event_ok:
  assumes "hexdigest_ok E" "valid_permit E p" "int_ok 1 n" "time_ok at" "option_ok (identifier_ok E) c"
  shows "audit_event_fields_ok E (permit_event E p n k at c d x)"
  using assms valid_permit_fields [OF assms(2)]
  by (simp add: audit_event_fields_ok_def event_identifier_ok permit_sha256_ok action_permit_fields_ok_def)

lemma validate_audit_event_eq [result_simps]:
  "validate_audit_event E e = Inr e' \<longleftrightarrow> e' = e \<and> audit_event_fields_ok E e \<and> event_matches_kind e"
  by (auto simp: validate_audit_event_def)

lemma mutation_eq [result_simps]:
  "mutation E p n k at c d x = Inr m \<longleftrightarrow>
     m = \<lparr>pm_permit = p, pm_event = permit_event E p n k at c d x, pm_denial_reason = d\<rparr> \<and>
     audit_event_fields_ok E (permit_event E p n k at c d x) \<and> event_matches_kind (permit_event E p n k at c d x)"
  by (auto simp: mutation_def validate_audit_event_eq)

lemma issued_audit_event_eq:
  assumes "hexdigest_ok E" "valid_permit E p" "ap_state p = ISSUED"
  shows "issued_audit_event E p = Inr (issuance E p)"
proof -
  have "int_ok 1 1" by (simp add: int_ok_def int64_max_def)
  then have "audit_event_fields_ok E (issuance E p)"
    unfolding issuance_def using assms valid_permit_fields [OF assms(2)]
    by (intro permit_event_ok) (simp_all add: action_permit_fields_ok_def)
  moreover have "event_matches_kind (issuance E p)"
    using issued_permit_fields [OF assms(2,3)] by (simp add: issuance_def event_matches_kind_def)
  ultimately show ?thesis
    using assms(3) by (simp add: issued_audit_event_def validate_audit_event_eq issuance_def)
qed

section \<open>Invariants of a run\<close>

lemma permit_run_not_Nil: "permit_run E events p \<Longrightarrow> events \<noteq> []"
  by (induction rule: permit_run.induct) simp_all

lemma permit_step_valid:
  assumes "permit_step E n previous p e p'" "valid_permit E p" "audit_event_fields_ok E e"
  shows "valid_permit E p'"
  using assms
proof cases
  case (step_claimed at c)
  with assms show ?thesis by (simp add: valid_claimed_copy audit_event_fields_ok_def)
next
  case (step_expired at c)
  with assms show ?thesis by (simp add: valid_expired_copy audit_event_fields_ok_def)
next
  case (step_completed at c outcome)
  with assms show ?thesis by (simp add: valid_completed_copy audit_event_fields_ok_def)
qed simp

lemma permit_step_authority:
  "permit_step E n previous p e p' \<Longrightarrow>
     permit_authority_fields p' = permit_authority_fields p \<and> issued_copy p' = issued_copy p \<and>
     ap_permit_id p' = ap_permit_id p \<and> ap_issued_at p' = ap_issued_at p \<and> ap_expires_at p' = ap_expires_at p"
  by (erule permit_step_cases) (simp_all, simp_all add: permit_copies)

lemma permit_step_event:
  "permit_step E n previous p e p' \<Longrightarrow>
     ae_permit_id e = ap_permit_id p \<and> ae_sequence e = n \<and> ae_event_id e = event_identifier n \<and>
     previous \<le> ae_occurred_at e \<and> ae_permit_revision e = ap_revision p' \<and> ae_permit_sha256 e = permit_sha256 E p'"
  by (erule permit_step_cases) (simp_all, simp_all add: permit_copies)

lemma permit_run_valid: "permit_run E events p \<Longrightarrow> valid_permit E p"
  by (induction rule: permit_run.induct) (auto intro: permit_step_valid)

lemma permit_run_time: "permit_run E events p \<Longrightarrow> time_ok (ae_occurred_at (last events))"
proof (induction rule: permit_run.induct)
  case (run_issued p)
  then show ?case using valid_permit_fields [of E p] by (simp add: issuance_def action_permit_fields_ok_def)
next
  case (run_step events p e p')
  then show ?case by (simp add: audit_event_fields_ok_def)
qed

lemma permit_run_issued_at: "permit_run E events p \<Longrightarrow> ap_issued_at p \<le> ae_occurred_at (last events)"
proof (induction rule: permit_run.induct)
  case (run_issued p)
  show ?case by (simp add: issuance_def)
next
  case (run_step events p e p')
  then show ?case using permit_step_authority [OF run_step(2)] permit_step_event [OF run_step(2)] by simp
qed

text \<open>The last event is at or after the claim that the permit records.\<close>

lemma permit_run_claimed_at:
  "permit_run E events p \<Longrightarrow> option_ok (\<lambda>claimed. claimed \<le> ae_occurred_at (last events)) (ap_claimed_at p)"
proof (induction rule: permit_run.induct)
  case (run_issued p)
  then show ?case using issued_permit_fields [of E p] by simp
next
  case (run_step events p e p')
  from run_step(2) show ?case
  proof cases
    case (step_expired at c)
    with permit_run_valid [OF run_step(1)] issued_permit_fields [of E p] show ?thesis
      by (simp add: expired_copy_def)
  qed (use run_step in \<open>auto simp: claimed_copy_def completed_copy_def option_ok_def split: option.splits\<close>)
qed

lemma permit_run_first:
  "permit_run E events p \<Longrightarrow> hd events = issuance E (issued_copy p)"
proof (induction rule: permit_run.induct)
  case (run_issued p)
  then show ?case by (simp add: issued_copy_id)
next
  case (run_step events p e p')
  then show ?case using permit_step_authority [OF run_step(2)] permit_run_not_Nil [OF run_step(1)] by simp
qed

section \<open>The transition functions refine the machine\<close>

definition step_result ::
  "env \<Rightarrow> int \<Rightarrow> time \<Rightarrow> action_permit \<Rightarrow> permit_mutation result \<Rightarrow> permit_mutation \<Rightarrow> bool" where
  "step_result E n previous p result m \<longleftrightarrow>
     result = Inr m \<and> permit_step E n previous p (pm_event m) (pm_permit m) \<and>
     audit_event_fields_ok E (pm_event m) \<and>
     (pm_denial_reason m = None \<longleftrightarrow> ae_kind (pm_event m) \<notin> {K_BLOCKED, K_EXPIRED}) \<and>
     pm_denial_reason m = ae_denial_reason (pm_event m)"

lemma blocked_step:
  assumes "hexdigest_ok E" "valid_permit E p" "int_ok 1 n" "time_ok at" "identifier_ok E c"
    and "previous \<le> at" "d \<noteq> D_EXPIRED"
  shows "step_result E n previous p (mutation E p n K_BLOCKED at (Some c) (Some d) None)
    \<lparr>pm_permit = p, pm_event = permit_event E p n K_BLOCKED at (Some c) (Some d) None, pm_denial_reason = Some d\<rparr>"
  using assms step_blocked [OF assms(6,7)]
  by (simp add: step_result_def mutation_eq permit_event_ok event_matches_kind_def)

definition claim_granted :: "env \<Rightarrow> action_permit \<Rightarrow> claim_request \<Rightarrow> time \<Rightarrow> bool" where
  "claim_granted E p r not_before \<longleftrightarrow>
     ap_state p = ISSUED \<and> not_before \<le> cq_requested_at r \<and> ap_issued_at p \<le> cq_requested_at r \<and>
     cq_requested_at r < ap_expires_at p \<and> claim_bindings E p r"

lemma claim_request_fields:
  "claim_request_ok E r \<Longrightarrow> identifier_ok E (cq_claim_id r) \<and> time_ok (cq_requested_at r)"
  by (simp add: claim_request_ok_def)

text \<open>Every claim attempt ends in one step; the permit is claimed exactly when it is granted.\<close>

lemma claim_steps:
  assumes E: "hexdigest_ok E" and p: "valid_permit E p" and r: "claim_request_ok E r"
    and n: "int_ok 1 n" and t: "time_ok previous" and issued: "ap_issued_at p \<le> previous"
  shows "\<exists>m. step_result E n previous p (evaluate_permit_claim E p r n previous) m \<and>
    (pm_denial_reason m = None \<longleftrightarrow> claim_granted E p r previous) \<and>
    (pm_denial_reason m = None \<longrightarrow> pm_permit m = claimed_copy p (cq_claim_id r) (cq_requested_at r))"
proof -
  let ?at = "cq_requested_at r" and ?c = "cq_claim_id r"
  note ok = claim_request_fields [OF r]
  have blocked: ?thesis
    if eq: "evaluate_permit_claim E p r n previous = mutation E p n K_BLOCKED at (Some ?c) (Some d) None"
      and d: "previous \<le> at" "d \<noteq> D_EXPIRED" "time_ok at" "\<not> claim_granted E p r previous" for at d
    unfolding eq using blocked_step [OF E p n d(3) _ d(1,2), of ?c] ok d(4)
    by (intro exI [of _ "\<lparr>pm_permit = p, pm_event = permit_event E p n K_BLOCKED at (Some ?c) (Some d) None,
      pm_denial_reason = Some d\<rparr>"]) simp
  show ?thesis
  proof (cases "?at < previous")
    case True
    then show ?thesis
      using t by (intro blocked [of previous D_NON_MONOTONIC_TIME])
        (simp_all add: evaluate_permit_claim_def blocked_claim_def claim_granted_def)
  next
    case late: False
    show ?thesis
    proof (cases "ap_state p = ISSUED")
      case False
      then show ?thesis
        using late issued ok
        by (intro blocked [of ?at "if ap_state p = CLAIMED then D_ALREADY_CLAIMED else D_ALREADY_COMPLETED"])
          (cases "ap_state p"; simp add: evaluate_permit_claim_def blocked_claim_def claim_granted_def)+
    next
      case state: True
      consider (expired) "ap_expires_at p \<le> ?at" | (unbound) "?at < ap_expires_at p" "\<not> claim_bindings E p r"
        | (granted) "?at < ap_expires_at p" "claim_bindings E p r" by linarith
      then show ?thesis
      proof cases
        case unbound
        then show ?thesis
          using late issued ok state by (intro blocked [of ?at D_BINDING_MISMATCH])
            (simp_all add: evaluate_permit_claim_def blocked_claim_def claim_granted_def)
      next
        case expired
        let ?q = "expired_copy p ?at"
        have q: "valid_permit E ?q" using valid_expired_copy p state expired ok by blast
        have kind: "event_matches_kind (permit_event E ?q n K_EXPIRED ?at (Some ?c) (Some D_EXPIRED) None)"
          by (simp add: event_matches_kind_def expired_copy_def)
        show ?thesis
          by (rule exI [of _ "\<lparr>pm_permit = ?q, pm_event = permit_event E ?q n K_EXPIRED ?at (Some ?c) (Some D_EXPIRED) None,
              pm_denial_reason = Some D_EXPIRED\<rparr>"])
            (use late issued ok state expired q kind E n in \<open>auto simp: step_result_def evaluate_permit_claim_def
              mutation_eq validate_action_permit_eq permit_event_ok claim_granted_def intro: permit_step.intros\<close>)
      next
        case granted
        let ?q = "claimed_copy p ?c ?at"
        have q: "valid_permit E ?q" using valid_claimed_copy p state granted late issued ok by simp
        have kind: "event_matches_kind (permit_event E ?q n K_CLAIMED ?at (Some ?c) None None)"
          by (simp add: event_matches_kind_def claimed_copy_def)
        show ?thesis
          by (rule exI [of _ "\<lparr>pm_permit = ?q, pm_event = permit_event E ?q n K_CLAIMED ?at (Some ?c) None None,
              pm_denial_reason = None\<rparr>"])
            (use late issued ok state granted q kind E n in \<open>auto simp: step_result_def evaluate_permit_claim_def
              mutation_eq validate_action_permit_eq permit_event_ok claim_granted_def intro: permit_step.intros\<close>)
      qed
    qed
  qed
qed

definition completion_granted :: "env \<Rightarrow> action_permit \<Rightarrow> completion_request \<Rightarrow> time \<Rightarrow> bool" where
  "completion_granted E p r not_before \<longleftrightarrow> ap_state p = CLAIMED \<and> exact_claim E p r not_before"

lemma completion_steps:
  assumes E: "hexdigest_ok E" and p: "valid_permit E p" and r: "completion_request_ok E r"
    and n: "int_ok 1 n" and t: "time_ok previous"
  shows "\<exists>m. step_result E n previous p (evaluate_permit_completion E p r n previous) m \<and>
    (pm_denial_reason m = None \<longleftrightarrow> completion_granted E p r previous) \<and>
    (pm_denial_reason m = None \<longrightarrow> pm_permit m = completed_copy p (kq_completed_at r) (kq_outcome r))"
proof -
  let ?at = "kq_completed_at r" and ?c = "kq_claim_id r"
  have ok: "identifier_ok E ?c" "time_ok ?at" using r by (simp_all add: completion_request_ok_def)
  show ?thesis
  proof (cases "completion_granted E p r previous")
    case False
    have "time_ok (max ?at previous)" using ok t by (simp add: time_ok_def max_def)
    moreover have "completion_denial p r previous \<noteq> D_EXPIRED" by (simp add: completion_denial_def)
    ultimately have "step_result E n previous p (mutation E p n K_BLOCKED (max ?at previous) (Some ?c)
        (Some (completion_denial p r previous)) None)
      \<lparr>pm_permit = p, pm_event = permit_event E p n K_BLOCKED (max ?at previous) (Some ?c)
        (Some (completion_denial p r previous)) None, pm_denial_reason = Some (completion_denial p r previous)\<rparr>"
      by (intro blocked_step [OF E p n _ ok(1)]) simp_all
    with False show ?thesis
      by (intro exI) (auto simp: evaluate_permit_completion_def completion_granted_def)
  next
    case True
    then have claim: "ap_claim_id p = Some ?c" "option_ok (\<lambda>claimed. claimed \<le> ?at) (ap_claimed_at p)"
        "ap_state p = CLAIMED" "previous \<le> ?at"
      by (auto simp: completion_granted_def exact_claim_def split: option.splits)
    let ?q = "completed_copy p ?at (kq_outcome r)"
    let ?e = "permit_event E ?q n (completion_kind (kq_outcome r)) ?at (Some ?c) None (Some (kq_outcome r))"
    have q: "valid_permit E ?q" using valid_completed_copy [OF p claim(3) ok(2) claim(2)] .
    have kind: "event_matches_kind ?e" "completion_kind (kq_outcome r) \<notin> {K_BLOCKED, K_EXPIRED}"
      by (cases "kq_outcome r"; simp add: event_matches_kind_def completed_copy_def)+
    show ?thesis
      by (rule exI [of _ "\<lparr>pm_permit = ?q, pm_event = ?e, pm_denial_reason = None\<rparr>"])
        (use claim q kind E n ok True in \<open>auto simp: step_result_def evaluate_permit_completion_def mutation_eq
          validate_action_permit_eq permit_event_ok completion_granted_def intro: permit_step.intros\<close>)
  qed
qed

section \<open>The replay accepts exactly the histories of runs\<close>

lemma replay_events_append:
  "replay_events E p n state (xs @ ys) =
     bind_result (replay_events E p n state xs) (\<lambda>state'. replay_events E p (n + int (length xs)) state' ys)"
proof (induction xs arbitrary: n state)
  case (Cons x xs)
  show ?case
    by (cases "history_step E p n state x") (simp_all add: Cons algebra_simps)
qed simp

lemma history_step_first:
  "history_step E p 1 state (issuance E (issued_copy p)) = Inr state"
  by (cases state) (simp add: history_step_def issuance_def issued_copy_def)

text \<open>A step of the machine is a step of the replay, and the other way round.\<close>

lemma history_replacement_step:
  assumes "permit_step E n previous current e next" "valid_permit E current" "audit_event_fields_ok E e"
  shows "history_replacement E current e = Inr next"
proof -
  have "valid_permit E next" using permit_step_valid [OF assms] .
  with assms(1) show ?thesis
  proof cases
    case (step_completed at c outcome)
    with \<open>valid_permit E next\<close> show ?thesis
      by (cases outcome) (simp_all add: history_replacement_def validate_action_permit_eq completed_copy_def)
  qed (simp_all add: history_replacement_def validate_action_permit_eq claimed_copy_def expired_copy_def)
qed

lemma history_step_run:
  assumes "permit_step E n previous current e next" "valid_permit E current" "audit_event_fields_ok E e"
    and "n \<noteq> 1" "ap_permit_id p = ap_permit_id current"
  shows "history_step E p n (current, previous) e = Inr (next, ae_occurred_at e)"
  using permit_step_event [OF assms(1)] history_replacement_step [OF assms(1-3)] assms(4,5)
  by (simp add: history_step_def)

lemma permit_step_history:
  assumes h: "history_step E p n (current, previous) e = Inr (next, at)" and n: "n \<noteq> 1"
    and e: "audit_event_fields_ok E e" "event_matches_kind e"
    and ids: "ap_permit_id p = ap_permit_id current"
  shows "permit_step E n previous current e next \<and> at = ae_occurred_at e"
proof -
  obtain q where q: "history_replacement E current e = Inr q" "next = q" "at = ae_occurred_at e"
      "previous \<le> ae_occurred_at e" "ae_permit_revision e = ap_revision q" "ae_permit_sha256 e = permit_sha256 E q"
      "ae_permit_id e = ap_permit_id p" "ae_sequence e = n" "ae_event_id e = event_identifier n"
    using h n by (auto simp: history_step_def split: if_splits)
  have e_eq: "e = permit_event E r n (ae_kind e) (ae_occurred_at e) (ae_claim_id e) (ae_denial_reason e) (ae_completion_outcome e)"
    if "r = q" "ap_permit_id q = ap_permit_id current" for r
    using q(5-9) ids that by (cases e) (simp add: permit_event_def)
  consider (blocked) "ae_kind e = K_BLOCKED" "q = current"
    | (claimed) c where "ae_kind e = K_CLAIMED" "ap_state current = ISSUED" "ae_claim_id e = Some c"
        "q = claimed_copy current c (ae_occurred_at e)" "valid_permit E q"
    | (expired) "ae_kind e = K_EXPIRED" "ap_state current = ISSUED" "q = expired_copy current (ae_occurred_at e)" "valid_permit E q"
    | (completed) outcome where "ae_kind e \<in> {K_COMPLETED, K_REJECTED, K_OUTCOME_UNKNOWN}" "ap_state current = CLAIMED"
        "ae_claim_id e = ap_claim_id current" "ae_completion_outcome e = Some outcome"
        "q = completed_copy current (ae_occurred_at e) outcome" "valid_permit E q"
    using q(1) by (auto simp: history_replacement_def validate_action_permit_eq split: if_splits)
  then have "permit_step E n previous current e q"
  proof cases
    case blocked
    obtain c d where "ae_claim_id e = Some c" "ae_denial_reason e = Some d" "d \<noteq> D_EXPIRED" "ae_completion_outcome e = None"
      using e(2) blocked(1) by (auto simp: event_matches_kind_def)
    with e_eq [of current] step_blocked [of previous "ae_occurred_at e" d E n current c] blocked q(4)
    show ?thesis by simp
  next
    case claimed
    have "ae_denial_reason e = None" "ae_completion_outcome e = None"
      using e(2) claimed(1) by (auto simp: event_matches_kind_def)
    moreover have "ap_issued_at current \<le> ae_occurred_at e" "ae_occurred_at e < ap_expires_at current"
      using claimed(4,5) by (simp_all add: valid_permit_iff claimed_copy_def)
    moreover have "ap_permit_id q = ap_permit_id current" by (simp add: claimed claimed_copy_def)
    ultimately show ?thesis
      using e_eq [of q] step_claimed [of previous "ae_occurred_at e" current q c E n] claimed q(4) by simp
  next
    case expired
    obtain c where "ae_claim_id e = Some c" "ae_denial_reason e = Some D_EXPIRED" "ae_completion_outcome e = None"
      using e(2) expired(1) by (auto simp: event_matches_kind_def)
    moreover have "ap_expires_at current \<le> ae_occurred_at e"
      using expired(3,4) by (simp add: valid_permit_iff expired_copy_def)
    moreover have "ap_permit_id q = ap_permit_id current" by (simp add: expired expired_copy_def)
    ultimately show ?thesis
      using e_eq [of q] step_expired [of previous "ae_occurred_at e" current q E n c] expired q(4) by simp
  next
    case completed
    have "ae_denial_reason e = None" "ae_kind e = completion_kind outcome" "ae_claim_id e \<noteq> None"
      using e(2) completed(1,4) by (auto simp: event_matches_kind_def)
    moreover have "option_ok (\<lambda>claimed. claimed \<le> ae_occurred_at e) (ap_claimed_at current)"
      using completed(5,6) by (simp add: valid_permit_iff completed_copy_def)
    moreover have "ap_permit_id q = ap_permit_id current" by (simp add: completed completed_copy_def)
    ultimately show ?thesis
      using e_eq [of q] step_completed [of previous "ae_occurred_at e" current _ q outcome E n] completed q(4)
      by auto
  qed
  with q show ?thesis by simp
qed

definition well_formed_events :: "env \<Rightarrow> audit_event list \<Rightarrow> bool" where
  "well_formed_events E events \<longleftrightarrow> list_all (accepted (validate_audit_event E)) events"

lemma well_formed_events_Cons [simp]:
  "well_formed_events E (e # es) \<longleftrightarrow> audit_event_fields_ok E e \<and> event_matches_kind e \<and> well_formed_events E es"
  by (auto simp: well_formed_events_def accepted_iff validate_audit_event_eq)

lemma permit_step_matches_kind: "permit_step E n previous p e p' \<Longrightarrow> event_matches_kind e"
proof (induction rule: permit_step.induct)
  case (step_completed at p c p' outcome)
  then show ?case by (cases outcome) (simp_all add: event_matches_kind_def completed_copy_def)
qed (simp_all add: event_matches_kind_def claimed_copy_def expired_copy_def)

lemma permit_run_well_formed: "permit_run E events p \<Longrightarrow> hexdigest_ok E \<Longrightarrow> well_formed_events E events"
proof (induction rule: permit_run.induct)
  case (run_issued p)
  then show ?case
    using issued_audit_event_eq [of E p] by (simp add: issued_audit_event_def validate_audit_event_eq well_formed_events_def
        issuance_def accepted_iff)
next
  case (run_step events p e p')
  then show ?case
    using permit_step_matches_kind [OF run_step(2)]
    by (simp add: well_formed_events_def accepted_iff validate_audit_event_eq)
qed

lemma replay_run:
  "permit_run E events p \<Longrightarrow> ap_permit_id q = ap_permit_id p \<Longrightarrow>
     replay_events E q 1 (issued_copy p, ap_issued_at p) events = Inr (p, ae_occurred_at (last events))"
proof (induction rule: permit_run.induct)
  case (run_issued p)
  then show ?case by (simp add: history_step_def issuance_def issued_copy_id)
next
  case (run_step events p e p')
  have "history_step E q (1 + int (length events)) (p, ae_occurred_at (last events)) e = Inr (p', ae_occurred_at e)"
    using history_step_run [OF run_step(2) permit_run_valid [OF run_step(1)] run_step(3)]
      permit_step_authority [OF run_step(2)] permit_run_not_Nil [OF run_step(1)] run_step.prems
    by (simp add: add.commute)
  then show ?case
    using run_step.IH run_step.prems permit_step_authority [OF run_step(2)] by (simp add: replay_events_append)
qed

lemma run_of_replay:
  "replay_events E q (int (length xs) + 1) (current, ae_occurred_at (last xs)) ys = Inr (p, t) \<Longrightarrow>
     permit_run E xs current \<Longrightarrow> well_formed_events E ys \<Longrightarrow> ap_permit_id q = ap_permit_id current \<Longrightarrow>
     permit_run E (xs @ ys) p"
proof (induction ys arbitrary: xs current)
  case (Cons y ys)
  obtain "next" at where step: "history_step E q (int (length xs) + 1) (current, ae_occurred_at (last xs)) y = Inr (next, at)"
      and rest: "replay_events E q (2 + int (length xs)) (next, at) ys = Inr (p, t)"
    using Cons.prems(1) by (auto simp: add.commute)
  have y: "permit_step E (int (length xs) + 1) (ae_occurred_at (last xs)) current y next" "at = ae_occurred_at y"
    using permit_step_history [OF step] Cons.prems(3,4) permit_run_not_Nil [OF Cons.prems(2)] by simp_all
  have "permit_run E (xs @ [y]) next"
    using run_step [OF Cons.prems(2) y(1)] Cons.prems(3) by simp
  moreover have "replay_events E q (int (length (xs @ [y])) + 1) (next, ae_occurred_at (last (xs @ [y]))) ys = Inr (p, t)"
    using rest y(2) by (simp add: add.commute)
  ultimately have "permit_run E ((xs @ [y]) @ ys) p"
    using Cons.IH [of "xs @ [y]" "next"] Cons.prems(3,4) permit_step_authority [OF y(1)] by simp
  then show ?case by simp
qed simp

lemma audit_history_accepts:
  assumes E: "hexdigest_ok E" and p: "valid_permit E p" and ok: "well_formed_events E events"
  shows "validate_permit_audit_history E p events = Inr () \<longleftrightarrow> permit_run E events p"
proof
  have issued: "valid_permit E (issued_copy p)" "ap_state (issued_copy p) = ISSUED"
    using valid_issued_copy [OF p] by (simp_all add: issued_copy_def)
  note issuance = issued_audit_event_eq [OF E issued]
  assume h: "validate_permit_audit_history E p events = Inr ()"
  then obtain rest where rest: "events = issuance E (issued_copy p) # rest"
    using issuance by (auto simp: validate_permit_audit_history_def validate_action_permit_eq
        split: list.splits if_splits)
  obtain t where "replay_events E p 1 (issued_copy p, ap_issued_at p) events = Inr (p, t)"
    using h issuance unfolding rest
    by (auto simp: validate_permit_audit_history_def validate_action_permit_eq issuance_def issued_copy_def
        split: if_splits prod.splits simp del: replay_events.simps)
  then have "replay_events E p 2 (issued_copy p, ap_issued_at p) rest = Inr (p, t)"
    unfolding rest by (simp add: history_step_first)
  then have "permit_run E ([issuance E (issued_copy p)] @ rest) p"
    using ok issued
    by (intro run_of_replay [where current = "issued_copy p" and q = p and t = t] run_issued)
      (simp_all add: rest issuance_def issued_copy_def)
  then show "permit_run E events p" by (simp add: rest)
next
  have issued: "valid_permit E (issued_copy p)" "ap_state (issued_copy p) = ISSUED"
    using valid_issued_copy [OF p] by (simp_all add: issued_copy_def)
  assume run: "permit_run E events p"
  then obtain rest where rest: "events = issuance E (issued_copy p) # rest"
    using permit_run_first [OF run] permit_run_not_Nil [OF run] by (cases events) auto
  have "ae_occurred_at (issuance E (issued_copy p)) = ap_issued_at p" by (simp add: issuance_def issued_copy_def)
  then show "validate_permit_audit_history E p events = Inr ()"
    using replay_run [OF run refl] issued_audit_event_eq [OF E issued] issued(1)
    by (simp add: validate_permit_audit_history_def validate_action_permit_eq rest del: replay_events.simps)
qed

section \<open>Safety of runs\<close>

definition events_of_kind :: "audit_kind set \<Rightarrow> audit_event list \<Rightarrow> nat" where
  "events_of_kind ks events = length (filter (\<lambda>e. ae_kind e \<in> ks) events)"

lemma events_of_kind_simps [simp]:
  "events_of_kind ks [] = 0"
  "events_of_kind ks (e # es) = (if ae_kind e \<in> ks then Suc (events_of_kind ks es) else events_of_kind ks es)"
  "events_of_kind ks (es @ fs) = events_of_kind ks es + events_of_kind ks fs"
  by (simp_all add: events_of_kind_def)

definition completion_kinds :: "audit_kind set" where
  "completion_kinds = {K_COMPLETED, K_REJECTED, K_OUTCOME_UNKNOWN}"

lemma completion_kind_in: "completion_kind x \<in> completion_kinds"
  by (cases x) (simp_all add: completion_kinds_def)

lemma completion_kind_not: "completion_kind x \<noteq> K_CLAIMED" "completion_kind x \<noteq> K_EXPIRED"
  by (cases x; simp)+

text \<open>The events of each kind are counted by the state: every kind of transition happens once at most.\<close>

lemma permit_run_counts:
  "permit_run E events p \<Longrightarrow>
     events_of_kind {K_CLAIMED} events = (if ap_state p \<in> {CLAIMED, COMPLETED} then 1 else 0) \<and>
     events_of_kind completion_kinds events = (if ap_state p = COMPLETED then 1 else 0) \<and>
     events_of_kind {K_EXPIRED} events = (if ap_state p = EXPIRED then 1 else 0)"
proof (induction rule: permit_run.induct)
  case (run_issued p)
  then show ?case by (simp add: issuance_def completion_kinds_def)
next
  case (run_step events p e p')
  from run_step(2) run_step(4) show ?case
  proof cases
    case (step_completed at c outcome)
    with run_step(4) show ?thesis
      by (simp add: completed_copy_def completion_kind_in completion_kind_not)
  qed (auto simp: claimed_copy_def expired_copy_def completion_kinds_def)
qed

text \<open>Every claim in a history lies in the validity interval.\<close>

lemma permit_run_claims_in_interval:
  "permit_run E events p \<Longrightarrow> e \<in> set events \<Longrightarrow> ae_kind e = K_CLAIMED \<Longrightarrow>
     ap_issued_at p \<le> ae_occurred_at e \<and> ae_occurred_at e < ap_expires_at p"
proof (induction rule: permit_run.induct)
  case (run_issued p)
  then show ?case by (simp add: issuance_def)
next
  case (run_step events p e' p')
  note same = permit_step_authority [OF run_step(2)]
  show ?case
  proof (cases "e \<in> set events")
    case True
    with run_step same show ?thesis by simp
  next
    case False
    with run_step.prems have "e = e'" by simp
    with run_step(2) run_step.prems(2) show ?thesis
      by cases (auto simp: claimed_copy_def completion_kind_not)
  qed
qed

lemma sorted_le_last: "sorted xs \<Longrightarrow> x \<in> set xs \<Longrightarrow> x \<le> last xs"
  by (induction xs) (auto split: if_splits)

text \<open>Times never decrease and sequence numbers count up.\<close>

lemma permit_run_sequence:
  "permit_run E events p \<Longrightarrow>
     map ae_sequence events = map int [1..<length events + 1] \<and> sorted (map ae_occurred_at events) \<and>
     (\<forall>e\<in>set events. ae_permit_id e = ap_permit_id p)"
proof (induction rule: permit_run.induct)
  case (run_issued p)
  then show ?case by (simp add: issuance_def)
next
  case (run_step events p e p')
  have "ae_occurred_at x \<le> ae_occurred_at (last events)" if "x \<in> set events" for x
    using sorted_le_last [of "map ae_occurred_at events" "ae_occurred_at x"] run_step(4) that
      permit_run_not_Nil [OF run_step(1)]
    by (simp add: last_map)
  then show ?case
    using run_step(4) permit_step_event [OF run_step(2)] permit_step_authority [OF run_step(2)]
    by (auto simp: sorted_append intro: order_trans)
qed

text \<open>A step out of a completed or an expired permit leaves it as it is.\<close>

lemma permit_step_terminal:
  "permit_step E n previous p e p' \<Longrightarrow> ap_state p \<in> {COMPLETED, EXPIRED} \<Longrightarrow> p' = p"
  by (erule permit_step_cases) auto

lemma permit_run_prefix:
  "permit_run E (events @ rest) q \<Longrightarrow> events \<noteq> [] \<Longrightarrow> \<exists>p. permit_run E events p"
proof (induction rest arbitrary: q rule: rev_induct)
  case Nil
  then show ?case by auto
next
  case (snoc e rest)
  from snoc.prems(1) show ?case
  proof cases
    case (run_issued)
    then show ?thesis using snoc.prems(2) by (simp add: append_eq_Cons_conv)
  next
    case (run_step events' p e')
    then show ?thesis using snoc by auto
  qed
qed

text \<open>A history determines its permit, up to a collision of digests.\<close>

definition permit_collision :: "env \<Rightarrow> action_permit \<Rightarrow> action_permit \<Rightarrow> bool" where
  "permit_collision E p q \<longleftrightarrow>
     digests_collide E (json_bytes (action_permit_json p)) (json_bytes (action_permit_json q))"

lemma permit_run_last_sha:
  "permit_run E events p \<Longrightarrow> ae_permit_sha256 (last events) = permit_sha256 E p"
  by (erule permit_run.cases) (simp_all add: issuance_def permit_step_event)

lemma permit_run_determined:
  assumes "permit_run E events p" "permit_run E events q"
  shows "p = q \<or> permit_collision E p q"
  using permit_sha256_eqD [OF _ assms [THEN permit_run_valid]] assms [THEN permit_run_last_sha]
  by (simp add: permit_collision_def)

end
