(* ===== verification/Firestore_Cas.thy ===== *)
theory Firestore_Cas
  imports Contracts
begin

text \<open>
  The compare-and-swap documents of \<open>hosted/firestore_cas.py\<close>. The provider (Google Firestore) is
  outside the repository: its documented behaviour is a small state machine, a map from document
  paths to documents with a strictly increasing update time, an atomic commit with a precondition,
  and a script that says what each call meets, namely the writes that other clients committed
  before it and whether the call fails. Every definition of the store works on that machine.

  A document carries the contract value that its canonical payload encodes, with \<open>encode\<close> the
  canonical encoding: the digest and the size bound are those of the encoded text.
\<close>

section \<open>Documents\<close>

datatype cas_collection =
    RUNTIME | SCENARIO | SCENARIO_INDEX | PROVIDER_CANDIDATE | ACTION_PERMIT | RECOVERY_RUN
  | RECOVERY_RUN_EVENT | OPERATIONAL_EVENT

fun cas_collection_text :: "cas_collection \<Rightarrow> string" where
  "cas_collection_text RUNTIME = ''reconcile-p5-runtime-v1''"
| "cas_collection_text SCENARIO = ''reconcile-p5-scenario-v1''"
| "cas_collection_text SCENARIO_INDEX = ''reconcile-p5-scenario-index-v1''"
| "cas_collection_text PROVIDER_CANDIDATE = ''reconcile-p5-provider-candidates-v1''"
| "cas_collection_text ACTION_PERMIT = ''reconcile-action-permits-v1''"
| "cas_collection_text RECOVERY_RUN = ''reconcile-recovery-runs-v1''"
| "cas_collection_text RECOVERY_RUN_EVENT = ''reconcile-recovery-run-events-v1''"
| "cas_collection_text OPERATIONAL_EVENT = ''reconcile-operational-events-v1''"

datatype cas_error = CONFLICT | CORRUPT_DOCUMENT | CAS_OUTCOME_UNKNOWN | PROVIDER_UNAVAILABLE

text \<open>A failure of the store: one of its own errors, or another exception that escapes.\<close>

datatype cas_failure = Cas_Error cas_error | Cas_Raised exn

record 'p cas_document =
  cd_kind :: cas_collection
  cd_logical_id :: string
  cd_revision :: int
  cd_mutation_id :: string
  cd_payload :: 'p
  cd_payload_sha256 :: string

definition payload_byte_ceiling :: nat where
  "payload_byte_ceiling = 900000"

definition canonical_payload_ok :: "string \<Rightarrow> bool" where
  "canonical_payload_ok text \<longleftrightarrow> text \<noteq> [] \<and> length text \<le> payload_byte_ceiling"

definition cas_document_ok :: "env \<Rightarrow> ('p \<Rightarrow> string) \<Rightarrow> 'p cas_document \<Rightarrow> bool" where
  "cas_document_ok E encode d \<longleftrightarrow>
     identifier_ok E (cd_logical_id d) \<and> int_ok 0 (cd_revision d) \<and> identifier_ok E (cd_mutation_id d) \<and>
     sha256_digest_ok (cd_payload_sha256 d) \<and> canonical_payload_ok (encode (cd_payload d)) \<and>
     env_sha256 E (encode (cd_payload d)) = cd_payload_sha256 d"

definition logical_id :: "env \<Rightarrow> string \<Rightarrow> string result" where
  "logical_id E value =
     (if identifier_ok E value then Inr value
      else Inl (ValueError ''Firestore CAS logical identifier is invalid''))"

definition firestore_cas_document_key :: "env \<Rightarrow> cas_collection \<Rightarrow> string \<Rightarrow> string" where
  "firestore_cas_document_key E collection identity =
     env_sha256 E (cas_collection_text collection @ CHR 0x00 # identity)"

definition firestore_cas_document_path :: "env \<Rightarrow> cas_collection \<Rightarrow> string \<Rightarrow> string" where
  "firestore_cas_document_path E collection identity =
     cas_collection_text collection @ ''/'' @ firestore_cas_document_key E collection identity"

definition build_firestore_cas_document ::
  "env \<Rightarrow> ('p \<Rightarrow> string) \<Rightarrow> cas_collection \<Rightarrow> string \<Rightarrow> int \<Rightarrow> string \<Rightarrow> 'p \<Rightarrow> 'p cas_document result" where
  "build_firestore_cas_document E encode collection identity revision mutation_id payload =
     bind_result (logical_id E identity) (\<lambda>identity.
     bind_result (require (canonical_payload_ok (encode payload))
       (ValueError ''canonical payload is outside its byte bounds'')) (\<lambda>_.
     let d = \<lparr>cd_kind = collection, cd_logical_id = identity, cd_revision = revision,
       cd_mutation_id = mutation_id, cd_payload = payload,
       cd_payload_sha256 = env_sha256 E (encode payload)\<rparr>
     in if cas_document_ok E encode d then Inr d else Inl (ValueError field_message)))"

record 'p cas_snapshot =
  cs_document :: "'p cas_document"
  cs_update_time :: time

section \<open>The provider\<close>

text \<open>
  What a call meets. \<open>Aborted\<close> is contention without a failed precondition, \<open>Fail_Before\<close> an error
  with nothing committed, \<open>Fail_After\<close> an error (or a malformed response) after the commit.
\<close>

datatype provider_fault = No_Fault | Aborted | Fail_Before | Fail_After

record 'p turn =
  tu_foreign :: "(string \<times> ('p cas_document option \<Rightarrow> 'p cas_document option)) list"
  tu_fault :: provider_fault

record 'p provider =
  pv_documents :: "string \<Rightarrow> ('p cas_document \<times> time) option"
  pv_clock :: time
  pv_script :: "'p turn list"

definition provider_write :: "string \<Rightarrow> 'p cas_document \<Rightarrow> 'p provider \<Rightarrow> 'p provider" where
  "provider_write path d w =
     w\<lparr>pv_documents := (pv_documents w)(path \<mapsto> (d, pv_clock w + 1)), pv_clock := pv_clock w + 1\<rparr>"

text \<open>Another client's committed write: what it makes of the document it meets, when it writes.\<close>

definition foreign_write ::
  "string \<times> ('p cas_document option \<Rightarrow> 'p cas_document option) \<Rightarrow> 'p provider \<Rightarrow> 'p provider" where
  "foreign_write pf w =
     (case snd pf (map_option fst (pv_documents w (fst pf))) of
        None \<Rightarrow> w | Some d \<Rightarrow> provider_write (fst pf) d w)"

text \<open>A provider whose script has ended is unavailable.\<close>

definition take_turn :: "'p provider \<Rightarrow> provider_fault \<times> 'p provider" where
  "take_turn w =
     (case pv_script w of
        [] \<Rightarrow> (Fail_Before, w)
      | t # ts \<Rightarrow> (tu_fault t, fold foreign_write (tu_foreign t) (w\<lparr>pv_script := ts\<rparr>)))"

text \<open>
  An atomic commit of one write under a precondition on the stored document. The answers are the
  update time, \<open>Some\<close> error that is known contention, or \<open>None\<close> for an ambiguous error.
\<close>

datatype commit_answer = Committed time | Contention | Ambiguous

definition provider_commit ::
  "(('p cas_document \<times> time) option \<Rightarrow> bool) \<Rightarrow> string \<Rightarrow> 'p cas_document \<Rightarrow> 'p provider \<Rightarrow>
   commit_answer \<times> 'p provider" where
  "provider_commit precondition path d w =
     (case take_turn w of (fault, w) \<Rightarrow>
        if fault = Fail_Before then (Ambiguous, w)
        else if fault = Aborted \<or> \<not> precondition (pv_documents w path) then (Contention, w)
        else (if fault = Fail_After then Ambiguous else Committed (pv_clock w + 1), provider_write path d w))"

section \<open>The store\<close>

definition decode_snapshot ::
  "env \<Rightarrow> ('p \<Rightarrow> string) \<Rightarrow> cas_collection \<Rightarrow> string \<Rightarrow> 'p cas_document \<times> time \<Rightarrow> cas_failure + 'p cas_snapshot" where
  "decode_snapshot E encode collection identity stored =
     (case stored of (d, update_time) \<Rightarrow>
        if cd_kind d = collection \<and> cas_document_ok E encode d \<and> cd_logical_id d = identity then
          Inr \<lparr>cs_document = d, cs_update_time = update_time\<rparr>
        else Inl (Cas_Error CORRUPT_DOCUMENT))"

definition cas_read ::
  "env \<Rightarrow> ('p \<Rightarrow> string) \<Rightarrow> cas_collection \<Rightarrow> string \<Rightarrow> 'p provider \<Rightarrow>
   (cas_failure + 'p cas_snapshot option) \<times> 'p provider" where
  "cas_read E encode collection identity w =
     (case logical_id E identity of
        Inl e \<Rightarrow> (Inl (Cas_Raised e), w)
      | Inr identity \<Rightarrow>
        (case take_turn w of (fault, w) \<Rightarrow>
           if fault \<noteq> No_Fault then (Inl (Cas_Error PROVIDER_UNAVAILABLE), w)
           else case pv_documents w (firestore_cas_document_path E collection identity) of
             None \<Rightarrow> (Inr None, w)
           | Some stored \<Rightarrow>
             (case decode_snapshot E encode collection identity stored of
                Inl e \<Rightarrow> (Inl e, w)
              | Inr snapshot \<Rightarrow> (Inr (Some snapshot), w))))"

definition resolve_ambiguous ::
  "env \<Rightarrow> ('p \<Rightarrow> string) \<Rightarrow> 'p cas_document \<Rightarrow> 'p provider \<Rightarrow> (cas_failure + 'p cas_snapshot) \<times> 'p provider" where
  "resolve_ambiguous E encode d w =
     (case cas_read E encode (cd_kind d) (cd_logical_id d) w of
        (Inr (Some current), w) \<Rightarrow>
          if cs_document current = d then (Inr current, w) else (Inl (Cas_Error CAS_OUTCOME_UNKNOWN), w)
      | (_, w) \<Rightarrow> (Inl (Cas_Error CAS_OUTCOME_UNKNOWN), w))"

definition finish_write ::
  "env \<Rightarrow> ('p \<Rightarrow> string) \<Rightarrow> 'p cas_document \<Rightarrow> commit_answer \<times> 'p provider \<Rightarrow>
   (cas_failure + 'p cas_snapshot) \<times> 'p provider" where
  "finish_write E encode d answer =
     (case answer of
        (Committed update_time, w) \<Rightarrow> (Inr \<lparr>cs_document = d, cs_update_time = update_time\<rparr>, w)
      | (Contention, w) \<Rightarrow> (Inl (Cas_Error CONFLICT), w)
      | (Ambiguous, w) \<Rightarrow> resolve_ambiguous E encode d w)"

definition cas_create ::
  "env \<Rightarrow> ('p \<Rightarrow> string) \<Rightarrow> 'p cas_document \<Rightarrow> 'p provider \<Rightarrow> (cas_failure + 'p cas_snapshot) \<times> 'p provider" where
  "cas_create E encode d w =
     finish_write E encode d
       (provider_commit (\<lambda>stored. stored = None) (firestore_cas_document_path E (cd_kind d) (cd_logical_id d)) d w)"

definition advances :: "'p cas_snapshot \<Rightarrow> 'p cas_document \<Rightarrow> bool" where
  "advances current replacement \<longleftrightarrow>
     cd_kind replacement = cd_kind (cs_document current) \<and>
     cd_logical_id replacement = cd_logical_id (cs_document current) \<and>
     cd_revision replacement = cd_revision (cs_document current) + 1 \<and>
     cd_mutation_id replacement \<noteq> cd_mutation_id (cs_document current)"

definition cas_update ::
  "env \<Rightarrow> ('p \<Rightarrow> string) \<Rightarrow> 'p cas_snapshot \<Rightarrow> 'p cas_document \<Rightarrow> 'p provider \<Rightarrow>
   (cas_failure + 'p cas_snapshot) \<times> 'p provider" where
  "cas_update E encode current replacement w =
     (if \<not> advances current replacement then
        (Inl (Cas_Raised (ValueError ''Firestore CAS replacement does not advance its target'')), w)
      else finish_write E encode replacement
        (provider_commit
          (\<lambda>stored. map_option snd stored = Some (cs_update_time current))
          (firestore_cas_document_path E (cd_kind replacement) (cd_logical_id replacement)) replacement w))"

section \<open>Evolution of the documents\<close>

text \<open>
  The documents of one store change by legal writes only: \<open>legal old new\<close> says which document may
  replace which. Evolution is the effect of any number of such writes, and a document that still
  has its update time is unchanged.
\<close>

type_synonym 'p documents = "string \<Rightarrow> ('p cas_document \<times> time) option"

inductive legal_path :: "('d option \<Rightarrow> 'd \<Rightarrow> bool) \<Rightarrow> 'd option \<Rightarrow> 'd option \<Rightarrow> bool" for legal where
  path_refl: "legal_path legal x x"
| path_step: "legal_path legal x y \<Longrightarrow> legal y d \<Longrightarrow> legal_path legal x (Some d)"

lemma legal_path_trans: "legal_path legal y z \<Longrightarrow> legal_path legal x y \<Longrightarrow> legal_path legal x z"
  by (induction rule: legal_path.induct) (auto intro: legal_path.intros)

definition update_time_of :: "('p cas_document \<times> time) option \<Rightarrow> time" where
  "update_time_of stored = (case stored of None \<Rightarrow> -1 | Some (_, t) \<Rightarrow> t)"

definition evolves ::
  "(string \<Rightarrow> 'p cas_document option \<Rightarrow> 'p cas_document \<Rightarrow> bool) \<Rightarrow> 'p documents \<Rightarrow> 'p documents \<Rightarrow> bool" where
  "evolves legal docs docs' \<longleftrightarrow>
     (\<forall>path. legal_path (legal path) (map_option fst (docs path)) (map_option fst (docs' path)) \<and>
        (docs' path = docs path \<or> update_time_of (docs path) < update_time_of (docs' path)))"

lemma evolves_refl [simp]: "evolves legal docs docs"
  by (simp add: evolves_def path_refl)

lemma evolves_trans: "evolves legal a b \<Longrightarrow> evolves legal b c \<Longrightarrow> evolves legal a c"
  unfolding evolves_def by (metis legal_path_trans order.strict_trans)

definition provider_ok :: "'p provider \<Rightarrow> bool" where
  "provider_ok w \<longleftrightarrow> (\<forall>path. update_time_of (pv_documents w path) \<le> pv_clock w)"

definition script_legal ::
  "(string \<Rightarrow> 'p cas_document option \<Rightarrow> 'p cas_document \<Rightarrow> bool) \<Rightarrow> 'p provider \<Rightarrow> bool" where
  "script_legal legal w \<longleftrightarrow>
     (\<forall>t\<in>set (pv_script w). \<forall>(path, f)\<in>set (tu_foreign t). \<forall>x d. f x = Some d \<longrightarrow> legal path x d)"

definition provider_legal ::
  "(string \<Rightarrow> 'p cas_document option \<Rightarrow> 'p cas_document \<Rightarrow> bool) \<Rightarrow> 'p provider \<Rightarrow> bool" where
  "provider_legal legal w \<longleftrightarrow> provider_ok w \<and> script_legal legal w"

lemma provider_write_evolves:
  assumes "provider_legal legal w" "legal path (map_option fst (pv_documents w path)) d"
  shows "provider_legal legal (provider_write path d w) \<and>
    evolves legal (pv_documents w) (pv_documents (provider_write path d w))"
proof -
  have old: "update_time_of (pv_documents w p) \<le> pv_clock w" for p
    using assms(1) by (simp add: provider_legal_def provider_ok_def)
  have "update_time_of (pv_documents w p) \<le> pv_clock w + 1" for p
    by (rule order_trans [OF old]) simp
  moreover have "update_time_of (pv_documents w path) < pv_clock w + 1" using old [of path] by simp
  moreover have "legal_path (legal path) (map_option fst (pv_documents w path)) (Some d)"
    using assms(2) by (rule path_step [OF path_refl])
  ultimately show ?thesis
    using assms(1) old
    by (auto simp: provider_write_def provider_legal_def provider_ok_def script_legal_def evolves_def
        update_time_of_def path_refl)
qed

lemma foreign_writes_evolve:
  "provider_legal legal w \<Longrightarrow> \<forall>(path, f)\<in>set fs. \<forall>x d. f x = Some d \<longrightarrow> legal path x d \<Longrightarrow>
     provider_legal legal (fold foreign_write fs w) \<and>
     evolves legal (pv_documents w) (pv_documents (fold foreign_write fs w))"
proof (induction fs arbitrary: w)
  case (Cons pf fs)
  have step: "provider_legal legal (foreign_write pf w) \<and>
      evolves legal (pv_documents w) (pv_documents (foreign_write pf w))"
  proof (cases "snd pf (map_option fst (pv_documents w (fst pf)))")
    case (Some d)
    then have "legal (fst pf) (map_option fst (pv_documents w (fst pf))) d"
      using Cons.prems(2) by (cases pf) auto
    then show ?thesis
      using provider_write_evolves [OF Cons.prems(1)] Some by (simp add: foreign_write_def)
  qed (use Cons.prems in \<open>simp add: foreign_write_def\<close>)
  have "provider_legal legal (fold foreign_write fs (foreign_write pf w)) \<and>
      evolves legal (pv_documents (foreign_write pf w)) (pv_documents (fold foreign_write fs (foreign_write pf w)))"
    by (rule Cons.IH) (use step Cons.prems(2) in simp_all)
  with step show ?case by (auto intro: evolves_trans)
qed simp

lemma take_turn_evolves:
  assumes "provider_legal legal w" "take_turn w = (fault, w')"
  shows "provider_legal legal w' \<and> evolves legal (pv_documents w) (pv_documents w')"
proof (cases "pv_script w")
  case (Cons t ts)
  have legal: "provider_legal legal (w\<lparr>pv_script := ts\<rparr>)"
    using assms(1) Cons by (simp add: provider_legal_def provider_ok_def script_legal_def)
  have "\<forall>(path, f)\<in>set (tu_foreign t). \<forall>x d. f x = Some d \<longrightarrow> legal path x d"
    using assms(1) Cons by (simp add: provider_legal_def script_legal_def)
  from foreign_writes_evolve [OF legal this] assms(2) Cons show ?thesis
    by (simp add: take_turn_def)
qed (use assms in \<open>simp add: take_turn_def\<close>)

section \<open>The store as an interface\<close>

text \<open>
  The protocol \<open>_FirestoreCasStore\<close> that the authorities of the runtime take: three operations
  that run in a world.
\<close>

record ('w, 'p) cas_ops =
  op_read :: "cas_collection \<Rightarrow> string \<Rightarrow> 'w \<Rightarrow> (cas_failure + 'p cas_snapshot option) \<times> 'w"
  op_create :: "'p cas_document \<Rightarrow> 'w \<Rightarrow> (cas_failure + 'p cas_snapshot) \<times> 'w"
  op_update :: "'p cas_snapshot \<Rightarrow> 'p cas_document \<Rightarrow> 'w \<Rightarrow> (cas_failure + 'p cas_snapshot) \<times> 'w"

text \<open>At some moment between two states of the documents, the document was the stored one.\<close>

definition committed ::
  "(string \<Rightarrow> 'p cas_document option \<Rightarrow> 'p cas_document \<Rightarrow> bool) \<Rightarrow> 'p documents \<Rightarrow> string \<Rightarrow>
   'p cas_document \<Rightarrow> 'p documents \<Rightarrow> bool" where
  "committed legal docs path d docs' \<longleftrightarrow>
     (\<exists>middle. evolves legal docs middle \<and> map_option fst (middle path) = Some d \<and> evolves legal middle docs')"

text \<open>The document of a snapshot was stored with its update time, now or earlier.\<close>

definition seen ::
  "(string \<Rightarrow> 'p cas_document option \<Rightarrow> 'p cas_document \<Rightarrow> bool) \<Rightarrow> 'p documents \<Rightarrow> string \<Rightarrow>
   'p cas_snapshot \<Rightarrow> bool" where
  "seen legal docs path s \<longleftrightarrow>
     (\<exists>earlier. earlier path = Some (cs_document s, cs_update_time s) \<and> evolves legal earlier docs)"

locale cas_port =
  fixes ops :: "('w, 'p) cas_ops"
    and documents :: "'w \<Rightarrow> 'p documents"
    and path :: "cas_collection \<Rightarrow> string \<Rightarrow> string"
    and legal :: "string \<Rightarrow> 'p cas_document option \<Rightarrow> 'p cas_document \<Rightarrow> bool"
    and ok :: "'w \<Rightarrow> bool"
  assumes read_law:
    "\<And>w c i r w'. ok w \<Longrightarrow> op_read ops c i w = (r, w') \<Longrightarrow>
     ok w' \<and> evolves legal (documents w) (documents w') \<and>
     (r = Inr None \<longrightarrow> documents w' (path c i) = None) \<and>
     (\<forall>s. r = Inr (Some s) \<longrightarrow> documents w' (path c i) = Some (cs_document s, cs_update_time s) \<and>
        cd_kind (cs_document s) = c \<and> cd_logical_id (cs_document s) = i)"
    and create_law:
    "\<And>w d r w'. ok w \<Longrightarrow> legal (path (cd_kind d) (cd_logical_id d)) None d \<Longrightarrow> op_create ops d w = (r, w') \<Longrightarrow>
     ok w' \<and> evolves legal (documents w) (documents w') \<and>
     (\<forall>s. r = Inr s \<longrightarrow> cs_document s = d \<and>
        committed legal (documents w) (path (cd_kind d) (cd_logical_id d)) d (documents w'))"
    and update_law:
    "\<And>w s d r w'. ok w \<Longrightarrow> seen legal (documents w) (path (cd_kind d) (cd_logical_id d)) s \<Longrightarrow>
     legal (path (cd_kind d) (cd_logical_id d)) (Some (cs_document s)) d \<Longrightarrow> op_update ops s d w = (r, w') \<Longrightarrow>
     ok w' \<and> evolves legal (documents w) (documents w') \<and>
     (\<forall>s'. r = Inr s' \<longrightarrow> cs_document s' = d \<and>
        committed legal (documents w) (path (cd_kind d) (cd_logical_id d)) d (documents w'))"

section \<open>The hosted store satisfies the interface\<close>

definition google_cas :: "env \<Rightarrow> ('p \<Rightarrow> string) \<Rightarrow> ('p provider, 'p) cas_ops" where
  "google_cas E encode =
     \<lparr>op_read = cas_read E encode, op_create = cas_create E encode, op_update = cas_update E encode\<rparr>"

lemma cas_read_law:
  assumes "provider_legal legal w" "cas_read E encode c i w = (r, w')"
  shows "provider_legal legal w' \<and> evolves legal (pv_documents w) (pv_documents w') \<and>
    (r = Inr None \<longrightarrow> pv_documents w' (firestore_cas_document_path E c i) = None) \<and>
    (\<forall>s. r = Inr (Some s) \<longrightarrow>
       pv_documents w' (firestore_cas_document_path E c i) = Some (cs_document s, cs_update_time s) \<and>
       cd_kind (cs_document s) = c \<and> cd_logical_id (cs_document s) = i)"
proof (cases "logical_id E i")
  case (Inl e)
  with assms show ?thesis by (auto simp: cas_read_def)
next
  case (Inr j)
  then have "j = i" by (simp add: logical_id_def split: if_splits)
  obtain fault w1 where turn: "take_turn w = (fault, w1)" by (cases "take_turn w")
  have w1: "w' = w1" and result: "r = Inl (Cas_Error PROVIDER_UNAVAILABLE) \<or>
      (case pv_documents w1 (firestore_cas_document_path E c i) of None \<Rightarrow> r = Inr None
       | Some stored \<Rightarrow> r = map_sum id Some (decode_snapshot E encode c i stored))"
    using assms(2) Inr turn \<open>j = i\<close>
    by (auto simp: cas_read_def split: if_splits option.splits sum.splits)
  show ?thesis
  proof (cases "pv_documents w1 (firestore_cas_document_path E c i)")
    case None
    with take_turn_evolves [OF assms(1) turn] w1 result show ?thesis by auto
  next
    case (Some stored)
    with take_turn_evolves [OF assms(1) turn] w1 result show ?thesis
      by (cases stored) (auto simp: decode_snapshot_def split: if_splits)
  qed
qed

lemma committed_now: "map_option fst (docs path) = Some d \<Longrightarrow> evolves legal before docs \<Longrightarrow> committed legal before path d docs"
  unfolding committed_def using evolves_refl by blast

lemma committed_later: "committed legal before path d docs \<Longrightarrow> evolves legal docs after \<Longrightarrow> committed legal before path d after"
  unfolding committed_def using evolves_trans by blast

lemma committed_earlier: "evolves legal before docs \<Longrightarrow> committed legal docs path d after \<Longrightarrow> committed legal before path d after"
  unfolding committed_def using evolves_trans by blast

lemma finish_write_law:
  assumes w: "provider_legal legal w" and r: "finish_write E encode d (answer, w) = (r, w')"
    and now: "\<And>t. answer = Committed t \<Longrightarrow> committed legal before (firestore_cas_document_path E (cd_kind d) (cd_logical_id d)) d (pv_documents w)"
    and before: "evolves legal before (pv_documents w)"
  shows "provider_legal legal w' \<and> evolves legal before (pv_documents w') \<and>
    (\<forall>s. r = Inr s \<longrightarrow> cs_document s = d \<and>
       committed legal before (firestore_cas_document_path E (cd_kind d) (cd_logical_id d)) d (pv_documents w'))"
proof (cases answer)
  case (Committed t)
  then have "w' = w" "r = Inr \<lparr>cs_document = d, cs_update_time = t\<rparr>" using r by (simp_all add: finish_write_def)
  with w before now [OF Committed] show ?thesis by simp
next
  case Contention
  then have "w' = w" "r = Inl (Cas_Error CONFLICT)" using r by (simp_all add: finish_write_def)
  with w before show ?thesis by simp
next
  case Ambiguous
  obtain a w1 where read: "cas_read E encode (cd_kind d) (cd_logical_id d) w = (a, w1)"
    by (cases "cas_read E encode (cd_kind d) (cd_logical_id d) w")
  note law = cas_read_law [OF w read]
  have same: "w' = w1" and result: "r = Inl (Cas_Error CAS_OUTCOME_UNKNOWN) \<or> (\<exists>s. a = Inr (Some s) \<and> cs_document s = d \<and> r = Inr s)"
    using r Ambiguous read by (auto simp: finish_write_def resolve_ambiguous_def split: sum.splits option.splits if_splits)
  have later: "evolves legal before (pv_documents w1)" using before law by (blast intro: evolves_trans)
  have "cs_document s = d \<and> committed legal before (firestore_cas_document_path E (cd_kind d) (cd_logical_id d)) d (pv_documents w1)"
    if s: "r = Inr s" for s
  proof -
    have a: "a = Inr (Some s)" "cs_document s = d" using s result by auto
    then have "map_option fst (pv_documents w1 (firestore_cas_document_path E (cd_kind d) (cd_logical_id d))) = Some d"
      using law by simp
    with a(2) show ?thesis using committed_now [OF _ later] by blast
  qed
  with same later law show ?thesis by blast
qed

lemma provider_commit_law:
  fixes w :: "'p provider"
  assumes w: "provider_legal legal w" and c: "provider_commit precondition path d w = (answer, w')"
    and legal: "\<And>w1 :: 'p provider. evolves legal (pv_documents w) (pv_documents w1) \<Longrightarrow> precondition (pv_documents w1 path) \<Longrightarrow>
      legal path (map_option fst (pv_documents w1 path)) d"
  shows "provider_legal legal w' \<and> evolves legal (pv_documents w) (pv_documents w') \<and>
    (\<forall>t. answer = Committed t \<longrightarrow> committed legal (pv_documents w) path d (pv_documents w'))"
proof -
  obtain fault w1 where turn: "take_turn w = (fault, w1)" by (cases "take_turn w")
  note t = take_turn_evolves [OF w turn]
  show ?thesis
  proof (cases "fault \<in> {Fail_Before, Aborted} \<or> \<not> precondition (pv_documents w1 path)")
    case True
    with c turn t show ?thesis by (auto simp: provider_commit_def split: if_splits)
  next
    case False
    then have written: "w' = provider_write path d w1" using c turn by (auto simp: provider_commit_def split: if_splits)
    have "provider_legal legal w' \<and> evolves legal (pv_documents w1) (pv_documents w')"
      unfolding written using False legal [of w1] t by (intro provider_write_evolves) auto
    moreover from this have "evolves legal (pv_documents w) (pv_documents w')" using t by (blast intro: evolves_trans)
    moreover have "map_option fst (pv_documents w' path) = Some d" by (simp add: written provider_write_def)
    ultimately show ?thesis by (auto intro: committed_now)
  qed
qed

lemma seen_unchanged:
  assumes "seen legal docs path s" "evolves legal docs docs'" "map_option snd (docs' path) = Some (cs_update_time s)"
  shows "map_option fst (docs' path) = Some (cs_document s)"
proof -
  obtain earlier where e: "earlier path = Some (cs_document s, cs_update_time s)" "evolves legal earlier docs'"
    using assms(1,2) unfolding seen_def by (blast intro: evolves_trans)
  have "docs' path = earlier path \<or> update_time_of (earlier path) < update_time_of (docs' path)"
    using e(2) unfolding evolves_def by blast
  with e(1) assms(3) show ?thesis by (auto simp: update_time_of_def split: option.splits)
qed

interpretation google: cas_port "google_cas E encode" pv_documents "firestore_cas_document_path E" legal "provider_legal legal"
  for E encode legal
proof unfold_locales
  fix w w' :: "'a provider" and c i r
  assume "provider_legal legal w" "op_read (google_cas E encode) c i w = (r, w')"
  then show "provider_legal legal w' \<and> evolves legal (pv_documents w) (pv_documents w') \<and>
      (r = Inr None \<longrightarrow> pv_documents w' (firestore_cas_document_path E c i) = None) \<and>
      (\<forall>s. r = Inr (Some s) \<longrightarrow> pv_documents w' (firestore_cas_document_path E c i) = Some (cs_document s, cs_update_time s) \<and>
        cd_kind (cs_document s) = c \<and> cd_logical_id (cs_document s) = i)"
    using cas_read_law [of legal w E encode c i r w'] by (simp add: google_cas_def)
next
  fix w w' :: "'a provider" and d :: "'a cas_document" and r
  let ?path = "firestore_cas_document_path E (cd_kind d) (cd_logical_id d)"
  assume w: "provider_legal legal w" and d: "legal ?path None d" and r: "op_create (google_cas E encode) d w = (r, w')"
  obtain answer w1 where c: "provider_commit (\<lambda>stored. stored = None) ?path d w = (answer, w1)"
    by (cases "provider_commit (\<lambda>stored. stored = None) ?path d w")
  have f: "finish_write E encode d (answer, w1) = (r, w')" using r c by (simp add: google_cas_def cas_create_def)
  have law: "provider_legal legal w1 \<and> evolves legal (pv_documents w) (pv_documents w1) \<and>
      (\<forall>t. answer = Committed t \<longrightarrow> committed legal (pv_documents w) ?path d (pv_documents w1))"
    by (rule provider_commit_law [OF w c]) (use d in simp)
  show "provider_legal legal w' \<and> evolves legal (pv_documents w) (pv_documents w') \<and>
      (\<forall>s. r = Inr s \<longrightarrow> cs_document s = d \<and> committed legal (pv_documents w) ?path d (pv_documents w'))"
    by (rule finish_write_law [OF _ f]) (use law in blast)+
next
  fix w w' :: "'a provider" and d :: "'a cas_document" and s :: "'a cas_snapshot" and r
  let ?path = "firestore_cas_document_path E (cd_kind d) (cd_logical_id d)"
  let ?pre = "\<lambda>stored. map_option snd stored = Some (cs_update_time s)"
  assume w: "provider_legal legal w" and s: "seen legal (pv_documents w) ?path s"
    and d: "legal ?path (Some (cs_document s)) d" and r: "op_update (google_cas E encode) s d w = (r, w')"
  show "provider_legal legal w' \<and> evolves legal (pv_documents w) (pv_documents w') \<and>
      (\<forall>s'. r = Inr s' \<longrightarrow> cs_document s' = d \<and> committed legal (pv_documents w) ?path d (pv_documents w'))"
  proof (cases "advances s d")
    case False
    with r w show ?thesis by (auto simp: google_cas_def cas_update_def)
  next
    case True
    obtain answer w1 where c: "provider_commit ?pre ?path d w = (answer, w1)"
      by (cases "provider_commit ?pre ?path d w")
    have f: "finish_write E encode d (answer, w1) = (r, w')" using r c True by (simp add: google_cas_def cas_update_def)
    have law: "provider_legal legal w1 \<and> evolves legal (pv_documents w) (pv_documents w1) \<and>
        (\<forall>t. answer = Committed t \<longrightarrow> committed legal (pv_documents w) ?path d (pv_documents w1))"
      by (rule provider_commit_law [OF w c]) (simp add: seen_unchanged [OF s] d del: map_option_eq_Some)
    show ?thesis by (rule finish_write_law [OF _ f]) (use law in blast)+
  qed
qed

end
