(* ===== verification/Permit_Store.thy ===== *)
theory Permit_Store
  imports Permit_Machine Firestore_Cas
begin

text \<open>
  The durable permit authority of \<open>hosted/firestore_permits.py\<close>: one document holds a permit with
  its audit history, every change is a compare-and-swap of that document, and a mutation is tried
  64 times. The store works on any implementation of the interface of \<open>Firestore_Cas\<close>; its lemmas
  are proved in a locale over that interface and used on the hosted implementation.
\<close>

section \<open>Aggregates\<close>

record permit_aggregate =
  pa_permit :: action_permit
  pa_audit_events :: "audit_event list"

fun audit_kind_text :: "audit_kind \<Rightarrow> string" where
  "audit_kind_text K_ISSUED = ''ISSUED''"
| "audit_kind_text K_BLOCKED = ''BLOCKED''"
| "audit_kind_text K_CLAIMED = ''CLAIMED''"
| "audit_kind_text K_COMPLETED = ''COMPLETED''"
| "audit_kind_text K_REJECTED = ''REJECTED''"
| "audit_kind_text K_EXPIRED = ''EXPIRED''"
| "audit_kind_text K_OUTCOME_UNKNOWN = ''OUTCOME_UNKNOWN''"

fun denial_reason_text :: "denial_reason \<Rightarrow> string" where
  "denial_reason_text D_BINDING_MISMATCH = ''BINDING_MISMATCH''"
| "denial_reason_text D_NON_MONOTONIC_TIME = ''NON_MONOTONIC_TIME''"
| "denial_reason_text D_NOT_YET_VALID = ''NOT_YET_VALID''"
| "denial_reason_text D_EXPIRED = ''EXPIRED''"
| "denial_reason_text D_ALREADY_CLAIMED = ''ALREADY_CLAIMED''"
| "denial_reason_text D_ALREADY_COMPLETED = ''ALREADY_COMPLETED''"

definition audit_event_json :: "audit_event \<Rightarrow> json" where
  "audit_event_json e = JObj
     [(''schema_version'', JStr ''reconcile/permit-audit-event/v1''),
      (''event_id'', JStr (ae_event_id e)),
      (''permit_id'', JStr (ae_permit_id e)),
      (''sequence'', JInt (ae_sequence e)),
      (''kind'', JStr (audit_kind_text (ae_kind e))),
      (''permit_revision'', JInt (ae_permit_revision e)),
      (''permit_sha256'', JStr (ae_permit_sha256 e)),
      (''occurred_at'', time_json (ae_occurred_at e)),
      (''claim_id'', option_json JStr (ae_claim_id e)),
      (''denial_reason'', option_json (\<lambda>d. JStr (denial_reason_text d)) (ae_denial_reason e)),
      (''completion_outcome'', option_json (\<lambda>x. JStr (completion_outcome_text x)) (ae_completion_outcome e))]"

definition aggregate_bytes :: "permit_aggregate \<Rightarrow> string" where
  "aggregate_bytes a = json_bytes (JObj
     [(''schema_version'', JStr ''reconcile/firestore-action-permit-aggregate/v1''),
      (''permit'', action_permit_json (pa_permit a)),
      (''audit_events'', JArr (map audit_event_json (pa_audit_events a)))])"

definition validate_permit_aggregate :: "env \<Rightarrow> permit_aggregate \<Rightarrow> permit_aggregate result" where
  "validate_permit_aggregate E a =
     bind_result (require (valid_permit E (pa_permit a) \<and> well_formed_events E (pa_audit_events a))
       (ValueError field_message)) (\<lambda>_.
     bind_result (validate_permit_audit_history E (pa_permit a) (pa_audit_events a)) (\<lambda>_. Inr a))"

datatype store_error =
    PermitNotFound string
  | PermitConflict string
  | PermitCorruptState string
  | PermitStoreUnavailable
  | PermitStoreOutcomeUnknown
  | PermitClaimDenied string denial_reason
  | PermitCompletionDenied string denial_reason
  | Store_Raised exn

type_synonym 'a store_result = "store_error + 'a"

type_synonym permit_document = "permit_aggregate cas_document"

definition aggregate_document ::
  "env \<Rightarrow> permit_aggregate \<Rightarrow> int \<Rightarrow> string \<Rightarrow> permit_document result" where
  "aggregate_document E a revision mutation_id =
     build_firestore_cas_document E aggregate_bytes ACTION_PERMIT (ap_permit_id (pa_permit a)) revision
       mutation_id a"

definition decode_aggregate :: "env \<Rightarrow> permit_document \<Rightarrow> permit_aggregate store_result" where
  "decode_aggregate E d =
     (if cd_kind d \<noteq> ACTION_PERMIT then Inl (PermitCorruptState (cd_logical_id d))
      else case bind_result (validate_permit_aggregate E (cd_payload d)) (\<lambda>a.
          bind_result (validate_action_permit_identity E (pa_permit a)) (\<lambda>_. checked
            [(cd_logical_id d \<noteq> ap_permit_id (pa_permit a), ''snapshot logical identity is invalid''),
             (cd_revision d \<noteq> int (length (pa_audit_events a)) - 1,
                ''snapshot revision does not match permit audit history'')] a)) of
        Inl _ \<Rightarrow> Inl (PermitCorruptState (cd_logical_id d))
      | Inr a \<Rightarrow> Inr a)"

section \<open>The store\<close>

type_synonym 'w permit_ops = "('w, permit_aggregate) cas_ops"

definition permit_read ::
  "env \<Rightarrow> 'w permit_ops \<Rightarrow> string \<Rightarrow> 'w \<Rightarrow> (permit_aggregate cas_snapshot \<times> permit_aggregate) store_result \<times> 'w" where
  "permit_read E ops permit_id w =
     (case op_read ops ACTION_PERMIT permit_id w of
        (Inl (Cas_Error CAS_OUTCOME_UNKNOWN), w) \<Rightarrow> (Inl PermitStoreOutcomeUnknown, w)
      | (Inl _, w) \<Rightarrow> (Inl PermitStoreUnavailable, w)
      | (Inr None, w) \<Rightarrow> (Inl (PermitNotFound permit_id), w)
      | (Inr (Some snapshot), w) \<Rightarrow>
          (map_sum id (\<lambda>a. (snapshot, a)) (decode_aggregate E (cs_document snapshot)), w))"

text \<open>What a failed write means to the caller, other than a conflict.\<close>

fun write_failure :: "cas_failure \<Rightarrow> store_error" where
  "write_failure (Cas_Error CAS_OUTCOME_UNKNOWN) = PermitStoreOutcomeUnknown"
| "write_failure _ = PermitStoreUnavailable"

text \<open>The answer of the store is checked against the document that was sent.\<close>

definition written_ok :: "env \<Rightarrow> permit_document \<Rightarrow> permit_aggregate \<Rightarrow> permit_aggregate cas_snapshot \<Rightarrow> bool" where
  "written_ok E d a written \<longleftrightarrow> cs_document written = d \<and> decode_aggregate E (cs_document written) = Inr a"

definition existing_permit :: "env \<Rightarrow> 'w permit_ops \<Rightarrow> action_permit \<Rightarrow> 'w \<Rightarrow> action_permit store_result \<times> 'w" where
  "existing_permit E ops p w =
     (case permit_read E ops (ap_permit_id p) w of
        (Inl e, w) \<Rightarrow> (Inl (PermitConflict (ap_permit_id p)), w)
      | (Inr (_, existing), w) \<Rightarrow>
        (case same_action_permit_authority E (pa_permit existing) p of
           Inl e \<Rightarrow> (Inl (Store_Raised e), w)
         | Inr same \<Rightarrow>
           (if same then (Inr (pa_permit existing), w) else (Inl (PermitConflict (ap_permit_id p)), w))))"

definition issue_permit ::
  "env \<Rightarrow> 'w permit_ops \<Rightarrow> string \<Rightarrow> action_permit \<Rightarrow> 'w \<Rightarrow> action_permit store_result \<times> 'w" where
  "issue_permit E ops mutation_id p w =
     (if ap_state p \<noteq> ISSUED then (Inl (Store_Raised (TypeError ''an exact issued action permit is required'')), w)
      else case validate_action_permit_identity E p of
        Inl e \<Rightarrow> (Inl (if is_type_or_value_error e then PermitConflict (ap_permit_id p) else Store_Raised e), w)
      | Inr _ \<Rightarrow>
        (case bind_result (issued_audit_event E p) (\<lambda>event.
            bind_result (validate_permit_aggregate E \<lparr>pa_permit = p, pa_audit_events = [event]\<rparr>) (\<lambda>a.
            bind_result (aggregate_document E a 0 mutation_id) (\<lambda>d. Inr (a, d)))) of
           Inl e \<Rightarrow> (Inl (Store_Raised e), w)
         | Inr (a, d) \<Rightarrow>
           (case op_create ops d w of
              (Inl (Cas_Error CONFLICT), w) \<Rightarrow> existing_permit E ops p w
            | (Inl e, w) \<Rightarrow> (Inl (write_failure e), w)
            | (Inr written, w) \<Rightarrow>
                (if written_ok E d a written then (Inr p, w) else (Inl (PermitCorruptState (ap_permit_id p)), w)))))"

definition get_permit :: "env \<Rightarrow> 'w permit_ops \<Rightarrow> string \<Rightarrow> 'w \<Rightarrow> action_permit store_result \<times> 'w" where
  "get_permit E ops permit_id w =
     (case permit_read E ops permit_id w of (r, w) \<Rightarrow> (map_sum id (\<lambda>(_, a). pa_permit a) r, w))"

definition permit_audit_events :: "env \<Rightarrow> 'w permit_ops \<Rightarrow> string \<Rightarrow> 'w \<Rightarrow> audit_event list store_result \<times> 'w" where
  "permit_audit_events E ops permit_id w =
     (case permit_read E ops permit_id w of (r, w) \<Rightarrow> (map_sum id (\<lambda>(_, a). pa_audit_events a) r, w))"

type_synonym mutation_factory = "action_permit \<Rightarrow> int \<Rightarrow> time \<Rightarrow> permit_mutation result"

text \<open>The replacement that one attempt makes of the aggregate it has read.\<close>

definition replacement_for ::
  "env \<Rightarrow> mutation_factory \<Rightarrow> string \<Rightarrow> permit_aggregate cas_snapshot \<Rightarrow> permit_aggregate \<Rightarrow>
   (permit_mutation \<times> permit_aggregate \<times> permit_document) result" where
  "replacement_for E factory mutation_id snapshot a =
     bind_result (factory (pa_permit a) (int (length (pa_audit_events a)) + 1)
       (ae_occurred_at (last (pa_audit_events a)))) (\<lambda>m.
     bind_result (validate_permit_aggregate E
       \<lparr>pa_permit = pm_permit m, pa_audit_events = pa_audit_events a @ [pm_event m]\<rparr>) (\<lambda>replacement.
     bind_result (aggregate_document E replacement (cd_revision (cs_document snapshot) + 1) mutation_id)
       (\<lambda>d. Inr (m, replacement, d))))"

text \<open>One attempt per fresh mutation identifier; a conflict starts the next attempt.\<close>

fun mutate_attempts ::
  "env \<Rightarrow> 'w permit_ops \<Rightarrow> mutation_factory \<Rightarrow> string \<Rightarrow> string list \<Rightarrow> 'w \<Rightarrow> permit_mutation store_result \<times> 'w" where
  "mutate_attempts E ops factory permit_id [] w = (Inl PermitStoreUnavailable, w)"
| "mutate_attempts E ops factory permit_id (mutation_id # fresh) w =
     (case permit_read E ops permit_id w of
        (Inl e, w) \<Rightarrow> (Inl e, w)
      | (Inr (snapshot, a), w) \<Rightarrow>
        (case replacement_for E factory mutation_id snapshot a of
           Inl e \<Rightarrow> (Inl (Store_Raised e), w)
         | Inr (m, replacement, d) \<Rightarrow>
           (case op_update ops snapshot d w of
              (Inl (Cas_Error CONFLICT), w) \<Rightarrow> mutate_attempts E ops factory permit_id fresh w
            | (Inl e, w) \<Rightarrow> (Inl (write_failure e), w)
            | (Inr written, w) \<Rightarrow>
                (if written_ok E d replacement written then (Inr m, w)
                 else (Inl (PermitCorruptState permit_id), w)))))"

definition max_cas_attempts :: nat where
  "max_cas_attempts = 64"

text \<open>\<open>fresh n\<close> is the identifier that \<open>new_firestore_cas_mutation_id\<close> returns in attempt \<open>n\<close>.\<close>

definition mutate ::
  "env \<Rightarrow> 'w permit_ops \<Rightarrow> mutation_factory \<Rightarrow> string \<Rightarrow> (nat \<Rightarrow> string) \<Rightarrow> 'w \<Rightarrow>
   permit_mutation store_result \<times> 'w" where
  "mutate E ops factory permit_id fresh w =
     mutate_attempts E ops factory permit_id (map fresh [0..<max_cas_attempts]) w"

definition claim_permit ::
  "env \<Rightarrow> 'w permit_ops \<Rightarrow> (nat \<Rightarrow> string) \<Rightarrow> claim_request \<Rightarrow> 'w \<Rightarrow> action_permit store_result \<times> 'w" where
  "claim_permit E ops fresh r w =
     (case mutate E ops (\<lambda>p n t. evaluate_permit_claim E p r n t) (cq_permit_id r) fresh w of
        (Inl e, w) \<Rightarrow> (Inl e, w)
      | (Inr m, w) \<Rightarrow>
        (case pm_denial_reason m of
           Some reason \<Rightarrow> (Inl (PermitClaimDenied (cq_permit_id r) reason), w)
         | None \<Rightarrow> (Inr (pm_permit m), w)))"

definition complete_permit ::
  "env \<Rightarrow> 'w permit_ops \<Rightarrow> (nat \<Rightarrow> string) \<Rightarrow> completion_request \<Rightarrow> 'w \<Rightarrow> action_permit store_result \<times> 'w" where
  "complete_permit E ops fresh r w =
     (case mutate E ops (\<lambda>p n t. evaluate_permit_completion E p r n t) (kq_permit_id r) fresh w of
        (Inl e, w) \<Rightarrow> (Inl e, w)
      | (Inr m, w) \<Rightarrow>
        (case pm_denial_reason m of
           Some reason \<Rightarrow> (Inl (PermitCompletionDenied (kq_permit_id r) reason), w)
         | None \<Rightarrow> (Inr (pm_permit m), w)))"

section \<open>Legal documents\<close>

text \<open>
  A document of the store is a run of the permit machine, and a legal write starts a run at
  issuance or adds one event to the run that it replaces.
\<close>

definition permit_document_ok :: "env \<Rightarrow> string \<Rightarrow> permit_document \<Rightarrow> bool" where
  "permit_document_ok E path d \<longleftrightarrow>
     cd_kind d = ACTION_PERMIT \<and> path = firestore_cas_document_path E ACTION_PERMIT (cd_logical_id d) \<and>
     cd_logical_id d = ap_permit_id (pa_permit (cd_payload d)) \<and>
     permit_run E (pa_audit_events (cd_payload d)) (pa_permit (cd_payload d)) \<and>
     validate_action_permit_identity E (pa_permit (cd_payload d)) = Inr () \<and>
     cd_revision d = int (length (pa_audit_events (cd_payload d))) - 1"

definition permit_legal :: "env \<Rightarrow> string \<Rightarrow> permit_document option \<Rightarrow> permit_document \<Rightarrow> bool" where
  "permit_legal E path old d \<longleftrightarrow>
     permit_document_ok E path d \<and>
     (case old of
        None \<Rightarrow> length (pa_audit_events (cd_payload d)) = 1
      | Some d' \<Rightarrow> cd_logical_id d' = cd_logical_id d \<and>
          issued_copy (pa_permit (cd_payload d)) = issued_copy (pa_permit (cd_payload d')) \<and>
          (\<exists>e. pa_audit_events (cd_payload d) = pa_audit_events (cd_payload d') @ [e]))"

definition permit_documents_ok :: "env \<Rightarrow> permit_aggregate documents \<Rightarrow> bool" where
  "permit_documents_ok E docs \<longleftrightarrow> (\<forall>path d t. docs path = Some (d, t) \<longrightarrow> permit_document_ok E path d)"

lemma legal_path_document_ok:
  "legal_path (permit_legal E path) x y \<Longrightarrow> (\<forall>d. x = Some d \<longrightarrow> permit_document_ok E path d) \<Longrightarrow>
     (\<forall>d. y = Some d \<longrightarrow> permit_document_ok E path d)"
  by (induction rule: legal_path.induct) (auto simp: permit_legal_def)

lemma permit_documents_ok_evolves:
  assumes "permit_documents_ok E docs" "evolves (permit_legal E) docs docs'"
  shows "permit_documents_ok E docs'"
  unfolding permit_documents_ok_def
proof (intro allI impI)
  fix path d t
  assume d: "docs' path = Some (d, t)"
  have "legal_path (permit_legal E path) (map_option fst (docs path)) (map_option fst (docs' path))"
    using assms(2) by (simp add: evolves_def)
  from legal_path_document_ok [OF this] assms(1) d show "permit_document_ok E path d"
    by (auto simp: permit_documents_ok_def)
qed

text \<open>Along legal writes a history only grows.\<close>

lemma legal_path_extends:
  "legal_path (permit_legal E path) x y \<Longrightarrow> x = Some d \<Longrightarrow>
     \<exists>d' rest. y = Some d' \<and> cd_logical_id d' = cd_logical_id d \<and>
       issued_copy (pa_permit (cd_payload d')) = issued_copy (pa_permit (cd_payload d)) \<and>
       pa_audit_events (cd_payload d') = pa_audit_events (cd_payload d) @ rest"
proof (induction rule: legal_path.induct)
  case (path_refl x)
  then show ?case by auto
next
  case (path_step x y d')
  then obtain d1 rest where d1: "y = Some d1" "cd_logical_id d1 = cd_logical_id d"
      "issued_copy (pa_permit (cd_payload d1)) = issued_copy (pa_permit (cd_payload d))"
      "pa_audit_events (cd_payload d1) = pa_audit_events (cd_payload d) @ rest" by blast
  with path_step(2) show ?case by (auto simp: permit_legal_def)
qed

lemma committed_extends:
  assumes "committed (permit_legal E) docs path d docs'"
  shows "\<exists>d' t rest. docs' path = Some (d', t) \<and> cd_logical_id d' = cd_logical_id d \<and>
    issued_copy (pa_permit (cd_payload d')) = issued_copy (pa_permit (cd_payload d)) \<and>
    pa_audit_events (cd_payload d') = pa_audit_events (cd_payload d) @ rest"
proof -
  obtain middle where m: "map_option fst (middle path) = Some d" "evolves (permit_legal E) middle docs'"
    using assms by (auto simp: committed_def)
  then have "legal_path (permit_legal E path) (Some d) (map_option fst (docs' path))"
    by (metis evolves_def)
  from legal_path_extends [OF this refl] show ?thesis by auto
qed

lemma identity_of_authority:
  assumes "permit_authority_fields p = permit_authority_fields q"
  shows "validate_action_permit_identity E p = validate_action_permit_identity E q \<and> ap_permit_id p = ap_permit_id q"
proof -
  have "sealed_transition p = sealed_transition q" "ap_certificate_id p = ap_certificate_id q" "ap_permit_id p = ap_permit_id q"
    using assms by (simp_all add: permit_authority_fields_def sealed_transition_def)
  then show ?thesis by (simp add: validate_action_permit_identity_def action_permit_transition_def)
qed

lemma decode_aggregate_ok:
  assumes E: "hexdigest_ok E" and d: "decode_aggregate E d = Inr a"
  shows "a = cd_payload d \<and> cd_kind d = ACTION_PERMIT \<and> cd_logical_id d = ap_permit_id (pa_permit a) \<and>
    permit_run E (pa_audit_events a) (pa_permit a) \<and> validate_action_permit_identity E (pa_permit a) = Inr () \<and>
    cd_revision d = int (length (pa_audit_events a)) - 1"
proof -
  have a: "validate_permit_aggregate E (cd_payload d) = Inr a" "validate_action_permit_identity E (pa_permit a) = Inr ()"
      "cd_logical_id d = ap_permit_id (pa_permit a)" "cd_revision d = int (length (pa_audit_events a)) - 1"
      "cd_kind d = ACTION_PERMIT"
    using d by (auto simp: decode_aggregate_def split: if_splits sum.splits)
  then have "a = cd_payload d" "valid_permit E (pa_permit a)" "well_formed_events E (pa_audit_events a)"
      "validate_permit_audit_history E (pa_permit a) (pa_audit_events a) = Inr ()"
    by (auto simp: validate_permit_aggregate_def)
  with a audit_history_accepts [OF E] show ?thesis by simp
qed

lemma decode_aggregate_run:
  assumes "hexdigest_ok E" "permit_document_ok E path d"
  shows "decode_aggregate E d = Inr (cd_payload d)"
proof -
  let ?a = "cd_payload d"
  have run: "permit_run E (pa_audit_events ?a) (pa_permit ?a)" using assms(2) by (simp add: permit_document_ok_def)
  have "validate_permit_audit_history E (pa_permit ?a) (pa_audit_events ?a) = Inr ()"
    using audit_history_accepts [OF assms(1) permit_run_valid [OF run] permit_run_well_formed [OF run assms(1)]] run by simp
  then have "validate_permit_aggregate E ?a = Inr ?a"
    using permit_run_valid [OF run] permit_run_well_formed [OF run assms(1)] by (simp add: validate_permit_aggregate_def)
  with assms(2) show ?thesis
    by (simp add: decode_aggregate_def permit_document_ok_def checked.simps)
qed

text \<open>A factory whose mutations are steps of the machine.\<close>

definition factory_steps :: "env \<Rightarrow> mutation_factory \<Rightarrow> bool" where
  "factory_steps E factory \<longleftrightarrow>
     (\<forall>p n t m. valid_permit E p \<longrightarrow> time_ok t \<longrightarrow> ap_issued_at p \<le> t \<longrightarrow> factory p n t = Inr m \<longrightarrow>
        permit_step E n t p (pm_event m) (pm_permit m) \<and> audit_event_fields_ok E (pm_event m))"

lemma mutation_sequence: "mutation E p n k at c d x = Inr m \<Longrightarrow> int_ok 1 n"
  by (simp add: mutation_eq audit_event_fields_ok_def)

lemma claim_factory_steps:
  assumes "hexdigest_ok E" "claim_request_ok E r"
  shows "factory_steps E (\<lambda>p n t. evaluate_permit_claim E p r n t)"
  unfolding factory_steps_def
proof (intro allI impI)
  fix p n t m
  assume a: "valid_permit E p" "time_ok t" "ap_issued_at p \<le> t" "evaluate_permit_claim E p r n t = Inr m"
  have "int_ok 1 n"
    using a(4) by (auto simp: evaluate_permit_claim_def blocked_claim_def split: if_splits dest: mutation_sequence)
  from claim_steps [OF assms(1) a(1) assms(2) this a(2,3)] a(4)
  show "permit_step E n t p (pm_event m) (pm_permit m) \<and> audit_event_fields_ok E (pm_event m)"
    by (auto simp: step_result_def)
qed

lemma completion_factory_steps:
  assumes "hexdigest_ok E" "completion_request_ok E r"
  shows "factory_steps E (\<lambda>p n t. evaluate_permit_completion E p r n t)"
  unfolding factory_steps_def
proof (intro allI impI)
  fix p n t m
  assume a: "valid_permit E p" "time_ok t" "ap_issued_at p \<le> t" "evaluate_permit_completion E p r n t = Inr m"
  have "int_ok 1 n"
    using a(4) by (auto simp: evaluate_permit_completion_def split: if_splits dest: mutation_sequence)
  from completion_steps [OF assms(1) a(1) assms(2) this a(2)] a(4)
  show "permit_step E n t p (pm_event m) (pm_permit m) \<and> audit_event_fields_ok E (pm_event m)"
    by (auto simp: step_result_def)
qed

lemma replacement_for_legal:
  assumes E: "hexdigest_ok E" and f: "factory_steps E factory"
    and s: "permit_document_ok E path (cs_document s)" "a = cd_payload (cs_document s)"
    and r: "replacement_for E factory mutation_id s a = Inr (m, replacement, d)"
  shows "permit_legal E path (Some (cs_document s)) d \<and> cd_payload d = replacement \<and>
    replacement = \<lparr>pa_permit = pm_permit m, pa_audit_events = pa_audit_events a @ [pm_event m]\<rparr> \<and>
    cd_kind d = ACTION_PERMIT \<and> cd_logical_id d = cd_logical_id (cs_document s) \<and>
    factory (pa_permit a) (int (length (pa_audit_events a)) + 1) (ae_occurred_at (last (pa_audit_events a))) = Inr m"
proof -
  let ?n = "int (length (pa_audit_events a)) + 1" and ?t = "ae_occurred_at (last (pa_audit_events a))"
  have run: "permit_run E (pa_audit_events a) (pa_permit a)" using s by (simp add: permit_document_ok_def)
  have m: "factory (pa_permit a) ?n ?t = Inr m"
      "replacement = \<lparr>pa_permit = pm_permit m, pa_audit_events = pa_audit_events a @ [pm_event m]\<rparr>"
      "aggregate_document E replacement (cd_revision (cs_document s) + 1) mutation_id = Inr d"
    using r by (auto simp: replacement_for_def validate_permit_aggregate_def)
  have step: "permit_step E ?n ?t (pa_permit a) (pm_event m) (pm_permit m)" "audit_event_fields_ok E (pm_event m)"
    using f m(1) permit_run_valid [OF run] permit_run_time [OF run] permit_run_issued_at [OF run]
    by (auto simp: factory_steps_def)
  have run': "permit_run E (pa_audit_events a @ [pm_event m]) (pm_permit m)" using run_step [OF run step] .
  have same: "permit_authority_fields (pm_permit m) = permit_authority_fields (pa_permit a)"
      "issued_copy (pm_permit m) = issued_copy (pa_permit a)"
    using permit_step_authority [OF step(1)] by simp_all
  have d: "cd_kind d = ACTION_PERMIT" "cd_logical_id d = ap_permit_id (pm_permit m)" "cd_payload d = replacement"
      "cd_revision d = cd_revision (cs_document s) + 1"
    using m(2,3) by (auto simp: aggregate_document_def build_firestore_cas_document_def logical_id_def Let_def split: if_splits)
  show ?thesis
    using s d m run' identity_of_authority [OF same(1), of E] same(2)
    by (auto simp: permit_legal_def permit_document_ok_def)
qed

lemma permit_run_single_claim:
  assumes "permit_run E events p" "e \<in> set events" "e' \<in> set events" "ae_kind e = K_CLAIMED" "ae_kind e' = K_CLAIMED"
  shows "e = e'"
proof -
  let ?xs = "filter (\<lambda>e. ae_kind e \<in> {K_CLAIMED}) events"
  have at_most_one: "length xs \<le> Suc 0 \<Longrightarrow> x \<in> set xs \<Longrightarrow> y \<in> set xs \<Longrightarrow> x = y" for xs and x y :: audit_event
    by (cases xs) auto
  have "length ?xs \<le> Suc 0"
    using permit_run_counts [OF assms(1)] by (simp add: events_of_kind_def)
  moreover have "e \<in> set ?xs" "e' \<in> set ?xs" using assms by simp_all
  ultimately show ?thesis by (rule at_most_one)
qed

section \<open>The store over any compare-and-swap port\<close>

text \<open>The history of an aggregate continues the one that was stored before.\<close>

definition history_since :: "(permit_document \<times> time) option \<Rightarrow> permit_aggregate \<Rightarrow> bool" where
  "history_since stored a \<longleftrightarrow>
     (\<forall>d t. stored = Some (d, t) \<longrightarrow> (\<exists>rest. pa_audit_events a = pa_audit_events (cd_payload d) @ rest))"

lemma history_since_now: "stored = Some (d, t) \<Longrightarrow> history_since stored (cd_payload d)"
  by (simp add: history_since_def)

lemma history_since_evolves:
  assumes "evolves (permit_legal E) docs docs'" "history_since (docs' path) a"
  shows "history_since (docs path) a"
  unfolding history_since_def
proof (intro allI impI)
  fix d t
  assume d: "docs path = Some (d, t)"
  have "legal_path (permit_legal E path) (map_option fst (docs path)) (map_option fst (docs' path))"
    using assms(1) by (simp add: evolves_def)
  then obtain d' rest where d': "map_option fst (docs' path) = Some d'"
      "pa_audit_events (cd_payload d') = pa_audit_events (cd_payload d) @ rest"
    using legal_path_extends [of E path "map_option fst (docs path)" "map_option fst (docs' path)" d] d by auto
  then obtain t' where "docs' path = Some (d', t')" by auto
  with assms(2) obtain more_events where "pa_audit_events a = pa_audit_events (cd_payload d') @ more_events"
    unfolding history_since_def by blast
  with d' show "\<exists>rest. pa_audit_events a = pa_audit_events (cd_payload d) @ rest" by simp
qed

text \<open>A world whose documents are all runs of the machine.\<close>

definition permit_world_ok :: "env \<Rightarrow> ('w \<Rightarrow> bool) \<Rightarrow> ('w \<Rightarrow> permit_aggregate documents) \<Rightarrow> 'w \<Rightarrow> bool" where
  "permit_world_ok E ok documents w \<longleftrightarrow> ok w \<and> permit_documents_ok E (documents w)"

locale permit_port =
  cas_port ops documents "firestore_cas_document_path E" "permit_legal E" ok
  for ops :: "'w permit_ops" and documents :: "'w \<Rightarrow> permit_aggregate documents" and E and ok
begin

abbreviation (input) world_ok :: "'w \<Rightarrow> bool" where
  "world_ok w \<equiv> permit_world_ok E ok documents w"

lemma world_evolves: "world_ok w \<Longrightarrow> ok w' \<Longrightarrow> evolves (permit_legal E) (documents w) (documents w') \<Longrightarrow> world_ok w'"
  unfolding permit_world_ok_def using permit_documents_ok_evolves by blast

lemma permit_read_law:
  assumes E: "hexdigest_ok E" and w: "world_ok w" and r: "permit_read E ops i w = (r, w')"
  shows "world_ok w' \<and> evolves (permit_legal E) (documents w) (documents w') \<and>
    (\<forall>s a. r = Inr (s, a) \<longrightarrow>
       documents w' (firestore_cas_document_path E ACTION_PERMIT i) = Some (cs_document s, cs_update_time s) \<and>
       a = cd_payload (cs_document s) \<and> cd_logical_id (cs_document s) = i \<and>
       permit_document_ok E (firestore_cas_document_path E ACTION_PERMIT i) (cs_document s))"
proof -
  obtain a w1 where read: "op_read ops ACTION_PERMIT i w = (a, w1)" by (cases "op_read ops ACTION_PERMIT i w")
  have "ok w" using w by (simp add: permit_world_ok_def)
  note law = read_law [OF this read]
  have w1: "w' = w1"
    using r read by (auto simp: permit_read_def split: sum.splits option.splits cas_failure.splits cas_error.splits)
  have ok1: "world_ok w1" using world_evolves w law by blast
  have found: "documents w' (firestore_cas_document_path E ACTION_PERMIT i) = Some (cs_document s, cs_update_time s) \<and>
      x = cd_payload (cs_document s) \<and> cd_logical_id (cs_document s) = i \<and>
      permit_document_ok E (firestore_cas_document_path E ACTION_PERMIT i) (cs_document s)"
    if inr: "r = Inr (s, x)" for s x
  proof -
    have a: "a = Inr (Some s)" and d: "decode_aggregate E (cs_document s) = Inr x"
      using r read inr
      by (auto simp: permit_read_def map_sum_def split: sum.splits option.splits cas_failure.splits cas_error.splits)
    then have "documents w1 (firestore_cas_document_path E ACTION_PERMIT i) = Some (cs_document s, cs_update_time s)"
        "cd_logical_id (cs_document s) = i"
      using law by auto
    moreover from this have "permit_document_ok E (firestore_cas_document_path E ACTION_PERMIT i) (cs_document s)"
      using ok1 by (simp add: permit_world_ok_def permit_documents_ok_def)
    ultimately show ?thesis using decode_aggregate_ok [OF E d] w1 by simp
  qed
  show ?thesis using found ok1 w1 law by blast
qed

lemma mutate_attempts_law:
  "hexdigest_ok E \<Longrightarrow> factory_steps E factory \<Longrightarrow> world_ok w \<Longrightarrow>
     mutate_attempts E ops factory i fresh w = (r, w') \<Longrightarrow>
     world_ok w' \<and> evolves (permit_legal E) (documents w) (documents w') \<and>
     (\<forall>m. r = Inr m \<longrightarrow> (\<exists>d (a :: permit_aggregate).
        committed (permit_legal E) (documents w) (firestore_cas_document_path E ACTION_PERMIT i) d (documents w') \<and>
        cd_payload d = \<lparr>pa_permit = pm_permit m, pa_audit_events = pa_audit_events a @ [pm_event m]\<rparr> \<and>
        permit_run E (pa_audit_events a) (pa_permit a) \<and>
        factory (pa_permit a) (int (length (pa_audit_events a)) + 1) (ae_occurred_at (last (pa_audit_events a))) = Inr m \<and>
        history_since (documents w (firestore_cas_document_path E ACTION_PERMIT i)) a))"
proof (induction fresh arbitrary: w)
  case Nil
  then show ?case by auto
next
  case (Cons mutation_id fresh)
  note E = Cons.prems(1) and f = Cons.prems(2) and w = Cons.prems(3)
  let ?path = "firestore_cas_document_path E ACTION_PERMIT i"
  obtain x w1 where read: "permit_read E ops i w = (x, w1)" by (cases "permit_read E ops i w")
  note law1 = permit_read_law [OF E w read]
  show ?case
  proof (cases x)
    case (Inl e)
    then have "r = Inl e" "w' = w1" using Cons.prems(4) read by simp_all
    then show ?thesis using law1 by simp
  next
    case (Inr sa)
    obtain s a where sa: "sa = (s, a)" by (cases sa)
    have s: "documents w1 ?path = Some (cs_document s, cs_update_time s)" "a = cd_payload (cs_document s)"
        "cd_logical_id (cs_document s) = i" "permit_document_ok E ?path (cs_document s)"
      using law1 Inr sa by auto
    show ?thesis
    proof (cases "replacement_for E factory mutation_id s a")
      case (Inl e)
      then have "r = Inl (Store_Raised e)" "w' = w1" using Cons.prems(4) read Inr sa by simp_all
      then show ?thesis using law1 by simp
    next
      case rep: (Inr mrd)
      obtain m replacement d where mrd: "mrd = (m, replacement, d)" by (cases mrd)
      note legal = replacement_for_legal [OF E f s(4,2) rep [unfolded mrd]]
      obtain y w2 where upd: "op_update ops s d w1 = (y, w2)" by (cases "op_update ops s d w1")
      have d_path: "firestore_cas_document_path E (cd_kind d) (cd_logical_id d) = ?path"
        using legal s(3) by simp
      have seen: "seen (permit_legal E) (documents w1) ?path s"
        unfolding seen_def using s(1) evolves_refl by blast
      have ok1: "ok w1" using law1 by (simp add: permit_world_ok_def)
      have since: "history_since (documents w ?path) a"
        using history_since_evolves [of E "documents w" "documents w1" ?path] history_since_now [OF s(1)] law1 s(2) by blast
      note law2 = update_law [of w1 d s y w2, unfolded d_path, OF ok1 seen conjunct1 [OF legal] upd]
      have ok2: "world_ok w2" using world_evolves law1 law2 by blast
      have ev2: "evolves (permit_legal E) (documents w) (documents w2)" using law1 law2 evolves_trans by blast
      show ?thesis
      proof (cases "y = Inl (Cas_Error CONFLICT)")
        case True
        then have again: "mutate_attempts E ops factory i fresh w2 = (r, w')"
          using Cons.prems(4) read Inr sa rep mrd upd by simp
        from Cons.IH [OF E f ok2 again] show ?thesis
          using committed_earlier [OF ev2] evolves_trans [OF ev2]
            history_since_evolves [of E "documents w" "documents w2" ?path, OF ev2] by blast
      next
        case False
        have end_state: "w' = w2" "\<And>m'. r = Inr m' \<Longrightarrow> m' = m \<and> (\<exists>s'. y = Inr s')"
          using Cons.prems(4) read Inr sa rep mrd upd False
          by (auto split: sum.splits cas_failure.splits cas_error.splits if_splits)
        have "\<exists>d (a :: permit_aggregate). committed (permit_legal E) (documents w) ?path d (documents w2) \<and>
            cd_payload d = \<lparr>pa_permit = pm_permit m, pa_audit_events = pa_audit_events a @ [pm_event m]\<rparr> \<and>
            permit_run E (pa_audit_events a) (pa_permit a) \<and>
            factory (pa_permit a) (int (length (pa_audit_events a)) + 1) (ae_occurred_at (last (pa_audit_events a))) = Inr m \<and>
            history_since (documents w ?path) a"
          if "y = Inr s'" for s'
          using law2 that legal s(2,4) committed_earlier law1 since
          by (intro exI [of _ d] exI [of _ a]) (auto simp: permit_document_ok_def)
        then show ?thesis using end_state ok2 ev2 by blast
      qed
    qed
  qed
qed

text \<open>A granted claim is durable: the claiming event is in the stored history.\<close>

lemma claim_permit_law:
  assumes E: "hexdigest_ok E" and r: "claim_request_ok E r" and w: "world_ok w"
    and c: "claim_permit E ops fresh r w = (x, w')"
  shows "world_ok w' \<and> evolves (permit_legal E) (documents w) (documents w') \<and>
    (\<forall>p. x = Inr p \<longrightarrow> (\<exists>d t e.
       documents w' (firestore_cas_document_path E ACTION_PERMIT (cq_permit_id r)) = Some (d, t) \<and>
       e \<in> set (pa_audit_events (cd_payload d)) \<and> ae_kind e = K_CLAIMED \<and>
       ae_claim_id e = Some (cq_claim_id r) \<and> ae_occurred_at e = cq_requested_at r \<and>
       ap_state p = CLAIMED \<and> ap_claim_id p = Some (cq_claim_id r) \<and> ap_claimed_at p = Some (cq_requested_at r)))"
proof -
  let ?f = "\<lambda>p n t. evaluate_permit_claim E p r n t"
  let ?path = "firestore_cas_document_path E ACTION_PERMIT (cq_permit_id r)"
  obtain y w1 where m: "mutate E ops ?f (cq_permit_id r) fresh w = (y, w1)"
    by (cases "mutate E ops ?f (cq_permit_id r) fresh w")
  note law = mutate_attempts_law [OF E claim_factory_steps [OF E r] w m [unfolded mutate_def]]
  have w1: "w' = w1" using c m by (auto simp: claim_permit_def split: sum.splits option.splits)
  have "\<exists>d t e. documents w1 ?path = Some (d, t) \<and>
       e \<in> set (pa_audit_events (cd_payload d)) \<and> ae_kind e = K_CLAIMED \<and>
       ae_claim_id e = Some (cq_claim_id r) \<and> ae_occurred_at e = cq_requested_at r \<and>
       ap_state p = CLAIMED \<and> ap_claim_id p = Some (cq_claim_id r) \<and> ap_claimed_at p = Some (cq_requested_at r)"
    if x: "x = Inr p" for p
  proof -
    obtain mu where mu: "y = Inr mu" "pm_denial_reason mu = None" "p = pm_permit mu"
      using c m x by (auto simp: claim_permit_def split: sum.splits option.splits)
    obtain d and a :: permit_aggregate where d: "committed (permit_legal E) (documents w) ?path d (documents w1)"
        "cd_payload d = \<lparr>pa_permit = pm_permit mu, pa_audit_events = pa_audit_events a @ [pm_event mu]\<rparr>"
        "permit_run E (pa_audit_events a) (pa_permit a)"
        "?f (pa_permit a) (int (length (pa_audit_events a)) + 1) (ae_occurred_at (last (pa_audit_events a))) = Inr mu"
        "history_since (documents w ?path) a"
      using law [THEN conjunct2, THEN conjunct2, rule_format, OF mu(1)] by blast
    have e: "ae_kind (pm_event mu) = K_CLAIMED \<and> ae_claim_id (pm_event mu) = Some (cq_claim_id r) \<and>
        ae_occurred_at (pm_event mu) = cq_requested_at r \<and>
        pm_permit mu = claimed_copy (pa_permit a) (cq_claim_id r) (cq_requested_at r)"
      using d(4) mu(2)
      by (auto simp: evaluate_permit_claim_def blocked_claim_def mutation_eq validate_action_permit_eq split: if_splits)
    obtain d' t rest where "documents w1 ?path = Some (d', t)"
        "pa_audit_events (cd_payload d') = pa_audit_events (cd_payload d) @ rest"
      using committed_extends [OF d(1)] by blast
    with e d(2) mu(3) show ?thesis
      by (intro exI [of _ d'] exI [of _ t] exI [of _ "pm_event mu"]) (simp add: claimed_copy_def)
  qed
  with law w1 show ?thesis by blast
qed

text \<open>Once a claim of a permit is granted, no later claim of it is, by whatever client.\<close>

lemma claimed_permit_not_claimed_again:
  assumes E: "hexdigest_ok E" and r: "claim_request_ok E r1" "claim_request_ok E r2"
    and same: "cq_permit_id r1 = cq_permit_id r2"
    and w: "world_ok w1" "world_ok w3" "evolves (permit_legal E) (documents w2) (documents w3)"
    and c1: "claim_permit E ops fresh1 r1 w1 = (Inr p1, w2)" and c2: "claim_permit E ops fresh2 r2 w3 = (x, w4)"
  shows "x \<noteq> Inr p2"
proof
  let ?f = "\<lambda>p n t. evaluate_permit_claim E p r2 n t"
  let ?path = "firestore_cas_document_path E ACTION_PERMIT (cq_permit_id r2)"
  assume x: "x = Inr p2"
  obtain d1 t1 e1 where e1: "documents w2 ?path = Some (d1, t1)" "e1 \<in> set (pa_audit_events (cd_payload d1))"
      "ae_kind e1 = K_CLAIMED"
    using claim_permit_law [OF E r(1) w(1) c1] same by auto
  obtain y w5 where m: "mutate E ops ?f (cq_permit_id r2) fresh2 w3 = (y, w5)"
    by (cases "mutate E ops ?f (cq_permit_id r2) fresh2 w3")
  note law = mutate_attempts_law [OF E claim_factory_steps [OF E r(2)] w(2) m [unfolded mutate_def]]
  obtain mu where mu: "y = Inr mu" "pm_denial_reason mu = None"
    using c2 m x by (auto simp: claim_permit_def split: sum.splits option.splits)
  obtain a :: permit_aggregate where a: "permit_run E (pa_audit_events a) (pa_permit a)"
      "?f (pa_permit a) (int (length (pa_audit_events a)) + 1) (ae_occurred_at (last (pa_audit_events a))) = Inr mu"
      "history_since (documents w3 ?path) a"
    using law [THEN conjunct2, THEN conjunct2, rule_format, OF mu(1)] by blast
  have "ap_state (pa_permit a) = ISSUED"
    using a(2) mu(2)
    by (cases "ap_state (pa_permit a)") (auto simp: evaluate_permit_claim_def blocked_claim_def mutation_eq split: if_splits)
  then have "events_of_kind {K_CLAIMED} (pa_audit_events a) = 0" using permit_run_counts [OF a(1)] by simp
  moreover have "e1 \<in> set (pa_audit_events a)"
    using history_since_evolves [of E "documents w2" "documents w3" ?path, OF w(3) a(3)] e1(1,2) by (auto simp: history_since_def)
  ultimately show False using e1(3) by (auto simp: events_of_kind_def filter_empty_conv)
qed

text \<open>A completion that the store reports is durable as well.\<close>

lemma complete_permit_law:
  assumes E: "hexdigest_ok E" and r: "completion_request_ok E r" and w: "world_ok w"
    and c: "complete_permit E ops fresh r w = (x, w')"
  shows "world_ok w' \<and> evolves (permit_legal E) (documents w) (documents w') \<and>
    (\<forall>p. x = Inr p \<longrightarrow> (\<exists>d t e.
       documents w' (firestore_cas_document_path E ACTION_PERMIT (kq_permit_id r)) = Some (d, t) \<and>
       e \<in> set (pa_audit_events (cd_payload d)) \<and> ae_kind e = completion_kind (kq_outcome r) \<and>
       ae_claim_id e = Some (kq_claim_id r) \<and> ap_state p = COMPLETED \<and>
       ap_completion_outcome p = Some (kq_outcome r)))"
proof -
  let ?f = "\<lambda>p n t. evaluate_permit_completion E p r n t"
  let ?path = "firestore_cas_document_path E ACTION_PERMIT (kq_permit_id r)"
  obtain y w1 where m: "mutate E ops ?f (kq_permit_id r) fresh w = (y, w1)"
    by (cases "mutate E ops ?f (kq_permit_id r) fresh w")
  note law = mutate_attempts_law [OF E completion_factory_steps [OF E r] w m [unfolded mutate_def]]
  have w1: "w' = w1" using c m by (auto simp: complete_permit_def split: sum.splits option.splits)
  have "\<exists>d t e. documents w1 ?path = Some (d, t) \<and>
       e \<in> set (pa_audit_events (cd_payload d)) \<and> ae_kind e = completion_kind (kq_outcome r) \<and>
       ae_claim_id e = Some (kq_claim_id r) \<and> ap_state p = COMPLETED \<and>
       ap_completion_outcome p = Some (kq_outcome r)"
    if x: "x = Inr p" for p
  proof -
    obtain mu where mu: "y = Inr mu" "pm_denial_reason mu = None" "p = pm_permit mu"
      using c m x by (auto simp: complete_permit_def split: sum.splits option.splits)
    then obtain d and a :: permit_aggregate where d: "committed (permit_legal E) (documents w) ?path d (documents w1)"
        "cd_payload d = \<lparr>pa_permit = pm_permit mu, pa_audit_events = pa_audit_events a @ [pm_event mu]\<rparr>"
        "?f (pa_permit a) (int (length (pa_audit_events a)) + 1) (ae_occurred_at (last (pa_audit_events a))) = Inr mu"
        "history_since (documents w ?path) a"
      using law [THEN conjunct2, THEN conjunct2, rule_format, OF mu(1)] by blast
    have e: "ae_kind (pm_event mu) = completion_kind (kq_outcome r) \<and> ae_claim_id (pm_event mu) = Some (kq_claim_id r) \<and>
        pm_permit mu = completed_copy (pa_permit a) (kq_completed_at r) (kq_outcome r)"
      using d(3) mu(2)
      by (auto simp: evaluate_permit_completion_def mutation_eq validate_action_permit_eq split: if_splits)
    obtain d' t rest where "documents w1 ?path = Some (d', t)"
        "pa_audit_events (cd_payload d') = pa_audit_events (cd_payload d) @ rest"
      using committed_extends [OF d(1)] by blast
    with e d(2) mu(3) show ?thesis
      by (intro exI [of _ d'] exI [of _ t] exI [of _ "pm_event mu"]) (simp add: completed_copy_def)
  qed
  with law w1 show ?thesis by blast
qed

text \<open>Issuing stores the authority of the permit, or finds it stored already.\<close>

lemma issue_permit_law:
  assumes E: "hexdigest_ok E" and p: "valid_permit E p" and w: "world_ok w"
    and i: "issue_permit E ops mutation_id p w = (x, w')"
  shows "world_ok w' \<and> evolves (permit_legal E) (documents w) (documents w') \<and>
    (\<forall>q. x = Inr q \<longrightarrow> permit_authority_fields q = permit_authority_fields p \<and> (\<exists>d t.
       documents w' (firestore_cas_document_path E ACTION_PERMIT (ap_permit_id p)) = Some (d, t) \<and>
       permit_authority_fields (pa_permit (cd_payload d)) = permit_authority_fields p))"
proof (cases "ap_state p = ISSUED \<and> validate_action_permit_identity E p = Inr ()")
  case False
  then have "w' = w" "\<And>q. x \<noteq> Inr q"
    using i by (auto simp: issue_permit_def split: sum.splits if_splits)
  with w show ?thesis by simp
next
  case True
  let ?path = "firestore_cas_document_path E ACTION_PERMIT (ap_permit_id p)"
  let ?a = "\<lparr>pa_permit = p, pa_audit_events = [issuance E p]\<rparr>"
  have run: "permit_run E [issuance E p] p" using run_issued p True by blast
  have "validate_permit_audit_history E p [issuance E p] = Inr ()"
    using audit_history_accepts [OF E p permit_run_well_formed [OF run E]] run by simp
  then have valid: "validate_permit_aggregate E ?a = Inr ?a"
    using p permit_run_well_formed [OF run E] by (simp add: validate_permit_aggregate_def)
  note issued = issued_audit_event_eq [OF E p conjunct1 [OF True]]
  show ?thesis
  proof (cases "aggregate_document E ?a 0 mutation_id")
    case (Inl e)
    then have "w' = w" "x = Inl (Store_Raised e)" using i True issued valid by (auto simp: issue_permit_def)
    with w show ?thesis by simp
  next
    case (Inr d)
    then have d: "cd_kind d = ACTION_PERMIT" "cd_logical_id d = ap_permit_id p" "cd_payload d = ?a" "cd_revision d = 0"
      by (auto simp: aggregate_document_def build_firestore_cas_document_def logical_id_def Let_def split: if_splits)
    then have d_ok: "permit_legal E ?path None d"
      using run True by (simp add: permit_legal_def permit_document_ok_def)
    obtain y w1 where create: "op_create ops d w = (y, w1)" by (cases "op_create ops d w")
    have "ok w" using w by (simp add: permit_world_ok_def)
    from create_law [of w d y w1, unfolded d(1,2), OF this d_ok create]
    have law: "ok w1 \<and> evolves (permit_legal E) (documents w) (documents w1) \<and>
      (\<forall>s. y = Inr s \<longrightarrow> cs_document s = d \<and> committed (permit_legal E) (documents w) ?path d (documents w1))" .
    have w1: "world_ok w1" using world_evolves w law by blast
    show ?thesis
    proof (cases "y = Inl (Cas_Error CONFLICT)")
      case False
      then have x: "w' = w1" "\<And>q. x = Inr q \<Longrightarrow> q = p \<and> (\<exists>s. y = Inr s)"
        using i True issued valid Inr create
        by (auto simp: issue_permit_def split: sum.splits cas_failure.splits cas_error.splits if_splits)
      have "\<exists>d t. documents w1 ?path = Some (d, t) \<and>
          permit_authority_fields (pa_permit (cd_payload d)) = permit_authority_fields p" if "y = Inr s" for s
      proof -
        have "committed (permit_legal E) (documents w) ?path d (documents w1)" using law that by blast
        from committed_extends [OF this] obtain d' t where d': "documents w1 ?path = Some (d', t)"
            "issued_copy (pa_permit (cd_payload d')) = issued_copy (pa_permit (cd_payload d))" by blast
        then have "permit_authority_fields (pa_permit (cd_payload d')) = permit_authority_fields p"
          by (metis copy_authority_fields(1) d(3) permit_aggregate.select_convs(1))
        with d'(1) show ?thesis by blast
      qed
      with x w1 law show ?thesis by blast
    next
      case True
      then have ex: "existing_permit E ops p w1 = (x, w')"
        using i \<open>ap_state p = ISSUED \<and> validate_action_permit_identity E p = Inr ()\<close> issued valid Inr create
        by (simp add: issue_permit_def)
      obtain z w2 where read: "permit_read E ops (ap_permit_id p) w1 = (z, w2)"
        by (cases "permit_read E ops (ap_permit_id p) w1")
      note law2 = permit_read_law [OF E w1 read]
      have w2: "w' = w2" using ex read by (auto simp: existing_permit_def split: sum.splits if_splits)
      have "permit_authority_fields q = permit_authority_fields p \<and> (\<exists>d t. documents w2 ?path = Some (d, t) \<and>
          permit_authority_fields (pa_permit (cd_payload d)) = permit_authority_fields p)" if q: "x = Inr q" for q
      proof -
        obtain s a where s: "z = Inr (s, a)" "same_action_permit_authority E (pa_permit a) p = Inr True" "q = pa_permit a"
          using ex read q by (auto simp: existing_permit_def split: sum.splits if_splits)
        then have stored: "documents w2 ?path = Some (cs_document s, cs_update_time s)" "a = cd_payload (cs_document s)"
            "permit_document_ok E ?path (cs_document s)" using law2 by auto
        then have "valid_permit E (pa_permit a)" "validate_action_permit_identity E (pa_permit a) = Inr ()"
          by (auto simp: permit_document_ok_def intro: permit_run_valid)
        with same_authority_result [of E "pa_permit a" p] p s(2)
          \<open>ap_state p = ISSUED \<and> validate_action_permit_identity E p = Inr ()\<close>
        have "permit_authority_fields (pa_permit a) = permit_authority_fields p" by simp
        with s(3) stored show ?thesis by auto
      qed
      moreover have "evolves (permit_legal E) (documents w) (documents w2)" using law law2 evolves_trans by blast
      ultimately show ?thesis using law2 w2 by blast
    qed
  qed
qed

end

interpretation hosted: permit_port "google_cas E aggregate_bytes" pv_documents E "provider_legal (permit_legal E)"
  for E
  by unfold_locales

section \<open>A mutation without contention\<close>

text \<open>
  When no other client writes and the provider answers, the first attempt decides, and the stored
  history grows by its event.
\<close>

definition quiet_turn :: "permit_aggregate turn" where
  "quiet_turn = \<lparr>tu_foreign = [], tu_fault = No_Fault\<rparr>"

definition extended :: "permit_aggregate \<Rightarrow> permit_mutation \<Rightarrow> permit_aggregate" where
  "extended a m = \<lparr>pa_permit = pm_permit m, pa_audit_events = pa_audit_events a @ [pm_event m]\<rparr>"

definition quiet_replacement :: "env \<Rightarrow> string \<Rightarrow> permit_document \<Rightarrow> permit_mutation \<Rightarrow> permit_document" where
  "quiet_replacement E mutation_id d m =
     \<lparr>cd_kind = ACTION_PERMIT, cd_logical_id = cd_logical_id d, cd_revision = cd_revision d + 1,
      cd_mutation_id = mutation_id, cd_payload = extended (cd_payload d) m,
      cd_payload_sha256 = env_sha256 E (aggregate_bytes (extended (cd_payload d) m))\<rparr>"

lemma take_quiet_turn: "pv_script w = quiet_turn # ts \<Longrightarrow> take_turn w = (No_Fault, w\<lparr>pv_script := ts\<rparr>)"
  by (simp add: take_turn_def quiet_turn_def)

lemma quiet_read:
  assumes E: "hexdigest_ok E" and docs: "pv_documents w (firestore_cas_document_path E ACTION_PERMIT i) = Some (d, t)"
    and d: "permit_document_ok E (firestore_cas_document_path E ACTION_PERMIT i) d" "cd_logical_id d = i"
      "cas_document_ok E aggregate_bytes d"
    and script: "pv_script w = quiet_turn # ts"
  shows "permit_read E (google_cas E aggregate_bytes) i w =
    (Inr (\<lparr>cs_document = d, cs_update_time = t\<rparr>, cd_payload d), w\<lparr>pv_script := ts\<rparr>)"
proof -
  have "identifier_ok E i" "cd_kind d = ACTION_PERMIT"
    using d by (auto simp: cas_document_ok_def permit_document_ok_def)
  then have "cas_read E aggregate_bytes ACTION_PERMIT i w =
      (Inr (Some \<lparr>cs_document = d, cs_update_time = t\<rparr>), w\<lparr>pv_script := ts\<rparr>)"
    using docs d by (simp add: cas_read_def logical_id_def take_quiet_turn [OF script] decode_snapshot_def)
  then show ?thesis
    using decode_aggregate_run [OF E d(1)] by (simp add: permit_read_def google_cas_def)
qed

lemma quiet_mutate:
  assumes E: "hexdigest_ok E" and f: "factory_steps E factory"
    and docs: "pv_documents w (firestore_cas_document_path E ACTION_PERMIT i) = Some (d, t)"
    and d: "permit_document_ok E (firestore_cas_document_path E ACTION_PERMIT i) d" "cd_logical_id d = i"
      "cas_document_ok E aggregate_bytes d"
    and script: "pv_script w = quiet_turn # quiet_turn # ts"
    and m: "factory (pa_permit (cd_payload d)) (int (length (pa_audit_events (cd_payload d))) + 1)
      (ae_occurred_at (last (pa_audit_events (cd_payload d)))) = Inr m"
    and fresh: "identifier_ok E (fresh 0)" "fresh 0 \<noteq> cd_mutation_id d"
    and size: "canonical_payload_ok (aggregate_bytes (extended (cd_payload d) m))"
    and revision: "int_ok 0 (cd_revision d + 1)"
  shows "mutate E (google_cas E aggregate_bytes) factory i fresh w =
    (Inr m, provider_write (firestore_cas_document_path E ACTION_PERMIT i) (quiet_replacement E (fresh 0) d m)
       (w\<lparr>pv_script := ts\<rparr>))"
proof -
  let ?path = "firestore_cas_document_path E ACTION_PERMIT i"
  let ?a = "cd_payload d" and ?s = "\<lparr>cs_document = d, cs_update_time = t\<rparr>"
  let ?a' = "extended ?a m" and ?d' = "quiet_replacement E (fresh 0) d m"
  let ?w1 = "w\<lparr>pv_script := quiet_turn # ts\<rparr>"
  have run: "permit_run E (pa_audit_events ?a) (pa_permit ?a)" using d(1) by (simp add: permit_document_ok_def)
  have step: "permit_step E (int (length (pa_audit_events ?a)) + 1) (ae_occurred_at (last (pa_audit_events ?a)))
      (pa_permit ?a) (pm_event m) (pm_permit m)" "audit_event_fields_ok E (pm_event m)"
    using f m permit_run_valid [OF run] permit_run_time [OF run] permit_run_issued_at [OF run]
    by (auto simp: factory_steps_def)
  have run': "permit_run E (pa_audit_events ?a') (pa_permit ?a')"
    using run_step [OF run step] by (simp add: extended_def)
  have id': "ap_permit_id (pa_permit ?a') = i"
    using permit_step_authority [OF step(1)] d by (simp add: extended_def permit_document_ok_def)
  have "validate_permit_audit_history E (pa_permit ?a') (pa_audit_events ?a') = Inr ()"
    using audit_history_accepts [OF E permit_run_valid [OF run'] permit_run_well_formed [OF run' E]] run' by simp
  then have valid: "validate_permit_aggregate E ?a' = Inr ?a'"
    using permit_run_valid [OF run'] permit_run_well_formed [OF run' E] by (simp add: validate_permit_aggregate_def)
  have doc: "aggregate_document E ?a' (cd_revision d + 1) (fresh 0) = Inr ?d'"
    using E d fresh size revision id'
    by (simp add: aggregate_document_def build_firestore_cas_document_def logical_id_def cas_document_ok_def
        quiet_replacement_def hexdigest_ok_def)
  have rep: "replacement_for E factory (fresh 0) ?s ?a = Inr (m, ?a', ?d')"
    using m valid doc by (simp add: replacement_for_def extended_def)
  have legal: "permit_legal E ?path (Some d) ?d'"
    using replacement_for_legal [OF E f, of ?path ?s ?a] rep d(1) by simp
  have read: "permit_read E (google_cas E aggregate_bytes) i w = (Inr (?s, ?a), ?w1)"
    by (rule quiet_read [OF E docs d script])
  have kind: "cd_kind d = ACTION_PERMIT" using d(1) by (simp add: permit_document_ok_def)
  have turn: "take_turn ?w1 = (No_Fault, w\<lparr>pv_script := ts\<rparr>)" by (simp add: take_quiet_turn)
  have "cas_update E aggregate_bytes ?s ?d' ?w1 =
      (Inr \<lparr>cs_document = ?d', cs_update_time = pv_clock w + 1\<rparr>, provider_write ?path ?d' (w\<lparr>pv_script := ts\<rparr>))"
    using docs d(2) fresh kind
    by (simp add: cas_update_def advances_def quiet_replacement_def provider_commit_def turn finish_write_def)
  moreover have "written_ok E ?d' ?a' \<lparr>cs_document = ?d', cs_update_time = pv_clock w + 1\<rparr>"
    using decode_aggregate_run [OF E, of ?path ?d'] legal
    by (simp add: written_ok_def permit_legal_def quiet_replacement_def)
  moreover have "map fresh [0..<max_cas_attempts] = fresh 0 # map fresh [1..<max_cas_attempts]"
    by (simp add: max_cas_attempts_def upt_conv_Cons)
  ultimately show ?thesis
    using read rep by (simp add: mutate_def google_cas_def)
qed

lemma quiet_claim:
  assumes E: "hexdigest_ok E" and r: "claim_request_ok E r"
    and docs: "pv_documents w (firestore_cas_document_path E ACTION_PERMIT (cq_permit_id r)) = Some (d, t)"
    and d: "permit_document_ok E (firestore_cas_document_path E ACTION_PERMIT (cq_permit_id r)) d"
      "cd_logical_id d = cq_permit_id r" "cas_document_ok E aggregate_bytes d"
    and script: "pv_script w = quiet_turn # quiet_turn # ts"
    and fresh: "identifier_ok E (fresh 0)" "fresh 0 \<noteq> cd_mutation_id d"
    and size: "\<And>m. evaluate_permit_claim E (pa_permit (cd_payload d)) r (int (length (pa_audit_events (cd_payload d))) + 1)
      (ae_occurred_at (last (pa_audit_events (cd_payload d)))) = Inr m \<Longrightarrow>
      canonical_payload_ok (aggregate_bytes (extended (cd_payload d) m))"
    and events: "int (length (pa_audit_events (cd_payload d))) < int64_max"
  shows "if claim_granted E (pa_permit (cd_payload d)) r (ae_occurred_at (last (pa_audit_events (cd_payload d))))
    then fst (claim_permit E (google_cas E aggregate_bytes) fresh r w) =
      Inr (claimed_copy (pa_permit (cd_payload d)) (cq_claim_id r) (cq_requested_at r))
    else \<exists>reason. fst (claim_permit E (google_cas E aggregate_bytes) fresh r w) =
      Inl (PermitClaimDenied (cq_permit_id r) reason)"
proof -
  let ?a = "cd_payload d"
  let ?n = "int (length (pa_audit_events ?a)) + 1" and ?t = "ae_occurred_at (last (pa_audit_events ?a))"
  have run: "permit_run E (pa_audit_events ?a) (pa_permit ?a)" using d(1) by (simp add: permit_document_ok_def)
  have n: "int_ok 1 ?n" using events by (simp add: int_ok_def)
  from claim_steps [OF E permit_run_valid [OF run] r n permit_run_time [OF run] permit_run_issued_at [OF run]]
  obtain m where m: "step_result E ?n ?t (pa_permit ?a) (evaluate_permit_claim E (pa_permit ?a) r ?n ?t) m \<and>
      (pm_denial_reason m = None \<longleftrightarrow> claim_granted E (pa_permit ?a) r ?t) \<and>
      (pm_denial_reason m = None \<longrightarrow> pm_permit m = claimed_copy (pa_permit ?a) (cq_claim_id r) (cq_requested_at r))" ..
  have ev: "evaluate_permit_claim E (pa_permit ?a) r ?n ?t = Inr m" using m by (simp add: step_result_def)
  have "int_ok 0 (cd_revision d + 1)"
    using d(1) events permit_run_not_Nil [OF run] by (simp add: permit_document_ok_def int_ok_def)
  from quiet_mutate [where factory = "\<lambda>p n t. evaluate_permit_claim E p r n t" and fresh = fresh, OF E claim_factory_steps [OF E r] docs d script ev fresh size [OF ev] this]
  show ?thesis using m by (cases "pm_denial_reason m") (simp_all add: claim_permit_def)
qed

end
