(* ===== verification/Sha256.thy ===== *)
theory Sha256
  imports Canonical_Json "HOL-Library.Word"
begin

text \<open>
  \<open>hashlib.sha256(...).hexdigest()\<close> of the standard library (FIPS 180-4), so that the library
  environment of the development has an instance in which the digests are the real ones. The
  modelled code uses one fact about it: the result is 64 lower case hexadecimal digits.
\<close>

unbundle bit_operations_syntax

type_synonym word32 = "32 word"

text \<open>
  The constants of the standard are the first 32 bits of the fractional parts of roots of primes:
  cube roots of the first 64 primes and square roots of the first 8. \<open>integer_root k n\<close> finds the
  largest \<open>r\<close> with \<open>r ^ k \<le> n\<close>, bit by bit.
\<close>

primrec integer_root :: "nat \<Rightarrow> nat \<Rightarrow> nat \<Rightarrow> nat \<Rightarrow> nat" where
  "integer_root k n r 0 = r"
| "integer_root k n r (Suc b) = integer_root k n (if (r + 2 ^ b) ^ k \<le> n then r + 2 ^ b else r) b"

definition root_fraction :: "nat \<Rightarrow> nat \<Rightarrow> word32" where
  "root_fraction k p = of_nat (integer_root k (p * 2 ^ (32 * k)) 0 40)"

definition round_constants :: "word32 list" where
  "round_constants =
     map (root_fraction 3) (filter (\<lambda>p. list_all (\<lambda>d. p mod d \<noteq> 0) [2..<p]) [2..<312])"

definition initial_hash :: "word32 list" where
  "initial_hash = map (root_fraction 2) [2, 3, 5, 7, 11, 13, 17, 19]"

definition rotr :: "nat \<Rightarrow> word32 \<Rightarrow> word32" where
  "rotr n x = drop_bit n x OR push_bit (32 - n) x"

definition select_bits :: "word32 \<Rightarrow> word32 \<Rightarrow> word32 \<Rightarrow> word32" where
  "select_bits x y z = (x AND y) XOR (NOT x AND z)"

definition majority_bits :: "word32 \<Rightarrow> word32 \<Rightarrow> word32 \<Rightarrow> word32" where
  "majority_bits x y z = (x AND y) XOR (x AND z) XOR (y AND z)"

definition big_sigma0 :: "word32 \<Rightarrow> word32" where
  "big_sigma0 x = rotr 2 x XOR rotr 13 x XOR rotr 22 x"

definition big_sigma1 :: "word32 \<Rightarrow> word32" where
  "big_sigma1 x = rotr 6 x XOR rotr 11 x XOR rotr 25 x"

definition small_sigma0 :: "word32 \<Rightarrow> word32" where
  "small_sigma0 x = rotr 7 x XOR rotr 18 x XOR drop_bit 3 x"

definition small_sigma1 :: "word32 \<Rightarrow> word32" where
  "small_sigma1 x = rotr 17 x XOR rotr 19 x XOR drop_bit 10 x"

text \<open>Padding: a one bit, zeros, and the length in bits as 64 bits.\<close>

definition big_endian :: "nat \<Rightarrow> nat \<Rightarrow> nat list" where
  "big_endian k n = map (\<lambda>i. n div 256 ^ (k - 1 - i) mod 256) [0..<k]"

definition padded :: "string \<Rightarrow> nat list" where
  "padded s =
     (let zeros = (119 - length s mod 64) mod 64
      in map of_char s @ [128] @ replicate zeros 0 @ big_endian 8 (8 * length s))"

fun words_of :: "nat list \<Rightarrow> word32 list" where
  "words_of (a # b # c # d # r) = of_nat (((a * 256 + b) * 256 + c) * 256 + d) # words_of r"
| "words_of _ = []"

text \<open>The message schedule, latest word first, and one round.\<close>

fun schedule :: "nat \<Rightarrow> word32 list \<Rightarrow> word32 list" where
  "schedule 0 w = rev w"
| "schedule (Suc n) w =
     schedule n ((small_sigma1 (w ! 1) + w ! 6 + small_sigma0 (w ! 14) + w ! 15) # w)"

fun compress_round :: "word32 list \<Rightarrow> word32 \<times> word32 \<Rightarrow> word32 list" where
  "compress_round [a, b, c, d, e, f, g, h] (k, w) =
     (let t1 = h + big_sigma1 e + select_bits e f g + k + w; t2 = big_sigma0 a + majority_bits a b c
      in [t1 + t2, a, b, c, d + t1, e, f, g])"
| "compress_round v _ = v"

definition compress :: "word32 list \<Rightarrow> word32 list \<Rightarrow> word32 list" where
  "compress h block =
     map (\<lambda>(x, y). x + y) (zip h (foldl compress_round h (zip round_constants (schedule 48 (rev block)))))"

function blocks :: "word32 list \<Rightarrow> word32 list list" where
  "blocks ws = (if ws = [] then [] else take 16 ws # blocks (drop 16 ws))"
  by pat_completeness auto

termination by (relation "measure length") auto

declare blocks.simps [simp del]

definition hex_byte :: "nat \<Rightarrow> string" where
  "hex_byte n = [hex_digit (n div 16 mod 16), hex_digit (n mod 16)]"

definition hex_word :: "word32 \<Rightarrow> string" where
  "hex_word x = concat (map hex_byte (big_endian 4 (unat x)))"

definition sha256_hex :: "string \<Rightarrow> string" where
  "sha256_hex s = concat (map hex_word (foldl compress initial_hash (blocks (words_of (padded s)))))"

section \<open>The form of a digest\<close>

lemma length_compress_round: "length v = 8 \<Longrightarrow> length (compress_round v kw) = 8"
  by (induction v kw rule: compress_round.induct) (simp_all add: Let_def)

lemma length_foldl_compress_round: "length v = 8 \<Longrightarrow> length (foldl compress_round v kws) = 8"
  by (induction kws arbitrary: v) (simp_all add: length_compress_round)

lemma length_compress: "length h = 8 \<Longrightarrow> length (compress h block) = 8"
  by (simp add: compress_def length_foldl_compress_round)

lemma length_foldl_compress: "length h = 8 \<Longrightarrow> length (foldl compress h bs) = 8"
  by (induction bs arbitrary: h) (simp_all add: length_compress)

lemma length_hex_word: "length (hex_word x) = 8"
  by (simp add: hex_word_def hex_byte_def big_endian_def upt_rec)

lemma length_concat_const: "\<forall>x\<in>set xs. length (f x) = n \<Longrightarrow> length (concat (map f xs)) = n * length xs"
  by (induction xs) simp_all

lemma length_sha256_hex: "length (sha256_hex s) = 64"
proof -
  have "length (foldl compress initial_hash (blocks (words_of (padded s)))) = 8"
    by (rule length_foldl_compress) (simp add: initial_hash_def)
  then show ?thesis
    by (simp add: sha256_hex_def length_concat_const [where n = 8] length_hex_word)
qed

lemma hex_byte_chars: "c \<in> set (hex_byte n) \<Longrightarrow> c \<in> set ''0123456789abcdef''"
proof -
  assume "c \<in> set (hex_byte n)"
  then have "c = hex_digit (n div 16 mod 16) \<or> c = hex_digit (n mod 16)" by (simp add: hex_byte_def)
  then show ?thesis by (elim disjE) (simp_all only: hex_digit_class mod_less_divisor zero_less_numeral)
qed

lemma sha256_hex_chars:
  assumes "c \<in> set (sha256_hex s)"
  shows "c \<in> set ''0123456789abcdef''"
proof -
  obtain n where "c \<in> set (hex_byte n)"
    using assms by (auto simp: sha256_hex_def hex_word_def)
  then show ?thesis by (rule hex_byte_chars)
qed

end
