(* ===== verification/Sample.thy ===== *)
theory Sample
  imports Permit_Store Sha256
begin

text \<open>
  A concrete instance for the witnesses: the library environment with the real SHA-256, a permit, its
  requests, and a quiet provider that holds the permit.
\<close>

definition sample_env :: env where
  "sample_env =
     \<lparr>env_sha256 = sha256_hex, env_wide_text = (\<lambda>_. False), env_lower = (\<lambda>s. s),
      env_wide_sensitive = (\<lambda>_. True), env_wide_redact = (\<lambda>s. s),
      env_wide_escape = (\<lambda>s. s), env_wide_coordinate = (\<lambda>_. False), env_wide_space = (\<lambda>_. False)\<rparr>"

lemma sample_hexdigest_ok: "hexdigest_ok sample_env"
  unfolding hexdigest_ok_def sha256_digest_ok_def sample_env_def list_all_iff lower_hex_def
  using length_sha256_hex sha256_hex_chars by simp

definition zero_digest :: string where
  "zero_digest = replicate 64 CHR ''0''"

lemma zero_digest_ok [simp]: "sha256_digest_ok zero_digest"
  by (simp add: zero_digest_def sha256_digest_ok_def lower_hex_def list_all_iff)

lemma sample_identifiers [simp]:
  "identifier_ok E ''node-1''" "identifier_ok E ''node-2''" "identifier_ok E ''chain-1''"
  "identifier_ok E ''certificate-1''" "identifier_ok E ''tool''" "identifier_ok E ''v1''"
  "identifier_ok E ''profile-1''" "identifier_ok E ''policy-1''" "identifier_ok E ''claim-1''"
  "identifier_ok E ''claim-2''" "identifier_ok E ''mutation-0''" "identifier_ok E ''mutation-1''"
  by (simp_all add: plain_identifier_ok plain_chars)

definition sample_transition :: certified_transition where
  "sample_transition =
     \<lparr>ct_action = PA_CONTINUE, ct_source_node_id = ''node-1'', ct_target_node_id = ''node-2'',
      ct_semantic_action_sha256 = zero_digest, ct_tool_name = ''tool'', ct_tool_version = ''v1'',
      ct_arguments_sha256 = zero_digest, ct_target_sha256 = zero_digest, ct_precondition_sha256 = zero_digest\<rparr>"

definition sample_permit_id :: string where
  "sample_permit_id =
     ''permit-'' @ take 32 (env_sha256 sample_env (json_bytes (identity_json ''certificate-1'' sample_transition)))"

definition sample_permit :: action_permit where
  "sample_permit =
     \<lparr>ap_permit_id = sample_permit_id, ap_certificate_id = ''certificate-1'',
      ap_certificate_sha256 = zero_digest, ap_chain_id = ''chain-1'', ap_source_node_id = ''node-1'',
      ap_target_node_id = ''node-2'', ap_semantic_action_sha256 = zero_digest, ap_action = PA_CONTINUE,
      ap_action_profile_version = ''profile-1'', ap_action_policy_version = ''policy-1'',
      ap_tool_name = ''tool'', ap_tool_version = ''v1'', ap_arguments_sha256 = zero_digest,
      ap_target_sha256 = zero_digest, ap_precondition_sha256 = zero_digest, ap_issued_at = 100,
      ap_expires_at = 200, ap_state = ISSUED, ap_revision = 0, ap_claim_id = None, ap_claimed_at = None,
      ap_completed_at = None, ap_completion_outcome = None, ap_expired_at = None\<rparr>"

lemma sample_permit_id_ok [simp]: "identifier_ok E sample_permit_id"
  unfolding sample_permit_id_def using sample_hexdigest_ok by (intro permit_id_ok) (simp add: hexdigest_ok_def)

lemma sample_times [simp]: "time_ok 100" "time_ok 200" "time_ok 150" "time_ok 160" "time_ok 250"
  by (simp_all add: time_ok_def datetime_min_def datetime_max_def)

lemma sample_permit_valid: "valid_permit E sample_permit"
  by (simp add: valid_permit_iff sample_permit_def action_permit_fields_ok_def lifecycle_fields_match_def)

lemma sample_transition_sealed: "sealed_transition sample_permit = sample_transition"
  by (simp add: sealed_transition_def sample_permit_def sample_transition_def)

lemma sample_transition_valid: "validate_certified_transition E sample_transition = Inr sample_transition"
  by (simp add: validate_certified_transition_def certified_transition_fields_ok_def sample_transition_def)

lemma sample_identity_validates: "validate_json E 0 (identity_json ''certificate-1'' sample_transition)"
  by (simp add: identity_json_def certified_transition_json_def sample_transition_def action_permit_version_def
      key_bounds_def text_length_def printable_text_ok sha256_text_ok [OF zero_digest_ok])

lemma sample_action_permit_id: "action_permit_id sample_env ''certificate-1'' sample_transition = Inr sample_permit_id"
  using sample_identity_validates [of sample_env]
  by (simp add: action_permit_id_def value_sha256_def canonical_json_value_bytes_def sample_permit_id_def
      identity_json_def [symmetric])

lemma sample_identity: "validate_action_permit_identity sample_env sample_permit = Inr ()"
  using sample_action_permit_id
  by (simp add: validate_action_permit_identity_def action_permit_transition_def sample_transition_sealed
      sample_transition_valid) (simp add: sample_permit_def)

definition sample_claim :: "string \<Rightarrow> time \<Rightarrow> claim_request" where
  "sample_claim claim_id at =
     \<lparr>cq_permit_id = sample_permit_id, cq_claim_id = claim_id,
      cq_issued_permit_sha256 = permit_sha256 sample_env sample_permit, cq_certificate_id = ''certificate-1'',
      cq_certificate_sha256 = zero_digest, cq_chain_id = ''chain-1'', cq_source_node_id = ''node-1'',
      cq_target_node_id = ''node-2'', cq_semantic_action_sha256 = zero_digest,
      cq_action_profile_version = ''profile-1'', cq_action_policy_version = ''policy-1'',
      cq_tool_name = ''tool'', cq_tool_version = ''v1'', cq_arguments_sha256 = zero_digest,
      cq_target_sha256 = zero_digest, cq_precondition_sha256 = zero_digest, cq_requested_at = at\<rparr>"

lemma sample_claim_ok:
  "identifier_ok sample_env c \<Longrightarrow> time_ok at \<Longrightarrow> claim_request_ok sample_env (sample_claim c at)"
  by (simp add: claim_request_ok_def sample_claim_def permit_sha256_ok sample_hexdigest_ok)

lemma sample_claim_granted: "claim_granted sample_env sample_permit (sample_claim c 150) 100"
  by (simp add: claim_granted_def claim_bindings_def sample_claim_def) (simp add: sample_permit_def)

definition sample_claimed :: action_permit where
  "sample_claimed = claimed_copy sample_permit ''claim-1'' 150"

definition sample_completion :: completion_request where
  "sample_completion =
     \<lparr>kq_permit_id = sample_permit_id, kq_claim_id = ''claim-1'',
      kq_claimed_permit_sha256 = permit_sha256 sample_env sample_claimed, kq_outcome = SUCCEEDED,
      kq_completed_at = 160\<rparr>"

lemma sample_completion_ok: "completion_request_ok sample_env sample_completion"
  by (simp add: completion_request_ok_def sample_completion_def permit_sha256_ok sample_hexdigest_ok)

lemma sample_run: "permit_run sample_env [issuance sample_env sample_permit] sample_permit"
  by (rule run_issued) (simp_all add: sample_permit_valid, simp add: sample_permit_def)

definition sample_document :: permit_document where
  "sample_document =
     (let a = \<lparr>pa_permit = sample_permit, pa_audit_events = [issuance sample_env sample_permit]\<rparr>
      in \<lparr>cd_kind = ACTION_PERMIT, cd_logical_id = sample_permit_id, cd_revision = 0,
          cd_mutation_id = ''mutation-0'', cd_payload = a, cd_payload_sha256 = env_sha256 sample_env (aggregate_bytes a)\<rparr>)"

definition sample_path :: string where
  "sample_path = firestore_cas_document_path sample_env ACTION_PERMIT sample_permit_id"

lemma sample_document_ok: "permit_document_ok sample_env sample_path sample_document"
  using sample_run sample_identity
  by (simp add: permit_document_ok_def sample_document_def sample_path_def Let_def) (simp add: sample_permit_def)

definition sample_world :: "permit_aggregate provider" where
  "sample_world =
     \<lparr>pv_documents = [sample_path \<mapsto> (sample_document, 1)], pv_clock = 1,
      pv_script = [quiet_turn, quiet_turn, quiet_turn, quiet_turn]\<rparr>"

lemma sample_world_ok:
  "permit_world_ok sample_env (provider_legal (permit_legal sample_env)) pv_documents sample_world"
  using sample_document_ok
  by (auto simp: permit_world_ok_def permit_documents_ok_def sample_world_def provider_legal_def provider_ok_def
      script_legal_def quiet_turn_def update_time_of_def)

section \<open>A bound on the size of an encoding\<close>

fun json_weight :: "json \<Rightarrow> nat"
  and json_items_weight :: "json list \<Rightarrow> nat"
  and json_members_weight :: "(string \<times> json) list \<Rightarrow> nat" where
  "json_weight JNull = 4"
| "json_weight (JBool b) = 5"
| "json_weight (JInt i) = length (int_text i)"
| "json_weight (JFloat f) = length (float_text f)"
| "json_weight (JStr s) = 6 * length s + 2"
| "json_weight (JArr xs) = 2 + json_items_weight xs"
| "json_weight (JObj kvs) = 2 + json_members_weight kvs"
| "json_items_weight [] = 0"
| "json_items_weight (x # xs) = json_weight x + 1 + json_items_weight xs"
| "json_members_weight [] = 0"
| "json_members_weight (kv # kvs) =
     6 * length (fst kv) + 4 + json_weight (snd kv) + json_members_weight kvs"

lemma length_escape_text: "length (escape_text s) \<le> 6 * length s"
proof (induction s)
  case (Cons c s)
  have "length (escape_char c) \<le> 6" by (simp add: escape_char_def Let_def)
  with Cons show ?case by simp
qed simp

lemma length_json_text:
  "length (json_text j) \<le> json_weight j"
  "length (json_items_text xs) \<le> json_items_weight xs"
  "length (json_members_text kvs) \<le> json_members_weight kvs"
proof (induction j and xs and kvs rule: json_text_json_items_text_json_members_text.induct)
  case (5 s)
  then show ?case using length_escape_text [of s] by (simp add: json_string_def)
next
  case (11 kv kvs)
  then show ?case using length_escape_text [of "fst kv"] by (cases "kvs = []") (simp_all add: json_string_def)
next
  case (9 x xs)
  then show ?case by (cases "xs = []") simp_all
qed simp_all

lemma json_members_weight_sum:
  "json_members_weight kvs = sum_list (map (\<lambda>kv. 6 * length (fst kv) + 4 + json_weight (snd kv)) kvs)"
  by (induction kvs) simp_all

lemma json_members_weight_insert:
  "json_members_weight (insort_key fst kv kvs) = json_members_weight (kv # kvs)"
  by (induction kvs) simp_all

lemma json_members_weight_sort: "json_members_weight (sort_key fst kvs) = json_members_weight kvs"
  by (induction kvs) (simp_all add: json_members_weight_insert)

lemma json_weight_sorted:
  "json_weight (json_sorted j) = json_weight j"
  "json_items_weight (json_sorted_items xs) = json_items_weight xs"
  "json_members_weight (json_sorted_members kvs) = json_members_weight kvs"
  by (induction j and xs and kvs rule: json_sorted_json_sorted_items_json_sorted_members.induct)
    (simp_all add: json_members_weight_sort)

lemma length_json_bytes: "length (json_bytes j) \<le> json_weight j"
  using length_json_text(1) [of "json_sorted j"] by (simp add: json_bytes_def json_weight_sorted)

lemma json_bytes_not_Nil: "json_bytes (JObj kvs) \<noteq> []"
  by (simp add: json_bytes_def)

lemma nat_text_step:
  "n < 10 \<Longrightarrow> nat_text n = [char_of (48 + n)]"
  "\<not> n < 10 \<Longrightarrow> nat_text n = nat_text (n div 10) @ [char_of (48 + n mod 10)]"
  by (subst nat_text.simps, simp)+

lemma iso_text_size:
  assumes "0 < t" "t < 1000000"
  shows "length (iso_text t) \<le> 27"
proof -
  have "date_of_day 0 = (1, 1, 1)"
    by (simp add: date_of_day_def year_of_day_def days_before_year_def month_lengths_def leap_year_def Let_def)
  moreover have "length (nat_text (nat t)) \<le> 6" using assms by (intro length_nat_text) simp_all
  ultimately show ?thesis
    using assms by (simp add: iso_text_def iso_fields_def stamp_fields_def pad_text_def nat_text_step)
qed

lemma sample_permit_fields [simp]:
  "ap_permit_id sample_permit = sample_permit_id" "ap_state sample_permit = ISSUED"
  "ap_revision sample_permit = 0" "ap_issued_at sample_permit = 100" "ap_expires_at sample_permit = 200"
  by (simp_all add: sample_permit_def)

lemma sample_claim_fields [simp]:
  "cq_permit_id (sample_claim c at) = sample_permit_id" "cq_claim_id (sample_claim c at) = c"
  "cq_requested_at (sample_claim c at) = at"
  by (simp_all add: sample_claim_def)

definition sample_claim_mutation :: permit_mutation where
  "sample_claim_mutation =
     \<lparr>pm_permit = sample_claimed,
      pm_event = permit_event sample_env sample_claimed 2 K_CLAIMED 150 (Some ''claim-1'') None None,
      pm_denial_reason = None\<rparr>"

lemma sample_claim_evaluates:
  "evaluate_permit_claim sample_env sample_permit (sample_claim ''claim-1'' 150) 2 100 = Inr sample_claim_mutation"
proof -
  have n: "int_ok 1 2" by (simp add: int_ok_def int64_max_def)
  have r: "claim_request_ok sample_env (sample_claim ''claim-1'' 150)" by (simp add: sample_claim_ok)
  obtain m where m: "evaluate_permit_claim sample_env sample_permit (sample_claim ''claim-1'' 150) 2 100 = Inr m"
      "pm_denial_reason m = None"
    using claim_steps [OF sample_hexdigest_ok sample_permit_valid r n, of 100] sample_claim_granted
    by (auto simp: step_result_def)
  have "claim_bindings sample_env sample_permit (sample_claim ''claim-1'' 150)"
    using sample_claim_granted by (simp add: claim_granted_def)
  then show ?thesis
    using m by (auto simp: evaluate_permit_claim_def mutation_eq sample_claim_mutation_def
      validate_action_permit_eq sample_claimed_def)
qed

section \<open>Claiming the sample permit\<close>

lemma length_digest: "sha256_digest_ok d \<Longrightarrow> length d = 64"
  by (simp add: sha256_digest_ok_def)

lemma length_sample_digests [simp]:
  "length (permit_sha256 sample_env p) = 64" "length zero_digest = 64"
  using permit_sha256_ok [OF sample_hexdigest_ok, of p] zero_digest_ok by (simp_all add: length_digest)

lemma length_sample_permit_id: "length sample_permit_id \<le> 39"
  by (simp add: sample_permit_id_def)

lemma int_text_size: "0 \<le> n \<Longrightarrow> n < 10 \<Longrightarrow> length (int_text n) = 1"
  by (simp add: int_text_def nat_text_step)

lemma iso_text_sizes:
  "length (iso_text 100) \<le> 27" "length (iso_text 150) \<le> 27" "length (iso_text 160) \<le> 27" "length (iso_text 200) \<le> 27"
  by (simp_all add: iso_text_size)

lemma json_members_weight_append [simp]:
  "json_members_weight (xs @ ys) = json_members_weight xs + json_members_weight ys"
  by (simp add: json_members_weight_sum)

lemma int_text_sizes [simp]: "length (int_text 0) = 1" "length (int_text 1) = 1" "length (int_text 2) = 1" "length (int_text 3) = 1"
  by (simp_all add: int_text_size)

lemmas sample_sizes = length_sample_permit_id iso_text_sizes

lemma sample_authority_weight: "json_members_weight (permit_authority_members sample_permit) \<le> 6000"
  using sample_sizes
  by (simp add: permit_authority_members_def time_json_def action_permit_version_def) (simp add: sample_permit_def)

lemma sample_copies_authority [simp]:
  "permit_authority_members sample_claimed = permit_authority_members sample_permit"
  "permit_authority_members (completed_copy p at x) = permit_authority_members p"
  "permit_presentation_members sample_claimed = permit_presentation_members sample_permit"
  "permit_presentation_members (completed_copy p at x) = permit_presentation_members p"
  by (simp_all add: permit_authority_members_def permit_presentation_members_def permit_copies sample_claimed_def)

lemma sample_lifecycle_weight:
  "json_members_weight (permit_presentation_members sample_permit) \<le> 1000"
  "json_members_weight (permit_lifecycle_members sample_claimed) \<le> 1500"
  "json_members_weight (permit_lifecycle_members (completed_copy sample_claimed 160 SUCCEEDED)) \<le> 1500"
  using sample_sizes
  by (simp_all add: permit_presentation_members_def permit_lifecycle_members_def sample_claimed_def permit_copies
    time_json_def option_json_def) (simp_all add: sample_permit_def time_json_def)

lemma sample_permit_weight:
  "json_weight (action_permit_json sample_claimed) \<le> 10000"
  "json_weight (action_permit_json (completed_copy sample_claimed 160 SUCCEEDED)) \<le> 10000"
  using sample_authority_weight sample_lifecycle_weight by (simp_all add: action_permit_json_def)

definition sample_completion_mutation :: permit_mutation where
  "sample_completion_mutation =
     (let q = completed_copy sample_claimed 160 SUCCEEDED
      in \<lparr>pm_permit = q, pm_event = permit_event sample_env q 3 K_COMPLETED 160 (Some ''claim-1'') None (Some SUCCEEDED),
          pm_denial_reason = None\<rparr>)"

lemma event_identifier_sizes [simp]: "n \<in> {1, 2, 3} \<Longrightarrow> length (event_identifier n) = 14"
  by (auto simp: event_identifier_def int_text_def nat_text_step)

lemma sample_event_weights:
  "json_weight (audit_event_json (issuance sample_env sample_permit)) \<le> 3000"
  "json_weight (audit_event_json (pm_event sample_claim_mutation)) \<le> 3000"
  "json_weight (audit_event_json (pm_event sample_completion_mutation)) \<le> 3000"
  using sample_sizes
  by (simp_all add: audit_event_json_def issuance_def sample_claim_mutation_def sample_completion_mutation_def
    Let_def time_json_def option_json_def) (simp_all add: sample_claimed_def permit_copies)

lemma sample_extended_sizes:
  assumes "a = cd_payload sample_document"
  shows "canonical_payload_ok (aggregate_bytes (extended a sample_claim_mutation))"
    "canonical_payload_ok (aggregate_bytes (extended (extended a sample_claim_mutation) sample_completion_mutation))"
proof -
  have bound: "canonical_payload_ok (aggregate_bytes b)" if "json_weight (action_permit_json (pa_permit b)) \<le> 10000"
      "json_items_weight (map audit_event_json (pa_audit_events b)) \<le> 20000" for b
    using that length_json_bytes [of "JObj
     [(''schema_version'', JStr ''reconcile/firestore-action-permit-aggregate/v1''),
      (''permit'', action_permit_json (pa_permit b)),
      (''audit_events'', JArr (map audit_event_json (pa_audit_events b)))]"] json_bytes_not_Nil
    by (simp add: canonical_payload_ok_def aggregate_bytes_def payload_byte_ceiling_def)
  have a: "a = \<lparr>pa_permit = sample_permit, pa_audit_events = [issuance sample_env sample_permit]\<rparr>"
    using assms by (simp add: sample_document_def Let_def)
  have p: "pm_permit sample_claim_mutation = sample_claimed"
      "pm_permit sample_completion_mutation = completed_copy sample_claimed 160 SUCCEEDED"
    by (simp_all add: sample_claim_mutation_def sample_completion_mutation_def Let_def)
  show "canonical_payload_ok (aggregate_bytes (extended a sample_claim_mutation))"
    by (rule bound) (use sample_event_weights sample_permit_weight in \<open>simp_all add: a extended_def p\<close>)
  show "canonical_payload_ok (aggregate_bytes (extended (extended a sample_claim_mutation) sample_completion_mutation))"
    by (rule bound) (use sample_event_weights sample_permit_weight in \<open>simp_all add: a extended_def p\<close>)
qed

definition sample_claimed_world :: "permit_aggregate provider" where
  "sample_claimed_world =
     provider_write sample_path (quiet_replacement sample_env ''mutation-1'' sample_document sample_claim_mutation)
       (sample_world\<lparr>pv_script := [quiet_turn, quiet_turn]\<rparr>)"

lemma sample_document_fields [simp]:
  "cd_logical_id sample_document = sample_permit_id" "cd_mutation_id sample_document = ''mutation-0''"
  "cd_revision sample_document = 0" "cd_kind sample_document = ACTION_PERMIT"
  "pa_permit (cd_payload sample_document) = sample_permit"
  "pa_audit_events (cd_payload sample_document) = [issuance sample_env sample_permit]"
  by (simp_all add: sample_document_def Let_def)

lemma sample_aggregate_size: "canonical_payload_ok (aggregate_bytes (cd_payload sample_document))"
proof -
  have "json_weight (action_permit_json sample_permit) \<le> 10000"
    using sample_sizes sample_authority_weight sample_lifecycle_weight(1)
    by (simp add: action_permit_json_def permit_lifecycle_members_def) (simp add: sample_permit_def option_json_def)
  then show ?thesis
    using length_json_bytes [of "JObj
     [(''schema_version'', JStr ''reconcile/firestore-action-permit-aggregate/v1''),
      (''permit'', action_permit_json sample_permit),
      (''audit_events'', JArr [audit_event_json (issuance sample_env sample_permit)])]"] json_bytes_not_Nil
      sample_event_weights(1)
    by (simp add: canonical_payload_ok_def aggregate_bytes_def payload_byte_ceiling_def)
qed

lemma sample_document_stored: "cas_document_ok sample_env aggregate_bytes sample_document"
  using sample_hexdigest_ok sample_aggregate_size
  by (simp add: cas_document_ok_def) (simp add: sample_document_def Let_def hexdigest_ok_def)

abbreviation sample_ops :: "permit_aggregate provider permit_ops" where
  "sample_ops \<equiv> google_cas sample_env aggregate_bytes"

lemma sample_path_eq: "firestore_cas_document_path sample_env ACTION_PERMIT sample_permit_id = sample_path"
  by (simp add: sample_path_def)

lemma sample_claim_result:
  "claim_permit sample_env sample_ops (\<lambda>_. ''mutation-1'') (sample_claim ''claim-1'' 150) sample_world =
     (Inr sample_claimed, sample_claimed_world)"
proof -
  have r: "claim_request_ok sample_env (sample_claim ''claim-1'' 150)" by (simp add: sample_claim_ok)
  have "mutate sample_env sample_ops
      (\<lambda>p n t. evaluate_permit_claim sample_env p (sample_claim ''claim-1'' 150) n t) sample_permit_id (\<lambda>_. ''mutation-1'')
      sample_world = (Inr sample_claim_mutation, provider_write sample_path
        (quiet_replacement sample_env ''mutation-1'' sample_document sample_claim_mutation)
        (sample_world\<lparr>pv_script := [quiet_turn, quiet_turn]\<rparr>))"
    using quiet_mutate [OF sample_hexdigest_ok claim_factory_steps [OF sample_hexdigest_ok r], of sample_world
        sample_permit_id sample_document 1 "[quiet_turn, quiet_turn]" sample_claim_mutation "\<lambda>_. ''mutation-1''"]
      sample_document_ok sample_document_stored sample_claim_evaluates sample_extended_sizes(1) [OF refl]
    by (simp add: sample_path_eq int_ok_def int64_max_def) (simp add: sample_world_def issuance_def)
  then show ?thesis
    by (simp add: claim_permit_def sample_claimed_world_def) (simp add: sample_claim_mutation_def)
qed

lemma sample_claimed_world_ok:
  "permit_world_ok sample_env (provider_legal (permit_legal sample_env)) pv_documents sample_claimed_world"
  using hosted.claim_permit_law [OF sample_hexdigest_ok sample_claim_ok sample_world_ok sample_claim_result] by simp

lemma sample_completion_evaluates:
  "evaluate_permit_completion sample_env sample_claimed sample_completion 3 150 = Inr sample_completion_mutation"
proof -
  have n: "int_ok 1 3" by (simp add: int_ok_def int64_max_def)
  have p: "valid_permit sample_env sample_claimed"
    unfolding sample_claimed_def by (rule valid_claimed_copy) (simp_all add: sample_permit_valid)
  have g: "completion_granted sample_env sample_claimed sample_completion 150"
    by (simp add: completion_granted_def exact_claim_def sample_completion_def sample_claimed_def claimed_copy_def)
  obtain m where m: "evaluate_permit_completion sample_env sample_claimed sample_completion 3 150 = Inr m"
      "pm_denial_reason m = None"
    using completion_steps [OF sample_hexdigest_ok p sample_completion_ok n, of 150] g by (auto simp: step_result_def)
  then show ?thesis
    using g by (auto simp: evaluate_permit_completion_def completion_granted_def mutation_eq
      sample_completion_mutation_def validate_action_permit_eq sample_completion_def Let_def)
qed

abbreviation sample_claimed_document :: permit_document where
  "sample_claimed_document \<equiv> quiet_replacement sample_env ''mutation-1'' sample_document sample_claim_mutation"

lemma sample_claimed_stored: "pv_documents sample_claimed_world sample_path = Some (sample_claimed_document, 2)"
  by (simp add: sample_claimed_world_def provider_write_def) (simp add: sample_world_def)

lemma sample_claimed_document_ok: "permit_document_ok sample_env sample_path sample_claimed_document"
  using sample_claimed_world_ok sample_claimed_stored by (auto simp: permit_world_ok_def permit_documents_ok_def)

lemma sample_claimed_document_stored: "cas_document_ok sample_env aggregate_bytes sample_claimed_document"
  using sample_hexdigest_ok sample_extended_sizes(1) [OF refl]
  by (simp add: cas_document_ok_def quiet_replacement_def hexdigest_ok_def int_ok_def int64_max_def)

lemma sample_complete_result:
  "fst (complete_permit sample_env sample_ops (\<lambda>_. ''mutation-2'') sample_completion sample_claimed_world) =
     Inr (completed_copy sample_claimed 160 SUCCEEDED)"
proof -
  have script: "pv_script sample_claimed_world = quiet_turn # quiet_turn # []"
    by (simp add: sample_claimed_world_def provider_write_def)
  have fresh: "identifier_ok sample_env ''mutation-2''" by (simp add: plain_identifier_ok plain_chars)
  have m: "evaluate_permit_completion sample_env (pa_permit (cd_payload sample_claimed_document)) sample_completion
      (int (length (pa_audit_events (cd_payload sample_claimed_document))) + 1)
      (ae_occurred_at (last (pa_audit_events (cd_payload sample_claimed_document)))) = Inr sample_completion_mutation"
    using sample_completion_evaluates
    by (simp add: quiet_replacement_def extended_def) (simp add: sample_claim_mutation_def)
  have "fst (mutate sample_env sample_ops
      (\<lambda>p n t. evaluate_permit_completion sample_env p sample_completion n t) sample_permit_id (\<lambda>_. ''mutation-2'')
      sample_claimed_world) = Inr sample_completion_mutation"
    using quiet_mutate [OF sample_hexdigest_ok completion_factory_steps [OF sample_hexdigest_ok sample_completion_ok], of
        sample_claimed_world sample_permit_id sample_claimed_document 2 "[]" sample_completion_mutation "\<lambda>_. ''mutation-2''"]
      sample_claimed_document_ok sample_claimed_document_stored sample_claimed_stored m script fresh
      sample_extended_sizes(2) [OF refl]
    by (simp add: sample_path_eq) (simp add: quiet_replacement_def int_ok_def int64_max_def)
  then show ?thesis
    by (auto simp: complete_permit_def split: prod.splits)
      (auto simp: sample_completion_mutation_def Let_def sample_completion_def)
qed

end
