(* ===== verification/Permit_Properties.thy ===== *)
theory Permit_Properties
  imports Sample
begin

text \<open>
  The properties of single-use action permits: at the durable store, for every behaviour of the
  provider and of other clients, then of the transition functions and of the audit histories.
  Each is followed by an instance at the sample permit.
\<close>

section \<open>The durable store\<close>

text \<open>
  C1: a permit is claimed once. After a granted claim, any number of legal writes by other clients
  and any failures of the provider, no claim of the same permit is granted, whatever it asks.
\<close>

theorem claim_never_granted_twice:
  assumes "hexdigest_ok E" "claim_request_ok E r1" "claim_request_ok E r2" "cq_permit_id r1 = cq_permit_id r2"
    and "permit_world_ok E (provider_legal (permit_legal E)) pv_documents w1"
    and "permit_world_ok E (provider_legal (permit_legal E)) pv_documents w3"
    and "claim_permit E (google_cas E aggregate_bytes) fresh1 r1 w1 = (Inr p1, w2)"
    and "evolves (permit_legal E) (pv_documents w2) (pv_documents w3)"
    and "claim_permit E (google_cas E aggregate_bytes) fresh2 r2 w3 = (x, w4)"
  shows "x \<noteq> Inr p2"
  by (rule hosted.claimed_permit_not_claimed_again [OF assms(1-6,8,7,9)])

theorem claim_never_granted_twice_witness:
  "fst (claim_permit sample_env sample_ops (\<lambda>_. ''mutation-1'') (sample_claim ''claim-1'' 150) sample_world) = Inr sample_claimed \<and>
   (\<forall>p2. fst (claim_permit sample_env sample_ops (\<lambda>_. ''mutation-2'') (sample_claim ''claim-2'' 160) sample_claimed_world) \<noteq> Inr p2)"
proof -
  obtain x w where "claim_permit sample_env sample_ops (\<lambda>_. ''mutation-2'') (sample_claim ''claim-2'' 160)
      sample_claimed_world = (x, w)" by fastforce
  then show ?thesis
    using claim_never_granted_twice [OF sample_hexdigest_ok sample_claim_ok sample_claim_ok _ sample_world_ok
        sample_claimed_world_ok sample_claim_result evolves_refl, of "''claim-2''" 160 "\<lambda>_. ''mutation-2''" x w]
      sample_claim_result
    by simp
qed

text \<open>
  C2: a granted claim is durable. When the store answers with a claimed permit, the stored history
  of the permit holds the claiming event with the identifier and the time of the request, and the
  store stays a store of runs of the permit machine, whatever the answer.
\<close>

theorem granted_claim_is_durable:
  assumes "hexdigest_ok E" "claim_request_ok E r"
    and "permit_world_ok E (provider_legal (permit_legal E)) pv_documents w"
    and "claim_permit E (google_cas E aggregate_bytes) fresh r w = (x, w')"
  shows "permit_world_ok E (provider_legal (permit_legal E)) pv_documents w' \<and>
    evolves (permit_legal E) (pv_documents w) (pv_documents w') \<and>
    (\<forall>p. x = Inr p \<longrightarrow> (\<exists>d t e.
       pv_documents w' (firestore_cas_document_path E ACTION_PERMIT (cq_permit_id r)) = Some (d, t) \<and>
       e \<in> set (pa_audit_events (cd_payload d)) \<and> ae_kind e = K_CLAIMED \<and>
       ae_claim_id e = Some (cq_claim_id r) \<and> ae_occurred_at e = cq_requested_at r \<and>
       ap_state p = CLAIMED \<and> ap_claim_id p = Some (cq_claim_id r) \<and> ap_claimed_at p = Some (cq_requested_at r)))"
  by (rule hosted.claim_permit_law [OF assms])

theorem granted_claim_is_durable_witness:
  "\<exists>d t e. pv_documents sample_claimed_world sample_path = Some (d, t) \<and>
     e \<in> set (pa_audit_events (cd_payload d)) \<and> ae_kind e = K_CLAIMED \<and> ae_claim_id e = Some ''claim-1''"
  using granted_claim_is_durable [OF sample_hexdigest_ok sample_claim_ok sample_world_ok sample_claim_result]
  by (auto simp: sample_path_eq)

text \<open>
  A reported completion is durable. When the store answers with a completed permit, the stored
  history holds the completion event with the outcome of the request.
\<close>

theorem reported_completion_is_durable:
  assumes "hexdigest_ok E" "completion_request_ok E r"
    and "permit_world_ok E (provider_legal (permit_legal E)) pv_documents w"
    and "complete_permit E (google_cas E aggregate_bytes) fresh r w = (x, w')"
  shows "permit_world_ok E (provider_legal (permit_legal E)) pv_documents w' \<and>
    evolves (permit_legal E) (pv_documents w) (pv_documents w') \<and>
    (\<forall>p. x = Inr p \<longrightarrow> (\<exists>d t e.
       pv_documents w' (firestore_cas_document_path E ACTION_PERMIT (kq_permit_id r)) = Some (d, t) \<and>
       e \<in> set (pa_audit_events (cd_payload d)) \<and> ae_kind e = completion_kind (kq_outcome r) \<and>
       ae_claim_id e = Some (kq_claim_id r) \<and> ap_state p = COMPLETED \<and>
       ap_completion_outcome p = Some (kq_outcome r)))"
  by (rule hosted.complete_permit_law [OF assms])

theorem reported_completion_is_durable_witness:
  "\<exists>d t e. pv_documents (snd (complete_permit sample_env sample_ops (\<lambda>_. ''mutation-2'') sample_completion
       sample_claimed_world)) sample_path = Some (d, t) \<and>
     e \<in> set (pa_audit_events (cd_payload d)) \<and> ae_kind e = K_COMPLETED"
proof -
  obtain w' where w: "complete_permit sample_env sample_ops (\<lambda>_. ''mutation-2'') sample_completion sample_claimed_world =
      (Inr (completed_copy sample_claimed 160 SUCCEEDED), w')"
    using sample_complete_result by (metis prod.collapse)
  have "kq_outcome sample_completion = SUCCEEDED" "kq_permit_id sample_completion = sample_permit_id"
    by (simp_all add: sample_completion_def)
  with reported_completion_is_durable [OF sample_hexdigest_ok sample_completion_ok sample_claimed_world_ok w] w
  show ?thesis by (auto simp: sample_path_eq)
qed

text \<open>
  Issuing a permit keeps a store of runs, and an answer means that the authority of the permit
  is stored, by this call or by an earlier one.
\<close>

theorem issued_permit_is_stored:
  assumes "hexdigest_ok E" "valid_permit E p"
    and "permit_world_ok E (provider_legal (permit_legal E)) pv_documents w"
    and "issue_permit E (google_cas E aggregate_bytes) mutation_id p w = (x, w')"
  shows "permit_world_ok E (provider_legal (permit_legal E)) pv_documents w' \<and>
    evolves (permit_legal E) (pv_documents w) (pv_documents w') \<and>
    (\<forall>q. x = Inr q \<longrightarrow> permit_authority_fields q = permit_authority_fields p \<and> (\<exists>d t.
       pv_documents w' (firestore_cas_document_path E ACTION_PERMIT (ap_permit_id p)) = Some (d, t) \<and>
       permit_authority_fields (pa_permit (cd_payload d)) = permit_authority_fields p))"
  by (rule hosted.issue_permit_law [OF assms])

theorem issued_permit_is_stored_witness:
  "permit_world_ok sample_env (provider_legal (permit_legal sample_env)) pv_documents
     (snd (issue_permit sample_env sample_ops ''mutation-1'' sample_permit sample_world))"
proof -
  obtain x w where "issue_permit sample_env sample_ops ''mutation-1'' sample_permit sample_world = (x, w)"
    by fastforce
  with issued_permit_is_stored [OF sample_hexdigest_ok sample_permit_valid sample_world_ok this] show ?thesis by simp
qed

text \<open>
  C3: without contention a claim is decided, in two calls of the provider: it is granted exactly
  when the permit is issued, the request carries its bindings and its time lies in the validity
  interval and not before the last event; otherwise it is denied with a reason.
\<close>

theorem uncontended_claim_is_decided:
  assumes "hexdigest_ok E" "claim_request_ok E r"
    and "pv_documents w (firestore_cas_document_path E ACTION_PERMIT (cq_permit_id r)) = Some (d, t)"
    and "permit_document_ok E (firestore_cas_document_path E ACTION_PERMIT (cq_permit_id r)) d"
    and "cd_logical_id d = cq_permit_id r" "cas_document_ok E aggregate_bytes d"
    and "pv_script w = quiet_turn # quiet_turn # ts"
    and "identifier_ok E (fresh 0)" "fresh 0 \<noteq> cd_mutation_id d"
    and "\<And>m. evaluate_permit_claim E (pa_permit (cd_payload d)) r (int (length (pa_audit_events (cd_payload d))) + 1)
      (ae_occurred_at (last (pa_audit_events (cd_payload d)))) = Inr m \<Longrightarrow>
      canonical_payload_ok (aggregate_bytes (extended (cd_payload d) m))"
    and "int (length (pa_audit_events (cd_payload d))) < int64_max"
  shows "if claim_granted E (pa_permit (cd_payload d)) r (ae_occurred_at (last (pa_audit_events (cd_payload d))))
    then fst (claim_permit E (google_cas E aggregate_bytes) fresh r w) =
      Inr (claimed_copy (pa_permit (cd_payload d)) (cq_claim_id r) (cq_requested_at r))
    else \<exists>reason. fst (claim_permit E (google_cas E aggregate_bytes) fresh r w) =
      Inl (PermitClaimDenied (cq_permit_id r) reason)"
  using assms by (rule quiet_claim; blast)

theorem uncontended_claim_is_decided_witness:
  "fst (claim_permit sample_env sample_ops (\<lambda>_. ''mutation-1'') (sample_claim ''claim-1'' 150) sample_world) =
     Inr (claimed_copy sample_permit ''claim-1'' 150)"
proof -
  have "claim_request_ok sample_env (sample_claim ''claim-1'' 150)" by (simp add: sample_claim_ok)
  moreover have "pv_documents sample_world sample_path = Some (sample_document, 1)"
      "pv_script sample_world = quiet_turn # quiet_turn # [quiet_turn, quiet_turn]"
    by (simp_all add: sample_world_def)
  moreover have "canonical_payload_ok (aggregate_bytes (extended (cd_payload sample_document) m))"
    if "evaluate_permit_claim sample_env sample_permit (sample_claim ''claim-1'' 150) 2 100 = Inr m" for m
    using that sample_claim_evaluates sample_extended_sizes(1) [OF refl] by simp
  moreover have "ae_occurred_at (issuance sample_env sample_permit) = 100" by (simp add: issuance_def)
  ultimately show ?thesis
    using uncontended_claim_is_decided [OF sample_hexdigest_ok, of "sample_claim ''claim-1'' 150" sample_world
        sample_document 1 "[quiet_turn, quiet_turn]" "\<lambda>_. ''mutation-1''"]
      sample_document_ok sample_document_stored sample_claim_granted
    by (simp add: sample_path_eq int64_max_def)
qed

section \<open>The transitions and the histories\<close>

text \<open>
  C4: an audit history that is validated is the history of a run. For a valid permit and well formed
  events, the replay accepts exactly the event sequences of runs of the permit machine that end in
  the permit.
\<close>

theorem validated_history_is_a_run:
  assumes "hexdigest_ok E" "valid_permit E p" "well_formed_events E events"
  shows "validate_permit_audit_history E p events = Inr () \<longleftrightarrow> permit_run E events p"
  by (rule audit_history_accepts [OF assms])

theorem validated_history_is_a_run_witness:
  "validate_permit_audit_history sample_env sample_permit [issuance sample_env sample_permit] = Inr ()"
  using validated_history_is_a_run [OF sample_hexdigest_ok sample_permit_valid
      permit_run_well_formed [OF sample_run sample_hexdigest_ok]] sample_run by simp

text \<open>
  C5: single use. In every audit history that the validator accepts for a permit a claim, a completion
  and an expiry are recorded once at most, and the state of the permit says which have been. Once a
  claim or the expiry is recorded every further claim is evaluated to a denial, and once a completion
  is recorded so is every further completion, whatever is asked and whenever.
\<close>

theorem permit_is_single_use:
  assumes "hexdigest_ok E" "valid_permit E p" "well_formed_events E events"
    and "validate_permit_audit_history E p events = Inr ()"
    and "claim_request_ok E claim" "completion_request_ok E completion"
    and "int_ok 1 n" "time_ok previous" "ap_issued_at p \<le> previous"
  shows "events_of_kind {K_CLAIMED} events = (if ap_state p \<in> {CLAIMED, COMPLETED} then 1 else 0) \<and>
    events_of_kind completion_kinds events = (if ap_state p = COMPLETED then 1 else 0) \<and>
    events_of_kind {K_EXPIRED} events = (if ap_state p = EXPIRED then 1 else 0) \<and>
    (events_of_kind {K_CLAIMED} events \<noteq> 0 \<or> events_of_kind {K_EXPIRED} events \<noteq> 0 \<longrightarrow>
       (\<exists>m reason. evaluate_permit_claim E p claim n previous = Inr m \<and> pm_denial_reason m = Some reason)) \<and>
    (events_of_kind completion_kinds events \<noteq> 0 \<longrightarrow>
       (\<exists>m reason. evaluate_permit_completion E p completion n previous = Inr m \<and> pm_denial_reason m = Some reason))"
proof -
  have "permit_run E events p" using audit_history_accepts [OF assms(1-3)] assms(4) by simp
  note counts = permit_run_counts [OF this]
  have "ap_state p \<noteq> ISSUED \<Longrightarrow>
      \<exists>m reason. evaluate_permit_claim E p claim n previous = Inr m \<and> pm_denial_reason m = Some reason"
    using claim_steps [OF assms(1,2,5,7-9)] by (auto simp: step_result_def claim_granted_def)
  moreover have "ap_state p \<noteq> CLAIMED \<Longrightarrow>
      \<exists>m reason. evaluate_permit_completion E p completion n previous = Inr m \<and> pm_denial_reason m = Some reason"
    using completion_steps [OF assms(1,2,6,7,8)] by (auto simp: step_result_def completion_granted_def)
  ultimately show ?thesis using counts by (auto split: if_splits)
qed

theorem permit_is_single_use_witness:
  "events_of_kind {K_CLAIMED} [issuance sample_env sample_permit, pm_event sample_claim_mutation] = 1 \<and>
   (\<exists>m reason. evaluate_permit_claim sample_env sample_claimed (sample_claim ''claim-2'' 160) 3 150 = Inr m \<and>
      pm_denial_reason m = Some reason)"
proof -
  let ?events = "[issuance sample_env sample_permit, pm_event sample_claim_mutation]"
  have run: "permit_run sample_env ?events sample_claimed"
    using sample_claimed_document_ok
    by (simp add: permit_document_ok_def sample_document_def Let_def extended_def
      quiet_replacement_def sample_claim_mutation_def)
  note valid = permit_run_valid [OF run] permit_run_well_formed [OF run sample_hexdigest_ok]
  have accepted: "validate_permit_audit_history sample_env sample_claimed ?events = Inr ()"
    using audit_history_accepts [OF sample_hexdigest_ok valid] run by simp
  have state: "ap_state sample_claimed = CLAIMED" "ap_issued_at sample_claimed = 100"
    by (simp_all add: sample_claimed_def permit_copies)
  have args: "int_ok 1 3" "time_ok 150" "ap_issued_at sample_claimed \<le> 150"
    by (simp_all add: int_ok_def int64_max_def time_ok_def datetime_min_def datetime_max_def state)
  show ?thesis
    using permit_is_single_use [OF sample_hexdigest_ok valid accepted sample_claim_ok sample_completion_ok args,
        of "''claim-2''" 160] state
    by simp
qed

text \<open>
  C6: an evaluated claim is one step of the machine. It never raises on a valid permit and a valid
  request; it is granted exactly under the conditions of \<open>claim_granted\<close>, and the granted permit is
  the claimed copy.
\<close>

theorem claim_is_a_step:
  assumes "hexdigest_ok E" "valid_permit E p" "claim_request_ok E r" "int_ok 1 n" "time_ok previous"
    and "ap_issued_at p \<le> previous"
  shows "\<exists>m. step_result E n previous p (evaluate_permit_claim E p r n previous) m \<and>
    (pm_denial_reason m = None \<longleftrightarrow> claim_granted E p r previous) \<and>
    (pm_denial_reason m = None \<longrightarrow> pm_permit m = claimed_copy p (cq_claim_id r) (cq_requested_at r))"
  by (rule claim_steps [OF assms])

theorem claim_is_a_step_witness:
  "\<exists>m. evaluate_permit_claim sample_env sample_permit (sample_claim ''claim-1'' 150) 2 100 = Inr m \<and>
     pm_permit m = claimed_copy sample_permit ''claim-1'' 150"
proof -
  have "int_ok 1 2" "claim_request_ok sample_env (sample_claim ''claim-1'' 150)"
    by (simp_all add: int_ok_def int64_max_def sample_claim_ok)
  from claim_is_a_step [OF sample_hexdigest_ok sample_permit_valid this(2,1), of 100] show ?thesis
    using sample_claim_granted by (auto simp: step_result_def)
qed

text \<open>
  C7: an evaluated completion is one step of the machine. It never raises on a valid permit and a
  valid request, and it is granted exactly for the exact claim of a claimed permit.
\<close>

theorem completion_is_a_step:
  assumes "hexdigest_ok E" "valid_permit E p" "completion_request_ok E r" "int_ok 1 n" "time_ok previous"
  shows "\<exists>m. step_result E n previous p (evaluate_permit_completion E p r n previous) m \<and>
    (pm_denial_reason m = None \<longleftrightarrow> completion_granted E p r previous) \<and>
    (pm_denial_reason m = None \<longrightarrow> pm_permit m = completed_copy p (kq_completed_at r) (kq_outcome r))"
  by (rule completion_steps [OF assms])

theorem completion_is_a_step_witness:
  "\<exists>m. evaluate_permit_completion sample_env sample_permit sample_completion 2 100 = Inr m \<and> pm_denial_reason m \<noteq> None"
proof -
  have "int_ok 1 2" by (simp add: int_ok_def int64_max_def)
  from completion_is_a_step [OF sample_hexdigest_ok sample_permit_valid sample_completion_ok this, of 100] show ?thesis
    by (auto simp: step_result_def completion_granted_def)
qed

lemma sample_claimed_run:
  "permit_run sample_env [issuance sample_env sample_permit, pm_event sample_claim_mutation] sample_claimed"
  using sample_claimed_document_ok
  by (simp add: permit_document_ok_def quiet_replacement_def extended_def) (simp add: sample_claim_mutation_def)

text \<open>
  A history is ordered. The events of a run are numbered from 1 without a gap, their times
  never decrease, and all name the permit.
\<close>

theorem history_is_ordered:
  assumes "permit_run E events p"
  shows "map ae_sequence events = map int [1..<length events + 1] \<and> sorted (map ae_occurred_at events) \<and>
    (\<forall>e\<in>set events. ae_permit_id e = ap_permit_id p)"
  by (rule permit_run_sequence [OF assms])

theorem history_is_ordered_witness:
  "map ae_sequence [issuance sample_env sample_permit, pm_event sample_claim_mutation] = [1, 2]"
  using history_is_ordered [OF sample_claimed_run] by (simp add: upt_conv_Cons)

text \<open>
  A history determines its permit. Two permits with one validated history are equal, unless
  their canonical encodings are a collision of SHA-256.
\<close>

theorem history_determines_the_permit:
  assumes "permit_run E events p" "permit_run E events q"
  shows "p = q \<or> permit_collision E p q"
  by (rule permit_run_determined [OF assms])

theorem history_determines_the_permit_witness:
  "sample_permit = sample_permit \<or> permit_collision sample_env sample_permit sample_permit"
  by (rule history_determines_the_permit [OF sample_run sample_run])

text \<open>
  A permit identifier stands for one certificate and one transition, unless two canonical
  encodings collide in the first 32 digits of their digests.
\<close>

theorem permit_id_binds_the_transition:
  assumes "action_permit_id E c t = Inr i" "action_permit_id E d u = Inr i"
  shows "(c = d \<and> t = u) \<or> short_digests_collide E (json_bytes (identity_json c t)) (json_bytes (identity_json d u))"
  by (rule action_permit_id_eqD [OF assms])

theorem permit_id_binds_the_transition_witness:
  "(''certificate-1'' = ''certificate-1'' \<and> sample_transition = sample_transition) \<or>
   short_digests_collide sample_env (json_bytes (identity_json ''certificate-1'' sample_transition))
     (json_bytes (identity_json ''certificate-1'' sample_transition))"
  by (rule permit_id_binds_the_transition [OF sample_action_permit_id sample_action_permit_id])

end
