(* ===== verification/Contract_Properties.thy ===== *)
theory Contract_Properties
  imports Sample
begin

text \<open>
  The properties of the wire contracts: the screening of text, the canonical encoding, timestamps
  and recovery chains.
\<close>

text \<open>
  C24: a recovery chain is accepted exactly when its dependencies are acyclic. Apart from the field
  checks, the constructor of a chain demands unique identifiers, semantic keys and envelopes, one
  profile version, known dependencies, and that the search finds no cycle; the search always
  ends, and it finds a cycle exactly when there is one.
\<close>

theorem chain_accepted_iff_acyclic:
  "validate_recovery_chain E c = Inr c' \<longleftrightarrow>
     c' = c \<and> recovery_chain_fields_ok E c \<and> distinct (map rn_node_id (rc_nodes c)) \<and>
     distinct (map (\<lambda>n. sa_semantic_action_sha256 (rn_semantic_action n)) (rc_nodes c)) \<and>
     distinct (map (\<lambda>n. (xr_investigation_id (rn_envelope n), xr_operation_id (rn_envelope n),
       xr_envelope_sha256 (rn_envelope n))) (rc_nodes c)) \<and>
     set (map rn_chain_profile_version (rc_nodes c)) \<subseteq> {rc_chain_profile_version c} \<and>
     set (concat (map rn_depends_on (rc_nodes c))) \<subseteq> set (map rn_node_id (rc_nodes c)) \<and>
     acyclic (dependency_relation (chain_dependencies c))"
  by (rule validate_recovery_chain_eq)

text \<open>
  C25: the canonical encoding of a JSON value determines it, up to the order of the members: two
  values whose floating point numbers are written as \<open>repr\<close> writes them have one canonical encoding
  exactly when they are equal once their members are sorted.
\<close>

theorem canonical_encoding_is_injective:
  assumes "json_finite a" "json_finite b"
  shows "json_bytes a = json_bytes b \<longleftrightarrow> json_sorted a = json_sorted b"
  using json_bytes_inj [OF assms] by (auto simp: json_bytes_def)

theorem canonical_encoding_is_injective_witness:
  "json_bytes (JObj [(''a'', JInt 1), (''b'', JNull)]) = json_bytes (JObj [(''b'', JNull), (''a'', JInt 1)]) \<and>
   json_bytes (JArr [JInt 1, JInt 2]) \<noteq> json_bytes (JArr [JInt 12])"
proof
  show "json_bytes (JObj [(''a'', JInt 1), (''b'', JNull)]) = json_bytes (JObj [(''b'', JNull), (''a'', JInt 1)])"
    by (subst canonical_encoding_is_injective) (simp_all add: less_char_def)
  show "json_bytes (JArr [JInt 1, JInt 2]) \<noteq> json_bytes (JArr [JInt 12])"
    by (subst canonical_encoding_is_injective) simp_all
qed

text \<open>
  The wire text of a timestamp determines the instant, to the microsecond, for all instants that
  a \<open>datetime\<close> can hold.
\<close>

theorem timestamp_text_is_injective:
  assumes "time_ok t" "time_ok u"
  shows "time_json t = time_json u \<longleftrightarrow> t = u"
  using iso_text_inj assms by (auto simp: time_json_def time_ok_def datetime_min_def)

theorem timestamp_text_is_injective_witness: "time_json 100 \<noteq> time_json 150"
  by (subst timestamp_text_is_injective) simp_all

text \<open>
  The screening never refuses plain text, and redaction leaves every text without a credential
  as it is. The identifiers and digests that the system makes are plain.
\<close>

theorem plain_text_is_kept:
  assumes "list_all plain_char s" "text_length s \<le> 4096"
  shows "\<not> contains_sensitive_material E s \<and> redact_untrusted_text E s = Inr s"
  using plain_text_not_sensitive [OF assms(1)] plain_text_redacts [OF assms] by simp

theorem plain_text_is_kept_witness: "redact_untrusted_text sample_env ''node-1-abc'' = Inr ''node-1-abc''"
  by (rule plain_text_is_kept [THEN conjunct2]) (simp_all add: plain_chars text_length_def)

end
