(* ===== verification/Report_Contracts.thy ===== *)
theory Report_Contracts
  imports Envelope
begin

text \<open>
  The investigation report of \<open>contracts/report.py\<close>: action gates, probe audits, deterministic
  proofs and the report with its reference validator, which recomputes from the admitted evidence
  what the proof and the classification have to be.
\<close>

section \<open>Action gates\<close>

datatype requested_action = RA_CONTINUE | RA_RETRY | RA_COMPENSATE | RA_ESCALATE | RA_OBSERVE

text \<open>\<open>list(RequestedAction)\<close>.\<close>

definition requested_actions :: "requested_action list" where
  "requested_actions = [RA_CONTINUE, RA_RETRY, RA_COMPENSATE, RA_ESCALATE, RA_OBSERVE]"

fun requested_action_text :: "requested_action \<Rightarrow> string" where
  "requested_action_text RA_CONTINUE = ''CONTINUE''"
| "requested_action_text RA_RETRY = ''RETRY''"
| "requested_action_text RA_COMPENSATE = ''COMPENSATE''"
| "requested_action_text RA_ESCALATE = ''ESCALATE''"
| "requested_action_text RA_OBSERVE = ''OBSERVE''"

datatype gate_reason =
    ALL_EFFECTS_ESTABLISHED | OPERATION_NOT_COMMITTED | DUPLICATE_EFFECT_RISK
  | COMPENSATION_OUT_OF_SCOPE_V1 | EXPLICIT_RETRY_POLICY_REQUIRED | OPERATOR_REVIEW_AVAILABLE
  | INCOMPLETE_EFFECT_SET | OPERATOR_INTERVENTION_REQUIRED | OPERATION_ACTIVE | READ_ONLY_FOLLOW_UP
  | INSUFFICIENT_AUTHORITATIVE_EVIDENCE | AMBIGUOUS_DUPLICATE_RISK

fun gate_reason_text :: "gate_reason \<Rightarrow> string" where
  "gate_reason_text ALL_EFFECTS_ESTABLISHED = ''all_effects_established''"
| "gate_reason_text OPERATION_NOT_COMMITTED = ''operation_not_committed''"
| "gate_reason_text DUPLICATE_EFFECT_RISK = ''duplicate_effect_risk''"
| "gate_reason_text COMPENSATION_OUT_OF_SCOPE_V1 = ''compensation_out_of_scope_v1''"
| "gate_reason_text EXPLICIT_RETRY_POLICY_REQUIRED = ''explicit_retry_policy_required''"
| "gate_reason_text OPERATOR_REVIEW_AVAILABLE = ''operator_review_available''"
| "gate_reason_text INCOMPLETE_EFFECT_SET = ''incomplete_effect_set''"
| "gate_reason_text OPERATOR_INTERVENTION_REQUIRED = ''operator_intervention_required''"
| "gate_reason_text OPERATION_ACTIVE = ''operation_active''"
| "gate_reason_text READ_ONLY_FOLLOW_UP = ''read_only_follow_up''"
| "gate_reason_text INSUFFICIENT_AUTHORITATIVE_EVIDENCE = ''insufficient_authoritative_evidence''"
| "gate_reason_text AMBIGUOUS_DUPLICATE_RISK = ''ambiguous_duplicate_risk''"

record action_gate =
  ag_requested_action :: requested_action
  ag_allowed :: bool
  ag_reason :: gate_reason
  ag_classification :: classification
  ag_classification_policy_version :: string
  ag_action_policy_version :: string
  ag_escalation_required :: bool

text \<open>The reasons that the contract demands of a retry, a continuation and an escalation.\<close>

fun retry_reason :: "classification \<Rightarrow> gate_reason" where
  "retry_reason COMMITTED = DUPLICATE_EFFECT_RISK"
| "retry_reason NOT_COMMITTED = EXPLICIT_RETRY_POLICY_REQUIRED"
| "retry_reason PARTIAL = DUPLICATE_EFFECT_RISK"
| "retry_reason PENDING = OPERATION_ACTIVE"
| "retry_reason UNKNOWN = AMBIGUOUS_DUPLICATE_RISK"

fun continue_reason :: "classification \<Rightarrow> gate_reason" where
  "continue_reason COMMITTED = ALL_EFFECTS_ESTABLISHED"
| "continue_reason NOT_COMMITTED = OPERATION_NOT_COMMITTED"
| "continue_reason PARTIAL = INCOMPLETE_EFFECT_SET"
| "continue_reason PENDING = OPERATION_ACTIVE"
| "continue_reason UNKNOWN = INSUFFICIENT_AUTHORITATIVE_EVIDENCE"

fun escalation_outcome :: "classification \<Rightarrow> bool \<times> gate_reason" where
  "escalation_outcome COMMITTED = (False, ALL_EFFECTS_ESTABLISHED)"
| "escalation_outcome NOT_COMMITTED = (True, OPERATOR_REVIEW_AVAILABLE)"
| "escalation_outcome PARTIAL = (True, OPERATOR_INTERVENTION_REQUIRED)"
| "escalation_outcome PENDING = (True, OPERATOR_INTERVENTION_REQUIRED)"
| "escalation_outcome UNKNOWN = (True, OPERATOR_INTERVENTION_REQUIRED)"

definition validate_action_gate :: "env \<Rightarrow> action_gate \<Rightarrow> action_gate result" where
  "validate_action_gate E g = checked
     [(\<not> (identifier_ok E (ag_classification_policy_version g) \<and> identifier_ok E (ag_action_policy_version g)),
         field_message),
      (ag_escalation_required g \<noteq> (ag_classification g \<noteq> COMMITTED),
         ''escalation requirement does not match classification''),
      (ag_requested_action g \<in> {RA_RETRY, RA_COMPENSATE} \<and> ag_allowed g,
         ''retry and compensation are not executable in v1''),
      (ag_requested_action g = RA_CONTINUE \<and> ag_allowed g \<noteq> (ag_classification g = COMMITTED),
         ''continuation is allowed exactly when committed''),
      (ag_classification g \<in> {PARTIAL, PENDING, UNKNOWN} \<and>
       ag_requested_action g \<in> {RA_CONTINUE, RA_RETRY, RA_COMPENSATE} \<and> ag_allowed g,
         ''indeterminate classifications block mutation''),
      (ag_requested_action g = RA_COMPENSATE \<and> ag_reason g \<noteq> COMPENSATION_OUT_OF_SCOPE_V1,
         ''compensation requires the frozen v1 denial reason''),
      (ag_requested_action g = RA_RETRY \<and> ag_reason g \<noteq> retry_reason (ag_classification g),
         ''retry reason does not match classification''),
      (ag_requested_action g = RA_CONTINUE \<and> ag_reason g \<noteq> continue_reason (ag_classification g),
         ''continuation reason does not match classification''),
      (ag_requested_action g = RA_OBSERVE \<and> (\<not> ag_allowed g \<or> ag_reason g \<noteq> READ_ONLY_FOLLOW_UP),
         ''observation must remain available and read-only''),
      (ag_requested_action g = RA_ESCALATE \<and>
       (ag_allowed g, ag_reason g) \<noteq> escalation_outcome (ag_classification g),
         ''operator escalation outcome does not match state'')] g"

definition action_gate_json :: "action_gate \<Rightarrow> json" where
  "action_gate_json g = JObj
     [(''schema_version'', JStr ''reconcile/action-gate-result/v1''),
      (''requested_action'', JStr (requested_action_text (ag_requested_action g))),
      (''allowed'', JBool (ag_allowed g)),
      (''reason'', JStr (gate_reason_text (ag_reason g))),
      (''classification'', JStr (classification_text (ag_classification g))),
      (''classification_policy_version'', JStr (ag_classification_policy_version g)),
      (''action_policy_version'', JStr (ag_action_policy_version g)),
      (''escalation_required'', JBool (ag_escalation_required g))]"

section \<open>Probe audits\<close>

datatype investigation_status = IS_CREATED | IS_INVESTIGATING | IS_COMPLETED

fun investigation_status_text :: "investigation_status \<Rightarrow> string" where
  "investigation_status_text IS_CREATED = ''CREATED''"
| "investigation_status_text IS_INVESTIGATING = ''INVESTIGATING''"
| "investigation_status_text IS_COMPLETED = ''COMPLETED''"

datatype probe_outcome =
    PO_COMPLETED | PO_REJECTED | PO_TIMED_OUT | PO_UNAVAILABLE | PO_CANCELLED | PO_MALFORMED
  | PO_BUDGET_EXHAUSTED

fun probe_outcome_text :: "probe_outcome \<Rightarrow> string" where
  "probe_outcome_text PO_COMPLETED = ''COMPLETED''"
| "probe_outcome_text PO_REJECTED = ''REJECTED''"
| "probe_outcome_text PO_TIMED_OUT = ''TIMED_OUT''"
| "probe_outcome_text PO_UNAVAILABLE = ''UNAVAILABLE''"
| "probe_outcome_text PO_CANCELLED = ''CANCELLED''"
| "probe_outcome_text PO_MALFORMED = ''MALFORMED''"
| "probe_outcome_text PO_BUDGET_EXHAUSTED = ''BUDGET_EXHAUSTED''"

record probe_audit =
  pu_probe_sequence :: int
  pu_capability_name :: "string option"
  pu_capability_version :: "string option"
  pu_request_sha256 :: "string option"
  pu_target_sha256 :: string
  pu_outcome :: probe_outcome
  pu_stop_reason :: string
  pu_started_at :: time
  pu_completed_at :: time
  pu_session_elapsed_ms :: int
  pu_probe_count_used :: int
  pu_cost_units_used :: int
  pu_result_bytes_acquired :: int
  pu_result_sha256 :: "string option"
  pu_result_byte_count :: "int option"
  pu_evidence_ids :: "string list"

definition probe_audit_fields_ok :: "env \<Rightarrow> probe_audit \<Rightarrow> bool" where
  "probe_audit_fields_ok E a \<longleftrightarrow>
     int_ok 1 (pu_probe_sequence a) \<and> option_ok (identifier_ok E) (pu_capability_name a) \<and>
     option_ok (identifier_ok E) (pu_capability_version a) \<and> option_ok sha256_digest_ok (pu_request_sha256 a) \<and>
     sha256_digest_ok (pu_target_sha256 a) \<and> identifier_ok E (pu_stop_reason a) \<and>
     time_ok (pu_started_at a) \<and> time_ok (pu_completed_at a) \<and> int_ok 0 (pu_session_elapsed_ms a) \<and>
     int_ok 0 (pu_probe_count_used a) \<and> int_ok 0 (pu_cost_units_used a) \<and>
     int_ok 0 (pu_result_bytes_acquired a) \<and> option_ok sha256_digest_ok (pu_result_sha256 a) \<and>
     option_ok (int_ok 0) (pu_result_byte_count a) \<and> length_ok 1 1 (pu_evidence_ids a) \<and>
     list_all (identifier_ok E) (pu_evidence_ids a)"

definition validate_probe_audit :: "env \<Rightarrow> probe_audit \<Rightarrow> probe_audit result" where
  "validate_probe_audit E a = checked
     [(\<not> probe_audit_fields_ok E a, field_message),
      (pu_completed_at a < pu_started_at a, ''probe completion cannot precede its start''),
      ((pu_capability_name a = None) \<noteq> (pu_capability_version a = None),
         ''probe capability identity must be complete''),
      (pu_outcome a = PO_COMPLETED \<and>
       (pu_capability_name a = None \<or> pu_request_sha256 a = None \<or> pu_result_sha256 a = None \<or>
        pu_result_byte_count a = None),
         ''completed probes require request, capability, and result identity''),
      (pu_outcome a \<noteq> PO_COMPLETED \<and> pu_result_sha256 a \<noteq> None,
         ''rejected probe output cannot become an evidence digest''),
      (\<not> distinct (pu_evidence_ids a), ''probe evidence identifiers must be unique'')] a"

definition probe_audit_json :: "probe_audit \<Rightarrow> json" where
  "probe_audit_json a = JObj
     [(''probe_sequence'', JInt (pu_probe_sequence a)),
      (''capability_name'', option_json JStr (pu_capability_name a)),
      (''capability_version'', option_json JStr (pu_capability_version a)),
      (''request_sha256'', option_json JStr (pu_request_sha256 a)),
      (''target_sha256'', JStr (pu_target_sha256 a)),
      (''outcome'', JStr (probe_outcome_text (pu_outcome a))),
      (''stop_reason'', JStr (pu_stop_reason a)),
      (''started_at'', time_json (pu_started_at a)),
      (''completed_at'', time_json (pu_completed_at a)),
      (''session_elapsed_ms'', JInt (pu_session_elapsed_ms a)),
      (''probe_count_used'', JInt (pu_probe_count_used a)),
      (''cost_units_used'', JInt (pu_cost_units_used a)),
      (''result_bytes_acquired'', JInt (pu_result_bytes_acquired a)),
      (''result_sha256'', option_json JStr (pu_result_sha256 a)),
      (''result_byte_count'', option_json JInt (pu_result_byte_count a)),
      (''evidence_ids'', strings_json (pu_evidence_ids a))]"

section \<open>Proofs\<close>

record effect_finding =
  ff_effect_id :: string
  ff_commit_scope :: string
  ff_state :: effect_assertion_state
  ff_evidence_ids :: "string list"

definition validate_effect_finding :: "env \<Rightarrow> effect_finding \<Rightarrow> effect_finding result" where
  "validate_effect_finding E f = checked
     [(\<not> (identifier_ok E (ff_effect_id f) \<and> identifier_ok E (ff_commit_scope f) \<and>
          length_ok 0 64 (ff_evidence_ids f) \<and> list_all (identifier_ok E) (ff_evidence_ids f)), field_message),
      (\<not> distinct (ff_evidence_ids f), ''effect finding evidence identifiers must be unique'')] f"

definition effect_finding_json :: "effect_finding \<Rightarrow> json" where
  "effect_finding_json f = JObj
     [(''effect_id'', JStr (ff_effect_id f)),
      (''commit_scope'', JStr (ff_commit_scope f)),
      (''state'', JStr (effect_assertion_state_text (ff_state f))),
      (''evidence_ids'', strings_json (ff_evidence_ids f))]"

record deterministic_proof =
  dp_effect_findings :: "effect_finding list"
  dp_operation_status :: "operation_status option"
  dp_conflicting_authority :: bool
  dp_admitted_evidence_ids :: "string list"

definition validate_deterministic_proof :: "env \<Rightarrow> deterministic_proof \<Rightarrow> deterministic_proof result" where
  "validate_deterministic_proof E p = checked
     [(\<not> (length_ok 1 64 (dp_effect_findings p) \<and>
          list_all (accepted (validate_effect_finding E)) (dp_effect_findings p) \<and>
          length_ok 0 64 (dp_admitted_evidence_ids p) \<and>
          list_all (identifier_ok E) (dp_admitted_evidence_ids p)), field_message),
      (\<not> distinct (map ff_effect_id (dp_effect_findings p)), ''proof effect identifiers must be unique''),
      (\<not> distinct (dp_admitted_evidence_ids p), ''admitted evidence identifiers must be unique'')] p"

definition deterministic_proof_json :: "deterministic_proof \<Rightarrow> json" where
  "deterministic_proof_json p = JObj
     [(''effect_findings'', JArr (map effect_finding_json (dp_effect_findings p))),
      (''operation_status'', option_json (\<lambda>s. JStr (operation_status_text s)) (dp_operation_status p)),
      (''conflicting_authority'', JBool (dp_conflicting_authority p)),
      (''admitted_evidence_ids'', strings_json (dp_admitted_evidence_ids p))]"

text \<open>\<open>MissingEvidence\<close> of the report.\<close>

record unresolved_effects =
  ue_effect_ids :: "string list"
  ue_reason :: string

definition validate_unresolved_effects :: "env \<Rightarrow> unresolved_effects \<Rightarrow> unresolved_effects result" where
  "validate_unresolved_effects E m = checked
     [(\<not> (length_ok 0 64 (ue_effect_ids m) \<and> list_all (identifier_ok E) (ue_effect_ids m) \<and>
          identifier_ok E (ue_reason m)), field_message),
      (\<not> distinct (ue_effect_ids m), ''missing effect identifiers must be unique'')] m"

definition unresolved_effects_json :: "unresolved_effects \<Rightarrow> json" where
  "unresolved_effects_json m = JObj
     [(''effect_ids'', strings_json (ue_effect_ids m)), (''reason'', JStr (ue_reason m))]"

record advisory_explanation =
  ad_text :: string
  ad_cited_evidence_ids :: "string list"

definition validate_advisory :: "env \<Rightarrow> advisory_explanation \<Rightarrow> advisory_explanation result" where
  "validate_advisory E a = checked
     [(\<not> (bounded_text_ok E 4096 (ad_text a) \<and> length_ok 1 64 (ad_cited_evidence_ids a) \<and>
          list_all (identifier_ok E) (ad_cited_evidence_ids a)), field_message),
      (\<not> distinct (ad_cited_evidence_ids a), ''advisory evidence citations must be unique'')] a"

definition advisory_json :: "advisory_explanation \<Rightarrow> json" where
  "advisory_json a = JObj
     [(''text'', JStr (ad_text a)), (''cited_evidence_ids'', strings_json (ad_cited_evidence_ids a))]"

section \<open>Investigation reports\<close>

record investigation_report =
  ir_investigation_id :: string
  ir_envelope_sha256 :: string
  ir_status :: investigation_status
  ir_probe_audit :: "probe_audit list"
  ir_evidence :: "normalized_evidence list"
  ir_evidence_decisions :: "evidence_decision list"
  ir_proof :: "deterministic_proof option"
  ir_classification :: "classification option"
  ir_action_gate :: "action_gate list"
  ir_missing_evidence :: "unresolved_effects list"
  ir_limitations :: "string list"
  ir_advisory_explanation :: "advisory_explanation option"
  ir_created_at :: time
  ir_updated_at :: time
  ir_revision :: int

definition investigation_report_fields_ok :: "env \<Rightarrow> investigation_report \<Rightarrow> bool" where
  "investigation_report_fields_ok E r \<longleftrightarrow>
     identifier_ok E (ir_investigation_id r) \<and> sha256_digest_ok (ir_envelope_sha256 r) \<and>
     length_ok 0 64 (ir_probe_audit r) \<and> list_all (accepted (validate_probe_audit E)) (ir_probe_audit r) \<and>
     length_ok 0 64 (ir_evidence r) \<and> list_all (accepted (validate_normalized_evidence E)) (ir_evidence r) \<and>
     length_ok 0 64 (ir_evidence_decisions r) \<and>
     list_all (accepted (validate_evidence_decision E)) (ir_evidence_decisions r) \<and>
     option_ok (accepted (validate_deterministic_proof E)) (ir_proof r) \<and>
     (ir_action_gate r = [] \<or> length (ir_action_gate r) = length requested_actions) \<and>
     list_all (accepted (validate_action_gate E)) (ir_action_gate r) \<and>
     length_ok 0 64 (ir_missing_evidence r) \<and>
     list_all (accepted (validate_unresolved_effects E)) (ir_missing_evidence r) \<and>
     length_ok 0 64 (ir_limitations r) \<and> list_all (bounded_text_ok E 4096) (ir_limitations r) \<and>
     option_ok (accepted (validate_advisory E)) (ir_advisory_explanation r) \<and>
     time_ok (ir_created_at r) \<and> time_ok (ir_updated_at r) \<and> int_ok 0 (ir_revision r)"

text \<open>The dictionaries of the validator, keyed by the identifier of the evidence.\<close>

definition evidence_of :: "investigation_report \<Rightarrow> string \<Rightarrow> normalized_evidence option" where
  "evidence_of r i = find (\<lambda>e. ev_evidence_id e = i) (ir_evidence r)"

definition decision_of :: "investigation_report \<Rightarrow> string \<Rightarrow> evidence_decision option" where
  "decision_of r i = find (\<lambda>d. ed_evidence_id d = i) (ir_evidence_decisions r)"

definition audit_of :: "investigation_report \<Rightarrow> string \<Rightarrow> probe_audit option" where
  "audit_of r i = find (\<lambda>a. i \<in> set (pu_evidence_ids a)) (ir_probe_audit r)"

definition decided :: "investigation_report \<Rightarrow> evidence_disposition \<Rightarrow> string list" where
  "decided r x = map ed_evidence_id (filter (\<lambda>d. ed_disposition d = x) (ir_evidence_decisions r))"

text \<open>Every decision has one audit: the loop that fills \<open>audit_by_evidence_id\<close>.\<close>

fun audit_source_checks :: "string list \<Rightarrow> string list \<Rightarrow> probe_audit list \<Rightarrow> (bool \<times> string) list" where
  "audit_source_checks decisions seen [] =
     [(set decisions \<noteq> set seen, ''every evidence decision requires one probe audit source'')]"
| "audit_source_checks decisions seen (a # as) =
     (\<not> set (pu_evidence_ids a) \<subseteq> set decisions, ''probe audit references an unknown evidence decision'') #
     (list_ex (\<lambda>i. i \<in> set seen) (pu_evidence_ids a), ''evidence decisions require one probe audit source'') #
     audit_source_checks decisions (pu_evidence_ids a @ seen) as"

definition identity_checks :: "investigation_report \<Rightarrow> (bool \<times> string) list" where
  "identity_checks r =
     (let evidence_ids = map ev_evidence_id (ir_evidence r);
          decision_ids = map ed_evidence_id (ir_evidence_decisions r) in
     [(ir_updated_at r < ir_created_at r, ''report update cannot precede creation''),
      (ir_status r = IS_COMPLETED \<and>
       (ir_proof r = None \<or> ir_classification r = None \<or> ir_action_gate r = []),
         ''completed reports require proof, classification, and action gates''),
      (ir_classification r = None \<and> ir_action_gate r \<noteq> [], ''action gates require a classification''),
      (map pu_probe_sequence (ir_probe_audit r) \<noteq> map int [1..<length (ir_probe_audit r) + 1],
         ''probe audit sequence must be contiguous and ordered''),
      (\<not> distinct evidence_ids, ''evidence identifiers must be unique''),
      (\<not> distinct decision_ids, ''evidence decision identifiers must be unique''),
      (\<not> set evidence_ids \<subseteq> set decision_ids, ''every normalized evidence item requires one decision''),
      (list_ex (\<lambda>d. ed_disposition d \<noteq> REJECTED_EVIDENCE \<and> ed_evidence_id d \<notin> set evidence_ids)
         (ir_evidence_decisions r), ''only rejected attempts may omit normalized evidence'')] @
     audit_source_checks decision_ids [] (ir_probe_audit r))"

text \<open>One item of evidence against its audit and its decision.\<close>

definition evidence_checks :: "env \<Rightarrow> investigation_report \<Rightarrow> normalized_evidence \<Rightarrow> (bool \<times> string) list" where
  "evidence_checks E r e =
     (let a = the (audit_of r (ev_evidence_id e));
          retained = (ed_disposition (the (decision_of r (ev_evidence_id e))) \<noteq> REJECTED_EVIDENCE);
          retrieved_at = epv_retrieved_at (ev_provenance e) in
     [(pu_outcome a \<noteq> PO_COMPLETED, ''normalized evidence requires a completed probe''),
      (pu_capability_name a \<noteq> Some (ev_capability_name e) \<or>
       pu_capability_version a \<noteq> Some (ev_capability_version e),
         ''evidence capability does not match its probe audit''),
      (retained \<and> pu_target_sha256 a \<noteq> canonical_sha256 E (target_binding_json (ev_target e)),
         ''evidence target does not match its probe audit''),
      (pu_result_sha256 a \<noteq> Some (ro_sha256 (ev_raw_observation e)) \<or>
       pu_result_byte_count a \<noteq> Some (ro_byte_count (ev_raw_observation e)),
         ''raw observation does not match its probe result''),
      (pu_completed_at a \<noteq> retrieved_at, ''evidence retrieval time does not match probe completion''),
      (retained \<and> \<not> (fw_valid_from (ev_freshness e) \<le> retrieved_at \<and>
         retrieved_at \<le> fw_valid_until (ev_freshness e)), ''retained evidence is outside its freshness window'')])"

text \<open>The reason that a retained item has to be decided with.\<close>

fun expected_weak_reason :: "evidence_authority \<Rightarrow> evidence_reason option" where
  "expected_weak_reason SUPPLEMENTARY = Some NON_AUTHORITATIVE_LOG_ONLY"
| "expected_weak_reason WEAK_AUTHORITY = Some NOT_FOUND_ABSENCE_ONLY"
| "expected_weak_reason TARGET_STATE = None"

definition expected_admitted_reason :: "normalized_evidence \<Rightarrow> evidence_reason" where
  "expected_admitted_reason e =
     (if ev_operation_status e \<in> {Some ACTIVE, Some UNRESOLVED} then AUTHORITATIVE_ACTIVE_STATUS
      else if ev_operation_status e = Some TERMINAL_NOT_COMMITTED then AUTHORITATIVE_AFFIRMATIVE_NON_EXECUTION
      else AUTHORITATIVE_EXACT_CORRELATION)"

definition reason_checks :: "investigation_report \<Rightarrow> evidence_decision \<Rightarrow> (bool \<times> string) list" where
  "reason_checks r d =
     (case evidence_of r (ed_evidence_id d) of
        None \<Rightarrow> []
      | Some e \<Rightarrow>
        [(ed_disposition d = WEAK_EVIDENCE \<and> Some (ed_reason d) \<noteq> expected_weak_reason (ev_authority e),
            ''weak evidence reason does not match its authority''),
         (ed_disposition d = ADMITTED \<and> ed_reason d \<noteq> expected_admitted_reason e,
            ''admitted evidence reason does not match its semantics'')])"

definition admitted_evidence :: "investigation_report \<Rightarrow> normalized_evidence list" where
  "admitted_evidence r = map (\<lambda>i. the (evidence_of r i)) (decided r ADMITTED)"

definition admission_checks :: "env \<Rightarrow> investigation_report \<Rightarrow> (bool \<times> string) list" where
  "admission_checks E r =
     concat (map (evidence_checks E r) (ir_evidence r)) @
     [(list_ex (\<lambda>i. ev_authority (the (evidence_of r i)) \<noteq> TARGET_STATE) (decided r ADMITTED),
         ''only target-state evidence can be admitted''),
      (list_ex (\<lambda>i. ev_authority (the (evidence_of r i)) = TARGET_STATE) (decided r WEAK_EVIDENCE),
         ''target-state evidence cannot be retained as weak'')] @
     concat (map (reason_checks r) (ir_evidence_decisions r)) @
     (case admitted_evidence r of
        [] \<Rightarrow> []
      | first # rest \<Rightarrow>
        [(list_ex (\<lambda>e. canonical_sha256 E (target_binding_json (ev_target e)) \<noteq>
             canonical_sha256 E (target_binding_json (ev_target first))) rest,
            ''admitted evidence targets must match''),
         (list_ex (\<lambda>e. ev_authority_policy_version e \<noteq> ev_authority_policy_version first) rest,
            ''admitted evidence authority policies must match'')])"

section \<open>The proof of a report\<close>

text \<open>What the admitted evidence says of one effect, and of the operation.\<close>

definition assertion_values ::
  "investigation_report \<Rightarrow> string list \<Rightarrow> string \<Rightarrow> (effect_assertion_state \<times> string) list" where
  "assertion_values r ids effect =
     concat (map (\<lambda>i. map (\<lambda>a. (ea_state a, i))
       (filter (\<lambda>a. ea_effect_id a = effect) (ev_effect_assertions (the (evidence_of r i))))) ids)"

definition status_values :: "investigation_report \<Rightarrow> string list \<Rightarrow> operation_status list" where
  "status_values r ids =
     concat (map (\<lambda>i. case ev_operation_status (the (evidence_of r i)) of None \<Rightarrow> [] | Some s \<Rightarrow> [s]) ids)"

definition contradictory :: "effect_assertion_state list \<Rightarrow> bool" where
  "contradictory states \<longleftrightarrow> ESTABLISHED \<in> set states \<and> NOT_ESTABLISHED \<in> set states"

definition aggregate_state :: "effect_assertion_state list \<Rightarrow> effect_assertion_state" where
  "aggregate_state states =
     (if contradictory states then UNVERIFIED
      else if ESTABLISHED \<in> set states then ESTABLISHED
      else if NOT_ESTABLISHED \<in> set states then NOT_ESTABLISHED
      else UNVERIFIED)"

definition definitive_citations :: "(effect_assertion_state \<times> string) list \<Rightarrow> string list" where
  "definitive_citations values = sort (map snd (filter (\<lambda>(state, _). state \<noteq> UNVERIFIED) values))"

text \<open>What a cited item says of an effect: the dictionary of its assertions.\<close>

definition cited_state :: "investigation_report \<Rightarrow> string \<Rightarrow> string \<Rightarrow> effect_assertion_state option" where
  "cited_state r effect i =
     map_of (map (\<lambda>a. (ea_effect_id a, ea_state a)) (ev_effect_assertions (the (evidence_of r i)))) effect"

definition finding_checks ::
  "investigation_report \<Rightarrow> deterministic_proof \<Rightarrow> effect_finding \<Rightarrow> (bool \<times> string) list" where
  "finding_checks r p f =
     (let values = assertion_values r (dp_admitted_evidence_ids p) (ff_effect_id f);
          cited = map (\<lambda>i. the (cited_state r (ff_effect_id f) i)) (ff_evidence_ids f) in
     [(\<not> set (ff_evidence_ids f) \<subseteq> set (dp_admitted_evidence_ids p),
         ''effect finding references evidence not admitted''),
      (ff_state f \<noteq> UNVERIFIED \<and> ff_evidence_ids f = [], ''definitive effect findings require evidence''),
      (ff_state f \<noteq> aggregate_state (map fst values),
         ''effect finding does not match aggregate admitted evidence''),
      (ff_evidence_ids f \<noteq> definitive_citations values, ''effect finding must cite every definitive assertion''),
      (list_ex (\<lambda>i. cited_state r (ff_effect_id f) i = None) (ff_evidence_ids f),
         ''effect finding is not supported by its cited evidence''),
      (ff_state f = UNVERIFIED \<and> ff_evidence_ids f \<noteq> [] \<and>
       (\<not> dp_conflicting_authority p \<or> \<not> contradictory cited),
         ''unverified finding citations require conflicting authority''),
      (\<not> (ff_state f = UNVERIFIED \<and> ff_evidence_ids f \<noteq> []) \<and> list_ex (\<lambda>s. s \<noteq> ff_state f) cited,
         ''effect finding is not supported by its cited evidence'')])"

definition status_conflict :: "operation_status list \<Rightarrow> effect_finding list \<Rightarrow> bool" where
  "status_conflict statuses findings \<longleftrightarrow>
     (let not_committed = TERMINAL_NOT_COMMITTED \<in> set statuses;
          committed = TERMINAL_COMMITTED \<in> set statuses;
          active = (ACTIVE \<in> set statuses \<or> UNRESOLVED \<in> set statuses) in
      committed \<and> not_committed \<or> not_committed \<and> active \<or>
      not_committed \<and> list_ex (\<lambda>f. ff_state f = ESTABLISHED) findings \<or>
      committed \<and> active \<and> \<not> list_all (\<lambda>f. ff_state f = ESTABLISHED) findings)"

definition aggregate_conflict :: "investigation_report \<Rightarrow> deterministic_proof \<Rightarrow> bool" where
  "aggregate_conflict r p \<longleftrightarrow>
     list_ex (\<lambda>f. contradictory (map fst (assertion_values r (dp_admitted_evidence_ids p) (ff_effect_id f))))
       (dp_effect_findings p) \<or>
     status_conflict (status_values r (dp_admitted_evidence_ids p)) (dp_effect_findings p)"

definition expected_status :: "operation_status list \<Rightarrow> bool \<Rightarrow> operation_status option" where
  "expected_status statuses conflict =
     (if conflict then None
      else if TERMINAL_COMMITTED \<in> set statuses then Some TERMINAL_COMMITTED
      else if UNRESOLVED \<in> set statuses then Some UNRESOLVED
      else if ACTIVE \<in> set statuses then Some ACTIVE
      else if TERMINAL_NOT_COMMITTED \<in> set statuses then Some TERMINAL_NOT_COMMITTED
      else None)"

definition proof_checks :: "investigation_report \<Rightarrow> deterministic_proof \<Rightarrow> (bool \<times> string) list" where
  "proof_checks r p =
     (let ids = dp_admitted_evidence_ids p in
     [(set ids \<noteq> set (decided r ADMITTED), ''proof must include every admitted evidence item''),
      (list_ex (\<lambda>i. list_ex (\<lambda>a. ea_effect_id a \<notin> set (map ff_effect_id (dp_effect_findings p)))
         (ev_effect_assertions (the (evidence_of r i)))) ids,
         ''admitted assertion is absent from deterministic proof'')] @
     concat (map (finding_checks r p) (dp_effect_findings p)) @
     [(aggregate_conflict r p \<noteq> dp_conflicting_authority p,
         ''conflict flag does not match aggregate admitted evidence''),
      (dp_operation_status p \<noteq> expected_status (status_values r ids) (aggregate_conflict r p),
         ''operation status does not match aggregate admitted evidence'')])"

section \<open>The classification of a report\<close>

definition effects_in :: "effect_assertion_state \<Rightarrow> deterministic_proof \<Rightarrow> string list" where
  "effects_in state p = map ff_effect_id (filter (\<lambda>f. ff_state f = state) (dp_effect_findings p))"

definition proof_scopes :: "deterministic_proof \<Rightarrow> string list" where
  "proof_scopes p = remdups (map ff_commit_scope (dp_effect_findings p))"

definition scope_effects :: "deterministic_proof \<Rightarrow> string \<Rightarrow> string list" where
  "scope_effects p scope = map ff_effect_id (filter (\<lambda>f. ff_commit_scope f = scope) (dp_effect_findings p))"

text \<open>The scopes of which every effect has the state.\<close>

definition full_scopes :: "effect_assertion_state \<Rightarrow> deterministic_proof \<Rightarrow> string list" where
  "full_scopes state p = filter (\<lambda>s. set (scope_effects p s) \<subseteq> set (effects_in state p)) (proof_scopes p)"

definition partial_proof :: "deterministic_proof \<Rightarrow> bool" where
  "partial_proof p \<longleftrightarrow>
     2 \<le> length (proof_scopes p) \<and> 0 < length (full_scopes ESTABLISHED p) \<and>
     length (full_scopes ESTABLISHED p) < length (proof_scopes p) \<and>
     set (full_scopes ESTABLISHED p) \<union> set (full_scopes NOT_ESTABLISHED p) = set (proof_scopes p)"

definition expected_classification :: "deterministic_proof \<Rightarrow> classification" where
  "expected_classification p =
     (if dp_conflicting_authority p then UNKNOWN
      else if length (effects_in ESTABLISHED p) = length (dp_effect_findings p) then COMMITTED
      else if dp_operation_status p = Some ACTIVE then PENDING
      else if partial_proof p then PARTIAL
      else if dp_operation_status p = Some UNRESOLVED then PENDING
      else if dp_operation_status p = Some TERMINAL_NOT_COMMITTED \<and> effects_in ESTABLISHED p = [] then NOT_COMMITTED
      else UNKNOWN)"

definition gate_checks :: "investigation_report \<Rightarrow> (bool \<times> string) list" where
  "gate_checks r =
     (let actions = map ag_requested_action (ir_action_gate r) in
     [(\<not> option_ok (\<lambda>a. set (ad_cited_evidence_ids a) \<subseteq> set (decided r ADMITTED) \<union> set (decided r WEAK_EVIDENCE))
         (ir_advisory_explanation r), ''advisory explanation must cite admitted or weak evidence''),
      (\<not> distinct actions, ''action gate requests must be unique''),
      (actions \<noteq> [] \<and> actions \<noteq> requested_actions, ''action gates must cover every v1 requested action''),
      (\<not> option_ok (\<lambda>c. list_all (\<lambda>g. ag_classification g = c) (ir_action_gate r)) (ir_classification r),
         ''action gate classification must match the report''),
      (case ir_action_gate r of [] \<Rightarrow> False
       | first # rest \<Rightarrow> list_ex (\<lambda>g. ag_classification_policy_version g \<noteq> ag_classification_policy_version first \<or>
           ag_action_policy_version g \<noteq> ag_action_policy_version first) rest,
         ''action gates must use one policy version pair'')])"

text \<open>What each classification demands of the proof.\<close>

definition split_scope :: "deterministic_proof \<Rightarrow> bool" where
  "split_scope p \<longleftrightarrow>
     list_ex (\<lambda>f. list_ex (\<lambda>g. ff_commit_scope f = ff_commit_scope g \<and>
       (ff_state f = ESTABLISHED) \<noteq> (ff_state g = ESTABLISHED)) (dp_effect_findings p)) (dp_effect_findings p)"

definition state_checks :: "classification \<Rightarrow> deterministic_proof \<Rightarrow> (bool \<times> string) list" where
  "state_checks c p =
     (let states = map ff_state (dp_effect_findings p); established = effects_in ESTABLISHED p in
     [(dp_conflicting_authority p \<and> c \<noteq> UNKNOWN, ''conflicting authority requires UNKNOWN''),
      (c = COMMITTED \<and> (dp_conflicting_authority p \<or> list_ex (\<lambda>s. s \<noteq> ESTABLISHED) states),
         ''COMMITTED requires every effect to be established''),
      (c = NOT_COMMITTED \<and> (dp_conflicting_authority p \<or> dp_operation_status p \<noteq> Some TERMINAL_NOT_COMMITTED \<or>
         established \<noteq> []), ''NOT_COMMITTED requires affirmative terminal non-execution''),
      (c = PARTIAL \<and> (dp_conflicting_authority p \<or> established = [] \<or> length established = length states \<or>
         UNVERIFIED \<in> set states \<or> dp_operation_status p = Some ACTIVE),
         ''PARTIAL requires a terminal strict subset of effects''),
      (c = PARTIAL \<and> split_scope p, ''PARTIAL cannot split effects in one atomic commit scope''),
      (c = PENDING \<and> (dp_conflicting_authority p \<or> dp_operation_status p \<notin> {Some ACTIVE, Some UNRESOLVED} \<or>
         length established = length states), ''PENDING requires an unresolved operation without complete proof''),
      (c \<noteq> expected_classification p, ''classification does not match deterministic proof precedence'')])"

definition unresolved_ids :: "deterministic_proof \<Rightarrow> string list" where
  "unresolved_ids p = map ff_effect_id (filter (\<lambda>f. ff_state f \<noteq> ESTABLISHED) (dp_effect_findings p))"

definition open_reasons :: "evidence_decision list \<Rightarrow> string list" where
  "open_reasons ds = sort (map (\<lambda>d. evidence_reason_text (ed_reason d)) (filter (\<lambda>d. ed_disposition d \<noteq> ADMITTED) ds))"

definition expected_missing_reason ::
  "classification \<Rightarrow> deterministic_proof \<Rightarrow> evidence_decision list \<Rightarrow> string option" where
  "expected_missing_reason c p ds =
     (if dp_conflicting_authority p then Some (evidence_reason_text CONFLICTING_AUTHORITY)
      else if c = UNKNOWN then
        Some (case open_reasons ds of [] \<Rightarrow> ''authoritative-effect-proof-required'' | reason # _ \<Rightarrow> reason)
      else if c = PARTIAL then Some ''authoritative-effect-proof-required''
      else if c = PENDING then Some ''authoritative-terminal-proof-required''
      else None)"

definition missing_checks ::
  "investigation_report \<Rightarrow> classification \<Rightarrow> deterministic_proof \<Rightarrow> (bool \<times> string) list" where
  "missing_checks r c p =
     (let definitive = (c \<in> {COMMITTED, NOT_COMMITTED});
          missing = hd (ir_missing_evidence r);
          expected = expected_missing_reason c p (ir_evidence_decisions r) in
     [(definitive \<and> ir_missing_evidence r \<noteq> [], ''definitive classifications cannot list missing evidence''),
      (\<not> definitive \<and> length (ir_missing_evidence r) \<noteq> 1, ''non-definitive classifications require missing evidence''),
      (\<not> definitive \<and> ue_effect_ids missing \<noteq> unresolved_ids p, ''missing evidence must list every unresolved effect''),
      (\<not> definitive \<and> expected \<noteq> None \<and> Some (ue_reason missing) \<noteq> expected,
         ''missing evidence reason does not match classification'')])"

definition classification_checks :: "investigation_report \<Rightarrow> (bool \<times> string) list" where
  "classification_checks r =
     (case (ir_classification r, ir_proof r) of
        (Some c, Some p) \<Rightarrow> state_checks c p @ missing_checks r c p
      | _ \<Rightarrow> [])"

definition reference_checks :: "env \<Rightarrow> investigation_report \<Rightarrow> (bool \<times> string) list" where
  "reference_checks E r =
     identity_checks r @ admission_checks E r @
     (case ir_proof r of None \<Rightarrow> [] | Some p \<Rightarrow> proof_checks r p) @
     gate_checks r @ classification_checks r"

definition validate_investigation_report :: "env \<Rightarrow> investigation_report \<Rightarrow> investigation_report result" where
  "validate_investigation_report E r =
     checked ((\<not> investigation_report_fields_ok E r, field_message) # reference_checks E r) r"

definition investigation_report_json :: "investigation_report \<Rightarrow> json" where
  "investigation_report_json r = JObj
     [(''schema_version'', JStr ''reconcile/investigation-report/v1''),
      (''investigation_id'', JStr (ir_investigation_id r)),
      (''envelope_sha256'', JStr (ir_envelope_sha256 r)),
      (''status'', JStr (investigation_status_text (ir_status r))),
      (''probe_audit'', JArr (map probe_audit_json (ir_probe_audit r))),
      (''evidence'', JArr (map normalized_evidence_json (ir_evidence r))),
      (''evidence_decisions'', JArr (map evidence_decision_json (ir_evidence_decisions r))),
      (''proof'', option_json deterministic_proof_json (ir_proof r)),
      (''classification'', option_json (\<lambda>c. JStr (classification_text c)) (ir_classification r)),
      (''action_gate'', JArr (map action_gate_json (ir_action_gate r))),
      (''missing_evidence'', JArr (map unresolved_effects_json (ir_missing_evidence r))),
      (''limitations'', strings_json (ir_limitations r)),
      (''advisory_explanation'', option_json advisory_json (ir_advisory_explanation r)),
      (''created_at'', time_json (ir_created_at r)),
      (''updated_at'', time_json (ir_updated_at r)),
      (''revision'', JInt (ir_revision r))]"

end
