(* ===== verification/Probes.thy ===== *)
theory Probes
  imports Report_Contracts
begin

text \<open>
  What a probe is: the bound probe and the observation of \<open>controller/capabilities.py\<close>, and the
  audit record, the execution and the request digest of \<open>controller/executor.py\<close>.
\<close>

section \<open>Bound probes and observations\<close>

record bound_probe =
  bp_investigation_id :: string
  bp_operation_id :: string
  bp_capability_name :: string
  bp_capability_version :: string
  bp_target :: target_binding
  bp_relevant_effect_ids :: "string list"
  bp_arguments :: json_object
  bp_timeout_ms :: int
  bp_result_byte_ceiling :: int

definition bound_probe_fields_ok :: "env \<Rightarrow> bound_probe \<Rightarrow> bool" where
  "bound_probe_fields_ok E p \<longleftrightarrow>
     list_all (identifier_ok E)
       [bp_investigation_id p, bp_operation_id p, bp_capability_name p, bp_capability_version p] \<and>
     accepted (validate_target_binding E) (bp_target p) \<and>
     length_ok 1 64 (bp_relevant_effect_ids p) \<and> list_all (identifier_ok E) (bp_relevant_effect_ids p) \<and>
     json_object_ok E 0 64 (bp_arguments p) \<and> int_ok 1 (bp_timeout_ms p) \<and> int_ok 1 (bp_result_byte_ceiling p)"

definition validate_bound_probe :: "env \<Rightarrow> bound_probe \<Rightarrow> bound_probe result" where
  "validate_bound_probe E p = checked
     [(\<not> bound_probe_fields_ok E p, field_message),
      (\<not> distinct (bp_relevant_effect_ids p), ''relevant effect identifiers must be unique''),
      (\<not> free_of_sensitive_keys E (JObj (bp_arguments p)), secret_keys_message),
      (\<not> free_of_sensitive_values E (JObj (bp_arguments p)), secret_values_message)] p"

record probe_observation =
  po_observed_at :: time
  po_payload :: json_object

definition validate_probe_observation :: "env \<Rightarrow> probe_observation \<Rightarrow> probe_observation result" where
  "validate_probe_observation E p = checked
     [(\<not> (time_ok (po_observed_at p) \<and> json_object_ok E 0 128 (po_payload p)), field_message),
      (\<not> free_of_sensitive_keys E (JObj (po_payload p)), secret_keys_message),
      (\<not> free_of_sensitive_values E (JObj (po_payload p)), secret_values_message)] p"

definition probe_observation_json :: "probe_observation \<Rightarrow> json" where
  "probe_observation_json p = JObj
     [(''observed_at'', time_json (po_observed_at p)), (''payload'', JObj (po_payload p))]"

definition observation_bytes :: "probe_observation \<Rightarrow> string" where
  "observation_bytes p = json_bytes (probe_observation_json p)"

section \<open>Controller audits\<close>

datatype stop_reason =
    SR_PROBE_COMPLETED | SR_INVALID_REQUEST | SR_UNKNOWN_CAPABILITY | SR_CAPABILITY_DISABLED
  | SR_CAPABILITY_NOT_ENABLED | SR_CAPABILITY_MUTATING | SR_CAPABILITY_SEMANTICS_AMBIGUOUS
  | SR_TARGET_KIND_MISMATCH | SR_TARGET_SCOPE_MISMATCH | SR_INVALID_EFFECT_REFERENCE
  | SR_INVALID_ARGUMENTS | SR_ARGUMENTS_TOO_LARGE | SR_TARGET_PARAMETER_INJECTION
  | SR_CORRELATION_MISMATCH | SR_PROBE_COUNT_EXHAUSTED | SR_CAPABILITY_PROBE_LIMIT_EXHAUSTED
  | SR_COST_BUDGET_EXHAUSTED | SR_ELAPSED_BUDGET_EXHAUSTED | SR_TOTAL_RESULT_BYTES_EXHAUSTED
  | SR_RESULT_TOO_LARGE | SR_PROBE_TIMEOUT | SR_PROBE_CANCELLED | SR_CAPABILITY_UNAVAILABLE
  | SR_MALFORMED_OBSERVATION

fun stop_reason_text :: "stop_reason \<Rightarrow> string" where
  "stop_reason_text SR_PROBE_COMPLETED = ''probe_completed''"
| "stop_reason_text SR_INVALID_REQUEST = ''invalid_request''"
| "stop_reason_text SR_UNKNOWN_CAPABILITY = ''unknown_capability''"
| "stop_reason_text SR_CAPABILITY_DISABLED = ''capability_disabled''"
| "stop_reason_text SR_CAPABILITY_NOT_ENABLED = ''capability_not_enabled''"
| "stop_reason_text SR_CAPABILITY_MUTATING = ''capability_mutating''"
| "stop_reason_text SR_CAPABILITY_SEMANTICS_AMBIGUOUS = ''capability_semantics_ambiguous''"
| "stop_reason_text SR_TARGET_KIND_MISMATCH = ''target_kind_mismatch''"
| "stop_reason_text SR_TARGET_SCOPE_MISMATCH = ''target_scope_mismatch''"
| "stop_reason_text SR_INVALID_EFFECT_REFERENCE = ''invalid_effect_reference''"
| "stop_reason_text SR_INVALID_ARGUMENTS = ''invalid_arguments''"
| "stop_reason_text SR_ARGUMENTS_TOO_LARGE = ''arguments_too_large''"
| "stop_reason_text SR_TARGET_PARAMETER_INJECTION = ''target_parameter_injection''"
| "stop_reason_text SR_CORRELATION_MISMATCH = ''correlation_mismatch''"
| "stop_reason_text SR_PROBE_COUNT_EXHAUSTED = ''probe_count_exhausted''"
| "stop_reason_text SR_CAPABILITY_PROBE_LIMIT_EXHAUSTED = ''capability_probe_limit_exhausted''"
| "stop_reason_text SR_COST_BUDGET_EXHAUSTED = ''cost_budget_exhausted''"
| "stop_reason_text SR_ELAPSED_BUDGET_EXHAUSTED = ''elapsed_budget_exhausted''"
| "stop_reason_text SR_TOTAL_RESULT_BYTES_EXHAUSTED = ''total_result_bytes_exhausted''"
| "stop_reason_text SR_RESULT_TOO_LARGE = ''result_too_large''"
| "stop_reason_text SR_PROBE_TIMEOUT = ''probe_timeout''"
| "stop_reason_text SR_PROBE_CANCELLED = ''probe_cancelled''"
| "stop_reason_text SR_CAPABILITY_UNAVAILABLE = ''capability_unavailable''"
| "stop_reason_text SR_MALFORMED_OBSERVATION = ''malformed_observation''"

definition terminal_reasons :: "stop_reason list" where
  "terminal_reasons =
     [SR_PROBE_CANCELLED, SR_PROBE_COUNT_EXHAUSTED, SR_ELAPSED_BUDGET_EXHAUSTED,
      SR_TOTAL_RESULT_BYTES_EXHAUSTED, SR_PROBE_TIMEOUT]"

record controller_audit =
  ca_sequence :: int
  ca_capability_name :: "string option"
  ca_capability_version :: "string option"
  ca_request_sha256 :: "string option"
  ca_target_sha256 :: string
  ca_outcome :: probe_outcome
  ca_stop_reason :: stop_reason
  ca_started_at :: time
  ca_completed_at :: time
  ca_session_elapsed_ms :: int
  ca_probe_count_used :: int
  ca_cost_units_used :: int
  ca_result_bytes_acquired :: int
  ca_result_sha256 :: "string option"
  ca_result_byte_count :: "int option"

definition controller_audit_fields_ok :: "env \<Rightarrow> controller_audit \<Rightarrow> bool" where
  "controller_audit_fields_ok E a \<longleftrightarrow>
     int_ok 1 (ca_sequence a) \<and> option_ok (identifier_ok E) (ca_capability_name a) \<and>
     option_ok (identifier_ok E) (ca_capability_version a) \<and> option_ok sha256_digest_ok (ca_request_sha256 a) \<and>
     sha256_digest_ok (ca_target_sha256 a) \<and> time_ok (ca_started_at a) \<and> time_ok (ca_completed_at a) \<and>
     int_ok 0 (ca_session_elapsed_ms a) \<and> int_ok 0 (ca_probe_count_used a) \<and> int_ok 0 (ca_cost_units_used a) \<and>
     int_ok 0 (ca_result_bytes_acquired a) \<and> option_ok sha256_digest_ok (ca_result_sha256 a) \<and>
     option_ok (int_ok 0) (ca_result_byte_count a)"

definition validate_controller_audit :: "env \<Rightarrow> controller_audit \<Rightarrow> controller_audit result" where
  "validate_controller_audit E a = checked
     [(\<not> controller_audit_fields_ok E a, field_message),
      (ca_completed_at a < ca_started_at a, ''audit completion cannot precede its start''),
      (ca_outcome a = PO_COMPLETED \<and>
       (ca_capability_name a = None \<or> ca_capability_version a = None \<or> ca_request_sha256 a = None \<or>
        ca_result_sha256 a = None \<or> ca_result_byte_count a = None),
         ''completed probes require request, capability, and result identity''),
      (ca_outcome a \<noteq> PO_COMPLETED \<and> ca_result_sha256 a \<noteq> None,
         ''rejected probe output cannot become an evidence digest'')] a"

definition controller_audit_json :: "controller_audit \<Rightarrow> json" where
  "controller_audit_json a = JObj
     [(''sequence'', JInt (ca_sequence a)),
      (''capability_name'', option_json JStr (ca_capability_name a)),
      (''capability_version'', option_json JStr (ca_capability_version a)),
      (''request_sha256'', option_json JStr (ca_request_sha256 a)),
      (''target_sha256'', JStr (ca_target_sha256 a)),
      (''outcome'', JStr (probe_outcome_text (ca_outcome a))),
      (''stop_reason'', JStr (stop_reason_text (ca_stop_reason a))),
      (''started_at'', time_json (ca_started_at a)),
      (''completed_at'', time_json (ca_completed_at a)),
      (''session_elapsed_ms'', JInt (ca_session_elapsed_ms a)),
      (''probe_count_used'', JInt (ca_probe_count_used a)),
      (''cost_units_used'', JInt (ca_cost_units_used a)),
      (''result_bytes_acquired'', JInt (ca_result_bytes_acquired a)),
      (''result_sha256'', option_json JStr (ca_result_sha256 a)),
      (''result_byte_count'', option_json JInt (ca_result_byte_count a))]"

definition controller_audit_sha256 :: "env \<Rightarrow> controller_audit \<Rightarrow> string" where
  "controller_audit_sha256 E a = canonical_sha256 E (controller_audit_json a)"

section \<open>Executions\<close>

record validated_observation =
  vo_canonical_json :: string
  vo_sha256 :: string
  vo_byte_count :: int

text \<open>The session token is an identity: executions of one controller carry one token.\<close>

record probe_execution =
  pe_envelope_sha256 :: string
  pe_audit :: controller_audit
  pe_observation :: "validated_observation option"
  pe_session :: nat

definition build_probe_execution ::
  "string \<Rightarrow> controller_audit \<Rightarrow> validated_observation option \<Rightarrow> nat \<Rightarrow> probe_execution result" where
  "build_probe_execution envelope_sha256 audit observation session =
     (if (ca_outcome audit = PO_COMPLETED) \<noteq> (observation \<noteq> None) then
        Inl (ValueError ''only completed probes may return an observation'')
      else Inr \<lparr>pe_envelope_sha256 = envelope_sha256, pe_audit = audit, pe_observation = observation,
        pe_session = session\<rparr>)"

text \<open>The digest of the executable identity of a request, without its rationale.\<close>

definition probe_request_sha256 :: "env \<Rightarrow> probe_request \<Rightarrow> string result" where
  "probe_request_sha256 E r =
     value_sha256 E (JObj
       [(''arguments'', JObj (pq_arguments r)),
        (''capability_name'', JStr (pq_capability_name r)),
        (''capability_version'', JStr (pq_capability_version r)),
        (''relevant_effect_ids'', strings_json (sort (pq_relevant_effect_ids r)))])"

end
