(* ===== verification/Registry.thy ===== *)
theory Registry
  imports Prelude
begin

text \<open>
  The contract of the registries of the program: entries are registered once per key until the
  registry is frozen, and a frozen registry answers every later question in the same way. The
  target rules (\<open>evidence/rules.py\<close>) and the capabilities (\<open>controller/capabilities.py\<close>) are kept
  so.
\<close>

fun register_all :: "('r \<Rightarrow> 'g \<Rightarrow> 'g result) \<Rightarrow> 'r list \<Rightarrow> 'g \<Rightarrow> 'g result" where
  "register_all register [] g = Inr g"
| "register_all register (r # rs) g = bind_result (register r g) (register_all register rs)"

locale frozen_registry =
  fixes register :: "'r \<Rightarrow> 'g \<Rightarrow> 'g result"
    and frozen :: "'g \<Rightarrow> bool"
    and freeze :: "'g \<Rightarrow> 'g"
    and lookup :: "'k \<Rightarrow> 'g \<Rightarrow> 'r option"
    and key :: "'r \<Rightarrow> 'k"
    and stored :: "'r \<Rightarrow> 'r"
    and good :: "'g \<Rightarrow> bool"
  assumes register_iff: "good g \<Longrightarrow> (\<exists>g'. register r g = Inr g') \<longleftrightarrow> \<not> frozen g \<and> lookup (key r) g = None"
    and register_law: "good g \<Longrightarrow> register r g = Inr g' \<Longrightarrow>
      good g' \<and> \<not> frozen g' \<and> lookup k g' = (if k = key r then Some (stored r) else lookup k g)"
    and freeze_law: "good g \<Longrightarrow> good (freeze g) \<and> frozen (freeze g) \<and> lookup k (freeze g) = lookup k g"
begin

lemma register_all_law:
  assumes "good g" "register_all register rs g = Inr g'"
  shows "good g' \<and> distinct (map key rs) \<and> (\<forall>r \<in> set rs. lookup (key r) g = None) \<and>
    lookup k g' = (case map_of (map (\<lambda>r. (key r, r)) rs) k of Some r \<Rightarrow> Some (stored r) | None \<Rightarrow> lookup k g)"
  using assms
proof (induction rs arbitrary: g)
  case (Cons r rs)
  then obtain h where h: "register r g = Inr h" "register_all register rs h = Inr g'" by auto
  note law = register_law [OF Cons.prems(1) h(1)]
  have fresh: "lookup (key r) g = None" using register_iff [OF Cons.prems(1), of r] h(1) by blast
  have "key r \<notin> key ` set rs"
    using Cons.IH [OF _ h(2)] law by fastforce
  then have "map_of (map (\<lambda>r. (key r, r)) rs) (key r) = None" by (simp add: map_of_eq_None_iff image_image)
  then show ?case
    using Cons.IH [OF _ h(2)] law law [where k = k] fresh \<open>key r \<notin> key ` set rs\<close>
    by (auto split: if_splits option.splits)
qed simp

lemma register_all_iff:
  assumes "good g" "\<not> frozen g"
  shows "(\<exists>g'. register_all register rs g = Inr g') \<longleftrightarrow>
    distinct (map key rs) \<and> (\<forall>r \<in> set rs. lookup (key r) g = None)"
  using assms
proof (induction rs arbitrary: g)
  case (Cons r rs)
  show ?case
  proof (cases "\<exists>h. register r g = Inr h")
    case True
    then obtain h where h: "register r g = Inr h" by blast
    then show ?thesis
      using Cons.IH [of h] register_law [OF Cons.prems(1) h] register_iff [OF Cons.prems(1), of r]
      by (auto simp: image_iff split: if_splits)
  next
    case False
    then show ?thesis using register_iff [OF Cons.prems(1), of r] Cons.prems(2) by (auto simp: bind_result_def split: sum.splits)
  qed
qed simp

text \<open>After the freeze nothing is added, and the answers are those of the registrations.\<close>

lemma frozen_answers:
  assumes "good g" "\<And>k. lookup k g = None" "register_all register rs g = Inr g'"
  shows "lookup k (freeze g') = map_option stored (map_of (map (\<lambda>r. (key r, r)) rs) k)"
    "\<not> (\<exists>h. register r (freeze g') = Inr h)"
  using register_all_law [OF assms(1,3)] freeze_law register_iff [of "freeze g'"] assms(2)
  by (auto split: option.splits)

end

end
