(* ===== verification/Rules.thy ===== *)
theory Rules
  imports Probes Registry "HOL-Library.Product_Lexorder"
begin

text \<open>
  Target rules (\<open>evidence/rules.py\<close>): what a rule sees and says of an observation, and the registry
  that holds the rules. A rule is an adapter of a target system; here it is a function that returns
  an observation, rejects with a reason, or raises.
\<close>

section \<open>Rule contracts\<close>

datatype rule_verdict =
    AUTHORITATIVE_EFFECTS | AUTHORITATIVE_NON_EXECUTION | AUTHORITATIVE_PENDING
  | SUPPLEMENTARY_VERDICT | ABSENCE_ONLY

record rule_descriptor =
  rd_target_kind :: string
  rd_capability_name :: string
  rd_capability_version :: string
  rd_authority_policy_version :: string
  rd_classification_policy_version :: string
  rd_source :: string
  rd_adapter_version :: string

definition rule_descriptor_ok :: "env \<Rightarrow> rule_descriptor \<Rightarrow> bool" where
  "rule_descriptor_ok E d \<longleftrightarrow>
     list_all (identifier_ok E)
       [rd_target_kind d, rd_capability_name d, rd_capability_version d, rd_authority_policy_version d,
        rd_classification_policy_version d, rd_source d, rd_adapter_version d]"

type_synonym rule_identity = "string \<times> string \<times> string \<times> string \<times> string"

definition rule_key :: "rule_descriptor \<Rightarrow> rule_identity" where
  "rule_key d =
     (rd_target_kind d, rd_capability_name d, rd_capability_version d, rd_authority_policy_version d,
      rd_classification_policy_version d)"

record rule_observation =
  ru_target :: target_binding
  ru_source_record :: string
  ru_observed_at :: time
  ru_operation_id :: "string option"
  ru_correlation :: correlation
  ru_effect_assertions :: "effect_assertion list"
  ru_operation_status :: "operation_status option"
  ru_verdict :: rule_verdict

definition rule_observation_fields_ok :: "env \<Rightarrow> rule_observation \<Rightarrow> bool" where
  "rule_observation_fields_ok E o' \<longleftrightarrow>
     accepted (validate_target_binding E) (ru_target o') \<and> non_empty_text_ok E (ru_source_record o') \<and>
     time_ok (ru_observed_at o') \<and> option_ok (identifier_ok E) (ru_operation_id o') \<and>
     correlation_ok E (ru_correlation o') \<and> length_ok 0 64 (ru_effect_assertions o') \<and>
     list_all (\<lambda>a. identifier_ok E (ea_effect_id a)) (ru_effect_assertions o')"

text \<open>The verdict fits the states that are asserted and the status of the operation.\<close>

definition verdict_checks :: "rule_observation \<Rightarrow> (bool \<times> string) list" where
  "verdict_checks o' =
     (let states = map ea_state (ru_effect_assertions o'); status = ru_operation_status o' in
      case ru_verdict o' of
        AUTHORITATIVE_EFFECTS \<Rightarrow>
          [((ESTABLISHED \<notin> set states \<and> NOT_ESTABLISHED \<notin> set states) \<or>
              status \<notin> {None, Some TERMINAL_COMMITTED},
            ''authoritative effect verdict is inconsistent'')]
      | AUTHORITATIVE_NON_EXECUTION \<Rightarrow>
          [(status \<noteq> Some TERMINAL_NOT_COMMITTED \<or> ESTABLISHED \<in> set states,
            ''non-execution verdict requires terminal authority'')]
      | AUTHORITATIVE_PENDING \<Rightarrow>
          [(status \<notin> {Some ACTIVE, Some UNRESOLVED} \<or> NOT_ESTABLISHED \<in> set states,
            ''pending verdict requires an active target status'')]
      | _ \<Rightarrow>
          [(status \<noteq> None \<or> list_ex (\<lambda>s. s \<noteq> UNVERIFIED) states,
            ''weak rule verdict cannot assert target state'')])"

definition validate_rule_observation :: "env \<Rightarrow> rule_observation \<Rightarrow> rule_observation result" where
  "validate_rule_observation E o' = checked
     ([(\<not> rule_observation_fields_ok E o', field_message),
       (\<not> correlation_keys_free E (ru_correlation o'), secret_keys_message),
       (\<not> correlation_values_free E (ru_correlation o'), secret_values_message),
       (\<not> free_of_sensitive_values E (JStr (ru_source_record o')), secret_values_message),
       (\<not> distinct (map ea_effect_id (ru_effect_assertions o')), ''rule effect assertions must be unique'')] @
      verdict_checks o') o'"

record rule_request =
  rq_capability_name :: string
  rq_capability_version :: string
  rq_relevant_effect_ids :: "string list"
  rq_arguments :: json_object

definition validate_rule_request :: "env \<Rightarrow> rule_request \<Rightarrow> rule_request result" where
  "validate_rule_request E r = checked
     [(\<not> (identifier_ok E (rq_capability_name r) \<and> identifier_ok E (rq_capability_version r) \<and>
          length_ok 1 64 (rq_relevant_effect_ids r) \<and> list_all (identifier_ok E) (rq_relevant_effect_ids r) \<and>
          json_object_ok E 0 64 (rq_arguments r)), field_message),
      (\<not> distinct (rq_relevant_effect_ids r), ''relevant effect identifiers must be unique''),
      (\<not> free_of_sensitive_keys E (JObj (rq_arguments r)), secret_keys_message),
      (\<not> free_of_sensitive_values E (JObj (rq_arguments r)), secret_values_message)] r"

record rule_input =
  rl_envelope :: execution_envelope
  rl_request :: rule_request
  rl_observation :: string
  rl_retrieved_at :: time

definition build_rule_input ::
  "env \<Rightarrow> execution_envelope \<Rightarrow> probe_request \<Rightarrow> string \<Rightarrow> time \<Rightarrow> rule_input result" where
  "build_rule_input E envelope request observation retrieved_at =
     bind_result (validate_rule_request E
       \<lparr>rq_capability_name = pq_capability_name request, rq_capability_version = pq_capability_version request,
        rq_relevant_effect_ids = pq_relevant_effect_ids request, rq_arguments = pq_arguments request\<rparr>)
     (\<lambda>deterministic_request. Inr
       \<lparr>rl_envelope = envelope, rl_request = deterministic_request, rl_observation = observation,
        rl_retrieved_at = retrieved_at\<rparr>)"

text \<open>
  What calling a normalizer does: it returns, it raises \<open>RuleRejected(reason)\<close>, or it raises
  another exception (returning an awaitable counts as such). The constructor of \<open>RuleRejected\<close>
  refuses a reason that is not permitted.
\<close>

datatype rule_outcome = Rule_Returns rule_observation | Rule_Rejects evidence_reason | Rule_Raises

definition permitted_rejections :: "evidence_reason list" where
  "permitted_rejections =
     [DUPLICATE_CANDIDATES, EXPECTED_EFFECT_MISMATCH, MALFORMED_OBSERVATION, UNVERIFIABLE_AUTHORITY]"

definition rule_rejected :: "evidence_reason \<Rightarrow> evidence_reason result" where
  "rule_rejected reason =
     (if reason \<in> set permitted_rejections then Inr reason
      else Inl (ValueError ''rule rejection reason is not permitted''))"

record rule_registration =
  rr_descriptor :: rule_descriptor
  rr_normalizer :: "rule_input \<Rightarrow> rule_outcome"

section \<open>The registry\<close>

text \<open>
  Registrations accumulate until the registry is frozen, by \<open>freeze\<close> or by the first \<open>resolve\<close>;
  from then on the snapshot answers. The lock makes every operation one step.
\<close>

record rule_registry =
  rg_registrations :: "(rule_identity \<times> rule_registration) list"
  rg_snapshot :: "(rule_identity \<times> rule_registration) list option"

definition new_rule_registry :: rule_registry where
  "new_rule_registry = \<lparr>rg_registrations = [], rg_snapshot = None\<rparr>"

definition rules_frozen :: "rule_registry \<Rightarrow> bool" where
  "rules_frozen g \<longleftrightarrow> rg_snapshot g \<noteq> None"

definition register_rule :: "rule_registration \<Rightarrow> rule_registry \<Rightarrow> rule_registry result" where
  "register_rule r g =
     (let key = rule_key (rr_descriptor r) in
      if rg_snapshot g \<noteq> None then Inl (RuntimeError ''target rule registry is frozen'')
      else if key \<in> fst ` set (rg_registrations g) then
        Inl (ValueError ''target rule identity is already registered'')
      else Inr (g\<lparr>rg_registrations := rg_registrations g @ [(key, r)]\<rparr>))"

definition snapshot_rules :: "rule_registry \<Rightarrow> rule_registry" where
  "snapshot_rules g =
     (case rg_snapshot g of None \<Rightarrow> g\<lparr>rg_snapshot := Some (rg_registrations g)\<rparr> | Some _ \<Rightarrow> g)"

definition freeze_rules :: "rule_registry \<Rightarrow> rule_registration list \<times> rule_registry" where
  "freeze_rules g =
     (let g = snapshot_rules g in (map snd (sort_key fst (the (rg_snapshot g))), g))"

definition resolve_rule :: "rule_identity \<Rightarrow> rule_registry \<Rightarrow> rule_registration option \<times> rule_registry" where
  "resolve_rule key g = (let g = snapshot_rules g in (map_of (the (rg_snapshot g)) key, g))"

end
