(* ===== verification/Admission.thy ===== *)
theory Admission
  imports Rules Permit_Machine
begin

text \<open>
  The admission of probe observations (\<open>evidence/admission.py\<close>): an attempt for every run of a
  probe, the checks that an observation has to pass before it counts as evidence, and what an
  admitted attempt guarantees.
\<close>

section \<open>Runs and attempts\<close>

record probe_run =
  pn_request :: probe_request
  pn_execution :: probe_execution

text \<open>Attempts are sealed: a value of this type is one that the pipeline has built.\<close>

record evidence_attempt =
  at_envelope_sha256 :: string
  at_controller_audit_sha256 :: string
  at_request_sha256 :: "string option"
  at_probe_sequence :: int
  at_raw_sha256 :: "string option"
  at_evidence :: "normalized_evidence option"
  at_decision :: evidence_decision

definition attempt_id :: "evidence_attempt \<Rightarrow> string" where
  "attempt_id a = ed_evidence_id (at_decision a)"

definition build_attempt :: "env \<Rightarrow> evidence_attempt \<Rightarrow> evidence_attempt result" where
  "build_attempt E a =
     (if at_probe_sequence a < 1 then Inl (ValueError ''evidence attempt sequence must be positive'')
      else bind_result (validate_evidence_decision E (at_decision a)) (\<lambda>_.
        case at_evidence a of
          None \<Rightarrow> Inr a
        | Some e \<Rightarrow> bind_result (validate_normalized_evidence E e) (\<lambda>_.
            if ev_evidence_id e \<noteq> attempt_id a then Inl (ValueError ''evidence attempt identifiers must agree'')
            else Inr a)))"

definition reject_duplicate :: "env \<Rightarrow> evidence_attempt \<Rightarrow> evidence_attempt result" where
  "reject_duplicate E a =
     build_attempt E (a\<lparr>at_decision :=
       \<lparr>ed_evidence_id = attempt_id a, ed_disposition = REJECTED_EVIDENCE, ed_reason = DUPLICATE_CANDIDATES\<rparr>\<rparr>)"

section \<open>The pipeline\<close>

record evidence_pipeline =
  pl_envelope :: execution_envelope
  pl_registry :: rule_registry
  pl_next_sequence :: int
  pl_controller_session :: "nat option"

definition new_pipeline :: "execution_envelope \<Rightarrow> rule_registry \<Rightarrow> evidence_pipeline" where
  "new_pipeline envelope registry =
     \<lparr>pl_envelope = envelope, pl_registry = snd (freeze_rules registry), pl_next_sequence = 1,
      pl_controller_session = None\<rparr>"

definition envelope_sha256 :: "env \<Rightarrow> execution_envelope \<Rightarrow> string" where
  "envelope_sha256 E x = canonical_sha256 E (execution_envelope_json x)"

definition target_sha256 :: "env \<Rightarrow> execution_envelope \<Rightarrow> string" where
  "target_sha256 E x = canonical_sha256 E (target_binding_json (xe_target x))"

text \<open>The material of an evidence identifier, and the identifier.\<close>

definition evidence_material ::
  "env \<Rightarrow> execution_envelope \<Rightarrow> int \<Rightarrow> string option \<Rightarrow> string option \<Rightarrow> probe_outcome \<Rightarrow> json" where
  "evidence_material E x n request_sha256 raw_sha256 outcome = JObj
     [(''investigation_id'', JStr (xe_investigation_id x)),
      (''outcome'', JStr (probe_outcome_text outcome)),
      (''probe_sequence'', JInt n),
      (''raw_sha256'', option_json JStr raw_sha256),
      (''request_sha256'', option_json JStr request_sha256),
      (''target_sha256'', JStr (target_sha256 E x))]"

definition evidence_id ::
  "env \<Rightarrow> execution_envelope \<Rightarrow> int \<Rightarrow> string option \<Rightarrow> string option \<Rightarrow> probe_outcome \<Rightarrow> string result" where
  "evidence_id E x n request_sha256 raw_sha256 outcome =
     bind_result (value_sha256 E (evidence_material E x n request_sha256 raw_sha256 outcome))
       (\<lambda>digest. Inr (''evidence:'' @ digest))"

text \<open>The attempt for an audited run with its decision.\<close>

definition attempt_for ::
  "env \<Rightarrow> execution_envelope \<Rightarrow> controller_audit \<Rightarrow> string option \<Rightarrow> normalized_evidence option \<Rightarrow>
   evidence_decision \<Rightarrow> evidence_attempt" where
  "attempt_for E x audit raw_sha256 evidence decision =
     \<lparr>at_envelope_sha256 = envelope_sha256 E x, at_controller_audit_sha256 = controller_audit_sha256 E audit,
      at_request_sha256 = ca_request_sha256 audit, at_probe_sequence = ca_sequence audit,
      at_raw_sha256 = raw_sha256, at_evidence = evidence, at_decision = decision\<rparr>"

definition decide :: "string \<Rightarrow> evidence_disposition \<Rightarrow> evidence_reason \<Rightarrow> evidence_decision" where
  "decide i disposition reason = \<lparr>ed_evidence_id = i, ed_disposition = disposition, ed_reason = reason\<rparr>"

definition rejected_attempt ::
  "env \<Rightarrow> execution_envelope \<Rightarrow> controller_audit \<Rightarrow> string option \<Rightarrow> normalized_evidence option \<Rightarrow>
   evidence_reason \<Rightarrow> evidence_attempt result" where
  "rejected_attempt E x audit raw_sha256 evidence reason =
     bind_result (evidence_id E x (ca_sequence audit) (ca_request_sha256 audit) raw_sha256 (ca_outcome audit))
     (\<lambda>i. if \<not> option_ok (\<lambda>e. ev_evidence_id e = i) evidence then
        Inl (ValueError ''normalized evidence identifier is not deterministic'')
      else build_attempt E
        (attempt_for E x audit raw_sha256 evidence (decide i REJECTED_EVIDENCE reason)))"

section \<open>The checks of a run\<close>

definition integrity_valid :: "env \<Rightarrow> execution_envelope \<Rightarrow> bool \<Rightarrow> probe_run \<Rightarrow> string \<Rightarrow> bool" where
  "integrity_valid E x same_session run expected \<longleftrightarrow>
     (let audit = pe_audit (pn_execution run); request = pn_request run in
      pe_envelope_sha256 (pn_execution run) = envelope_sha256 E x \<and> same_session \<and>
      ca_target_sha256 audit = target_sha256 E x \<and> ca_request_sha256 audit \<in> {None, Some expected} \<and>
      ca_capability_name audit \<in> {None, Some (pq_capability_name request)} \<and>
      ca_capability_version audit \<in> {None, Some (pq_capability_version request)})"

definition failed_probe_reason :: "controller_audit \<Rightarrow> evidence_reason" where
  "failed_probe_reason audit =
     (if ca_stop_reason audit = SR_RESULT_TOO_LARGE then RESULT_TOO_LARGE
      else case ca_outcome audit of
          PO_TIMED_OUT \<Rightarrow> PROBE_TIMEOUT
        | PO_MALFORMED \<Rightarrow> MALFORMED_OBSERVATION
        | PO_BUDGET_EXHAUSTED \<Rightarrow> BUDGET_EXHAUSTED
        | _ \<Rightarrow> UNVERIFIABLE_AUTHORITY)"

text \<open>
  \<open>decode\<close> is \<open>ProbeObservation.model_validate_json\<close>: the reading of bytes is pydantic's.
\<close>

definition observation_intact ::
  "env \<Rightarrow> (string \<Rightarrow> probe_observation option) \<Rightarrow> controller_audit \<Rightarrow> probe_request \<Rightarrow> string \<Rightarrow>
   validated_observation \<Rightarrow> bool" where
  "observation_intact E decode audit request expected observation \<longleftrightarrow>
     env_sha256 E (vo_canonical_json observation) = vo_sha256 observation \<and>
     vo_byte_count observation = int (length (vo_canonical_json observation)) \<and>
     (case decode (vo_canonical_json observation) of
        None \<Rightarrow> vo_canonical_json observation = []
      | Some parsed \<Rightarrow> observation_bytes parsed = vo_canonical_json observation) \<and>
     ca_result_sha256 audit = Some (vo_sha256 observation) \<and>
     ca_result_byte_count audit = Some (vo_byte_count observation) \<and>
     ca_capability_name audit = Some (pq_capability_name request) \<and>
     ca_capability_version audit = Some (pq_capability_version request) \<and>
     ca_request_sha256 audit = Some expected"

text \<open>What the rule says of the observation: a reason to reject it, or its reading.\<close>

definition rule_answer ::
  "env \<Rightarrow> rule_registration \<Rightarrow> execution_envelope \<Rightarrow> probe_request \<Rightarrow> string \<Rightarrow> time \<Rightarrow>
   evidence_reason + rule_observation" where
  "rule_answer E registration x request observation retrieved_at =
     (case build_rule_input E x request observation retrieved_at of
        Inl _ \<Rightarrow> Inl MALFORMED_OBSERVATION
      | Inr rule_input \<Rightarrow>
        (case rr_normalizer registration rule_input of
           Rule_Raises \<Rightarrow> Inl MALFORMED_OBSERVATION
         | Rule_Rejects reason \<Rightarrow>
             (case rule_rejected reason of Inl _ \<Rightarrow> Inl MALFORMED_OBSERVATION | Inr r \<Rightarrow> Inl r)
         | Rule_Returns r \<Rightarrow>
             (case validate_rule_observation E r of Inl _ \<Rightarrow> Inl MALFORMED_OBSERVATION | Inr r \<Rightarrow> Inr r)))"

definition clock_skew :: "execution_envelope \<Rightarrow> int" where
  "clock_skew x = microseconds (fp_clock_skew_seconds (ec_freshness (xe_context x)))"

definition freshness_horizon :: "execution_envelope \<Rightarrow> int" where
  "freshness_horizon x = microseconds (fp_max_age_seconds (ec_freshness (xe_context x))) + clock_skew x"

text \<open>The window of an observation: \<open>timedelta\<close> and \<open>datetime\<close> overflow where their range ends.\<close>

definition observation_window :: "execution_envelope \<Rightarrow> time \<Rightarrow> freshness_window result" where
  "observation_window x observed_at =
     bind_result (require
       (clock_skew x \<le> timedelta_max \<and>
        microseconds (fp_max_age_seconds (ec_freshness (xe_context x))) \<le> timedelta_max \<and>
        freshness_horizon x \<le> timedelta_max) (OverflowError ''timedelta'')) (\<lambda>_.
     bind_result (require
       (datetime_min \<le> observed_at - clock_skew x \<and> observed_at + freshness_horizon x \<le> datetime_max)
       (OverflowError ''datetime'')) (\<lambda>_.
     validate_freshness_window
       \<lparr>fw_valid_from = observed_at - clock_skew x, fw_valid_until = observed_at + freshness_horizon x\<rparr>))"

fun verdict_authority :: "rule_verdict \<Rightarrow> evidence_authority" where
  "verdict_authority AUTHORITATIVE_EFFECTS = TARGET_STATE"
| "verdict_authority AUTHORITATIVE_NON_EXECUTION = TARGET_STATE"
| "verdict_authority AUTHORITATIVE_PENDING = TARGET_STATE"
| "verdict_authority SUPPLEMENTARY_VERDICT = SUPPLEMENTARY"
| "verdict_authority ABSENCE_ONLY = WEAK_AUTHORITY"

fun verdict_decision :: "rule_verdict \<Rightarrow> evidence_disposition \<times> evidence_reason" where
  "verdict_decision AUTHORITATIVE_EFFECTS = (ADMITTED, AUTHORITATIVE_EXACT_CORRELATION)"
| "verdict_decision AUTHORITATIVE_NON_EXECUTION = (ADMITTED, AUTHORITATIVE_AFFIRMATIVE_NON_EXECUTION)"
| "verdict_decision AUTHORITATIVE_PENDING = (ADMITTED, AUTHORITATIVE_ACTIVE_STATUS)"
| "verdict_decision SUPPLEMENTARY_VERDICT = (WEAK_EVIDENCE, NON_AUTHORITATIVE_LOG_ONLY)"
| "verdict_decision ABSENCE_ONLY = (WEAK_EVIDENCE, NOT_FOUND_ABSENCE_ONLY)"

definition normalized_from ::
  "string \<Rightarrow> probe_request \<Rightarrow> rule_descriptor \<Rightarrow> rule_observation \<Rightarrow> freshness_window \<Rightarrow> time \<Rightarrow>
   validated_observation \<Rightarrow> normalized_evidence" where
  "normalized_from i request descriptor r window retrieved_at observation =
     \<lparr>ev_evidence_id = i, ev_capability_name = pq_capability_name request,
      ev_capability_version = pq_capability_version request, ev_target = ru_target r,
      ev_provenance =
        \<lparr>epv_source = rd_source descriptor, epv_source_record = ru_source_record r,
         epv_adapter_version = rd_adapter_version descriptor, epv_retrieved_at = retrieved_at\<rparr>,
      ev_observed_at = ru_observed_at r, ev_freshness = window, ev_correlation = ru_correlation r,
      ev_authority = verdict_authority (ru_verdict r),
      ev_authority_policy_version = rd_authority_policy_version descriptor,
      ev_effect_assertions = ru_effect_assertions r, ev_operation_status = ru_operation_status r,
      ev_raw_observation =
        \<lparr>ro_sha256 = vo_sha256 observation, ro_reference = ''observation:'' @ vo_sha256 observation,
         ro_byte_count = vo_byte_count observation\<rparr>\<rparr>"

definition correlation_matches :: "correlation \<Rightarrow> correlation \<Rightarrow> bool" where
  "correlation_matches expected actual \<longleftrightarrow>
     list_all (\<lambda>(key, value). map_of actual key = Some value) expected"

text \<open>The checks against the envelope, in the order of the code: the reason of the first that fails.\<close>

definition admission_refusal ::
  "execution_envelope \<Rightarrow> probe_request \<Rightarrow> rule_observation \<Rightarrow> normalized_evidence \<Rightarrow> evidence_reason option" where
  "admission_refusal x request r e =
     (let retrieved_at = epv_retrieved_at (ev_provenance e); observed_at = ev_observed_at e;
          asserted = set (map ea_effect_id (ev_effect_assertions e)) in
      if json_bytes (target_binding_json (ev_target e)) \<noteq> json_bytes (target_binding_json (xe_target x))
        then Some SCOPE_MISMATCH
      else if ev_authority e = TARGET_STATE \<and> ru_operation_id r \<noteq> Some (xe_operation_id x)
        then Some CORRELATION_MISMATCH
      else if \<not> correlation_matches (ec_correlation_fields (xe_context x)) (ev_correlation e)
        then Some CORRELATION_MISMATCH
      else if \<not> asserted \<subseteq> set (map ee_effect_id (xe_expected_effects x)) \<or>
              \<not> asserted \<subseteq> set (pq_relevant_effect_ids request)
        then Some EXPECTED_EFFECT_MISMATCH
      else if retrieved_at < observed_at \<and> clock_skew x < observed_at - retrieved_at then Some CLOCK_AMBIGUITY
      else if observed_at < xe_invoked_at x \<and> clock_skew x < xe_invoked_at x - observed_at \<or>
              freshness_horizon x < retrieved_at - observed_at
        then Some STALE_OBSERVATION
      else None)"

section \<open>Normalisation\<close>

text \<open>An observation that its rule has read.\<close>

definition admit_observation ::
  "env \<Rightarrow> execution_envelope \<Rightarrow> probe_request \<Rightarrow> controller_audit \<Rightarrow> validated_observation \<Rightarrow>
   rule_descriptor \<Rightarrow> rule_observation \<Rightarrow> evidence_attempt result" where
  "admit_observation E x request audit observation descriptor r =
     (let raw = Some (vo_sha256 observation) in
      bind_result (evidence_id E x (ca_sequence audit) (ca_request_sha256 audit) raw (ca_outcome audit)) (\<lambda>i.
      case observation_window x (ru_observed_at r) of
        Inl _ \<Rightarrow> rejected_attempt E x audit raw None CLOCK_AMBIGUITY
      | Inr window \<Rightarrow>
        (case validate_normalized_evidence E
           (normalized_from i request descriptor r window (ca_completed_at audit) observation) of
           Inl _ \<Rightarrow> rejected_attempt E x audit raw None MALFORMED_OBSERVATION
         | Inr e \<Rightarrow>
           (case admission_refusal x request r e of
              Some reason \<Rightarrow> rejected_attempt E x audit raw (Some e) reason
            | None \<Rightarrow> build_attempt E
                (attempt_for E x audit raw (Some e) (case verdict_decision (ru_verdict r) of
                   (disposition, reason) \<Rightarrow> decide i disposition reason))))))"

definition observation_key :: "execution_envelope \<Rightarrow> probe_request \<Rightarrow> rule_identity" where
  "observation_key x request =
     (tb_target_kind (xe_target x), pq_capability_name request, pq_capability_version request,
      pr_authority (ec_policies (xe_context x)), pr_classification (ec_policies (xe_context x)))"

definition normalize_checked ::
  "env \<Rightarrow> (string \<Rightarrow> probe_observation option) \<Rightarrow> execution_envelope \<Rightarrow> rule_registry \<Rightarrow> bool \<Rightarrow> probe_run \<Rightarrow>
   string \<Rightarrow> evidence_attempt result" where
  "normalize_checked E decode x registry same_session run expected =
     (let request = pn_request run; audit = pe_audit (pn_execution run) in
      if \<not> integrity_valid E x same_session run expected then
        rejected_attempt E x audit None None MALFORMED_OBSERVATION
      else if ca_outcome audit \<noteq> PO_COMPLETED then
        rejected_attempt E x audit None None (failed_probe_reason audit)
      else case pe_observation (pn_execution run) of
        None \<Rightarrow> rejected_attempt E x audit None None MALFORMED_OBSERVATION
      | Some observation \<Rightarrow>
        (let raw = Some (env_sha256 E (vo_canonical_json observation)) in
         if \<not> observation_intact E decode audit request expected observation then
           rejected_attempt E x audit raw None MALFORMED_OBSERVATION
         else case fst (resolve_rule (observation_key x request) registry) of
           None \<Rightarrow> rejected_attempt E x audit raw None UNSUPPORTED_CAPABILITY
         | Some registration \<Rightarrow>
           (case rule_answer E registration x request (vo_canonical_json observation) (ca_completed_at audit) of
              Inl reason \<Rightarrow> rejected_attempt E x audit raw None reason
            | Inr r \<Rightarrow> admit_observation E x request audit observation (rr_descriptor registration) r)))"

text \<open>
  \<open>EvidencePipeline.normalize\<close>: the answer or the exception, and the pipeline afterwards. The
  sequence number advances and the first session is kept even when a later statement raises.
\<close>

definition normalize ::
  "env \<Rightarrow> (string \<Rightarrow> probe_observation option) \<Rightarrow> probe_run \<Rightarrow> evidence_pipeline \<Rightarrow>
   evidence_attempt result \<times> evidence_pipeline" where
  "normalize E decode run pl =
     (if ca_sequence (pe_audit (pn_execution run)) \<noteq> pl_next_sequence pl then
        (Inl (ValueError ''probe runs must be normalized in contiguous order''), pl)
      else
        let session = (case pl_controller_session pl of None \<Rightarrow> pe_session (pn_execution run) | Some s \<Rightarrow> s);
            pl = pl\<lparr>pl_next_sequence := pl_next_sequence pl + 1, pl_controller_session := Some session\<rparr> in
        (bind_result (probe_request_sha256 E (pn_request run)) (\<lambda>expected.
           normalize_checked E decode (pl_envelope pl) (pl_registry pl)
             (session = pe_session (pn_execution run)) run expected), pl))"

end
