(* ===== verification/Classification.thy ===== *)
theory Classification
  imports Admission
begin

text \<open>
  The classifier (\<open>evidence/classification.py\<close>): it rechecks the attempts of an investigation,
  proves from the admitted evidence which effects are established, and derives the classification,
  the action gates and what evidence is missing.
\<close>

section \<open>Core evaluations\<close>

text \<open>Evaluations are sealed: a value of this type is one that the classifier has built.\<close>

record core_evaluation =
  cv_envelope_sha256 :: string
  cv_attempts :: "evidence_attempt list"
  cv_evidence :: "normalized_evidence list"
  cv_decisions :: "evidence_decision list"
  cv_proof :: deterministic_proof
  cv_classification :: classification
  cv_action_gates :: "action_gate list"
  cv_missing_evidence :: "unresolved_effects list"

section \<open>Duplicates\<close>

type_synonym observation_source = "string \<times> string \<times> string \<times> string \<times> string option \<times> string"

definition observation_source :: "evidence_attempt \<Rightarrow> observation_source option" where
  "observation_source a =
     (case (at_raw_sha256 a, at_evidence a) of
        (Some raw, Some e) \<Rightarrow>
          Some (ev_capability_name e, ev_capability_version e, epv_source (ev_provenance e),
            epv_adapter_version (ev_provenance e), at_request_sha256 a, raw)
      | _ \<Rightarrow> None)"

text \<open>\<open>first_by_source_request_and_raw\<close> holds the first identifier of each source.\<close>

fun deduplicate_attempts ::
  "env \<Rightarrow> (observation_source \<times> string) list \<Rightarrow> evidence_attempt list \<Rightarrow> evidence_attempt list result" where
  "deduplicate_attempts E firsts [] = Inr []"
| "deduplicate_attempts E firsts (a # as) =
     (case observation_source a of
        None \<Rightarrow> bind_result (deduplicate_attempts E firsts as) (\<lambda>rest. Inr (a # rest))
      | Some source \<Rightarrow>
        (let first_id = (case map_of firsts source of None \<Rightarrow> attempt_id a | Some i \<Rightarrow> i) in
         bind_result (if first_id = attempt_id a then Inr a else reject_duplicate E a) (\<lambda>kept.
         bind_result (deduplicate_attempts E ((source, first_id) # firsts) as) (\<lambda>rest. Inr (kept # rest)))))"

section \<open>Action gates\<close>

fun continue_gate_reason :: "classification \<Rightarrow> gate_reason" where
  "continue_gate_reason COMMITTED = ALL_EFFECTS_ESTABLISHED"
| "continue_gate_reason NOT_COMMITTED = OPERATION_NOT_COMMITTED"
| "continue_gate_reason PARTIAL = INCOMPLETE_EFFECT_SET"
| "continue_gate_reason PENDING = OPERATION_ACTIVE"
| "continue_gate_reason UNKNOWN = INSUFFICIENT_AUTHORITATIVE_EVIDENCE"

fun retry_gate_reason :: "classification \<Rightarrow> gate_reason" where
  "retry_gate_reason COMMITTED = DUPLICATE_EFFECT_RISK"
| "retry_gate_reason NOT_COMMITTED = EXPLICIT_RETRY_POLICY_REQUIRED"
| "retry_gate_reason PARTIAL = DUPLICATE_EFFECT_RISK"
| "retry_gate_reason PENDING = OPERATION_ACTIVE"
| "retry_gate_reason UNKNOWN = AMBIGUOUS_DUPLICATE_RISK"

fun escalation_gate :: "classification \<Rightarrow> bool \<times> gate_reason" where
  "escalation_gate COMMITTED = (False, ALL_EFFECTS_ESTABLISHED)"
| "escalation_gate NOT_COMMITTED = (True, OPERATOR_REVIEW_AVAILABLE)"
| "escalation_gate PARTIAL = (True, OPERATOR_INTERVENTION_REQUIRED)"
| "escalation_gate PENDING = (True, OPERATOR_INTERVENTION_REQUIRED)"
| "escalation_gate UNKNOWN = (True, OPERATOR_INTERVENTION_REQUIRED)"

definition gate_definitions :: "classification \<Rightarrow> (requested_action \<times> bool \<times> gate_reason) list" where
  "gate_definitions c =
     [(RA_CONTINUE, c = COMMITTED, continue_gate_reason c),
      (RA_RETRY, False, retry_gate_reason c),
      (RA_COMPENSATE, False, COMPENSATION_OUT_OF_SCOPE_V1),
      (RA_ESCALATE, escalation_gate c),
      (RA_OBSERVE, True, READ_ONLY_FOLLOW_UP)]"

definition action_gates :: "env \<Rightarrow> classification \<Rightarrow> string \<Rightarrow> string \<Rightarrow> action_gate list result" where
  "action_gates E c classification_policy action_policy =
     map_result (\<lambda>(action, allowed, reason). validate_action_gate E
       \<lparr>ag_requested_action = action, ag_allowed = allowed, ag_reason = reason, ag_classification = c,
        ag_classification_policy_version = classification_policy, ag_action_policy_version = action_policy,
        ag_escalation_required = (c \<noteq> COMMITTED)\<rparr>) (gate_definitions c)"

section \<open>What is admitted\<close>

definition admitted_attempts :: "evidence_attempt list \<Rightarrow> evidence_attempt list" where
  "admitted_attempts as = filter (\<lambda>a. at_evidence a \<noteq> None \<and> ed_disposition (at_decision a) = ADMITTED) as"

definition admitted_items :: "evidence_attempt list \<Rightarrow> normalized_evidence list" where
  "admitted_items as = map (\<lambda>a. the (at_evidence a)) (admitted_attempts as)"

text \<open>The recheck of an item that the pipeline has admitted.\<close>

definition escaped_admission :: "execution_envelope \<Rightarrow> normalized_evidence \<Rightarrow> bool" where
  "escaped_admission x e \<longleftrightarrow>
     ev_authority e \<noteq> TARGET_STATE \<or>
     json_bytes (target_binding_json (ev_target e)) \<noteq> json_bytes (target_binding_json (xe_target x)) \<or>
     (ev_capability_name e, ev_capability_version e) \<notin>
       set (map (\<lambda>c. (cref_name c, cref_version c)) (ec_enabled_capabilities (xe_context x))) \<or>
     ev_authority_policy_version e \<noteq> pr_authority (ec_policies (xe_context x)) \<or>
     \<not> correlation_matches (ec_correlation_fields (xe_context x)) (ev_correlation e)"

section \<open>The proof\<close>

definition effect_values ::
  "normalized_evidence list \<Rightarrow> string \<Rightarrow> (effect_assertion_state \<times> string) list" where
  "effect_values items effect =
     concat (map (\<lambda>e. map (\<lambda>a. (ea_state a, ev_evidence_id e))
       (filter (\<lambda>a. ea_effect_id a = effect) (ev_effect_assertions e))) items)"

definition statuses_of :: "normalized_evidence list \<Rightarrow> operation_status list" where
  "statuses_of items = concat (map (\<lambda>e. case ev_operation_status e of None \<Rightarrow> [] | Some s \<Rightarrow> [s]) items)"

definition effect_conflicts :: "effect_assertion_state list \<Rightarrow> bool" where
  "effect_conflicts states \<longleftrightarrow> {ESTABLISHED, NOT_ESTABLISHED} \<subseteq> set states"

definition effect_state :: "effect_assertion_state list \<Rightarrow> effect_assertion_state" where
  "effect_state states =
     (if effect_conflicts states then UNVERIFIED
      else if ESTABLISHED \<in> set states then ESTABLISHED
      else if NOT_ESTABLISHED \<in> set states then NOT_ESTABLISHED
      else UNVERIFIED)"

definition core_finding :: "normalized_evidence list \<Rightarrow> expected_effect \<Rightarrow> effect_finding" where
  "core_finding items effect =
     (let stated = effect_values items (ee_effect_id effect) in
      \<lparr>ff_effect_id = ee_effect_id effect, ff_commit_scope = ee_commit_scope effect,
       ff_state = effect_state (map fst stated),
       ff_evidence_ids = sorted_set (map snd (filter (\<lambda>(state, _). state \<noteq> UNVERIFIED) stated))\<rparr>)"

text \<open>The effects of an envelope that the items prove to be in a state.\<close>

definition proved_effects ::
  "normalized_evidence list \<Rightarrow> expected_effect list \<Rightarrow> effect_assertion_state \<Rightarrow> string list" where
  "proved_effects items effects state =
     map ee_effect_id (filter (\<lambda>f. effect_state (map fst (effect_values items (ee_effect_id f))) = state) effects)"

definition evidence_conflict :: "normalized_evidence list \<Rightarrow> expected_effect list \<Rightarrow> bool" where
  "evidence_conflict items effects \<longleftrightarrow>
     (let statuses = set (statuses_of items); established = proved_effects items effects ESTABLISHED;
          not_committed = TERMINAL_NOT_COMMITTED \<in> statuses in
      list_ex (\<lambda>f. effect_conflicts (map fst (effect_values items (ee_effect_id f)))) effects \<or>
      TERMINAL_COMMITTED \<in> statuses \<and> not_committed \<or>
      not_committed \<and> statuses \<inter> {ACTIVE, UNRESOLVED} \<noteq> {} \<or>
      not_committed \<and> established \<noteq> [] \<or>
      TERMINAL_COMMITTED \<in> statuses \<and> statuses \<inter> {ACTIVE, UNRESOLVED} \<noteq> {} \<and>
        length established \<noteq> length effects)"

definition core_status :: "operation_status list \<Rightarrow> bool \<Rightarrow> operation_status option" where
  "core_status statuses conflicting =
     (if conflicting then None
      else if TERMINAL_COMMITTED \<in> set statuses then Some TERMINAL_COMMITTED
      else if UNRESOLVED \<in> set statuses then Some UNRESOLVED
      else if ACTIVE \<in> set statuses then Some ACTIVE
      else if TERMINAL_NOT_COMMITTED \<in> set statuses then Some TERMINAL_NOT_COMMITTED
      else None)"

text \<open>\<open>effects_by_scope\<close> and the scopes of which every effect is in a set.\<close>

definition commit_scopes :: "expected_effect list \<Rightarrow> string list" where
  "commit_scopes effects = remdups (map ee_commit_scope effects)"

definition covered_scopes :: "expected_effect list \<Rightarrow> string list \<Rightarrow> string list" where
  "covered_scopes effects ids =
     filter (\<lambda>s. list_all (\<lambda>f. ee_commit_scope f = s \<longrightarrow> ee_effect_id f \<in> set ids) effects) (commit_scopes effects)"

definition mixed_scopes :: "expected_effect list \<Rightarrow> string list \<Rightarrow> string list \<Rightarrow> bool" where
  "mixed_scopes effects established not_established \<longleftrightarrow>
     (let scopes = commit_scopes effects; full = covered_scopes effects established;
          absent = covered_scopes effects not_established in
      2 \<le> length scopes \<and> 0 < length full \<and> length full < length scopes \<and>
      set full \<union> set absent = set scopes)"

definition core_classification :: "normalized_evidence list \<Rightarrow> expected_effect list \<Rightarrow> classification" where
  "core_classification items effects =
     (let conflicting = evidence_conflict items effects;
          status = core_status (statuses_of items) conflicting;
          established = proved_effects items effects ESTABLISHED;
          not_established = proved_effects items effects NOT_ESTABLISHED in
      if conflicting then UNKNOWN
      else if length established = length effects then COMMITTED
      else if status = Some ACTIVE then PENDING
      else if mixed_scopes effects established not_established then PARTIAL
      else if status = Some UNRESOLVED then PENDING
      else if TERMINAL_NOT_COMMITTED \<in> set (statuses_of items) \<and> established = [] then NOT_COMMITTED
      else UNKNOWN)"

definition core_proof :: "evidence_attempt list \<Rightarrow> expected_effect list \<Rightarrow> deterministic_proof" where
  "core_proof as effects =
     (let items = admitted_items as; conflicting = evidence_conflict items effects in
      \<lparr>dp_effect_findings = map (core_finding items) effects,
       dp_operation_status = core_status (statuses_of items) conflicting,
       dp_conflicting_authority = conflicting,
       dp_admitted_evidence_ids = map attempt_id (admitted_attempts as)\<rparr>)"

section \<open>What is missing\<close>

definition core_missing_reason :: "evidence_attempt list \<Rightarrow> classification \<Rightarrow> bool \<Rightarrow> string" where
  "core_missing_reason as c conflicting =
     (if conflicting then evidence_reason_text CONFLICTING_AUTHORITY
      else if c = PENDING then ''authoritative-terminal-proof-required''
      else if c = PARTIAL then ''authoritative-effect-proof-required''
      else case sorted_set (map (\<lambda>a. evidence_reason_text (ed_reason (at_decision a)))
          (filter (\<lambda>a. ed_disposition (at_decision a) \<noteq> ADMITTED) as)) of
          [] \<Rightarrow> ''authoritative-effect-proof-required''
        | reason # _ \<Rightarrow> reason)"

definition core_missing ::
  "evidence_attempt list \<Rightarrow> classification \<Rightarrow> deterministic_proof \<Rightarrow> unresolved_effects list" where
  "core_missing as c p =
     (if c \<in> {COMMITTED, NOT_COMMITTED} then []
      else [\<lparr>ue_effect_ids = map ff_effect_id (filter (\<lambda>f. ff_state f \<noteq> ESTABLISHED) (dp_effect_findings p)),
             ue_reason = core_missing_reason as c (dp_conflicting_authority p)\<rparr>])"

section \<open>The evaluation\<close>

definition sort_attempts :: "evidence_attempt list \<Rightarrow> evidence_attempt list" where
  "sort_attempts = sort_key (\<lambda>a. (at_probe_sequence a, attempt_id a))"

text \<open>The guards on the attempts and the audit trail, both sorted.\<close>

definition attempt_guards ::
  "env \<Rightarrow> execution_envelope \<Rightarrow> evidence_attempt list \<Rightarrow> controller_audit list \<Rightarrow> (bool \<times> string) list" where
  "attempt_guards E x as audits =
     (let sequences = map at_probe_sequence as in
     [(list_ex (\<lambda>a. at_envelope_sha256 a \<noteq> envelope_sha256 E x) as,
         ''evidence attempt belongs to a different envelope''),
      (\<not> distinct sequences, ''one evidence attempt is allowed per probe sequence''),
      (\<not> distinct (map attempt_id as), ''evidence attempt identifiers must be unique''),
      (sequences \<noteq> map int [1..<length as + 1], ''controller audit sequence must be contiguous''),
      (sequences \<noteq> map ca_sequence audits, ''every controller audit record requires one evidence attempt''),
      (list_ex (\<lambda>(a, audit). at_controller_audit_sha256 a \<noteq> controller_audit_sha256 E audit) (zip as audits),
         ''evidence attempt audit does not match the controller'')])"

definition classify ::
  "env \<Rightarrow> execution_envelope \<Rightarrow> evidence_attempt list \<Rightarrow> core_evaluation result" where
  "classify E x as =
     (let effects = xe_expected_effects x; items = admitted_items as; proof_value = core_proof as effects;
          c = core_classification items effects; policies = ec_policies (xe_context x) in
      bind_result (require (\<not> list_ex (escaped_admission x) items)
        (ValueError ''admitted evidence escaped deterministic admission'')) (\<lambda>_.
      bind_result (map_result (validate_effect_finding E) (dp_effect_findings proof_value)) (\<lambda>_.
      bind_result (validate_deterministic_proof E proof_value) (\<lambda>_.
      bind_result (map_result (validate_unresolved_effects E) (core_missing as c proof_value)) (\<lambda>missing.
      bind_result (action_gates E c (pr_classification policies) (pr_action policies)) (\<lambda>gates. Inr
        \<lparr>cv_envelope_sha256 = envelope_sha256 E x, cv_attempts = as,
         cv_evidence = map (\<lambda>a. the (at_evidence a)) (filter (\<lambda>a. at_evidence a \<noteq> None) as),
         cv_decisions = map at_decision as, cv_proof = proof_value, cv_classification = c,
         cv_action_gates = gates, cv_missing_evidence = missing\<rparr>))))))"

definition evaluate_evidence ::
  "env \<Rightarrow> execution_envelope \<Rightarrow> evidence_attempt list \<Rightarrow> controller_audit list \<Rightarrow> core_evaluation result" where
  "evaluate_evidence E x attempts audit_trail =
     (let as = sort_attempts attempts; audits = sort_key ca_sequence audit_trail in
      bind_result (checked (attempt_guards E x as audits) ()) (\<lambda>_.
      bind_result (deduplicate_attempts E [] as) (classify E x)))"

end
