(* ===== verification/Reporting.thy ===== *)
theory Reporting
  imports Classification
begin

text \<open>
  The assembly of a completed report (\<open>evidence/reporting.py\<close>) and the engine that owns one
  investigation (\<open>evidence/engine.py\<close>).
\<close>

section \<open>Reports\<close>

definition report_audit :: "controller_audit \<Rightarrow> evidence_attempt \<Rightarrow> probe_audit" where
  "report_audit record a =
     \<lparr>pu_probe_sequence = ca_sequence record, pu_capability_name = ca_capability_name record,
      pu_capability_version = ca_capability_version record, pu_request_sha256 = ca_request_sha256 record,
      pu_target_sha256 = ca_target_sha256 record, pu_outcome = ca_outcome record,
      pu_stop_reason = stop_reason_text (ca_stop_reason record), pu_started_at = ca_started_at record,
      pu_completed_at = ca_completed_at record, pu_session_elapsed_ms = ca_session_elapsed_ms record,
      pu_probe_count_used = ca_probe_count_used record, pu_cost_units_used = ca_cost_units_used record,
      pu_result_bytes_acquired = ca_result_bytes_acquired record, pu_result_sha256 = ca_result_sha256 record,
      pu_result_byte_count = ca_result_byte_count record, pu_evidence_ids = [attempt_id a]\<rparr>"

text \<open>
  An explanation that cites evidence which is neither admitted nor weak is dropped; another is
  rebuilt from its redacted text.
\<close>

definition report_advisory ::
  "env \<Rightarrow> evidence_decision list \<Rightarrow> advisory_explanation option \<Rightarrow> advisory_explanation option result" where
  "report_advisory E decisions advisory =
     (case advisory of
        None \<Rightarrow> Inr None
      | Some a \<Rightarrow>
        bind_result (sanitize_boundary_text E (ad_text a)) (\<lambda>boundary_text.
        bind_result (validate_advisory E (a\<lparr>ad_text := boundary_text\<rparr>)) (\<lambda>a.
          let explainable = set (map ed_evidence_id
              (filter (\<lambda>d. ed_disposition d \<in> {ADMITTED, WEAK_EVIDENCE}) decisions)) in
          if \<not> set (ad_cited_evidence_ids a) \<subseteq> explainable then Inr None
          else bind_result (redact_untrusted_text E (ad_text a)) (\<lambda>redacted_text.
            bind_result (sanitize_boundary_text E redacted_text) (\<lambda>boundary_text.
            bind_result (validate_advisory E (a\<lparr>ad_text := boundary_text\<rparr>)) (\<lambda>a. Inr (Some a)))))))"

definition report_guards ::
  "env \<Rightarrow> execution_envelope \<Rightarrow> controller_audit list \<Rightarrow> core_evaluation \<Rightarrow> (bool \<times> string) list" where
  "report_guards E x audits v =
     [(cv_envelope_sha256 v \<noteq> envelope_sha256 E x, ''core evaluation belongs to a different envelope''),
      (map ca_sequence audits \<noteq> map int [1..<length audits + 1],
         ''controller audit sequence must be contiguous''),
      (map at_probe_sequence (cv_attempts v) \<noteq> map ca_sequence audits,
         ''every controller audit record requires one evidence attempt''),
      (list_ex (\<lambda>(a, audit). at_controller_audit_sha256 a \<noteq> controller_audit_sha256 E audit)
         (zip (cv_attempts v) audits), ''evidence attempt audit does not match the controller'')]"

definition report_limitation :: string where
  "report_limitation = ''No mutation was retried or compensated.''"

definition assembled_report ::
  "env \<Rightarrow> execution_envelope \<Rightarrow> core_evaluation \<Rightarrow> probe_audit list \<Rightarrow> advisory_explanation option \<Rightarrow>
   time \<Rightarrow> time \<Rightarrow> int \<Rightarrow> investigation_report" where
  "assembled_report E x v audit advisory created_at updated_at revision =
     \<lparr>ir_investigation_id = xe_investigation_id x, ir_envelope_sha256 = envelope_sha256 E x,
      ir_status = IS_COMPLETED, ir_probe_audit = audit, ir_evidence = cv_evidence v,
      ir_evidence_decisions = cv_decisions v, ir_proof = Some (cv_proof v),
      ir_classification = Some (cv_classification v), ir_action_gate = cv_action_gates v,
      ir_missing_evidence = cv_missing_evidence v, ir_limitations = [report_limitation],
      ir_advisory_explanation = advisory, ir_created_at = created_at, ir_updated_at = updated_at,
      ir_revision = revision\<rparr>"

definition build_report ::
  "env \<Rightarrow> execution_envelope \<Rightarrow> controller_audit list \<Rightarrow> core_evaluation \<Rightarrow> time \<Rightarrow> time \<Rightarrow> int \<Rightarrow>
   advisory_explanation option \<Rightarrow> investigation_report result" where
  "build_report E x audit_trail v created_at updated_at revision advisory =
     (let audits = sort_key ca_sequence audit_trail in
      bind_result (checked (report_guards E x audits v) ()) (\<lambda>_.
      bind_result (map_result (validate_probe_audit E) (map2 report_audit audits (cv_attempts v))) (\<lambda>audit.
      bind_result (report_advisory E (cv_decisions v) advisory) (\<lambda>advisory.
      validate_investigation_report E
        (assembled_report E x v audit advisory created_at updated_at revision)))))"

section \<open>The engine\<close>

record evidence_engine =
  en_pipeline :: evidence_pipeline
  en_attempts :: "(int \<times> evidence_attempt) list"

definition new_engine :: "execution_envelope \<Rightarrow> rule_registry \<Rightarrow> evidence_engine" where
  "new_engine envelope registry = \<lparr>en_pipeline = new_pipeline envelope registry, en_attempts = []\<rparr>"

definition engine_attempts :: "evidence_engine \<Rightarrow> evidence_attempt list" where
  "engine_attempts g = map (\<lambda>k. the (map_of (en_attempts g) k)) (sorted_set (map fst (en_attempts g)))"

definition process_run ::
  "env \<Rightarrow> (string \<Rightarrow> probe_observation option) \<Rightarrow> probe_run \<Rightarrow> evidence_engine \<Rightarrow>
   evidence_attempt result \<times> evidence_engine" where
  "process_run E decode run g =
     (case normalize E decode run (en_pipeline g) of
        (Inl e, pl) \<Rightarrow> (Inl e, g\<lparr>en_pipeline := pl\<rparr>)
      | (Inr a, pl) \<Rightarrow>
        if at_probe_sequence a \<in> fst ` set (en_attempts g) then
          (Inl (ValueError ''probe sequence already has an evidence attempt''), g\<lparr>en_pipeline := pl\<rparr>)
        else (Inr a, g\<lparr>en_pipeline := pl, en_attempts := en_attempts g @ [(at_probe_sequence a, a)]\<rparr>))"

definition engine_evaluate ::
  "env \<Rightarrow> controller_audit list \<Rightarrow> evidence_engine \<Rightarrow> core_evaluation result" where
  "engine_evaluate E audit_trail g =
     evaluate_evidence E (pl_envelope (en_pipeline g)) (engine_attempts g) audit_trail"

definition engine_report ::
  "env \<Rightarrow> controller_audit list \<Rightarrow> time \<Rightarrow> time \<Rightarrow> int \<Rightarrow> advisory_explanation option \<Rightarrow> evidence_engine \<Rightarrow>
   investigation_report result" where
  "engine_report E audit_trail created_at updated_at revision advisory g =
     bind_result (engine_evaluate E audit_trail g) (\<lambda>v.
       build_report E (pl_envelope (en_pipeline g)) audit_trail v created_at updated_at revision advisory)"

end
