(* ===== verification/Admission_Laws.thy ===== *)
theory Admission_Laws
  imports Admission
begin

text \<open>
  What the pipeline guarantees: every attempt it builds is sound with respect to the audit of its
  run, and for a run whose request has a digest it always builds one.
\<close>

section \<open>The registry\<close>

definition entries_keyed :: "(rule_identity \<times> rule_registration) list \<Rightarrow> bool" where
  "entries_keyed rs \<longleftrightarrow> list_all (\<lambda>(key, r). key = rule_key (rr_descriptor r)) rs \<and> distinct (map fst rs)"

definition registry_ok :: "rule_registry \<Rightarrow> bool" where
  "registry_ok g \<longleftrightarrow> entries_keyed (rg_registrations g) \<and> option_ok entries_keyed (rg_snapshot g)"

lemma new_registry_ok [evidence_rules]: "registry_ok new_rule_registry"
  by (simp add: registry_ok_def new_rule_registry_def entries_keyed_def)

lemma register_rule_ok [evidence_rules]: "register_rule r g = Inr g' \<Longrightarrow> registry_ok g \<Longrightarrow> registry_ok g'"
  by (auto simp: register_rule_def Let_def registry_ok_def entries_keyed_def split: if_splits)

lemma snapshot_rules_ok [evidence_rules]: "registry_ok g \<Longrightarrow> registry_ok (snapshot_rules g)"
  by (auto simp: snapshot_rules_def registry_ok_def split: option.splits)

lemma freeze_rules_ok [evidence_rules]: "registry_ok g \<Longrightarrow> registry_ok (snd (freeze_rules g))"
  by (simp add: freeze_rules_def Let_def snapshot_rules_ok)

lemma snapshot_rules_frozen: "\<exists>rs. rg_snapshot (snapshot_rules g) = Some rs"
  by (auto simp: snapshot_rules_def split: option.splits)

lemma snapshot_rules_idem [simp]: "snapshot_rules (snapshot_rules g) = snapshot_rules g"
  by (auto simp: snapshot_rules_def split: option.splits)

definition rule_entries :: "rule_registry \<Rightarrow> (rule_identity \<times> rule_registration) list" where
  "rule_entries g = (case rg_snapshot g of None \<Rightarrow> rg_registrations g | Some s \<Rightarrow> s)"

lemma resolve_rule_entries: "fst (resolve_rule key g) = map_of (rule_entries g) key"
  by (simp add: resolve_rule_def snapshot_rules_def rule_entries_def Let_def split: option.splits)

lemma freeze_rules_entries: "rule_entries (snd (freeze_rules g)) = rule_entries g" "rules_frozen (snd (freeze_rules g))"
  by (simp_all add: rule_entries_def freeze_rules_def snapshot_rules_def rules_frozen_def Let_def split: option.splits)

lemma register_rule_Inr:
  "register_rule r g = Inr g' \<longleftrightarrow>
     \<not> rules_frozen g \<and> map_of (rule_entries g) (rule_key (rr_descriptor r)) = None \<and>
     g' = g\<lparr>rg_registrations := rg_registrations g @ [(rule_key (rr_descriptor r), r)]\<rparr>"
  by (auto simp: register_rule_def rules_frozen_def rule_entries_def map_of_eq_None_iff Let_def)

lemma register_rule_entries:
  "register_rule r g = Inr g' \<Longrightarrow>
     \<not> rules_frozen g' \<and> map_of (rule_entries g') = (map_of (rule_entries g))(rule_key (rr_descriptor r) \<mapsto> r)"
  by (auto simp: register_rule_Inr rules_frozen_def rule_entries_def map_add_def fun_eq_iff split: option.splits)

interpretation rules: frozen_registry register_rule rules_frozen "\<lambda>g. snd (freeze_rules g)"
  "\<lambda>key g. fst (resolve_rule key g)" "\<lambda>r. rule_key (rr_descriptor r)" "\<lambda>r. r" registry_ok
proof unfold_locales
  fix g g' r k
  assume g: "registry_ok g"
  show "(\<exists>g'. register_rule r g = Inr g') \<longleftrightarrow>
      \<not> rules_frozen g \<and> fst (resolve_rule (rule_key (rr_descriptor r)) g) = None"
    by (simp add: resolve_rule_entries register_rule_Inr)
  show "registry_ok (snd (freeze_rules g)) \<and> rules_frozen (snd (freeze_rules g)) \<and>
      fst (resolve_rule k (snd (freeze_rules g))) = fst (resolve_rule k g)"
    by (simp add: resolve_rule_entries freeze_rules_entries freeze_rules_ok [OF g])
  show "registry_ok g' \<and> \<not> rules_frozen g' \<and>
      fst (resolve_rule k g') = (if k = rule_key (rr_descriptor r) then Some r else fst (resolve_rule k g))"
    if "register_rule r g = Inr g'"
    using register_rule_ok [OF that g] register_rule_entries [OF that] by (simp add: resolve_rule_entries)
qed

lemma resolve_rule_keyed:
  assumes "registry_ok g" "fst (resolve_rule key g) = Some r"
  shows "rule_key (rr_descriptor r) = key"
proof -
  obtain rs where rs: "rg_snapshot (snapshot_rules g) = Some rs" using snapshot_rules_frozen by blast
  have "entries_keyed rs" using snapshot_rules_ok [OF assms(1)] rs by (simp add: registry_ok_def)
  moreover have "(key, r) \<in> set rs"
    using assms(2) rs by (simp add: resolve_rule_def Let_def map_of_SomeD)
  ultimately show ?thesis by (auto simp: entries_keyed_def list_all_iff)
qed

section \<open>Evidence identifiers\<close>

definition evidence_name ::
  "env \<Rightarrow> execution_envelope \<Rightarrow> controller_audit \<Rightarrow> string option \<Rightarrow> string" where
  "evidence_name E x audit raw =
     ''evidence:'' @ env_sha256 E (json_bytes
       (evidence_material E x (ca_sequence audit) (ca_request_sha256 audit) raw (ca_outcome audit)))"

lemma evidence_name_ok: "hexdigest_ok E \<Longrightarrow> identifier_ok E (evidence_name E x audit raw)"
proof -
  let ?d = "env_sha256 E (json_bytes
    (evidence_material E x (ca_sequence audit) (ca_request_sha256 audit) raw (ca_outcome audit)))"
  assume "hexdigest_ok E"
  then have d: "length ?d = 64" "list_all lower_hex ?d" by (simp_all add: hexdigest_ok_def sha256_digest_ok_def)
  have hex: "evidence_char c" if "lower_hex c" for c
    using that by (simp add: lower_hex_def evidence_char_def)
  have char: "identifier_char c" if "evidence_char c" for c
    using that unfolding evidence_char_def
    by (auto simp: identifier_char_def identifier_start_def letter_or_digit_def lower_letter_def digit_char_def)
  have "list_all evidence_char ?d" using d(2) by (rule list.pred_mono_strong) (rule hex)
  then have e: "list_all evidence_char (evidence_name E x audit raw)"
    by (simp add: evidence_name_def evidence_char_def)
  then have "list_all identifier_char (tl (evidence_name E x audit raw))"
    by (cases "evidence_name E x audit raw") (auto intro: list.pred_mono_strong char)
  moreover have "identifier_start (hd (evidence_name E x audit raw))"
    by (simp add: evidence_name_def identifier_start_def letter_or_digit_def lower_letter_def)
  ultimately show ?thesis
    using d(1) evidence_text_not_sensitive [OF e] by (simp add: identifier_ok_def evidence_name_def)
qed

definition audit_accepted :: "env \<Rightarrow> controller_audit \<Rightarrow> bool" where
  "audit_accepted E audit \<longleftrightarrow> accepted (validate_controller_audit E) audit"

lemma audit_acceptedD:
  assumes "audit_accepted E audit"
  shows "controller_audit_fields_ok E audit" "ca_started_at audit \<le> ca_completed_at audit"
    "ca_outcome audit = PO_COMPLETED \<Longrightarrow> ca_result_sha256 audit \<noteq> None"
  using assms by (auto simp: audit_accepted_def accepted_iff validate_controller_audit_def not_less)

lemma probe_outcome_text_ok: "validate_unicode_text E (probe_outcome_text p)"
  by (cases p) (simp_all add: printable_text_ok)

lemma evidence_id_eq:
  assumes "hexdigest_ok E" "identifier_ok E (xe_investigation_id x)" "audit_accepted E audit"
    and "option_ok sha256_digest_ok raw"
  shows "evidence_id E x (ca_sequence audit) (ca_request_sha256 audit) raw (ca_outcome audit) =
    Inr (evidence_name E x audit raw)"
proof -
  have a: "controller_audit_fields_ok E audit" using assms(3) by (rule audit_acceptedD)
  have t: "sha256_digest_ok (target_sha256 E x)"
    using assms(1) by (simp add: target_sha256_def canonical_sha256_def hexdigest_ok_def)
  have o: "validate_json E (Suc 0) (option_json JStr d)" if "option_ok sha256_digest_ok d" for d
    using that by (cases d) (simp_all add: option_json_def sha256_text_ok)
  have "validate_json E 0
      (evidence_material E x (ca_sequence audit) (ca_request_sha256 audit) raw (ca_outcome audit))"
    using a o [of raw] o [of "ca_request_sha256 audit"] assms(4) identifier_text_ok [OF assms(2), of E]
      sha256_text_ok [OF t, of E]
    by (simp add: evidence_material_def key_bounds_def text_length_def printable_text_ok probe_outcome_text_ok
        controller_audit_fields_ok_def int_ok_def int64_max_def)
  then show ?thesis
    by (simp add: evidence_id_def value_sha256_def canonical_json_value_bytes_def evidence_name_def)
qed

section \<open>Sound attempts\<close>

text \<open>What holds of evidence that is admitted or kept as weak.\<close>

definition retained_sound ::
  "execution_envelope \<Rightarrow> controller_audit \<Rightarrow> evidence_decision \<Rightarrow> normalized_evidence \<Rightarrow> bool" where
  "retained_sound x audit d e \<longleftrightarrow>
     json_bytes (target_binding_json (ev_target e)) = json_bytes (target_binding_json (xe_target x)) \<and>
     correlation_matches (ec_correlation_fields (xe_context x)) (ev_correlation e) \<and>
     set (map ea_effect_id (ev_effect_assertions e)) \<subseteq> set (map ee_effect_id (xe_expected_effects x)) \<and>
     fw_valid_from (ev_freshness e) \<le> epv_retrieved_at (ev_provenance e) \<and>
     epv_retrieved_at (ev_provenance e) \<le> fw_valid_until (ev_freshness e) \<and>
     ev_authority_policy_version e = pr_authority (ec_policies (xe_context x)) \<and>
     (if ed_disposition d = ADMITTED
      then ev_authority e = TARGET_STATE \<and> ed_reason d = expected_admitted_reason e
      else expected_weak_reason (ev_authority e) = Some (ed_reason d))"

text \<open>What holds of any evidence of an attempt.\<close>

definition evidence_sound ::
  "env \<Rightarrow> execution_envelope \<Rightarrow> controller_audit \<Rightarrow> evidence_decision \<Rightarrow> normalized_evidence \<Rightarrow> bool" where
  "evidence_sound E x audit d e \<longleftrightarrow>
     accepted (validate_normalized_evidence E) e \<and> ev_evidence_id e = ed_evidence_id d \<and>
     ca_outcome audit = PO_COMPLETED \<and> ca_capability_name audit = Some (ev_capability_name e) \<and>
     ca_capability_version audit = Some (ev_capability_version e) \<and>
     ca_target_sha256 audit = target_sha256 E x \<and>
     ca_result_sha256 audit = Some (ro_sha256 (ev_raw_observation e)) \<and>
     ca_result_byte_count audit = Some (ro_byte_count (ev_raw_observation e)) \<and>
     ca_completed_at audit = epv_retrieved_at (ev_provenance e) \<and>
     (ed_disposition d \<noteq> REJECTED_EVIDENCE \<longrightarrow> retained_sound x audit d e)"

definition attempt_sound ::
  "env \<Rightarrow> execution_envelope \<Rightarrow> controller_audit \<Rightarrow> evidence_attempt \<Rightarrow> bool" where
  "attempt_sound E x audit a \<longleftrightarrow>
     at_envelope_sha256 a = envelope_sha256 E x \<and>
     at_controller_audit_sha256 a = controller_audit_sha256 E audit \<and>
     at_request_sha256 a = ca_request_sha256 audit \<and> at_probe_sequence a = ca_sequence audit \<and>
     accepted (validate_evidence_decision E) (at_decision a) \<and>
     (case at_evidence a of
        None \<Rightarrow> ed_disposition (at_decision a) = REJECTED_EVIDENCE
      | Some e \<Rightarrow> evidence_sound E x audit (at_decision a) e)"

lemma build_attempt_Inr:
  "build_attempt E a = Inr b \<longleftrightarrow>
     b = a \<and> 1 \<le> at_probe_sequence a \<and> accepted (validate_evidence_decision E) (at_decision a) \<and>
     option_ok (\<lambda>e. accepted (validate_normalized_evidence E) e \<and> ev_evidence_id e = attempt_id a) (at_evidence a)"
  by (cases "at_evidence a") (auto simp: build_attempt_def accepted_iff)

lemma rejected_attempt_sound [evidence_rules]:
  assumes "rejected_attempt E x audit raw evidence reason = Inr a"
    and "\<And>e i. evidence = Some e \<Longrightarrow> accepted (validate_normalized_evidence E) e \<Longrightarrow> ev_evidence_id e = i \<Longrightarrow>
      evidence_sound E x audit (decide i REJECTED_EVIDENCE reason) e"
  shows "attempt_sound E x audit a \<and> ed_disposition (at_decision a) = REJECTED_EVIDENCE"
  using assms(1) assms(2)
  by (cases evidence)
    (auto simp: rejected_attempt_def build_attempt_Inr attempt_for_def attempt_sound_def attempt_id_def decide_def
      split: if_splits)

text \<open>A reading that its verdict allows is decided with the reason that a report expects.\<close>

lemma verdict_reason:
  assumes "validate_rule_observation E r = Inr r'" "verdict_decision (ru_verdict r) = (disposition, reason)"
    and "ev_authority e = verdict_authority (ru_verdict r)" "ev_operation_status e = ru_operation_status r"
  shows "if disposition = ADMITTED then ev_authority e = TARGET_STATE \<and> reason = expected_admitted_reason e
     else disposition = WEAK_EVIDENCE \<and> expected_weak_reason (ev_authority e) = Some reason"
  using assms
  by (cases "ru_verdict r")
    (auto simp: validate_rule_observation_def verdict_checks_def Let_def expected_admitted_reason_def)

lemma validate_window_eq:
  "observation_window x t = Inr w \<Longrightarrow>
     fw_valid_from w = t - clock_skew x \<and> fw_valid_until w = t + freshness_horizon x"
  by (auto simp: observation_window_def validate_freshness_window_def)

lemma admission_refusal_None:
  assumes "admission_refusal x request r e = None"
  shows "json_bytes (target_binding_json (ev_target e)) = json_bytes (target_binding_json (xe_target x))"
    "ev_authority e = TARGET_STATE \<Longrightarrow> ru_operation_id r = Some (xe_operation_id x)"
    "correlation_matches (ec_correlation_fields (xe_context x)) (ev_correlation e)"
    "set (map ea_effect_id (ev_effect_assertions e)) \<subseteq> set (map ee_effect_id (xe_expected_effects x))"
    "set (map ea_effect_id (ev_effect_assertions e)) \<subseteq> set (pq_relevant_effect_ids request)"
    "ev_observed_at e - epv_retrieved_at (ev_provenance e) \<le> max 0 (clock_skew x)"
    "xe_invoked_at x - ev_observed_at e \<le> max 0 (clock_skew x)"
    "epv_retrieved_at (ev_provenance e) - ev_observed_at e \<le> freshness_horizon x"
  using assms unfolding admission_refusal_def Let_def by (auto split: if_splits)

definition envelope_accepted :: "env \<Rightarrow> execution_envelope \<Rightarrow> bool" where
  "envelope_accepted E x \<longleftrightarrow> accepted (validate_execution_envelope E) x"

lemma envelope_acceptedD:
  assumes "envelope_accepted E x"
  shows "identifier_ok E (xe_investigation_id x)" "distinct (map ee_effect_id (xe_expected_effects x))"
    "length_ok 1 64 (xe_expected_effects x)" "list_all (accepted (validate_expected_effect E)) (xe_expected_effects x)"
    "policy_references_ok E (ec_policies (xe_context x))" "0 \<le> clock_skew x"
  using assms
  by (auto simp: envelope_accepted_def accepted_iff validate_execution_envelope_def execution_envelope_fields_ok_def
      validate_envelope_context_def envelope_context_fields_ok_def freshness_policy_ok_def clock_skew_def
      microseconds_def int_ok_def)

lemma validate_normalized_eq: "validate_normalized_evidence E e = Inr e' \<Longrightarrow> e' = e"
  by (simp add: validate_normalized_evidence_def)

lemma observation_evidence_sound:
  assumes "envelope_accepted E x" "integrity_valid E x s run expected"
    and "audit = pe_audit (pn_execution run)" "request = pn_request run" "ca_outcome audit = PO_COMPLETED"
    and "observation_intact E decode audit request expected observation"
    and e: "e = normalized_from i request descriptor r w (ca_completed_at audit) observation"
    and "accepted (validate_normalized_evidence E) e" "ed_evidence_id d = i"
    and "ed_disposition d \<noteq> REJECTED_EVIDENCE \<Longrightarrow>
      admission_refusal x request r e = None \<and> observation_window x (ru_observed_at r) = Inr w \<and>
      validate_rule_observation E r = Inr r' \<and> verdict_decision (ru_verdict r) = (ed_disposition d, ed_reason d) \<and>
      rd_authority_policy_version descriptor = pr_authority (ec_policies (xe_context x))"
  shows "evidence_sound E x audit d e"
proof -
  have "retained_sound x audit d e" if d: "ed_disposition d \<noteq> REJECTED_EVIDENCE"
  proof -
    note facts = assms(10) [OF d]
    have w: "fw_valid_from w = ev_observed_at e - clock_skew x" "fw_valid_until w = ev_observed_at e + freshness_horizon x"
      using facts validate_window_eq [of x "ru_observed_at r" w] by (simp_all add: e normalized_from_def)
    have "if ed_disposition d = ADMITTED then ev_authority e = TARGET_STATE \<and> ed_reason d = expected_admitted_reason e
        else ed_disposition d = WEAK_EVIDENCE \<and> expected_weak_reason (ev_authority e) = Some (ed_reason d)"
      using facts by (intro verdict_reason [of E r r']) (simp_all add: e normalized_from_def)
    moreover have "ev_freshness e = w" by (simp add: e normalized_from_def)
    ultimately show ?thesis
      using facts w envelope_acceptedD(6) [OF assms(1)] admission_refusal_None [of x request r e]
      by (auto simp: retained_sound_def e normalized_from_def split: if_splits)
  qed
  then show ?thesis
    using assms unfolding evidence_sound_def integrity_valid_def observation_intact_def Let_def
    by (simp add: normalized_from_def)
qed

lemma admit_observation_sound:
  assumes x: "envelope_accepted E x" "integrity_valid E x s run expected"
    and run: "audit = pe_audit (pn_execution run)" "request = pn_request run" "ca_outcome audit = PO_COMPLETED"
    and intact: "observation_intact E decode audit request expected observation"
    and rule: "rd_authority_policy_version descriptor = pr_authority (ec_policies (xe_context x))"
      "validate_rule_observation E r = Inr r'"
    and ok: "admit_observation E x request audit observation descriptor r = Inr a"
  shows "attempt_sound E x audit a"
proof -
  note sound = observation_evidence_sound [OF x run intact refl]
  obtain i where i: "evidence_id E x (ca_sequence audit) (ca_request_sha256 audit) (Some (vo_sha256 observation))
      (ca_outcome audit) = Inr i"
    using ok by (auto simp: admit_observation_def Let_def)
  note ok = ok [unfolded admit_observation_def Let_def i bind_result_simps]
  show ?thesis
  proof (cases "observation_window x (ru_observed_at r)")
    case (Inl e)
    then show ?thesis using ok rejected_attempt_sound by fastforce
  next
    case w: (Inr w)
    let ?e = "normalized_from i request descriptor r w (ca_completed_at audit) observation"
    have name: "ev_evidence_id ?e = i" by (simp add: normalized_from_def)
    show ?thesis
    proof (cases "validate_normalized_evidence E ?e")
      case (Inl e)
      then show ?thesis using ok w rejected_attempt_sound by fastforce
    next
      case v: (Inr e)
      then have e: "validate_normalized_evidence E ?e = Inr ?e" "e = ?e" using validate_normalized_eq by auto
      show ?thesis
      proof (cases "admission_refusal x request r ?e")
        case (Some reason)
        then have rej: "rejected_attempt E x audit (Some (vo_sha256 observation)) (Some ?e) reason = Inr a"
          using ok w e by simp
        have "evidence_sound E x audit (decide i REJECTED_EVIDENCE reason) ?e"
          using e by (intro sound) (auto simp: decide_def accepted_iff)
        then show ?thesis using name by (intro rejected_attempt_sound [OF rej, THEN conjunct1]) auto
      next
        case None
        obtain disposition reason where d: "verdict_decision (ru_verdict r) = (disposition, reason)" by fastforce
        have b: "build_attempt E (attempt_for E x audit (Some (vo_sha256 observation)) (Some ?e)
            (decide i disposition reason)) = Inr a"
          using ok w e None d by simp
        have "evidence_sound E x audit (decide i disposition reason) ?e"
          using b name None w rule d by (intro sound) (auto simp: build_attempt_Inr decide_def attempt_for_def)
        then show ?thesis using b by (auto simp: build_attempt_Inr attempt_sound_def attempt_for_def)
      qed
    qed
  qed
qed

lemma rule_answer_Inr:
  "rule_answer E registration x request observation t = Inr r \<Longrightarrow> validate_rule_observation E r = Inr r"
  by (auto simp: rule_answer_def validate_rule_observation_def split: sum.splits rule_outcome.splits)

lemma normalize_checked_sound:
  assumes "envelope_accepted E x" "registry_ok g"
    and "normalize_checked E decode x g s run expected = Inr a"
  shows "attempt_sound E x (pe_audit (pn_execution run)) a"
proof -
  let ?audit = "pe_audit (pn_execution run)" and ?request = "pn_request run"
  have rejected: "attempt_sound E x ?audit b" if "rejected_attempt E x ?audit raw None reason = Inr b" for raw reason b
    using rejected_attempt_sound [OF that] by simp
  show ?thesis
  proof (cases "integrity_valid E x s run expected \<and> ca_outcome ?audit = PO_COMPLETED")
    case False
    then show ?thesis using assms(3) by (auto simp: normalize_checked_def Let_def intro: rejected split: if_splits)
  next
    case valid: True
    show ?thesis
    proof (cases "pe_observation (pn_execution run)")
      case None
      with valid assms(3) show ?thesis by (auto simp: normalize_checked_def Let_def intro: rejected)
    next
      case (Some observation)
      note seen = Some
      let ?raw = "Some (env_sha256 E (vo_canonical_json observation))"
      let ?g = "fst (resolve_rule (observation_key x ?request) g)"
      show ?thesis
      proof (cases "observation_intact E decode ?audit ?request expected observation \<and> ?g \<noteq> None")
        case False
        with valid seen assms(3) show ?thesis
          by (auto simp: normalize_checked_def Let_def intro: rejected split: if_splits)
      next
        case True
        then obtain registration where intact: "observation_intact E decode ?audit ?request expected observation"
          and reg: "?g = Some registration" by blast
        have policy: "rd_authority_policy_version (rr_descriptor registration) = pr_authority (ec_policies (xe_context x))"
          using resolve_rule_keyed [OF assms(2) reg] by (simp add: rule_key_def observation_key_def)
        show ?thesis
        proof (cases "rule_answer E registration x ?request (vo_canonical_json observation) (ca_completed_at ?audit)")
          case (Inl reason)
          with valid seen intact reg assms(3) show ?thesis by (auto simp: normalize_checked_def Let_def intro: rejected)
        next
          case (Inr r)
          with valid seen intact reg assms(3)
          have "admit_observation E x ?request ?audit observation (rr_descriptor registration) r = Inr a"
            by (simp add: normalize_checked_def Let_def)
          then show ?thesis
            using admit_observation_sound [OF assms(1) _ refl refl _ intact policy rule_answer_Inr [OF Inr]] valid
            by blast
        qed
      qed
    qed
  qed
qed

section \<open>An attempt for every run\<close>

lemma rejected_attempt_total:
  assumes "hexdigest_ok E" "envelope_accepted E x" "audit_accepted E audit" "option_ok sha256_digest_ok raw"
    and "reason_compatible REJECTED_EVIDENCE reason"
    and "option_ok (\<lambda>e. accepted (validate_normalized_evidence E) e \<and> ev_evidence_id e = evidence_name E x audit raw)
      evidence"
  shows "\<exists>a. rejected_attempt E x audit raw evidence reason = Inr a"
proof -
  have "accepted (validate_evidence_decision E) (decide (evidence_name E x audit raw) REJECTED_EVIDENCE reason)"
    using evidence_name_ok [OF assms(1)] assms(5)
    by (simp add: accepted_iff validate_evidence_decision_def decide_def del: reason_compatible.simps)
  moreover have "1 \<le> ca_sequence audit"
    using audit_acceptedD(1) [OF assms(3)] by (simp add: controller_audit_fields_ok_def int_ok_def)
  ultimately show ?thesis
    using assms(6) evidence_id_eq [OF assms(1) envelope_acceptedD(1) [OF assms(2)] assms(3,4)]
    by (cases evidence) (auto simp: rejected_attempt_def build_attempt_Inr attempt_for_def attempt_id_def decide_def)
qed

lemma rule_answer_Inl:
  "rule_answer E registration x request observation t = Inl reason \<Longrightarrow> reason \<in> set permitted_rejections"
  by (auto simp: rule_answer_def rule_rejected_def permitted_rejections_def
      split: sum.splits rule_outcome.splits if_splits)

lemma refusals_compatible:
  "reason \<in> set permitted_rejections \<Longrightarrow> reason_compatible REJECTED_EVIDENCE reason"
  "admission_refusal x request r e = Some reason \<Longrightarrow> reason_compatible REJECTED_EVIDENCE reason"
  "reason_compatible REJECTED_EVIDENCE (failed_probe_reason audit)"
  by (auto simp: permitted_rejections_def admitted_reasons_def weak_reasons_def admission_refusal_def Let_def
      failed_probe_reason_def split: if_splits probe_outcome.splits)

lemma verdict_compatible: "verdict_decision v = (disposition, reason) \<Longrightarrow> reason_compatible disposition reason"
  by (cases v) (auto simp: admitted_reasons_def weak_reasons_def)

lemma admit_observation_total:
  assumes ok: "hexdigest_ok E" "envelope_accepted E x" "audit_accepted E audit"
    and "observation_intact E decode audit request expected observation"
  shows "\<exists>a. admit_observation E x request audit observation descriptor r = Inr a"
proof -
  let ?raw = "Some (vo_sha256 observation)" and ?name = "evidence_name E x audit (Some (vo_sha256 observation))"
  have raw: "option_ok sha256_digest_ok ?raw"
    using assms(1,4) by (simp add: observation_intact_def hexdigest_ok_def) metis
  have i: "evidence_id E x (ca_sequence audit) (ca_request_sha256 audit) ?raw (ca_outcome audit) = Inr ?name"
    using evidence_id_eq [OF ok(1) envelope_acceptedD(1) [OF ok(2)] ok(3) raw] .
  note rejected = rejected_attempt_total [OF ok raw]
  show ?thesis
  proof (cases "observation_window x (ru_observed_at r)")
    case (Inl e)
    then show ?thesis
      using rejected [of CLOCK_AMBIGUITY None] by (simp add: admit_observation_def i admitted_reasons_def weak_reasons_def)
  next
    case w: (Inr w)
    let ?e = "normalized_from ?name request descriptor r w (ca_completed_at audit) observation"
    have name: "ev_evidence_id ?e = ?name" by (simp add: normalized_from_def)
    show ?thesis
    proof (cases "validate_normalized_evidence E ?e")
      case (Inl e)
      then show ?thesis
        using w rejected [of MALFORMED_OBSERVATION None]
        by (simp add: admit_observation_def i admitted_reasons_def weak_reasons_def)
    next
      case (Inr e)
      then have e: "validate_normalized_evidence E ?e = Inr ?e" "accepted (validate_normalized_evidence E) ?e"
        using validate_normalized_eq by (auto simp: accepted_iff)
      show ?thesis
      proof (cases "admission_refusal x request r ?e")
        case (Some reason)
        then show ?thesis
          using w e rejected [OF refusals_compatible(2) [OF Some], of "Some ?e"] name
          by (simp add: admit_observation_def Let_def i)
      next
        case None
        obtain disposition reason where d: "verdict_decision (ru_verdict r) = (disposition, reason)" by fastforce
        have "accepted (validate_evidence_decision E) (decide ?name disposition reason)"
          using evidence_name_ok [OF ok(1)] verdict_compatible [OF d]
          by (simp add: accepted_iff validate_evidence_decision_def decide_def)
        moreover have "1 \<le> ca_sequence audit"
          using audit_acceptedD(1) [OF ok(3)] by (simp add: controller_audit_fields_ok_def int_ok_def)
        ultimately show ?thesis
          using w e None d name
          by (simp add: admit_observation_def Let_def i build_attempt_Inr attempt_for_def attempt_id_def decide_def)
      qed
    qed
  qed
qed

lemma normalize_checked_total:
  assumes ok: "hexdigest_ok E" "envelope_accepted E x" "audit_accepted E (pe_audit (pn_execution run))"
  shows "\<exists>a. normalize_checked E decode x g s run expected = Inr a"
proof -
  have raw: "option_ok sha256_digest_ok (Some (env_sha256 E b))" for b
    using ok(1) by (simp add: hexdigest_ok_def)
  have malformed: "reason_compatible REJECTED_EVIDENCE MALFORMED_OBSERVATION"
    "reason_compatible REJECTED_EVIDENCE UNSUPPORTED_CAPABILITY"
    by (simp_all add: admitted_reasons_def weak_reasons_def)
  have none: "\<exists>a. rejected_attempt E x (pe_audit (pn_execution run)) None None reason = Inr a"
    if "reason_compatible REJECTED_EVIDENCE reason" for reason
    using rejected_attempt_total [OF ok, where raw = None and evidence = None] that by simp
  have some: "\<exists>a. rejected_attempt E x (pe_audit (pn_execution run)) (Some (env_sha256 E b)) None reason = Inr a"
    if "reason_compatible REJECTED_EVIDENCE reason" for b reason
    using rejected_attempt_total [OF ok raw, where evidence = None] that by simp
  show ?thesis
    unfolding normalize_checked_def Let_def
    using none [OF malformed(1)] none [OF refusals_compatible(3)] some [OF malformed(1)] some [OF malformed(2)]
      some [OF refusals_compatible(1)] rule_answer_Inl admit_observation_total [OF ok]
    by (auto simp del: reason_compatible.simps split: option.splits sum.splits)
qed

text \<open>A run in its turn gives an attempt, and the next run is awaited.\<close>

lemma normalize_total:
  assumes "hexdigest_ok E" "envelope_accepted E (pl_envelope pl)" "audit_accepted E (pe_audit (pn_execution run))"
    and "ca_sequence (pe_audit (pn_execution run)) = pl_next_sequence pl"
    and "probe_request_sha256 E (pn_request run) = Inr expected"
  shows "\<exists>a. fst (normalize E decode run pl) = Inr a"
    "pl_next_sequence (snd (normalize E decode run pl)) = pl_next_sequence pl + 1"
  using assms normalize_checked_total [OF assms(1,2,3)]
  by (simp_all add: normalize_def Let_def)

lemma normalize_sound:
  assumes "envelope_accepted E (pl_envelope pl)" "registry_ok (pl_registry pl)"
    and "normalize E decode run pl = (Inr a, pl')"
  shows "attempt_sound E (pl_envelope pl) (pe_audit (pn_execution run)) a"
    "pl_envelope pl' = pl_envelope pl" "pl_registry pl' = pl_registry pl"
    "ca_sequence (pe_audit (pn_execution run)) = pl_next_sequence pl" "pl_next_sequence pl' = pl_next_sequence pl + 1"
  using assms normalize_checked_sound [OF assms(1,2)]
  by (auto simp: normalize_def Let_def split: if_splits)

section \<open>Where retained evidence comes from\<close>

text \<open>
  Evidence that is not rejected is the reading, by the rule registered for the capability, the
  target kind and the policies, of the very bytes whose digest and size the audit records, for the
  capability and the request that the audit names.
\<close>

definition audited_bytes :: "env \<Rightarrow> probe_run \<Rightarrow> string \<Rightarrow> bool" where
  "audited_bytes E run bytes \<longleftrightarrow>
     (let audit = pe_audit (pn_execution run); request = pn_request run in
      ca_outcome audit = PO_COMPLETED \<and>
      ca_result_sha256 audit = Some (env_sha256 E bytes) \<and>
      ca_result_byte_count audit = Some (int (length bytes)) \<and>
      ca_capability_name audit = Some (pq_capability_name request) \<and>
      ca_capability_version audit = Some (pq_capability_version request) \<and>
      map_option Inr (ca_request_sha256 audit) = Some (probe_request_sha256 E request))"

definition read_by_rule ::
  "env \<Rightarrow> execution_envelope \<Rightarrow> rule_registry \<Rightarrow> probe_run \<Rightarrow> evidence_decision \<Rightarrow> normalized_evidence \<Rightarrow> bool" where
  "read_by_rule E x g run d e \<longleftrightarrow>
     (\<exists>observation registration rule_input r.
        pe_observation (pn_execution run) = Some observation \<and>
        audited_bytes E run (vo_canonical_json observation) \<and>
       env_sha256 E (vo_canonical_json observation) = ro_sha256 (ev_raw_observation e) \<and>
        fst (resolve_rule (observation_key x (pn_request run)) g) = Some registration \<and>
        rl_envelope rule_input = x \<and> rl_observation rule_input = vo_canonical_json observation \<and>
        rr_normalizer registration rule_input = Rule_Returns r \<and>
        verdict_decision (ru_verdict r) = (ed_disposition d, ed_reason d) \<and>
        ev_target e = ru_target r \<and> ev_correlation e = ru_correlation r \<and>
        ev_effect_assertions e = ru_effect_assertions r \<and> ev_operation_status e = ru_operation_status r \<and>
        ev_authority e = verdict_authority (ru_verdict r) \<and> admission_refusal x (pn_request run) r e = None)"

lemma rule_answer_reads:
  assumes "rule_answer E registration x request observation t = Inr r"
  shows "\<exists>rule_input. rl_envelope rule_input = x \<and> rl_observation rule_input = observation \<and>
    rr_normalizer registration rule_input = Rule_Returns r"
proof -
  obtain rule_input where i: "build_rule_input E x request observation t = Inr rule_input"
    using assms by (auto simp: rule_answer_def split: sum.splits)
  then have "rr_normalizer registration rule_input = Rule_Returns r"
    using assms by (auto simp: rule_answer_def validate_rule_observation_def split: sum.splits rule_outcome.splits)
  moreover have "rl_envelope rule_input = x" "rl_observation rule_input = observation"
    using i by (auto simp: build_rule_input_def)
  ultimately show ?thesis by blast
qed

lemma admit_observation_reads:
  assumes "observation_intact E decode audit request expected observation"
    and "admit_observation E x request audit observation descriptor r = Inr a"
    and "ed_disposition (at_decision a) \<noteq> REJECTED_EVIDENCE"
  shows "\<exists>i w. at_evidence a = Some (normalized_from i request descriptor r w (ca_completed_at audit) observation) \<and>
    admission_refusal x request r (normalized_from i request descriptor r w (ca_completed_at audit) observation) = None \<and>
    verdict_decision (ru_verdict r) = (ed_disposition (at_decision a), ed_reason (at_decision a))"
proof -
  have rejected: "rejected_attempt E x audit raw evidence reason \<noteq> Inr a" for raw evidence reason
    using assms(3)
    by (auto simp: rejected_attempt_def build_attempt_Inr attempt_for_def decide_def split: if_splits)
  obtain i where i: "evidence_id E x (ca_sequence audit) (ca_request_sha256 audit) (Some (vo_sha256 observation))
      (ca_outcome audit) = Inr i"
    using assms(2) by (auto simp: admit_observation_def Let_def)
  note ok = assms(2) [unfolded admit_observation_def Let_def i bind_result_simps]
  obtain w where w: "observation_window x (ru_observed_at r) = Inr w" using ok rejected by (auto split: sum.splits)
  let ?e = "normalized_from i request descriptor r w (ca_completed_at audit) observation"
  have e: "validate_normalized_evidence E ?e = Inr ?e"
    using ok w rejected validate_normalized_eq [of E ?e] by (auto split: sum.splits)
  have none: "admission_refusal x request r ?e = None" using ok w e rejected by (auto split: option.splits)
  then have "build_attempt E (attempt_for E x audit (Some (vo_sha256 observation)) (Some ?e)
      (case verdict_decision (ru_verdict r) of (disposition, reason) \<Rightarrow> decide i disposition reason)) = Inr a"
    using ok w e by simp
  then show ?thesis
    using none by (auto simp: build_attempt_Inr attempt_for_def decide_def split: prod.splits)
qed

lemma normalize_checked_reads:
  assumes "normalize_checked E decode x g s run expected = Inr a"
    and "ed_disposition (at_decision a) \<noteq> REJECTED_EVIDENCE"
    and "probe_request_sha256 E (pn_request run) = Inr expected"
  shows "\<exists>e. at_evidence a = Some e \<and> read_by_rule E x g run (at_decision a) e"
proof -
  let ?audit = "pe_audit (pn_execution run)" and ?request = "pn_request run"
  have rejected: "rejected_attempt E x audit raw evidence reason \<noteq> Inr a" for audit raw evidence reason
    using assms(2)
    by (auto simp: rejected_attempt_def build_attempt_Inr attempt_for_def decide_def split: if_splits)
  obtain observation where obs: "pe_observation (pn_execution run) = Some observation"
    "integrity_valid E x s run expected" "ca_outcome ?audit = PO_COMPLETED"
    using assms(1) rejected by (auto simp: normalize_checked_def Let_def split: if_splits option.splits)
  then have intact: "observation_intact E decode ?audit ?request expected observation"
    using assms(1) rejected by (auto simp: normalize_checked_def Let_def split: if_splits)
  obtain registration where reg: "fst (resolve_rule (observation_key x ?request) g) = Some registration"
    using assms(1) rejected obs intact by (auto simp: normalize_checked_def Let_def split: option.splits)
  obtain r where r: "rule_answer E registration x ?request (vo_canonical_json observation) (ca_completed_at ?audit) = Inr r"
    using assms(1) rejected obs intact reg by (auto simp: normalize_checked_def Let_def split: sum.splits)
  have "admit_observation E x ?request ?audit observation (rr_descriptor registration) r = Inr a"
    using assms(1) obs intact reg r by (simp add: normalize_checked_def Let_def)
  from admit_observation_reads [OF intact this assms(2)] obtain i w where
    e: "at_evidence a = Some (normalized_from i ?request (rr_descriptor registration) r w (ca_completed_at ?audit) observation)"
    "admission_refusal x ?request r
      (normalized_from i ?request (rr_descriptor registration) r w (ca_completed_at ?audit) observation) = None"
    "verdict_decision (ru_verdict r) = (ed_disposition (at_decision a), ed_reason (at_decision a))"
    by blast
  obtain rule_input where "rl_envelope rule_input = x" "rl_observation rule_input = vo_canonical_json observation"
    "rr_normalizer registration rule_input = Rule_Returns r"
    using rule_answer_reads [OF r] by blast
  moreover have "env_sha256 E (vo_canonical_json observation) = vo_sha256 observation"
    using intact by (simp add: observation_intact_def)
  moreover have "audited_bytes E run (vo_canonical_json observation)"
    using intact obs(3) assms(3) by (simp add: audited_bytes_def Let_def observation_intact_def)
  ultimately show ?thesis
    using e obs(1) reg
    by (intro exI [of _ "normalized_from i ?request (rr_descriptor registration) r w (ca_completed_at ?audit) observation"])
      (auto simp: read_by_rule_def normalized_from_def intro!: exI [of _ observation])
qed

lemma normalize_reads:
  assumes "normalize E decode run pl = (Inr a, pl')" "ed_disposition (at_decision a) \<noteq> REJECTED_EVIDENCE"
  shows "\<exists>e. at_evidence a = Some e \<and> read_by_rule E (pl_envelope pl) (pl_registry pl) run (at_decision a) e"
  using assms normalize_checked_reads by (fastforce simp: normalize_def Let_def split: if_splits)

section \<open>Arguments at the limit of nesting\<close>

text \<open>
  The arguments of a request may be nested as deeply as any JSON object; the identity that is
  digested holds them one level further down, so some valid requests have no digest and a run of
  theirs makes the pipeline raise after it has advanced.
\<close>

lemma normalize_without_digest:
  assumes "ca_sequence (pe_audit (pn_execution run)) = pl_next_sequence pl"
    and "probe_request_sha256 E (pn_request run) = Inl e"
  shows "fst (normalize E decode run pl) = Inl e"
    "pl_next_sequence (snd (normalize E decode run pl)) = pl_next_sequence pl + 1"
  using assms by (simp_all add: normalize_def Let_def)

end
