(* ===== verification/Reason_Labels.thy ===== *)
theory Reason_Labels
  imports Probes
begin

text \<open>
  The texts of the stop reasons and of the evidence reasons are identifiers: they hold no character
  that an identifier refuses and no credential. Reports carry them in identifier fields.
\<close>

section \<open>Reasons are identifiers\<close>

definition label_text :: "string \<Rightarrow> bool" where
  "label_text s \<longleftrightarrow>
     list_all (\<lambda>c. plain_char c \<or> c = CHR ''_'') s \<and> (CHR ''g'' \<notin> set s \<or> CHR ''h'' \<notin> set s) \<and>
     s \<noteq> [] \<and> length s \<le> 128 \<and> identifier_start (hd s)"

lemma label_identifier_ok: "label_text s \<Longrightarrow> identifier_ok E s"
proof -
  assume s: "label_text s"
  have "identifier_char c" if "plain_char c \<or> c = CHR ''_''" for c
    using that by (auto simp: plain_char_def word_char_def identifier_char_def identifier_start_def letter_or_digit_def)
  then have "list_all identifier_char s" using s by (auto simp: label_text_def intro: list.pred_mono_strong)
  then have "list_all identifier_char (tl s)" by (cases s) simp_all
  moreover have "list_all (label_char CHR ''g'') s \<or> list_all (label_char CHR ''h'') s"
    using s by (auto simp: label_text_def label_char_def list_all_iff)
  then have "\<not> contains_sensitive_material E s" by (auto dest: label_text_not_sensitive)
  ultimately show ?thesis using s by (simp add: label_text_def identifier_ok_def)
qed

text \<open>The reasons in which both letters occur are screened by evaluation.\<close>

definition ascii_secret :: "string \<Rightarrow> bool" where
  "ascii_secret s \<longleftrightarrow> list_ex (\<lambda>(a, b). regex_occurs (Seq a b) None s) secret_patterns"

lemma screened_reasons:
  "\<not> ascii_secret ''cost_budget_exhausted''" "\<not> ascii_secret ''elapsed_budget_exhausted''"
  "\<not> ascii_secret ''budget_exhausted''" "\<not> ascii_secret ''conflicting_authority''"
  "\<not> ascii_secret ''non_authoritative_log_only''" "\<not> ascii_secret ''target_kind_mismatch''"
  "\<not> ascii_secret ''target_scope_mismatch''"
  by code_simp+

lemma screened_identifier_ok:
  assumes "s \<in> set [''cost_budget_exhausted'', ''elapsed_budget_exhausted'', ''budget_exhausted'',
    ''conflicting_authority'', ''non_authoritative_log_only'', ''target_kind_mismatch'', ''target_scope_mismatch'']"
  shows "identifier_ok E s"
proof -
  have "\<not> list_ex (\<lambda>(a, b). regex_occurs (Seq a b) None s) secret_patterns"
    using screened_reasons assms unfolding ascii_secret_def by auto
  moreover have "is_ascii s" "s \<noteq> []" "length s \<le> 128" "identifier_start (hd s)" "list_all identifier_char (tl s)"
    using assms by (auto simp: is_ascii_def identifier_start_def identifier_char_def letter_or_digit_def lower_letter_def)
  ultimately show ?thesis by (simp add: identifier_ok_def contains_sensitive_material_def)
qed

lemmas label_chars = label_text_def plain_char_def word_char_def lower_letter_def digit_char_def
  identifier_start_def letter_or_digit_def

lemma stop_reason_identifier: "identifier_ok E (stop_reason_text r)"
  by (cases r) (simp_all add: label_identifier_ok label_chars screened_identifier_ok)

lemma evidence_reason_identifier: "identifier_ok E (evidence_reason_text r)"
  by (cases r) (simp_all add: label_identifier_ok label_chars screened_identifier_ok)

lemma missing_reason_identifiers:
  "identifier_ok E ''authoritative-terminal-proof-required''" "identifier_ok E ''authoritative-effect-proof-required''"
  by (simp_all add: label_identifier_ok label_chars)

end
