(* ===== verification/Classification_Laws.thy ===== *)
theory Classification_Laws
  imports Reporting Admission_Laws Reason_Labels
begin

text \<open>
  The classifier and the report agree: what the classifier derives from sound attempts passes every
  check by which the report recomputes it. The two are written independently in the code.
\<close>

section \<open>Lists with keys\<close>

lemma find_key: "distinct (map f xs) \<Longrightarrow> x \<in> set xs \<Longrightarrow> find (\<lambda>y. f y = f x) xs = Some x"
  by (induction xs) (auto simp: image_iff)

lemma distinct_map_filter: "distinct (map f xs) \<Longrightarrow> distinct (map f (filter P xs))"
  by (simp add: distinct_map inj_on_def)

lemma list_all_list_ex: "list_all (\<lambda>x. \<not> P x) xs \<Longrightarrow> \<not> list_ex P xs"
  by (simp add: list_all_iff list_ex_iff)

lemma hd_sorted_set: "xs \<noteq> [] \<Longrightarrow> hd (sorted_set xs) = hd (sort xs)"
proof -
  assume xs: "xs \<noteq> []"
  have "hd (sort ys) = Min (set ys)" if "ys \<noteq> []" for ys :: "'a list"
  proof -
    from that have s: "sort ys \<noteq> []" by (metis set_empty set_sort)
    then have "\<forall>y \<in> set ys. hd (sort ys) \<le> y"
      using sorted_sort [of ys] by (cases "sort ys") (auto simp flip: set_sort [of "\<lambda>y. y" ys])
    moreover have "hd (sort ys) \<in> set ys" using s by (metis hd_in_set set_sort)
    ultimately show ?thesis by (metis List.finite_set Min_eqI)
  qed
  then show ?thesis using xs by (simp add: sorted_set_def)
qed

lemma head_sorted_set:
  "(case sorted_set xs of [] \<Rightarrow> t | y # _ \<Rightarrow> y) = (case sort xs of [] \<Rightarrow> t | y # _ \<Rightarrow> y)"
proof (cases "xs = []")
  case False
  then have "sort xs \<noteq> []" by (metis set_empty set_sort)
  with False show ?thesis by (simp add: list.case_eq_if hd_sorted_set)
qed (simp add: sorted_set_def)

lemma sorted_set_distinct: "distinct xs \<Longrightarrow> sorted_set xs = sort xs"
  by (simp add: sorted_set_def distinct_remdups_id)

section \<open>Deduplication\<close>

text \<open>An attempt after deduplication: it is kept, or its decision is replaced.\<close>

definition kept_or_rejected :: "env \<Rightarrow> evidence_attempt \<Rightarrow> evidence_attempt \<Rightarrow> bool" where
  "kept_or_rejected E a b \<longleftrightarrow> b = a \<or> at_evidence a \<noteq> None \<and> reject_duplicate E a = Inr b"

lemma deduplicate_kept:
  "deduplicate_attempts E firsts as = Inr bs \<Longrightarrow> list_all2 (kept_or_rejected E) as bs"
proof (induction E firsts as arbitrary: bs rule: deduplicate_attempts.induct)
  case (2 E firsts a as)
  show ?case
  proof (cases "observation_source a")
    case None
    with 2 show ?thesis by (auto simp: kept_or_rejected_def)
  next
    case (Some source)
    define first_id where "first_id = (case map_of firsts source of None \<Rightarrow> attempt_id a | Some i \<Rightarrow> i)"
    obtain b cs where b: "(if first_id = attempt_id a then Inr a else reject_duplicate E a) = Inr b"
      "deduplicate_attempts E ((source, first_id) # firsts) as = Inr cs" "bs = b # cs"
      using 2(3) Some by (auto simp: Let_def first_id_def)
    have "at_evidence a \<noteq> None" using Some by (auto simp: observation_source_def split: option.splits)
    then have "kept_or_rejected E a b" using b(1) by (auto simp: kept_or_rejected_def split: if_splits)
    moreover have "list_all2 (kept_or_rejected E) as cs" using 2(2) [OF Some first_id_def b(2)] .
    ultimately show ?thesis using b(3) by simp
  qed
qed simp

lemma kept_or_rejected_fields:
  assumes "kept_or_rejected E a b"
  shows "attempt_id b = attempt_id a" "at_probe_sequence b = at_probe_sequence a" "at_evidence b = at_evidence a"
    "at_controller_audit_sha256 b = at_controller_audit_sha256 a" "at_raw_sha256 b = at_raw_sha256 a"
    "at_request_sha256 b = at_request_sha256 a"
    "b = a \<or> ed_disposition (at_decision b) = REJECTED_EVIDENCE \<and> ed_reason (at_decision b) = DUPLICATE_CANDIDATES"
  using assms
  by (auto simp: kept_or_rejected_def reject_duplicate_def build_attempt_Inr attempt_id_def)

lemma kept_or_rejected_sound:
  "kept_or_rejected E a b \<Longrightarrow> attempt_sound E x audit a \<Longrightarrow> attempt_sound E x audit b"
  by (auto simp: kept_or_rejected_def reject_duplicate_def build_attempt_Inr attempt_id_def attempt_sound_def
      evidence_sound_def split: option.splits)

lemma kept_map_eq:
  assumes "list_all2 (kept_or_rejected E) as bs"
    and "\<And>a b. kept_or_rejected E a b \<Longrightarrow> f b = f a"
  shows "map f bs = map f as"
  using assms(1) by (induction rule: list_all2_induct) (simp_all add: assms(2))

lemma kept_sound:
  assumes "list_all2 (kept_or_rejected E) as bs" "list_all2 (attempt_sound E x) audits as"
  shows "list_all2 (attempt_sound E x) audits bs"
  using assms(2,1)
proof (induction audits as arbitrary: bs rule: list_all2_induct)
  case (Cons audit audits a as)
  then show ?case by (cases bs) (auto intro: kept_or_rejected_sound)
qed simp

text \<open>Deduplication never fails on sound attempts.\<close>

lemma reject_duplicate_total:
  assumes "attempt_sound E x audit a" "1 \<le> at_probe_sequence a"
  shows "\<exists>b. reject_duplicate E a = Inr b"
proof -
  have "identifier_ok E (attempt_id a)"
    using assms(1)
    by (simp add: attempt_sound_def accepted_iff validate_evidence_decision_def attempt_id_def)
  then have "accepted (validate_evidence_decision E) (decide (attempt_id a) REJECTED_EVIDENCE DUPLICATE_CANDIDATES)"
    by (simp add: accepted_iff validate_evidence_decision_def decide_def admitted_reasons_def weak_reasons_def)
  then show ?thesis
    using assms
    by (auto simp: reject_duplicate_def build_attempt_Inr attempt_id_def decide_def attempt_sound_def
        evidence_sound_def split: option.splits)
qed

lemma deduplicate_total:
  assumes "list_all2 (attempt_sound E x) audits as" "list_all (\<lambda>a. 1 \<le> at_probe_sequence a) as"
  shows "\<exists>bs. deduplicate_attempts E firsts as = Inr bs"
  using assms
proof (induction audits as arbitrary: firsts rule: list_all2_induct)
  case (Cons audit audits a as)
  then have "\<exists>bs. deduplicate_attempts E f as = Inr bs" for f by simp
  moreover have "\<exists>b. reject_duplicate E a = Inr b" using Cons reject_duplicate_total by fastforce
  ultimately show ?case by (auto split: option.splits simp: Let_def)
qed simp

section \<open>The report of a classified investigation\<close>

text \<open>
  Sound attempts of the audits of one envelope, with different identifiers: what the classifier
  works on once its guards have passed and the duplicates are gone.
\<close>

definition classifiable ::
  "env \<Rightarrow> execution_envelope \<Rightarrow> controller_audit list \<Rightarrow> evidence_attempt list \<Rightarrow> bool" where
  "classifiable E x audits as \<longleftrightarrow>
     envelope_accepted E x \<and> list_all2 (attempt_sound E x) audits as \<and> distinct (map attempt_id as)"

lemma classifiableD:
  assumes "classifiable E x audits as" "a \<in> set as"
  shows "\<exists>audit. (audit, a) \<in> set (zip audits as) \<and> attempt_sound E x audit a"
  using assms unfolding classifiable_def list_all2_iff
  by (metis (mono_tags, lifting) case_prodD in_set_impl_in_set_zip2)

definition evidence_list :: "evidence_attempt list \<Rightarrow> normalized_evidence list" where
  "evidence_list as = map (\<lambda>a. the (at_evidence a)) (filter (\<lambda>a. at_evidence a \<noteq> None) as)"

text \<open>A report that shows these attempts.\<close>

definition shows_attempts :: "controller_audit list \<Rightarrow> evidence_attempt list \<Rightarrow> investigation_report \<Rightarrow> bool" where
  "shows_attempts audits as r \<longleftrightarrow>
     ir_evidence r = evidence_list as \<and> ir_evidence_decisions r = map at_decision as \<and>
     ir_probe_audit r = map2 report_audit audits as"

lemma evidence_name_eq:
  "classifiable E x audits as \<Longrightarrow> a \<in> set as \<Longrightarrow> at_evidence a = Some e \<Longrightarrow> ev_evidence_id e = attempt_id a"
  using classifiableD [of E x audits as a] by (auto simp: attempt_sound_def evidence_sound_def attempt_id_def)

lemma evidence_list_ids:
  assumes "classifiable E x audits as"
  shows "map ev_evidence_id (evidence_list as) = map attempt_id (filter (\<lambda>a. at_evidence a \<noteq> None) as)"
  using evidence_name_eq [OF assms] by (auto simp: evidence_list_def)

lemma decision_ids: "map ed_evidence_id (map at_decision as) = map attempt_id as"
  by (simp add: attempt_id_def)

lemma map2_second: "length us = length bs \<Longrightarrow> map (\<lambda>(u, b). f b) (zip us bs) = map f bs"
  by (induction us bs rule: list_induct2) simp_all

lemma decision_of_attempt:
  assumes "classifiable E x audits as" "shows_attempts audits as r" "a \<in> set as"
  shows "decision_of r (attempt_id a) = Some (at_decision a)"
proof -
  have "distinct (map ed_evidence_id (map at_decision as))"
    using assms(1) unfolding decision_ids by (simp add: classifiable_def)
  from find_key [OF this, of "at_decision a"] show ?thesis
    using assms(2,3) by (simp add: decision_of_def shows_attempts_def attempt_id_def)
qed

lemma evidence_of_attempt:
  assumes "classifiable E x audits as" "shows_attempts audits as r" "a \<in> set as"
  shows "evidence_of r (attempt_id a) = at_evidence a"
proof (cases "at_evidence a")
  case None
  have inj: "inj_on attempt_id (set as)" using assms(1) by (simp add: classifiable_def distinct_map)
  have "attempt_id a \<notin> set (map ev_evidence_id (evidence_list as))"
    unfolding evidence_list_ids [OF assms(1)] using None assms(3) inj_onD [OF inj] by fastforce
  then show ?thesis
    using None assms(2) by (auto simp: evidence_of_def shows_attempts_def find_None_iff image_iff)
next
  case (Some e)
  have d: "distinct (map ev_evidence_id (evidence_list as))"
    using assms(1) by (simp add: evidence_list_ids [OF assms(1)] distinct_map_filter classifiable_def)
  have "e \<in> set (evidence_list as)" using Some assms(3) by (force simp: evidence_list_def)
  from find_key [OF d this] show ?thesis
    using assms(2) Some evidence_name_eq [OF assms(1,3) Some] by (simp add: evidence_of_def shows_attempts_def)
qed

lemma audit_of_attempt:
  assumes "classifiable E x audits as" "shows_attempts audits as r" "(audit, a) \<in> set (zip audits as)"
  shows "audit_of r (attempt_id a) = Some (report_audit audit a)"
proof -
  have len: "length audits = length as" using assms(1) by (auto simp: classifiable_def dest: list_all2_lengthD)
  have "find (\<lambda>p. i \<in> set (pu_evidence_ids p)) (map2 report_audit us bs) =
      map_option (\<lambda>p. report_audit (fst p) (snd p)) (find (\<lambda>p. attempt_id (snd p) = i) (zip us bs))"
    if "length us = length bs" for i us bs
    using that by (induction us bs rule: list_induct2) (auto simp: report_audit_def)
  note view = this [OF len]
  have "map (\<lambda>p. attempt_id (snd p)) (zip audits as) = map attempt_id as"
    using map2_second [OF len] by (simp add: case_prod_beta')
  then have "distinct (map (\<lambda>p. attempt_id (snd p)) (zip audits as))"
    using assms(1) by (simp add: classifiable_def)
  from find_key [OF this assms(3)] show ?thesis
    using assms(2) view [of "attempt_id a"] by (simp add: audit_of_def shows_attempts_def)
qed

lemma decided_attempts:
  assumes "shows_attempts audits as r"
  shows "decided r d = map attempt_id (filter (\<lambda>a. ed_disposition (at_decision a) = d) as)"
  using assms by (simp add: decided_def shows_attempts_def filter_map attempt_id_def comp_def)

lemma admitted_have_evidence:
  assumes "classifiable E x audits as" "a \<in> set as" "ed_disposition (at_decision a) \<noteq> REJECTED_EVIDENCE"
  shows "at_evidence a \<noteq> None"
  using classifiableD [OF assms(1,2)] assms(3) by (auto simp: attempt_sound_def split: option.splits)

lemma admitted_attempts_eq:
  assumes "classifiable E x audits as"
  shows "filter (\<lambda>a. ed_disposition (at_decision a) = ADMITTED) as = admitted_attempts as"
  unfolding admitted_attempts_def using admitted_have_evidence [OF assms] by (intro filter_cong) auto

section \<open>Identity and admission\<close>

definition passes :: "(bool \<times> string) list \<Rightarrow> bool" where
  "passes cs \<longleftrightarrow> list_all (\<lambda>(bad, _). \<not> bad) cs"

lemma passes_simps [simp]:
  "passes []" "passes ((bad, m) # cs) \<longleftrightarrow> \<not> bad \<and> passes cs" "passes (cs @ ds) \<longleftrightarrow> passes cs \<and> passes ds"
  "passes (concat (map f xs)) \<longleftrightarrow> (\<forall>x \<in> set xs. passes (f x))"
  by (auto simp: passes_def list_all_iff)

lemma checked_passes: "checked cs x = Inr x \<longleftrightarrow> passes cs"
  by (simp add: passes_def)

lemma audit_source_checks_pass:
  assumes "length us = length bs" "distinct (map attempt_id bs)" "set (map attempt_id bs) \<inter> set seen = {}"
    and "set decisions = set (map attempt_id bs) \<union> set seen"
  shows "passes (audit_source_checks decisions seen (map2 report_audit us bs))"
  using assms
proof (induction us bs arbitrary: seen rule: list_induct2)
  case (Cons u us b bs)
  have "passes (audit_source_checks decisions (attempt_id b # seen) (map2 report_audit us bs))"
    using Cons.prems by (intro Cons.IH) auto
  then show ?case using Cons.prems by (auto simp: report_audit_def)
qed simp

lemma report_audit_sequences:
  "length us = length bs \<Longrightarrow> map pu_probe_sequence (map2 report_audit us bs) = map ca_sequence us"
  by (induction us bs rule: list_induct2) (simp_all add: report_audit_def)

definition completed_report :: "investigation_report \<Rightarrow> bool" where
  "completed_report r \<longleftrightarrow>
     ir_status r = IS_COMPLETED \<and> ir_proof r \<noteq> None \<and> ir_classification r \<noteq> None \<and> ir_action_gate r \<noteq> [] \<and>
     ir_created_at r \<le> ir_updated_at r"

lemma identity_checks_pass:
  assumes c: "classifiable E x audits as" "shows_attempts audits as r" "completed_report r"
    and n: "map ca_sequence audits = map int [1..<length audits + 1]"
  shows "passes (identity_checks r)"
proof -
  have len: "length audits = length as" using c(1) by (auto simp: classifiable_def dest: list_all2_lengthD)
  have d: "distinct (map attempt_id as)" using c(1) by (simp add: classifiable_def)
  have ids: "map ev_evidence_id (ir_evidence r) = map attempt_id (filter (\<lambda>a. at_evidence a \<noteq> None) as)"
    "map ed_evidence_id (ir_evidence_decisions r) = map attempt_id as"
    using c(2) evidence_list_ids [OF c(1)] decision_ids by (simp_all add: shows_attempts_def)
  have "map pu_probe_sequence (ir_probe_audit r) = map ca_sequence audits"
    using c(2) report_audit_sequences [OF len] by (simp add: shows_attempts_def)
  moreover have "length (ir_probe_audit r) = length audits" using c(2) len by (simp add: shows_attempts_def)
  ultimately have n': "map pu_probe_sequence (ir_probe_audit r) = map int [1..<length (ir_probe_audit r) + 1]"
    using n by simp
  have omit: "\<not> list_ex (\<lambda>d. ed_disposition d \<noteq> REJECTED_EVIDENCE \<and>
      ed_evidence_id d \<notin> set (map attempt_id (filter (\<lambda>a. at_evidence a \<noteq> None) as))) (map at_decision as)"
    using admitted_have_evidence [OF c(1)] by (fastforce simp: list_ex_iff attempt_id_def)
  have "passes (audit_source_checks (map attempt_id as) [] (map2 report_audit audits as))"
    using d len by (intro audit_source_checks_pass) simp_all
  then show ?thesis
    unfolding identity_checks_def Let_def ids n'
    using c(3) omit d distinct_map_filter [OF d, of "\<lambda>a. at_evidence a \<noteq> None"] c(2)
    by (auto simp: completed_report_def shows_attempts_def)
qed

lemma evidence_listE:
  assumes "classifiable E x audits as" "e \<in> set (evidence_list as)"
  obtains audit a where "(audit, a) \<in> set (zip audits as)" "at_evidence a = Some e" "a \<in> set as"
    "ev_evidence_id e = attempt_id a" "evidence_sound E x audit (at_decision a) e"
proof -
  obtain a where a: "a \<in> set as" "at_evidence a = Some e" using assms(2) by (auto simp: evidence_list_def)
  obtain audit where "(audit, a) \<in> set (zip audits as)" "attempt_sound E x audit a"
    using classifiableD [OF assms(1) a(1)] by blast
  then show ?thesis using that a evidence_name_eq [OF assms(1) a] by (simp add: attempt_sound_def)
qed

lemma admitted_itemsE:
  assumes "classifiable E x audits as" "e \<in> set (admitted_items as)"
  obtains audit a where "a \<in> set as" "at_evidence a = Some e" "ed_disposition (at_decision a) = ADMITTED"
    "retained_sound x audit (at_decision a) e" "ev_evidence_id e = attempt_id a"
    "accepted (validate_normalized_evidence E) e"
proof -
  obtain a where a: "a \<in> set as" "at_evidence a = Some e" "ed_disposition (at_decision a) = ADMITTED"
    using assms(2) by (auto simp: admitted_items_def admitted_attempts_def)
  obtain audit where "(audit, a) \<in> set (zip audits as)" "attempt_sound E x audit a"
    using classifiableD [OF assms(1) a(1)] by blast
  then show ?thesis using that a evidence_name_eq [OF assms(1) a(1,2)]
    by (auto simp: attempt_sound_def evidence_sound_def)
qed

lemma evidence_checks_pass:
  assumes "classifiable E x audits as" "shows_attempts audits as r" "e \<in> set (evidence_list as)"
  shows "passes (evidence_checks E r e)"
proof -
  obtain audit a where a: "(audit, a) \<in> set (zip audits as)" "at_evidence a = Some e" "a \<in> set as"
    "ev_evidence_id e = attempt_id a" and e: "evidence_sound E x audit (at_decision a) e"
    using evidence_listE [OF assms(1,3)] by blast
  show ?thesis
    using e unfolding evidence_checks_def a(4) audit_of_attempt [OF assms(1,2) a(1)]
      decision_of_attempt [OF assms(1,2) a(3)]
    by (auto simp: report_audit_def evidence_sound_def retained_sound_def target_sha256_def canonical_sha256_def)
qed

lemma reason_checks_pass:
  assumes "classifiable E x audits as" "shows_attempts audits as r" "a \<in> set as"
  shows "passes (reason_checks r (at_decision a))"
proof (cases "at_evidence a")
  case None
  then show ?thesis
    using evidence_of_attempt [OF assms] by (simp add: reason_checks_def attempt_id_def)
next
  case (Some e)
  obtain audit where "attempt_sound E x audit a" using classifiableD [OF assms(1,3)] by blast
  then have "evidence_sound E x audit (at_decision a) e" using Some by (simp add: attempt_sound_def)
  then show ?thesis
    using evidence_of_attempt [OF assms] Some
    by (cases "ed_disposition (at_decision a)")
      (auto simp: reason_checks_def attempt_id_def evidence_sound_def retained_sound_def)
qed

lemma admission_checks_pass:
  assumes c: "classifiable E x audits as" "shows_attempts audits as r"
  shows "passes (admission_checks E r)"
proof -
  have sound: "\<exists>audit e. at_evidence a = Some e \<and> evidence_of r (attempt_id a) = Some e \<and>
      evidence_sound E x audit (at_decision a) e" if "a \<in> set as" "ed_disposition (at_decision a) \<noteq> REJECTED_EVIDENCE" for a
    using classifiableD [OF c(1) that(1)] admitted_have_evidence [OF c(1) that] evidence_of_attempt [OF c that(1)]
    by (auto simp: attempt_sound_def)
  have admitted: "\<not> list_ex (\<lambda>i. ev_authority (the (evidence_of r i)) \<noteq> TARGET_STATE) (decided r ADMITTED)"
    unfolding decided_attempts [OF c(2)] using sound
    by (fastforce simp: list_ex_iff evidence_sound_def retained_sound_def)
  have weak: "\<not> list_ex (\<lambda>i. ev_authority (the (evidence_of r i)) = TARGET_STATE) (decided r WEAK_EVIDENCE)"
    unfolding decided_attempts [OF c(2)] using sound
    by (fastforce simp: list_ex_iff evidence_sound_def retained_sound_def)
  have items: "ev_authority_policy_version e = pr_authority (ec_policies (xe_context x))"
    "canonical_sha256 E (target_binding_json (ev_target e)) = target_sha256 E x"
    if "e \<in> set (admitted_evidence r)" for e
    using that sound unfolding admitted_evidence_def decided_attempts [OF c(2)]
    by (fastforce simp: evidence_sound_def retained_sound_def canonical_sha256_def target_sha256_def)+
  have "passes (case admitted_evidence r of [] \<Rightarrow> []
      | first # rest \<Rightarrow>
        [(list_ex (\<lambda>e. canonical_sha256 E (target_binding_json (ev_target e)) \<noteq>
             canonical_sha256 E (target_binding_json (ev_target first))) rest, ''admitted evidence targets must match''),
         (list_ex (\<lambda>e. ev_authority_policy_version e \<noteq> ev_authority_policy_version first) rest,
            ''admitted evidence authority policies must match'')])"
    using items by (cases "admitted_evidence r") (auto simp: list_ex_iff)
  then show ?thesis
    unfolding admission_checks_def
    using admitted weak evidence_checks_pass [OF c] reason_checks_pass [OF c] c(2)
    by (auto simp: shows_attempts_def)
qed

section \<open>The proof\<close>

definition stated :: "normalized_evidence \<Rightarrow> string \<Rightarrow> effect_assertion_state option" where
  "stated e effect = map_of (map (\<lambda>a. (ea_effect_id a, ea_state a)) (ev_effect_assertions e)) effect"

lemma filter_key_map_of:
  "distinct (map f xs) \<Longrightarrow> map g (filter (\<lambda>x. f x = k) xs) =
     (case map_of (map (\<lambda>x. (f x, g x)) xs) k of None \<Rightarrow> [] | Some y \<Rightarrow> [y])"
proof (induction xs)
  case (Cons x xs)
  have "filter (\<lambda>y. f y = f x) xs = []" using Cons.prems by (auto simp: filter_empty_conv image_iff)
  then show ?case using Cons by auto
qed simp

text \<open>Items whose identifiers differ, each with one assertion per effect.\<close>

definition distinct_items :: "normalized_evidence list \<Rightarrow> bool" where
  "distinct_items items \<longleftrightarrow>
     distinct (map ev_evidence_id items) \<and>
     list_all (\<lambda>e. distinct (map ea_effect_id (ev_effect_assertions e))) items"

lemma effect_values_Cons:
  assumes "distinct_items (e # items)"
  shows "effect_values (e # items) effect =
    (case stated e effect of None \<Rightarrow> [] | Some s \<Rightarrow> [(s, ev_evidence_id e)]) @ effect_values items effect"
proof -
  have "distinct (map ea_effect_id (ev_effect_assertions e))" using assms by (simp add: distinct_items_def)
  from filter_key_map_of [OF this, of ea_state effect]
  have "map ea_state (filter (\<lambda>a. ea_effect_id a = effect) (ev_effect_assertions e)) =
      (case stated e effect of None \<Rightarrow> [] | Some s \<Rightarrow> [s])"
    by (simp add: stated_def)
  then have "map (\<lambda>s. (s, ev_evidence_id e)) (map ea_state (filter (\<lambda>a. ea_effect_id a = effect) (ev_effect_assertions e))) =
      (case stated e effect of None \<Rightarrow> [] | Some s \<Rightarrow> [(s, ev_evidence_id e)])"
    by (simp split: option.splits)
  then show ?thesis by (simp add: effect_values_def comp_def)
qed

lemma set_effect_values:
  "distinct_items items \<Longrightarrow>
     set (effect_values items effect) = {(s, i). \<exists>e \<in> set items. ev_evidence_id e = i \<and> stated e effect = Some s}"
proof (induction items)
  case Nil
  show ?case by (simp add: effect_values_def)
next
  case (Cons e items)
  then have "distinct_items items" by (simp add: distinct_items_def)
  with Cons show ?case by (auto simp: effect_values_Cons split: option.splits)
qed

lemma distinct_effect_values: "distinct_items items \<Longrightarrow> distinct (map snd (effect_values items effect))"
proof (induction items)
  case Nil
  show ?case by (simp add: effect_values_def)
next
  case (Cons e items)
  then have d: "distinct_items items" by (simp add: distinct_items_def)
  have "ev_evidence_id e \<notin> set (map snd (effect_values items effect))"
    using Cons.prems set_effect_values [OF d, of effect] by (auto simp: distinct_items_def)
  then show ?case using Cons.IH [OF d] by (auto simp: effect_values_Cons [OF Cons.prems] split: option.splits)
qed

lemma admitted_distinct:
  assumes "classifiable E x audits as"
  shows "distinct_items (admitted_items as)"
proof -
  have "map ev_evidence_id (admitted_items as) = map attempt_id (admitted_attempts as)"
    using evidence_name_eq [OF assms] by (auto simp: admitted_items_def admitted_attempts_def)
  moreover have "distinct (map attempt_id (admitted_attempts as))"
    using assms by (simp add: admitted_attempts_def distinct_map_filter classifiable_def)
  moreover have "distinct (map ea_effect_id (ev_effect_assertions e))" if "e \<in> set (admitted_items as)" for e
    using admitted_itemsE [OF assms that] by (auto simp: accepted_iff validate_normalized_evidence_def)
  ultimately show ?thesis by (auto simp: distinct_items_def list_all_iff)
qed

lemma evidence_of_admitted:
  assumes "classifiable E x audits as" "shows_attempts audits as r" "a \<in> set (admitted_attempts as)"
  shows "evidence_of r (attempt_id a) = Some (the (at_evidence a))" "ev_evidence_id (the (at_evidence a)) = attempt_id a"
  using assms evidence_of_attempt [OF assms(1,2)] evidence_name_eq [OF assms(1)] by (auto simp: admitted_attempts_def)

lemma report_values:
  assumes "classifiable E x audits as" "shows_attempts audits as r"
  shows "assertion_values r (map attempt_id (admitted_attempts as)) effect = effect_values (admitted_items as) effect"
    "status_values r (map attempt_id (admitted_attempts as)) = statuses_of (admitted_items as)"
  using evidence_of_admitted [OF assms]
  by (auto simp: assertion_values_def effect_values_def status_values_def statuses_of_def admitted_items_def comp_def
      intro!: arg_cong [where f = concat] map_cong)

lemma cited_state_stated:
  assumes "classifiable E x audits as" "shows_attempts audits as r" "e \<in> set (admitted_items as)"
  shows "cited_state r effect (ev_evidence_id e) = stated e effect"
  using assms(3) evidence_of_admitted [OF assms(1,2)]
  by (auto simp: cited_state_def stated_def admitted_items_def)

lemma aggregate_state_eq: "aggregate_state states = effect_state states"
  by (simp add: aggregate_state_def effect_state_def contradictory_def effect_conflicts_def)

lemma contradictory_eq: "contradictory states = effect_conflicts states"
  by (simp add: contradictory_def effect_conflicts_def)

lemma core_finding_fields [simp]:
  "ff_effect_id (core_finding items f) = ee_effect_id f"
  "ff_commit_scope (core_finding items f) = ee_commit_scope f"
  "ff_state (core_finding items f) = effect_state (map fst (effect_values items (ee_effect_id f)))"
  by (simp_all add: core_finding_def Let_def)

definition definitive_values :: "(effect_assertion_state \<times> string) list \<Rightarrow> (effect_assertion_state \<times> string) list" where
  "definitive_values vs = filter (\<lambda>(state, _). state \<noteq> UNVERIFIED) vs"

lemma core_finding_citations:
  assumes "distinct_items items"
  shows "ff_evidence_ids (core_finding items f) = definitive_citations (effect_values items (ee_effect_id f))"
    "set (ff_evidence_ids (core_finding items f)) = snd ` set (definitive_values (effect_values items (ee_effect_id f)))"
  using distinct_map_filter [OF distinct_effect_values [OF assms]]
  by (simp_all add: core_finding_def Let_def definitive_citations_def definitive_values_def sorted_set_distinct)

lemma effect_state_cases:
  "effect_state states \<noteq> UNVERIFIED \<Longrightarrow> \<exists>s \<in> set states. s \<noteq> UNVERIFIED"
  "effect_state states = UNVERIFIED \<Longrightarrow> s \<in> set states \<Longrightarrow> s \<noteq> UNVERIFIED \<Longrightarrow> effect_conflicts states"
  "effect_state states = t \<Longrightarrow> t \<noteq> UNVERIFIED \<Longrightarrow> s \<in> set states \<Longrightarrow> s \<noteq> UNVERIFIED \<Longrightarrow> s = t"
  by (cases s; auto simp: effect_state_def effect_conflicts_def split: if_splits)+

lemma finding_checks_pass:
  assumes c: "classifiable E x audits as" "shows_attempts audits as r"
    and p: "dp_admitted_evidence_ids p = map attempt_id (admitted_attempts as)"
      "effect_conflicts (map fst (effect_values (admitted_items as) (ee_effect_id f))) \<Longrightarrow> dp_conflicting_authority p"
  shows "passes (finding_checks r p (core_finding (admitted_items as) f))"
proof -
  let ?items = "admitted_items as" and ?effect = "ee_effect_id f"
  let ?stated = "effect_values ?items ?effect" and ?f = "core_finding ?items f"
  let ?cited = "map (\<lambda>i. the (cited_state r ?effect i)) (ff_evidence_ids ?f)"
  have d: "distinct_items ?items" by (rule admitted_distinct [OF c(1)])
  note ids = core_finding_citations [OF d, of f]
  have cited: "cited_state r ?effect i = Some s" if "(s, i) \<in> set ?stated" for s i
    using that cited_state_stated [OF c] by (auto simp: set_effect_values [OF d])
  have states: "set ?cited = fst ` set (definitive_values ?stated)"
    unfolding set_map ids(2) image_image
    by (rule image_cong [OF refl]) (auto simp: definitive_values_def dest!: cited)
  have known: "cited_state r ?effect i \<noteq> None" if "i \<in> set (ff_evidence_ids ?f)" for i
    using that unfolding ids(2) by (auto simp: definitive_values_def dest: cited)
  have subset: "set (ff_evidence_ids ?f) \<subseteq> set (map attempt_id (admitted_attempts as))"
  proof
    fix i assume "i \<in> set (ff_evidence_ids ?f)"
    then obtain e where "e \<in> set ?items" "ev_evidence_id e = i"
      unfolding ids(2) by (auto simp: definitive_values_def set_effect_values [OF d])
    then show "i \<in> set (map attempt_id (admitted_attempts as))"
      using evidence_of_admitted(2) [OF c] by (auto simp: admitted_items_def)
  qed
  have empty: "ff_evidence_ids ?f = [] \<longleftrightarrow> (\<forall>s \<in> fst ` set ?stated. s = UNVERIFIED)"
    using ids(2) by (auto simp: definitive_values_def set_empty [symmetric] simp del: set_empty)
  have conflict: "contradictory ?cited \<longleftrightarrow> effect_conflicts (map fst ?stated)"
    unfolding contradictory_def effect_conflicts_def states by (force simp: definitive_values_def)
  have agree: "s = ff_state ?f" if "ff_state ?f \<noteq> UNVERIFIED" "s \<in> set ?cited" for s
  proof (rule effect_state_cases(3) [of "map fst ?stated"])
    show "s \<in> set (map fst ?stated)" "s \<noteq> UNVERIFIED"
      using that(2) unfolding states by (force simp: definitive_values_def)+
  qed (use that(1) in simp_all)
  have weak: "effect_conflicts (map fst ?stated)" if "ff_state ?f = UNVERIFIED" "ff_evidence_ids ?f \<noteq> []"
  proof -
    from that(2) obtain s where "s \<in> set (map fst ?stated)" "s \<noteq> UNVERIFIED" unfolding empty by auto
    then show ?thesis using that(1) by (intro effect_state_cases(2)) simp_all
  qed
  show ?thesis
    unfolding finding_checks_def Let_def p(1) core_finding_fields(1) report_values(1) [OF c] aggregate_state_eq
    using known subset empty conflict agree weak p(2) ids(1) effect_state_cases(1) [of "map fst ?stated"]
    by (auto simp: list_ex_iff)
qed

lemma finding_states:
  "effects_in state (core_proof as effects) = proved_effects (admitted_items as) effects state"
  "list_ex (\<lambda>f. ff_state f = ESTABLISHED) (dp_effect_findings (core_proof as effects)) \<longleftrightarrow>
     proved_effects (admitted_items as) effects ESTABLISHED \<noteq> []"
  "list_all (\<lambda>f. ff_state f = ESTABLISHED) (dp_effect_findings (core_proof as effects)) \<longleftrightarrow>
     length (proved_effects (admitted_items as) effects ESTABLISHED) = length effects"
proof -
  show "effects_in state (core_proof as effects) = proved_effects (admitted_items as) effects state"
    by (simp add: effects_in_def proved_effects_def core_proof_def Let_def filter_map comp_def)
  show "list_ex (\<lambda>f. ff_state f = ESTABLISHED) (dp_effect_findings (core_proof as effects)) \<longleftrightarrow>
     proved_effects (admitted_items as) effects ESTABLISHED \<noteq> []"
    by (auto simp: proved_effects_def core_proof_def Let_def list_ex_iff filter_empty_conv)
  have "length (filter P xs) = length xs \<longleftrightarrow> list_all P xs" for P and xs :: "expected_effect list"
    by (metis filter_True length_filter_less less_irrefl list_all_iff)
  then show "list_all (\<lambda>f. ff_state f = ESTABLISHED) (dp_effect_findings (core_proof as effects)) \<longleftrightarrow>
     length (proved_effects (admitted_items as) effects ESTABLISHED) = length effects"
    by (simp add: proved_effects_def core_proof_def Let_def list_all_iff)
qed

lemma aggregate_conflict_eq:
  assumes "classifiable E x audits as" "shows_attempts audits as r"
  shows "aggregate_conflict r (core_proof as effects) = evidence_conflict (admitted_items as) effects"
proof -
  let ?p = "core_proof as effects"
  have ids: "dp_admitted_evidence_ids ?p = map attempt_id (admitted_attempts as)" by (simp add: core_proof_def Let_def)
  have "list_ex (\<lambda>f. contradictory (map fst (effect_values (admitted_items as) (ff_effect_id f)))) (dp_effect_findings ?p) \<longleftrightarrow>
      list_ex (\<lambda>f. effect_conflicts (map fst (effect_values (admitted_items as) (ee_effect_id f)))) effects"
    by (simp add: contradictory_eq list_ex_iff core_proof_def Let_def)
  then show ?thesis
    unfolding aggregate_conflict_def status_conflict_def evidence_conflict_def Let_def ids report_values [OF assms]
      finding_states(2,3)
    by auto
qed

lemma proof_checks_pass:
  assumes c: "classifiable E x audits as" "shows_attempts audits as r"
  shows "passes (proof_checks r (core_proof as (xe_expected_effects x)))"
proof -
  let ?effects = "xe_expected_effects x" and ?items = "admitted_items as"
  let ?p = "core_proof as ?effects"
  have ids: "dp_admitted_evidence_ids ?p = map attempt_id (admitted_attempts as)" by (simp add: core_proof_def Let_def)
  have decided: "decided r ADMITTED = map attempt_id (admitted_attempts as)"
    by (simp only: decided_attempts [OF c(2)] admitted_attempts_eq [OF c(1)])
  have covered: "\<not> list_ex (\<lambda>a. ea_effect_id a \<notin> set (map ff_effect_id (dp_effect_findings ?p)))
      (ev_effect_assertions (the (evidence_of r (attempt_id a))))" if "a \<in> set (admitted_attempts as)" for a
  proof -
    have "the (at_evidence a) \<in> set ?items" using that by (simp add: admitted_items_def)
    then have "set (map ea_effect_id (ev_effect_assertions (the (at_evidence a)))) \<subseteq> set (map ee_effect_id ?effects)"
      by (rule admitted_itemsE [OF c(1)]) (simp add: retained_sound_def)
    moreover have "map ff_effect_id (dp_effect_findings ?p) = map ee_effect_id ?effects"
      by (simp add: core_proof_def Let_def comp_def)
    ultimately show ?thesis using evidence_of_admitted(1) [OF c that] by (auto simp: list_ex_iff)
  qed
  have findings: "passes (finding_checks r ?p f)" if f_in: "f \<in> set (dp_effect_findings ?p)" for f
  proof -
    obtain effect where f: "f = core_finding ?items effect" "effect \<in> set ?effects"
      using f_in by (auto simp: core_proof_def Let_def)
    have "dp_conflicting_authority ?p"
      if "effect_conflicts (map fst (effect_values ?items (ee_effect_id effect)))"
      using that f(2) by (auto simp: core_proof_def Let_def evidence_conflict_def list_ex_iff)
    then show ?thesis unfolding f(1) by (intro finding_checks_pass [OF c ids])
  qed
  have status: "dp_operation_status ?p = expected_status (statuses_of ?items) (evidence_conflict ?items ?effects)"
    by (simp add: core_proof_def Let_def core_status_def expected_status_def)
  have flag: "dp_conflicting_authority ?p = evidence_conflict ?items ?effects" by (simp add: core_proof_def Let_def)
  show ?thesis
    unfolding proof_checks_def Let_def ids decided aggregate_conflict_eq [OF c] report_values(2) [OF c] status flag
    using covered findings by (auto simp: list_ex_iff)
qed

section \<open>The classification\<close>

lemma scope_sets:
  "proof_scopes (core_proof as effects) = commit_scopes effects"
  "full_scopes state (core_proof as effects) =
     covered_scopes effects (proved_effects (admitted_items as) effects state)"
proof -
  show s: "proof_scopes (core_proof as effects) = commit_scopes effects"
    by (simp add: proof_scopes_def commit_scopes_def core_proof_def Let_def comp_def)
  have "scope_effects (core_proof as effects) t = map ee_effect_id (filter (\<lambda>f. ee_commit_scope f = t) effects)" for t
    by (simp add: scope_effects_def core_proof_def Let_def filter_map comp_def)
  then show "full_scopes state (core_proof as effects) =
     covered_scopes effects (proved_effects (admitted_items as) effects state)"
    unfolding full_scopes_def covered_scopes_def s finding_states(1)
    by (intro filter_cong) (auto simp: list_all_iff)
qed

lemma core_proof_fields [simp]:
  "dp_effect_findings (core_proof as effects) = map (core_finding (admitted_items as)) effects"
  "dp_conflicting_authority (core_proof as effects) = evidence_conflict (admitted_items as) effects"
  "dp_operation_status (core_proof as effects) =
     core_status (statuses_of (admitted_items as)) (evidence_conflict (admitted_items as) effects)"
  by (simp_all add: core_proof_def Let_def)

lemma not_committed_status:
  assumes "\<not> evidence_conflict items effects"
  shows "core_status (statuses_of items) (evidence_conflict items effects) = Some TERMINAL_NOT_COMMITTED \<longleftrightarrow>
    TERMINAL_NOT_COMMITTED \<in> set (statuses_of items)"
  using assms unfolding evidence_conflict_def core_status_def Let_def by auto

text \<open>The classifier's precedence is the one that the report recomputes from the proof.\<close>

lemma classification_agrees:
  "expected_classification (core_proof as effects) = core_classification (admitted_items as) effects"
proof -
  have "partial_proof (core_proof as effects) =
      mixed_scopes effects (proved_effects (admitted_items as) effects ESTABLISHED)
        (proved_effects (admitted_items as) effects NOT_ESTABLISHED)"
    by (simp add: partial_proof_def mixed_scopes_def Let_def scope_sets)
  then show ?thesis
    using not_committed_status [of "admitted_items as" effects]
    by (simp add: expected_classification_def core_classification_def Let_def finding_states(1))
qed

definition state_of :: "normalized_evidence list \<Rightarrow> expected_effect \<Rightarrow> effect_assertion_state" where
  "state_of items f = effect_state (map fst (effect_values items (ee_effect_id f)))"

lemma proved_iff:
  assumes "distinct (map ee_effect_id effects)" "f \<in> set effects"
  shows "ee_effect_id f \<in> set (proved_effects items effects state) \<longleftrightarrow> state_of items f = state"
  using assms by (auto simp: proved_effects_def state_of_def distinct_map inj_on_def)

text \<open>In a partial outcome every scope is wholly established or wholly absent.\<close>

lemma mixed_scopes_states:
  assumes "distinct (map ee_effect_id effects)"
    and m: "mixed_scopes effects (proved_effects items effects ESTABLISHED) (proved_effects items effects NOT_ESTABLISHED)"
  shows "proved_effects items effects ESTABLISHED \<noteq> []"
    "\<And>f. f \<in> set effects \<Longrightarrow> state_of items f \<noteq> UNVERIFIED"
    "\<And>f g. f \<in> set effects \<Longrightarrow> g \<in> set effects \<Longrightarrow> ee_commit_scope f = ee_commit_scope g \<Longrightarrow>
       state_of items f = ESTABLISHED \<longleftrightarrow> state_of items g = ESTABLISHED"
proof -
  let ?full = "covered_scopes effects (proved_effects items effects ESTABLISHED)"
  let ?absent = "covered_scopes effects (proved_effects items effects NOT_ESTABLISHED)"
  have covered: "state_of items f = state"
    if "s \<in> set (covered_scopes effects (proved_effects items effects state))" "f \<in> set effects" "ee_commit_scope f = s"
    for s f state
    using that proved_iff [OF assms(1) that(2)] by (auto simp: covered_scopes_def list_all_iff)
  have scopes: "ee_commit_scope f \<in> set ?full \<or> ee_commit_scope f \<in> set ?absent" if "f \<in> set effects" for f
    using m that by (force simp: mixed_scopes_def Let_def commit_scopes_def)
  obtain s where s: "s \<in> set ?full" using m by (cases ?full) (auto simp: mixed_scopes_def Let_def)
  then obtain f where "f \<in> set effects" "ee_commit_scope f = s" by (auto simp: covered_scopes_def commit_scopes_def)
  then show "proved_effects items effects ESTABLISHED \<noteq> []"
    using covered [OF s] proved_iff [OF assms(1), of f items ESTABLISHED] by auto
  show "state_of items f \<noteq> UNVERIFIED" if "f \<in> set effects" for f
    using scopes [OF that] covered [OF _ that refl] by (metis effect_assertion_state.distinct(3,5))
  show "state_of items f = ESTABLISHED \<longleftrightarrow> state_of items g = ESTABLISHED"
    if "f \<in> set effects" "g \<in> set effects" "ee_commit_scope f = ee_commit_scope g" for f g
    using scopes [OF that(1)] covered [OF _ that(1) refl] covered [OF _ that(2)] that(3)
    by (metis effect_assertion_state.distinct(1))
qed

lemma core_classification_cases:
  fixes items effects
  defines "c \<equiv> core_classification items effects" and "conflicting \<equiv> evidence_conflict items effects"
    and "status \<equiv> core_status (statuses_of items) (evidence_conflict items effects)"
    and "established \<equiv> proved_effects items effects ESTABLISHED"
  shows "conflicting \<Longrightarrow> c = UNKNOWN"
    "c = COMMITTED \<longleftrightarrow> \<not> conflicting \<and> length established = length effects"
    "c = NOT_COMMITTED \<Longrightarrow> \<not> conflicting \<and> status = Some TERMINAL_NOT_COMMITTED \<and> established = []"
    "c = PENDING \<Longrightarrow> \<not> conflicting \<and> status \<in> {Some ACTIVE, Some UNRESOLVED} \<and> length established \<noteq> length effects"
    "c = PARTIAL \<Longrightarrow> \<not> conflicting \<and> status \<noteq> Some ACTIVE \<and> length established \<noteq> length effects \<and>
       mixed_scopes effects established (proved_effects items effects NOT_ESTABLISHED)"
  using not_committed_status [of items effects] unfolding assms core_classification_def Let_def
  by (simp_all split: if_splits)

lemma all_established:
  "length (proved_effects items effects ESTABLISHED) = length effects \<longleftrightarrow>
     (\<forall>f \<in> set effects. state_of items f = ESTABLISHED)"
proof -
  have "length (filter P xs) = length xs \<longleftrightarrow> (\<forall>x \<in> set xs. P x)" for P and xs :: "expected_effect list"
    by (metis filter_True length_filter_less less_irrefl)
  then show ?thesis by (simp add: proved_effects_def state_of_def)
qed

lemma split_scope_core:
  "split_scope (core_proof as effects) \<longleftrightarrow>
     list_ex (\<lambda>f. list_ex (\<lambda>g. ee_commit_scope f = ee_commit_scope g \<and>
       (state_of (admitted_items as) f = ESTABLISHED) \<noteq> (state_of (admitted_items as) g = ESTABLISHED)) effects) effects"
  by (simp only: split_scope_def list_ex_iff core_proof_fields set_map bex_simps(7) core_finding_fields state_of_def)

lemma state_checks_pass:
  assumes d: "distinct (map ee_effect_id effects)"
  shows "passes (state_checks (core_classification (admitted_items as) effects) (core_proof as effects))"
proof -
  let ?items = "admitted_items as" and ?c = "core_classification (admitted_items as) effects"
  note cases = core_classification_cases [of ?items effects]
  have committed: "?c = COMMITTED \<Longrightarrow> \<not> list_ex (\<lambda>s. s \<noteq> ESTABLISHED) (map ff_state (map (core_finding ?items) effects))"
    using cases(2) all_established [of ?items effects] by (auto simp: list_ex_iff state_of_def)
  have partial: "UNVERIFIED \<notin> set (map ff_state (map (core_finding ?items) effects))"
    "\<not> split_scope (core_proof as effects)" "proved_effects ?items effects ESTABLISHED \<noteq> []" if "?c = PARTIAL"
  proof -
    have "mixed_scopes effects (proved_effects ?items effects ESTABLISHED) (proved_effects ?items effects NOT_ESTABLISHED)"
      using cases(5) [OF that] by blast
    note m = mixed_scopes_states [OF d this]
    show "proved_effects ?items effects ESTABLISHED \<noteq> []" by (rule m)
    show "UNVERIFIED \<notin> set (map ff_state (map (core_finding ?items) effects))"
      using m(2) by (fastforce simp: state_of_def)
    have "\<not> list_ex (\<lambda>g. ee_commit_scope f = ee_commit_scope g \<and>
        (state_of ?items f = ESTABLISHED) \<noteq> (state_of ?items g = ESTABLISHED)) effects" if "f \<in> set effects" for f
    proof
      assume "list_ex (\<lambda>g. ee_commit_scope f = ee_commit_scope g \<and>
        (state_of ?items f = ESTABLISHED) \<noteq> (state_of ?items g = ESTABLISHED)) effects"
      then obtain g where "g \<in> set effects" "ee_commit_scope f = ee_commit_scope g"
        "(state_of ?items f = ESTABLISHED) \<noteq> (state_of ?items g = ESTABLISHED)"
        unfolding list_ex_iff by (elim bexE conjE)
      with m(3) [OF that] show False by simp
    qed
    then show "\<not> split_scope (core_proof as effects)" unfolding split_scope_core list_ex_iff by blast
  qed
  show ?thesis
    unfolding state_checks_def Let_def classification_agrees core_proof_fields finding_states(1) passes_simps
      length_map
    apply (intro conjI TrueI)
    subgoal using cases(1) by blast
    subgoal using cases(2) committed by blast
    subgoal using cases(3) by blast
    subgoal using cases(5) partial(1,3) by blast
    subgoal using partial(2) by blast
    subgoal using cases(4) by blast
    subgoal by blast
    subgoal by simp
    done
qed

lemma missing_checks_pass:
  assumes "ir_evidence_decisions r = map at_decision as"
    and "ir_missing_evidence r = core_missing as (core_classification (admitted_items as) effects) (core_proof as effects)"
  shows "passes (missing_checks r (core_classification (admitted_items as) effects) (core_proof as effects))"
proof -
  let ?c = "core_classification (admitted_items as) effects"
  let ?reasons = "map (\<lambda>a. evidence_reason_text (ed_reason (at_decision a)))
      (filter (\<lambda>a. ed_disposition (at_decision a) \<noteq> ADMITTED) as)"
  have open_reasons: "open_reasons (map at_decision as) = sort ?reasons"
    by (simp add: open_reasons_def filter_map comp_def)
  have same: "(case sorted_set ?reasons of [] \<Rightarrow> t | reason # _ \<Rightarrow> reason) =
      (case sort ?reasons of [] \<Rightarrow> t | reason # _ \<Rightarrow> reason)" for t
    by (rule head_sorted_set)
  show ?thesis
    using core_classification_cases(1) [of "admitted_items as" effects]
    unfolding missing_checks_def Let_def assms core_missing_def expected_missing_reason_def open_reasons
      core_missing_reason_def same unresolved_ids_def
    by (cases ?c) auto
qed

section \<open>Action gates\<close>

lemma gate_tables_agree:
  "continue_gate_reason c = continue_reason c" "retry_gate_reason c = retry_reason c"
  "escalation_gate c = escalation_outcome c"
  by (cases c; simp)+

definition gate_of :: "classification \<Rightarrow> string \<Rightarrow> string \<Rightarrow> requested_action \<times> bool \<times> gate_reason \<Rightarrow> action_gate" where
  "gate_of c classification_policy action_policy d =
     (case d of (action, allowed, reason) \<Rightarrow>
       \<lparr>ag_requested_action = action, ag_allowed = allowed, ag_reason = reason, ag_classification = c,
        ag_classification_policy_version = classification_policy, ag_action_policy_version = action_policy,
        ag_escalation_required = (c \<noteq> COMMITTED)\<rparr>)"

lemma gates_valid:
  assumes "identifier_ok E cp" "identifier_ok E ap" "d \<in> set (gate_definitions c)"
  shows "validate_action_gate E (gate_of c cp ap d) = Inr (gate_of c cp ap d)"
proof -
  have "list_all (\<lambda>d. validate_action_gate E (gate_of c cp ap d) = Inr (gate_of c cp ap d)) (gate_definitions c)"
    using assms(1,2) unfolding gate_definitions_def gate_of_def validate_action_gate_def
    by (cases c) simp_all
  then show ?thesis using assms(3) by (simp add: list_all_iff)
qed

lemma action_gates_eq:
  assumes "identifier_ok E cp" "identifier_ok E ap"
  shows "action_gates E c cp ap = Inr (map (gate_of c cp ap) (gate_definitions c))"
proof -
  have "action_gates E c cp ap = map_result (\<lambda>d. validate_action_gate E (gate_of c cp ap d)) (gate_definitions c)"
    unfolding action_gates_def gate_of_def by (rule arg_cong2 [where f = map_result]) (auto simp: fun_eq_iff)
  moreover have "map_result (\<lambda>d. validate_action_gate E (gate_of c cp ap d)) ds = Inr (map (gate_of c cp ap) ds)"
    if "set ds \<subseteq> set (gate_definitions c)" for ds
    using that gates_valid [OF assms] by (induction ds) simp_all
  ultimately show ?thesis by simp
qed

lemma gate_actions: "map ag_requested_action (map (gate_of c cp ap) (gate_definitions c)) = requested_actions"
  by (cases "escalation_gate c") (simp add: gate_of_def gate_definitions_def requested_actions_def)

lemma gate_checks_pass:
  assumes "ir_action_gate r = map (gate_of c cp ap) (gate_definitions c)" "ir_classification r = Some c"
    and "option_ok (\<lambda>a. set (ad_cited_evidence_ids a) \<subseteq> set (decided r ADMITTED) \<union> set (decided r WEAK_EVIDENCE))
      (ir_advisory_explanation r)"
  shows "passes (gate_checks r)"
proof -
  have "list_all (\<lambda>g. ag_classification g = c \<and> ag_classification_policy_version g = cp \<and>
      ag_action_policy_version g = ap) (map (gate_of c cp ap) (gate_definitions c))"
    by (auto simp: list_all_iff gate_of_def split: prod.splits)
  moreover have "distinct requested_actions" by (simp add: requested_actions_def)
  ultimately show ?thesis
    unfolding gate_checks_def Let_def assms(1,2) gate_actions
    using assms(3) by (auto simp: list_all_iff list_ex_iff split: list.splits)
qed

section \<open>The classifier never fails on sound attempts, and the report accepts its result\<close>

lemma map_result_id:
  assumes "list_all (accepted f) xs" "\<And>x y. f x = Inr y \<Longrightarrow> y = x"
  shows "map_result f xs = Inr xs"
  using assms(1) by (induction xs) (auto simp: accepted_iff dest: assms(2))

lemma map_result_accepted:
  "map_result f xs = Inr ys \<Longrightarrow> (\<And>x y. f x = Inr y \<Longrightarrow> y = x) \<Longrightarrow> ys = xs \<and> list_all (accepted f) xs"
  by (induction xs arbitrary: ys) (auto simp: accepted_iff)

lemma validators_return_argument:
  "validate_effect_finding E f = Inr f' \<Longrightarrow> f' = f"
  "validate_deterministic_proof E p = Inr p' \<Longrightarrow> p' = p"
  "validate_unresolved_effects E m = Inr m' \<Longrightarrow> m' = m"
  "validate_probe_audit E a = Inr a' \<Longrightarrow> a' = a"
  "validate_advisory E v = Inr v' \<Longrightarrow> v' = v"
  "validate_action_gate E g = Inr g' \<Longrightarrow> g' = g"
  by (simp_all add: validate_effect_finding_def validate_deterministic_proof_def validate_unresolved_effects_def
      validate_probe_audit_def validate_advisory_def validate_action_gate_def)

text \<open>What the classifier returns, once it returns.\<close>

lemma classify_eq:
  assumes "classify E x as = Inr v" "envelope_accepted E x"
  shows "cv_envelope_sha256 v = envelope_sha256 E x" "cv_attempts v = as" "cv_evidence v = evidence_list as"
    "cv_decisions v = map at_decision as" "cv_proof v = core_proof as (xe_expected_effects x)"
    "cv_classification v = core_classification (admitted_items as) (xe_expected_effects x)"
    "cv_missing_evidence v = core_missing as (cv_classification v) (cv_proof v)"
    "cv_action_gates v = map (gate_of (cv_classification v) (pr_classification (ec_policies (xe_context x)))
       (pr_action (ec_policies (xe_context x)))) (gate_definitions (cv_classification v))"
    "accepted (validate_deterministic_proof E) (cv_proof v)"
    "list_all (accepted (validate_unresolved_effects E)) (cv_missing_evidence v)"
proof -
  let ?policies = "ec_policies (xe_context x)"
  have "identifier_ok E (pr_classification ?policies)" "identifier_ok E (pr_action ?policies)"
    using envelope_acceptedD(5) [OF assms(2)] by (simp_all add: policy_references_ok_def)
  note gates = action_gates_eq [OF this]
  let ?effects = "xe_expected_effects x"
  let ?c = "core_classification (admitted_items as) ?effects"
  obtain m where m: "map_result (validate_unresolved_effects E) (core_missing as ?c (core_proof as ?effects)) = Inr m"
    and p: "accepted (validate_deterministic_proof E) (core_proof as ?effects)"
    and v: "v = \<lparr>cv_envelope_sha256 = envelope_sha256 E x, cv_attempts = as,
         cv_evidence = map (\<lambda>a. the (at_evidence a)) (filter (\<lambda>a. at_evidence a \<noteq> None) as),
         cv_decisions = map at_decision as, cv_proof = core_proof as ?effects, cv_classification = ?c,
         cv_action_gates = map (gate_of ?c (pr_classification ?policies) (pr_action ?policies)) (gate_definitions ?c),
         cv_missing_evidence = m\<rparr>"
    using assms(1) unfolding classify_def Let_def gates by (auto simp: accepted_iff)
  have missing: "m = core_missing as ?c (core_proof as ?effects)" "list_all (accepted (validate_unresolved_effects E)) m"
    using map_result_accepted [OF m validators_return_argument(3)] by simp_all
  show "cv_envelope_sha256 v = envelope_sha256 E x" "cv_attempts v = as" "cv_evidence v = evidence_list as"
    "cv_decisions v = map at_decision as" "cv_proof v = core_proof as (xe_expected_effects x)"
    "cv_classification v = core_classification (admitted_items as) (xe_expected_effects x)"
    "cv_missing_evidence v = core_missing as (cv_classification v) (cv_proof v)"
    "cv_action_gates v = map (gate_of (cv_classification v) (pr_classification ?policies)
       (pr_action ?policies)) (gate_definitions (cv_classification v))"
    "accepted (validate_deterministic_proof E) (cv_proof v)"
    "list_all (accepted (validate_unresolved_effects E)) (cv_missing_evidence v)"
    using v missing p by (simp_all add: evidence_list_def accepted_iff)
qed

text \<open>
  What the controller guarantees of an audit: the capability is named whole, and a completed probe
  used a capability that the envelope enables.
\<close>

definition capability_enabled :: "execution_envelope \<Rightarrow> controller_audit \<Rightarrow> bool" where
  "capability_enabled x audit \<longleftrightarrow>
     (ca_capability_name audit = None) = (ca_capability_version audit = None) \<and>
     (ca_outcome audit = PO_COMPLETED \<longrightarrow>
       (the (ca_capability_name audit), the (ca_capability_version audit)) \<in>
         set (map (\<lambda>c. (cref_name c, cref_version c)) (ec_enabled_capabilities (xe_context x))))"

lemma report_audit_accepted:
  assumes "audit_accepted E audit" "attempt_sound E x audit a" "capability_enabled x audit"
  shows "accepted (validate_probe_audit E) (report_audit audit a)"
proof -
  have "identifier_ok E (attempt_id a)"
    using assms(2) by (simp add: attempt_sound_def accepted_iff validate_evidence_decision_def attempt_id_def)
  then show ?thesis
    using assms(1,3) stop_reason_identifier [of E "ca_stop_reason audit"]
    by (auto simp: audit_accepted_def accepted_iff validate_controller_audit_def controller_audit_fields_ok_def
        validate_probe_audit_def probe_audit_fields_ok_def report_audit_def capability_enabled_def length_ok_def)
qed

lemma admitted_not_escaped:
  assumes "classifiable E x audits as" "list_all (capability_enabled x) audits"
  shows "\<not> list_ex (escaped_admission x) (admitted_items as)"
proof -
  have "\<not> escaped_admission x e" if e: "e \<in> set (admitted_items as)" for e
  proof -
    have "e \<in> set (evidence_list as)"
      using e by (auto simp: admitted_items_def admitted_attempts_def evidence_list_def)
    then obtain audit a where "(audit, a) \<in> set (zip audits as)" and s: "evidence_sound E x audit (at_decision a) e"
      by (rule evidence_listE [OF assms(1)])
    then have "capability_enabled x audit" using assms(2) by (auto simp: list_all_iff dest: set_zip_leftD)
    then have "(ev_capability_name e, ev_capability_version e) \<in>
        set (map (\<lambda>c. (cref_name c, cref_version c)) (ec_enabled_capabilities (xe_context x)))"
      using s by (simp add: capability_enabled_def evidence_sound_def)
    then show ?thesis
      by (rule_tac admitted_itemsE [OF assms(1) e]) (simp add: escaped_admission_def retained_sound_def)
  qed
  then show ?thesis by (auto simp: list_ex_iff)
qed

lemma admitted_identifier:
  assumes "classifiable E x audits as" "e \<in> set (admitted_items as)"
  shows "identifier_ok E (ev_evidence_id e)"
proof -
  have "accepted (validate_normalized_evidence E) e" by (rule admitted_itemsE [OF assms])
  then have "normalized_evidence_fields_ok E e" by (simp add: accepted_iff validate_normalized_evidence_def)
  then show ?thesis by (simp add: normalized_evidence_fields_ok_def)
qed

lemma length_admitted: "length (admitted_items as) \<le> length as"
  by (simp add: admitted_items_def admitted_attempts_def)

lemma core_finding_accepted:
  assumes c: "classifiable E x audits as" "length as \<le> 64" and f: "accepted (validate_expected_effect E) f"
  shows "accepted (validate_effect_finding E) (core_finding (admitted_items as) f)"
proof -
  let ?items = "admitted_items as"
  let ?ids = "ff_evidence_ids (core_finding ?items f)"
  have d: "distinct_items ?items" by (rule admitted_distinct [OF c(1)])
  have sub: "set ?ids \<subseteq> set (map ev_evidence_id ?items)"
    unfolding core_finding_citations(2) [OF d] by (auto simp: definitive_values_def set_effect_values [OF d])
  have dist: "distinct ?ids" by (simp add: core_finding_def Let_def)
  have "length ?ids \<le> length ?items"
    using card_mono [OF _ sub] card_length [of "map ev_evidence_id ?items"] distinct_card [OF dist] by simp
  then have "length ?ids \<le> 64" using length_admitted [of as] c(2) by linarith
  moreover have "identifier_ok E (ev_evidence_id e)" if "e \<in> set ?items" for e
    by (rule admitted_identifier [OF c(1) that])
  then have "list_all (identifier_ok E) ?ids" using sub by (auto simp: list_all_iff)
  ultimately show ?thesis
    using f dist by (simp add: accepted_iff validate_effect_finding_def validate_expected_effect_def
        expected_effect_fields_ok_def length_ok_def)
qed

lemma core_proof_accepted:
  assumes c: "classifiable E x audits as" "length as \<le> 64"
  shows "list_all (accepted (validate_effect_finding E)) (dp_effect_findings (core_proof as (xe_expected_effects x)))"
    "accepted (validate_deterministic_proof E) (core_proof as (xe_expected_effects x))"
proof -
  let ?p = "core_proof as (xe_expected_effects x)"
  have x: "envelope_accepted E x" using c(1) by (simp add: classifiable_def)
  show f: "list_all (accepted (validate_effect_finding E)) (dp_effect_findings ?p)"
    using envelope_acceptedD(4) [OF x] core_finding_accepted [OF c] by (simp add: list_all_iff)
  have ids: "dp_admitted_evidence_ids ?p = map ev_evidence_id (admitted_items as)"
    using evidence_name_eq [OF c(1)] by (auto simp: core_proof_def Let_def admitted_items_def admitted_attempts_def)
  have "list_all (identifier_ok E) (map ev_evidence_id (admitted_items as))"
    using admitted_identifier [OF c(1)] by (simp add: list_all_iff)
  moreover have "map ff_effect_id (dp_effect_findings ?p) = map ee_effect_id (xe_expected_effects x)"
    by (simp add: comp_def)
  ultimately show "accepted (validate_deterministic_proof E) ?p"
    using f envelope_acceptedD(2,3) [OF x] admitted_distinct [OF c(1)] length_admitted [of as] c(2)
    unfolding accepted_iff validate_deterministic_proof_def ids
    by (simp add: length_ok_def distinct_items_def comp_def)
qed

lemma core_missing_accepted:
  assumes "envelope_accepted E x"
  shows "list_all (accepted (validate_unresolved_effects E)) (core_missing as c (core_proof as (xe_expected_effects x)))"
proof -
  let ?effects = "xe_expected_effects x"
  let ?open = "filter (\<lambda>f. ff_state f \<noteq> ESTABLISHED) (map (core_finding (admitted_items as)) ?effects)"
  have eff: "distinct (map ee_effect_id ?effects)" "length ?effects \<le> 64"
    "list_all (\<lambda>f. identifier_ok E (ee_effect_id f)) ?effects"
    using envelope_acceptedD(2,3,4) [OF assms]
    by (auto simp: length_ok_def list_all_iff accepted_iff validate_expected_effect_def expected_effect_fields_ok_def)
  have "distinct (map ff_effect_id ?open)"
    using eff(1) by (intro distinct_map_filter) (simp add: comp_def)
  moreover have "length ?open \<le> 64" using eff(2) by (metis le_trans length_filter_le length_map)
  moreover have "identifier_ok E (core_missing_reason as c conflicting)" for conflicting
  proof -
    have head: "identifier_ok E (case ts of [] \<Rightarrow> d | t # _ \<Rightarrow> t)"
      if "list_all (identifier_ok E) ts" "identifier_ok E d" for ts d
      using that by (cases ts) simp_all
    have "identifier_ok E (case sorted_set (map (\<lambda>a. evidence_reason_text (ed_reason (at_decision a)))
        (filter (\<lambda>a. ed_disposition (at_decision a) \<noteq> ADMITTED) as)) of
          [] \<Rightarrow> ''authoritative-effect-proof-required'' | reason # _ \<Rightarrow> reason)"
      by (rule head [OF _ missing_reason_identifiers(2)])
        (auto simp: list_all_iff intro: evidence_reason_identifier simp del: evidence_reason_text.simps)
    then show ?thesis
      using evidence_reason_identifier [of E CONFLICTING_AUTHORITY] missing_reason_identifiers [of E]
      by (simp add: core_missing_reason_def)
  qed
  ultimately show ?thesis
    using eff(3)
    by (auto simp: core_missing_def accepted_iff validate_unresolved_effects_def length_ok_def list_all_iff)
qed

text \<open>The classifier never fails on sound attempts of one investigation.\<close>

lemma classify_total:
  assumes c: "classifiable E x audits as" "length as \<le> 64" "list_all (capability_enabled x) audits"
  shows "\<exists>v. classify E x as = Inr v"
proof -
  have x: "envelope_accepted E x" using c(1) by (simp add: classifiable_def)
  let ?p = "core_proof as (xe_expected_effects x)" and ?policies = "ec_policies (xe_context x)"
  have "map_result (validate_effect_finding E) (dp_effect_findings ?p) = Inr (dp_effect_findings ?p)"
    using core_proof_accepted(1) [OF c(1,2)] validators_return_argument(1) by (rule map_result_id)
  moreover have "map_result (validate_unresolved_effects E) (core_missing as d ?p) = Inr (core_missing as d ?p)" for d
    using core_missing_accepted [OF x] validators_return_argument(3) by (rule map_result_id)
  moreover have "identifier_ok E (pr_classification ?policies)" "identifier_ok E (pr_action ?policies)"
    using envelope_acceptedD(5) [OF x] by (simp_all add: policy_references_ok_def)
  note action_gates_eq [OF this]
  moreover obtain q where "validate_deterministic_proof E ?p = Inr q"
    using core_proof_accepted(2) [OF c(1,2)] by (auto simp: accepted_iff)
  ultimately show ?thesis
    using admitted_not_escaped [OF c(1,3)] by (simp add: classify_def Let_def)
qed

end
