(* ===== verification/Report_Laws.thy ===== *)
theory Report_Laws
  imports Classification_Laws "HOL-Library.Multiset"
begin

text \<open>
  The path from the attempts of an investigation to its report: the classifier does not depend on
  the order of its arguments, it accepts sound attempts, and the report that it leads to passes its
  own validator.
\<close>

section \<open>The order of attempts and audits\<close>

lemma map_sort_key: "map f (sort_key f xs) = sort (map f xs)"
  by (rule properties_for_sort [symmetric]) simp_all

lemma sort_attempts_mset [simp]: "mset (sort_attempts as) = mset as" "set (sort_attempts as) = set as"
  by (simp_all add: sort_attempts_def)

lemma sort_attempts_eq:
  assumes "mset as = mset bs" "distinct (map at_probe_sequence as)"
  shows "sort_attempts as = sort_attempts bs"
  unfolding sort_attempts_def
  by (rule sort_key_eq_sort_key [OF assms(1)]) (use assms(2) in \<open>auto simp: distinct_map inj_on_def\<close>)

lemma sort_attempts_sequences:
  "mset as = mset bs \<Longrightarrow> distinct (map at_probe_sequence (sort_attempts as)) = distinct (map at_probe_sequence bs)"
  by (metis mset_eq_imp_distinct_iff mset_map sort_attempts_mset(1))

lemma evaluate_permuted:
  assumes as: "mset as = mset bs" and us: "mset us = mset vs"
  shows "evaluate_evidence E x as us = evaluate_evidence E x bs vs"
proof (cases "distinct (map at_probe_sequence as)")
  case True
  then have sorted: "sort_attempts as = sort_attempts bs" by (rule sort_attempts_eq [OF as])
  let ?as = "sort_attempts bs"
  show ?thesis
  proof (cases "map at_probe_sequence ?as = map ca_sequence (sort_key ca_sequence us)")
    case True
    have "distinct (map at_probe_sequence ?as)"
      using \<open>distinct (map at_probe_sequence as)\<close> sort_attempts_sequences [OF as [symmetric]] by simp
    then have "distinct (map ca_sequence (sort_key ca_sequence us))" using True by simp
    then have "inj_on ca_sequence (set us)" by (simp add: distinct_map)
    then have "sort_key ca_sequence us = sort_key ca_sequence vs" by (rule sort_key_eq_sort_key [OF us])
    then show ?thesis by (simp add: evaluate_evidence_def Let_def sorted)
  next
    case False
    moreover have "map ca_sequence (sort_key ca_sequence vs) = map ca_sequence (sort_key ca_sequence us)"
      unfolding map_sort_key by (metis mset_map properties_for_sort sorted_sort mset_sort us)
    ultimately show ?thesis
      by (simp add: evaluate_evidence_def Let_def sorted attempt_guards_def checked.simps)
  qed
next
  case False
  then have "\<not> distinct (map at_probe_sequence (sort_attempts as))" "\<not> distinct (map at_probe_sequence (sort_attempts bs))"
    using sort_attempts_sequences [of as as] sort_attempts_sequences [OF as [symmetric]] by simp_all
  moreover have "list_ex P (sort_attempts as) = list_ex P (sort_attempts bs)" for P
    using mset_eq_setD [OF as] by (simp add: list_ex_iff)
  ultimately show ?thesis by (simp add: evaluate_evidence_def Let_def attempt_guards_def checked.simps)
qed

section \<open>Evaluation of sound attempts\<close>

text \<open>
  The records of one investigation: a sound attempt for every audit, numbered from one, with
  different identifiers, and within the 64 places of a report.
\<close>

definition investigation_records ::
  "env \<Rightarrow> execution_envelope \<Rightarrow> controller_audit list \<Rightarrow> evidence_attempt list \<Rightarrow> bool" where
  "investigation_records E x audits as \<longleftrightarrow>
     classifiable E x audits as \<and> map ca_sequence audits = map int [1..<length audits + 1] \<and> length as \<le> 64 \<and>
     list_all (audit_accepted E) audits \<and> list_all (capability_enabled x) audits"

lemma map_int_upt: "distinct (map int [a..<b])" "sorted (map int [a..<b])"
  by (simp_all add: distinct_map sorted_map)

lemma records_sorted:
  assumes "investigation_records E x audits as"
  shows "map at_probe_sequence as = map ca_sequence audits" "length audits = length as"
    "sort_attempts as = as" "sort_key ca_sequence audits = audits" "passes (attempt_guards E x as audits)"
proof -
  have c: "list_all2 (attempt_sound E x) audits as" "distinct (map attempt_id as)"
    and n: "map ca_sequence audits = map int [1..<length audits + 1]"
    using assms by (simp_all add: investigation_records_def classifiable_def)
  show seq: "map at_probe_sequence as = map ca_sequence audits"
    using c(1) by (induction rule: list_all2_induct) (simp_all add: attempt_sound_def)
  show len: "length audits = length as" using c(1) by (rule list_all2_lengthD)
  have dist: "distinct (map at_probe_sequence as)" and ord: "sorted (map at_probe_sequence as)"
    unfolding seq n by (rule map_int_upt)+
  show "sort_key ca_sequence audits = audits"
  proof (rule sort_key_inj_key_eq [OF refl])
    show "sorted (map ca_sequence audits)" unfolding n by (rule map_int_upt)
    have "distinct (map ca_sequence audits)" unfolding n by (rule map_int_upt)
    then show "inj_on ca_sequence (set audits)" by (simp add: distinct_map)
  qed
  have pairs: "sorted (map (\<lambda>a. (at_probe_sequence a, attempt_id a)) as)"
    using dist ord by (induction as) (auto simp: less_eq_prod_def order.strict_iff_order image_iff)
  show "sort_attempts as = as"
    unfolding sort_attempts_def
    by (rule sort_key_inj_key_eq [OF refl _ pairs]) (use dist in \<open>auto simp: distinct_map inj_on_def\<close>)
  have "at_envelope_sha256 a = envelope_sha256 E x" if "a \<in> set as" for a
    using classifiableD [of E x audits as a] that assms by (auto simp: investigation_records_def attempt_sound_def)
  moreover have "at_controller_audit_sha256 a = controller_audit_sha256 E audit" if "(a, audit) \<in> set (zip as audits)" for a audit
    using c(1) that by (auto simp: list_all2_iff attempt_sound_def in_set_zip)
  ultimately show "passes (attempt_guards E x as audits)"
    using c(2) dist seq n len by (auto simp: attempt_guards_def Let_def list_ex_iff)
qed

lemma evaluate_records:
  assumes "investigation_records E x audits as"
  shows "\<exists>bs v. evaluate_evidence E x as audits = Inr v \<and> list_all2 (kept_or_rejected E) as bs \<and>
    deduplicate_attempts E [] as = Inr bs \<and> investigation_records E x audits bs \<and> classify E x bs = Inr v"
proof -
  note sorted = records_sorted [OF assms]
  have c: "classifiable E x audits as" and n: "map ca_sequence audits = map int [1..<length audits + 1]"
    using assms by (simp_all add: investigation_records_def)
  have "list_all (\<lambda>a. 1 \<le> at_probe_sequence a) as"
  proof -
    have "set (map at_probe_sequence as) = int ` {1..<length audits + 1}"
      unfolding sorted(1) n by (simp del: upt_Suc)
    moreover have "at_probe_sequence a \<in> set (map at_probe_sequence as)" if "a \<in> set as" for a using that by simp
    ultimately show ?thesis unfolding list_all_iff by fastforce
  qed
  then obtain bs where bs: "deduplicate_attempts E [] as = Inr bs"
    using deduplicate_total [of E x audits as "[]"] c by (auto simp: classifiable_def)
  have kept: "list_all2 (kept_or_rejected E) as bs" by (rule deduplicate_kept [OF bs])
  have "map attempt_id bs = map attempt_id as" by (rule kept_map_eq [OF kept]) (rule kept_or_rejected_fields)
  then have "classifiable E x audits bs"
    using c kept_sound [OF kept] by (auto simp: classifiable_def)
  then have records: "investigation_records E x audits bs"
    using assms list_all2_lengthD [OF kept] by (simp add: investigation_records_def)
  obtain v where "classify E x bs = Inr v"
    using classify_total [of E x audits bs] records by (auto simp: investigation_records_def)
  then have "evaluate_evidence E x as audits = Inr v"
    using bs sorted by (simp add: evaluate_evidence_def Let_def passes_def)
  then show ?thesis using bs kept records \<open>classify E x bs = Inr v\<close> by blast
qed

section \<open>The report of an evaluation\<close>

lemma map2_report_audit_accepted:
  assumes "investigation_records E x audits as"
  shows "list_all (accepted (validate_probe_audit E)) (map2 report_audit audits as)"
proof -
  have "accepted (validate_probe_audit E) (report_audit audit a)" if p: "(audit, a) \<in> set (zip audits as)" for audit a
  proof (rule report_audit_accepted)
    show "attempt_sound E x audit a"
      using assms p by (auto simp: investigation_records_def classifiable_def list_all2_iff)
    show "audit_accepted E audit" "capability_enabled x audit"
      using assms set_zip_leftD [OF p] by (auto simp: investigation_records_def list_all_iff)
  qed
  then show ?thesis by (auto simp: list_all_iff)
qed

lemma assembled_report_fields [simp]:
  "ir_investigation_id (assembled_report E x v audit adv c u n) = xe_investigation_id x"
  "ir_envelope_sha256 (assembled_report E x v audit adv c u n) = envelope_sha256 E x"
  "ir_status (assembled_report E x v audit adv c u n) = IS_COMPLETED"
  "ir_probe_audit (assembled_report E x v audit adv c u n) = audit"
  "ir_evidence (assembled_report E x v audit adv c u n) = cv_evidence v"
  "ir_evidence_decisions (assembled_report E x v audit adv c u n) = cv_decisions v"
  "ir_proof (assembled_report E x v audit adv c u n) = Some (cv_proof v)"
  "ir_classification (assembled_report E x v audit adv c u n) = Some (cv_classification v)"
  "ir_action_gate (assembled_report E x v audit adv c u n) = cv_action_gates v"
  "ir_missing_evidence (assembled_report E x v audit adv c u n) = cv_missing_evidence v"
  "ir_limitations (assembled_report E x v audit adv c u n) = [report_limitation]"
  "ir_advisory_explanation (assembled_report E x v audit adv c u n) = adv"
  "ir_created_at (assembled_report E x v audit adv c u n) = c"
  "ir_updated_at (assembled_report E x v audit adv c u n) = u"
  "ir_revision (assembled_report E x v audit adv c u n) = n"
  by (simp_all add: assembled_report_def)

text \<open>What the report adds to an evaluation: an explanation and the times, all within their bounds.\<close>

definition report_extras_ok :: "env \<Rightarrow> advisory_explanation option \<Rightarrow> evidence_decision list \<Rightarrow> time \<Rightarrow> time \<Rightarrow> int \<Rightarrow> bool" where
  "report_extras_ok E adv decisions created_at updated_at revision \<longleftrightarrow>
     option_ok (\<lambda>a. accepted (validate_advisory E) a \<and> set (ad_cited_evidence_ids a) \<subseteq>
       set (map ed_evidence_id (filter (\<lambda>d. ed_disposition d \<in> {ADMITTED, WEAK_EVIDENCE}) decisions))) adv \<and>
     time_ok created_at \<and> time_ok updated_at \<and> created_at \<le> updated_at \<and> int_ok 0 revision"

lemma reference_checks_pass:
  assumes records: "investigation_records E x audits as" and v: "classify E x as = Inr v"
    and extras: "report_extras_ok E adv (cv_decisions v) created_at updated_at revision"
  shows "passes (reference_checks E
    (assembled_report E x v (map2 report_audit audits as) adv created_at updated_at revision))"
proof -
  have c: "classifiable E x audits as" and n: "map ca_sequence audits = map int [1..<length audits + 1]"
    and x: "envelope_accepted E x"
    using records by (simp_all add: investigation_records_def classifiable_def)
  note v_eq = classify_eq [OF v x]
  let ?r = "assembled_report E x v (map2 report_audit audits as) adv created_at updated_at revision"
  have shown: "shows_attempts audits as ?r" by (simp add: shows_attempts_def v_eq)
  have "cv_action_gates v \<noteq> []" by (simp add: v_eq gate_definitions_def)
  then have complete: "completed_report ?r" using extras by (simp add: completed_report_def report_extras_ok_def)
  have dist: "distinct (map ee_effect_id (xe_expected_effects x))" by (rule envelope_acceptedD(2) [OF x])
  have cited: "option_ok (\<lambda>a. set (ad_cited_evidence_ids a) \<subseteq> set (decided ?r ADMITTED) \<union> set (decided ?r WEAK_EVIDENCE))
      (ir_advisory_explanation ?r)"
    using extras by (cases adv) (auto simp: report_extras_ok_def decided_def)
  have "passes (classification_checks ?r)"
    using state_checks_pass [OF dist, of as]
      missing_checks_pass [of ?r as "xe_expected_effects x"] by (simp add: classification_checks_def v_eq)
  moreover have "passes (gate_checks ?r)"
    by (rule gate_checks_pass [OF _ _ cited]) (unfold assembled_report_fields, rule v_eq(8), rule refl)
  ultimately show ?thesis
    unfolding reference_checks_def
    using identity_checks_pass [OF c shown complete n] admission_checks_pass [OF c shown] proof_checks_pass [OF c shown]
      v_eq(5)
    by simp
qed

lemma report_fields_ok:
  assumes records: "investigation_records E x audits as" and v: "classify E x as = Inr v" and "hexdigest_ok E"
    and extras: "report_extras_ok E adv (cv_decisions v) created_at updated_at revision"
  shows "investigation_report_fields_ok E
    (assembled_report E x v (map2 report_audit audits as) adv created_at updated_at revision)"
proof -
  have c: "classifiable E x audits as" and len: "length as \<le> 64" and x: "envelope_accepted E x"
    using records by (simp_all add: investigation_records_def classifiable_def)
  note v_eq = classify_eq [OF v x]
  have evidence: "list_all (accepted (validate_normalized_evidence E)) (evidence_list as)"
    unfolding list_all_iff using evidence_listE [OF c] by (metis evidence_sound_def)
  have decisions: "list_all (accepted (validate_evidence_decision E)) (map at_decision as)"
    using classifiableD [OF c] by (fastforce simp: list_all_iff attempt_sound_def)
  have lengths: "length (evidence_list as) \<le> 64"
    using le_trans [OF length_filter_le len] unfolding evidence_list_def length_map .
  have gates: "list_all (accepted (validate_action_gate E)) (cv_action_gates v)"
    using gates_valid [of E] envelope_acceptedD(5) [OF x]
    by (auto simp: v_eq(8) list_all_iff accepted_iff policy_references_ok_def)
  have five: "length (cv_action_gates v) = length requested_actions"
    by (simp add: v_eq(8) gate_definitions_def requested_actions_def)
  have missing: "length (cv_missing_evidence v) \<le> 64" by (simp add: v_eq(7) core_missing_def)
  have limitation: "bounded_text_ok E 4096 report_limitation"
    by (simp add: bounded_text_ok_def report_limitation_def text_length_def printable_text_ok)
  have digest: "sha256_digest_ok (envelope_sha256 E x)"
    using assms(3) by (simp add: envelope_sha256_def canonical_sha256_def hexdigest_ok_def)
  have audit: "length (map2 report_audit audits as) \<le> 64" using len by simp
  have advisory: "option_ok (accepted (validate_advisory E)) adv"
    using extras by (cases adv) (simp_all add: report_extras_ok_def)
  show ?thesis
    unfolding investigation_report_fields_ok_def assembled_report_fields v_eq(3,4)
    using envelope_acceptedD(1) [OF x] digest audit map2_report_audit_accepted [OF records] lengths evidence len
      decisions v_eq(9,10) five gates missing limitation extras advisory
    by (simp add: length_ok_def report_extras_ok_def)
qed

lemma assembled_report_accepted:
  assumes "investigation_records E x audits as" "classify E x as = Inr v" "hexdigest_ok E"
    and "report_extras_ok E adv (cv_decisions v) created_at updated_at revision"
  shows "validate_investigation_report E
      (assembled_report E x v (map2 report_audit audits as) adv created_at updated_at revision) =
    Inr (assembled_report E x v (map2 report_audit audits as) adv created_at updated_at revision)"
  unfolding validate_investigation_report_def checked_passes
  using report_fields_ok [OF assms] reference_checks_pass [OF assms(1,2,4)] by simp

end
