(* ===== verification/Evidence_Meaning.thy ===== *)
theory Evidence_Meaning
  imports Report_Laws
begin

text \<open>
  What a classification means in terms of the attempts: which admitted evidence it takes to call an
  operation committed or not committed, what duplicates contribute, and what an evidence identifier
  stands for.
\<close>

section \<open>From an evaluation to its attempts\<close>

lemma evaluate_classified:
  assumes "evaluate_evidence E x as us = Inr v"
  shows "deduplicate_attempts E [] (sort_attempts as) = Inr (cv_attempts v)" "classify E x (cv_attempts v) = Inr v"
    "cv_classification v = core_classification (admitted_items (cv_attempts v)) (xe_expected_effects x)"
    "cv_decisions v = map at_decision (cv_attempts v)"
    "passes (attempt_guards E x (sort_attempts as) (sort_key ca_sequence us))"
  using assms by (auto simp: evaluate_evidence_def Let_def classify_def passes_def)

definition admitted_assertion :: "evidence_attempt list \<Rightarrow> string \<Rightarrow> effect_assertion_state \<Rightarrow> bool" where
  "admitted_assertion as effect state \<longleftrightarrow>
     (\<exists>a \<in> set as. \<exists>e. ed_disposition (at_decision a) = ADMITTED \<and> at_evidence a = Some e \<and>
        (\<exists>s \<in> set (ev_effect_assertions e). ea_effect_id s = effect \<and> ea_state s = state))"

definition admitted_status :: "evidence_attempt list \<Rightarrow> operation_status \<Rightarrow> bool" where
  "admitted_status as status \<longleftrightarrow>
     (\<exists>a \<in> set as. \<exists>e. ed_disposition (at_decision a) = ADMITTED \<and> at_evidence a = Some e \<and>
        ev_operation_status e = Some status)"

lemma admitted_assertion_values:
  "state \<in> set (map fst (effect_values (admitted_items as) effect)) \<longleftrightarrow> admitted_assertion as effect state"
  by (force simp: effect_values_def admitted_items_def admitted_attempts_def admitted_assertion_def)

lemma admitted_status_values: "status \<in> set (statuses_of (admitted_items as)) \<longleftrightarrow> admitted_status as status"
  by (force simp: statuses_of_def admitted_items_def admitted_attempts_def admitted_status_def split: option.splits)

lemma state_of_admitted:
  "state_of (admitted_items as) f = ESTABLISHED \<longleftrightarrow>
     admitted_assertion as (ee_effect_id f) ESTABLISHED \<and> \<not> admitted_assertion as (ee_effect_id f) NOT_ESTABLISHED"
  unfolding state_of_def effect_state_def effect_conflicts_def admitted_assertion_values [symmetric] by auto

section \<open>Committed and not committed\<close>

text \<open>
  An operation is committed exactly when every expected effect is established by admitted evidence,
  none is contradicted, and no admitted evidence says that the operation ended without committing.
\<close>

lemma committed_iff:
  assumes "effects \<noteq> []"
  shows "core_classification (admitted_items as) effects = COMMITTED \<longleftrightarrow>
     (\<forall>f \<in> set effects. admitted_assertion as (ee_effect_id f) ESTABLISHED \<and>
        \<not> admitted_assertion as (ee_effect_id f) NOT_ESTABLISHED) \<and>
     \<not> admitted_status as TERMINAL_NOT_COMMITTED"
proof -
  have est: "length (proved_effects (admitted_items as) effects ESTABLISHED) = length effects \<longleftrightarrow>
      (\<forall>f \<in> set effects. admitted_assertion as (ee_effect_id f) ESTABLISHED \<and>
        \<not> admitted_assertion as (ee_effect_id f) NOT_ESTABLISHED)"
    unfolding all_established state_of_admitted ..
  have "evidence_conflict (admitted_items as) effects \<longleftrightarrow> admitted_status as TERMINAL_NOT_COMMITTED"
    if all: "length (proved_effects (admitted_items as) effects ESTABLISHED) = length effects"
  proof -
    have "proved_effects (admitted_items as) effects ESTABLISHED \<noteq> []" using all assms by auto
    moreover have "\<not> list_ex (\<lambda>f. effect_conflicts (map fst (effect_values (admitted_items as) (ee_effect_id f)))) effects"
      using all [unfolded est] unfolding effect_conflicts_def list_ex_iff
      by (auto simp flip: admitted_assertion_values)
    ultimately show ?thesis
      unfolding evidence_conflict_def Let_def all admitted_status_values [symmetric] by auto
  qed
  then show ?thesis unfolding core_classification_cases(2) est [symmetric] by blast
qed

text \<open>
  A claim that nothing was committed takes admitted evidence of a terminal status, no established
  effect and no admitted evidence of another status.
\<close>

lemma not_committed_requires:
  assumes "core_classification (admitted_items as) effects = NOT_COMMITTED"
  shows "admitted_status as TERMINAL_NOT_COMMITTED" "\<not> admitted_status as TERMINAL_COMMITTED"
    "\<not> admitted_status as ACTIVE" "\<not> admitted_status as UNRESOLVED"
    "\<And>f. f \<in> set effects \<Longrightarrow> \<not> admitted_assertion as (ee_effect_id f) ESTABLISHED"
proof -
  have c: "\<not> evidence_conflict (admitted_items as) effects"
    "core_status (statuses_of (admitted_items as)) (evidence_conflict (admitted_items as) effects) = Some TERMINAL_NOT_COMMITTED"
    "proved_effects (admitted_items as) effects ESTABLISHED = []"
    using core_classification_cases(3) [OF assms] by blast+
  show t: "admitted_status as TERMINAL_NOT_COMMITTED"
    using not_committed_status [OF c(1)] c(2) by (simp add: admitted_status_values)
  show "\<not> admitted_status as TERMINAL_COMMITTED" "\<not> admitted_status as ACTIVE" "\<not> admitted_status as UNRESOLVED"
    using c(1) t unfolding evidence_conflict_def Let_def admitted_status_values [symmetric] by auto
  show "\<not> admitted_assertion as (ee_effect_id f) ESTABLISHED" if f: "f \<in> set effects" for f
  proof
    assume est: "admitted_assertion as (ee_effect_id f) ESTABLISHED"
    have "\<not> effect_conflicts (map fst (effect_values (admitted_items as) (ee_effect_id f)))"
      using c(1) f by (auto simp: evidence_conflict_def Let_def list_ex_iff)
    then have "state_of (admitted_items as) f = ESTABLISHED"
      using est unfolding admitted_assertion_values [symmetric] by (simp add: state_of_def effect_state_def)
    then have "ee_effect_id f \<in> set (proved_effects (admitted_items as) effects ESTABLISHED)"
      using f by (auto simp: proved_effects_def state_of_def)
    then show False using c(3) by simp
  qed
qed

section \<open>Duplicates count once\<close>

text \<open>Of the attempts that show the same bytes for the same request, one at most stays admitted.\<close>

lemma kept_source: "kept_or_rejected E a b \<Longrightarrow> observation_source b = observation_source a"
  using kept_or_rejected_fields [of E a b] by (auto simp: observation_source_def split: option.splits)

lemma deduplicate_ConsE:
  assumes "deduplicate_attempts E firsts (a # as) = Inr bs"
  obtains (fresh) cs where "observation_source a = None" "deduplicate_attempts E firsts as = Inr cs" "bs = a # cs"
  | (seen) source first_id b cs where "observation_source a = Some source"
      "first_id = (case map_of firsts source of None \<Rightarrow> attempt_id a | Some i \<Rightarrow> i)"
      "deduplicate_attempts E ((source, first_id) # firsts) as = Inr cs" "bs = b # cs"
      "observation_source b = Some source" "attempt_id b = attempt_id a"
      "ed_disposition (at_decision b) = REJECTED_EVIDENCE \<or> b = a \<and> first_id = attempt_id a"
proof (cases "observation_source a")
  case None
  with assms show ?thesis by (auto intro: fresh)
next
  case (Some source)
  define first_id where "first_id = (case map_of firsts source of None \<Rightarrow> attempt_id a | Some i \<Rightarrow> i)"
  obtain b cs where b: "(if first_id = attempt_id a then Inr a else reject_duplicate E a) = Inr b"
    "deduplicate_attempts E ((source, first_id) # firsts) as = Inr cs" "bs = b # cs"
    using assms Some by (auto simp: Let_def first_id_def)
  have "at_evidence a \<noteq> None" using Some by (auto simp: observation_source_def split: option.splits)
  then have k: "kept_or_rejected E a b" using b(1) by (auto simp: kept_or_rejected_def split: if_splits)
  have "ed_disposition (at_decision b) = REJECTED_EVIDENCE \<or> b = a \<and> first_id = attempt_id a"
    using b(1) by (auto simp: reject_duplicate_def build_attempt_Inr split: if_splits)
  then show ?thesis using seen [OF Some first_id_def b(2,3)] kept_source [OF k] kept_or_rejected_fields(1) [OF k] Some by simp
qed

lemma deduplicate_firsts:
  assumes "deduplicate_attempts E firsts as = Inr bs" "b \<in> set bs" "ed_disposition (at_decision b) \<noteq> REJECTED_EVIDENCE"
    and "observation_source b = Some s" "map_of firsts s = Some i"
  shows "attempt_id b = i"
  using assms
proof (induction as arbitrary: firsts bs)
  case (Cons a as)
  from Cons.prems(1) show ?case
  proof (cases rule: deduplicate_ConsE)
    case (fresh cs)
    then show ?thesis using Cons.IH [OF fresh(2)] Cons.prems by auto
  next
    case (seen source first_id c cs)
    have "map_of ((source, first_id) # firsts) s = Some i" using seen(2) Cons.prems(5) by auto
    then show ?thesis using Cons.IH [OF seen(3)] Cons.prems seen by auto
  qed
qed simp

lemma deduplicate_sources:
  assumes "deduplicate_attempts E firsts as = Inr bs" "distinct (map attempt_id as)"
  shows "distinct (map observation_source (filter (\<lambda>b. observation_source b \<noteq> None \<and>
      ed_disposition (at_decision b) \<noteq> REJECTED_EVIDENCE) bs))"
  using assms
proof (induction as arbitrary: firsts bs)
  case (Cons a as)
  from Cons.prems(1) show ?case
  proof (cases rule: deduplicate_ConsE)
    case (fresh cs)
    then show ?thesis using Cons.IH [OF fresh(2)] Cons.prems by auto
  next
    case (seen source first_id b cs)
    have "map attempt_id cs = map attempt_id as"
      by (rule kept_map_eq [OF deduplicate_kept [OF seen(3)]]) (rule kept_or_rejected_fields)
    then have ids: "attempt_id a \<notin> set (map attempt_id cs)" using Cons.prems(2) by simp
    have "observation_source c \<noteq> Some source"
      if c: "c \<in> set cs" "ed_disposition (at_decision c) \<noteq> REJECTED_EVIDENCE" and "first_id = attempt_id a" for c
      using deduplicate_firsts [OF seen(3) c, of source first_id] that ids by (auto simp: image_iff)
    then show ?thesis using Cons.IH [OF seen(3)] Cons.prems(2) seen(4-) by (auto simp: image_iff)
  qed
qed simp

section \<open>What an evidence identifier stands for\<close>

lemma probe_outcome_text_inj: "probe_outcome_text a = probe_outcome_text b \<Longrightarrow> a = b"
  by (cases a; cases b) simp_all

lemma evidence_material_inj:
  assumes "json_sorted (evidence_material E x n q r p) = json_sorted (evidence_material E y m s t u)"
  shows "xe_investigation_id x = xe_investigation_id y \<and> target_sha256 E x = target_sha256 E y \<and>
    n = m \<and> q = s \<and> r = t \<and> p = u"
proof -
  have "json_sorted_members
     [(''investigation_id'', JStr (xe_investigation_id x)), (''outcome'', JStr (probe_outcome_text p)),
      (''probe_sequence'', JInt n), (''raw_sha256'', option_json JStr r), (''request_sha256'', option_json JStr q),
      (''target_sha256'', JStr (target_sha256 E x))] =
    json_sorted_members
     [(''investigation_id'', JStr (xe_investigation_id y)), (''outcome'', JStr (probe_outcome_text u)),
      (''probe_sequence'', JInt m), (''raw_sha256'', option_json JStr t), (''request_sha256'', option_json JStr s),
      (''target_sha256'', JStr (target_sha256 E y))]"
    by (rule json_sorted_members_eqD [OF assms [unfolded evidence_material_def]]) simp_all
  then show ?thesis
    by (auto simp: option_json_def probe_outcome_text_inj split: option.splits)
qed

text \<open>
  Evidence identifiers of one investigation name one run: they agree only for the same number, the
  same request, the same bytes and the same outcome, up to a collision.
\<close>

lemma evidence_id_eqD:
  assumes "evidence_id E x n q r p = Inr i" "evidence_id E y m s t u = Inr i"
  shows "(xe_investigation_id x = xe_investigation_id y \<and> target_sha256 E x = target_sha256 E y \<and>
      n = m \<and> q = s \<and> r = t \<and> p = u) \<or>
    digests_collide E (json_bytes (evidence_material E x n q r p)) (json_bytes (evidence_material E y m s t u))"
proof -
  have i: "i = ''evidence:'' @ env_sha256 E (json_bytes (evidence_material E x n q r p))"
    "i = ''evidence:'' @ env_sha256 E (json_bytes (evidence_material E y m s t u))"
    using assms by (auto simp: evidence_id_def value_sha256_def canonical_json_value_bytes_def split: if_splits)
  have finite: "json_finite (evidence_material E x n q r p)" for x n q r p
    by (cases q; cases r) (simp_all add: evidence_material_def option_json_def)
  show ?thesis
  proof (cases "json_bytes (evidence_material E x n q r p) = json_bytes (evidence_material E y m s t u)")
    case True
    from evidence_material_inj [OF json_bytes_inj [OF finite finite True]] show ?thesis by simp
  next
    case False
    then show ?thesis using i by (simp add: digests_collide_def)
  qed
qed

section \<open>Explanations\<close>

text \<open>
  An explanation written by a model changes nothing that the report decides: the report with it and
  the report without it agree in every other field.
\<close>

lemma report_advisory_cites:
  assumes "report_advisory E decisions advisory = Inr advisory'"
  shows "option_ok (\<lambda>a. accepted (validate_advisory E) a \<and> set (ad_cited_evidence_ids a) \<subseteq>
      set (map ed_evidence_id (filter (\<lambda>d. ed_disposition d \<in> {ADMITTED, WEAK_EVIDENCE}) decisions))) advisory'"
proof (cases advisory)
  case None
  then show ?thesis using assms by (simp add: report_advisory_def)
next
  case (Some a)
  have return: "validate_advisory E b = Inr b' \<longleftrightarrow> b' = b \<and> accepted (validate_advisory E) b" for b b'
    by (auto simp: validate_advisory_def accepted_iff)
  show ?thesis
    using assms Some unfolding report_advisory_def Let_def by (auto simp: return split: if_splits)
qed

lemma build_report_eq:
  assumes "build_report E x us v created_at updated_at revision advisory = Inr r"
  shows "\<exists>audit advisory'. r = assembled_report E x v audit advisory' created_at updated_at revision \<and>
    map_result (validate_probe_audit E) (map2 report_audit (sort_key ca_sequence us) (cv_attempts v)) = Inr audit \<and>
    report_advisory E (cv_decisions v) advisory = Inr advisory'"
  using assms by (auto simp: build_report_def Let_def validate_investigation_report_def)

lemma explanation_changes_nothing:
  assumes "build_report E x us v created_at updated_at revision (Some a) = Inr r"
    and "build_report E x us v created_at updated_at revision None = Inr plain"
  shows "r\<lparr>ir_advisory_explanation := None\<rparr> = plain"
  using build_report_eq [OF assms(1)] build_report_eq [OF assms(2)]
  by (auto simp: assembled_report_def report_advisory_def)

text \<open>The report of the records of an investigation.\<close>

lemma build_report_accepts:
  assumes records: "investigation_records E x audits bs" and v: "classify E x bs = Inr v" and "hexdigest_ok E"
    and advisory: "report_advisory E (cv_decisions v) advisory = Inr advisory'"
    and times: "time_ok created_at" "time_ok updated_at" "created_at \<le> updated_at" "int_ok 0 revision"
  shows "build_report E x audits v created_at updated_at revision advisory =
    Inr (assembled_report E x v (map2 report_audit audits bs) advisory' created_at updated_at revision)"
proof -
  note sorted = records_sorted [OF records]
  have "envelope_accepted E x" using records by (simp add: investigation_records_def classifiable_def)
  then have attempts: "cv_attempts v = bs" "cv_envelope_sha256 v = envelope_sha256 E x"
    using classify_eq [OF v] by simp_all
  let ?audit = "map2 report_audit audits bs"
  have audit: "map_result (validate_probe_audit E) ?audit = Inr ?audit"
    by (rule map_result_id [OF map2_report_audit_accepted [OF records]]) (rule validators_return_argument)
  have "passes (report_guards E x audits v)"
    using sorted records attempts
    by (auto simp: report_guards_def investigation_records_def attempt_guards_def Let_def)
  then show ?thesis
    using assembled_report_accepted [OF records v assms(3), of advisory'] report_advisory_cites [OF advisory]
      times sorted audit attempts advisory
    by (simp add: build_report_def Let_def report_extras_ok_def passes_def)
qed

lemma build_report_total:
  assumes records: "investigation_records E x audits as" and "hexdigest_ok E"
    and times: "time_ok created_at" "time_ok updated_at" "created_at \<le> updated_at" "int_ok 0 revision"
  shows "\<exists>v r. evaluate_evidence E x as audits = Inr v \<and>
    build_report E x audits v created_at updated_at revision None = Inr r \<and>
    ir_classification r = Some (cv_classification v) \<and> ir_proof r = Some (cv_proof v)"
proof -
  obtain bs v where v: "evaluate_evidence E x as audits = Inr v" "investigation_records E x audits bs"
    "classify E x bs = Inr v"
    using evaluate_records [OF records] by blast
  have "report_advisory E (cv_decisions v) None = Inr None" by (simp add: report_advisory_def)
  from build_report_accepts [OF v(2,3) assms(2) this times] show ?thesis
    using v(1) by (intro exI [of _ v]) simp
qed

end
