(* ===== verification/Engine_Laws.thy ===== *)
theory Engine_Laws
  imports Evidence_Meaning
begin

text \<open>
  The engine of one investigation, from the runs of its probes to its report.
\<close>

section \<open>Attempts carry the name of their run\<close>

definition attempt_named :: "env \<Rightarrow> execution_envelope \<Rightarrow> controller_audit \<Rightarrow> evidence_attempt \<Rightarrow> bool" where
  "attempt_named E x audit a \<longleftrightarrow>
     evidence_id E x (ca_sequence audit) (ca_request_sha256 audit) (at_raw_sha256 a) (ca_outcome audit) =
       Inr (attempt_id a)"

lemma rejected_attempt_named: "rejected_attempt E x audit raw evidence reason = Inr a \<Longrightarrow> attempt_named E x audit a"
  by (auto simp: rejected_attempt_def build_attempt_Inr attempt_named_def attempt_for_def attempt_id_def decide_def
      split: if_splits)

lemma admit_observation_named:
  assumes "admit_observation E x request audit observation descriptor r = Inr a"
  shows "attempt_named E x audit a"
proof -
  obtain i where i: "evidence_id E x (ca_sequence audit) (ca_request_sha256 audit) (Some (vo_sha256 observation))
      (ca_outcome audit) = Inr i"
    using assms by (auto simp: admit_observation_def Let_def)
  have built: "attempt_named E x audit a"
    if "build_attempt E (attempt_for E x audit (Some (vo_sha256 observation)) e (decide i d reason)) = Inr a" for e d reason
    using that i by (auto simp: build_attempt_Inr attempt_named_def attempt_for_def attempt_id_def decide_def)
  show ?thesis
    using assms unfolding admit_observation_def Let_def i bind_result_simps
    by (auto intro: rejected_attempt_named built split: sum.splits option.splits prod.splits)
qed

lemma normalize_named:
  assumes "normalize E decode run pl = (Inr a, pl')"
  shows "attempt_named E (pl_envelope pl) (pe_audit (pn_execution run)) a"
proof -
  have "attempt_named E x (pe_audit (pn_execution run)) a"
    if "normalize_checked E decode x g s run expected = Inr a" for x g s expected
    using that unfolding normalize_checked_def Let_def
    by (auto intro: rejected_attempt_named admit_observation_named split: if_splits option.splits sum.splits)
  then show ?thesis using assms by (auto simp: normalize_def Let_def split: if_splits)
qed

text \<open>
  The text whose digest names the attempt of a run, and the case that two of the texts of one
  investigation, at most 64 of them, differ and have one digest.
\<close>

definition run_material :: "env \<Rightarrow> execution_envelope \<Rightarrow> controller_audit \<Rightarrow> evidence_attempt \<Rightarrow> string" where
  "run_material E x audit a =
     json_bytes (evidence_material E x (ca_sequence audit) (ca_request_sha256 audit) (at_raw_sha256 a) (ca_outcome audit))"

definition names_collide :: "env \<Rightarrow> execution_envelope \<Rightarrow> controller_audit list \<Rightarrow> evidence_attempt list \<Rightarrow> bool" where
  "names_collide E x audits as \<longleftrightarrow>
     (\<exists>(u, a) \<in> set (zip audits as). \<exists>(w, b) \<in> set (zip audits as).
        digests_collide E (run_material E x u a) (run_material E x w b))"

lemma one_name_never_collides: "length audits \<le> 1 \<Longrightarrow> \<not> names_collide E x audits as"
  by (cases audits; cases as) (auto simp: names_collide_def digests_collide_def)

lemma names_collide_Cons:
  "names_collide E x us as \<Longrightarrow> names_collide E x (u # us) (a # as)"
  unfolding names_collide_def zip_Cons_Cons list.set by blast

lemma attempts_named_distinct:
  assumes "list_all2 (attempt_named E x) audits as" "distinct (map ca_sequence audits)"
  shows "distinct (map attempt_id as) \<or> names_collide E x audits as"
  using assms
proof (induction audits as rule: list_all2_induct)
  case (Cons u us a as)
  show ?case
  proof (cases "attempt_id a \<in> set (map attempt_id as)")
    case True
    then obtain b where b: "b \<in> set as" "attempt_id b = attempt_id a" by auto
    then obtain w where w: "w \<in> set us" "attempt_named E x w b" "(w, b) \<in> set (zip us as)"
      using Cons.hyps(2) by (metis in_set_impl_in_set_zip2 list_all2_iff case_prodD set_zip_leftD)
    have "ca_sequence w \<noteq> ca_sequence u" using Cons.prems w(1) by (auto simp: image_iff)
    then have "digests_collide E (run_material E x u a) (run_material E x w b)"
      using evidence_id_eqD [of E x "ca_sequence u" _ _ _ "attempt_id a" x "ca_sequence w"] Cons.hyps(1) w(2) b(2)
      unfolding attempt_named_def run_material_def by metis
    then have "names_collide E x (u # us) (a # as)" using w(3) unfolding names_collide_def by auto
    then show ?thesis ..
  next
    case False
    with Cons names_collide_Cons show ?thesis by auto
  qed
qed simp

section \<open>The state of an engine\<close>

text \<open>After the runs with these audits: one sound attempt for each, in order, and the next number.\<close>

definition engine_ok :: "env \<Rightarrow> execution_envelope \<Rightarrow> controller_audit list \<Rightarrow> evidence_engine \<Rightarrow> bool" where
  "engine_ok E x audits g \<longleftrightarrow>
     pl_envelope (en_pipeline g) = x \<and> registry_ok (pl_registry (en_pipeline g)) \<and>
     pl_next_sequence (en_pipeline g) = int (length audits) + 1 \<and>
     map ca_sequence audits = map int [1..<length audits + 1] \<and>
     map fst (en_attempts g) = map ca_sequence audits \<and>
     list_all2 (\<lambda>u a. attempt_sound E x u a \<and> attempt_named E x u a) audits (map snd (en_attempts g))"

lemma new_engine_ok [evidence_rules]: "registry_ok rules \<Longrightarrow> engine_ok E x [] (new_engine x rules)"
  by (simp add: engine_ok_def new_engine_def new_pipeline_def freeze_rules_ok)

lemma process_run_ok [evidence_rules]:
  assumes "engine_ok E x audits g" "envelope_accepted E x" "process_run E decode run g = (Inr a, g')"
  shows "engine_ok E x (audits @ [pe_audit (pn_execution run)]) g'"
proof -
  let ?audit = "pe_audit (pn_execution run)"
  obtain pl where n: "normalize E decode run (en_pipeline g) = (Inr a, pl)"
    and g': "g' = g\<lparr>en_pipeline := pl, en_attempts := en_attempts g @ [(at_probe_sequence a, a)]\<rparr>"
    using assms(3) by (auto simp: process_run_def split: prod.splits sum.splits if_splits)
  note g = assms(1) [unfolded engine_ok_def]
  have env: "envelope_accepted E (pl_envelope (en_pipeline g))" "registry_ok (pl_registry (en_pipeline g))"
    using g assms(2) by simp_all
  note sound = normalize_sound [OF env n] and named = normalize_named [OF n]
  have "ca_sequence ?audit = int (length audits) + 1" using sound(4) g by simp
  moreover have "at_probe_sequence a = ca_sequence ?audit" using sound(1) by (simp add: attempt_sound_def)
  moreover have "length audits = length (map snd (en_attempts g))" using g by (auto dest: list_all2_lengthD)
  ultimately show ?thesis
    using g sound named unfolding engine_ok_def g' by (auto simp: list_all2_append)
qed

text \<open>A run in its turn is processed, whatever its outcome.\<close>

lemma process_run_total:
  assumes "engine_ok E x audits g" "hexdigest_ok E" "envelope_accepted E x"
    and run: "audit_accepted E (pe_audit (pn_execution run))"
      "ca_sequence (pe_audit (pn_execution run)) = int (length audits) + 1"
      "probe_request_sha256 E (pn_request run) = Inr expected"
  shows "\<exists>a g'. process_run E decode run g = (Inr a, g')"
proof -
  note g = assms(1) [unfolded engine_ok_def]
  obtain a where a: "fst (normalize E decode run (en_pipeline g)) = Inr a"
    using normalize_total(1) [of E "en_pipeline g" run expected] assms g by auto
  then obtain pl where n: "normalize E decode run (en_pipeline g) = (Inr a, pl)" by (metis prod.collapse)
  have "envelope_accepted E (pl_envelope (en_pipeline g))" "registry_ok (pl_registry (en_pipeline g))"
    using g assms(3) by simp_all
  from normalize_sound(1) [OF this n] have "at_probe_sequence a = int (length audits) + 1"
    using run(2) by (simp add: attempt_sound_def)
  moreover have "fst ` set (en_attempts g) = int ` {1..<length audits + 1}"
    using g by (metis list.set_map set_upt)
  ultimately have "at_probe_sequence a \<notin> fst ` set (en_attempts g)" by auto
  then show ?thesis using n by (simp add: process_run_def)
qed

fun process_all ::
  "env \<Rightarrow> (string \<Rightarrow> probe_observation option) \<Rightarrow> probe_run list \<Rightarrow> evidence_engine \<Rightarrow> evidence_engine result" where
  "process_all E decode [] g = Inr g"
| "process_all E decode (run # queue) g =
     (case process_run E decode run g of (Inl e, _) \<Rightarrow> Inl e | (Inr _, g) \<Rightarrow> process_all E decode queue g)"

definition runs_ok :: "env \<Rightarrow> nat \<Rightarrow> probe_run list \<Rightarrow> bool" where
  "runs_ok E n queue \<longleftrightarrow>
     map (\<lambda>run. ca_sequence (pe_audit (pn_execution run))) queue = map int [n + 1..<n + 1 + length queue] \<and>
     list_all (\<lambda>run. audit_accepted E (pe_audit (pn_execution run)) \<and>
       (\<exists>expected. probe_request_sha256 E (pn_request run) = Inr expected)) queue"

lemma runs_ok_Cons:
  "runs_ok E n (run # queue) \<longleftrightarrow>
     ca_sequence (pe_audit (pn_execution run)) = int n + 1 \<and> audit_accepted E (pe_audit (pn_execution run)) \<and>
     (\<exists>expected. probe_request_sha256 E (pn_request run) = Inr expected) \<and> runs_ok E (Suc n) queue"
  by (auto simp: runs_ok_def upt_conv_Cons simp del: upt_Suc)

lemma process_all_total:
  assumes "hexdigest_ok E" "envelope_accepted E x" "engine_ok E x audits g" "runs_ok E (length audits) queue"
  shows "\<exists>g'. process_all E decode queue g = Inr g' \<and>
    engine_ok E x (audits @ map (\<lambda>run. pe_audit (pn_execution run)) queue) g'"
  using assms(3,4)
proof (induction queue arbitrary: audits g)
  case (Cons run queue)
  from Cons.prems(2) obtain expected where run: "audit_accepted E (pe_audit (pn_execution run))"
    "ca_sequence (pe_audit (pn_execution run)) = int (length audits) + 1"
    "probe_request_sha256 E (pn_request run) = Inr expected" and rest: "runs_ok E (Suc (length audits)) queue"
    unfolding runs_ok_Cons by blast
  obtain a g' where p: "process_run E decode run g = (Inr a, g')"
    using process_run_total [OF Cons.prems(1) assms(1,2) run] by blast
  have ok: "engine_ok E x (audits @ [pe_audit (pn_execution run)]) g'"
    by (rule process_run_ok [OF Cons.prems(1) assms(2) p])
  then show ?case using Cons.IH [OF ok] rest p by auto
qed simp

lemma engine_attempts_eq:
  assumes "engine_ok E x audits g"
  shows "engine_attempts g = map snd (en_attempts g)"
proof -
  have keys: "map fst (en_attempts g) = map int [1..<length audits + 1]" using assms by (simp add: engine_ok_def)
  have d: "distinct (map fst (en_attempts g))" and s: "sorted (map fst (en_attempts g))"
    unfolding keys by (rule map_int_upt)+
  have "sorted_set (map fst (en_attempts g)) = map fst (en_attempts g)"
    using d s by (simp add: sorted_set_distinct sorted_sort_id)
  moreover have "the (map_of (en_attempts g) (fst p)) = snd p" if "p \<in> set (en_attempts g)" for p
    using map_of_is_SomeI [OF d, of "fst p" "snd p"] that by simp
  ultimately show ?thesis by (simp add: engine_attempts_def)
qed

text \<open>
  From its runs to its report: an investigation of at most 64 probes ends in a report that its
  validator accepts, unless the names of two of its own runs collide.
\<close>

lemma engine_reports:
  assumes "engine_ok E x audits g" "hexdigest_ok E" "envelope_accepted E x" "length audits \<le> 64"
    and "list_all (audit_accepted E) audits" "list_all (capability_enabled x) audits"
    and times: "time_ok created_at" "time_ok updated_at" "created_at \<le> updated_at" "int_ok 0 revision"
  shows "(\<exists>r. engine_report E audits created_at updated_at revision None g = Inr r) \<or>
    names_collide E x audits (engine_attempts g)"
proof -
  let ?as = "map snd (en_attempts g)"
  note g = assms(1) [unfolded engine_ok_def]
  have sound: "list_all2 (attempt_sound E x) audits ?as" and named: "list_all2 (attempt_named E x) audits ?as"
    using g by (auto elim: list_all2_mono)
  have n: "map ca_sequence audits = map int [1..<length audits + 1]" using g by simp
  have "distinct (map ca_sequence audits)" unfolding n by (rule map_int_upt)
  from attempts_named_distinct [OF named this, folded engine_attempts_eq [OF assms(1)]] show ?thesis
  proof
    assume "distinct (map attempt_id (engine_attempts g))"
    then have "investigation_records E x audits ?as"
      using sound n assms(3-6) list_all2_lengthD [OF sound]
      by (simp add: investigation_records_def classifiable_def engine_attempts_eq [OF assms(1)])
    from build_report_total [OF this assms(2) times] show ?thesis
      using g by (auto simp: engine_report_def engine_evaluate_def engine_attempts_eq [OF assms(1)])
  qed blast
qed

text \<open>The whole way of an investigation, from a fresh engine.\<close>

lemma report_of_engine:
  assumes "engine_report E audits created_at updated_at revision None g = Inr r"
  shows "ir_envelope_sha256 r = envelope_sha256 E (pl_envelope (en_pipeline g))"
    "length (ir_probe_audit r) = length audits"
proof -
  obtain v where v: "build_report E (pl_envelope (en_pipeline g)) audits v created_at updated_at revision None = Inr r"
    using assms by (auto simp: engine_report_def)
  from build_report_eq [OF this] obtain audit where
    r: "r = assembled_report E (pl_envelope (en_pipeline g)) v audit None created_at updated_at revision"
    "map_result (validate_probe_audit E) (map2 report_audit (sort_key ca_sequence audits) (cv_attempts v)) = Inr audit"
    by (auto simp: report_advisory_def)
  then show "ir_envelope_sha256 r = envelope_sha256 E (pl_envelope (en_pipeline g))" by (simp add: assembled_report_def)
  have "length (map at_probe_sequence (cv_attempts v)) = length (map ca_sequence (sort_key ca_sequence audits))"
    using v by (auto simp: build_report_def report_guards_def Let_def)
  then show "length (ir_probe_audit r) = length audits"
    using r by (auto simp: assembled_report_def map_result_eq_Inr dest: list_all2_lengthD)
qed

lemma engine_report_valid:
  assumes "engine_report E audits created updated revision advisory g = Inr r"
  shows "validate_investigation_report E r = Inr r" "ir_classification r \<noteq> None"
  using assms
  by (auto simp: engine_report_def build_report_def Let_def assembled_report_def validate_investigation_report_def)

lemma engine_investigation:
  assumes "hexdigest_ok E" "envelope_accepted E x" "registry_ok rules" "runs_ok E 0 queue" "length queue \<le> 64"
    and audits: "audits = map (\<lambda>run. pe_audit (pn_execution run)) queue" "list_all (capability_enabled x) audits"
    and times: "time_ok created_at" "time_ok updated_at" "created_at \<le> updated_at" "int_ok 0 revision"
  shows "\<exists>g. process_all E decode queue (new_engine x rules) = Inr g \<and>
    ((\<exists>r. engine_report E audits created_at updated_at revision None g = Inr r \<and>
        validate_investigation_report E r = Inr r \<and>
        ir_envelope_sha256 r = envelope_sha256 E x \<and> length (ir_probe_audit r) = length queue) \<or>
     names_collide E x audits (engine_attempts g))"
proof -
  obtain g where g: "process_all E decode queue (new_engine x rules) = Inr g" "engine_ok E x audits g"
    using process_all_total [OF assms(1,2) new_engine_ok [OF assms(3)], of queue decode] assms(4) audits(1) by auto
  have "list_all (audit_accepted E) audits"
    using assms(4) audits(1) by (auto simp: runs_ok_def list_all_iff)
  from engine_reports [OF g(2) assms(1,2) _ this audits(2) times] show ?thesis
    using g report_of_engine [of E audits created_at updated_at revision g]
      engine_report_valid(1) [of E audits created_at updated_at revision None g] assms(5) audits(1)
    by (auto simp: engine_ok_def)
qed

end
