(* ===== verification/Evidence_Sample.thy ===== *)
theory Evidence_Sample
  imports Sample Engine_Laws
begin

text \<open>
  A concrete investigation for the witnesses: an envelope with one expected effect, a registered rule,
  and the completed run of one probe whose observation the rule reads as the committed effect, or as
  its absence: the boolean argument of the definitions says which.
\<close>

section \<open>The envelope\<close>

lemma evidence_identifiers [simp]:
  "identifier_ok E ''investigation-1''" "identifier_ok E ''operation-1''" "identifier_ok E ''ledger''"
  "identifier_ok E ''effect-1''" "identifier_ok E ''scope-1''" "identifier_ok E ''read''"
  "identifier_ok E ''adapter-1''" "identifier_ok E ''call-1''"
  by (simp_all add: plain_identifier_ok plain_chars)

lemma sample_texts [simp]:
  "non_empty_text_ok E ''booked''" "non_empty_text_ok E ''check''" "non_empty_text_ok E ''record-1''"
  "\<not> contains_sensitive_material E ''booked''" "\<not> contains_sensitive_material E ''record-1''"
  by (simp_all add: non_empty_text_ok_def bounded_text_ok_def text_length_def printable_text_ok
    plain_text_not_sensitive plain_chars)

definition sample_target :: target_binding where
  "sample_target =
     \<lparr>tb_target_kind = ''ledger'', tb_scope = [(''account'', JInt 1)], tb_resource = [(''entry'', JInt 2)]\<rparr>"

definition sample_envelope :: execution_envelope where
  "sample_envelope =
     \<lparr>xe_investigation_id = ''investigation-1'', xe_operation_id = ''operation-1'', xe_target = sample_target,
      xe_invoked_at = 100,
      xe_ambiguity = \<lparr>ax_kind = TIMEOUT, ax_observed_at = 100, ax_detail = None\<rparr>,
      xe_expected_effects =
        [\<lparr>ee_effect_id = ''effect-1'', ee_commit_scope = ''scope-1'', ee_predicate = [(''booked'', JBool True)],
          ee_description = ''booked''\<rparr>],
      xe_context =
        \<lparr>ec_invocation =
           \<lparr>oi_invocation_id = ''call-1'', oi_function_call_id = None, oi_tool_name = ''tool'', oi_tool_version = ''v1'',
            oi_arguments = [], oi_arguments_sha256 = env_sha256 sample_env (json_bytes (JObj []))\<rparr>,
         ec_enabled_capabilities = [\<lparr>cref_name = ''read'', cref_version = ''v1''\<rparr>],
         ec_correlation_fields = [],
         ec_evidence_budget =
           \<lparr>eb_max_probes = 4, eb_max_elapsed_ms = 1000, eb_max_total_result_bytes = 1000, eb_max_cost_units = 10\<rparr>,
         ec_freshness = \<lparr>fp_max_age_seconds = 3600, fp_clock_skew_seconds = 0\<rparr>,
         ec_policies =
           \<lparr>pr_authority = ''policy-1'', pr_classification = ''policy-1'', pr_action = ''policy-1''\<rparr>\<rparr>\<rparr>"

lemma sample_digest_ok [simp]: "sha256_digest_ok (env_sha256 sample_env b)"
  using sample_hexdigest_ok by (simp add: hexdigest_ok_def)

lemma sample_keys [simp]:
  "\<not> is_sensitive_key E ''account''" "\<not> is_sensitive_key E ''entry''" "\<not> is_sensitive_key E ''booked''"
  by (simp_all add: is_sensitive_key_def key_words_def normalized_key_def text_lower_def is_ascii_def
    lower_char_def plain_chars upper_letter_def sensitive_key_tokens_def sensitive_key_names_def)

lemma sample_target_valid [simp]: "validate_target_binding E sample_target = Inr sample_target"
  by (simp add: validate_target_binding_def target_binding_fields_ok_def json_object_ok_def
    sample_target_def length_ok_def key_bounds_def text_length_def printable_text_ok)

lemma sample_target_accepted [simp]: "accepted (validate_target_binding E) sample_target"
  by (simp add: accepted_iff)

lemma sample_envelope_accepted: "envelope_accepted sample_env sample_envelope"
proof -
  have "accepted (validate_original_invocation sample_env) (ec_invocation (xe_context sample_envelope))"
    by (simp add: accepted_iff sample_envelope_def validate_original_invocation_def original_invocation_fields_ok_def
      json_object_ok_def length_ok_def value_sha256_def canonical_json_value_bytes_def)
  moreover have "list_all (accepted (validate_expected_effect sample_env)) (xe_expected_effects sample_envelope)"
    by (simp add: accepted_iff sample_envelope_def validate_expected_effect_def expected_effect_fields_ok_def
      json_object_ok_def length_ok_def key_bounds_def text_length_def printable_text_ok)
  moreover have "accepted (validate_target_binding sample_env) (xe_target sample_envelope)"
    by (simp add: sample_envelope_def)
  ultimately show ?thesis
    by (simp add: envelope_accepted_def accepted_iff validate_execution_envelope_def execution_envelope_fields_ok_def)
      (simp add: sample_envelope_def accepted_iff validate_envelope_context_def envelope_context_fields_ok_def
        validate_ambiguous_execution_def capability_ref_ok_def correlation_ok_def evidence_budget_ok_def
        freshness_policy_ok_def policy_references_ok_def int_ok_def int64_max_def length_ok_def
        correlation_keys_free_def correlation_values_free_def text_members_def)
qed

section \<open>The rule\<close>

text \<open>A target rule that reads every observation as the committed effects of the request.\<close>

definition sample_normalizer :: "bool \<Rightarrow> rule_input \<Rightarrow> rule_outcome" where
  "sample_normalizer b i = Rule_Returns
     \<lparr>ru_target = xe_target (rl_envelope i), ru_source_record = ''record-1'', ru_observed_at = 150,
      ru_operation_id = Some (xe_operation_id (rl_envelope i)), ru_correlation = [],
      ru_effect_assertions =
        map (\<lambda>e. \<lparr>ea_effect_id = e, ea_state = (if b then ESTABLISHED else NOT_ESTABLISHED)\<rparr>) (rq_relevant_effect_ids (rl_request i)),
      ru_operation_status = Some (if b then TERMINAL_COMMITTED else TERMINAL_NOT_COMMITTED),
      ru_verdict = (if b then AUTHORITATIVE_EFFECTS else AUTHORITATIVE_NON_EXECUTION)\<rparr>"

definition sample_descriptor :: rule_descriptor where
  "sample_descriptor =
     \<lparr>rd_target_kind = ''ledger'', rd_capability_name = ''read'', rd_capability_version = ''v1'',
      rd_authority_policy_version = ''policy-1'', rd_classification_policy_version = ''policy-1'',
      rd_source = ''ledger'', rd_adapter_version = ''adapter-1''\<rparr>"

definition sample_registration :: "bool \<Rightarrow> rule_registration" where
  "sample_registration b = \<lparr>rr_descriptor = sample_descriptor, rr_normalizer = (sample_normalizer b)\<rparr>"

definition sample_rules :: "bool \<Rightarrow> rule_registry" where
  "sample_rules b =
     \<lparr>rg_registrations = [(rule_key sample_descriptor, (sample_registration b))], rg_snapshot = None\<rparr>"

lemma sample_rules_registered: "register_rule (sample_registration b) new_rule_registry = Inr (sample_rules b)"
  by (simp add: register_rule_def new_rule_registry_def sample_rules_def sample_registration_def)

lemma sample_rules_ok: "registry_ok (sample_rules b)"
  using register_rule_ok [OF sample_rules_registered new_registry_ok] .

section \<open>The run\<close>

definition sample_request :: probe_request where
  "sample_request =
     \<lparr>pq_capability_name = ''read'', pq_capability_version = ''v1'', pq_relevant_effect_ids = [''effect-1''],
      pq_arguments = [], pq_rationale = ''check''\<rparr>"

definition sample_request_sha256 :: string where
  "sample_request_sha256 = env_sha256 sample_env (json_bytes (JObj
     [(''arguments'', JObj []), (''capability_name'', JStr ''read''), (''capability_version'', JStr ''v1''),
      (''relevant_effect_ids'', strings_json [''effect-1''])]))"

lemma sample_request_digest: "probe_request_sha256 sample_env sample_request = Inr sample_request_sha256"
  by (simp add: probe_request_sha256_def sample_request_def sample_request_sha256_def value_sha256_def
    canonical_json_value_bytes_def key_bounds_def text_length_def printable_text_ok strings_json_def)

definition sample_observation :: probe_observation where
  "sample_observation = \<lparr>po_observed_at = 150, po_payload = []\<rparr>"

definition sample_bytes :: string where
  "sample_bytes = observation_bytes sample_observation"

definition sample_decode :: "string \<Rightarrow> probe_observation option" where
  "sample_decode s = (if s = sample_bytes then Some sample_observation else None)"

definition sample_validated :: validated_observation where
  "sample_validated =
     \<lparr>vo_canonical_json = sample_bytes, vo_sha256 = env_sha256 sample_env sample_bytes,
      vo_byte_count = int (length sample_bytes)\<rparr>"

lemma sample_bytes_length: "length sample_bytes \<le> 500"
  using length_json_bytes [of "probe_observation_json sample_observation"] iso_text_sizes(2)
  by (simp add: sample_bytes_def observation_bytes_def)
    (simp add: probe_observation_json_def sample_observation_def time_json_def)

definition sample_audit :: controller_audit where
  "sample_audit =
     \<lparr>ca_sequence = 1, ca_capability_name = Some ''read'', ca_capability_version = Some ''v1'',
      ca_request_sha256 = Some sample_request_sha256, ca_target_sha256 = target_sha256 sample_env sample_envelope,
      ca_outcome = PO_COMPLETED, ca_stop_reason = SR_PROBE_COMPLETED, ca_started_at = 150, ca_completed_at = 160,
      ca_session_elapsed_ms = 10, ca_probe_count_used = 1, ca_cost_units_used = 1,
      ca_result_bytes_acquired = int (length sample_bytes),
      ca_result_sha256 = Some (env_sha256 sample_env sample_bytes),
      ca_result_byte_count = Some (int (length sample_bytes))\<rparr>"

lemma sample_sha256s_ok [simp]:
  "sha256_digest_ok sample_request_sha256" "sha256_digest_ok (target_sha256 sample_env x)"
  by (simp_all add: sample_request_sha256_def target_sha256_def canonical_sha256_def)

lemma sample_audit_accepted: "audit_accepted sample_env sample_audit"
  using sample_bytes_length
  by (simp add: audit_accepted_def accepted_iff validate_controller_audit_def controller_audit_fields_ok_def
    sample_audit_def int_ok_def int64_max_def)

definition sample_probe_run :: probe_run where
  "sample_probe_run =
     \<lparr>pn_request = sample_request,
      pn_execution =
        \<lparr>pe_envelope_sha256 = envelope_sha256 sample_env sample_envelope, pe_audit = sample_audit,
         pe_observation = Some sample_validated, pe_session = 7\<rparr>\<rparr>"

section \<open>The attempt\<close>

definition sample_reading :: "bool \<Rightarrow> rule_observation" where
  "sample_reading b =
     \<lparr>ru_target = sample_target, ru_source_record = ''record-1'', ru_observed_at = 150,
      ru_operation_id = Some ''operation-1'', ru_correlation = [],
      ru_effect_assertions = [\<lparr>ea_effect_id = ''effect-1'', ea_state = (if b then ESTABLISHED else NOT_ESTABLISHED)\<rparr>],
      ru_operation_status = Some (if b then TERMINAL_COMMITTED else TERMINAL_NOT_COMMITTED),
      ru_verdict = (if b then AUTHORITATIVE_EFFECTS else AUTHORITATIVE_NON_EXECUTION)\<rparr>"

abbreviation sample_digest :: "string option" where
  "sample_digest \<equiv> Some (env_sha256 sample_env sample_bytes)"

definition sample_evidence :: "bool \<Rightarrow> normalized_evidence" where
  "sample_evidence b =
     normalized_from (evidence_name sample_env sample_envelope sample_audit sample_digest) sample_request
       sample_descriptor (sample_reading b) \<lparr>fw_valid_from = 150, fw_valid_until = 150 + 3600000000\<rparr> 160 sample_validated"

definition sample_attempt :: "bool \<Rightarrow> evidence_attempt" where
  "sample_attempt b = attempt_for sample_env sample_envelope sample_audit sample_digest (Some (sample_evidence b))
     (decide (evidence_name sample_env sample_envelope sample_audit sample_digest) ADMITTED
       (if b then AUTHORITATIVE_EXACT_CORRELATION else AUTHORITATIVE_AFFIRMATIVE_NON_EXECUTION))"

lemma sample_reading_valid: "validate_rule_observation sample_env (sample_reading b) = Inr (sample_reading b)"
  using sample_target_accepted [of sample_env]
  by (simp add: validate_rule_observation_def rule_observation_fields_ok_def verdict_checks_def)
    (simp add: sample_reading_def correlation_ok_def length_ok_def correlation_keys_free_def
      correlation_values_free_def text_members_def)

lemma sample_rule_answer:
  "rule_answer sample_env (sample_registration b) sample_envelope sample_request sample_bytes 160 = Inr (sample_reading b)"
proof -
  have "build_rule_input sample_env sample_envelope sample_request sample_bytes 160 = Inr
      \<lparr>rl_envelope = sample_envelope,
       rl_request = \<lparr>rq_capability_name = ''read'', rq_capability_version = ''v1'',
         rq_relevant_effect_ids = [''effect-1''], rq_arguments = []\<rparr>,
       rl_observation = sample_bytes, rl_retrieved_at = 160\<rparr>"
    by (simp add: build_rule_input_def validate_rule_request_def json_object_ok_def length_ok_def)
      (simp add: sample_request_def length_ok_def)
  moreover have "rr_normalizer (sample_registration b)
      \<lparr>rl_envelope = sample_envelope,
       rl_request = \<lparr>rq_capability_name = ''read'', rq_capability_version = ''v1'',
         rq_relevant_effect_ids = [''effect-1''], rq_arguments = []\<rparr>,
       rl_observation = sample_bytes, rl_retrieved_at = 160\<rparr> = Rule_Returns (sample_reading b)"
    by (simp add: sample_registration_def sample_normalizer_def sample_reading_def sample_envelope_def)
  ultimately show ?thesis using sample_reading_valid by (simp add: rule_answer_def)
qed

lemma sample_reference_ok: "identifier_ok sample_env (''observation:'' @ env_sha256 sample_env sample_bytes)"
proof -
  have d: "length (env_sha256 sample_env sample_bytes) = 64" "list_all lower_hex (env_sha256 sample_env sample_bytes)"
    using sample_digest_ok [of sample_bytes] by (simp_all add: sha256_digest_ok_def)
  have "identifier_char c" if "lower_hex c" for c
    using that by (auto simp: lower_hex_def identifier_char_def identifier_start_def letter_or_digit_def
      lower_letter_def digit_char_def)
  then have "list_all identifier_char (env_sha256 sample_env sample_bytes)"
    by (rule list.pred_mono_strong [OF d(2)])
  then show ?thesis
    using d(1) observation_name_not_sensitive [OF d(2) [unfolded lower_hex_def], of sample_env]
    by (simp add: identifier_ok_def identifier_char_def identifier_start_def letter_or_digit_def lower_letter_def)
qed

lemma sample_evidence_valid: "validate_normalized_evidence sample_env (sample_evidence b) = Inr (sample_evidence b)"
proof -
  have "raw_observation_ok sample_env (ev_raw_observation (sample_evidence b))"
    using sample_reference_ok sample_bytes_length
    by (simp add: raw_observation_ok_def sample_evidence_def normalized_from_def sample_validated_def int_ok_def
      int64_max_def)
  moreover have "identifier_ok sample_env (ev_evidence_id (sample_evidence b))"
    using evidence_name_ok [OF sample_hexdigest_ok] by (simp add: sample_evidence_def normalized_from_def)
  ultimately show ?thesis
    by (simp add: validate_normalized_evidence_def normalized_evidence_fields_ok_def)
      (simp add: sample_evidence_def normalized_from_def sample_request_def sample_descriptor_def sample_reading_def
        evidence_provenance_ok_def accepted_iff validate_freshness_window_def correlation_ok_def length_ok_def
        correlation_keys_free_def correlation_values_free_def text_members_def time_ok_def datetime_min_def
        datetime_max_def)
qed

lemma sample_admitted: "admission_refusal sample_envelope sample_request (sample_reading b) (sample_evidence b) = None"
  by (simp add: admission_refusal_def sample_evidence_def normalized_from_def sample_reading_def sample_envelope_def
    correlation_matches_def sample_request_def freshness_horizon_def clock_skew_def microseconds_def Let_def)

lemma sample_window:
  "observation_window sample_envelope 150 = Inr \<lparr>fw_valid_from = 150, fw_valid_until = 150 + 3600000000\<rparr>"
  by (simp add: observation_window_def sample_envelope_def clock_skew_def freshness_horizon_def microseconds_def
    timedelta_max_def datetime_min_def datetime_max_def validate_freshness_window_def time_ok_def)

lemma sample_evidence_id:
  "evidence_id sample_env sample_envelope 1 (Some sample_request_sha256) sample_digest PO_COMPLETED =
     Inr (evidence_name sample_env sample_envelope sample_audit sample_digest)"
  using evidence_id_eq [OF sample_hexdigest_ok _ sample_audit_accepted, of sample_envelope sample_digest]
    envelope_acceptedD(1) [OF sample_envelope_accepted]
  by (simp add: sample_audit_def)

lemma sample_attempt_built: "build_attempt sample_env (sample_attempt b) = Inr (sample_attempt b)"
proof -
  have "accepted (validate_evidence_decision sample_env) (at_decision (sample_attempt b))"
    using evidence_name_ok [OF sample_hexdigest_ok]
    by (simp add: accepted_iff validate_evidence_decision_def sample_attempt_def attempt_for_def decide_def
      admitted_reasons_def)
  then show ?thesis
    using sample_evidence_valid
    by (simp add: build_attempt_Inr accepted_iff)
      (simp add: sample_attempt_def attempt_for_def attempt_id_def decide_def sample_audit_def sample_evidence_def
        normalized_from_def)
qed

lemma sample_admission:
  "admit_observation sample_env sample_envelope sample_request sample_audit sample_validated sample_descriptor
     (sample_reading b) = Inr (sample_attempt b)"
proof -
  have e: "normalized_from (evidence_name sample_env sample_envelope sample_audit sample_digest) sample_request
      sample_descriptor (sample_reading b) \<lparr>fw_valid_from = 150, fw_valid_until = 150 + 3600000000\<rparr> 160 sample_validated =
      (sample_evidence b)"
    by (simp add: sample_evidence_def)
  have fields: "ca_sequence sample_audit = 1" "ca_request_sha256 sample_audit = Some sample_request_sha256"
    "ca_outcome sample_audit = PO_COMPLETED" "ca_completed_at sample_audit = 160"
    "vo_sha256 sample_validated = env_sha256 sample_env sample_bytes" "ru_observed_at (sample_reading b) = 150"
    "ru_verdict (sample_reading b) = (if b then AUTHORITATIVE_EFFECTS else AUTHORITATIVE_NON_EXECUTION)"
    by (simp_all add: sample_audit_def sample_validated_def sample_reading_def)
  show ?thesis
    using sample_attempt_built [of b]
    unfolding admit_observation_def Let_def fields sample_evidence_id bind_result_simps sample_window e
      sample_evidence_valid sample_admitted sum.case option.case
    by (cases b) (simp_all add: sample_attempt_def)
qed

definition sample_pipeline :: "bool \<Rightarrow> evidence_pipeline" where
  "sample_pipeline b = new_pipeline sample_envelope (sample_rules b)"

definition sample_after :: "bool \<Rightarrow> evidence_pipeline" where
  "sample_after b = (sample_pipeline b)\<lparr>pl_next_sequence := 2, pl_controller_session := Some 7\<rparr>"

lemma sample_normalized:
  "normalize sample_env sample_decode sample_probe_run (sample_pipeline b) = (Inr (sample_attempt b), (sample_after b))"
proof -
  have pl: "pl_envelope (sample_pipeline b) = sample_envelope" "pl_next_sequence (sample_pipeline b) = 1"
    "pl_controller_session (sample_pipeline b) = None"
    by (simp_all add: sample_pipeline_def new_pipeline_def)
  have rule: "fst (resolve_rule (observation_key sample_envelope sample_request) (pl_registry (sample_pipeline b))) =
      Some (sample_registration b)"
    by (simp add: resolve_rule_def observation_key_def sample_pipeline_def new_pipeline_def freeze_rules_def
      snapshot_rules_def sample_rules_def Let_def rule_key_def sample_descriptor_def)
      (simp add: sample_envelope_def sample_target_def sample_request_def)
  have intact: "observation_intact sample_env sample_decode sample_audit sample_request sample_request_sha256 sample_validated"
    by (simp add: observation_intact_def sample_validated_def sample_decode_def sample_audit_def sample_request_def)
      (simp add: sample_bytes_def)
  have integrity: "integrity_valid sample_env sample_envelope True sample_probe_run sample_request_sha256"
    by (simp add: integrity_valid_def sample_probe_run_def sample_audit_def sample_request_def)
  have fields: "ca_outcome sample_audit = PO_COMPLETED" "ca_completed_at sample_audit = 160" "ca_sequence sample_audit = 1"
    "vo_canonical_json sample_validated = sample_bytes" "rr_descriptor (sample_registration b) = sample_descriptor"
    by (simp_all add: sample_audit_def sample_validated_def sample_registration_def)
  have run: "pe_audit (pn_execution sample_probe_run) = sample_audit" "pn_request sample_probe_run = sample_request"
    "pe_observation (pn_execution sample_probe_run) = Some sample_validated" "pe_session (pn_execution sample_probe_run) = 7"
    by (simp_all add: sample_probe_run_def)
  have "normalize_checked sample_env sample_decode sample_envelope (pl_registry (sample_pipeline b)) True sample_probe_run
      sample_request_sha256 = Inr (sample_attempt b)"
    using integrity intact
    by (simp add: normalize_checked_def run fields rule sample_rule_answer sample_admission Let_def)
  then show ?thesis
    by (simp add: normalize_def run pl fields sample_request_digest sample_after_def)
qed

section \<open>The engine\<close>

definition sample_engine :: "bool \<Rightarrow> evidence_engine" where
  "sample_engine b = \<lparr>en_pipeline = sample_after b, en_attempts = [(1, sample_attempt b)]\<rparr>"

lemma sample_attempt_fields [simp]:
  "at_probe_sequence (sample_attempt b) = 1" "at_evidence (sample_attempt b) = Some (sample_evidence b)"
  "ed_disposition (at_decision (sample_attempt b)) = ADMITTED"
  by (simp_all add: sample_attempt_def attempt_for_def decide_def sample_audit_def)

lemma sample_processed:
  "process_run sample_env sample_decode sample_probe_run (new_engine sample_envelope (sample_rules b)) =
     (Inr (sample_attempt b), sample_engine b)"
  using sample_normalized [of b]
  by (simp add: process_run_def new_engine_def sample_pipeline_def sample_engine_def)

lemma sample_attempt_sound: "attempt_sound sample_env sample_envelope sample_audit (sample_attempt b)"
proof -
  have "pe_audit (pn_execution sample_probe_run) = sample_audit" by (simp add: sample_probe_run_def)
  moreover have "registry_ok (pl_registry (sample_pipeline b))" "pl_envelope (sample_pipeline b) = sample_envelope"
    using freeze_rules_ok [OF sample_rules_ok] by (simp_all add: sample_pipeline_def new_pipeline_def)
  ultimately show ?thesis
    using normalize_sound(1) [OF _ _ sample_normalized] sample_envelope_accepted by metis
qed

lemma sample_records: "investigation_records sample_env sample_envelope [sample_audit] [sample_attempt b]"
  using sample_attempt_sound sample_envelope_accepted sample_audit_accepted
  by (simp add: investigation_records_def classifiable_def)
    (simp add: capability_enabled_def sample_audit_def sample_envelope_def)

lemma sample_evaluated:
  "\<exists>v. evaluate_evidence sample_env sample_envelope [sample_attempt b] [sample_audit] = Inr v \<and>
     cv_attempts v = [sample_attempt b]"
proof -
  obtain bs v where v: "evaluate_evidence sample_env sample_envelope [sample_attempt b] [sample_audit] = Inr v"
    "deduplicate_attempts sample_env [] [sample_attempt b] = Inr bs" "classify sample_env sample_envelope bs = Inr v"
    using evaluate_records [OF sample_records] by blast
  moreover have "bs = [sample_attempt b]" using v(2) by (simp add: Let_def split: option.splits)
  ultimately show ?thesis using classify_eq(2) [OF _ sample_envelope_accepted] by auto
qed

lemma sample_evidence_fields [simp]:
  "ev_effect_assertions (sample_evidence b) =
     [\<lparr>ea_effect_id = ''effect-1'', ea_state = (if b then ESTABLISHED else NOT_ESTABLISHED)\<rparr>]"
  "ev_operation_status (sample_evidence b) = Some (if b then TERMINAL_COMMITTED else TERMINAL_NOT_COMMITTED)"
  by (simp_all add: sample_evidence_def normalized_from_def sample_reading_def)

lemma sample_admits [simp]:
  "admitted_assertion [sample_attempt b] effect state \<longleftrightarrow>
     effect = ''effect-1'' \<and> state = (if b then ESTABLISHED else NOT_ESTABLISHED)"
  "admitted_status [sample_attempt b] status \<longleftrightarrow>
     status = (if b then TERMINAL_COMMITTED else TERMINAL_NOT_COMMITTED)"
  by (auto simp: admitted_assertion_def admitted_status_def)

lemma sample_runs_ok: "runs_ok sample_env 0 [sample_probe_run]"
  using sample_audit_accepted sample_request_digest
  by (simp add: runs_ok_def sample_probe_run_def) (simp add: sample_audit_def)

lemma sample_not_committed:
  "core_classification (admitted_items [sample_attempt False]) (xe_expected_effects sample_envelope) = NOT_COMMITTED"
  by (simp add: core_classification_def core_status_def evidence_conflict_def proved_effects_def effect_values_def
    effect_state_def effect_conflicts_def statuses_of_def admitted_items_def admitted_attempts_def mixed_scopes_def
    commit_scopes_def Let_def) (simp add: sample_envelope_def)

section \<open>An explanation\<close>

definition sample_explanation :: advisory_explanation where
  "sample_explanation =
     \<lparr>ad_text = ''booked'',
      ad_cited_evidence_ids = [evidence_name sample_env sample_envelope sample_audit sample_digest]\<rparr>"

lemma sample_text_kept: "sanitize_boundary_text E ''booked'' = Inr ''booked''" "redact_untrusted_text E ''booked'' = Inr ''booked''"
proof -
  show r: "redact_untrusted_text E ''booked'' = Inr ''booked''"
    by (rule plain_text_redacts) (simp_all add: plain_chars text_length_def)
  show "sanitize_boundary_text E ''booked'' = Inr ''booked''"
    by (simp add: sanitize_boundary_text_def terminal_safe_text_def r is_ascii_def escape_control_def text_length_def)
qed

lemma sample_explained:
  "\<exists>v. evaluate_evidence sample_env sample_envelope [sample_attempt b] [sample_audit] = Inr v \<and>
     build_report sample_env sample_envelope [sample_audit] v 150 160 0 (Some sample_explanation) =
       Inr (assembled_report sample_env sample_envelope v (map2 report_audit [sample_audit] [sample_attempt b])
         (Some sample_explanation) 150 160 0) \<and>
     build_report sample_env sample_envelope [sample_audit] v 150 160 0 None =
       Inr (assembled_report sample_env sample_envelope v (map2 report_audit [sample_audit] [sample_attempt b])
         None 150 160 0)"
proof -
  obtain v where v: "evaluate_evidence sample_env sample_envelope [sample_attempt b] [sample_audit] = Inr v"
    "cv_attempts v = [sample_attempt b]"
    using sample_evaluated by blast
  then have c: "classify sample_env sample_envelope [sample_attempt b] = Inr v"
    using evaluate_classified(2) [OF v(1)] by simp
  have name: "ed_evidence_id (at_decision (sample_attempt b)) =
      evidence_name sample_env sample_envelope sample_audit sample_digest"
    by (simp add: sample_attempt_def attempt_for_def decide_def)
  have valid: "validate_advisory sample_env sample_explanation = Inr sample_explanation"
    using evidence_name_ok [OF sample_hexdigest_ok, of sample_envelope sample_audit sample_digest]
    by (simp add: validate_advisory_def sample_explanation_def length_ok_def bounded_text_ok_def
      text_length_def printable_text_ok)
  have "cv_decisions v = [at_decision (sample_attempt b)]" using evaluate_classified(4) [OF v(1)] v(2) by simp
  moreover have kept: "ad_text sample_explanation = ''booked''"
    "validate_advisory sample_env (sample_explanation\<lparr>ad_text := ''booked''\<rparr>) = Inr sample_explanation"
    using valid by (simp_all add: sample_explanation_def)
  moreover have "set (ad_cited_evidence_ids sample_explanation) = {evidence_name sample_env sample_envelope sample_audit sample_digest}"
    by (simp add: sample_explanation_def)
  ultimately have "report_advisory sample_env (cv_decisions v) (Some sample_explanation) = Inr (Some sample_explanation)"
    by (simp add: report_advisory_def sample_text_kept kept name Let_def)
  note explained = build_report_accepts [OF sample_records c sample_hexdigest_ok this, of 150 160 0]
  have "report_advisory sample_env (cv_decisions v) None = Inr None" by (simp add: report_advisory_def)
  note plain = build_report_accepts [OF sample_records c sample_hexdigest_ok this, of 150 160 0]
  show ?thesis using v(1) explained plain by (auto simp: int_ok_def int64_max_def)
qed

section \<open>A request at the limit of nesting\<close>

definition deep_request :: probe_request where
  "deep_request = sample_request\<lparr>pq_arguments :=
     [(''a'', ((\<lambda>j. JArr [j]) ^^ 11) (JInt 1))]\<rparr>"

lemma deep_request_accepted: "validate_probe_request E deep_request = Inr deep_request"
  by (simp add: validate_probe_request_def probe_request_fields_ok_def deep_request_def sample_request_def
    json_object_ok_def length_ok_def key_bounds_def text_length_def printable_text_ok numeral_eq_Suc is_sensitive_key_def
    key_words_def normalized_key_def text_lower_def is_ascii_def lower_char_def plain_chars upper_letter_def
    sensitive_key_tokens_def sensitive_key_names_def forbidden_coordinates_def target_coordinate_tokens_def)

lemma deep_request_without_digest: "\<exists>e. probe_request_sha256 E deep_request = Inl e"
  by (simp add: probe_request_sha256_def value_sha256_def canonical_json_value_bytes_def deep_request_def
    numeral_eq_Suc)

end
