(* ===== verification/Evidence_Properties.thy ===== *)
theory Evidence_Properties
  imports Evidence_Sample
begin

text \<open>
  The properties of the evidence path: from the audited runs of an investigation through admission
  and classification to its report.
\<close>

text \<open>
  C26: an investigation always ends in a report. A fresh engine processes every audited run of a
  controller session in its order, whatever the probes returned and the rules do, and assembles a
  report that passes its own validator, belongs to the envelope and shows one audit record for each
  run. The only exception is that two of the at most 64 texts from which this investigation names its
  own attempts differ and have one digest.
\<close>

theorem investigation_ends_in_a_report:
  assumes "hexdigest_ok E" "envelope_accepted E x" "registry_ok rules"
    and "runs_ok E 0 queue" "length queue \<le> 64"
    and audits: "audits = map (\<lambda>run. pe_audit (pn_execution run)) queue" "list_all (capability_enabled x) audits"
    and "time_ok created_at" "time_ok updated_at" "created_at \<le> updated_at" "int_ok 0 revision"
  shows "\<exists>g. process_all E decode queue (new_engine x rules) = Inr g \<and>
    ((\<exists>r. engine_report E audits created_at updated_at revision None g = Inr r \<and>
        validate_investigation_report E r = Inr r \<and>
        ir_envelope_sha256 r = envelope_sha256 E x \<and> length (ir_probe_audit r) = length queue) \<or>
     names_collide E x audits (engine_attempts g))"
  by (rule engine_investigation) fact+

theorem investigation_ends_in_a_report_witness:
  "\<exists>g r. process_all sample_env sample_decode [sample_probe_run] (new_engine sample_envelope (sample_rules True)) = Inr g \<and>
    engine_report sample_env [sample_audit] 150 160 0 None g = Inr r \<and>
    ir_envelope_sha256 r = envelope_sha256 sample_env sample_envelope \<and> length (ir_probe_audit r) = 1"
proof -
  have "\<not> names_collide sample_env sample_envelope [sample_audit] as" for as
    by (rule one_name_never_collides) simp
  moreover have "\<exists>g. process_all sample_env sample_decode [sample_probe_run] (new_engine sample_envelope (sample_rules True)) = Inr g \<and>
    ((\<exists>r. engine_report sample_env [sample_audit] 150 160 0 None g = Inr r \<and>
        validate_investigation_report sample_env r = Inr r \<and>
        ir_envelope_sha256 r = envelope_sha256 sample_env sample_envelope \<and> length (ir_probe_audit r) = length [sample_probe_run]) \<or>
     names_collide sample_env sample_envelope [sample_audit] (engine_attempts g))"
    by (rule investigation_ends_in_a_report [OF sample_hexdigest_ok sample_envelope_accepted sample_rules_ok sample_runs_ok])
      (use sample_records in \<open>simp_all add: sample_probe_run_def investigation_records_def int_ok_def int64_max_def\<close>)
  ultimately show ?thesis by auto
qed

text \<open>
  C27: the pipeline builds an attempt from a run in its turn exactly when the request of the run has a
  digest; nothing else stops it, whatever the observation, its decoding and the rule do. When the
  request has no digest the exception of the digest is what the caller gets. In both cases the
  pipeline has moved on to the next number.
\<close>

theorem runs_with_a_digest_become_attempts:
  assumes "hexdigest_ok E" "envelope_accepted E (pl_envelope pl)" "audit_accepted E (pe_audit (pn_execution run))"
    and "ca_sequence (pe_audit (pn_execution run)) = pl_next_sequence pl"
  shows "(\<exists>a. fst (normalize E decode run pl) = Inr a) = (\<exists>d. probe_request_sha256 E (pn_request run) = Inr d) \<and>
    (\<forall>e. fst (normalize E decode run pl) = Inl e \<longleftrightarrow> probe_request_sha256 E (pn_request run) = Inl e) \<and>
    pl_next_sequence (snd (normalize E decode run pl)) = pl_next_sequence pl + 1"
proof (cases "probe_request_sha256 E (pn_request run)")
  case (Inl e)
  with normalize_without_digest [OF assms(4) Inl] show ?thesis by auto
next
  case (Inr d)
  obtain a where "fst (normalize E decode run pl) = Inr a" using normalize_total(1) [OF assms Inr] by blast
  with normalize_total(2) [OF assms Inr, of decode] Inr show ?thesis by simp
qed

theorem runs_with_a_digest_become_attempts_witness:
  "\<exists>a. fst (normalize sample_env (\<lambda>_. None) sample_probe_run (sample_pipeline True)) = Inr a"
  using runs_with_a_digest_become_attempts [OF sample_hexdigest_ok, of "sample_pipeline True" sample_probe_run "\<lambda>_. None"]
    sample_envelope_accepted sample_audit_accepted sample_request_digest
  by (simp add: sample_pipeline_def new_pipeline_def sample_probe_run_def) (simp add: sample_audit_def)

text \<open>
  C28: what the pipeline builds is sound. An attempt is bound to its envelope, its audit record and
  its request; evidence that it keeps names a completed run of the audited capability on the
  envelope's target with the audited digest; and evidence that is not rejected lies in the
  envelope's scope, matches its correlation, asserts expected effects only, was fresh, and its
  decision says what its authority warrants. Runs are taken in their order only.
\<close>

theorem attempts_are_sound:
  assumes "envelope_accepted E (pl_envelope pl)" "registry_ok (pl_registry pl)"
    and "normalize E decode run pl = (Inr a, pl')"
  shows "attempt_sound E (pl_envelope pl) (pe_audit (pn_execution run)) a \<and>
    ca_sequence (pe_audit (pn_execution run)) = pl_next_sequence pl \<and>
    pl_next_sequence pl' = pl_next_sequence pl + 1 \<and> pl_envelope pl' = pl_envelope pl \<and> pl_registry pl' = pl_registry pl"
  using normalize_sound [OF assms] by blast

theorem attempts_are_sound_witness:
  "attempt_sound sample_env sample_envelope sample_audit (sample_attempt True)"
proof -
  have pl: "pl_envelope (sample_pipeline True) = sample_envelope" "registry_ok (pl_registry (sample_pipeline True))"
    "pe_audit (pn_execution sample_probe_run) = sample_audit"
    using freeze_rules_ok [OF sample_rules_ok] by (simp_all add: sample_pipeline_def new_pipeline_def sample_probe_run_def)
  show ?thesis
    using attempts_are_sound [OF _ pl(2) sample_normalized] sample_envelope_accepted unfolding pl(1,3) by blast
qed

text \<open>
  C29: evidence that counts is a reading of the audited bytes. When an attempt is not rejected, its
  evidence is what the rule registered for the capability, the target kind and the policies
  returned for the very bytes whose digest and size the audit of the completed run records, the audit
  names the capability and the digest of the request, and the evidence passed every check against
  the envelope.
\<close>

theorem admitted_evidence_was_read:
  assumes "normalize E decode run pl = (Inr a, pl')" "ed_disposition (at_decision a) \<noteq> REJECTED_EVIDENCE"
  shows "\<exists>e. at_evidence a = Some e \<and> read_by_rule E (pl_envelope pl) (pl_registry pl) run (at_decision a) e"
  using assms by (rule normalize_reads)

theorem admitted_evidence_was_read_witness:
  "\<exists>e. at_evidence (sample_attempt True) = Some e \<and>
     read_by_rule sample_env (pl_envelope (sample_pipeline True)) (pl_registry (sample_pipeline True)) sample_probe_run
       (at_decision (sample_attempt True)) e"
  by (rule admitted_evidence_was_read [OF sample_normalized]) simp

text \<open>
  C30: an operation is classified as committed exactly when every expected effect is established by
  admitted evidence, none is contradicted by admitted evidence, and no admitted evidence says that
  the operation ended without committing.
\<close>

theorem committed_exactly_when_proved:
  assumes "evaluate_evidence E x as us = Inr v" "xe_expected_effects x \<noteq> []"
  shows "cv_classification v = COMMITTED \<longleftrightarrow>
    (\<forall>f \<in> set (xe_expected_effects x). admitted_assertion (cv_attempts v) (ee_effect_id f) ESTABLISHED \<and>
       \<not> admitted_assertion (cv_attempts v) (ee_effect_id f) NOT_ESTABLISHED) \<and>
    \<not> admitted_status (cv_attempts v) TERMINAL_NOT_COMMITTED"
  using evaluate_classified(3) [OF assms(1)] committed_iff [OF assms(2)] by simp

theorem committed_exactly_when_proved_witness:
  "\<exists>v. evaluate_evidence sample_env sample_envelope [sample_attempt True] [sample_audit] = Inr v \<and>
     cv_classification v = COMMITTED"
proof -
  obtain v where v: "evaluate_evidence sample_env sample_envelope [sample_attempt True] [sample_audit] = Inr v"
    "cv_attempts v = [sample_attempt True]"
    using sample_evaluated by blast
  have "cv_classification v = COMMITTED"
    using committed_exactly_when_proved [OF v(1)] v(2) by (simp add: sample_envelope_def)
  with v(1) show ?thesis by blast
qed

text \<open>
  C31: an operation is classified as not committed only on admitted evidence that it ended without
  committing, when no admitted evidence establishes an effect or reports another status. Silence,
  weak evidence and rejected evidence never suffice.
\<close>

theorem not_committed_needs_proof:
  assumes "evaluate_evidence E x as us = Inr v" "cv_classification v = NOT_COMMITTED"
  shows "admitted_status (cv_attempts v) TERMINAL_NOT_COMMITTED \<and>
    \<not> admitted_status (cv_attempts v) TERMINAL_COMMITTED \<and> \<not> admitted_status (cv_attempts v) ACTIVE \<and>
    \<not> admitted_status (cv_attempts v) UNRESOLVED \<and>
    (\<forall>f \<in> set (xe_expected_effects x). \<not> admitted_assertion (cv_attempts v) (ee_effect_id f) ESTABLISHED)"
  using not_committed_requires [of "cv_attempts v" "xe_expected_effects x"] evaluate_classified(3) [OF assms(1)] assms(2)
  by simp

theorem not_committed_needs_proof_witness:
  "\<exists>v. evaluate_evidence sample_env sample_envelope [sample_attempt False] [sample_audit] = Inr v \<and>
     cv_classification v = NOT_COMMITTED \<and> admitted_status (cv_attempts v) TERMINAL_NOT_COMMITTED"
proof -
  obtain v where v: "evaluate_evidence sample_env sample_envelope [sample_attempt False] [sample_audit] = Inr v"
    "cv_attempts v = [sample_attempt False]"
    using sample_evaluated by blast
  have "cv_classification v = NOT_COMMITTED"
    using evaluate_classified(3) [OF v(1)] sample_not_committed v(2) by simp
  with v(1) not_committed_needs_proof [OF v(1)] show ?thesis by blast
qed

text \<open>
  C32: the gates follow the classification. An evaluation has one gate for each action; the
  operation may be continued only when it is committed, retrying and compensating are never
  allowed, escalating is allowed unless it is committed, and observing always.
\<close>

theorem gates_follow_the_classification:
  assumes "evaluate_evidence E x as us = Inr v" "envelope_accepted E x"
  shows "map (\<lambda>g. (ag_requested_action g, ag_allowed g)) (cv_action_gates v) =
    [(RA_CONTINUE, cv_classification v = COMMITTED), (RA_RETRY, False), (RA_COMPENSATE, False),
     (RA_ESCALATE, cv_classification v \<noteq> COMMITTED), (RA_OBSERVE, True)]"
  using classify_eq(8) [OF evaluate_classified(2) [OF assms(1)] assms(2)]
  by (cases "cv_classification v") (simp_all add: gate_of_def gate_definitions_def)

theorem gates_follow_the_classification_witness:
  "\<exists>v. evaluate_evidence sample_env sample_envelope [sample_attempt False] [sample_audit] = Inr v \<and>
     map (\<lambda>g. (ag_requested_action g, ag_allowed g)) (cv_action_gates v) =
       [(RA_CONTINUE, False), (RA_RETRY, False), (RA_COMPENSATE, False), (RA_ESCALATE, True), (RA_OBSERVE, True)]"
proof -
  obtain v where v: "evaluate_evidence sample_env sample_envelope [sample_attempt False] [sample_audit] = Inr v"
    "cv_attempts v = [sample_attempt False]"
    using sample_evaluated by blast
  have "cv_classification v = NOT_COMMITTED"
    using evaluate_classified(3) [OF v(1)] sample_not_committed v(2) by simp
  with v(1) gates_follow_the_classification [OF v(1) sample_envelope_accepted] show ?thesis by auto
qed

text \<open>
  C33: the order in which attempts and audit records arrive decides nothing: the classifier gives
  one answer for all orders, the same evaluation or the same refusal.
\<close>

theorem order_decides_nothing:
  assumes "mset as = mset bs" "mset us = mset vs"
  shows "evaluate_evidence E x as us = evaluate_evidence E x bs vs"
  using assms by (rule evaluate_permuted)

theorem order_decides_nothing_witness:
  "evaluate_evidence sample_env sample_envelope [sample_attempt True, sample_attempt False] [sample_audit] =
     evaluate_evidence sample_env sample_envelope [sample_attempt False, sample_attempt True] [sample_audit]"
  by (rule order_decides_nothing) simp_all

text \<open>
  C34: the same observation counts once. In an evaluation, of the attempts that show the same bytes of
  the same source for the same request at most one is not rejected.
\<close>

theorem duplicates_count_once:
  assumes "evaluate_evidence E x as us = Inr v"
  shows "distinct (map observation_source (filter (\<lambda>a. observation_source a \<noteq> None \<and>
      ed_disposition (at_decision a) \<noteq> REJECTED_EVIDENCE) (cv_attempts v)))"
proof -
  have "distinct (map attempt_id (sort_attempts as))"
    using evaluate_classified(5) [OF assms] by (simp add: attempt_guards_def passes_def Let_def)
  with evaluate_classified(1) [OF assms] show ?thesis by (rule deduplicate_sources)
qed

theorem duplicates_count_once_witness:
  "\<exists>v. evaluate_evidence sample_env sample_envelope [sample_attempt True] [sample_audit] = Inr v \<and>
     distinct (map observation_source (filter (\<lambda>a. observation_source a \<noteq> None \<and>
       ed_disposition (at_decision a) \<noteq> REJECTED_EVIDENCE) (cv_attempts v)))"
  using sample_evaluated [of True] duplicates_count_once by blast

text \<open>
  An evidence identifier names one run. Two runs have one identifier only when investigation,
  target, number, request, bytes and outcome all agree, unless two texts have one digest.
\<close>

theorem evidence_identifiers_name_runs:
  assumes "evidence_id E x n q r p = Inr i" "evidence_id E y m s t u = Inr i"
    and "\<not> digests_collide E (json_bytes (evidence_material E x n q r p)) (json_bytes (evidence_material E y m s t u))"
  shows "xe_investigation_id x = xe_investigation_id y \<and> target_sha256 E x = target_sha256 E y \<and>
    n = m \<and> q = s \<and> r = t \<and> p = u"
  using evidence_id_eqD [OF assms(1,2)] assms(3) by blast

theorem evidence_identifiers_name_runs_witness:
  "xe_investigation_id sample_envelope = xe_investigation_id (sample_envelope\<lparr>xe_invoked_at := 101\<rparr>) \<and>
   target_sha256 sample_env sample_envelope = target_sha256 sample_env (sample_envelope\<lparr>xe_invoked_at := 101\<rparr>) \<and>
   (1 :: int) = 1 \<and> Some sample_request_sha256 = Some sample_request_sha256 \<and> sample_digest = sample_digest \<and>
   PO_COMPLETED = PO_COMPLETED"
proof -
  have later: "evidence_material sample_env (sample_envelope\<lparr>xe_invoked_at := 101\<rparr>) = evidence_material sample_env sample_envelope"
    by (simp add: evidence_material_def target_sha256_def fun_eq_iff)
  have "evidence_id sample_env (sample_envelope\<lparr>xe_invoked_at := 101\<rparr>) 1 (Some sample_request_sha256) sample_digest
      PO_COMPLETED = Inr (evidence_name sample_env sample_envelope sample_audit sample_digest)"
    using sample_evidence_id by (simp add: evidence_id_def later)
  from evidence_identifiers_name_runs [OF sample_evidence_id this] show ?thesis by (simp add: digests_collide_def later)
qed

text \<open>
  An explanation written by a model decides nothing: the report with it and the report without
  it agree in every other field.
\<close>

theorem explanations_decide_nothing:
  assumes "build_report E x us v created_at updated_at revision (Some explanation) = Inr r"
    and "build_report E x us v created_at updated_at revision None = Inr plain"
  shows "r\<lparr>ir_advisory_explanation := None\<rparr> = plain"
  using assms by (rule explanation_changes_nothing)

theorem explanations_decide_nothing_witness:
  "\<exists>v r plain. build_report sample_env sample_envelope [sample_audit] v 150 160 0 (Some sample_explanation) = Inr r \<and>
     build_report sample_env sample_envelope [sample_audit] v 150 160 0 None = Inr plain \<and>
     r \<noteq> plain \<and> r\<lparr>ir_advisory_explanation := None\<rparr> = plain"
proof -
  obtain v r plain where r: "build_report sample_env sample_envelope [sample_audit] v 150 160 0 (Some sample_explanation) = Inr r"
    "build_report sample_env sample_envelope [sample_audit] v 150 160 0 None = Inr plain"
    "ir_advisory_explanation r = Some sample_explanation" "ir_advisory_explanation plain = None"
    using sample_explained [of True] by auto
  then have "r \<noteq> plain" by auto
  with r explanations_decide_nothing [OF r(1,2)] show ?thesis by blast
qed

text \<open>
  C35: the classifier and the report contract agree. The classification that the validator of a report
  derives from the findings, the scopes and the operation status of the proof alone is the one
  that the classifier derives from the admitted evidence.
\<close>

theorem report_contract_agrees_with_classifier:
  assumes "evaluate_evidence E x as us = Inr v" "envelope_accepted E x"
  shows "expected_classification (cv_proof v) = cv_classification v"
  using classify_eq(5,6) [OF evaluate_classified(2) [OF assms(1)] assms(2)] classification_agrees by simp

theorem report_contract_agrees_with_classifier_witness:
  "\<exists>v. evaluate_evidence sample_env sample_envelope [sample_attempt True] [sample_audit] = Inr v \<and>
     expected_classification (cv_proof v) = cv_classification v"
  using sample_evaluated [of True] report_contract_agrees_with_classifier [OF _ sample_envelope_accepted] by blast

text \<open>
  A registry of rules answers as it was registered. Rules are registered together exactly when
  their identities differ; once the registry is frozen it adds nothing and resolves every identity
  to the rule registered under it.
\<close>

theorem registry_answers_as_registered:
  "(\<exists>g. register_all register_rule rs new_rule_registry = Inr g) = distinct (map (\<lambda>r. rule_key (rr_descriptor r)) rs) \<and>
   (\<forall>g. register_all register_rule rs new_rule_registry = Inr g \<longrightarrow>
     fst (resolve_rule key (snd (freeze_rules g))) = map_of (map (\<lambda>r. (rule_key (rr_descriptor r), r)) rs) key \<and>
     \<not> (\<exists>h. register_rule r (snd (freeze_rules g)) = Inr h))"
proof -
  have empty: "fst (resolve_rule k new_rule_registry) = None" "\<not> rules_frozen new_rule_registry" for k
    by (simp_all add: resolve_rule_def new_rule_registry_def snapshot_rules_def rules_frozen_def Let_def)
  have "fst (resolve_rule key (snd (freeze_rules g))) = map_of (map (\<lambda>r. (rule_key (rr_descriptor r), r)) rs) key \<and>
      \<not> (\<exists>h. register_rule r (snd (freeze_rules g)) = Inr h)"
    if "register_all register_rule rs new_rule_registry = Inr g" for g
    using rules.frozen_answers [OF new_registry_ok empty(1) that] by (simp add: option.map_ident)
  then show ?thesis
    using rules.register_all_iff [OF new_registry_ok empty(2), of rs] empty(1) by simp
qed

theorem registry_answers_as_registered_witness:
  "fst (resolve_rule (rule_key sample_descriptor) (snd (freeze_rules (sample_rules True)))) = Some (sample_registration True)"
proof -
  have "register_all register_rule [sample_registration True] new_rule_registry = Inr (sample_rules True)"
    using sample_rules_registered [of True] by simp
  with registry_answers_as_registered [of "[sample_registration True]" "rule_key sample_descriptor"] show ?thesis
    by (auto simp: sample_registration_def)
qed

text \<open>
  C36: there are requests that the contract accepts and the pipeline cannot process. The digest of a
  request holds its arguments one level deeper than the request does, so a request whose arguments
  are nested as deeply as the contract allows has no digest: normalising a run of it raises, after
  the pipeline has moved on.
\<close>

theorem deep_arguments_stop_the_pipeline:
  assumes "pn_request run = deep_request" "ca_sequence (pe_audit (pn_execution run)) = pl_next_sequence pl"
  shows "validate_probe_request E deep_request = Inr deep_request \<and>
    (\<exists>e. fst (normalize E decode run pl) = Inl e) \<and>
    pl_next_sequence (snd (normalize E decode run pl)) = pl_next_sequence pl + 1"
  using normalize_without_digest [OF assms(2)] deep_request_accepted deep_request_without_digest assms(1) by metis

theorem deep_arguments_stop_the_pipeline_witness:
  "\<exists>e. fst (normalize sample_env sample_decode (sample_probe_run\<lparr>pn_request := deep_request\<rparr>) (sample_pipeline True)) = Inl e"
proof -
  have "ca_sequence (pe_audit (pn_execution (sample_probe_run\<lparr>pn_request := deep_request\<rparr>))) =
      pl_next_sequence (sample_pipeline True)"
    by (simp add: sample_probe_run_def sample_audit_def sample_pipeline_def new_pipeline_def)
  then show ?thesis
    using deep_arguments_stop_the_pipeline [of "sample_probe_run\<lparr>pn_request := deep_request\<rparr>"] by simp
qed

end
