(* ===== verification/Capabilities.thy ===== *)
theory Capabilities
  imports Probes Registry "HOL-Library.Product_Lexorder"
begin

text \<open>
  The allowlist of \<open>controller/capabilities.py\<close>: the closed profile of argument schemas, the
  registrations and their registry.
\<close>

section \<open>The closed profile of argument schemas\<close>

text \<open>
  What the controller asks of libraries beyond \<open>env\<close>: \<open>sl_exceeds\<close> compares two JSON numbers of
  which one is a float, \<open>sl_check_schema\<close> is \<open>Draft202012Validator.check_schema\<close>, and \<open>sl_valid\<close> is
  the validator of \<open>jsonschema\<close> with the strict types of \<open>executor.py\<close>, from a schema and arguments.
\<close>

record schema_library =
  sl_exceeds :: "json \<Rightarrow> json \<Rightarrow> bool"
  sl_check_schema :: "json_object \<Rightarrow> bool"
  sl_valid :: "json_object \<Rightarrow> json_object \<Rightarrow> bool"

definition profile_error :: exn where
  "profile_error = ValueError ''capability argument schema is outside the closed profile''"

definition profile :: "bool \<Rightarrow> unit result" where
  "profile ok = require ok profile_error"

definition root_schema_keys :: "string list" where
  "root_schema_keys = [''$schema'', ''additionalProperties'', ''properties'', ''required'', ''type'']"

text \<open>\<open>_SCALAR_SCHEMA_KEYS\<close>, from the scalar types to the keys of their schemas.\<close>

definition scalar_schema_keys :: "(string \<times> string list) list" where
  "scalar_schema_keys =
     [(''boolean'', [''type'']), (''integer'', [''maximum'', ''minimum'', ''type'']), (''null'', [''type'']),
      (''number'', [''maximum'', ''minimum'', ''type'']), (''string'', [''maxLength'', ''minLength'', ''type''])]"

definition array_schema_keys :: "string list" where
  "array_schema_keys = [''items'', ''maxItems'', ''minItems'', ''type'', ''uniqueItems'']"

text \<open>\<open>schema.get(key)\<close> does not tell a missing key from the value \<open>null\<close>.\<close>

definition get :: "json_object \<Rightarrow> string \<Rightarrow> json" where
  "get schema key = (case map_of schema key of None \<Rightarrow> JNull | Some v \<Rightarrow> v)"

definition validate_nonnegative_bound :: "json_object \<Rightarrow> string \<Rightarrow> int \<Rightarrow> bool \<Rightarrow> int result" where
  "validate_nonnegative_bound schema key ceiling required =
     (case get schema key of
        JNull \<Rightarrow> if required then Inl profile_error else Inr 0
      | JInt n \<Rightarrow> if n < 0 \<or> ceiling < n then Inl profile_error else Inr n
      | _ \<Rightarrow> Inl profile_error)"

definition validate_bounds :: "json_object \<Rightarrow> string \<Rightarrow> string \<Rightarrow> int \<Rightarrow> unit result" where
  "validate_bounds schema low high ceiling =
     bind_result (validate_nonnegative_bound schema low ceiling False) (\<lambda>minimum.
     bind_result (validate_nonnegative_bound schema high ceiling True) (\<lambda>maximum.
     profile (minimum \<le> maximum)))"

fun is_number :: "bool \<Rightarrow> json \<Rightarrow> bool" where
  "is_number integer (JInt _) = True"
| "is_number integer (JFloat _) = (\<not> integer)"
| "is_number integer _ = False"

definition exceeds :: "schema_library \<Rightarrow> json \<Rightarrow> json \<Rightarrow> bool" where
  "exceeds J a b = (case (a, b) of (JInt m, JInt n) \<Rightarrow> n < m | _ \<Rightarrow> sl_exceeds J a b)"

definition validate_numeric_leaf :: "schema_library \<Rightarrow> json_object \<Rightarrow> string \<Rightarrow> unit result" where
  "validate_numeric_leaf J schema schema_type =
     (let minimum = get schema ''minimum''; maximum = get schema ''maximum''; integer = (schema_type = ''integer'') in
      profile (is_number integer minimum \<and> is_number integer maximum \<and> \<not> exceeds J minimum maximum))"

definition validate_scalar_schema :: "schema_library \<Rightarrow> int \<Rightarrow> json \<Rightarrow> unit result" where
  "validate_scalar_schema J ceiling schema =
     (case schema of
        JObj members \<Rightarrow>
          (case get members ''type'' of
             JStr schema_type \<Rightarrow>
               (case map_of scalar_schema_keys schema_type of
                  None \<Rightarrow> Inl profile_error
                | Some keys \<Rightarrow>
                    if \<not> set (map fst members) \<subseteq> set keys then Inl profile_error
                    else if schema_type = ''string'' then validate_bounds members ''minLength'' ''maxLength'' ceiling
                    else if schema_type \<in> {''integer'', ''number''} then validate_numeric_leaf J members schema_type
                    else Inr ())
           | _ \<Rightarrow> Inl profile_error)
      | _ \<Rightarrow> Inl profile_error)"

definition validate_property_schema :: "schema_library \<Rightarrow> int \<Rightarrow> json \<Rightarrow> unit result" where
  "validate_property_schema J ceiling schema =
     (case schema of
        JObj members \<Rightarrow>
          if get members ''type'' \<noteq> JStr ''array'' then validate_scalar_schema J ceiling schema
          else
            bind_result (profile (set (map fst members) \<subseteq> set array_schema_keys)) (\<lambda>_.
            bind_result (validate_bounds members ''minItems'' ''maxItems'' ceiling) (\<lambda>_.
            bind_result (profile (case map_of members ''uniqueItems'' of
                None \<Rightarrow> True | Some v \<Rightarrow> (case v of JBool _ \<Rightarrow> True | _ \<Rightarrow> False))) (\<lambda>_.
            validate_scalar_schema J ceiling (get members ''items''))))
      | _ \<Rightarrow> Inl profile_error)"

fun text_of :: "json \<Rightarrow> string option" where
  "text_of (JStr s) = Some s"
| "text_of _ = None"

definition validate_closed_argument_schema ::
  "schema_library \<Rightarrow> int \<Rightarrow> observation_capability \<Rightarrow> unit result" where
  "validate_closed_argument_schema J ceiling capability =
     (let schema = oc_argument_schema capability in
      bind_result (profile (set (map fst schema) = set root_schema_keys)) (\<lambda>_.
      case (get schema ''properties'', get schema ''required'') of
        (JObj properties, JArr required) \<Rightarrow>
          bind_result (profile
            (get schema ''type'' = JStr ''object'' \<and> get schema ''additionalProperties'' = JBool False \<and>
             length properties \<le> 64 \<and> list_all (\<lambda>name. text_of name \<noteq> None) required \<and>
             distinct (map text_of required) \<and>
             set (map text_of required) \<subseteq> set (map (\<lambda>(name, _). Some name) properties))) (\<lambda>_.
          bind_result (map_result (\<lambda>(_, property). validate_property_schema J ceiling property) properties)
            (\<lambda>_. Inr ()))
      | _ \<Rightarrow> Inl profile_error))"

section \<open>Registrations\<close>

datatype capability_semantics = READ_ONLY | MUTATING | AMBIGUOUS_SEMANTICS

text \<open>A handler is an opaque callable; \<open>hd_async\<close> is what \<open>_is_async_callable\<close> says of it.\<close>

record observation_handler =
  hd_identity :: nat
  hd_async :: bool

record capability_registration =
  cr_capability :: observation_capability
  cr_semantics :: capability_semantics
  cr_enabled :: bool
  cr_argument_byte_ceiling :: int
  cr_max_invocations :: int
  cr_handler :: "observation_handler option"

definition cr_identity :: "capability_registration \<Rightarrow> string \<times> string" where
  "cr_identity r = (oc_name (cr_capability r), oc_version (cr_capability r))"

definition executable :: "capability_registration \<Rightarrow> bool" where
  "executable r \<longleftrightarrow> cr_enabled r \<and> cr_semantics r = READ_ONLY"

text \<open>\<open>CapabilityRegistration.__init__\<close>: the registration with these fields, when it can be built.\<close>

definition build_registration ::
  "schema_library \<Rightarrow> capability_registration \<Rightarrow> capability_registration result" where
  "build_registration J r =
     bind_result (checked
       [(\<not> int_ok 1 (cr_argument_byte_ceiling r), ''argument byte ceiling must be a positive signed 64-bit integer''),
        (\<not> int_ok 1 (cr_max_invocations r), ''maximum invocation count must be a positive signed 64-bit integer''),
        (executable r \<and> cr_handler r = None, ''enabled read-only capability requires an async handler''),
        (\<not> executable r \<and> cr_handler r \<noteq> None, ''non-executable capability cannot store a handler'')] ()) (\<lambda>_.
     bind_result (require (option_ok hd_async (cr_handler r)) (TypeError ''observation handler must be async'')) (\<lambda>_.
     bind_result (validate_closed_argument_schema J (cr_argument_byte_ceiling r) (cr_capability r)) (\<lambda>_. Inr r)))"

section \<open>The registry\<close>

text \<open>
  The registry stores an isolated copy of a registration, built from its fields; here a registration
  is a value and the copy is the registration.
\<close>

record capability_registry =
  cg_registrations :: "((string \<times> string) \<times> capability_registration) list"
  cg_snapshot :: "((string \<times> string) \<times> capability_registration) list option"

definition new_capability_registry :: capability_registry where
  "new_capability_registry = \<lparr>cg_registrations = [], cg_snapshot = None\<rparr>"

definition capabilities_frozen :: "capability_registry \<Rightarrow> bool" where
  "capabilities_frozen g \<longleftrightarrow> cg_snapshot g \<noteq> None"

definition register_capability :: "capability_registration \<Rightarrow> capability_registry \<Rightarrow> capability_registry result" where
  "register_capability r g =
     (let key = cr_identity r in
      if cg_snapshot g \<noteq> None then Inl (RuntimeError ''capability registry is frozen'')
      else if key \<in> fst ` set (cg_registrations g) then
        Inl (ValueError ''capability identity is already registered'')
      else Inr (g\<lparr>cg_registrations := cg_registrations g @ [(key, r)]\<rparr>))"

definition snapshot_capabilities :: "capability_registry \<Rightarrow> capability_registry" where
  "snapshot_capabilities g =
     (case cg_snapshot g of None \<Rightarrow> g\<lparr>cg_snapshot := Some (cg_registrations g)\<rparr> | Some _ \<Rightarrow> g)"

definition freeze_capabilities :: "capability_registry \<Rightarrow> capability_registration list \<times> capability_registry" where
  "freeze_capabilities g =
     (let g = snapshot_capabilities g in (map snd (sort_key fst (the (cg_snapshot g))), g))"

definition resolve_capability ::
  "string \<Rightarrow> string \<Rightarrow> capability_registry \<Rightarrow> capability_registration option \<times> capability_registry" where
  "resolve_capability name version g =
     (let g = snapshot_capabilities g in (map_of (the (cg_snapshot g)) (name, version), g))"

text \<open>What is registered, before the freeze and after it.\<close>

definition capability_entries :: "capability_registry \<Rightarrow> ((string \<times> string) \<times> capability_registration) list" where
  "capability_entries g = (case cg_snapshot g of None \<Rightarrow> cg_registrations g | Some s \<Rightarrow> s)"

definition registration_built :: "env \<Rightarrow> schema_library \<Rightarrow> capability_registration \<Rightarrow> bool" where
  "registration_built E J r \<longleftrightarrow>
     accepted (validate_observation_capability E (sl_check_schema J)) (cr_capability r) \<and>
     accepted (build_registration J) r"

definition capabilities_ok :: "env \<Rightarrow> schema_library \<Rightarrow> capability_registry \<Rightarrow> bool" where
  "capabilities_ok E J g \<longleftrightarrow>
     list_all (\<lambda>(key, r). key = cr_identity r \<and> registration_built E J r) (capability_entries g)"

lemma resolve_capability_entries: "fst (resolve_capability n v g) = map_of (capability_entries g) (n, v)"
  by (simp add: resolve_capability_def snapshot_capabilities_def capability_entries_def Let_def split: option.splits)

lemma freeze_capabilities_entries [simp]:
  "capability_entries (snd (freeze_capabilities g)) = capability_entries g"
  "capabilities_frozen (snd (freeze_capabilities g))"
  "capability_entries (snd (resolve_capability n v g)) = capability_entries g"
  by (simp_all add: capability_entries_def freeze_capabilities_def snapshot_capabilities_def capabilities_frozen_def
    resolve_capability_def Let_def split: option.splits)

lemma register_capability_Inr:
  "register_capability r g = Inr g' \<longleftrightarrow>
     \<not> capabilities_frozen g \<and> map_of (capability_entries g) (cr_identity r) = None \<and>
     g' = g\<lparr>cg_registrations := cg_registrations g @ [(cr_identity r, r)]\<rparr>"
  by (auto simp: register_capability_def capabilities_frozen_def capability_entries_def map_of_eq_None_iff Let_def)

lemma register_capability_entries:
  "register_capability r g = Inr g' \<Longrightarrow>
     \<not> capabilities_frozen g' \<and> map_of (capability_entries g') = (map_of (capability_entries g))(cr_identity r \<mapsto> r)"
  by (auto simp: register_capability_Inr capabilities_frozen_def capability_entries_def map_add_def fun_eq_iff
    split: option.splits)

interpretation capabilities: frozen_registry register_capability capabilities_frozen "\<lambda>g. snd (freeze_capabilities g)"
  "\<lambda>(n, v) g. fst (resolve_capability n v g)" cr_identity "\<lambda>r. r" "\<lambda>_. True"
proof unfold_locales
  fix g g' r k
  show "(\<exists>g'. register_capability r g = Inr g') \<longleftrightarrow>
      \<not> capabilities_frozen g \<and> (case cr_identity r of (n, v) \<Rightarrow> \<lambda>g. fst (resolve_capability n v g)) g = None"
    by (simp add: resolve_capability_entries register_capability_Inr cr_identity_def)
  show "True \<and> capabilities_frozen (snd (freeze_capabilities g)) \<and>
      (case k of (n, v) \<Rightarrow> \<lambda>g. fst (resolve_capability n v g)) (snd (freeze_capabilities g)) =
      (case k of (n, v) \<Rightarrow> \<lambda>g. fst (resolve_capability n v g)) g"
    by (cases k) (simp add: resolve_capability_entries)
  show "True \<and> \<not> capabilities_frozen g' \<and> (case k of (n, v) \<Rightarrow> \<lambda>g. fst (resolve_capability n v g)) g' =
      (if k = cr_identity r then Some r else (case k of (n, v) \<Rightarrow> \<lambda>g. fst (resolve_capability n v g)) g)"
    if "register_capability r g = Inr g'"
    using register_capability_entries [OF that] by (cases k) (simp add: resolve_capability_entries)
qed

text \<open>A resolved registration is one that was built, under its own identity.\<close>

lemma resolve_capability_ok:
  assumes "capabilities_ok E J g" "fst (resolve_capability n v g) = Some r"
  shows "cr_identity r = (n, v)" "registration_built E J r"
  using assms map_of_SomeD [of "capability_entries g" "(n, v)" r]
  by (auto simp: capabilities_ok_def resolve_capability_entries list_all_iff)

lemma register_capability_ok:
  "register_capability r g = Inr g' \<Longrightarrow> capabilities_ok E J g \<Longrightarrow> registration_built E J r \<Longrightarrow> capabilities_ok E J g'"
  by (auto simp: register_capability_Inr capabilities_ok_def capability_entries_def capabilities_frozen_def)

lemma new_capabilities_ok: "capabilities_ok E J new_capability_registry"
  by (simp add: capabilities_ok_def new_capability_registry_def capability_entries_def)

lemma registration_builtD:
  assumes "registration_built E J r"
  shows "int_ok 1 (cr_argument_byte_ceiling r)" "int_ok 1 (cr_max_invocations r)"
    "cr_handler r \<noteq> None \<longleftrightarrow> executable r" "observation_capability_fields_ok E (cr_capability r)"
  using assms
  by (auto simp: registration_built_def accepted_iff build_registration_def validate_observation_capability_def)

end
