(* ===== verification/Steps.thy ===== *)
theory Steps
  imports Prelude
begin

text \<open>
  Methods that read and write the fields of one object and may raise: an operation takes the
  state to its answer and the state it leaves, also when it raises. The rules reason from a
  condition on the outcome back to the state before.
\<close>

section \<open>Operations\<close>

type_synonym ('s, 'a) op = "'s \<Rightarrow> 'a result \<times> 's"

definition give :: "'a \<Rightarrow> ('s, 'a) op" where
  "give x s = (Inr x, s)"

definition fail :: "exn \<Rightarrow> ('s, 'a) op" where
  "fail e s = (Inl e, s)"

definition lift_result :: "'a result \<Rightarrow> ('s, 'a) op" where
  "lift_result r s = (r, s)"

definition update :: "('s \<Rightarrow> 's) \<Rightarrow> ('s, unit) op" where
  "update f s = (Inr (), f s)"

definition reading :: "('s \<Rightarrow> ('s, 'a) op) \<Rightarrow> ('s, 'a) op" where
  "reading f s = f s s"

definition bind_op :: "('s, 'a) op \<Rightarrow> ('a \<Rightarrow> ('s, 'b) op) \<Rightarrow> ('s, 'b) op" where
  "bind_op m f s = (case m s of (Inl e, s) \<Rightarrow> (Inl e, s) | (Inr x, s) \<Rightarrow> f x s)"

text \<open>\<open>except asyncio.CancelledError\<close>.\<close>

definition catch_cancelled :: "('s, 'a) op \<Rightarrow> ('s, 'a) op \<Rightarrow> ('s, 'a) op" where
  "catch_cancelled m h s = (case m s of (Inl CancelledError, s) \<Rightarrow> h s | outcome \<Rightarrow> outcome)"

section \<open>Conditions on outcomes\<close>

text \<open>\<open>Q\<close> is what holds of the answer, \<open>R\<close> of the exception, and of the state left.\<close>

definition ends :: "('s, 'a) op \<Rightarrow> ('a \<Rightarrow> 's \<Rightarrow> bool) \<Rightarrow> (exn \<Rightarrow> 's \<Rightarrow> bool) \<Rightarrow> 's \<Rightarrow> bool" where
  "ends m Q R s = (case m s of (Inl e, s) \<Rightarrow> R e s | (Inr x, s) \<Rightarrow> Q x s)"

lemma ends_simps [simp]:
  "ends (give x) Q R s = Q x s"
  "ends (fail e) Q R s = R e s"
  "ends (lift_result r) Q R s = (case r of Inl e \<Rightarrow> R e s | Inr x \<Rightarrow> Q x s)"
  "ends (reading g) Q R s = ends (g s) Q R s"
  "ends (catch_cancelled m h) Q R s = ends m Q (\<lambda>e s. if e = CancelledError then ends h Q R s else R e s) s"
  by (auto simp: ends_def give_def fail_def lift_result_def reading_def catch_cancelled_def
    split: prod.splits sum.splits exn.splits)

lemma ends_update [simp]: "ends (update f) Q R s = Q () (f s)"
  by (simp add: ends_def update_def)

lemma ends_bind [simp]: "ends (bind_op m f) Q R s = ends m (\<lambda>x. ends (f x) Q R) R s"
  by (auto simp: ends_def bind_op_def split: prod.splits sum.splits)

lemma ends_mono:
  "ends m Q R s \<Longrightarrow> (\<And>x s. Q x s \<Longrightarrow> Q' x s) \<Longrightarrow> (\<And>e s. R e s \<Longrightarrow> R' e s) \<Longrightarrow> ends m Q' R' s"
  by (auto simp: ends_def split: prod.splits sum.splits)

lemma ends_if: "ends (if b then m else n) Q R s = (if b then ends m Q R s else ends n Q R s)"
  by simp

lemma ends_Inr: "ends m Q R s \<Longrightarrow> m s = (Inr x, s') \<Longrightarrow> Q x s'"
  and ends_Inl: "ends m Q R s \<Longrightarrow> m s = (Inl e, s') \<Longrightarrow> R e s'"
  by (simp_all add: ends_def)

lemma endsI:
  "(\<And>x s'. m s = (Inr x, s') \<Longrightarrow> Q x s') \<Longrightarrow> (\<And>e s'. m s = (Inl e, s') \<Longrightarrow> R e s') \<Longrightarrow> ends m Q R s"
  by (simp add: ends_def split: prod.splits sum.splits)

end
