(* ===== verification/Controller_Session.thy ===== *)
theory Controller_Session
  imports Capabilities Admission Steps
begin

text \<open>
  The probe controller of \<open>controller/executor.py\<close>: one investigation's serialized, bounded
  session of read-only probes.

  What the code asks of the world outside the session is numbered: the \<open>n\<close>th question of a session
  has the answer that the functions below give for \<open>n\<close>. Monotonic time is in nanoseconds, so the
  deadlines are exact where the code computes them with floats. The lock makes the calls of
  \<open>execute\<close> one after the other; \<open>cancel\<close> during a call shows in the answer of the wait or before
  the next call.
\<close>

section \<open>The world of a session\<close>

record restored_probe =
  rp_audit :: controller_audit
  rp_observation :: "probe_observation option"

datatype admission_answer = Fresh | Restored restored_probe | Dispatch_Budget_Exhausted | Admission_Raises exn

text \<open>
  \<open>ProbeDurabilityObserver\<close>. What \<open>before_dispatch\<close> is told: the request, the sequence, the cost
  units, the reserved bytes and the start.
\<close>

record durability_observer =
  ob_elapsed_floor_ms :: "nat \<Rightarrow> time \<Rightarrow> int result"
  ob_remaining_elapsed_ms :: "nat \<Rightarrow> time \<Rightarrow> int result"
  ob_before_dispatch :: "nat \<Rightarrow> probe_request \<Rightarrow> int \<Rightarrow> int \<Rightarrow> int \<Rightarrow> time \<Rightarrow> admission_answer"
  ob_after_dispatch :: "nat \<Rightarrow> probe_request \<Rightarrow> probe_execution \<Rightarrow> exn option"
  ob_after_execution :: "nat \<Rightarrow> probe_execution \<Rightarrow> exn option"

text \<open>
  How the wait of \<open>_invoke_once\<close> ends. A task that is done has asked the observer for its
  authorization, when there is one, and then called the handler: \<open>Handler_Invalid\<close> is a
  \<open>ContractError\<close>, \<open>TypeError\<close> or \<open>ValueError\<close>, \<open>Handler_Failed\<close> another \<open>Exception\<close>.
\<close>

datatype authorization = Authorization_Raises exn | Not_Boolean | Refused | Authorized

datatype handler_answer =
    Handler_Unavailable | Handler_Cancelled | Handler_Invalid | Handler_Failed | Foreign_Answer
  | Observed probe_observation

datatype wait_answer =
    Wait_Cancelled | Nothing_Done | Cancellation_Done | Handler_Done authorization handler_answer

record surroundings =
  su_monotonic :: "nat \<Rightarrow> int"
  su_now :: "nat \<Rightarrow> time"
  su_observer :: "durability_observer option"
  su_wait :: "nat \<Rightarrow> observation_handler \<Rightarrow> bound_probe \<Rightarrow> wait_answer"

section \<open>The session\<close>

text \<open>
  The attributes of \<open>ProbeController\<close>. \<open>ss_asked\<close> counts the questions, and \<open>ss_dispatched\<close> is the
  history of the probes given to \<open>_invoke_once\<close>, the only caller of handlers; the code has
  neither. The digests of the envelope and its target are functions of the envelope.
\<close>

record controller_session =
  ss_envelope :: execution_envelope
  ss_registry :: capability_registry
  ss_token :: nat
  ss_started_monotonic :: int
  ss_elapsed_offset_ms :: int
  ss_cancelled :: bool
  ss_sequence :: int
  ss_probe_count_used :: int
  ss_cost_units_used :: int
  ss_result_bytes_acquired :: int
  ss_capability_invocations :: "string \<times> string \<Rightarrow> int option"
  ss_audit :: "controller_audit list"
  ss_terminal_execution :: "probe_execution option"
  ss_asked :: nat
  ss_dispatched :: "bound_probe list"

type_synonym 'a session_op = "(controller_session, 'a) op"

definition ask :: "(nat \<Rightarrow> 'a) \<Rightarrow> 'a session_op" where
  "ask answer s = (Inr (answer (ss_asked s)), s\<lparr>ss_asked := Suc (ss_asked s)\<rparr>)"

definition ss_budget :: "controller_session \<Rightarrow> evidence_budget" where
  "ss_budget s = ec_evidence_budget (xe_context (ss_envelope s))"

definition cancel_session :: "controller_session \<Rightarrow> controller_session" where
  "cancel_session s = s\<lparr>ss_cancelled := True\<rparr>"

subsection \<open>Elapsed time\<close>

definition local_elapsed_ms :: "surroundings \<Rightarrow> int session_op" where
  "local_elapsed_ms S =
     bind_op (ask (su_monotonic S)) (\<lambda>m. reading (\<lambda>s.
       give (min (max 0 (m - ss_started_monotonic s) div 1000000) int64_max)))"

definition durable_elapsed_floor_ms :: "surroundings \<Rightarrow> int session_op" where
  "durable_elapsed_floor_ms S =
     (case su_observer S of
        None \<Rightarrow> give 0
      | Some ob \<Rightarrow>
          bind_op (ask (su_now S)) (\<lambda>now.
          bind_op (ask (\<lambda>n. ob_elapsed_floor_ms ob n now)) (\<lambda>answer.
          bind_op (lift_result answer) (\<lambda>floor.
            if 0 \<le> floor \<and> floor \<le> int64_max then give floor
            else fail (ValueError ''durability observer returned an invalid elapsed floor'')))))"

definition raise_offset :: "int \<Rightarrow> unit session_op" where
  "raise_offset ms = update (\<lambda>s. s\<lparr>ss_elapsed_offset_ms := max (ss_elapsed_offset_ms s) ms\<rparr>)"

definition session_elapsed_ms :: "surroundings \<Rightarrow> int session_op" where
  "session_elapsed_ms S =
     bind_op (local_elapsed_ms S) (\<lambda>local.
       case su_observer S of
         None \<Rightarrow> reading (\<lambda>s. give (min (ss_elapsed_offset_ms s + local) (eb_max_elapsed_ms (ss_budget s))))
       | Some _ \<Rightarrow>
           bind_op (durable_elapsed_floor_ms S) (\<lambda>floor.
           bind_op (raise_offset (max 0 (floor - local))) (\<lambda>_. reading (\<lambda>s.
             give (min (min (max floor (ss_elapsed_offset_ms s + local)) int64_max)
               (eb_max_elapsed_ms (ss_budget s)))))))"

definition deadline_reached :: "surroundings \<Rightarrow> bool session_op" where
  "deadline_reached S =
     bind_op (session_elapsed_ms S) (\<lambda>elapsed. reading (\<lambda>s.
       give (eb_max_elapsed_ms (ss_budget s) \<le> elapsed)))"

subsection \<open>Ends of an attempt\<close>

text \<open>The arguments that the calls of \<open>_finish\<close> in one \<open>execute\<close> share.\<close>

record probe_values =
  pv_sequence :: int
  pv_started_at :: time
  pv_capability :: "(string \<times> string) option"
  pv_request_sha256 :: "string option"

definition finished_audit ::
  "env \<Rightarrow> controller_session \<Rightarrow> probe_values \<Rightarrow> probe_outcome \<Rightarrow> stop_reason \<Rightarrow> time \<Rightarrow> int \<Rightarrow>
   validated_observation option \<Rightarrow> int option \<Rightarrow> controller_audit" where
  "finished_audit E s v outcome reason completed_at elapsed observation rejected_bytes =
     \<lparr>ca_sequence = pv_sequence v, ca_capability_name = map_option fst (pv_capability v),
      ca_capability_version = map_option snd (pv_capability v), ca_request_sha256 = pv_request_sha256 v,
      ca_target_sha256 = target_sha256 E (ss_envelope s), ca_outcome = outcome, ca_stop_reason = reason,
      ca_started_at = pv_started_at v, ca_completed_at = completed_at, ca_session_elapsed_ms = elapsed,
      ca_probe_count_used = ss_probe_count_used s, ca_cost_units_used = ss_cost_units_used s,
      ca_result_bytes_acquired = ss_result_bytes_acquired s, ca_result_sha256 = map_option vo_sha256 observation,
      ca_result_byte_count =
        (case observation of None \<Rightarrow> rejected_bytes | Some o1 \<Rightarrow> Some (vo_byte_count o1))\<rparr>"

definition record_execution :: "env \<Rightarrow> controller_audit \<Rightarrow> validated_observation option \<Rightarrow> probe_execution session_op" where
  "record_execution E audit observation =
     bind_op (update (\<lambda>s. s\<lparr>ss_audit := ss_audit s @ [audit]\<rparr>)) (\<lambda>_. reading (\<lambda>s.
     bind_op (lift_result (build_probe_execution (envelope_sha256 E (ss_envelope s)) audit observation (ss_token s)))
       (\<lambda>execution.
     bind_op (update (\<lambda>s. if ca_stop_reason audit \<in> set terminal_reasons
         then s\<lparr>ss_terminal_execution := Some execution\<rparr> else s)) (\<lambda>_.
     give execution))))"

definition finish ::
  "env \<Rightarrow> surroundings \<Rightarrow> probe_values \<Rightarrow> probe_outcome \<Rightarrow> stop_reason \<Rightarrow> validated_observation option \<Rightarrow>
   int option \<Rightarrow> probe_execution session_op" where
  "finish E S v outcome reason observation rejected_bytes =
     bind_op (ask (su_now S)) (\<lambda>now.
     bind_op (session_elapsed_ms S) (\<lambda>elapsed. reading (\<lambda>s.
     bind_op (lift_result (validate_controller_audit E
         (finished_audit E s v outcome reason (max now (pv_started_at v)) elapsed observation rejected_bytes)))
       (\<lambda>audit. record_execution E audit observation))))"

text \<open>An awaited operation of the observer: it may raise, and so does an interrupted one once it has ended.\<close>

definition await_observer :: "(nat \<Rightarrow> exn option) \<Rightarrow> unit session_op" where
  "await_observer operation =
     bind_op (ask operation) (\<lambda>answer. case answer of None \<Rightarrow> give () | Some e \<Rightarrow> fail e)"

definition observe_execution :: "surroundings \<Rightarrow> probe_execution \<Rightarrow> probe_execution session_op" where
  "observe_execution S execution =
     (case su_observer S of
        None \<Rightarrow> give execution
      | Some ob \<Rightarrow> bind_op (await_observer (\<lambda>n. ob_after_execution ob n execution)) (\<lambda>_. give execution))"

definition finish_observed ::
  "env \<Rightarrow> surroundings \<Rightarrow> probe_values \<Rightarrow> probe_outcome \<Rightarrow> stop_reason \<Rightarrow> probe_execution session_op" where
  "finish_observed E S v outcome reason =
     bind_op (finish E S v outcome reason None None) (observe_execution S)"

definition finish_dispatched ::
  "env \<Rightarrow> surroundings \<Rightarrow> probe_request \<Rightarrow> probe_values \<Rightarrow> probe_outcome \<Rightarrow> stop_reason \<Rightarrow>
   validated_observation option \<Rightarrow> int option \<Rightarrow> probe_execution session_op" where
  "finish_dispatched E S request v outcome reason observation rejected_bytes =
     bind_op (finish E S v outcome reason observation rejected_bytes) (\<lambda>execution.
       case su_observer S of
         None \<Rightarrow> give execution
       | Some ob \<Rightarrow>
           bind_op (await_observer (\<lambda>n. ob_after_dispatch ob n request execution)) (\<lambda>_.
             observe_execution S execution))"

section \<open>What a request is refused for\<close>

definition target_value_prefixes :: "string list" where
  "target_value_prefixes =
     [''buckets/'', ''databases/'', ''documents/'', ''gs://'', ''http://'', ''https://'', ''projects/'']"

definition strip_text :: "string \<Rightarrow> string" where
  "strip_text s = rev (dropWhile regex_space (rev (dropWhile regex_space s)))"

text \<open>\<open>_URI_SCHEME\<close>, on a lowered text.\<close>

definition uri_scheme :: "string \<Rightarrow> bool" where
  "uri_scheme s \<longleftrightarrow>
     (case s of
        [] \<Rightarrow> False
      | c # rest \<Rightarrow>
          lower_letter c \<and>
          starts_with ''://'' (dropWhile (\<lambda>c. lower_letter c \<or> digit_char c \<or> c \<in> set ''+.-'') rest))"

definition target_coordinate_text :: "env \<Rightarrow> string \<Rightarrow> bool" where
  "target_coordinate_text E s \<longleftrightarrow>
     (if is_ascii s then
        let lowered = map lower_char (strip_text s) in
        list_ex (\<lambda>prefix. starts_with prefix lowered) target_value_prefixes \<or> uri_scheme lowered
      else env_wide_coordinate E s)"

fun contains_target_coordinate_value :: "env \<Rightarrow> json \<Rightarrow> bool"
  and items_contain_coordinate :: "env \<Rightarrow> json list \<Rightarrow> bool"
  and members_contain_coordinate :: "env \<Rightarrow> json_object \<Rightarrow> bool" where
  "contains_target_coordinate_value E (JStr s) = target_coordinate_text E s"
| "contains_target_coordinate_value E (JArr xs) = items_contain_coordinate E xs"
| "contains_target_coordinate_value E (JObj kvs) = members_contain_coordinate E kvs"
| "contains_target_coordinate_value E v = False"
| "items_contain_coordinate E [] = False"
| "items_contain_coordinate E (x # xs) = (contains_target_coordinate_value E x \<or> items_contain_coordinate E xs)"
| "members_contain_coordinate E [] = False"
| "members_contain_coordinate E (kv # kvs) =
     (contains_target_coordinate_value E (snd kv) \<or> members_contain_coordinate E kvs)"

fun first_refusal :: "(bool \<times> 'a) list \<Rightarrow> 'a option" where
  "first_refusal [] = None"
| "first_refusal ((bad, reason) # cs) = (if bad then Some reason else first_refusal cs)"

definition request_digest :: "env \<Rightarrow> probe_request \<Rightarrow> string option" where
  "request_digest E request =
     (case bind_result (validate_probe_request E request) (probe_request_sha256 E) of
        Inl _ \<Rightarrow> None | Inr d \<Rightarrow> Some d)"

definition arguments_payload :: "probe_request \<Rightarrow> string" where
  "arguments_payload request = json_bytes (JObj (pq_arguments request))"

definition correlation_mismatch :: "execution_envelope \<Rightarrow> probe_request \<Rightarrow> bool" where
  "correlation_mismatch x request \<longleftrightarrow>
     list_ex (\<lambda>(key, expected). case map_of (pq_arguments request) key of
         None \<Rightarrow> False
       | Some v \<Rightarrow> json_bytes v \<noteq> json_bytes (JStr expected))
       (ec_correlation_fields (xe_context x))"

definition capability_invocations :: "controller_session \<Rightarrow> capability_registration \<Rightarrow> int" where
  "capability_invocations s r = (case ss_capability_invocations s (cr_identity r) of None \<Rightarrow> 0 | Some n \<Rightarrow> n)"

text \<open>The guards of \<open>execute\<close> from the registration to the handler, in their order.\<close>

definition probe_refusal ::
  "env \<Rightarrow> schema_library \<Rightarrow> controller_session \<Rightarrow> probe_request \<Rightarrow> capability_registration \<Rightarrow>
   (probe_outcome \<times> stop_reason) option" where
  "probe_refusal E J s request r =
     (let x = ss_envelope s; target = xe_target x; capability = cr_capability r; budget = ss_budget s;
          matching_kind = filter (\<lambda>c. tc_target_kind c = tb_target_kind target) (oc_allowed_targets capability) in
      first_refusal
        [(\<not> cr_enabled r, PO_REJECTED, SR_CAPABILITY_DISABLED),
         (cr_semantics r = MUTATING, PO_REJECTED, SR_CAPABILITY_MUTATING),
         (cr_semantics r = AMBIGUOUS_SEMANTICS, PO_REJECTED, SR_CAPABILITY_SEMANTICS_AMBIGUOUS),
         (cr_identity r \<notin> set (map (\<lambda>c. (cref_name c, cref_version c)) (ec_enabled_capabilities (xe_context x))),
            PO_REJECTED, SR_CAPABILITY_NOT_ENABLED),
         (matching_kind = [], PO_REJECTED, SR_TARGET_KIND_MISMATCH),
         (\<not> list_ex (\<lambda>c. json_bytes (JObj (tc_scope c)) = json_bytes (JObj (tb_scope target))) matching_kind,
            PO_REJECTED, SR_TARGET_SCOPE_MISMATCH),
         (\<not> set (pq_relevant_effect_ids request) \<subseteq> set (map ee_effect_id (xe_expected_effects x)),
            PO_REJECTED, SR_INVALID_EFFECT_REFERENCE),
         (cr_argument_byte_ceiling r < int (length (arguments_payload request)),
            PO_REJECTED, SR_ARGUMENTS_TOO_LARGE),
         (\<not> sl_valid J (oc_argument_schema capability) (pq_arguments request),
            PO_REJECTED, SR_INVALID_ARGUMENTS),
         (contains_target_coordinate_value E (JObj (pq_arguments request)),
            PO_REJECTED, SR_TARGET_PARAMETER_INJECTION),
         (correlation_mismatch x request, PO_REJECTED, SR_CORRELATION_MISMATCH),
         (cr_max_invocations r \<le> capability_invocations s r,
            PO_BUDGET_EXHAUSTED, SR_CAPABILITY_PROBE_LIMIT_EXHAUSTED),
         (eb_max_cost_units budget < ss_cost_units_used s + oc_cost_units capability,
            PO_BUDGET_EXHAUSTED, SR_COST_BUDGET_EXHAUSTED),
         (eb_max_total_result_bytes budget \<le> ss_result_bytes_acquired s,
            PO_BUDGET_EXHAUSTED, SR_TOTAL_RESULT_BYTES_EXHAUSTED)])"

section \<open>A restored probe\<close>

definition restored_mismatch ::
  "env \<Rightarrow> controller_session \<Rightarrow> controller_audit \<Rightarrow> int \<Rightarrow> probe_request \<Rightarrow> int \<Rightarrow> bool" where
  "restored_mismatch E s audit n request cost \<longleftrightarrow>
     (let budget = ss_budget s; increment = (case ca_result_byte_count audit of None \<Rightarrow> 0 | Some k \<Rightarrow> k) in
      ca_sequence audit \<noteq> n \<or>
      ca_capability_name audit \<noteq> Some (pq_capability_name request) \<or>
      ca_capability_version audit \<noteq> Some (pq_capability_version request) \<or>
      ca_request_sha256 audit \<noteq> request_digest E request \<or>
      ca_target_sha256 audit \<noteq> target_sha256 E (ss_envelope s) \<or>
      ca_probe_count_used audit \<noteq> ss_probe_count_used s \<or>
      ca_cost_units_used audit \<noteq> ss_cost_units_used s + cost \<or>
      ca_result_bytes_acquired audit \<noteq> min (ss_result_bytes_acquired s + increment) int64_max \<or>
      eb_max_probes budget < ca_probe_count_used audit \<or>
      eb_max_cost_units budget < ca_cost_units_used audit \<or>
      eb_max_total_result_bytes budget < ca_result_bytes_acquired audit \<or>
      eb_max_elapsed_ms budget < ca_session_elapsed_ms audit \<or>
      (ss_audit s \<noteq> [] \<and> ca_session_elapsed_ms audit < ca_session_elapsed_ms (last (ss_audit s))))"

definition validated_payload :: "env \<Rightarrow> probe_observation \<Rightarrow> validated_observation" where
  "validated_payload E o1 =
     (let payload = observation_bytes o1 in
      \<lparr>vo_canonical_json = payload, vo_sha256 = env_sha256 E payload, vo_byte_count = int (length payload)\<rparr>)"

definition restored_observation ::
  "env \<Rightarrow> controller_audit \<Rightarrow> probe_observation option \<Rightarrow> validated_observation option result" where
  "restored_observation E audit observation =
     (case observation of
        None \<Rightarrow> Inr None
      | Some o1 \<Rightarrow> bind_result (validate_probe_observation E o1) (\<lambda>o1.
          let validated = validated_payload E o1 in
          if ca_result_sha256 audit \<noteq> Some (vo_sha256 validated) \<or>
             ca_result_byte_count audit \<noteq> Some (vo_byte_count validated) then
            Inl (ValueError ''restored observation does not match its audit'')
          else Inr (Some validated)))"

definition restore ::
  "env \<Rightarrow> surroundings \<Rightarrow> restored_probe \<Rightarrow> int \<Rightarrow> probe_request \<Rightarrow> capability_registration \<Rightarrow>
   probe_execution session_op" where
  "restore E S restored n request r = reading (\<lambda>s.
     bind_op (lift_result (validate_controller_audit E (rp_audit restored))) (\<lambda>audit.
     bind_op (lift_result (require (\<not> restored_mismatch E s audit n request (oc_cost_units (cr_capability r)))
       (ValueError ''restored probe does not match the active controller''))) (\<lambda>_.
     bind_op (lift_result (require ((ca_outcome audit = PO_COMPLETED) = (rp_observation restored \<noteq> None))
       (ValueError ''restored probe outcome and observation do not agree''))) (\<lambda>_.
     bind_op (lift_result (restored_observation E audit (rp_observation restored))) (\<lambda>validated.
     bind_op (update (\<lambda>s. s\<lparr>ss_probe_count_used := ca_probe_count_used audit,
       ss_cost_units_used := ca_cost_units_used audit,
       ss_result_bytes_acquired := ca_result_bytes_acquired audit\<rparr>)) (\<lambda>_.
     bind_op (local_elapsed_ms S) (\<lambda>local.
     bind_op (raise_offset (max 0 (ca_session_elapsed_ms audit - local))) (\<lambda>_.
     bind_op (update (\<lambda>t. t\<lparr>ss_capability_invocations :=
       (ss_capability_invocations t)(cr_identity r \<mapsto> capability_invocations s r + 1)\<rparr>)) (\<lambda>_.
     record_execution E audit validated)))))))))"

definition restore_observed ::
  "env \<Rightarrow> surroundings \<Rightarrow> restored_probe \<Rightarrow> int \<Rightarrow> probe_request \<Rightarrow> capability_registration \<Rightarrow>
   probe_execution session_op" where
  "restore_observed E S restored n request r =
     bind_op (restore E S restored n request r) (observe_execution S)"

section \<open>The dispatch of a probe\<close>

definition charge :: "capability_registration \<Rightarrow> unit session_op" where
  "charge r = update (\<lambda>s. s\<lparr>
     ss_capability_invocations := (ss_capability_invocations s)(cr_identity r \<mapsto> capability_invocations s r + 1),
     ss_cost_units_used := ss_cost_units_used s + oc_cost_units (cr_capability r)\<rparr>)"

datatype invocation =
    Invocation_Completed probe_observation
  | Invocation_Cancelled | Invocation_Elapsed_Exhausted | Invocation_Timed_Out | Invocation_Unavailable
  | Invocation_Malformed

fun handler_result :: "handler_answer \<Rightarrow> invocation" where
  "handler_result Handler_Unavailable = Invocation_Unavailable"
| "handler_result Handler_Cancelled = Invocation_Cancelled"
| "handler_result Handler_Invalid = Invocation_Malformed"
| "handler_result Handler_Failed = Invocation_Unavailable"
| "handler_result Foreign_Answer = Invocation_Malformed"
| "handler_result (Observed o1) = Invocation_Completed o1"

text \<open>The result of the handler task, after the authorization when the session has an observer.\<close>

definition task_result :: "surroundings \<Rightarrow> authorization \<Rightarrow> handler_answer \<Rightarrow> invocation result" where
  "task_result S authorized answer =
     (if su_observer S = None then Inr (handler_result answer)
      else case authorized of
        Authorization_Raises CancelledError \<Rightarrow> Inr Invocation_Cancelled
      | Authorization_Raises e \<Rightarrow> Inl e
      | Not_Boolean \<Rightarrow> Inl (TypeError ''durable dispatch authorization must be boolean'')
      | Refused \<Rightarrow> Inr Invocation_Elapsed_Exhausted
      | Authorized \<Rightarrow> Inr (handler_result answer))"

definition invoke_once :: "surroundings \<Rightarrow> observation_handler \<Rightarrow> bound_probe \<Rightarrow> invocation session_op" where
  "invoke_once S handler probe =
     bind_op (update (\<lambda>s. s\<lparr>ss_dispatched := ss_dispatched s @ [probe]\<rparr>)) (\<lambda>_.
     bind_op (ask (\<lambda>n. su_wait S n handler probe)) (\<lambda>answer.
       case answer of
         Wait_Cancelled \<Rightarrow> fail CancelledError
       | Nothing_Done \<Rightarrow> give Invocation_Timed_Out
       | Cancellation_Done \<Rightarrow> bind_op (update cancel_session) (\<lambda>_. give Invocation_Cancelled)
       | Handler_Done authorized answer \<Rightarrow> lift_result (task_result S authorized answer)))"

text \<open>The deadlines of an invocation, in nanoseconds of the monotonic clock.\<close>

record invocation_deadlines =
  id_elapsed :: int
  id_capability :: int

definition invocation_deadline :: "invocation_deadlines \<Rightarrow> int" where
  "invocation_deadline d = min (id_elapsed d) (id_capability d)"

definition late_end :: "invocation_deadlines \<Rightarrow> probe_outcome \<times> stop_reason" where
  "late_end d = (if id_elapsed d \<le> id_capability d then (PO_BUDGET_EXHAUSTED, SR_ELAPSED_BUDGET_EXHAUSTED)
     else (PO_TIMED_OUT, SR_PROBE_TIMEOUT))"

definition elapsed_end :: "probe_outcome \<times> stop_reason" where
  "elapsed_end = (PO_BUDGET_EXHAUSTED, SR_ELAPSED_BUDGET_EXHAUSTED)"

definition reached :: "surroundings \<Rightarrow> int \<Rightarrow> bool session_op" where
  "reached S deadline = bind_op (ask (su_monotonic S)) (\<lambda>m. give (deadline \<le> m))"

text \<open>
  An attempt that was started ends with \<open>_finish_dispatched\<close>. Without an observer it ends with
  \<open>_finish_observed\<close>, which is then the same.
\<close>

definition end_dispatched ::
  "env \<Rightarrow> surroundings \<Rightarrow> probe_request \<Rightarrow> probe_values \<Rightarrow> probe_outcome \<times> stop_reason \<Rightarrow> int option \<Rightarrow>
   probe_execution session_op" where
  "end_dispatched E S request v kind rejected_bytes =
     finish_dispatched E S request v (fst kind) (snd kind) None rejected_bytes"

text \<open>From the payload of the handler to the execution.\<close>

definition accept_observation ::
  "env \<Rightarrow> surroundings \<Rightarrow> probe_request \<Rightarrow> probe_values \<Rightarrow> capability_registration \<Rightarrow> invocation_deadlines \<Rightarrow>
   probe_observation \<Rightarrow> probe_execution session_op" where
  "accept_observation E S request v r d o1 =
     (let validated = validated_payload E o1; bytes = vo_byte_count validated in
      bind_op (update (\<lambda>s. s\<lparr>ss_result_bytes_acquired := min (ss_result_bytes_acquired s + bytes) int64_max\<rparr>)) (\<lambda>_.
      bind_op (reached S (id_elapsed d)) (\<lambda>late. reading (\<lambda>s.
        if late then end_dispatched E S request v elapsed_end (Some bytes)
        else if oc_result_byte_ceiling (cr_capability r) < bytes then
          end_dispatched E S request v (PO_BUDGET_EXHAUSTED, SR_RESULT_TOO_LARGE) (Some bytes)
        else if eb_max_total_result_bytes (ss_budget s) < ss_result_bytes_acquired s then
          end_dispatched E S request v (PO_BUDGET_EXHAUSTED, SR_TOTAL_RESULT_BYTES_EXHAUSTED) (Some bytes)
        else finish_dispatched E S request v PO_COMPLETED SR_PROBE_COMPLETED (Some validated) None))))"

definition conclude ::
  "env \<Rightarrow> surroundings \<Rightarrow> probe_request \<Rightarrow> probe_values \<Rightarrow> capability_registration \<Rightarrow> invocation_deadlines \<Rightarrow>
   invocation \<Rightarrow> probe_execution session_op" where
  "conclude E S request v r d state =
     (case state of
        Invocation_Cancelled \<Rightarrow> end_dispatched E S request v (PO_CANCELLED, SR_PROBE_CANCELLED) None
      | Invocation_Elapsed_Exhausted \<Rightarrow> end_dispatched E S request v elapsed_end None
      | Invocation_Timed_Out \<Rightarrow> end_dispatched E S request v (late_end d) None
      | Invocation_Unavailable \<Rightarrow> end_dispatched E S request v (PO_UNAVAILABLE, SR_CAPABILITY_UNAVAILABLE) None
      | Invocation_Malformed \<Rightarrow> end_dispatched E S request v (PO_MALFORMED, SR_MALFORMED_OBSERVATION) None
      | Invocation_Completed o1 \<Rightarrow>
          bind_op (reached S (invocation_deadline d)) (\<lambda>late.
            if late then end_dispatched E S request v (late_end d) None
            else bind_op (reached S (id_elapsed d)) (\<lambda>late.
              if late then end_dispatched E S request v elapsed_end None
              else if \<not> accepted (validate_probe_observation E) o1 then
                end_dispatched E S request v (PO_MALFORMED, SR_MALFORMED_OBSERVATION) None
              else accept_observation E S request v r d o1)))"

text \<open>The arguments of the probe are decoded from their canonical bytes: an equal \<open>dict\<close>.\<close>

definition bind_probe ::
  "execution_envelope \<Rightarrow> probe_request \<Rightarrow> capability_registration \<Rightarrow> int \<Rightarrow> bound_probe" where
  "bind_probe x request r timeout_ms =
     \<lparr>bp_investigation_id = xe_investigation_id x, bp_operation_id = xe_operation_id x,
      bp_capability_name = oc_name (cr_capability r), bp_capability_version = oc_version (cr_capability r),
      bp_target = xe_target x, bp_relevant_effect_ids = pq_relevant_effect_ids request,
      bp_arguments = pq_arguments request, bp_timeout_ms = timeout_ms,
      bp_result_byte_ceiling = oc_result_byte_ceiling (cr_capability r)\<rparr>"

definition remaining_elapsed_ms :: "surroundings \<Rightarrow> int session_op" where
  "remaining_elapsed_ms S =
     bind_op (session_elapsed_ms S) (\<lambda>elapsed. reading (\<lambda>s.
       let remaining = max 0 (eb_max_elapsed_ms (ss_budget s) - elapsed) in
       case su_observer S of
         None \<Rightarrow> give remaining
       | Some ob \<Rightarrow>
           bind_op (ask (su_now S)) (\<lambda>now.
           bind_op (ask (\<lambda>n. ob_remaining_elapsed_ms ob n now)) (\<lambda>answer.
           bind_op (lift_result answer) (\<lambda>durable. give (min remaining durable))))))"

definition invoke_charged ::
  "env \<Rightarrow> surroundings \<Rightarrow> probe_request \<Rightarrow> probe_values \<Rightarrow> capability_registration \<Rightarrow> observation_handler \<Rightarrow>
   invocation_deadlines \<Rightarrow> bound_probe \<Rightarrow> probe_execution session_op" where
  "invoke_charged E S request v r handler d probe =
     bind_op
       (catch_cancelled (invoke_once S handler probe)
         (bind_op (end_dispatched E S request v (PO_CANCELLED, SR_PROBE_CANCELLED) None) (\<lambda>_. fail CancelledError)))
       (conclude E S request v r d)"

definition dispatch_probe ::
  "env \<Rightarrow> surroundings \<Rightarrow> probe_request \<Rightarrow> probe_values \<Rightarrow> capability_registration \<Rightarrow> observation_handler \<Rightarrow>
   probe_execution session_op" where
  "dispatch_probe E S request v r handler =
     bind_op (ask (su_monotonic S)) (\<lambda>dispatch_started.
     bind_op (remaining_elapsed_ms S) (\<lambda>remaining. reading (\<lambda>s.
       let d = \<lparr>id_elapsed = dispatch_started + remaining * 1000000,
                id_capability = dispatch_started + oc_timeout_ms (cr_capability r) * 1000000\<rparr>;
           timeout = invocation_deadline d - dispatch_started in
       if timeout \<le> 0 then end_dispatched E S request v elapsed_end None
       else
         bind_op (lift_result (validate_bound_probe E
             (bind_probe (ss_envelope s) request r (max 1 (timeout div 1000000))))) (\<lambda>probe.
         bind_op (reached S (invocation_deadline d)) (\<lambda>late.
           if late then end_dispatched E S request v (late_end d) None
           else bind_op (if su_observer S = None then charge r else give ()) (\<lambda>_.
             invoke_charged E S request v r handler d probe))))))"

definition admit_probe ::
  "env \<Rightarrow> surroundings \<Rightarrow> probe_request \<Rightarrow> probe_values \<Rightarrow> capability_registration \<Rightarrow> observation_handler \<Rightarrow>
   probe_execution session_op" where
  "admit_probe E S request v r handler =
     (case su_observer S of
        None \<Rightarrow> dispatch_probe E S request v r handler
      | Some ob \<Rightarrow>
          bind_op (ask (\<lambda>n. ob_before_dispatch ob n request (pv_sequence v) (oc_cost_units (cr_capability r))
            (oc_result_byte_ceiling (cr_capability r)) (pv_started_at v))) (\<lambda>answer.
          case answer of
            Dispatch_Budget_Exhausted \<Rightarrow> finish_observed E S v PO_BUDGET_EXHAUSTED SR_ELAPSED_BUDGET_EXHAUSTED
          | Admission_Raises e \<Rightarrow> fail e
          | Restored restored \<Rightarrow> restore_observed E S restored (pv_sequence v) request r
          | Fresh \<Rightarrow> bind_op (charge r) (\<lambda>_. dispatch_probe E S request v r handler)))"

section \<open>\<open>execute\<close>\<close>

definition resolve_registration :: "probe_request \<Rightarrow> capability_registration option session_op" where
  "resolve_registration request s =
     (let (r, g) = resolve_capability (pq_capability_name request) (pq_capability_version request) (ss_registry s)
      in (Inr r, s\<lparr>ss_registry := g\<rparr>))"

definition execute_registered ::
  "env \<Rightarrow> schema_library \<Rightarrow> surroundings \<Rightarrow> probe_request \<Rightarrow> probe_values \<Rightarrow> capability_registration \<Rightarrow>
   probe_execution session_op" where
  "execute_registered E J S request v r = reading (\<lambda>s.
     case probe_refusal E J s request r of
       Some (outcome, reason) \<Rightarrow> finish_observed E S v outcome reason
     | None \<Rightarrow>
         (case cr_handler r of
            None \<Rightarrow> finish_observed E S v PO_UNAVAILABLE SR_CAPABILITY_UNAVAILABLE
          | Some handler \<Rightarrow> admit_probe E S request v r handler))"

definition execute_counted ::
  "env \<Rightarrow> schema_library \<Rightarrow> surroundings \<Rightarrow> probe_request \<Rightarrow> probe_values \<Rightarrow> probe_execution session_op" where
  "execute_counted E J S request v =
     (case request_digest E request of
        None \<Rightarrow> finish_observed E S v PO_REJECTED SR_INVALID_REQUEST
      | Some digest \<Rightarrow>
          let v = v\<lparr>pv_request_sha256 := Some digest\<rparr> in
          bind_op (deadline_reached S) (\<lambda>late.
            if late then finish_observed E S v PO_BUDGET_EXHAUSTED SR_ELAPSED_BUDGET_EXHAUSTED
            else bind_op (resolve_registration request) (\<lambda>registration.
              case registration of
                None \<Rightarrow> finish_observed E S v PO_REJECTED SR_UNKNOWN_CAPABILITY
              | Some r \<Rightarrow> execute_registered E J S request (v\<lparr>pv_capability := Some (cr_identity r)\<rparr>) r)))"

definition execute_attempt ::
  "env \<Rightarrow> schema_library \<Rightarrow> surroundings \<Rightarrow> probe_request \<Rightarrow> probe_execution session_op" where
  "execute_attempt E J S request =
     bind_op (update (\<lambda>s. s\<lparr>ss_sequence := ss_sequence s + 1\<rparr>)) (\<lambda>_.
     bind_op (ask (su_now S)) (\<lambda>started_at. reading (\<lambda>s.
       let v = \<lparr>pv_sequence = ss_sequence s, pv_started_at = started_at, pv_capability = None,
                pv_request_sha256 = None\<rparr> in
       if ss_cancelled s then finish_observed E S v PO_CANCELLED SR_PROBE_CANCELLED
       else if eb_max_probes (ss_budget s) \<le> ss_probe_count_used s then
         finish_observed E S v PO_BUDGET_EXHAUSTED SR_PROBE_COUNT_EXHAUSTED
       else bind_op (update (\<lambda>s. s\<lparr>ss_probe_count_used := ss_probe_count_used s + 1\<rparr>)) (\<lambda>_.
         execute_counted E J S request v))))"

definition execute ::
  "env \<Rightarrow> schema_library \<Rightarrow> surroundings \<Rightarrow> probe_request \<Rightarrow> probe_execution session_op" where
  "execute E J S request = reading (\<lambda>s.
     case ss_terminal_execution s of
       Some execution \<Rightarrow> give execution
     | None \<Rightarrow> execute_attempt E J S request)"

section \<open>A new session\<close>

definition opened_session ::
  "surroundings \<Rightarrow> execution_envelope \<Rightarrow> capability_registry \<Rightarrow> nat \<Rightarrow> int \<Rightarrow> controller_session" where
  "opened_session S x registry token offset =
     \<lparr>ss_envelope = x, ss_registry = snd (freeze_capabilities registry), ss_token = token,
      ss_started_monotonic = su_monotonic S 0, ss_elapsed_offset_ms = offset, ss_cancelled = False,
      ss_sequence = 0, ss_probe_count_used = 0, ss_cost_units_used = 0, ss_result_bytes_acquired = 0,
      ss_capability_invocations = (\<lambda>_. None), ss_audit = [], ss_terminal_execution = None, ss_asked = 1,
      ss_dispatched = []\<rparr>"

definition new_session ::
  "env \<Rightarrow> surroundings \<Rightarrow> execution_envelope \<Rightarrow> capability_registry \<Rightarrow> nat \<Rightarrow> int \<Rightarrow> controller_session result" where
  "new_session E S x registry token elapsed_offset_ms =
     bind_result (validate_execution_envelope E x) (\<lambda>x.
       if elapsed_offset_ms < 0 \<or> eb_max_elapsed_ms (ec_evidence_budget (xe_context x)) < elapsed_offset_ms then
         Inl (ValueError ''controller elapsed offset is outside the evidence budget'')
       else case bind_op (durable_elapsed_floor_ms S) raise_offset
           (opened_session S x registry token elapsed_offset_ms) of
         (Inl e, _) \<Rightarrow> Inl e
       | (Inr _, s) \<Rightarrow> Inr s)"

end
