(* ===== verification/Baseline.thy ===== *)
theory Baseline
  imports Controller_Session Reporting
begin

text \<open>
  The fixed probe plans of \<open>baseline.py\<close> and their execution, which composes the controller and the
  evidence engine. Progress events are only observations of the run, and are left out: this is the
  run without a progress emitter.
\<close>

section \<open>Plans\<close>

record fixed_probe_step =
  fs_request :: probe_request
  fs_required :: bool

definition build_fixed_step :: "env \<Rightarrow> probe_request \<Rightarrow> bool \<Rightarrow> fixed_probe_step result" where
  "build_fixed_step E request required =
     bind_result (validate_probe_request E request) (\<lambda>request.
       Inr \<lparr>fs_request = request, fs_required = required\<rparr>)"

record fixed_probe_plan =
  fl_name :: string
  fl_version :: string
  fl_steps :: "fixed_probe_step list"
  fl_sufficient_classifications :: "classification list"
  fl_sha256 :: string

definition plan_identifier :: "env \<Rightarrow> string \<Rightarrow> bool" where
  "plan_identifier E s \<longleftrightarrow>
     1 \<le> length s \<and> length s \<le> 128 \<and> identifier_start (hd s) \<and> list_all identifier_char (tl s) \<and>
     \<not> contains_sensitive_material E s"

definition plan_material ::
  "string \<Rightarrow> string \<Rightarrow> fixed_probe_step list \<Rightarrow> classification list \<Rightarrow> json" where
  "plan_material name version plan_steps classifications = JObj
     [(''name'', JStr name),
      (''steps'', JArr (map (\<lambda>step. JObj
         [(''request'', probe_request_json (fs_request step)), (''required'', JBool (fs_required step))]) plan_steps)),
      (''sufficient_classifications'', strings_json (map classification_text classifications)),
      (''version'', JStr version)]"

definition build_fixed_plan ::
  "env \<Rightarrow> string \<Rightarrow> string \<Rightarrow> fixed_probe_step list \<Rightarrow> classification list \<Rightarrow> fixed_probe_plan result" where
  "build_fixed_plan E name version plan_steps sufficient =
     bind_result (checked
       [(\<not> plan_identifier E name, ''fixed plan name must be a bounded identifier''),
        (\<not> plan_identifier E version, ''fixed plan version must be a bounded identifier''),
        (\<not> length_ok 1 64 plan_steps, ''a fixed plan requires one to 64 ordered steps''),
        (UNKNOWN \<in> set sufficient, ''UNKNOWN cannot be declared sufficient evidence''),
        (\<not> distinct sufficient, ''sufficient classifications must be unique'')] ()) (\<lambda>_.
     let classifications = sort_key classification_text sufficient in
     bind_result (value_sha256 E (plan_material name version plan_steps classifications)) (\<lambda>digest. Inr
       \<lparr>fl_name = name, fl_version = version, fl_steps = plan_steps,
        fl_sufficient_classifications = classifications, fl_sha256 = digest\<rparr>))"

section \<open>Results\<close>

datatype baseline_stop =
    SUFFICIENT_EVIDENCE | PLAN_EXHAUSTED | BUDGET_EXHAUSTED | DEADLINE_EXHAUSTED | CANCELLED_PLAN
  | REQUIRED_CAPABILITY_UNAVAILABLE | REQUIRED_PROBE_FAILED | NON_PROGRESS

record baseline_result =
  br_report :: investigation_report
  br_plan_name :: string
  br_plan_version :: string
  br_plan_sha256 :: string
  br_stop_reason :: baseline_stop
  br_planned_probe_count :: nat
  br_attempted_probe_count :: nat
  br_probe_count_used :: int
  br_cost_units_used :: int
  br_result_bytes_acquired :: int
  br_total_elapsed_ms :: int
  br_sufficient_probe_sequence :: "int option"
  br_time_to_sufficient_evidence_ms :: "int option"
  br_unsupported_probe_count :: nat
  br_unavailable_probe_count :: nat
  br_redundant_probe_count :: nat
  br_duplicate_probe_count :: nat

text \<open>\<open>FixedBaselineResult.__init__\<close>: the result with these fields for a plan, when it can be built.\<close>

definition build_baseline_result ::
  "env \<Rightarrow> fixed_probe_plan \<Rightarrow> baseline_result \<Rightarrow> baseline_result result" where
  "build_baseline_result E plan b =
     (let sufficient = (br_stop_reason b = SUFFICIENT_EVIDENCE); attempted = br_attempted_probe_count b in
      bind_result (checked
        [(list_ex (\<lambda>n. n < 0) [br_probe_count_used b, br_cost_units_used b, br_result_bytes_acquired b,
            br_total_elapsed_ms b], ''fixed baseline measurements must be nonnegative integers''),
         (length (fl_steps plan) < attempted, ''attempted probes cannot exceed fixed plan steps''),
         (list_ex (\<lambda>n. attempted < n) [br_unsupported_probe_count b, br_unavailable_probe_count b,
            br_redundant_probe_count b, br_duplicate_probe_count b],
            ''probe disposition counts cannot exceed attempts''),
         (sufficient \<noteq> (br_sufficient_probe_sequence b \<noteq> None),
            ''sufficient stop reason and sequence must agree''),
         (sufficient \<noteq> (br_time_to_sufficient_evidence_ms b \<noteq> None),
            ''sufficient stop reason and timing must agree''),
         (\<not> option_ok (\<lambda>n. 1 \<le> n \<and> n \<le> int attempted) (br_sufficient_probe_sequence b),
            ''sufficient probe sequence is outside attempted probes''),
         (\<not> option_ok (\<lambda>ms. ms \<le> br_total_elapsed_ms b) (br_time_to_sufficient_evidence_ms b),
            ''sufficiency time cannot exceed total elapsed time'')] ()) (\<lambda>_.
      bind_result (validate_investigation_report E (br_report b)) (\<lambda>r.
      if ir_classification r = None then Inl (ValueError ''a fixed baseline report requires a classification'')
      else Inr b)))"

section \<open>The steps of a plan\<close>

definition unsupported_reasons :: "stop_reason list" where
  "unsupported_reasons =
     [SR_INVALID_REQUEST, SR_UNKNOWN_CAPABILITY, SR_CAPABILITY_DISABLED, SR_CAPABILITY_NOT_ENABLED,
      SR_CAPABILITY_MUTATING, SR_CAPABILITY_SEMANTICS_AMBIGUOUS, SR_TARGET_KIND_MISMATCH, SR_TARGET_SCOPE_MISMATCH,
      SR_INVALID_EFFECT_REFERENCE, SR_INVALID_ARGUMENTS, SR_ARGUMENTS_TOO_LARGE, SR_TARGET_PARAMETER_INJECTION,
      SR_CORRELATION_MISMATCH]"

definition budget_reasons :: "stop_reason list" where
  "budget_reasons =
     [SR_PROBE_COUNT_EXHAUSTED, SR_CAPABILITY_PROBE_LIMIT_EXHAUSTED, SR_COST_BUDGET_EXHAUSTED,
      SR_TOTAL_RESULT_BYTES_EXHAUSTED, SR_RESULT_TOO_LARGE]"

definition deadline_reasons :: "stop_reason list" where
  "deadline_reasons = [SR_ELAPSED_BUDGET_EXHAUSTED, SR_PROBE_TIMEOUT]"

definition progress_material :: "core_evaluation \<Rightarrow> json" where
  "progress_material evaluation =
     (let p = cv_proof evaluation in JObj
        [(''classification'', JStr (classification_text (cv_classification evaluation))),
         (''conflicting_authority'', JBool (dp_conflicting_authority p)),
         (''effects'', JArr (map (\<lambda>f. JObj
            [(''commit_scope'', JStr (ff_commit_scope f)), (''effect_id'', JStr (ff_effect_id f)),
             (''state'', JStr (effect_assertion_state_text (ff_state f)))]) (dp_effect_findings p))),
         (''operation_status'',
            option_json (\<lambda>s. JStr (operation_status_text s)) (dp_operation_status p))])"

definition progress_sha256 :: "env \<Rightarrow> core_evaluation \<Rightarrow> string result" where
  "progress_sha256 E evaluation = value_sha256 E (progress_material evaluation)"

text \<open>The locals of \<open>execute_fixed_plan\<close>; the sets of sequences are lists without repetition.\<close>

record baseline_state =
  bs_session :: controller_session
  bs_engine :: evidence_engine
  bs_stop_reason :: "baseline_stop option"
  bs_sufficient :: "(int \<times> int) option"
  bs_processed_sequences :: "int list"
  bs_request_progress :: "string \<Rightarrow> string option"
  bs_unsupported_sequences :: "int list"
  bs_unavailable_sequences :: "int list"
  bs_redundant_sequences :: "int list"
  bs_duplicate_sequences :: "int list"

text \<open>\<open>add_when b n ns\<close>: \<open>if b: ns.add(n)\<close>.\<close>

definition add_when :: "bool \<Rightarrow> int \<Rightarrow> int list \<Rightarrow> int list" where
  "add_when b n ns = (if b then List.insert n ns else ns)"

text \<open>The stops of a processed attempt, in the order of the code.\<close>

definition attempt_stop ::
  "fixed_probe_plan \<Rightarrow> fixed_probe_step \<Rightarrow> controller_audit \<Rightarrow> core_evaluation \<Rightarrow> evidence_decision \<Rightarrow> bool \<Rightarrow>
   baseline_stop option" where
  "attempt_stop plan step audit evaluation decision stalled =
     (let reason = ca_stop_reason audit in first_refusal
       [(cv_classification evaluation \<in> set (fl_sufficient_classifications plan), SUFFICIENT_EVIDENCE),
        (fs_required step \<and> reason = SR_CAPABILITY_UNAVAILABLE, REQUIRED_CAPABILITY_UNAVAILABLE),
        (fs_required step \<and> (reason \<in> set unsupported_reasons \<or> ca_outcome audit \<in> {PO_REJECTED, PO_MALFORMED} \<or>
           ed_reason decision = UNSUPPORTED_CAPABILITY), REQUIRED_PROBE_FAILED),
        (reason \<in> set budget_reasons, BUDGET_EXHAUSTED),
        (reason \<in> set deadline_reasons, DEADLINE_EXHAUSTED),
        (reason = SR_PROBE_CANCELLED, CANCELLED_PLAN),
        (stalled, NON_PROGRESS)])"

definition record_attempt ::
  "fixed_probe_plan \<Rightarrow> fixed_probe_step \<Rightarrow> string \<Rightarrow> controller_audit \<Rightarrow> core_evaluation \<Rightarrow> string \<Rightarrow>
   baseline_state \<Rightarrow> baseline_state" where
  "record_attempt plan step identity audit evaluation progress b =
     (let n = ca_sequence audit; decision = at_decision (last (cv_attempts evaluation));
          repeated = (bs_request_progress b identity \<noteq> None);
          stalled = (bs_request_progress b identity = Some progress);
          stop = attempt_stop plan step audit evaluation decision stalled in
      b\<lparr>bs_processed_sequences := List.insert n (bs_processed_sequences b),
        bs_unsupported_sequences := add_when (ca_stop_reason audit \<in> set unsupported_reasons \<or>
          ed_reason decision = UNSUPPORTED_CAPABILITY) n (bs_unsupported_sequences b),
        bs_unavailable_sequences := add_when (ca_stop_reason audit = SR_CAPABILITY_UNAVAILABLE) n
          (bs_unavailable_sequences b),
        bs_redundant_sequences := add_when (ed_reason decision = DUPLICATE_CANDIDATES \<or> stalled) n
          (bs_redundant_sequences b),
        bs_duplicate_sequences := add_when repeated n (bs_duplicate_sequences b),
        bs_request_progress := (bs_request_progress b)(identity \<mapsto> progress),
        bs_stop_reason := stop,
        bs_sufficient := (if stop = Some SUFFICIENT_EVIDENCE then Some (n, ca_session_elapsed_ms audit)
          else bs_sufficient b)\<rparr>)"

definition reused_attempt :: "string \<Rightarrow> controller_audit \<Rightarrow> baseline_state \<Rightarrow> baseline_state" where
  "reused_attempt identity audit b =
     (let n = ca_sequence audit; repeated = (bs_request_progress b identity \<noteq> None) in
      b\<lparr>bs_redundant_sequences := add_when repeated n (bs_redundant_sequences b),
        bs_duplicate_sequences := add_when repeated n (bs_duplicate_sequences b),
        bs_stop_reason := Some NON_PROGRESS\<rparr>)"

text \<open>
  One step of the plan. The controller is cancelled before it when the cancellation event is set.
\<close>

definition plan_step ::
  "env \<Rightarrow> schema_library \<Rightarrow> (string \<Rightarrow> probe_observation option) \<Rightarrow> surroundings \<Rightarrow> fixed_probe_plan \<Rightarrow>
   bool \<Rightarrow> fixed_probe_step \<Rightarrow> baseline_state \<Rightarrow> baseline_state result" where
  "plan_step E J decode S plan cancelled step b =
     (let request = fs_request step; s = (if cancelled then cancel_session (bs_session b) else bs_session b) in
      bind_result (probe_request_sha256 E request) (\<lambda>identity.
      case execute E J S request s of
        (Inl e, _) \<Rightarrow> Inl e
      | (Inr execution, s) \<Rightarrow>
          let audit = pe_audit execution; b = b\<lparr>bs_session := s\<rparr> in
          if ca_sequence audit \<in> set (bs_processed_sequences b) then Inr (reused_attempt identity audit b)
          else
            (case process_run E decode \<lparr>pn_request = request, pn_execution = execution\<rparr> (bs_engine b) of
               (Inl e, _) \<Rightarrow> Inl e
             | (Inr _, g) \<Rightarrow>
                 bind_result (engine_evaluate E (ss_audit s) g) (\<lambda>evaluation.
                 bind_result (progress_sha256 E evaluation) (\<lambda>progress.
                 Inr (record_attempt plan step identity audit evaluation progress (b\<lparr>bs_engine := g\<rparr>)))))))"

fun plan_steps ::
  "env \<Rightarrow> schema_library \<Rightarrow> (string \<Rightarrow> probe_observation option) \<Rightarrow> surroundings \<Rightarrow> fixed_probe_plan \<Rightarrow>
   (nat \<Rightarrow> bool) \<Rightarrow> nat \<Rightarrow> fixed_probe_step list \<Rightarrow> baseline_state \<Rightarrow> baseline_state result" where
  "plan_steps E J decode S plan cancelled n [] b = Inr b"
| "plan_steps E J decode S plan cancelled n (step # rest) b =
     bind_result (plan_step E J decode S plan (cancelled n) step b) (\<lambda>b.
       if bs_stop_reason b \<noteq> None then Inr b else plan_steps E J decode S plan cancelled (Suc n) rest b)"

section \<open>\<open>execute_fixed_plan\<close>\<close>

definition limitation_ok :: "string \<Rightarrow> bool" where
  "limitation_ok s \<longleftrightarrow> 1 \<le> text_length s \<and> text_length s \<le> 4096"

definition started_plan :: "controller_session \<Rightarrow> evidence_engine \<Rightarrow> baseline_state" where
  "started_plan s g =
     \<lparr>bs_session = s, bs_engine = g, bs_stop_reason = None, bs_sufficient = None, bs_processed_sequences = [],
      bs_request_progress = (\<lambda>_. None), bs_unsupported_sequences = [], bs_unavailable_sequences = [],
      bs_redundant_sequences = [], bs_duplicate_sequences = []\<rparr>"

definition limited_report ::
  "env \<Rightarrow> string list \<Rightarrow> investigation_report \<Rightarrow> investigation_report result" where
  "limited_report E limitations r =
     (if limitations = [] then Inr r
      else validate_investigation_report E (r\<lparr>ir_limitations := ir_limitations r @ limitations\<rparr>))"

definition finish_plan ::
  "env \<Rightarrow> surroundings \<Rightarrow> execution_envelope \<Rightarrow> fixed_probe_plan \<Rightarrow> int \<Rightarrow> string list \<Rightarrow> baseline_state \<Rightarrow>
   baseline_result result" where
  "finish_plan E S x plan revision limitations b =
     (let audits = ss_audit (bs_session b); final = last audits in
      if audits = [] then Inl (RuntimeError ''a nonempty fixed plan produced no controller audit'')
      else
        bind_result (engine_report E audits (ax_observed_at (xe_ambiguity x))
          (su_now S (ss_asked (bs_session b))) revision None (bs_engine b)) (\<lambda>r.
        bind_result (limited_report E limitations r) (\<lambda>r.
        build_baseline_result E plan
          \<lparr>br_report = r, br_plan_name = fl_name plan, br_plan_version = fl_version plan,
           br_plan_sha256 = fl_sha256 plan,
           br_stop_reason = (case bs_stop_reason b of None \<Rightarrow> PLAN_EXHAUSTED | Some stop \<Rightarrow> stop),
           br_planned_probe_count = length (fl_steps plan), br_attempted_probe_count = length audits,
           br_probe_count_used = ca_probe_count_used final, br_cost_units_used = ca_cost_units_used final,
           br_result_bytes_acquired = ca_result_bytes_acquired final,
           br_total_elapsed_ms = ca_session_elapsed_ms final,
           br_sufficient_probe_sequence = map_option fst (bs_sufficient b),
           br_time_to_sufficient_evidence_ms = map_option snd (bs_sufficient b),
           br_unsupported_probe_count = length (bs_unsupported_sequences b),
           br_unavailable_probe_count = length (bs_unavailable_sequences b),
           br_redundant_probe_count = length (bs_redundant_sequences b),
           br_duplicate_probe_count = length (bs_duplicate_sequences b)\<rparr>)))"

definition execute_fixed_plan ::
  "env \<Rightarrow> schema_library \<Rightarrow> (string \<Rightarrow> probe_observation option) \<Rightarrow> surroundings \<Rightarrow> execution_envelope \<Rightarrow>
   capability_registry \<Rightarrow> rule_registry \<Rightarrow> fixed_probe_plan \<Rightarrow> int \<Rightarrow> (nat \<Rightarrow> bool) \<Rightarrow> string list \<Rightarrow> nat \<Rightarrow> int \<Rightarrow>
   baseline_result result" where
  "execute_fixed_plan E J decode S x capabilities rules plan revision cancelled limitations token offset =
     bind_result (checked
       [(revision < 0, ''report revision must be a nonnegative integer''),
        (63 < length limitations, ''additional limitations must be a bounded immutable tuple''),
        (\<not> list_all limitation_ok limitations, ''each additional limitation must be bounded and nonempty'')] ()) (\<lambda>_.
     bind_result (new_session E S x capabilities token offset) (\<lambda>s.
     bind_result (plan_steps E J decode S plan cancelled 1 (fl_steps plan) (started_plan s (new_engine x rules)))
       (finish_plan E S x plan revision limitations)))"

end
