(* ===== verification/Controller_Laws.thy ===== *)
theory Controller_Laws
  imports Controller_Session Engine_Laws
begin

text \<open>
  What holds of a controller session at the start, in the middle and after every call of
  \<open>execute\<close>: its budgets, its audits and the probes that reached a handler.
\<close>

section \<open>The invariant\<close>

text \<open>What never changes in a session.\<close>

record session_identity =
  si_envelope :: execution_envelope
  si_registrations :: "((string \<times> string) \<times> capability_registration) list"
  si_token :: nat

definition enabled_identities :: "execution_envelope \<Rightarrow> (string \<times> string) set" where
  "enabled_identities x = set (map (\<lambda>c. (cref_name c, cref_version c)) (ec_enabled_capabilities (xe_context x)))"

definition audit_of_session :: "env \<Rightarrow> execution_envelope \<Rightarrow> controller_audit \<Rightarrow> bool" where
  "audit_of_session E x a \<longleftrightarrow>
     audit_accepted E a \<and> ca_target_sha256 a = target_sha256 E x \<and> capability_enabled x a"

text \<open>
  A probe that may reach a handler: its capability is registered, enabled, read-only and named by
  the envelope, and allows the target; the arguments are those that the capability accepts.
\<close>

definition bp_identity :: "bound_probe \<Rightarrow> string \<times> string" where
  "bp_identity p = (bp_capability_name p, bp_capability_version p)"

definition target_allowed :: "observation_capability \<Rightarrow> target_binding \<Rightarrow> bool" where
  "target_allowed c target \<longleftrightarrow> list_ex (\<lambda>t. tc_target_kind t = tb_target_kind target \<and>
     json_bytes (JObj (tc_scope t)) = json_bytes (JObj (tb_scope target))) (oc_allowed_targets c)"

definition probe_allowed ::
  "env \<Rightarrow> schema_library \<Rightarrow> execution_envelope \<Rightarrow> capability_registration \<Rightarrow> bound_probe \<Rightarrow> bool" where
  "probe_allowed E J x r p \<longleftrightarrow>
     executable r \<and> cr_identity r = bp_identity p \<and> bp_identity p \<in> enabled_identities x \<and>
     bp_investigation_id p = xe_investigation_id x \<and> bp_operation_id p = xe_operation_id x \<and>
     bp_target p = xe_target x \<and> target_allowed (cr_capability r) (xe_target x) \<and>
     set (bp_relevant_effect_ids p) \<subseteq> set (map ee_effect_id (xe_expected_effects x)) \<and>
     int (length (json_bytes (JObj (bp_arguments p)))) \<le> cr_argument_byte_ceiling r \<and>
     sl_valid J (oc_argument_schema (cr_capability r)) (bp_arguments p) \<and>
     \<not> contains_target_coordinate_value E (JObj (bp_arguments p)) \<and>
     1 \<le> bp_timeout_ms p \<and> bp_timeout_ms p \<le> oc_timeout_ms (cr_capability r) \<and>
     bp_result_byte_ceiling p = oc_result_byte_ceiling (cr_capability r)"

definition probe_dispatchable :: "env \<Rightarrow> schema_library \<Rightarrow> session_identity \<Rightarrow> bound_probe \<Rightarrow> bool" where
  "probe_dispatchable E J c p \<longleftrightarrow>
     (case map_of (si_registrations c) (bp_identity p) of
        None \<Rightarrow> False
      | Some r \<Rightarrow> probe_allowed E J (si_envelope c) r p)"

text \<open>
  The stages of an attempt: opened, counted, charged for a capability, and given to its handler.
\<close>

datatype stage = Opened | Counted | Charged "string \<times> string" | Dispatched

definition invocations_of :: "controller_session \<Rightarrow> string \<times> string \<Rightarrow> int" where
  "invocations_of s k = (case ss_capability_invocations s k of None \<Rightarrow> 0 | Some n \<Rightarrow> n)"

definition dispatches :: "controller_session \<Rightarrow> string \<times> string \<Rightarrow> int" where
  "dispatches s k = int (length (filter (\<lambda>p. bp_identity p = k) (ss_dispatched s)))"

definition cost_of :: "session_identity \<Rightarrow> string \<times> string \<Rightarrow> int" where
  "cost_of c k = (case map_of (si_registrations c) k of None \<Rightarrow> 0 | Some r \<Rightarrow> oc_cost_units (cr_capability r))"

definition spent :: "session_identity \<Rightarrow> controller_session \<Rightarrow> int" where
  "spent c s = (\<Sum>p \<leftarrow> ss_dispatched s. cost_of c (bp_identity p))"

text \<open>What the dispatches account for, with the charge that is not yet dispatched.\<close>

definition accounted :: "session_identity \<Rightarrow> (string \<times> string) option \<Rightarrow> controller_session \<Rightarrow> bool" where
  "accounted c pending s \<longleftrightarrow>
     (\<forall>k. dispatches s k + (if pending = Some k then 1 else 0) \<le> invocations_of s k) \<and>
     (\<forall>k. case map_of (si_registrations c) k of None \<Rightarrow> True | Some r \<Rightarrow> invocations_of s k \<le> cr_max_invocations r) \<and>
     spent c s + (case pending of None \<Rightarrow> 0 | Some k \<Rightarrow> cost_of c k) \<le> ss_cost_units_used s"

definition session_facts :: "env \<Rightarrow> schema_library \<Rightarrow> session_identity \<Rightarrow> controller_session \<Rightarrow> bool" where
  "session_facts E J c s \<longleftrightarrow>
     ss_envelope s = si_envelope c \<and> capability_entries (ss_registry s) = si_registrations c \<and>
     ss_token s = si_token c \<and> envelope_accepted E (si_envelope c) \<and> capabilities_ok E J (ss_registry s) \<and>
     0 \<le> ss_elapsed_offset_ms s \<and>
     0 \<le> ss_probe_count_used s \<and> ss_probe_count_used s \<le> eb_max_probes (ss_budget s) \<and>
     0 \<le> ss_cost_units_used s \<and> ss_cost_units_used s \<le> eb_max_cost_units (ss_budget s) \<and>
     0 \<le> ss_result_bytes_acquired s \<and> ss_result_bytes_acquired s \<le> int64_max \<and>
     list_all (audit_of_session E (si_envelope c)) (ss_audit s) \<and>
     sorted_wrt (<) (map ca_sequence (ss_audit s)) \<and>
     list_all (probe_dispatchable E J c) (ss_dispatched s)"

text \<open>
  Inside an attempt, \<open>old\<close> are the audits before it; \<open>gaps\<close> counts the attempts so far that raised
  before they had an audit.
\<close>

definition stage_pending :: "stage \<Rightarrow> (string \<times> string) option" where
  "stage_pending st = (case st of Charged k \<Rightarrow> Some k | _ \<Rightarrow> None)"

definition session_in ::
  "env \<Rightarrow> schema_library \<Rightarrow> session_identity \<Rightarrow> nat \<Rightarrow> controller_audit list \<Rightarrow> stage \<Rightarrow> controller_session \<Rightarrow> bool" where
  "session_in E J c gaps old st s \<longleftrightarrow>
     session_facts E J c s \<and> accounted c (stage_pending st) s \<and> ss_audit s = old \<and> ss_terminal_execution s = None \<and>
     ss_sequence s = int (length old) + int gaps + 1 \<and> list_all (\<lambda>a. ca_sequence a < ss_sequence s) old \<and>
     int (length old) + (if st = Opened then 0 else 1) \<le> ss_probe_count_used s \<and>
     int (length (ss_dispatched s)) + (if st = Opened \<or> st = Dispatched then 0 else 1) \<le> ss_probe_count_used s"

definition execution_of_session :: "env \<Rightarrow> session_identity \<Rightarrow> probe_execution \<Rightarrow> bool" where
  "execution_of_session E c e \<longleftrightarrow>
     pe_envelope_sha256 e = envelope_sha256 E (si_envelope c) \<and> pe_session e = si_token c \<and>
     (ca_outcome (pe_audit e) = PO_COMPLETED) = (pe_observation e \<noteq> None)"

definition session_idle ::
  "env \<Rightarrow> schema_library \<Rightarrow> session_identity \<Rightarrow> nat \<Rightarrow> controller_session \<Rightarrow> bool" where
  "session_idle E J c gaps s \<longleftrightarrow>
     session_facts E J c s \<and> accounted c None s \<and> ss_sequence s = int (length (ss_audit s)) + int gaps \<and>
     list_all (\<lambda>a. ca_sequence a \<le> ss_sequence s) (ss_audit s) \<and>
     int (length (ss_audit s)) \<le> ss_probe_count_used s + (if ss_terminal_execution s = None then 0 else 1) \<and>
     int (length (ss_dispatched s)) \<le> ss_probe_count_used s \<and>
     (case ss_terminal_execution s of
        None \<Rightarrow> True
      | Some e \<Rightarrow> execution_of_session E c e \<and> ss_audit s \<noteq> [] \<and> pe_audit e = last (ss_audit s) \<and>
          ca_stop_reason (pe_audit e) \<in> set terminal_reasons)"

text \<open>
  A world in which no attempt can raise before it has an audit: no observer, clock readings that
  are datetimes, and payloads whose size fits a signed 64-bit number.
\<close>

definition steady :: "surroundings \<Rightarrow> nat \<Rightarrow> bool" where
  "steady S gaps \<longleftrightarrow>
     gaps = 0 \<and> su_observer S = None \<and> (\<forall>n. time_ok (su_now S n)) \<and>
     (\<forall>n h p u o1. su_wait S n h p = Handler_Done u (Observed o1) \<longrightarrow> int (length (observation_bytes o1)) \<le> int64_max)"

text \<open>How a call ends: with one more audit, or with an exception.\<close>

definition attempt_done ::
  "env \<Rightarrow> schema_library \<Rightarrow> session_identity \<Rightarrow> nat \<Rightarrow> controller_audit list \<Rightarrow> probe_execution \<Rightarrow>
   controller_session \<Rightarrow> bool" where
  "attempt_done E J c gaps old e s \<longleftrightarrow>
     session_idle E J c gaps s \<and> ss_audit s = old @ [pe_audit e] \<and> execution_of_session E c e \<and>
     ca_sequence (pe_audit e) = int (length old) + int gaps + 1 \<and>
     (ss_terminal_execution s = (if ca_stop_reason (pe_audit e) \<in> set terminal_reasons then Some e else None))"

text \<open>The task that awaits a probe is cancelled from outside at some moment.\<close>

definition task_cancelled :: "surroundings \<Rightarrow> bool" where
  "task_cancelled S \<longleftrightarrow> (\<exists>n handler probe. su_wait S n handler probe = Wait_Cancelled)"

definition attempt_raised ::
  "env \<Rightarrow> schema_library \<Rightarrow> surroundings \<Rightarrow> session_identity \<Rightarrow> nat \<Rightarrow> exn \<Rightarrow> controller_session \<Rightarrow> bool" where
  "attempt_raised E J S c gaps e s \<longleftrightarrow>
     (session_idle E J c gaps s \<and> (e = CancelledError \<and> task_cancelled S \<or> \<not> steady S gaps)) \<or>
     (\<not> steady S gaps \<and> session_idle E J c (Suc gaps) s)"

section \<open>What the small operations keep\<close>

lemma accounted_frame [simp]:
  "accounted c k (s\<lparr>ss_asked := n\<rparr>) = accounted c k s"
  "accounted c k (s\<lparr>ss_cancelled := b\<rparr>) = accounted c k s"
  "accounted c k (s\<lparr>ss_elapsed_offset_ms := m\<rparr>) = accounted c k s"
  "accounted c k (s\<lparr>ss_audit := as\<rparr>) = accounted c k s"
  "accounted c k (s\<lparr>ss_terminal_execution := e\<rparr>) = accounted c k s"
  "accounted c k (s\<lparr>ss_sequence := m\<rparr>) = accounted c k s"
  "accounted c k (s\<lparr>ss_probe_count_used := m\<rparr>) = accounted c k s"
  "accounted c k (s\<lparr>ss_result_bytes_acquired := m\<rparr>) = accounted c k s"
  "accounted c k (s\<lparr>ss_registry := g\<rparr>) = accounted c k s"
  by (simp_all add: accounted_def dispatches_def invocations_of_def spent_def cong: option.case_cong)

lemma facts_frame [simp]:
  "session_facts E J c (s\<lparr>ss_asked := n\<rparr>) = session_facts E J c s"
  "session_facts E J c (s\<lparr>ss_cancelled := b\<rparr>) = session_facts E J c s"
  "session_facts E J c (s\<lparr>ss_terminal_execution := e\<rparr>) = session_facts E J c s"
  "session_facts E J c (s\<lparr>ss_sequence := m\<rparr>) = session_facts E J c s"
  by (simp_all add: session_facts_def ss_budget_def)

lemma session_in_frame [simp]:
  "session_in E J c g old st (s\<lparr>ss_asked := n\<rparr>) = session_in E J c g old st s"
  "session_in E J c g old st (s\<lparr>ss_cancelled := b\<rparr>) = session_in E J c g old st s"
  by (simp_all add: session_in_def)

lemma session_in_offset:
  assumes "session_in E J c g old st s"
  shows "session_in E J c g old st (s\<lparr>ss_elapsed_offset_ms := max (ss_elapsed_offset_ms s) ms\<rparr>)"
proof -
  have "session_facts E J c (s\<lparr>ss_elapsed_offset_ms := max (ss_elapsed_offset_ms s) ms\<rparr>)"
    using assms by (auto simp: session_in_def session_facts_def ss_budget_def le_max_iff_disj)
  then show ?thesis using assms by (auto simp: session_in_def)
qed

lemma ends_ask [simp]: "ends (ask f) Q R s = Q (f (ss_asked s)) (s\<lparr>ss_asked := Suc (ss_asked s)\<rparr>)"
  by (simp add: ends_def ask_def)

text \<open>An attempt that is given up leaves a gap.\<close>

lemma cost_of_nonneg: "capabilities_ok E J g \<Longrightarrow> capability_entries g = si_registrations c \<Longrightarrow> 0 \<le> cost_of c k"
  using registration_builtD(4)
  by (fastforce simp: cost_of_def capabilities_ok_def list_all_iff observation_capability_fields_ok_def int_ok_def
    split: option.splits dest: map_of_SomeD)

lemma accounted_pending:
  assumes "accounted c pending s" "capabilities_ok E J g" "capability_entries g = si_registrations c"
  shows "accounted c None s"
proof -
  have "dispatches s k \<le> invocations_of s k" for k
    using spec [OF conjunct1 [OF assms(1) [unfolded accounted_def]], of k] by (simp split: if_splits)
  moreover have "spent c s \<le> ss_cost_units_used s"
    using conjunct2 [OF conjunct2 [OF assms(1) [unfolded accounted_def]]] cost_of_nonneg [OF assms(2,3), of "the pending"]
    by (cases pending) simp_all
  ultimately show ?thesis using assms(1) by (simp add: accounted_def)
qed

lemma attempt_given_up:
  assumes "session_in E J c g old st s"
  shows "session_idle E J c (Suc g) s"
proof -
  have "accounted c None s" using assms accounted_pending by (auto simp: session_in_def session_facts_def)
  moreover have "list_all (\<lambda>a. ca_sequence a \<le> ss_sequence s) old"
    using assms by (auto simp: session_in_def list_all_iff)
  ultimately show ?thesis using assms by (auto simp: session_in_def session_idle_def split: if_splits)
qed

section \<open>Questions and elapsed time\<close>

text \<open>Between two states only questions were asked and the elapsed offset was raised.\<close>

definition quiet :: "controller_session \<Rightarrow> controller_session \<Rightarrow> bool" where
  "quiet s t \<longleftrightarrow>
     ss_envelope t = ss_envelope s \<and> ss_registry t = ss_registry s \<and> ss_token t = ss_token s \<and>
     ss_sequence t = ss_sequence s \<and> ss_probe_count_used t = ss_probe_count_used s \<and>
     ss_cost_units_used t = ss_cost_units_used s \<and> ss_result_bytes_acquired t = ss_result_bytes_acquired s \<and>
     ss_capability_invocations t = ss_capability_invocations s \<and> ss_audit t = ss_audit s \<and>
     ss_terminal_execution t = ss_terminal_execution s \<and> ss_dispatched t = ss_dispatched s \<and>
     ss_elapsed_offset_ms s \<le> ss_elapsed_offset_ms t"

lemma quiet_refl [simp]: "quiet s s"
  by (simp add: quiet_def)

lemma quiet_trans: "quiet s t \<Longrightarrow> quiet t u \<Longrightarrow> quiet s u"
  by (simp add: quiet_def)

lemma quiet_asked [simp]: "quiet s (t\<lparr>ss_asked := n\<rparr>) = quiet s t"
  by (simp add: quiet_def)

lemma quiet_offset: "quiet s t \<Longrightarrow> quiet s (t\<lparr>ss_elapsed_offset_ms := max (ss_elapsed_offset_ms t) m\<rparr>)"
  by (simp add: quiet_def le_max_iff_disj)

lemma session_in_quiet:
  assumes "quiet s t" "session_in E J c g old st s"
  shows "session_in E J c g old st t"
proof -
  have "accounted c k t = accounted c k s" for k
    using assms(1) by (simp add: quiet_def accounted_def dispatches_def invocations_of_def spent_def
      cong: option.case_cong)
  then show ?thesis
    using assms by (auto simp: quiet_def session_in_def session_facts_def ss_budget_def)
qed

lemma session_idle_quiet:
  assumes "quiet s t" "session_idle E J c g s"
  shows "session_idle E J c g t"
proof -
  have "accounted c k t = accounted c k s" for k
    using assms(1) by (simp add: quiet_def accounted_def dispatches_def invocations_of_def spent_def
      cong: option.case_cong)
  then show ?thesis
    using assms by (auto simp: quiet_def session_idle_def session_facts_def ss_budget_def split: option.splits)
qed

definition budget_ok :: "controller_session \<Rightarrow> bool" where
  "budget_ok s \<longleftrightarrow> evidence_budget_ok (ss_budget s) \<and> 0 \<le> ss_elapsed_offset_ms s"

lemma session_in_budget: "session_in E J c g old st s \<Longrightarrow> budget_ok s"
  by (auto simp: session_in_def session_facts_def budget_ok_def ss_budget_def envelope_accepted_def accepted_iff
    validate_execution_envelope_def execution_envelope_fields_ok_def validate_envelope_context_def
    envelope_context_fields_ok_def)

lemma durable_floor_ends:
  "ends (durable_elapsed_floor_ms S) (\<lambda>f t. quiet s t \<and> 0 \<le> f \<and> f \<le> int64_max)
     (\<lambda>e t. su_observer S \<noteq> None \<and> quiet s t) s"
  by (auto simp: durable_elapsed_floor_ms_def int64_max_def split: option.splits sum.splits)

lemma elapsed_ends:
  assumes "budget_ok s"
  shows "ends (session_elapsed_ms S) (\<lambda>ms t. quiet s t \<and> int_ok 0 ms \<and> ms \<le> eb_max_elapsed_ms (ss_budget s))
     (\<lambda>e t. su_observer S \<noteq> None \<and> quiet s t) s"
proof (cases "su_observer S")
  case None
  then show ?thesis
    using assms
    by (auto simp: session_elapsed_ms_def local_elapsed_ms_def budget_ok_def evidence_budget_ok_def int_ok_def
      ss_budget_def pos_imp_zdiv_nonneg_iff int64_max_def)
next
  case (Some ob)
  have bounds: "int_ok 0 (min (min (max f x) int64_max) m)" if "0 \<le> f" "int_ok 1 m" for f x m
    using that by (auto simp: int_ok_def int64_max_def)
  have m: "int_ok 1 (eb_max_elapsed_ms (ss_budget s))" using assms by (simp add: budget_ok_def evidence_budget_ok_def)
  show ?thesis
    unfolding session_elapsed_ms_def local_elapsed_ms_def Some ends_bind option.case ends_ask ends_simps
  proof (rule ends_mono [OF durable_floor_ends], goal_cases)
    case (1 f t)
    then have q: "quiet s t" and b: "ss_budget t = ss_budget s" by (simp_all add: quiet_def ss_budget_def)
    have b': "ss_budget (t\<lparr>ss_elapsed_offset_ms := n\<rparr>) = ss_budget s" for n using b by (simp add: ss_budget_def)
    show ?case
      unfolding raise_offset_def ends_update ends_bind ends_simps b'
    proof (intro conjI)
      show "int_ok 0 (min (min (max f y) int64_max) (eb_max_elapsed_ms (ss_budget s)))" for y
        using bounds 1 m by blast
    qed (rule quiet_offset [OF q], rule min.cobounded2)
  next
    case (2 e t)
    then show ?case by (simp add: quiet_def)
  qed
qed

section \<open>The end of an attempt\<close>

definition values_ok :: "env \<Rightarrow> nat \<Rightarrow> controller_audit list \<Rightarrow> surroundings \<Rightarrow> probe_values \<Rightarrow> bool" where
  "values_ok E g old S v \<longleftrightarrow>
     pv_sequence v = int (length old) + int g + 1 \<and> (steady S g \<longrightarrow> time_ok (pv_started_at v)) \<and>
     option_ok (\<lambda>(n, u). identifier_ok E n \<and> identifier_ok E u) (pv_capability v) \<and>
     option_ok sha256_digest_ok (pv_request_sha256 v)"

text \<open>
  What an attempt may end with: a completed one has an observation, of a capability that the
  envelope enables; before the attempt is counted it ends only with a terminal reason.
\<close>

definition end_ok ::
  "env \<Rightarrow> session_identity \<Rightarrow> stage \<Rightarrow> probe_values \<Rightarrow> probe_outcome \<Rightarrow> stop_reason \<Rightarrow> validated_observation option \<Rightarrow>
   int option \<Rightarrow> bool" where
  "end_ok E c st v outcome reason observation rejected_bytes \<longleftrightarrow>
     (outcome = PO_COMPLETED) = (observation \<noteq> None) \<and>
     (st = Opened \<longrightarrow> reason \<in> set terminal_reasons) \<and>
     (case observation of
        None \<Rightarrow> True
      | Some o1 \<Rightarrow> sha256_digest_ok (vo_sha256 o1) \<and> 0 \<le> vo_byte_count o1 \<and> pv_request_sha256 v \<noteq> None \<and>
          (case pv_capability v of None \<Rightarrow> False | Some k \<Rightarrow> k \<in> enabled_identities (si_envelope c)))"

lemma max_probes_bound: "envelope_accepted E x \<Longrightarrow> evidence_budget_ok (ec_evidence_budget (xe_context x))"
  by (auto simp: envelope_accepted_def accepted_iff validate_execution_envelope_def execution_envelope_fields_ok_def
    validate_envelope_context_def envelope_context_fields_ok_def)

lemma finished_audit_accepted:
  assumes "steady S g" "hexdigest_ok E" "session_in E J c g old st s" "values_ok E g old S v"
    "end_ok E c st v outcome reason observation rejected" "time_ok now" "int_ok 0 ms"
    "option_ok (\<lambda>o1. vo_byte_count o1 \<le> int64_max) observation" "option_ok (int_ok 0) rejected"
  shows "accepted (validate_controller_audit E)
    (finished_audit E s v outcome reason (max now (pv_started_at v)) ms observation rejected)"
proof -
  note f = assms(3) [unfolded session_in_def session_facts_def]
  have b: "evidence_budget_ok (ss_budget s)" using session_in_budget [OF assms(3)] by (simp add: budget_ok_def)
  have g: "g = 0" using assms(1) by (simp add: steady_def)
  have n: "int_ok 1 (pv_sequence v)" "int_ok 0 (ss_probe_count_used s)" "int_ok 0 (ss_cost_units_used s)"
    "int_ok 0 (ss_result_bytes_acquired s)"
    using f b assms(4) g by (auto simp: values_ok_def evidence_budget_ok_def int_ok_def int64_max_def split: if_splits)
  have t: "time_ok (max now (pv_started_at v))" "time_ok (pv_started_at v)"
    using assms(1,4,6) by (auto simp: values_ok_def max_def)
  have "sha256_digest_ok (target_sha256 E (ss_envelope s))"
    using assms(2) by (simp add: hexdigest_ok_def target_sha256_def canonical_sha256_def)
  then have "controller_audit_fields_ok E
      (finished_audit E s v outcome reason (max now (pv_started_at v)) ms observation rejected)"
    using n t assms(4,5,7-9)
    by (auto simp: controller_audit_fields_ok_def finished_audit_def values_ok_def end_ok_def option_ok_def int_ok_def
      split: option.splits)
  then show ?thesis
    using assms(5) by (auto simp: accepted_iff validate_controller_audit_def finished_audit_def end_ok_def split: option.splits)
qed

lemma record_ends:
  assumes "session_in E J c g old st s" "audit_of_session E (si_envelope c) audit" "ca_sequence audit = ss_sequence s"
    and o1: "(ca_outcome audit = PO_COMPLETED) = (observation \<noteq> None)"
    and st: "st = Opened \<Longrightarrow> ca_stop_reason audit \<in> set terminal_reasons"
  shows "ends (record_execution E audit observation) (attempt_done E J c g old) R s"
proof -
  let ?e = "\<lparr>pe_envelope_sha256 = envelope_sha256 E (si_envelope c), pe_audit = audit, pe_observation = observation,
    pe_session = si_token c\<rparr>"
  let ?s = "s\<lparr>ss_audit := old @ [audit]\<rparr>"
  note f = assms(1) [unfolded session_in_def]
  have facts: "session_facts E J c ?s"
    using f assms(2,3) by (auto simp: session_facts_def ss_budget_def sorted_wrt_append list_all_iff)
  have acc: "accounted c None s"
    using f accounted_pending by (auto simp: session_facts_def)
  have e: "execution_of_session E c ?e" using o1 by (simp add: execution_of_session_def)
  have seq: "list_all (\<lambda>a. ca_sequence a \<le> ss_sequence s) (old @ [audit])"
    using f assms(3) by (auto simp: list_all_iff)
  have n: "int (length (old @ [audit])) \<le> ss_probe_count_used s + (if ca_stop_reason audit \<in> set terminal_reasons then 1 else 0)"
    "int (length (ss_dispatched s)) \<le> ss_probe_count_used s"
    using f st by (auto split: if_splits)
  have "attempt_done E J c g old ?e (if ca_stop_reason audit \<in> set terminal_reasons
      then ?s\<lparr>ss_terminal_execution := Some ?e\<rparr> else ?s)"
    using f facts acc e seq n assms(3) by (cases "ca_stop_reason audit \<in> set terminal_reasons")
      (simp_all add: attempt_done_def session_idle_def)
  moreover have "build_probe_execution (envelope_sha256 E (ss_envelope s)) audit observation (ss_token s) = Inr ?e"
    using f o1 by (simp add: build_probe_execution_def session_facts_def)
  ultimately show ?thesis using f by (simp add: record_execution_def)
qed

lemma finish_ends:
  assumes "session_in E J c g old st s" "hexdigest_ok E" "values_ok E g old S v"
    "end_ok E c st v outcome reason observation rejected"
    and sizes: "steady S g \<Longrightarrow> option_ok (\<lambda>o1. vo_byte_count o1 \<le> int64_max) observation \<and> option_ok (int_ok 0) rejected"
  shows "ends (finish E S v outcome reason observation rejected) (attempt_done E J c g old)
    (attempt_raised E J S c g) s"
proof -
  let ?now = "su_now S (ss_asked s)"
  have later: "ends (lift_result (validate_controller_audit E
        (finished_audit E t v outcome reason (max ?now (pv_started_at v)) ms observation rejected)))
      (\<lambda>audit. ends (record_execution E audit observation) (attempt_done E J c g old) (attempt_raised E J S c g))
      (attempt_raised E J S c g) t"
    if t: "session_in E J c g old st t" and ms: "int_ok 0 ms" for t ms
  proof -
    let ?a = "finished_audit E t v outcome reason (max ?now (pv_started_at v)) ms observation rejected"
    show ?thesis
    proof (cases "validate_controller_audit E ?a")
      case (Inl e)
      have "\<not> steady S g"
      proof
        assume st: "steady S g"
        then have "time_ok ?now" by (simp add: steady_def)
        from finished_audit_accepted [OF st assms(2) t assms(3,4) this ms] sizes [OF st] Inl
        show False by (simp add: accepted_def)
      qed
      then show ?thesis using Inl attempt_given_up [OF t] by (simp add: attempt_raised_def)
    next
      case (Inr a)
      then have a: "a = ?a" by (simp add: validate_controller_audit_def)
      have "audit_of_session E (si_envelope c) a"
        using Inr a assms(4) t
        by (auto simp: audit_of_session_def audit_accepted_def accepted_def finished_audit_def session_in_def
          session_facts_def capability_enabled_def end_ok_def enabled_identities_def split: option.splits)
      then have "ends (record_execution E a observation) (attempt_done E J c g old) (attempt_raised E J S c g) t"
        using t assms(3,4) a
        by (intro record_ends) (auto simp: finished_audit_def values_ok_def session_in_def end_ok_def)
      then show ?thesis using Inr by simp
    qed
  qed
  have b: "budget_ok (s\<lparr>ss_asked := Suc (ss_asked s)\<rparr>)" using session_in_budget [OF assms(1)] by (simp add: budget_ok_def ss_budget_def)
  show ?thesis
    unfolding finish_def ends_bind ends_ask
  proof (rule ends_mono [OF elapsed_ends [OF b]], goal_cases)
    case (1 ms t)
    then have "session_in E J c g old st t" using session_in_quiet [OF _ assms(1), of t] by (simp add: quiet_def)
    with 1 later [of t ms] show ?case by simp
  next
    case (2 e t)
    then have "session_in E J c g old st t" using session_in_quiet [OF _ assms(1), of t] by (simp add: quiet_def)
    then show ?case using 2 attempt_given_up by (auto simp: attempt_raised_def steady_def)
  qed
qed

lemma session_idle_asked [simp]: "session_idle E J c g (s\<lparr>ss_asked := n\<rparr>) = session_idle E J c g s"
  by (simp add: session_idle_def cong: option.case_cong)

lemma attempt_done_asked [simp]: "attempt_done E J c g old e (s\<lparr>ss_asked := n\<rparr>) = attempt_done E J c g old e s"
  by (simp add: attempt_done_def)

lemma attempt_done_raised:
  "attempt_done E J c g old e s \<Longrightarrow> exn = CancelledError \<and> task_cancelled S \<or> su_observer S \<noteq> None \<Longrightarrow>
    attempt_raised E J S c g exn s"
  by (auto simp: attempt_done_def attempt_raised_def steady_def)

lemma await_ends:
  "Q () (s\<lparr>ss_asked := Suc (ss_asked s)\<rparr>) \<Longrightarrow> (\<And>e. R e (s\<lparr>ss_asked := Suc (ss_asked s)\<rparr>)) \<Longrightarrow>
    ends (await_observer operation) Q R s"
  by (simp add: await_observer_def split: option.splits)

lemma observe_ends:
  "attempt_done E J c g old e s \<Longrightarrow>
    ends (observe_execution S e) (attempt_done E J c g old) (attempt_raised E J S c g) s"
  by (cases "su_observer S") (auto simp: observe_execution_def intro!: await_ends intro: attempt_done_raised)

lemma finish_observed_ends:
  assumes "session_in E J c g old st s" "hexdigest_ok E" "values_ok E g old S v" "outcome \<noteq> PO_COMPLETED"
    "st = Opened \<Longrightarrow> reason \<in> set terminal_reasons"
  shows "ends (finish_observed E S v outcome reason) (attempt_done E J c g old) (attempt_raised E J S c g) s"
proof -
  have "end_ok E c st v outcome reason None None" using assms(4,5) by (simp add: end_ok_def)
  from finish_ends [OF assms(1-3) this] show ?thesis
    unfolding finish_observed_def ends_bind by (rule ends_mono) (auto intro: observe_ends)
qed

lemma finish_dispatched_ends:
  assumes "session_in E J c g old st s" "hexdigest_ok E" "values_ok E g old S v"
    "end_ok E c st v outcome reason observation rejected"
    "steady S g \<Longrightarrow> option_ok (\<lambda>o1. vo_byte_count o1 \<le> int64_max) observation \<and> option_ok (int_ok 0) rejected"
  shows "ends (finish_dispatched E S request v outcome reason observation rejected) (attempt_done E J c g old)
    (attempt_raised E J S c g) s"
proof -
  have "ends (case su_observer S of None \<Rightarrow> give e | Some ob \<Rightarrow>
      bind_op (await_observer (\<lambda>n. ob_after_dispatch ob n request e)) (\<lambda>_. observe_execution S e))
    (attempt_done E J c g old) (attempt_raised E J S c g) t" if "attempt_done E J c g old e t" for e t
    using that by (cases "su_observer S") (auto intro!: await_ends intro: observe_ends attempt_done_raised)
  with finish_ends [OF assms] show ?thesis
    unfolding finish_dispatched_def ends_bind by (rule ends_mono) auto
qed

lemma end_dispatched_ends:
  assumes "session_in E J c g old st s" "hexdigest_ok E" "values_ok E g old S v" "fst kind \<noteq> PO_COMPLETED"
    "st \<noteq> Opened" "steady S g \<Longrightarrow> option_ok (int_ok 0) rejected"
  shows "ends (end_dispatched E S request v kind rejected) (attempt_done E J c g old)
    (attempt_raised E J S c g) s"
  unfolding end_dispatched_def
  by (rule finish_dispatched_ends [OF assms(1-3)]) (use assms(4-6) in \<open>simp_all add: end_ok_def\<close>)

section \<open>Charges and dispatches\<close>

definition chargeable :: "session_identity \<Rightarrow> capability_registration \<Rightarrow> controller_session \<Rightarrow> bool" where
  "chargeable c r s \<longleftrightarrow>
     map_of (si_registrations c) (cr_identity r) = Some r \<and> invocations_of s (cr_identity r) < cr_max_invocations r \<and>
     ss_cost_units_used s + oc_cost_units (cr_capability r) \<le> eb_max_cost_units (ss_budget s)"

lemma chargeable_quiet: "quiet s t \<Longrightarrow> chargeable c r s \<Longrightarrow> chargeable c r t"
  by (simp add: quiet_def chargeable_def invocations_of_def ss_budget_def)

lemma capability_invocations_of: "capability_invocations s r = invocations_of s (cr_identity r)"
  by (simp add: capability_invocations_def invocations_of_def)

lemma accounted_charge:
  assumes "accounted c None s" "chargeable c r s" "capabilities_ok E J g" "capability_entries g = si_registrations c"
    and t: "ss_capability_invocations t = (ss_capability_invocations s)(cr_identity r \<mapsto> capability_invocations s r + 1)"
      "ss_cost_units_used t = ss_cost_units_used s + oc_cost_units (cr_capability r)" "ss_dispatched t = ss_dispatched s"
  shows "accounted c (Some (cr_identity r)) t" "accounted c None t"
proof -
  have inv: "invocations_of t k = invocations_of s k + (if k = cr_identity r then 1 else 0)" for k
    by (simp add: invocations_of_def t(1) capability_invocations_def)
  have c: "cost_of c (cr_identity r) = oc_cost_units (cr_capability r)"
    using assms(2) by (simp add: chargeable_def cost_of_def)
  have d: "dispatches t k = dispatches s k" "spent c t = spent c s" for k by (simp_all add: dispatches_def spent_def t(3))
  note a = assms(1) [unfolded accounted_def]
  have "dispatches t k + (if Some (cr_identity r) = Some k then 1 else 0) \<le> invocations_of t k" for k
    using spec [OF conjunct1 [OF a], of k] by (auto simp: inv d)
  moreover have "case map_of (si_registrations c) k of None \<Rightarrow> True | Some r \<Rightarrow> invocations_of t k \<le> cr_max_invocations r" for k
    using spec [OF conjunct1 [OF conjunct2 [OF a]], of k] assms(2)
    by (auto simp: inv chargeable_def split: option.splits)
  moreover have "spent c t + cost_of c (cr_identity r) \<le> ss_cost_units_used t" using a by (simp add: c d t(2))
  ultimately show acc: "accounted c (Some (cr_identity r)) t" unfolding accounted_def option.case by blast
  show "accounted c None t" by (rule accounted_pending [OF acc assms(3,4)])
qed

lemma charge_ends:
  assumes "session_in E J c g old Counted s" "chargeable c r s"
  shows "ends (charge r) (\<lambda>_. session_in E J c g old (Charged (cr_identity r))) R s"
proof -
  let ?t = "s\<lparr>ss_capability_invocations := (ss_capability_invocations s)(cr_identity r \<mapsto> capability_invocations s r + 1),
     ss_cost_units_used := ss_cost_units_used s + oc_cost_units (cr_capability r)\<rparr>"
  note f = assms(1) [unfolded session_in_def session_facts_def]
  have acc: "accounted c None s" "capabilities_ok E J (ss_registry s)"
    "capability_entries (ss_registry s) = si_registrations c" using f by (simp_all add: stage_pending_def)
  have "0 \<le> oc_cost_units (cr_capability r)"
    using cost_of_nonneg [OF acc(2,3), of "cr_identity r"] assms(2) by (simp add: cost_of_def chargeable_def)
  then have facts: "session_facts E J c ?t"
    using f assms(2) by (auto simp: session_facts_def chargeable_def ss_budget_def)
  have "accounted c (Some (cr_identity r)) ?t" by (rule accounted_charge [OF acc(1) assms(2) acc(2,3)]) simp_all
  then show ?thesis using f facts by (auto simp: charge_def session_in_def stage_pending_def)
qed

section \<open>Requests that pass the guards\<close>

definition request_admitted ::
  "env \<Rightarrow> schema_library \<Rightarrow> session_identity \<Rightarrow> probe_request \<Rightarrow> capability_registration \<Rightarrow> bool" where
  "request_admitted E J c request r \<longleftrightarrow>
     accepted (validate_probe_request E) request \<and> registration_built E J r \<and>
     map_of (si_registrations c) (cr_identity r) = Some r \<and> cr_identity r \<in> enabled_identities (si_envelope c) \<and>
     cr_identity r = (pq_capability_name request, pq_capability_version request) \<and>
     (\<forall>t. 1 \<le> t \<longrightarrow> t \<le> oc_timeout_ms (cr_capability r) \<longrightarrow>
        probe_allowed E J (si_envelope c) r (bind_probe (si_envelope c) request r t))"

lemma first_refusal_None: "first_refusal cs = None \<longleftrightarrow> list_all (\<lambda>(bad, _). \<not> bad) cs"
  by (induction cs rule: first_refusal.induct) auto

lemma first_refusal_Some: "first_refusal cs = Some k \<Longrightarrow> k \<in> snd ` set cs"
  by (induction cs rule: first_refusal.induct) (auto split: if_splits)

lemma probe_refusal_kind: "probe_refusal E J s request r = Some (outcome, reason) \<Longrightarrow> outcome \<noteq> PO_COMPLETED"
  unfolding probe_refusal_def Let_def by (drule first_refusal_Some) auto

lemma probe_refusal_None:
  assumes "probe_refusal E J s request r = None" "session_in E J c g old st s"
    and "accepted (validate_probe_request E) request" "registration_built E J r"
    and r: "map_of (si_registrations c) (cr_identity r) = Some r"
      "cr_identity r = (pq_capability_name request, pq_capability_version request)"
  shows "request_admitted E J c request r" "chargeable c r s"
proof -
  have x: "ss_envelope s = si_envelope c" using assms(2) by (simp add: session_in_def session_facts_def)
  note n = assms(1) [unfolded probe_refusal_def Let_def first_refusal_None list.pred_inject prod.case x]
  have "executable r" using n by (cases "cr_semantics r") (simp_all add: executable_def)
  moreover have "target_allowed (cr_capability r) (xe_target (si_envelope c))"
    using n by (auto simp: target_allowed_def list_ex_iff)
  ultimately show "request_admitted E J c request r"
    using n assms(3,4) r
    by (simp add: request_admitted_def probe_allowed_def bind_probe_def bp_identity_def cr_identity_def
      enabled_identities_def arguments_payload_def)
  show "chargeable c r s"
    using n r by (simp add: chargeable_def capability_invocations_of)
qed

lemma bind_probe_accepted:
  assumes "request_admitted E J c request r" "envelope_accepted E (si_envelope c)" "1 \<le> t"
    "t \<le> oc_timeout_ms (cr_capability r)"
  shows "accepted (validate_bound_probe E) (bind_probe (si_envelope c) request r t)"
proof -
  note r = assms(1) [unfolded request_admitted_def]
  have p: "accepted (validate_probe_request E) request" using r by blast
  have c: "observation_capability_fields_ok E (cr_capability r)" using r registration_builtD(4) by blast
  have "probe_request_fields_ok E request" using p by (auto simp: accepted_iff validate_probe_request_def)
  moreover have "execution_envelope_fields_ok E (si_envelope c)"
    using assms(2) by (auto simp: envelope_accepted_def accepted_iff validate_execution_envelope_def)
  ultimately have "bound_probe_fields_ok E (bind_probe (si_envelope c) request r t)"
    using c assms(3,4)
    by (auto simp: bound_probe_fields_ok_def bind_probe_def probe_request_fields_ok_def execution_envelope_fields_ok_def
      observation_capability_fields_ok_def int_ok_def)
  then show ?thesis
    using p by (auto simp: accepted_iff validate_bound_probe_def validate_probe_request_def bind_probe_def)
qed

section \<open>From the dispatch to the end\<close>

lemma dispatched_session_in:
  assumes "session_in E J c g old (Charged k) s" "bp_identity p = k" "probe_dispatchable E J c p"
  shows "session_in E J c g old Dispatched (s\<lparr>ss_dispatched := ss_dispatched s @ [p]\<rparr>)"
proof -
  let ?t = "s\<lparr>ss_dispatched := ss_dispatched s @ [p]\<rparr>"
  note f = assms(1) [unfolded session_in_def]
  have a: "accounted c (Some k) s" using f by (simp add: stage_pending_def)
  have d: "dispatches ?t j = dispatches s j + (if Some k = Some j then 1 else 0)" "spent c ?t = spent c s + cost_of c k"
    "invocations_of ?t j = invocations_of s j" for j
    using assms(2) by (simp_all add: dispatches_def spent_def invocations_of_def)
  have "accounted c None ?t"
    using a unfolding accounted_def d by simp
  moreover have "session_facts E J c ?t" using f assms(3) by (auto simp: session_facts_def ss_budget_def)
  ultimately show ?thesis using f by (auto simp: session_in_def stage_pending_def)
qed

definition observed_small :: "surroundings \<Rightarrow> nat \<Rightarrow> invocation \<Rightarrow> bool" where
  "observed_small S g state \<longleftrightarrow>
     (\<forall>o1. state = Invocation_Completed o1 \<longrightarrow> steady S g \<longrightarrow> int (length (observation_bytes o1)) \<le> int64_max)"

lemma task_result_small:
  assumes "su_wait S n h p = Handler_Done u answer"
  shows "case task_result S u answer of Inl e \<Rightarrow> su_observer S \<noteq> None | Inr state \<Rightarrow> observed_small S g state"
proof -
  have small: "observed_small S g (handler_result answer)"
    using assms by (cases answer) (auto simp: observed_small_def steady_def)
  have "observed_small S g Invocation_Cancelled" "observed_small S g Invocation_Elapsed_Exhausted"
    by (simp_all add: observed_small_def)
  with small show ?thesis
    by (auto simp: task_result_def split: authorization.splits exn.splits)
qed

lemma invoke_once_ends:
  assumes "session_in E J c g old (Charged k) s" "bp_identity p = k" "probe_dispatchable E J c p"
  shows "ends (invoke_once S h p) (\<lambda>state t. session_in E J c g old Dispatched t \<and> observed_small S g state)
    (\<lambda>e t. session_in E J c g old Dispatched t \<and>
      (e = CancelledError \<and> task_cancelled S \<or> su_observer S \<noteq> None)) s"
proof -
  let ?t = "s\<lparr>ss_dispatched := ss_dispatched s @ [p]\<rparr>"
  have t: "session_in E J c g old Dispatched ?t" by (rule dispatched_session_in [OF assms])
  show ?thesis
  proof (cases "su_wait S (ss_asked s) h p")
    case (Handler_Done u answer)
    show ?thesis
      using task_result_small [OF Handler_Done, of g] t
      by (auto simp: invoke_once_def Handler_Done split: sum.splits)
  next
    case Wait_Cancelled
    then have "task_cancelled S" unfolding task_cancelled_def by blast
    then show ?thesis using t by (simp add: invoke_once_def Wait_Cancelled)
  qed (use t in \<open>simp_all add: invoke_once_def observed_small_def cancel_session_def\<close>)
qed

lemma accept_observation_ends:
  assumes "session_in E J c g old Dispatched s" "hexdigest_ok E" "values_ok E g old S v"
    and v: "pv_request_sha256 v \<noteq> None" "pv_capability v = Some k" "k \<in> enabled_identities (si_envelope c)"
    and small: "observed_small S g (Invocation_Completed o1)"
  shows "ends (accept_observation E S request v r d o1) (attempt_done E J c g old) (attempt_raised E J S c g) s"
proof -
  let ?v = "validated_payload E o1"
  let ?t = "s\<lparr>ss_result_bytes_acquired := min (ss_result_bytes_acquired s + vo_byte_count ?v) int64_max\<rparr>"
  have b: "0 \<le> vo_byte_count ?v" "sha256_digest_ok (vo_sha256 ?v)"
    "steady S g \<Longrightarrow> vo_byte_count ?v \<le> int64_max"
    using assms(2) small by (simp_all add: validated_payload_def Let_def hexdigest_ok_def observed_small_def)
  have "session_facts E J c ?t"
    using assms(1) b(1) by (auto simp: session_in_def session_facts_def ss_budget_def int64_max_def)
  then have t: "session_in E J c g old Dispatched (?t\<lparr>ss_asked := n\<rparr>)" for n
    using assms(1) by (auto simp: session_in_def)
  have rejected: "ends (end_dispatched E S request v kind (Some (vo_byte_count ?v))) (attempt_done E J c g old)
      (attempt_raised E J S c g) (?t\<lparr>ss_asked := n\<rparr>)" if "fst kind \<noteq> PO_COMPLETED" for kind n
    by (rule end_dispatched_ends [OF t assms(2,3) that]) (use b in \<open>simp_all add: int_ok_def\<close>)
  have completed: "ends (finish_dispatched E S request v PO_COMPLETED SR_PROBE_COMPLETED (Some ?v) None)
      (attempt_done E J c g old) (attempt_raised E J S c g) (?t\<lparr>ss_asked := n\<rparr>)" for n
    by (rule finish_dispatched_ends [OF t assms(2,3)]) (use b v in \<open>simp_all add: end_ok_def\<close>)
  show ?thesis
    using rejected completed by (simp add: accept_observation_def Let_def reached_def elapsed_end_def)
qed

lemma conclude_ends:
  assumes "session_in E J c g old Dispatched s" "hexdigest_ok E" "values_ok E g old S v"
    and v: "pv_request_sha256 v \<noteq> None" "pv_capability v = Some k" "k \<in> enabled_identities (si_envelope c)"
    and small: "observed_small S g state"
  shows "ends (conclude E S request v r d state) (attempt_done E J c g old) (attempt_raised E J S c g) s"
proof -
  have ended: "ends (end_dispatched E S request v kind None) (attempt_done E J c g old)
      (attempt_raised E J S c g) t"
    if "session_in E J c g old Dispatched t" "fst kind \<noteq> PO_COMPLETED" for kind t
    by (rule end_dispatched_ends [OF that(1) assms(2,3) that(2)]) simp_all
  have late: "fst (late_end d) \<noteq> PO_COMPLETED" by (simp add: late_end_def)
  show ?thesis
  proof (cases state)
    case (Invocation_Completed o1)
    note accept = accept_observation_ends [OF _ assms(2,3) v small [unfolded Invocation_Completed]]
    show ?thesis
      using ended late accept assms(1) by (simp add: conclude_def Invocation_Completed reached_def elapsed_end_def)
  qed (use ended late assms(1) in \<open>simp_all add: conclude_def elapsed_end_def\<close>)
qed

lemma invoke_charged_ends:
  assumes "session_in E J c g old (Charged k) s" "hexdigest_ok E" "values_ok E g old S v"
    and v: "pv_request_sha256 v \<noteq> None" "pv_capability v = Some k" "k \<in> enabled_identities (si_envelope c)"
    and p: "bp_identity p = k" "probe_dispatchable E J c p"
  shows "ends (invoke_charged E S request v r h d p) (attempt_done E J c g old) (attempt_raised E J S c g) s"
  unfolding invoke_charged_def ends_bind ends_simps
proof (rule ends_mono [OF invoke_once_ends [OF assms(1) p, of S h]], goal_cases)
  case (1 state t)
  then show ?case using conclude_ends [OF _ assms(2,3) v] by blast
next
  case (2 e t)
  show ?case
  proof (cases "e = CancelledError")
    case True
    have "ends (end_dispatched E S request v (PO_CANCELLED, SR_PROBE_CANCELLED) None) (attempt_done E J c g old)
      (attempt_raised E J S c g) t"
      by (rule end_dispatched_ends [where st = Dispatched, OF _ assms(2,3)]) (use 2 in simp_all)
    then show ?thesis using True 2 by (auto elim!: ends_mono intro: attempt_done_raised)
  next
    case False
    with 2 have "\<not> steady S g" by (auto simp: steady_def)
    then show ?thesis using 2 False attempt_given_up by (auto simp: attempt_raised_def)
  qed
qed

lemma remaining_ends:
  assumes "budget_ok s"
  shows "ends (remaining_elapsed_ms S) (\<lambda>_. quiet s) (\<lambda>e t. su_observer S \<noteq> None \<and> quiet s t) s"
  unfolding remaining_elapsed_ms_def ends_bind
proof (rule ends_mono [OF elapsed_ends [OF assms]], goal_cases)
  case (1 ms t)
  then show ?case by (auto simp: Let_def split: option.splits sum.splits)
qed

text \<open>Charged at the admission by an observer, and otherwise before the handler.\<close>

definition ready ::
  "env \<Rightarrow> schema_library \<Rightarrow> surroundings \<Rightarrow> session_identity \<Rightarrow> nat \<Rightarrow> controller_audit list \<Rightarrow>
   capability_registration \<Rightarrow> controller_session \<Rightarrow> bool" where
  "ready E J S c g old r s \<longleftrightarrow>
     (if su_observer S = None then session_in E J c g old Counted s \<and> chargeable c r s
      else session_in E J c g old (Charged (cr_identity r)) s)"

lemma ready_quiet: "quiet s t \<Longrightarrow> ready E J S c g old r s \<Longrightarrow> ready E J S c g old r t"
  by (auto simp: ready_def intro: session_in_quiet chargeable_quiet split: if_splits)

lemma ready_in: "ready E J S c g old r s \<Longrightarrow> \<exists>st. st \<noteq> Opened \<and> session_in E J c g old st s"
  by (cases "su_observer S = None") (auto simp: ready_def)

lemma ready_raised: "ready E J S c g old r s \<Longrightarrow> \<not> steady S g \<Longrightarrow> attempt_raised E J S c g e s"
  using ready_in attempt_given_up by (fastforce simp: attempt_raised_def)

lemma ready_charge_ends:
  assumes "ready E J S c g old r s"
  shows "ends (if su_observer S = None then charge r else give ()) (\<lambda>_. session_in E J c g old (Charged (cr_identity r))) R s"
  using assms charge_ends by (cases "su_observer S = None") (auto simp: ready_def)

lemma dispatch_probe_ends:
  assumes "ready E J S c g old r s" "hexdigest_ok E" "values_ok E g old S v"
    and r: "request_admitted E J c request r"
    and v: "pv_request_sha256 v \<noteq> None" "pv_capability v = Some (cr_identity r)"
  shows "ends (dispatch_probe E S request v r h) (attempt_done E J c g old) (attempt_raised E J S c g) s"
proof -
  let ?Q = "attempt_done E J c g old" and ?R = "attempt_raised E J S c g"
  have en: "cr_identity r \<in> enabled_identities (si_envelope c)" using r unfolding request_admitted_def by blast
  have ended: "ends (end_dispatched E S request v kind None) ?Q ?R t"
    if "ready E J S c g old r t" "fst kind \<noteq> PO_COMPLETED" for kind t
    using ready_in [OF that(1)] end_dispatched_ends [OF _ assms(2,3) that(2)] by auto
  have asked: "ready E J S c g old r (t\<lparr>ss_asked := n\<rparr>)" if "ready E J S c g old r t" for t n
    using ready_quiet [OF _ that, of "t\<lparr>ss_asked := n\<rparr>"] by simp
  have after: "ends (bind_op (lift_result (validate_bound_probe E (bind_probe (ss_envelope t) request r
          (max 1 (timeout div 1000000))))) (\<lambda>probe.
        bind_op (reached S (invocation_deadline d)) (\<lambda>late.
          if late then end_dispatched E S request v (late_end d) None
          else bind_op (if su_observer S = None then charge r else give ()) (\<lambda>_.
            invoke_charged E S request v r h d probe)))) ?Q ?R t"
    if t: "ready E J S c g old r t" and timeout: "timeout \<le> oc_timeout_ms (cr_capability r) * 1000000" for t timeout d
  proof -
    let ?ms = "max 1 (timeout div 1000000)"
    let ?p = "bind_probe (si_envelope c) request r ?ms"
    have "1 \<le> oc_timeout_ms (cr_capability r)"
      using r registration_builtD(4) by (auto simp: request_admitted_def observation_capability_fields_ok_def int_ok_def)
    then have ms: "1 \<le> ?ms" "?ms \<le> oc_timeout_ms (cr_capability r)"
      using timeout zdiv_mono1 [of timeout "oc_timeout_ms (cr_capability r) * 1000000" 1000000] by auto
    have x: "ss_envelope t = si_envelope c" "envelope_accepted E (si_envelope c)"
      using ready_in [OF t] by (auto simp: session_in_def session_facts_def)
    have a: "probe_allowed E J (si_envelope c) r ?p" "map_of (si_registrations c) (cr_identity r) = Some r"
      using r ms unfolding request_admitted_def by blast+
    from a(1) have i: "bp_identity ?p = cr_identity r" unfolding probe_allowed_def by metis
    have p: "bp_identity ?p = cr_identity r" "probe_dispatchable E J c ?p"
      unfolding probe_dispatchable_def i by (simp_all add: a)
    have "ends (bind_op (if su_observer S = None then charge r else give ()) (\<lambda>_.
        invoke_charged E S request v r h d ?p)) ?Q ?R u" if "ready E J S c g old r u" for u
      unfolding ends_bind
      by (rule ends_mono [OF ready_charge_ends [OF that]]) (rule invoke_charged_ends [OF _ assms(2,3) v en p])
    moreover have "fst (late_end d) \<noteq> PO_COMPLETED" by (simp add: late_end_def)
    moreover have "validate_bound_probe E ?p = Inr ?p"
      using bind_probe_accepted [OF r x(2) ms] by (auto simp: accepted_iff validate_bound_probe_def)
    ultimately show ?thesis using ended asked t x(1) by (simp add: reached_def)
  qed
  have b: "budget_ok (s\<lparr>ss_asked := n\<rparr>)" for n
    using ready_in [OF assms(1)] session_in_budget by (auto simp: budget_ok_def ss_budget_def)
  show ?thesis
    unfolding dispatch_probe_def ends_bind ends_ask
  proof (rule ends_mono [OF remaining_ends [OF b]], goal_cases)
    case (1 ms t)
    then have t: "ready E J S c g old r t" using ready_quiet [OF _ assms(1), of t] by (simp add: quiet_def)
    let ?m = "su_monotonic S (ss_asked s)"
    let ?d = "\<lparr>id_elapsed = ?m + ms * 1000000, id_capability = ?m + oc_timeout_ms (cr_capability r) * 1000000\<rparr>"
    have "invocation_deadline ?d - ?m \<le> oc_timeout_ms (cr_capability r) * 1000000"
      by (simp add: invocation_deadline_def)
    note after = after [OF t this]
    have "fst elapsed_end \<noteq> PO_COMPLETED" by (simp add: elapsed_end_def)
    note ended = ended [OF t this]
    show ?case
      unfolding ends_simps Let_def
      by (cases "invocation_deadline ?d - ?m \<le> 0") (simp_all only: if_True if_False ended after)
  next
    case (2 e t)
    then have t: "ready E J S c g old r t" using ready_quiet [OF _ assms(1), of t] by (simp add: quiet_def)
    then show ?case using 2 ready_raised by (auto simp: steady_def)
  qed
qed

section \<open>Restored probes\<close>

lemma restored_observation_Inr:
  "restored_observation E audit o1 = Inr validated \<Longrightarrow> (validated \<noteq> None) = (o1 \<noteq> None)"
  by (auto simp: restored_observation_def Let_def split: option.splits if_splits)

lemma restored_session_in:
  assumes s: "session_in E J c g old Counted s" "chargeable c r s"
    and m: "\<not> restored_mismatch E s audit n request (oc_cost_units (cr_capability r))"
      "accepted (validate_controller_audit E) audit"
    and t: "t = s\<lparr>ss_probe_count_used := ca_probe_count_used audit, ss_cost_units_used := ca_cost_units_used audit,
      ss_result_bytes_acquired := ca_result_bytes_acquired audit, ss_asked := i,
      ss_elapsed_offset_ms := max (ss_elapsed_offset_ms s) ms,
      ss_capability_invocations := (ss_capability_invocations s)(cr_identity r \<mapsto> capability_invocations s r + 1)\<rparr>"
  shows "session_in E J c g old Counted t"
proof -
  note f = s(1) [unfolded session_in_def session_facts_def]
  have acc: "accounted c None s" "capabilities_ok E J (ss_registry s)"
    "capability_entries (ss_registry s) = si_registrations c" using f by (simp_all add: stage_pending_def)
  have a: "ca_probe_count_used audit = ss_probe_count_used s"
    "ca_cost_units_used audit = ss_cost_units_used s + oc_cost_units (cr_capability r)"
    using m(1) by (simp_all add: restored_mismatch_def Let_def)
  have fields: "controller_audit_fields_ok E audit" using m(2) by (auto simp: accepted_iff validate_controller_audit_def)
  then have bytes: "0 \<le> ca_result_bytes_acquired audit" "ca_result_bytes_acquired audit \<le> int64_max"
    "0 \<le> ca_cost_units_used audit" by (simp_all add: controller_audit_fields_ok_def int_ok_def)
  have "session_facts E J c t"
    using f bytes s(2) a by (auto simp: session_facts_def t chargeable_def ss_budget_def le_max_iff_disj)
  moreover have "accounted c None t"
    by (rule accounted_charge(2) [OF acc(1) s(2) acc(2,3)]) (simp_all add: t a)
  ultimately show ?thesis using f a by (auto simp: session_in_def stage_pending_def t)
qed

lemma restored_audit_of_session:
  assumes m: "\<not> restored_mismatch E s audit n request cost" "accepted (validate_controller_audit E) audit"
    and r: "(pq_capability_name request, pq_capability_version request) \<in> enabled_identities (ss_envelope s)"
  shows "audit_of_session E (ss_envelope s) audit" "ca_sequence audit = n"
  using assms
  by (auto simp: restored_mismatch_def Let_def audit_of_session_def audit_accepted_def capability_enabled_def
    enabled_identities_def)

lemma restore_ends:
  assumes s: "session_in E J c g old Counted s" "chargeable c r s" "su_observer S \<noteq> None"
    and r: "request_admitted E J c request r" and n: "n = ss_sequence s"
  shows "ends (restore E S restored n request r) (attempt_done E J c g old) (attempt_raised E J S c g) s"
proof -
  have raised: "attempt_raised E J S c g e s" for e
    using s attempt_given_up by (auto simp: attempt_raised_def steady_def)
  have x: "ss_envelope s = si_envelope c" using s(1) by (simp add: session_in_def session_facts_def)
  have en: "(pq_capability_name request, pq_capability_version request) \<in> enabled_identities (ss_envelope s)"
    using r unfolding request_admitted_def x by metis
  have success: "ends (record_execution E audit validated) (attempt_done E J c g old) (attempt_raised E J S c g) t"
    if "validate_controller_audit E (rp_audit restored) = Inr audit"
      "\<not> restored_mismatch E s audit n request (oc_cost_units (cr_capability r))"
      "(ca_outcome audit = PO_COMPLETED) = (rp_observation restored \<noteq> None)"
      "restored_observation E audit (rp_observation restored) = Inr validated"
      "session_in E J c g old Counted t" "ss_sequence t = ss_sequence s" for audit validated t
  proof -
    have a: "accepted (validate_controller_audit E) audit" using that(1) by (auto simp: accepted_iff validate_controller_audit_def)
    note o = restored_audit_of_session [OF that(2) a en]
    show ?thesis
      using record_ends [OF that(5), of audit validated] o n x that(3,6) restored_observation_Inr [OF that(4)] by simp
  qed
  let ?agree = "\<lambda>audit. (ca_outcome audit = PO_COMPLETED) = (rp_observation restored \<noteq> None)"
  let ?m = "\<lambda>audit. restored_mismatch E s audit n request (oc_cost_units (cr_capability r))"
  consider (invalid) e where "validate_controller_audit E (rp_audit restored) = Inl e"
    | (mismatch) audit where "validate_controller_audit E (rp_audit restored) = Inr audit" "?m audit \<or> \<not> ?agree audit"
    | (payload) audit e where "validate_controller_audit E (rp_audit restored) = Inr audit" "\<not> ?m audit" "?agree audit"
        "restored_observation E audit (rp_observation restored) = Inl e"
    | (ok) audit validated where "validate_controller_audit E (rp_audit restored) = Inr audit" "\<not> ?m audit" "?agree audit"
        "restored_observation E audit (rp_observation restored) = Inr validated"
    by (metis sumE)
  then show ?thesis
  proof cases
    case ok
    have a: "accepted (validate_controller_audit E) audit" using ok(1) by (auto simp: accepted_iff validate_controller_audit_def)
    note t = restored_session_in [OF s(1,2) ok(2) a refl]
    show ?thesis
      using ok(3)
      by (simp add: restore_def ok local_elapsed_ms_def raise_offset_def)
        (rule success [OF ok t], simp)
  qed (use raised in \<open>auto simp: restore_def require_def\<close>)
qed

section \<open>\<open>execute\<close>\<close>

lemma admit_probe_ends:
  assumes s: "session_in E J c g old Counted s" "chargeable c r s" "hexdigest_ok E" "values_ok E g old S v"
    and r: "request_admitted E J c request r"
    and v: "pv_request_sha256 v \<noteq> None" "pv_capability v = Some (cr_identity r)"
  shows "ends (admit_probe E S request v r h) (attempt_done E J c g old) (attempt_raised E J S c g) s"
proof (cases "su_observer S")
  case None
  then have "ready E J S c g old r s" using s by (simp add: ready_def)
  from dispatch_probe_ends [OF this s(3,4) r v] show ?thesis by (simp add: admit_probe_def None)
next
  case (Some ob)
  let ?t = "s\<lparr>ss_asked := Suc (ss_asked s)\<rparr>"
  have t: "session_in E J c g old Counted ?t" "chargeable c r ?t"
    using s chargeable_quiet [of s ?t] by simp_all
  have n: "pv_sequence v = ss_sequence ?t" using s by (simp add: values_ok_def session_in_def)
  have "ends (finish_observed E S v PO_BUDGET_EXHAUSTED SR_ELAPSED_BUDGET_EXHAUSTED) (attempt_done E J c g old)
      (attempt_raised E J S c g) ?t"
    by (rule finish_observed_ends [OF t(1) s(3,4)]) simp_all
  moreover have "attempt_raised E J S c g e ?t" for e
    using attempt_given_up [OF t(1)] Some by (auto simp: attempt_raised_def steady_def)
  moreover have "ends (restore_observed E S restored (pv_sequence v) request r) (attempt_done E J c g old)
      (attempt_raised E J S c g) ?t" for restored
    unfolding restore_observed_def ends_bind
    by (rule ends_mono [OF restore_ends [OF t _ r n]]) (use Some in \<open>auto intro: observe_ends\<close>)
  moreover have "ends (bind_op (charge r) (\<lambda>_. dispatch_probe E S request v r h)) (attempt_done E J c g old)
      (attempt_raised E J S c g) ?t"
    unfolding ends_bind
    by (rule ends_mono [OF charge_ends [OF t]])
      (use Some in \<open>auto simp: ready_def intro: dispatch_probe_ends [OF _ s(3,4) r v]\<close>)
  ultimately show ?thesis by (simp add: admit_probe_def Some split: admission_answer.splits)
qed

lemma execute_registered_ends:
  assumes s: "session_in E J c g old Counted s" "hexdigest_ok E" "values_ok E g old S v"
    and r: "accepted (validate_probe_request E) request" "registration_built E J r"
      "map_of (si_registrations c) (cr_identity r) = Some r"
      "cr_identity r = (pq_capability_name request, pq_capability_version request)"
    and v: "pv_request_sha256 v \<noteq> None" "pv_capability v = Some (cr_identity r)"
  shows "ends (execute_registered E J S request v r) (attempt_done E J c g old) (attempt_raised E J S c g) s"
proof (cases "probe_refusal E J s request r")
  case None
  note ok = probe_refusal_None [OF None s(1) r]
  have "ends (finish_observed E S v PO_UNAVAILABLE SR_CAPABILITY_UNAVAILABLE) (attempt_done E J c g old)
      (attempt_raised E J S c g) s"
    by (rule finish_observed_ends [OF s]) simp_all
  then show ?thesis
    using admit_probe_ends [OF s(1) ok(2) s(2,3) ok(1) v] by (simp add: execute_registered_def None split: option.splits)
next
  case (Some kind)
  then have "fst kind \<noteq> PO_COMPLETED" using probe_refusal_kind by (metis prod.collapse)
  then have "ends (finish_observed E S v (fst kind) (snd kind)) (attempt_done E J c g old)
      (attempt_raised E J S c g) s"
    by (intro finish_observed_ends [OF s]) simp_all
  then show ?thesis by (cases kind) (simp add: execute_registered_def Some)
qed

lemma execute_counted_ends:
  assumes s: "session_in E J c g old Counted s" "hexdigest_ok E" "values_ok E g old S v"
  shows "ends (execute_counted E J S request v) (attempt_done E J c g old) (attempt_raised E J S c g) s"
proof (cases "request_digest E request")
  case None
  have "ends (finish_observed E S v PO_REJECTED SR_INVALID_REQUEST) (attempt_done E J c g old)
      (attempt_raised E J S c g) s"
    by (rule finish_observed_ends [OF s]) simp_all
  then show ?thesis by (simp add: execute_counted_def None)
next
  case (Some digest)
  let ?v = "v\<lparr>pv_request_sha256 := Some digest\<rparr>"
  have request: "accepted (validate_probe_request E) request" "sha256_digest_ok digest"
    using Some s(2)
    by (auto simp: request_digest_def accepted_iff bind_result_def validate_probe_request_def probe_request_sha256_def
      value_sha256_def hexdigest_ok_def split: sum.splits)
  have v: "values_ok E g old S ?v" using s(3) request(2) by (simp add: values_ok_def)
  have ended: "ends (finish_observed E S ?v outcome reason) (attempt_done E J c g old)
      (attempt_raised E J S c g) t"
    if "session_in E J c g old Counted t" "outcome \<noteq> PO_COMPLETED" for outcome reason t
    by (rule finish_observed_ends [OF that(1) s(2) v that(2)]) simp
  have resolved: "ends (bind_op (resolve_registration request) (\<lambda>registration.
        case registration of
          None \<Rightarrow> finish_observed E S ?v PO_REJECTED SR_UNKNOWN_CAPABILITY
        | Some r \<Rightarrow> execute_registered E J S request (?v\<lparr>pv_capability := Some (cr_identity r)\<rparr>) r))
      (attempt_done E J c g old) (attempt_raised E J S c g) t"
    if t: "session_in E J c g old Counted t" for t
  proof -
    obtain found registry where
      e: "resolve_capability (pq_capability_name request) (pq_capability_version request) (ss_registry t) = (found, registry)"
      by fastforce
    let ?t = "t\<lparr>ss_registry := registry\<rparr>"
    have g: "capability_entries registry = capability_entries (ss_registry t)"
      using freeze_capabilities_entries(3) [of "pq_capability_name request" "pq_capability_version request" "ss_registry t"] e
      by simp
    then have "session_facts E J c ?t"
      using t by (auto simp: session_in_def session_facts_def ss_budget_def capabilities_ok_def)
    then have t': "session_in E J c g old Counted ?t" using t by (auto simp: session_in_def)
    show ?thesis
    proof (cases found)
      case None
      then show ?thesis using ended [OF t'] e by (simp add: ends_def bind_op_def resolve_registration_def)
    next
      case (Some r)
      have ok: "capabilities_ok E J (ss_registry t)" "capability_entries (ss_registry t) = si_registrations c"
        using t by (simp_all add: session_in_def session_facts_def)
      have f: "fst (resolve_capability (pq_capability_name request) (pq_capability_version request) (ss_registry t)) = Some r"
        using e Some by simp
      note r = resolve_capability_ok [OF ok(1) f]
      have m: "map_of (si_registrations c) (cr_identity r) = Some r"
        using f by (simp add: resolve_capability_entries ok(2) r(1))
      have "probe_request_fields_ok E request" using request(1) by (auto simp: accepted_iff validate_probe_request_def)
      then have "values_ok E g old S (?v\<lparr>pv_capability := Some (cr_identity r)\<rparr>)"
        using v r(1) by (simp add: values_ok_def probe_request_fields_ok_def)
      from execute_registered_ends [OF t' s(2) this request(1) r(2) m r(1)] show ?thesis
        using e Some by (simp add: ends_def bind_op_def resolve_registration_def)
    qed
  qed
  show ?thesis
    unfolding execute_counted_def Some option.case Let_def ends_bind deadline_reached_def
  proof (rule ends_mono [OF elapsed_ends [OF session_in_budget [OF s(1)]]], goal_cases)
    case (1 ms t)
    then have "session_in E J c g old Counted t" using session_in_quiet s(1) by blast
    from ended [OF this] resolved [OF this] show ?case by simp
  next
    case (2 e t)
    then have "session_in E J c g old Counted t" using session_in_quiet s(1) by blast
    then show ?case using 2 attempt_given_up by (auto simp: attempt_raised_def steady_def)
  qed
qed

lemma idle_opened:
  assumes "session_idle E J c g s" "ss_terminal_execution s = None"
  shows "session_in E J c g (ss_audit s) Opened (s\<lparr>ss_sequence := ss_sequence s + 1, ss_asked := n\<rparr>)"
  using assms by (auto simp: session_idle_def session_in_def stage_pending_def list_all_iff)

lemma opened_counted:
  assumes "session_in E J c g old Opened s" "ss_probe_count_used s < eb_max_probes (ss_budget s)"
  shows "session_in E J c g old Counted (s\<lparr>ss_probe_count_used := ss_probe_count_used s + 1\<rparr>)"
  using assms by (auto simp: session_in_def session_facts_def ss_budget_def stage_pending_def)

text \<open>
  A call of \<open>execute\<close> on a session that has not ended appends one audit, its own; it may raise, and
  then at worst its number is skipped.
\<close>

lemma execute_attempt_ends:
  assumes "session_idle E J c g s" "ss_terminal_execution s = None" "hexdigest_ok E"
  shows "ends (execute E J S request) (attempt_done E J c g (ss_audit s)) (attempt_raised E J S c g) s"
proof -
  let ?t = "s\<lparr>ss_sequence := ss_sequence s + 1, ss_asked := Suc (ss_asked s)\<rparr>"
  let ?v = "\<lparr>pv_sequence = ss_sequence s + 1, pv_started_at = su_now S (ss_asked s), pv_capability = None,
    pv_request_sha256 = None\<rparr>"
  have t: "session_in E J c g (ss_audit s) Opened ?t" by (rule idle_opened [OF assms(1,2)])
  have v: "values_ok E g (ss_audit s) S ?v"
    using assms(1) by (auto simp: values_ok_def session_idle_def steady_def)
  have ended: "ends (finish_observed E S ?v outcome reason) (attempt_done E J c g (ss_audit s))
      (attempt_raised E J S c g) ?t" if "outcome \<noteq> PO_COMPLETED" "reason \<in> set terminal_reasons" for outcome reason
    by (rule finish_observed_ends [OF t assms(3) v that(1)]) (rule that(2))
  have counted: "ends (execute_counted E J S request ?v) (attempt_done E J c g (ss_audit s))
      (attempt_raised E J S c g) (?t\<lparr>ss_probe_count_used := ss_probe_count_used ?t + 1\<rparr>)"
    if "ss_probe_count_used ?t < eb_max_probes (ss_budget ?t)"
    by (rule execute_counted_ends [OF opened_counted [OF t that] assms(3) v])
  show ?thesis
    using ended counted
    by (simp add: execute_def assms(2) execute_attempt_def Let_def terminal_reasons_def)
qed

lemma execute_terminal:
  "ss_terminal_execution s = Some e \<Longrightarrow> execute E J S request s = (Inr e, s)"
  by (simp add: execute_def reading_def give_def)

lemma execute_ends:
  assumes "session_idle E J c g s" "hexdigest_ok E"
  shows "ends (execute E J S request)
    (\<lambda>e t. session_idle E J c g t \<and> execution_of_session E c e \<and> pe_audit e = last (ss_audit t) \<and> ss_audit t \<noteq> [])
    (attempt_raised E J S c g) s"
proof (cases "ss_terminal_execution s")
  case None
  from execute_attempt_ends [OF assms(1) None assms(2)] show ?thesis
    by (rule ends_mono) (auto simp: attempt_done_def)
next
  case (Some e)
  then show ?thesis using assms(1) by (auto simp: execute_terminal [OF Some] ends_def session_idle_def)
qed

section \<open>A new session\<close>

definition identity_of :: "execution_envelope \<Rightarrow> capability_registry \<Rightarrow> nat \<Rightarrow> session_identity" where
  "identity_of x g token = \<lparr>si_envelope = x, si_registrations = capability_entries g, si_token = token\<rparr>"

lemma new_session_idle:
  assumes "new_session E S x g token offset = Inr s" "capabilities_ok E J g"
  shows "session_idle E J (identity_of x g token) 0 s" "ss_audit s = []" "ss_terminal_execution s = None"
proof -
  let ?s = "opened_session S x g token offset"
  have x: "envelope_accepted E x" "0 \<le> offset"
    and run: "bind_op (durable_elapsed_floor_ms S) raise_offset ?s = (Inr (), s)"
    using assms(1)
    by (auto simp: new_session_def envelope_accepted_def accepted_iff validate_execution_envelope_def
      split: if_splits prod.splits sum.splits)
  have b: "evidence_budget_ok (ec_evidence_budget (xe_context x))" by (rule max_probes_bound [OF x(1)])
  have acc: "accounted (identity_of x g token) None ?s"
  proof -
    have z: "invocations_of ?s k = 0" "dispatches ?s k = 0" "spent c ?s = 0" for k c
      by (simp_all add: invocations_of_def dispatches_def spent_def opened_session_def)
    have "case map_of (capability_entries g) k of None \<Rightarrow> True | Some r \<Rightarrow> 0 \<le> cr_max_invocations r" for k
      using assms(2) registration_builtD(2)
      by (fastforce simp: capabilities_ok_def list_all_iff int_ok_def split: option.splits dest: map_of_SomeD)
    then show ?thesis
      unfolding accounted_def z by (simp add: identity_of_def opened_session_def)
  qed
  have "session_facts E J (identity_of x g token) ?s"
    using x b assms(2)
    by (simp add: session_facts_def opened_session_def identity_of_def capabilities_ok_def ss_budget_def
      evidence_budget_ok_def int_ok_def int64_max_def)
  then have idle: "session_idle E J (identity_of x g token) 0 ?s"
    using acc by (simp add: session_idle_def opened_session_def)
  have "ends (bind_op (durable_elapsed_floor_ms S) raise_offset) (\<lambda>_. quiet ?s) (\<lambda>_ _. True) ?s"
    unfolding ends_bind
    by (rule ends_mono [OF durable_floor_ends]) (auto simp: raise_offset_def quiet_offset)
  then have q: "quiet ?s s" using run ends_Inr by fastforce
  from session_idle_quiet [OF q idle] show "session_idle E J (identity_of x g token) 0 s" .
  from q show "ss_audit s = []" "ss_terminal_execution s = None" by (simp_all add: quiet_def opened_session_def)
qed

section \<open>Reachable sessions\<close>

text \<open>The states of a controller under any calls of \<open>execute\<close> and \<open>cancel\<close>, whatever raises.\<close>

inductive reachable_session ::
  "env \<Rightarrow> schema_library \<Rightarrow> surroundings \<Rightarrow> execution_envelope \<Rightarrow> capability_registry \<Rightarrow> controller_session \<Rightarrow> bool"
  for E J S x g where
  started: "new_session E S x g token offset = Inr s \<Longrightarrow> reachable_session E J S x g s"
| called: "reachable_session E J S x g s \<Longrightarrow> execute E J S request s = (answer, t) \<Longrightarrow> reachable_session E J S x g t"
| cancelled: "reachable_session E J S x g s \<Longrightarrow> reachable_session E J S x g (cancel_session s)"

lemma session_idle_cancelled [simp]: "session_idle E J c n (cancel_session s) = session_idle E J c n s"
  by (simp add: session_idle_def cancel_session_def cong: option.case_cong)

lemma reachable_session_idle:
  assumes "reachable_session E J S x g s" "capabilities_ok E J g" "hexdigest_ok E"
  shows "\<exists>token n. session_idle E J (identity_of x g token) n s"
  using assms(1)
proof (induction rule: reachable_session.induct)
  case (started token offset s)
  then show ?case using new_session_idle(1) [OF _ assms(2)] by blast
next
  case (called s request answer t)
  then obtain token n where i: "session_idle E J (identity_of x g token) n s" by blast
  show ?case
  proof (cases answer)
    case (Inl e)
    with ends_Inl [OF execute_ends [OF i assms(3)]] called(2)
    have "attempt_raised E J S (identity_of x g token) n e t" by blast
    then show ?thesis unfolding attempt_raised_def by blast
  next
    case (Inr e)
    with ends_Inr [OF execute_ends [OF i assms(3)]] called(2) show ?thesis by blast
  qed
qed auto

text \<open>What the counters bound: the dispatches, by capability and by cost, and the audits.\<close>

lemma session_idle_bounds:
  assumes "session_idle E J c n s"
  shows "int (length (ss_dispatched s)) \<le> eb_max_probes (ss_budget s)"
    "int (length (ss_audit s)) \<le> eb_max_probes (ss_budget s) + 1"
    "spent c s \<le> eb_max_cost_units (ss_budget s)"
    "map_of (si_registrations c) k = Some r \<Longrightarrow> dispatches s k \<le> cr_max_invocations r"
proof -
  note f = assms [unfolded session_idle_def session_facts_def]
  note a = conjunct1 [OF conjunct2 [OF assms [unfolded session_idle_def]], unfolded accounted_def]
  show "int (length (ss_dispatched s)) \<le> eb_max_probes (ss_budget s)"
    "int (length (ss_audit s)) \<le> eb_max_probes (ss_budget s) + 1"
    using f by (simp_all split: if_splits)
  show "spent c s \<le> eb_max_cost_units (ss_budget s)" using f a by simp
  show "dispatches s k \<le> cr_max_invocations r" if "map_of (si_registrations c) k = Some r"
    using spec [OF conjunct1 [OF a], of k] spec [OF conjunct1 [OF conjunct2 [OF a]], of k] that by simp
qed

end
