(* ===== verification/Baseline_Laws.thy ===== *)
theory Baseline_Laws
  imports Baseline Controller_Laws
begin

text \<open>
  The execution of a fixed plan: in a steady world it ends in a report, unless it is cancelled from
  outside or the names of two of its own attempts collide.
\<close>

section \<open>What is encoded on the way\<close>

lemma validate_json_shallower:
  "validate_json E d v \<Longrightarrow> d' \<le> d \<Longrightarrow> validate_json E d' v"
  "validate_json_items E d xs \<Longrightarrow> d' \<le> d \<Longrightarrow> validate_json_items E d' xs"
  "validate_json_members E d kvs \<Longrightarrow> d' \<le> d \<Longrightarrow> validate_json_members E d' kvs"
  by (induction E d v and E d xs and E d kvs arbitrary: d' and d' and d'
    rule: validate_json_validate_json_items_validate_json_members.induct) auto

lemma key_bounds_texts [simp]:
  "key_bounds E ''arguments''" "key_bounds E ''capability_name''" "key_bounds E ''capability_version''"
  "key_bounds E ''relevant_effect_ids''" "key_bounds E ''classification''" "key_bounds E ''conflicting_authority''"
  "key_bounds E ''effects''" "key_bounds E ''operation_status''" "key_bounds E ''commit_scope''"
  "key_bounds E ''effect_id''" "key_bounds E ''state''"
  by (simp_all add: key_bounds_def text_length_def validate_unicode_text_def ascii_text_ok_def is_ascii_def)

lemma request_digest_total:
  assumes "accepted (validate_probe_request E) request" "validate_json E 1 (JObj (pq_arguments request))"
  shows "\<exists>d. probe_request_sha256 E request = Inr d"
proof -
  have "probe_request_fields_ok E request" using assms(1) by (auto simp: accepted_iff validate_probe_request_def)
  then show ?thesis
    using assms(2)
    by (auto simp: probe_request_sha256_def value_sha256_def canonical_json_value_bytes_def strings_json_def
      validate_json_items_iff list_all_iff probe_request_fields_ok_def identifier_text_ok length_ok_def)
qed

text \<open>The digest of a plan bounds the depth of the arguments, so every request of a plan has its digest.\<close>

lemma plan_request_digest:
  assumes "build_fixed_plan E name version ps sufficient = Inr plan" "step \<in> set (fl_steps plan)"
    and "accepted (validate_probe_request E) (fs_request step)"
  shows "\<exists>d. probe_request_sha256 E (fs_request step) = Inr d"
proof -
  have "validate_json E 0 (plan_material name version ps (sort_key classification_text sufficient))" "fl_steps plan = ps"
    using assms(1) by (auto simp: build_fixed_plan_def Let_def value_sha256_def canonical_json_value_bytes_def split: if_splits)
  then have "validate_json E 4 (JObj (pq_arguments (fs_request step)))"
    using assms(2)
    by (auto simp: plan_material_def probe_request_json_def validate_json_items_iff list_all_iff numeral_eq_Suc)
  then have "validate_json E 1 (JObj (pq_arguments (fs_request step)))"
    by (rule validate_json_shallower(1)) simp
  from request_digest_total [OF assms(3) this] show ?thesis .
qed

lemma progress_sha256_total:
  assumes "accepted (validate_deterministic_proof E) (cv_proof v)"
  shows "\<exists>d. progress_sha256 E v = Inr d"
proof -
  have "list_all (\<lambda>f. identifier_ok E (ff_effect_id f) \<and> identifier_ok E (ff_commit_scope f)) (dp_effect_findings (cv_proof v))"
    using assms by (auto simp: accepted_iff validate_deterministic_proof_def validate_effect_finding_def list_all_iff)
  then show ?thesis
    by (auto simp: progress_sha256_def value_sha256_def canonical_json_value_bytes_def progress_material_def Let_def
      validate_json_items_iff list_all_iff identifier_text_ok option_json_def split: option.splits)
qed

section \<open>The engine on the way\<close>

lemma engine_evaluates:
  assumes "engine_ok E x audits g" "hexdigest_ok E" "envelope_accepted E x" "length audits \<le> 64"
    and "list_all (audit_accepted E) audits" "list_all (capability_enabled x) audits"
  shows "(\<exists>v. engine_evaluate E audits g = Inr v \<and> accepted (validate_deterministic_proof E) (cv_proof v)) \<or>
    names_collide E x audits (engine_attempts g)"
proof -
  let ?as = "map snd (en_attempts g)"
  note g = assms(1) [unfolded engine_ok_def]
  have sound: "list_all2 (attempt_sound E x) audits ?as" and named: "list_all2 (attempt_named E x) audits ?as"
    using g by (auto elim: list_all2_mono)
  have n: "map ca_sequence audits = map int [1..<length audits + 1]" using g by simp
  have "distinct (map ca_sequence audits)" unfolding n by (rule map_int_upt)
  from attempts_named_distinct [OF named this, folded engine_attempts_eq [OF assms(1)]] show ?thesis
  proof
    assume "distinct (map attempt_id (engine_attempts g))"
    then have "investigation_records E x audits ?as"
      using sound n assms(3-6) list_all2_lengthD [OF sound]
      by (simp add: investigation_records_def classifiable_def engine_attempts_eq [OF assms(1)])
    from evaluate_records [OF this] obtain bs v where v: "evaluate_evidence E x ?as audits = Inr v" "classify E x bs = Inr v"
      by blast
    from classify_eq(9) [OF v(2) assms(3)] v(1) show ?thesis
      using g by (auto simp: engine_evaluate_def engine_attempts_eq [OF assms(1)])
  qed blast
qed

section \<open>The state of a plan\<close>

definition disposition_sets :: "baseline_state \<Rightarrow> int list list" where
  "disposition_sets b =
     [bs_unsupported_sequences b, bs_unavailable_sequences b, bs_redundant_sequences b, bs_duplicate_sequences b]"

text \<open>After at most \<open>n\<close> steps: every audit was processed once, and the sets are among their numbers.\<close>

definition plan_state ::
  "env \<Rightarrow> schema_library \<Rightarrow> session_identity \<Rightarrow> nat \<Rightarrow> baseline_state \<Rightarrow> bool" where
  "plan_state E J c n b \<longleftrightarrow>
     (let s = bs_session b; audits = ss_audit s in
      session_idle E J c 0 s \<and> engine_ok E (si_envelope c) audits (bs_engine b) \<and> length audits \<le> n \<and>
      \<not> names_collide E (si_envelope c) audits (engine_attempts (bs_engine b)) \<and>
      set (bs_processed_sequences b) = ca_sequence ` set audits \<and>
      list_all (\<lambda>ns. distinct ns \<and> set ns \<subseteq> ca_sequence ` set audits) (disposition_sets b) \<and>
      (bs_stop_reason b = Some SUFFICIENT_EVIDENCE) = (bs_sufficient b \<noteq> None) \<and>
      option_ok (\<lambda>(k, ms). audits \<noteq> [] \<and> k = ca_sequence (last audits) \<and> ms = ca_session_elapsed_ms (last audits))
        (bs_sufficient b))"

lemma distinct_add_when [simp]: "distinct (add_when q n ns) = distinct ns"
  by (simp add: add_when_def)

lemma set_add_when:
  "set ns \<subseteq> A \<Longrightarrow> set (add_when q n ns) \<subseteq> insert n A"
  "n \<in> A \<Longrightarrow> set ns \<subseteq> A \<Longrightarrow> set (add_when q n ns) \<subseteq> A"
  by (auto simp: add_when_def)

lemma attempt_stop_sufficient:
  "bs_stop_reason (record_attempt plan step i a v p b) = Some SUFFICIENT_EVIDENCE \<longleftrightarrow>
     cv_classification v \<in> set (fl_sufficient_classifications plan)"
  by (simp add: record_attempt_def attempt_stop_def Let_def)

lemma plan_state_recorded:
  assumes b: "plan_state E J c n b" "bs_stop_reason b = None"
    and s: "session_idle E J c 0 s" "ss_audit s = ss_audit (bs_session b) @ [a]"
    and g: "engine_ok E (si_envelope c) (ss_audit s) g" "\<not> names_collide E (si_envelope c) (ss_audit s) (engine_attempts g)"
  shows "plan_state E J c (Suc n) (record_attempt plan step i a v p (b\<lparr>bs_session := s, bs_engine := g\<rparr>))"
proof -
  note f = b(1) [unfolded plan_state_def Let_def disposition_sets_def]
  let ?A = "ca_sequence ` set (ss_audit s)"
  have A: "?A = insert (ca_sequence a) (ca_sequence ` set (ss_audit (bs_session b)))" using s(2) by simp
  have none: "bs_sufficient b = None" using f b(2) by (cases "bs_sufficient b") auto
  show ?thesis
    using f none s g
    by (simp add: plan_state_def Let_def disposition_sets_def record_attempt_def set_add_when)
qed

lemma plan_state_reused:
  assumes b: "plan_state E J c n b" "bs_stop_reason b = None"
    and s: "session_idle E J c 0 s" "ss_audit s = ss_audit (bs_session b)" "a \<in> set (ss_audit s)"
  shows "plan_state E J c (Suc n) (reused_attempt i a (b\<lparr>bs_session := s\<rparr>))"
proof -
  note f = b(1) [unfolded plan_state_def Let_def disposition_sets_def]
  have "ca_sequence a \<in> ca_sequence ` set (ss_audit (bs_session b))" using s by simp
  then show ?thesis
    using f b(2) s by (simp add: plan_state_def Let_def disposition_sets_def reused_attempt_def set_add_when)
qed

section \<open>The steps\<close>

text \<open>
  The case that names collide on the way of a plan: after some step that is reached, the texts that
  name two of the attempts of its engine differ and have one digest.
\<close>

definition step_collides ::
  "env \<Rightarrow> schema_library \<Rightarrow> (string \<Rightarrow> probe_observation option) \<Rightarrow> surroundings \<Rightarrow> execution_envelope \<Rightarrow> bool \<Rightarrow>
   fixed_probe_step \<Rightarrow> baseline_state \<Rightarrow> bool" where
  "step_collides E J decode S x cancelled step b =
     (case execute E J S (fs_request step) (if cancelled then cancel_session (bs_session b) else bs_session b) of
        (Inl e, _) \<Rightarrow> False
      | (Inr execution, s) \<Rightarrow>
        (case process_run E decode \<lparr>pn_request = fs_request step, pn_execution = execution\<rparr> (bs_engine b) of
           (Inl e, _) \<Rightarrow> False
         | (Inr a, g) \<Rightarrow> names_collide E x (ss_audit s) (engine_attempts g)))"

fun plan_collides ::
  "env \<Rightarrow> schema_library \<Rightarrow> (string \<Rightarrow> probe_observation option) \<Rightarrow> surroundings \<Rightarrow> execution_envelope \<Rightarrow>
   fixed_probe_plan \<Rightarrow> (nat \<Rightarrow> bool) \<Rightarrow> nat \<Rightarrow> fixed_probe_step list \<Rightarrow> baseline_state \<Rightarrow> bool" where
  "plan_collides E J decode S x plan cancelled n [] b = False"
| "plan_collides E J decode S x plan cancelled n (step # rest) b =
     (step_collides E J decode S x (cancelled n) step b \<or>
      (case plan_step E J decode S plan (cancelled n) step b of
         Inl e \<Rightarrow> False
       | Inr b' \<Rightarrow> bs_stop_reason b' = None \<and> plan_collides E J decode S x plan cancelled (Suc n) rest b'))"

text \<open>In a steady world a step ends well, its task is cancelled, or names collide.\<close>

lemma session_idle_audits:
  assumes "session_idle E J c n s"
  shows "list_all (audit_accepted E) (ss_audit s)" "list_all (capability_enabled (si_envelope c)) (ss_audit s)"
    "envelope_accepted E (si_envelope c)"
  using assms by (auto simp: session_idle_def session_facts_def audit_of_session_def list_all_iff)

lemma plan_step_ends:
  assumes b: "plan_state E J c n b" "bs_stop_reason b = None" "n < 64"
    and world: "steady S 0" "hexdigest_ok E"
    and request: "probe_request_sha256 E (fs_request step) = Inr i"
  shows "(\<exists>b'. plan_step E J decode S plan cancelled step b = Inr b' \<and> plan_state E J c (Suc n) b' \<and>
      0 < length (ss_audit (bs_session b'))) \<or>
    plan_step E J decode S plan cancelled step b = Inl CancelledError \<and> task_cancelled S \<or>
    step_collides E J decode S (si_envelope c) cancelled step b"
proof -
  let ?s = "if cancelled then cancel_session (bs_session b) else bs_session b"
  let ?x = "si_envelope c"
  note f = b(1) [unfolded plan_state_def Let_def]
  have audit: "ss_audit ?s = ss_audit (bs_session b)" by (simp add: cancel_session_def)
  have idle: "session_idle E J c 0 ?s" using f by simp
  have g: "engine_ok E ?x (ss_audit ?s) (bs_engine b)" using f audit by simp
  have len: "length (ss_audit ?s) \<le> n" using f audit by simp
  show ?thesis
  proof (cases "ss_terminal_execution ?s")
    case (Some e)
    have e: "pe_audit e \<in> set (ss_audit ?s)" "ss_audit ?s \<noteq> []"
      using idle Some by (auto simp: session_idle_def)
    then have "ca_sequence (pe_audit e) \<in> set (bs_processed_sequences b)" using f audit by simp
    then have "plan_step E J decode S plan cancelled step b = Inr (reused_attempt i (pe_audit e) (b\<lparr>bs_session := ?s\<rparr>))"
      using execute_terminal [OF Some, of E J S "fs_request step"] request by (simp add: plan_step_def Let_def)
    moreover have "plan_state E J c (Suc n) (reused_attempt i (pe_audit e) (b\<lparr>bs_session := ?s\<rparr>))"
      by (rule plan_state_reused [OF b(1,2) idle audit e(1)])
    moreover have "0 < length (ss_audit (bs_session (reused_attempt i (pe_audit e) (b\<lparr>bs_session := ?s\<rparr>))))"
      using e(2) by (simp add: reused_attempt_def Let_def)
    ultimately show ?thesis by blast
  next
    case None
    note ends = execute_attempt_ends [OF idle None world(2), of S "fs_request step"]
    obtain answer s where run: "execute E J S (fs_request step) ?s = (answer, s)" by fastforce
    show ?thesis
    proof (cases answer)
      case (Inl e)
      have "e = CancelledError \<and> task_cancelled S"
        using ends_Inl [OF ends, of e s] run Inl world(1) by (simp add: attempt_raised_def)
      then show ?thesis using run Inl request by (simp add: plan_step_def Let_def)
    next
      case (Inr e)
      let ?a = "pe_audit e" and ?run = "\<lparr>pn_request = fs_request step, pn_execution = e\<rparr>"
      have d: "attempt_done E J c 0 (ss_audit ?s) e s" using ends_Inr [OF ends, of e s] run Inr by simp
      then have s: "session_idle E J c 0 s" "ss_audit s = ss_audit (bs_session b) @ [?a]"
        "ca_sequence ?a = int (length (ss_audit ?s)) + 1" using audit by (simp_all add: attempt_done_def)
      note ok = session_idle_audits [OF s(1)]
      have "?a \<in> set (ss_audit s)" using s(2) by simp
      then have a: "audit_accepted E ?a" using ok(1) by (auto simp: list_all_iff)
      obtain attempt g' where p: "process_run E decode ?run (bs_engine b) = (Inr attempt, g')"
        using process_run_total [OF g world(2) ok(3), of ?run i decode] a s(3) request by auto
      have g': "engine_ok E ?x (ss_audit s) g'"
        using process_run_ok [OF g ok(3) p] s(2) audit by simp
      have fresh: "ca_sequence ?a \<notin> set (bs_processed_sequences b)"
      proof -
        have "map ca_sequence (ss_audit (bs_session b)) = map int [1..<length (ss_audit (bs_session b)) + 1]"
          using f by (simp add: engine_ok_def)
        then have "ca_sequence ` set (ss_audit (bs_session b)) = int ` {1..<length (ss_audit (bs_session b)) + 1}"
          by (metis list.set_map set_upt)
        then show ?thesis using f s(3) audit by auto
      qed
      have "length (ss_audit s) \<le> 64" using len s(2) audit b(3) by simp
      note evaluates = engine_evaluates [OF g' world(2) ok(3) this ok(1,2)]
      show ?thesis
      proof (cases "names_collide E ?x (ss_audit s) (engine_attempts g')")
        case True
        then show ?thesis using run Inr p by (simp add: step_collides_def)
      next
        case False
        with evaluates have "\<exists>v. engine_evaluate E (ss_audit s) g' = Inr v \<and> accepted (validate_deterministic_proof E) (cv_proof v)"
          by blast
        then obtain v progress where v: "engine_evaluate E (ss_audit s) g' = Inr v" "progress_sha256 E v = Inr progress"
          using progress_sha256_total by blast
        let ?b = "record_attempt plan step i ?a v progress (b\<lparr>bs_session := s, bs_engine := g'\<rparr>)"
        have "plan_step E J decode S plan cancelled step b = Inr ?b"
          using run Inr request fresh p v by (simp add: plan_step_def Let_def)
        moreover have "plan_state E J c (Suc n) ?b"
          by (rule plan_state_recorded [OF b(1,2) s(1,2) g' False])
        moreover have "0 < length (ss_audit (bs_session ?b))" using s(2) by (simp add: record_attempt_def Let_def)
        ultimately show ?thesis by blast
      qed
    qed
  qed
qed

lemma plan_steps_end:
  assumes "plan_state E J c n b" "bs_stop_reason b = None" "n + length rest \<le> 64" "steady S 0" "hexdigest_ok E"
    and "\<And>step. step \<in> set rest \<Longrightarrow> \<exists>i. probe_request_sha256 E (fs_request step) = Inr i"
  shows "(\<exists>b'. plan_steps E J decode S plan cancelled k rest b = Inr b' \<and> plan_state E J c (n + length rest) b' \<and>
      (rest \<noteq> [] \<longrightarrow> 0 < length (ss_audit (bs_session b')))) \<or>
    plan_steps E J decode S plan cancelled k rest b = Inl CancelledError \<and> task_cancelled S \<or>
    plan_collides E J decode S (si_envelope c) plan cancelled k rest b"
  using assms(1,2,3,6)
proof (induction rest arbitrary: n k b)
  case Nil
  then show ?case by auto
next
  case (Cons step rest)
  obtain i where i: "probe_request_sha256 E (fs_request step) = Inr i" using Cons.prems(4) by auto
  have "n < 64" using Cons.prems(3) by simp
  from plan_step_ends [OF Cons.prems(1,2) this assms(4,5) i, of decode plan "cancelled k"]
  consider (ok) b' where "plan_step E J decode S plan (cancelled k) step b = Inr b'" "plan_state E J c (Suc n) b'"
      "0 < length (ss_audit (bs_session b'))"
    | (cancelled) "plan_step E J decode S plan (cancelled k) step b = Inl CancelledError" "task_cancelled S"
    | (collision) "step_collides E J decode S (si_envelope c) (cancelled k) step b" by blast
  then show ?case
  proof cases
    case ok
    have mono: "plan_state E J c m b'" if "Suc n \<le> m" for m
      using ok(2) that by (auto simp: plan_state_def Let_def)
    show ?thesis
    proof (cases "bs_stop_reason b'")
      case (Some stop)
      then show ?thesis using ok mono [of "n + length (step # rest)"] by auto
    next
      case None
      have "Suc n + length rest \<le> 64" using Cons.prems(3) by simp
      note IH = Cons.IH [OF ok(2) None this, of "Suc k"]
      have "plan_steps E J decode S plan cancelled k (step # rest) b = plan_steps E J decode S plan cancelled (Suc k) rest b'"
        "plan_collides E J decode S (si_envelope c) plan cancelled (Suc k) rest b' \<Longrightarrow>
           plan_collides E J decode S (si_envelope c) plan cancelled k (step # rest) b"
        using ok(1) None by simp_all
      moreover have "Suc n + length rest = n + length (step # rest)" by simp
      moreover have ?thesis if "rest = []" using that ok None mono [of "n + length (step # rest)"] by simp
      ultimately show ?thesis using IH Cons.prems(4) by (cases "rest = []") auto
    qed
  qed auto
qed

section \<open>The result\<close>

lemma audits_nonneg:
  "audit_accepted E a \<Longrightarrow> 0 \<le> ca_probe_count_used a \<and> 0 \<le> ca_cost_units_used a \<and>
    0 \<le> ca_result_bytes_acquired a \<and> 0 \<le> ca_session_elapsed_ms a"
  by (auto simp: audit_accepted_def accepted_iff validate_controller_audit_def controller_audit_fields_ok_def int_ok_def)

lemma last_sequence:
  assumes "engine_ok E x audits g" "audits \<noteq> []"
  shows "ca_sequence (last audits) = int (length audits)"
proof -
  have "map ca_sequence audits = map int [1..<length audits + 1]" using assms(1) by (simp add: engine_ok_def)
  then have "last (map ca_sequence audits) = last (map int [1..<length audits + 1])" by simp
  then show ?thesis using assms(2) by (simp add: last_map Suc_le_eq)
qed

lemma finish_plan_ends:
  assumes b: "plan_state E J c n b" "n \<le> length (fl_steps plan)" "length (fl_steps plan) \<le> 64"
    "ss_audit (bs_session b) \<noteq> []"
    and world: "steady S 0" "hexdigest_ok E" "int_ok 0 revision"
    and x: "si_envelope c = x" "\<And>i. ax_observed_at (xe_ambiguity x) \<le> su_now S i"
  shows "(\<exists>result. finish_plan E S x plan revision [] b = Inr result \<and> br_plan_sha256 result = fl_sha256 plan \<and>
      validate_investigation_report E (br_report result) = Inr (br_report result) \<and>
      ir_envelope_sha256 (br_report result) = envelope_sha256 E x \<and>
      length (ir_probe_audit (br_report result)) = br_attempted_probe_count result \<and>
      br_attempted_probe_count result \<le> length (fl_steps plan))"
proof -
  let ?audits = "ss_audit (bs_session b)"
  note f = b(1) [unfolded plan_state_def Let_def x(1)]
  have g: "engine_ok E x ?audits (bs_engine b)" using f by simp
  have idle: "session_idle E J c 0 (bs_session b)" using f by simp
  note ok = session_idle_audits [OF idle, unfolded x(1)]
  have len: "length ?audits \<le> length (fl_steps plan)" using f b(2) by simp
  have "execution_envelope_fields_ok E x"
    using ok(3) by (auto simp: envelope_accepted_def accepted_iff validate_execution_envelope_def)
  then have times: "time_ok (ax_observed_at (xe_ambiguity x))" "time_ok (su_now S (ss_asked (bs_session b)))"
    using world(1) by (auto simp: execution_envelope_fields_ok_def accepted_iff validate_ambiguous_execution_def steady_def)
  have "length ?audits \<le> 64" using len b(3) by simp
  moreover have "\<not> names_collide E x ?audits (engine_attempts (bs_engine b))" using f by simp
  ultimately obtain r where r: "engine_report E ?audits (ax_observed_at (xe_ambiguity x))
      (su_now S (ss_asked (bs_session b))) revision None (bs_engine b) = Inr r"
    using engine_reports [OF g world(2) ok(3) _ ok(1,2) times x(2) world(3)] by blast
  note report = engine_report_valid [OF r] report_of_engine [OF r]
  have "?audits \<noteq> []" using b(4) .
  then have "audit_accepted E (last ?audits)" using ok(1) by (simp add: list_all_iff)
  note final = audits_nonneg [OF this] last_sequence [OF g b(4)]
  have sizes: "length ns \<le> length ?audits" if "distinct ns" "set ns \<subseteq> ca_sequence ` set ?audits" for ns
  proof -
    have "length ns \<le> card (ca_sequence ` set ?audits)"
      using that by (metis card_mono distinct_card finite_imageI List.finite_set)
    also have "\<dots> \<le> length ?audits" by (meson card_image_le card_length List.finite_set le_trans)
    finally show ?thesis .
  qed
  have counts: "\<not> length ?audits < length (bs_unsupported_sequences b)" "\<not> length ?audits < length (bs_unavailable_sequences b)"
    "\<not> length ?audits < length (bs_redundant_sequences b)" "\<not> length ?audits < length (bs_duplicate_sequences b)"
    using f sizes unfolding disposition_sets_def list.pred_inject not_less by blast+
  have stop: "((case bs_stop_reason b of None \<Rightarrow> PLAN_EXHAUSTED | Some stop \<Rightarrow> stop) = SUFFICIENT_EVIDENCE) =
      (bs_sufficient b \<noteq> None)"
    using f by (cases "bs_stop_reason b") auto
  have sufficient: "option_ok (\<lambda>k. 1 \<le> k \<and> k \<le> int (length ?audits)) (map_option fst (bs_sufficient b))"
    "option_ok (\<lambda>ms. ms \<le> ca_session_elapsed_ms (last ?audits)) (map_option snd (bs_sufficient b))"
    using f final(2) b(4) by (cases "bs_sufficient b"; auto simp: Suc_le_eq)+
  obtain cl where cl: "ir_classification r = Some cl" using report(2) by blast
  have env: "pl_envelope (en_pipeline (bs_engine b)) = x" using g by (simp add: engine_ok_def)
  show ?thesis
    using r report(1,3,4) final(1) counts stop sufficient len b(4) cl env
    by (cases "bs_sufficient b")
      (simp_all add: finish_plan_def Let_def limited_report_def build_baseline_result_def checked.simps)
qed

text \<open>
  A fixed plan of requests that validate, run in a steady world whose clock is not before the
  ambiguity, ends in a report of its attempts, unless the task is cancelled or the names of two of its
  attempts collide.
\<close>

definition attempt_names_collide ::
  "env \<Rightarrow> schema_library \<Rightarrow> (string \<Rightarrow> probe_observation option) \<Rightarrow> surroundings \<Rightarrow> execution_envelope \<Rightarrow>
   capability_registry \<Rightarrow> rule_registry \<Rightarrow> fixed_probe_plan \<Rightarrow> (nat \<Rightarrow> bool) \<Rightarrow> nat \<Rightarrow> int \<Rightarrow> bool" where
  "attempt_names_collide E J decode S x capabilities rules plan cancelled token offset \<longleftrightarrow>
     (case new_session E S x capabilities token offset of
        Inl e \<Rightarrow> False
      | Inr s \<Rightarrow>
          plan_collides E J decode S x plan cancelled 1 (fl_steps plan) (started_plan s (new_engine x rules)))"

text \<open>A plan of one step names one attempt, which cannot collide.\<close>

lemma one_step_never_collides:
  assumes "hexdigest_ok E" "capabilities_ok E J capabilities" "length (fl_steps plan) = 1"
  shows "\<not> attempt_names_collide E J decode S x capabilities rules plan cancelled token offset"
proof (cases "new_session E S x capabilities token offset")
  case (Inr s)
  note idle = new_session_idle [OF Inr assms(2)]
  obtain step where step: "fl_steps plan = [step]" using assms(3) by (auto simp: length_Suc_conv)
  let ?s = "if cancelled 1 then cancel_session s else s"
  have fresh: "session_idle E J (identity_of x capabilities token) 0 ?s" "ss_terminal_execution ?s = None" "ss_audit ?s = []"
    using idle by (simp, simp_all add: cancel_session_def)
  note ends = execute_attempt_ends [OF fresh(1,2) assms(1), of S "fs_request step"]
  obtain answer t where run: "execute E J S (fs_request step) ?s = (answer, t)" by fastforce
  have "\<not> names_collide E x (ss_audit t) as" if "answer = Inr e" for e as
    using ends_Inr [OF ends, of e t] run that fresh(3) by (intro one_name_never_collides) (simp add: attempt_done_def)
  moreover have start: "bs_session (started_plan s g) = s" for g by (simp add: started_plan_def)
  ultimately have "\<not> step_collides E J decode S x (cancelled 1) step (started_plan s (new_engine x rules))"
    unfolding step_collides_def start run by (auto split: sum.splits prod.splits) (metis sum.exhaust)
  then show ?thesis using Inr step by (simp add: attempt_names_collide_def split: sum.splits)
qed (simp add: attempt_names_collide_def)

lemma fixed_plan_ends:
  assumes "hexdigest_ok E" "envelope_accepted E x" "registry_ok rules" "capabilities_ok E J capabilities"
    and plan: "build_fixed_plan E name version ps sufficient = Inr plan"
      "list_all (\<lambda>step. accepted (validate_probe_request E) (fs_request step)) ps"
    and world: "steady S 0" "\<And>i. ax_observed_at (xe_ambiguity x) \<le> su_now S i" "int_ok 0 revision"
    and offset: "0 \<le> offset" "offset \<le> eb_max_elapsed_ms (ec_evidence_budget (xe_context x))"
    and names: "\<not> attempt_names_collide E J decode S x capabilities rules plan cancelled token offset"
  shows "(\<exists>result. execute_fixed_plan E J decode S x capabilities rules plan revision cancelled [] token offset = Inr result \<and>
      br_plan_sha256 result = fl_sha256 plan \<and>
      validate_investigation_report E (br_report result) = Inr (br_report result) \<and>
      ir_envelope_sha256 (br_report result) = envelope_sha256 E x \<and>
      length (ir_probe_audit (br_report result)) = br_attempted_probe_count result \<and>
      br_attempted_probe_count result \<le> length (fl_steps plan)) \<or>
    execute_fixed_plan E J decode S x capabilities rules plan revision cancelled [] token offset = Inl CancelledError \<and>
    task_cancelled S"
proof -
  let ?c = "identity_of x capabilities token"
  have ps: "fl_steps plan = ps" "length_ok 1 64 ps"
    using plan(1) by (auto simp: build_fixed_plan_def Let_def)
  then have size: "length (fl_steps plan) \<le> 64" "fl_steps plan \<noteq> []" by (auto simp: length_ok_def)
  have requests: "\<exists>i. probe_request_sha256 E (fs_request step) = Inr i" if "step \<in> set (fl_steps plan)" for step
    using plan_request_digest [OF plan(1) that] plan(2) ps that by (auto simp: list_all_iff)
  obtain s where s: "new_session E S x capabilities token offset = Inr s"
    using assms(2) world(1) offset
    by (auto simp: new_session_def envelope_accepted_def accepted_iff validate_execution_envelope_def steady_def
      durable_elapsed_floor_ms_def bind_op_def give_def raise_offset_def update_def)
  note idle = new_session_idle [OF s assms(4)]
  let ?b = "started_plan s (new_engine x rules)"
  have b: "plan_state E J ?c 0 ?b"
    using idle new_engine_ok [OF assms(3), of E x]
    one_name_never_collides [of "[]"]
    by (simp add: plan_state_def Let_def started_plan_def disposition_sets_def identity_of_def)
  have start: "bs_stop_reason ?b = None" "0 + length (fl_steps plan) \<le> 64" using size by (simp_all add: started_plan_def)
  from plan_steps_end [OF b start world(1) assms(1) requests, of decode plan cancelled 1] size(2)
  consider (ok) b' where "plan_steps E J decode S plan cancelled 1 (fl_steps plan) ?b = Inr b'"
      "plan_state E J ?c (length (fl_steps plan)) b'" "ss_audit (bs_session b') \<noteq> []"
    | (cancelled) "plan_steps E J decode S plan cancelled 1 (fl_steps plan) ?b = Inl CancelledError" "task_cancelled S"
    using names s unfolding attempt_names_collide_def by (auto simp: identity_of_def)
  then show ?thesis
  proof cases
    case ok
    have "si_envelope ?c = x" by (simp add: identity_of_def)
    from finish_plan_ends [OF ok(2) order_refl size(1) ok(3) world(1) assms(1) world(3) this world(2)] show ?thesis
      using s ok(1) world(3) by (auto simp: execute_fixed_plan_def int_ok_def)
  next
    case cancelled
    then show ?thesis using s world(3) by (simp add: execute_fixed_plan_def checked.simps int_ok_def)
  qed
qed

end
