(* ===== verification/Controller_Sample.thy ===== *)
theory Controller_Sample
  imports Evidence_Sample Baseline_Laws
begin

text \<open>
  A concrete session for the witnesses: the capability of the sample envelope, a handler that
  answers with the sample observation, and a plan of one step.
\<close>

definition sample_library :: schema_library where
  "sample_library = \<lparr>sl_exceeds = (\<lambda>_ _. False), sl_check_schema = (\<lambda>_. True), sl_valid = (\<lambda>_ _. True)\<rparr>"

definition sample_capability :: observation_capability where
  "sample_capability =
     \<lparr>oc_name = ''read'', oc_version = ''v1'',
      oc_argument_schema =
        [(''$schema'', JStr draft_2020_12), (''additionalProperties'', JBool False), (''properties'', JObj []),
         (''required'', JArr []), (''type'', JStr ''object'')],
      oc_allowed_targets = [\<lparr>tc_target_kind = ''ledger'', tc_scope = [(''account'', JInt 1)]\<rparr>],
      oc_timeout_ms = 100, oc_result_byte_ceiling = 500, oc_cost_units = 1\<rparr>"

definition sample_handler :: observation_handler where
  "sample_handler = \<lparr>hd_identity = 1, hd_async = True\<rparr>"

definition sample_capability_registration :: capability_registration where
  "sample_capability_registration =
     \<lparr>cr_capability = sample_capability, cr_semantics = READ_ONLY, cr_enabled = True, cr_argument_byte_ceiling = 100,
      cr_max_invocations = 2, cr_handler = Some sample_handler\<rparr>"

definition sample_capabilities :: capability_registry where
  "sample_capabilities =
     \<lparr>cg_registrations = [((''read'', ''v1''), sample_capability_registration)], cg_snapshot = None\<rparr>"

lemma schema_keys [simp]:
  "\<not> is_sensitive_key E ''$schema''" "\<not> is_sensitive_key E ''additionalProperties''"
  "\<not> is_sensitive_key E ''properties''" "\<not> is_sensitive_key E ''required''" "\<not> is_sensitive_key E ''type''"
  by (simp_all add: is_sensitive_key_def key_words_def normalized_key_def text_lower_def is_ascii_def
    lower_char_def plain_chars upper_letter_def sensitive_key_tokens_def sensitive_key_names_def)

lemma sample_capability_valid:
  "validate_observation_capability E (sl_check_schema sample_library) sample_capability = Inr sample_capability"
  by (simp add: validate_observation_capability_def observation_capability_fields_ok_def sample_capability_def
    sample_library_def json_object_ok_def length_ok_def key_bounds_def text_length_def printable_text_ok draft_2020_12_def
    accepted_iff validate_target_constraint_def int_ok_def int64_max_def dollar_key_def forbidden_coordinates_def
    target_coordinate_tokens_def key_words_def text_lower_def is_ascii_def lower_char_def plain_chars upper_letter_def)

lemma sample_registration_built: "registration_built E sample_library sample_capability_registration"
proof -
  have "build_registration sample_library sample_capability_registration = Inr sample_capability_registration"
    by (simp add: build_registration_def sample_capability_registration_def sample_capability_def executable_def int_ok_def
      int64_max_def sample_handler_def validate_closed_argument_schema_def profile_def get_def root_schema_keys_def)
  then show ?thesis
    using sample_capability_valid
    by (simp add: registration_built_def accepted_iff) (simp add: sample_capability_registration_def)
qed

lemma sample_capabilities_ok: "capabilities_ok E sample_library sample_capabilities"
  using sample_registration_built
  by (simp add: capabilities_ok_def capability_entries_def sample_capabilities_def)
    (simp add: cr_identity_def sample_capability_registration_def sample_capability_def)

section \<open>A session\<close>

definition sample_surroundings :: surroundings where
  "sample_surroundings =
     \<lparr>su_monotonic = (\<lambda>n. int n * 1000000), su_now = (\<lambda>n. 150 + int n), su_observer = None,
      su_wait = (\<lambda>_ _ _. Handler_Done Authorized (Observed sample_observation))\<rparr>"

definition sample_session :: controller_session where
  "sample_session = opened_session sample_surroundings sample_envelope sample_capabilities 7 0"

lemma sample_session_new:
  "new_session sample_env sample_surroundings sample_envelope sample_capabilities 7 0 = Inr sample_session"
proof -
  have "validate_execution_envelope sample_env sample_envelope = Inr sample_envelope"
    using sample_envelope_accepted by (auto simp: envelope_accepted_def accepted_iff validate_execution_envelope_def)
  moreover have "eb_max_elapsed_ms (ec_evidence_budget (xe_context sample_envelope)) = 1000"
    by (simp add: sample_envelope_def)
  ultimately show ?thesis
    by (simp add: new_session_def durable_elapsed_floor_ms_def sample_surroundings_def bind_op_def give_def raise_offset_def
      update_def sample_session_def opened_session_def)
qed

definition sample_bound_probe :: bound_probe where
  "sample_bound_probe = bind_probe sample_envelope sample_request sample_capability_registration 100"

lemma sample_capability_identity: "cr_identity sample_capability_registration = (''read'', ''v1'')"
  by (simp add: cr_identity_def sample_capability_registration_def sample_capability_def)

lemma sample_request_admitted: "request_digest sample_env sample_request = Some sample_request_sha256"
proof -
  have "validate_probe_request sample_env sample_request = Inr sample_request"
    by (simp add: validate_probe_request_def probe_request_fields_ok_def sample_request_def json_object_ok_def length_ok_def
      forbidden_coordinates_def target_coordinate_tokens_def)
  then show ?thesis using sample_request_digest by (simp add: request_digest_def)
qed

lemma sample_unrefused:
  assumes "ss_envelope s = sample_envelope" "ss_cost_units_used s = 0" "ss_result_bytes_acquired s = 0"
    "ss_capability_invocations s = (\<lambda>_. None)"
  shows "probe_refusal sample_env sample_library s sample_request sample_capability_registration = None"
  using assms
  by (simp add: probe_refusal_def ss_budget_def Let_def capability_invocations_def sample_capability_identity first_refusal_None)
    (simp add: sample_capability_registration_def sample_capability_def sample_library_def sample_envelope_def sample_target_def
      sample_request_def arguments_payload_def json_bytes_def correlation_mismatch_def cr_identity_def)

lemma finish_keeps_dispatched:
  assumes "su_observer S = None" "ss_dispatched s = ps"
  shows "ends (finish_dispatched E S request v outcome reason observation rejected) (\<lambda>_ t. ss_dispatched t = ps)
    (\<lambda>_ t. ss_dispatched t = ps) s"
  using assms
  by (simp add: finish_dispatched_def finish_def session_elapsed_ms_def local_elapsed_ms_def record_execution_def
    split: sum.splits)

lemma conclude_keeps_dispatched:
  assumes "su_observer S = None" "ss_dispatched s = ps"
  shows "ends (conclude E S request v r d state) (\<lambda>_ t. ss_dispatched t = ps) (\<lambda>_ t. ss_dispatched t = ps) s"
  using assms finish_keeps_dispatched
  by (auto simp: conclude_def end_dispatched_def accept_observation_def reached_def Let_def split: invocation.splits)

lemma ends_resolve:
  "ends (resolve_registration request) Q R s =
     (let found = resolve_capability (pq_capability_name request) (pq_capability_version request) (ss_registry s) in
      Q (fst found) (s\<lparr>ss_registry := snd found\<rparr>))"
  by (simp add: ends_def resolve_registration_def Let_def split: prod.splits)

lemma sample_bound_probe_valid: "validate_bound_probe E sample_bound_probe = Inr sample_bound_probe"
  by (simp add: validate_bound_probe_def bound_probe_fields_ok_def sample_bound_probe_def bind_probe_def)
    (simp add: sample_request_def sample_capability_registration_def sample_capability_def json_object_ok_def length_ok_def
      int_ok_def int64_max_def, simp add: sample_envelope_def)

lemma sample_dispatches:
  "ends (execute sample_env sample_library sample_surroundings sample_request)
     (\<lambda>_ t. ss_dispatched t = [sample_bound_probe]) (\<lambda>_ t. ss_dispatched t = [sample_bound_probe]) sample_session"
proof -
  have S: "su_observer sample_surroundings = None" "su_monotonic sample_surroundings n = int n * 1000000"
    "su_now sample_surroundings n = 150 + int n"
    "su_wait sample_surroundings n h p = Handler_Done Authorized (Observed sample_observation)" for n h p
    by (simp_all add: sample_surroundings_def)
  have b: "ss_budget s = ec_evidence_budget (xe_context (ss_envelope s))" for s by (simp add: ss_budget_def)
  have x: "ec_evidence_budget (xe_context sample_envelope) =
      \<lparr>eb_max_probes = 4, eb_max_elapsed_ms = 1000, eb_max_total_result_bytes = 1000, eb_max_cost_units = 10\<rparr>"
    by (simp add: sample_envelope_def)
  have r: "fst (resolve_capability ''read'' ''v1'' (snd (freeze_capabilities sample_capabilities))) =
      Some sample_capability_registration"
    by (simp add: resolve_capability_entries) (simp add: capability_entries_def sample_capabilities_def)
  have q: "pq_capability_name sample_request = ''read''" "pq_capability_version sample_request = ''v1''"
    by (simp_all add: sample_request_def)
  have c: "cr_handler sample_capability_registration = Some sample_handler"
    "oc_timeout_ms (cr_capability sample_capability_registration) = 100"
    by (simp_all add: sample_capability_registration_def sample_capability_def)
  have p: "validate_bound_probe sample_env (bind_probe sample_envelope sample_request sample_capability_registration 100) =
      Inr sample_bound_probe"
    using sample_bound_probe_valid by (simp add: sample_bound_probe_def)
  show ?thesis
    by (simp add: execute_def execute_attempt_def sample_session_def opened_session_def S b x execute_counted_def
      sample_request_admitted deadline_reached_def session_elapsed_ms_def local_elapsed_ms_def Let_def q int64_max_def
      ends_resolve r execute_registered_def sample_unrefused c admit_probe_def dispatch_probe_def remaining_elapsed_ms_def
      invocation_deadline_def p reached_def charge_def invoke_charged_def invoke_once_def task_result_def
      conclude_keeps_dispatched)
qed

section \<open>A steady world and a plan\<close>

text \<open>The sample clock stops at the last datetime.\<close>

definition steady_surroundings :: surroundings where
  "steady_surroundings = sample_surroundings\<lparr>su_now := (\<lambda>n. min (150 + int n) datetime_max)\<rparr>"

lemma sample_steady: "steady steady_surroundings 0"
  using sample_bytes_length
  by (auto simp: steady_def steady_surroundings_def sample_surroundings_def time_ok_def datetime_min_def datetime_max_def
    sample_bytes_def int64_max_def)

definition sample_step :: fixed_probe_step where
  "sample_step = \<lparr>fs_request = sample_request, fs_required = True\<rparr>"

definition sample_plan :: fixed_probe_plan where
  "sample_plan =
     \<lparr>fl_name = ''policy-1'', fl_version = ''v1'', fl_steps = [sample_step], fl_sufficient_classifications = [COMMITTED],
      fl_sha256 = env_sha256 sample_env (json_bytes (plan_material ''policy-1'' ''v1'' [sample_step] [COMMITTED]))\<rparr>"

lemma sample_plan_built:
  "build_fixed_plan sample_env ''policy-1'' ''v1'' [sample_step] [COMMITTED] = Inr sample_plan"
proof -
  have i: "plan_identifier sample_env s" if "identifier_ok sample_env s" for s
    using that by (cases s) (auto simp: plan_identifier_def identifier_ok_def)
  have "validate_json sample_env 0 (plan_material ''policy-1'' ''v1'' [sample_step] [COMMITTED])"
    by (simp add: plan_material_def probe_request_json_def sample_step_def sample_request_def strings_json_def
      key_bounds_def text_length_def printable_text_ok)
  then show ?thesis
    using i [of "''policy-1''"] i [of "''v1''"]
    by (simp add: build_fixed_plan_def length_ok_def value_sha256_def canonical_json_value_bytes_def sample_plan_def Let_def)
qed

lemma sample_plan_requests:
  "list_all (\<lambda>step. accepted (validate_probe_request sample_env) (fs_request step)) [sample_step]"
  using sample_request_admitted
  by (auto simp: sample_step_def request_digest_def accepted_iff bind_result_def split: sum.splits)

end
