(* ===== verification/Controller_Properties.thy ===== *)
theory Controller_Properties
  imports Controller_Sample
begin

text \<open>
  The properties of the probe controller, and of the fixed plans that compose it with the evidence
  engine.
\<close>

text \<open>
  C37: what reaches a handler. In every session, under any calls of \<open>execute\<close> and \<open>cancel\<close> and
  whatever the observer, the clock and the handlers do, a probe that was given to a handler names a
  registered, enabled, read-only capability that the envelope enables and that allows the
  envelope's target; it carries the identity and the target of the envelope, expected effects
  only, and arguments that fit the ceiling and the schema and hold no target coordinate; and its
  time is within the limit of the capability.
\<close>

theorem dispatched_probes_are_allowed:
  assumes "reachable_session E J S x g s" "capabilities_ok E J g" "hexdigest_ok E" "p \<in> set (ss_dispatched s)"
  shows "\<exists>r. map_of (capability_entries g) (bp_capability_name p, bp_capability_version p) = Some r \<and>
    cr_enabled r \<and> cr_semantics r = READ_ONLY \<and>
    (bp_capability_name p, bp_capability_version p) \<in> enabled_identities x \<and>
    bp_investigation_id p = xe_investigation_id x \<and> bp_operation_id p = xe_operation_id x \<and>
    bp_target p = xe_target x \<and> target_allowed (cr_capability r) (xe_target x) \<and>
    set (bp_relevant_effect_ids p) \<subseteq> set (map ee_effect_id (xe_expected_effects x)) \<and>
    int (length (json_bytes (JObj (bp_arguments p)))) \<le> cr_argument_byte_ceiling r \<and>
    sl_valid J (oc_argument_schema (cr_capability r)) (bp_arguments p) \<and>
    \<not> contains_target_coordinate_value E (JObj (bp_arguments p)) \<and>
    1 \<le> bp_timeout_ms p \<and> bp_timeout_ms p \<le> oc_timeout_ms (cr_capability r)"
proof -
  obtain token n where "session_idle E J (identity_of x g token) n s"
    using reachable_session_idle [OF assms(1-3)] by blast
  then have "probe_dispatchable E J (identity_of x g token) p"
    using assms(4) by (simp add: session_idle_def session_facts_def list_all_iff)
  then show ?thesis
    by (auto simp: probe_dispatchable_def identity_of_def bp_identity_def probe_allowed_def executable_def
      split: option.splits)
qed

lemma sample_reachable: "\<exists>s. reachable_session sample_env sample_library sample_surroundings sample_envelope
    sample_capabilities s \<and> ss_dispatched s = [sample_bound_probe]"
proof -
  obtain answer s where e: "execute sample_env sample_library sample_surroundings sample_request sample_session = (answer, s)"
    by fastforce
  have "ss_dispatched s = [sample_bound_probe]"
    using sample_dispatches e by (cases answer) (auto simp: ends_def)
  then show ?thesis using called [OF started [OF sample_session_new] e] by blast
qed

theorem dispatched_probes_are_allowed_witness:
  "\<exists>r. map_of (capability_entries sample_capabilities)
      (bp_capability_name sample_bound_probe, bp_capability_version sample_bound_probe) = Some r \<and>
    cr_enabled r \<and> cr_semantics r = READ_ONLY"
proof -
  obtain s where "reachable_session sample_env sample_library sample_surroundings sample_envelope sample_capabilities s"
    "ss_dispatched s = [sample_bound_probe]" using sample_reachable by blast
  from dispatched_probes_are_allowed [OF this(1) sample_capabilities_ok sample_hexdigest_ok, of sample_bound_probe] this(2)
  show ?thesis by auto
qed

text \<open>
  C38: a session stays within the budget of its envelope. At most \<open>max_probes\<close> probes reach a
  handler, at most \<open>max_invocations\<close> of one capability, and the costs of the capabilities used
  stay within \<open>max_cost_units\<close>; the trail holds at most one audit more than the probes allowed,
  the refusal that ends the session.
\<close>

theorem sessions_stay_within_their_budget:
  assumes "reachable_session E J S x g s" "capabilities_ok E J g" "hexdigest_ok E"
  shows "int (length (ss_dispatched s)) \<le> eb_max_probes (ec_evidence_budget (xe_context x)) \<and>
    int (length (ss_audit s)) \<le> eb_max_probes (ec_evidence_budget (xe_context x)) + 1 \<and>
    (\<Sum>p \<leftarrow> ss_dispatched s. case map_of (capability_entries g) (bp_identity p) of
        None \<Rightarrow> 0 | Some r \<Rightarrow> oc_cost_units (cr_capability r)) \<le> eb_max_cost_units (ec_evidence_budget (xe_context x)) \<and>
    (\<forall>k r. map_of (capability_entries g) k = Some r \<longrightarrow>
      int (length (filter (\<lambda>p. bp_identity p = k) (ss_dispatched s))) \<le> cr_max_invocations r)"
proof -
  obtain token n where i: "session_idle E J (identity_of x g token) n s"
    using reachable_session_idle [OF assms] by blast
  have b: "ss_budget s = ec_evidence_budget (xe_context x)"
    using i by (simp add: session_idle_def session_facts_def identity_of_def ss_budget_def)
  show ?thesis
    using session_idle_bounds(1-3) [OF i] session_idle_bounds(4) [OF i]
    by (simp add: b spent_def cost_of_def identity_of_def dispatches_def)
qed

theorem sessions_stay_within_their_budget_witness:
  "\<exists>s :: controller_session. ss_dispatched s = [sample_bound_probe] \<and> int (length (ss_dispatched s)) \<le> 4 \<and> int (length (ss_audit s)) \<le> 5"
proof -
  obtain s where s: "reachable_session sample_env sample_library sample_surroundings sample_envelope sample_capabilities s"
    "ss_dispatched s = [sample_bound_probe]" using sample_reachable by blast
  have "eb_max_probes (ec_evidence_budget (xe_context sample_envelope)) = 4" by (simp add: sample_envelope_def)
  note w = sessions_stay_within_their_budget [OF s(1) sample_capabilities_ok sample_hexdigest_ok, unfolded this]
  show ?thesis by (rule exI [of _ s]) (use conjunct1 [OF w] conjunct1 [OF conjunct2 [OF w]] s(2) in simp)
qed

text \<open>
  C39: the trail of a session is well typed. In every session each audit passes the validator of
  \<open>ControllerAuditRecord\<close>, is bound to the digest of the envelope's target, names its capability
  whole or not at all, and, when it completed, one that the envelope enables; the numbers are
  positive and strictly increasing; and a call of \<open>execute\<close> that returns gives the last audit.
\<close>

theorem session_trails_are_well_typed:
  assumes "reachable_session E J S x g s" "capabilities_ok E J g" "hexdigest_ok E"
  shows "list_all (\<lambda>a. validate_controller_audit E a = Inr a \<and> ca_target_sha256 a = target_sha256 E x \<and>
      (ca_capability_name a = None) = (ca_capability_version a = None) \<and>
      (ca_outcome a \<noteq> PO_COMPLETED \<or>
        (the (ca_capability_name a), the (ca_capability_version a)) \<in> enabled_identities x) \<and>
      1 \<le> ca_sequence a \<and> ca_sequence a \<le> ss_sequence s) (ss_audit s) \<and>
    sorted_wrt (<) (map ca_sequence (ss_audit s)) \<and>
    (case execute E J S request s of
       (Inl e, t) \<Rightarrow> True
     | (Inr e, t) \<Rightarrow> ss_audit t \<noteq> [] \<and> pe_audit e = last (ss_audit t) \<and>
         pe_envelope_sha256 e = envelope_sha256 E x \<and>
         (ca_outcome (pe_audit e) = PO_COMPLETED) = (pe_observation e \<noteq> None))"
proof -
  obtain token n where i: "session_idle E J (identity_of x g token) n s"
    using reachable_session_idle [OF assms] by blast
  have "ends (execute E J S request) (\<lambda>e t. ss_audit t \<noteq> [] \<and> pe_audit e = last (ss_audit t) \<and>
      pe_envelope_sha256 e = envelope_sha256 E x \<and> (ca_outcome (pe_audit e) = PO_COMPLETED) = (pe_observation e \<noteq> None))
      (\<lambda>_ _. True) s"
    by (rule ends_mono [OF execute_ends [OF i assms(3)]]) (auto simp: execution_of_session_def identity_of_def)
  moreover have "validate_controller_audit E a = Inr a \<and> ca_target_sha256 a = target_sha256 E x \<and>
      (ca_capability_name a = None) = (ca_capability_version a = None) \<and>
      (ca_outcome a \<noteq> PO_COMPLETED \<or>
        (the (ca_capability_name a), the (ca_capability_version a)) \<in> enabled_identities x) \<and>
      1 \<le> ca_sequence a \<and> ca_sequence a \<le> ss_sequence s" if "a \<in> set (ss_audit s)" for a
    using i that
    by (auto simp: session_idle_def session_facts_def audit_of_session_def list_all_iff audit_accepted_def accepted_iff
      validate_controller_audit_def controller_audit_fields_ok_def int_ok_def capability_enabled_def
      enabled_identities_def identity_of_def)
  moreover have "sorted_wrt (<) (map ca_sequence (ss_audit s))" using i by (simp add: session_idle_def session_facts_def)
  ultimately show ?thesis unfolding ends_def list_all_iff by blast
qed

theorem session_trails_are_well_typed_witness:
  "\<exists>s :: controller_session. ss_dispatched s = [sample_bound_probe] \<and> sorted_wrt (<) (map ca_sequence (ss_audit s))"
proof -
  obtain s where s: "reachable_session sample_env sample_library sample_surroundings sample_envelope sample_capabilities s"
    "ss_dispatched s = [sample_bound_probe]" using sample_reachable by blast
  note w = session_trails_are_well_typed [OF s(1) sample_capabilities_ok sample_hexdigest_ok, of sample_request]
  show ?thesis by (rule exI [of _ s]) (use conjunct1 [OF conjunct2 [OF w]] s(2) in simp)
qed

text \<open>
  C40: a fixed plan ends in a report. The whole way from an envelope, a registry of capabilities and
  a registry of rules: when the clock gives datetimes, none before the ambiguity, and no observer
  takes part, the execution of a plan whose requests validate returns a result, whatever its
  handlers and rules do, and the report of that result passes its own validator, belongs to the
  envelope and shows one record for each attempt. The execution raises only when the task that
  awaits a probe is cancelled from outside, and then \<open>CancelledError\<close>. It is assumed that the texts
  from which the execution names its own attempts, at most 64 of them, have different digests.
\<close>

theorem fixed_plan_ends_in_a_report:
  assumes "hexdigest_ok E" "envelope_accepted E x" "registry_ok rules" "capabilities_ok E J capabilities"
    and "build_fixed_plan E name version ps sufficient = Inr plan"
    and "list_all (\<lambda>step. accepted (validate_probe_request E) (fs_request step)) ps"
    and "steady S 0" "\<And>i. ax_observed_at (xe_ambiguity x) \<le> su_now S i" "int_ok 0 revision"
    and "0 \<le> offset" "offset \<le> eb_max_elapsed_ms (ec_evidence_budget (xe_context x))"
    and "\<not> attempt_names_collide E J decode S x capabilities rules plan cancelled token offset"
  shows "(\<exists>result. execute_fixed_plan E J decode S x capabilities rules plan revision cancelled [] token offset = Inr result \<and>
      br_plan_sha256 result = fl_sha256 plan \<and>
      validate_investigation_report E (br_report result) = Inr (br_report result) \<and>
      ir_envelope_sha256 (br_report result) = envelope_sha256 E x \<and>
      length (ir_probe_audit (br_report result)) = br_attempted_probe_count result \<and>
      br_attempted_probe_count result \<le> length (fl_steps plan)) \<or>
    execute_fixed_plan E J decode S x capabilities rules plan revision cancelled [] token offset = Inl CancelledError \<and>
    task_cancelled S"
  by (rule fixed_plan_ends) fact+

theorem fixed_plan_ends_in_a_report_witness:
  "\<exists>result. execute_fixed_plan sample_env sample_library sample_decode steady_surroundings sample_envelope
      sample_capabilities (sample_rules True) sample_plan 1 (\<lambda>_. False) [] 7 0 = Inr result \<and>
      validate_investigation_report sample_env (br_report result) = Inr (br_report result) \<and>
      length (ir_probe_audit (br_report result)) = br_attempted_probe_count result"
proof -
  have x: "ax_observed_at (xe_ambiguity sample_envelope) = 100"
    "eb_max_elapsed_ms (ec_evidence_budget (xe_context sample_envelope)) = 1000" by (simp_all add: sample_envelope_def)
  have n: "length (fl_steps sample_plan) = 1" by (simp add: sample_plan_def)
  have now: "\<And>i. ax_observed_at (xe_ambiguity sample_envelope) \<le> su_now steady_surroundings i"
    by (simp add: x sample_surroundings_def steady_surroundings_def datetime_max_def)
  have number: "int_ok 0 1" by (simp add: int_ok_def int64_max_def)
  have offset: "(0 :: int) \<le> 0" "0 \<le> eb_max_elapsed_ms (ec_evidence_budget (xe_context sample_envelope))" by (simp_all add: x)
  have "\<not> task_cancelled steady_surroundings"
    by (simp add: task_cancelled_def steady_surroundings_def sample_surroundings_def)
  then show ?thesis
    using fixed_plan_ends_in_a_report [OF sample_hexdigest_ok sample_envelope_accepted sample_rules_ok
        sample_capabilities_ok sample_plan_built sample_plan_requests sample_steady now number offset
        one_step_never_collides [OF sample_hexdigest_ok sample_capabilities_ok n], where decode = sample_decode and cancelled = "\<lambda>_. False" and token = 7]
    by blast
qed

end
