(* ===== verification/Recovery_Rules.thy ===== *)
theory Recovery_Rules
  imports Recovery_Contracts Contracts Envelope
begin

text \<open>
  The sealed profiles of recovery actions and their typed provider evidence
  (\<open>evidence/recovery_rules.py\<close>): what an action of a profile looks like, when an outbound call is
  that action, what the evidence of a provider says, and which evidence proves a classification.

  The code compares profiles by identity and accepts only those of its inventory, so a profile is
  one of three constructors.
\<close>

section \<open>Texts of providers\<close>

definition has_space :: "env \<Rightarrow> string \<Rightarrow> bool" where
  "has_space E s \<longleftrightarrow> (if is_ascii s then list_ex regex_space s else env_wide_space E s)"

text \<open>The patterns of the file, each as the texts that it matches in full.\<close>

definition sha256_text :: "string \<Rightarrow> bool" where
  "sha256_text s \<longleftrightarrow> length s = 64 \<and> list_all lower_hex s"

definition image_digest :: "string \<Rightarrow> bool" where
  "image_digest s \<longleftrightarrow> starts_with ''sha256:'' s \<and> sha256_text (drop 7 s)"

definition identifier_pattern :: "string \<Rightarrow> bool" where
  "identifier_pattern s \<longleftrightarrow> s \<noteq> [] \<and> length s \<le> 128 \<and> identifier_start (hd s) \<and> list_all identifier_char (tl s)"

definition cloud_run_revision :: "string \<Rightarrow> bool" where
  "cloud_run_revision s \<longleftrightarrow>
     s \<noteq> [] \<and> length s \<le> 63 \<and> lower_letter (hd s) \<and>
     list_all (\<lambda>c. lower_letter c \<or> digit_char c \<or> c = CHR ''-'') (tl s)"

definition resource_component :: "env \<Rightarrow> string \<Rightarrow> bool" where
  "resource_component E s \<longleftrightarrow>
     1 \<le> text_length s \<and> text_length s \<le> 128 \<and> CHR ''/'' \<notin> set s \<and> \<not> has_space E s"

definition positive_generation :: "string \<Rightarrow> bool" where
  "positive_generation s \<longleftrightarrow> s \<noteq> [] \<and> length s \<le> 19 \<and> list_all digit_char s \<and> hd s \<noteq> CHR ''0''"

definition nonnegative_generation :: "string \<Rightarrow> bool" where
  "nonnegative_generation s \<longleftrightarrow> s = ''0'' \<or> positive_generation s"

definition generation :: "string \<Rightarrow> bool \<Rightarrow> nat result" where
  "generation s observed =
     (if (if observed then nonnegative_generation s else positive_generation s) then Inr (nat_value 0 s)
      else Inl (ValueError ''provider generation is not canonical decimal text''))"

definition traffic_percent :: "string \<Rightarrow> nat result" where
  "traffic_percent s =
     (if \<not> nonnegative_generation s then Inl (ValueError ''traffic percent is not canonical decimal text'')
      else if 100 < nat_value 0 s then
        Inl (ValueError ''traffic percent is outside the closed range 0..100'')
      else Inr (nat_value 0 s))"

definition provider_value :: "env \<Rightarrow> string \<Rightarrow> bool" where
  "provider_value E s \<longleftrightarrow> 1 \<le> text_length s \<and> text_length s \<le> 512 \<and> \<not> has_space E s"

section \<open>Profiles\<close>

datatype recovery_action_profile =
    STAGE_CLOUD_RUN_REVISION | PROMOTE_CLOUD_RUN_TRAFFIC | CREATE_FIRESTORE_RELEASE_RECORD

datatype recovery_precondition_kind = NO_PRECONDITION | CLOUD_RUN_SERVICE_ETAG | FIRESTORE_MUST_NOT_EXIST

text \<open>A provider capability: the six of the file, all of version \<open>1.0.0\<close>.\<close>

datatype provider_capability =
    SERVICE_GET | REVISION_GET | OPERATION_GET | REVISION_HEALTH | FIRESTORE_GET | DISPATCH_RECEIPT_GET

definition recovery_version :: string where
  "recovery_version = ''1.0.0''"

fun capability_text :: "provider_capability \<Rightarrow> string" where
  "capability_text SERVICE_GET = ''cloud-run-service-get''"
| "capability_text REVISION_GET = ''cloud-run-revision-get''"
| "capability_text OPERATION_GET = ''cloud-run-operation-get''"
| "capability_text REVISION_HEALTH = ''cloud-run-revision-health''"
| "capability_text FIRESTORE_GET = ''firestore-release-record-get''"
| "capability_text DISPATCH_RECEIPT_GET = ''reconcile-dispatch-receipt-get''"

definition provider_capabilities :: "provider_capability list" where
  "provider_capabilities =
     [SERVICE_GET, REVISION_GET, OPERATION_GET, REVISION_HEALTH, FIRESTORE_GET, DISPATCH_RECEIPT_GET]"

text \<open>The lookup of the tables by the key \<open>(name, version)\<close>.\<close>

definition capability_of :: "string \<Rightarrow> string \<Rightarrow> provider_capability option" where
  "capability_of name version =
     (if version \<noteq> recovery_version then None
      else find (\<lambda>c. capability_text c = name) provider_capabilities)"

fun trusted_provenance :: "provider_capability \<Rightarrow> string \<times> string" where
  "trusted_provenance SERVICE_GET = (''google-cloud-run-v2'', ''reconcile-cloud-run-v2-v1'')"
| "trusted_provenance REVISION_GET = (''google-cloud-run-v2'', ''reconcile-cloud-run-v2-v1'')"
| "trusted_provenance OPERATION_GET = (''google-cloud-run-v2'', ''reconcile-cloud-run-v2-v1'')"
| "trusted_provenance REVISION_HEALTH = (''cloud-run-revision-health'', ''reconcile-cloud-run-health-v1'')"
| "trusted_provenance FIRESTORE_GET = (''google-firestore-v1'', ''reconcile-firestore-v1'')"
| "trusted_provenance DISPATCH_RECEIPT_GET = (''reconcile-dispatcher'', ''reconcile-dispatch-receipt-v1'')"

fun profile_version :: "recovery_action_profile \<Rightarrow> string" where
  "profile_version STAGE_CLOUD_RUN_REVISION = ''stage-cloud-run-revision-profile-v1''"
| "profile_version PROMOTE_CLOUD_RUN_TRAFFIC = ''promote-cloud-run-traffic-profile-v1''"
| "profile_version CREATE_FIRESTORE_RELEASE_RECORD = ''create-firestore-release-record-profile-v1''"

fun profile_tool_name :: "recovery_action_profile \<Rightarrow> string" where
  "profile_tool_name STAGE_CLOUD_RUN_REVISION = ''stage-cloud-run-revision''"
| "profile_tool_name PROMOTE_CLOUD_RUN_TRAFFIC = ''promote-cloud-run-traffic''"
| "profile_tool_name CREATE_FIRESTORE_RELEASE_RECORD = ''create-firestore-release-record''"

fun profile_on_cloud_run :: "recovery_action_profile \<Rightarrow> bool" where
  "profile_on_cloud_run CREATE_FIRESTORE_RELEASE_RECORD = False"
| "profile_on_cloud_run _ = True"

definition profile_target_kind :: "recovery_action_profile \<Rightarrow> string" where
  "profile_target_kind p = (if profile_on_cloud_run p then ''google.cloud_run.service'' else ''google.firestore.document'')"

definition profile_scope_fields :: "recovery_action_profile \<Rightarrow> string list" where
  "profile_scope_fields p = (if profile_on_cloud_run p then [''project'', ''location''] else [''project'', ''database''])"

definition profile_resource_fields :: "recovery_action_profile \<Rightarrow> string list" where
  "profile_resource_fields p = (if profile_on_cloud_run p then [''service''] else [''document''])"

fun profile_argument_fields :: "recovery_action_profile \<Rightarrow> string list" where
  "profile_argument_fields STAGE_CLOUD_RUN_REVISION = [''release_id'', ''image_digest'', ''configuration_sha256'']"
| "profile_argument_fields PROMOTE_CLOUD_RUN_TRAFFIC = [''release_id'', ''revision'', ''percent'']"
| "profile_argument_fields CREATE_FIRESTORE_RELEASE_RECORD = [''release_id'', ''payload_sha256'']"

fun profile_retry_allowed :: "recovery_action_profile \<Rightarrow> bool" where
  "profile_retry_allowed CREATE_FIRESTORE_RELEASE_RECORD = True"
| "profile_retry_allowed _ = False"

definition profile_capabilities :: "recovery_action_profile \<Rightarrow> provider_capability list" where
  "profile_capabilities p =
     (if profile_on_cloud_run p then [SERVICE_GET, REVISION_GET, OPERATION_GET, REVISION_HEALTH]
      else [FIRESTORE_GET, DISPATCH_RECEIPT_GET])"

fun profile_precondition :: "recovery_action_profile \<Rightarrow> recovery_precondition_kind" where
  "profile_precondition STAGE_CLOUD_RUN_REVISION = NO_PRECONDITION"
| "profile_precondition PROMOTE_CLOUD_RUN_TRAFFIC = CLOUD_RUN_SERVICE_ETAG"
| "profile_precondition CREATE_FIRESTORE_RELEASE_RECORD = FIRESTORE_MUST_NOT_EXIST"

definition recovery_action_profiles :: "recovery_action_profile list" where
  "recovery_action_profiles =
     [STAGE_CLOUD_RUN_REVISION, PROMOTE_CLOUD_RUN_TRAFFIC, CREATE_FIRESTORE_RELEASE_RECORD]"

definition profile_of_version :: "string \<Rightarrow> recovery_action_profile option" where
  "profile_of_version v = find (\<lambda>p. profile_version p = v) recovery_action_profiles"

section \<open>Actions and dispatches\<close>

definition violation :: "string \<Rightarrow> 'a result" where
  "violation m = Inl (RecoveryRuleViolation m)"

definition rule :: "bool \<Rightarrow> string \<Rightarrow> unit result" where
  "rule ok m = require ok (RecoveryRuleViolation m)"

lemma rule_Inr [simp]: "rule ok m = Inr u \<longleftrightarrow> ok"
  by (simp add: rule_def)

lemma violation_Inr [simp]: "violation m \<noteq> Inr x"
  by (simp add: violation_def)

fun json_is_text :: "(string \<Rightarrow> bool) \<Rightarrow> json \<Rightarrow> bool" where
  "json_is_text P (JStr s) = P s"
| "json_is_text P _ = False"

definition field_text :: "json_object \<Rightarrow> string \<Rightarrow> string" where
  "field_text kvs k = (case map_of kvs k of Some (JStr s) \<Rightarrow> s | _ \<Rightarrow> [])"

definition field_is :: "(json \<Rightarrow> bool) \<Rightarrow> json_object \<Rightarrow> string \<Rightarrow> bool" where
  "field_is P kvs k \<longleftrightarrow> (case map_of kvs k of None \<Rightarrow> False | Some v \<Rightarrow> P v)"

definition exact_fields :: "(string \<times> 'a) list \<Rightarrow> string list \<Rightarrow> bool" where
  "exact_fields kvs names \<longleftrightarrow> set (map fst kvs) = set names"

text \<open>
  \<open>==\<close> of Python on JSON values: objects are compared without the order of their members, and
  \<open>True\<close> and \<open>1.0\<close> equal \<open>1\<close>. A float is its \<open>repr\<close>, which for the integers below \<open>10^16\<close> is the
  integer with \<open>.0\<close>; the code compares with the values of validated actions, which are texts and the
  integer 100, and with the constants of the profiles.
\<close>

definition float_is :: "pyfloat \<Rightarrow> int \<Rightarrow> bool" where
  "float_is f n \<longleftrightarrow> f = FFinite (int_text n @ ''.0'') \<or> n = 0 \<and> f = FFinite ''-0.0''"

fun py_eq :: "json \<Rightarrow> json \<Rightarrow> bool"
  and py_eq_items :: "json list \<Rightarrow> json list \<Rightarrow> bool"
  and py_eq_members :: "json_object \<Rightarrow> json_object \<Rightarrow> bool" where
  "py_eq (JObj kvs) (JObj lvs) = (length kvs = length lvs \<and> py_eq_members kvs lvs)"
| "py_eq (JArr xs) (JArr ys) = py_eq_items xs ys"
| "py_eq (JInt m) (JBool b) = (m = of_bool b)"
| "py_eq (JBool b) (JInt m) = (m = of_bool b)"
| "py_eq (JInt m) (JFloat f) = float_is f m"
| "py_eq (JFloat f) (JInt m) = float_is f m"
| "py_eq (JBool b) (JFloat f) = float_is f (of_bool b)"
| "py_eq (JFloat f) (JBool b) = float_is f (of_bool b)"
| "py_eq (JFloat f) (JFloat g) = (f = g \<or> float_is f 0 \<and> float_is g 0)"
| "py_eq v w = (v = w)"
| "py_eq_items [] [] = True"
| "py_eq_items (x # xs) (y # ys) = (py_eq x y \<and> py_eq_items xs ys)"
| "py_eq_items _ _ = False"
| "py_eq_members [] lvs = True"
| "py_eq_members (kv # kvs) lvs =
     ((case map_of lvs (fst kv) of None \<Rightarrow> False | Some w \<Rightarrow> py_eq (snd kv) w) \<and> py_eq_members kvs lvs)"

definition target_eq :: "target_binding \<Rightarrow> target_binding \<Rightarrow> bool" where
  "target_eq a b \<longleftrightarrow>
     tb_target_kind a = tb_target_kind b \<and> py_eq (JObj (tb_scope a)) (JObj (tb_scope b)) \<and>
     py_eq (JObj (tb_resource a)) (JObj (tb_resource b))"

text \<open>\<open>_require_exact_fields\<close>, \<open>_require_text\<close> and \<open>_target_text\<close>.\<close>

definition require_exact_fields :: "json_object \<Rightarrow> string list \<Rightarrow> string \<Rightarrow> unit result" where
  "require_exact_fields kvs names label =
     rule (exact_fields kvs names) (label @ '' fields do not match the profile'')"

definition require_text :: "json_object \<Rightarrow> string \<Rightarrow> (string \<Rightarrow> bool) \<Rightarrow> unit result" where
  "require_text kvs k P =
     (case map_of kvs k of
        None \<Rightarrow> Inl (KeyError k)
      | Some v \<Rightarrow> rule (json_is_text P v) (k @ '' does not match the profile''))"

lemma require_text_Inr [simp]: "require_text kvs k P = Inr u \<longleftrightarrow> field_is (json_is_text P) kvs k"
  by (simp add: require_text_def field_is_def split: option.splits)

definition target_text :: "env \<Rightarrow> semantic_action \<Rightarrow> string \<Rightarrow> string \<Rightarrow> string result" where
  "target_text E a section_name k =
     (let kvs = (if section_name = ''scope'' then tb_scope (sa_target a) else tb_resource (sa_target a)) in
      case map_of kvs k of
        None \<Rightarrow> Inl (KeyError k)
      | Some v \<Rightarrow>
          if json_is_text (resource_component E) v then Inr (field_text kvs k)
          else violation (''action target '' @ section_name @ '' field '' @ k @ '' is not a resource component''))"

definition deterministic_stage_revision :: "env \<Rightarrow> string \<Rightarrow> string \<Rightarrow> string result" where
  "deterministic_stage_revision E service release_id =
     bind_result (rule (cloud_run_revision service) ''service does not match the profile'') (\<lambda>_.
     bind_result (rule (identifier_pattern release_id) ''release_id does not match the profile'') (\<lambda>_.
     let operation_id = ''release-stage-'' @ take 24 (env_sha256 E (release_id @ CHR 0x00 # ''stage''));
         revision = service @ ''-r-'' @ take 16 (env_sha256 E operation_id) in
     bind_result (rule (cloud_run_revision revision) ''revision does not match the profile'') (\<lambda>_.
     Inr revision)))"

definition validate_target :: "recovery_action_profile \<Rightarrow> semantic_action \<Rightarrow> unit result" where
  "validate_target p a =
     (let target = sa_target a in
      bind_result (rule (tb_target_kind target = profile_target_kind p)
        ''action target kind does not match the profile'') (\<lambda>_.
      bind_result (require_exact_fields (tb_scope target) (profile_scope_fields p) ''action target scope'') (\<lambda>_.
      bind_result (require_exact_fields (tb_resource target) (profile_resource_fields p)
        ''action target resource'') (\<lambda>_.
      bind_result (map_result
        (\<lambda>(field, v). rule (json_is_text (\<lambda>s. s \<noteq> []) v)
           (''action target field '' @ field @ '' must be nonempty text''))
        (tb_scope target @ tb_resource target)) (\<lambda>_. Inr ())))))"

definition validate_arguments :: "recovery_action_profile \<Rightarrow> semantic_action \<Rightarrow> unit result" where
  "validate_arguments p a =
     (let arguments = sa_semantic_arguments a in
      bind_result (require_exact_fields arguments (profile_argument_fields p) ''semantic argument'') (\<lambda>_.
      bind_result (require_text arguments ''release_id'' identifier_pattern) (\<lambda>_.
      case p of
        STAGE_CLOUD_RUN_REVISION \<Rightarrow>
          bind_result (require_text arguments ''image_digest'' image_digest) (\<lambda>_.
          require_text arguments ''configuration_sha256'' sha256_text)
      | PROMOTE_CLOUD_RUN_TRAFFIC \<Rightarrow>
          bind_result (require_text arguments ''revision'' cloud_run_revision) (\<lambda>_.
          rule (field_is (\<lambda>v. v = JInt 100) arguments ''percent'') ''percent must be the integer 100'')
      | CREATE_FIRESTORE_RELEASE_RECORD \<Rightarrow> require_text arguments ''payload_sha256'' sha256_text)))"

definition validate_recovery_action :: "recovery_action_profile \<Rightarrow> semantic_action \<Rightarrow> unit result" where
  "validate_recovery_action p a =
     bind_result (rule
       (sa_action_profile_version a = profile_version p \<and> sa_tool_name a = profile_tool_name p \<and>
        sa_tool_version a = recovery_version)
       ''semantic action identity does not match the profile'') (\<lambda>_.
     bind_result (validate_target p a) (\<lambda>_. validate_arguments p a))"

definition resolve_recovery_action_profile :: "semantic_action \<Rightarrow> recovery_action_profile result" where
  "resolve_recovery_action_profile a =
     (case profile_of_version (sa_action_profile_version a) of
        None \<Rightarrow> violation ''semantic action names an unsupported profile''
      | Some p \<Rightarrow> bind_result (validate_recovery_action p a) (\<lambda>_. Inr p))"

definition dispatch_precondition_ok :: "env \<Rightarrow> recovery_action_profile \<Rightarrow> json_object \<Rightarrow> bool" where
  "dispatch_precondition_ok E p precondition =
     (case profile_precondition p of
        NO_PRECONDITION \<Rightarrow>
          exact_fields precondition [''none''] \<and> field_is (\<lambda>v. v = JBool True) precondition ''none''
      | CLOUD_RUN_SERVICE_ETAG \<Rightarrow>
          exact_fields precondition [''service_etag''] \<and>
          field_is (json_is_text (provider_value E)) precondition ''service_etag''
      | FIRESTORE_MUST_NOT_EXIST \<Rightarrow>
          exact_fields precondition [''exists''] \<and> field_is (\<lambda>v. v = JBool False) precondition ''exists'')"

definition validate_recovery_dispatch ::
  "env \<Rightarrow> semantic_action \<Rightarrow> string \<Rightarrow> string \<Rightarrow> json_object \<Rightarrow> target_binding \<Rightarrow> json_object \<Rightarrow>
   recovery_action_profile result" where
  "validate_recovery_dispatch E a tool_name tool_version arguments target precondition =
     bind_result (resolve_recovery_action_profile a) (\<lambda>p.
     bind_result (rule
       (tool_name = sa_tool_name a \<and> tool_version = sa_tool_version a \<and>
        py_eq (JObj arguments) (JObj (sa_semantic_arguments a)) \<and> target_eq target (sa_target a))
       ''dispatch identity does not match the sealed semantic action'') (\<lambda>_.
     bind_result (rule (dispatch_precondition_ok E p precondition)
       ''dispatch precondition does not match the sealed action profile'') (\<lambda>_. Inr p)))"

section \<open>What an accepted action and dispatch promise\<close>

lemma validate_recovery_action_ok:
  assumes "validate_recovery_action p a = Inr u"
  shows "sa_action_profile_version a = profile_version p" "sa_tool_name a = profile_tool_name p"
    "sa_tool_version a = recovery_version" "tb_target_kind (sa_target a) = profile_target_kind p"
    "exact_fields (tb_scope (sa_target a)) (profile_scope_fields p)"
    "exact_fields (tb_resource (sa_target a)) (profile_resource_fields p)"
    "exact_fields (sa_semantic_arguments a) (profile_argument_fields p)"
    "field_is (json_is_text identifier_pattern) (sa_semantic_arguments a) ''release_id''"
  using assms
  by (auto simp: validate_recovery_action_def validate_target_def validate_arguments_def Let_def
      require_exact_fields_def split: recovery_action_profile.splits)

lemma resolve_recovery_action_profile_ok:
  assumes "resolve_recovery_action_profile a = Inr p"
  shows "profile_of_version (sa_action_profile_version a) = Some p" "validate_recovery_action p a = Inr ()"
  using assms by (auto simp: resolve_recovery_action_profile_def split: option.splits)

lemma profile_of_version [simp]: "profile_of_version (profile_version p) = Some p"
  by (cases p) (simp_all add: profile_of_version_def recovery_action_profiles_def)

lemma profile_of_version_eqD: "profile_of_version v = Some p \<Longrightarrow> v = profile_version p"
  by (auto simp: profile_of_version_def find_Some_iff)

lemma validate_recovery_dispatch_ok:
  assumes "validate_recovery_dispatch E a tool_name tool_version arguments target precondition = Inr p"
  shows "resolve_recovery_action_profile a = Inr p" "tool_name = sa_tool_name a"
    "tool_version = sa_tool_version a" "py_eq (JObj arguments) (JObj (sa_semantic_arguments a))"
    "target_eq target (sa_target a)" "dispatch_precondition_ok E p precondition"
  using assms by (auto simp: validate_recovery_dispatch_def)

end
