(* ===== verification/Provider_Evidence.thy ===== *)
theory Provider_Evidence
  imports Recovery_Rules "HOL-Library.Product_Lexorder"
begin

text \<open>
  The typed observations that the providers of \<open>evidence/recovery_rules.py\<close> return, and the
  checks that bind a piece of evidence to one semantic action: its provenance, its operation status,
  its release and revision, and the record of the provider that it was read from.
\<close>

section \<open>Observations\<close>

record service_observation =
  so_release_id :: string
  so_revision :: string
  so_service_etag :: string
  so_generation :: string
  so_observed_generation :: string
  so_reconciling :: string
  so_terminal_condition :: string
  so_revision_traffic_percent :: string

record revision_observation =
  rvo_release_id :: string
  rvo_release_label :: string
  rvo_revision :: string
  rvo_image_digest :: string
  rvo_configuration_sha256 :: string
  rvo_generation :: string
  rvo_observed_generation :: string
  rvo_reconciling :: string
  rvo_terminal_condition :: string
  rvo_readiness :: string

record operation_observation =
  oo_release_id :: string
  oo_revision :: string
  oo_operation_name :: string
  oo_operation_state :: string

record health_observation =
  ho_release_id :: string
  ho_revision :: string
  ho_health_status :: string

record document_observation =
  fo_release_id :: string
  fo_cloud_run_revision :: "string option"
  fo_payload_sha256 :: string
  fo_semantic_action_sha256 :: "string option"
  fo_exists :: string

record receipt_observation =
  po_release_id :: string
  po_semantic_action_sha256 :: string
  po_receipt_id :: string
  po_outcome :: string

datatype provider_observation =
    Service_Observation service_observation
  | Revision_Observation revision_observation
  | Operation_Observation operation_observation
  | Health_Observation health_observation
  | Document_Observation document_observation
  | Receipt_Observation receipt_observation

text \<open>
  The validators. A literal field admits the texts listed; the field \<open>observation_schema\<close> admits one
  text, which the parser below checks.
\<close>

definition boolean_text :: "string \<Rightarrow> bool" where
  "boolean_text s \<longleftrightarrow> s \<in> {''true'', ''false''}"

definition terminal_text :: "string \<Rightarrow> bool" where
  "terminal_text s \<longleftrightarrow> s \<in> {''SUCCEEDED'', ''FAILED'', ''NONE''}"

definition require_revision :: "string \<Rightarrow> unit result" where
  "require_revision s =
     require (cloud_run_revision s) (ValueError ''revision is not a canonical Cloud Run revision name'')"

definition require_provider_value :: "env \<Rightarrow> string \<Rightarrow> string \<Rightarrow> unit result" where
  "require_provider_value E label s =
     require (provider_value E s) (ValueError (label @ '' is not a bounded opaque provider value''))"

text \<open>The checks that a service and a revision share, with the name of the resource.\<close>

definition require_generations :: "string \<Rightarrow> string \<Rightarrow> string \<Rightarrow> string \<Rightarrow> string \<Rightarrow> unit result" where
  "require_generations resource current observed_text reconciling terminal_condition =
     bind_result (generation current False) (\<lambda>g.
     bind_result (generation observed_text True) (\<lambda>observed.
     checked
       [(g < observed, ''observed generation cannot exceed '' @ resource @ '' generation''),
        (reconciling = ''false'' \<and> (observed \<noteq> g \<or> terminal_condition = ''NONE''),
           ''settled '' @ resource @ '' state must be terminal and observed''),
        (reconciling \<noteq> ''false'' \<and> terminal_condition \<noteq> ''NONE'',
           ''reconciling '' @ resource @ '' state cannot be terminal'')] ()))"

definition validate_service_observation :: "env \<Rightarrow> service_observation \<Rightarrow> service_observation result" where
  "validate_service_observation E s =
     bind_result (checked
       [(\<not> (identifier_ok E (so_release_id s) \<and> identifier_ok E (so_revision s) \<and>
            non_empty_text_ok E (so_service_etag s) \<and> non_empty_text_ok E (so_generation s) \<and>
            non_empty_text_ok E (so_observed_generation s) \<and> boolean_text (so_reconciling s) \<and>
            terminal_text (so_terminal_condition s) \<and>
            non_empty_text_ok E (so_revision_traffic_percent s)), field_message)] s) (\<lambda>s.
     bind_result (require_generations ''service'' (so_generation s) (so_observed_generation s)
       (so_reconciling s) (so_terminal_condition s)) (\<lambda>_.
     bind_result (traffic_percent (so_revision_traffic_percent s)) (\<lambda>_.
     bind_result (require_provider_value E ''service_etag'' (so_service_etag s)) (\<lambda>_.
     bind_result (require_revision (so_revision s)) (\<lambda>_. Inr s)))))"

definition validate_revision_observation :: "env \<Rightarrow> revision_observation \<Rightarrow> revision_observation result" where
  "validate_revision_observation E r =
     bind_result (checked
       [(\<not> (identifier_ok E (rvo_release_id r) \<and> identifier_ok E (rvo_release_label r) \<and>
            identifier_ok E (rvo_revision r) \<and> non_empty_text_ok E (rvo_image_digest r) \<and>
            sha256_digest_ok (rvo_configuration_sha256 r) \<and> non_empty_text_ok E (rvo_generation r) \<and>
            non_empty_text_ok E (rvo_observed_generation r) \<and> boolean_text (rvo_reconciling r) \<and>
            terminal_text (rvo_terminal_condition r) \<and>
            rvo_readiness r \<in> {''READY'', ''NOT_READY'', ''UNKNOWN''}), field_message)] r) (\<lambda>r.
     bind_result (require_generations ''revision'' (rvo_generation r) (rvo_observed_generation r)
       (rvo_reconciling r) (rvo_terminal_condition r)) (\<lambda>_.
     bind_result (checked
       [(rvo_terminal_condition r = ''SUCCEEDED'' \<and> rvo_readiness r \<noteq> ''READY'',
           ''successful revision must be ready''),
        (rvo_terminal_condition r = ''FAILED'' \<and> rvo_readiness r = ''READY'',
           ''failed revision cannot be ready''),
        (\<not> image_digest (rvo_image_digest r), ''revision image digest is malformed'')] r) (\<lambda>r.
     bind_result (require_revision (rvo_revision r)) (\<lambda>_. Inr r))))"

definition validate_operation_observation :: "env \<Rightarrow> operation_observation \<Rightarrow> operation_observation result" where
  "validate_operation_observation E p =
     bind_result (checked
       [(\<not> (identifier_ok E (oo_release_id p) \<and> identifier_ok E (oo_revision p) \<and>
            non_empty_text_ok E (oo_operation_name p) \<and>
            oo_operation_state p \<in> {''RUNNING'', ''SUCCEEDED'', ''FAILED''}), field_message)] p) (\<lambda>p.
     bind_result (require_provider_value E ''operation_name'' (oo_operation_name p)) (\<lambda>_.
     bind_result (require_revision (oo_revision p)) (\<lambda>_. Inr p)))"

definition validate_health_observation :: "env \<Rightarrow> health_observation \<Rightarrow> health_observation result" where
  "validate_health_observation E h =
     bind_result (checked
       [(\<not> (identifier_ok E (ho_release_id h) \<and> identifier_ok E (ho_revision h) \<and>
            ho_health_status h \<in> {''READY'', ''UNHEALTHY''}), field_message)] h) (\<lambda>h.
     bind_result (require_revision (ho_revision h)) (\<lambda>_. Inr h))"

definition validate_document_observation :: "env \<Rightarrow> document_observation \<Rightarrow> document_observation result" where
  "validate_document_observation E d = checked
     [(\<not> (identifier_ok E (fo_release_id d) \<and>
          (case fo_cloud_run_revision d of None \<Rightarrow> True | Some r \<Rightarrow> identifier_ok E r) \<and>
          sha256_digest_ok (fo_payload_sha256 d) \<and>
          (case fo_semantic_action_sha256 d of None \<Rightarrow> True | Some s \<Rightarrow> sha256_digest_ok s) \<and>
          boolean_text (fo_exists d)), field_message),
      ((fo_cloud_run_revision d = None) \<noteq> (fo_semantic_action_sha256 d = None),
         ''Firestore release binding must be complete'')] d"

definition validate_receipt_observation :: "env \<Rightarrow> receipt_observation \<Rightarrow> receipt_observation result" where
  "validate_receipt_observation E r = checked
     [(\<not> (identifier_ok E (po_release_id r) \<and> sha256_digest_ok (po_semantic_action_sha256 r) \<and>
          identifier_ok E (po_receipt_id r) \<and>
          po_outcome r \<in> {''SUPPRESSED_BEFORE_DISPATCH'', ''AUTHORITATIVE_REJECTION_BEFORE_PROVIDER_CONTACT''}),
        field_message)] r"

section \<open>From a correlation to an observation\<close>

text \<open>
  \<open>model_validate\<close> on the correlation, a dictionary of texts: the fields without a default must be
  there, no other field may be, and the schema and the literal \<open>provider_contact\<close> are fixed.
\<close>

definition value_of :: "correlation \<Rightarrow> string \<Rightarrow> string" where
  "value_of c k = (case map_of c k of None \<Rightarrow> [] | Some v \<Rightarrow> v)"

definition correlation_fields ::
  "string \<Rightarrow> string list \<Rightarrow> string list \<Rightarrow> correlation \<Rightarrow> bool" where
  "correlation_fields schema_text required optional c \<longleftrightarrow>
     set required \<subseteq> set (map fst c) \<and>
     set (map fst c) \<subseteq> insert ''observation_schema'' (set required \<union> set optional) \<and>
     map_of c ''observation_schema'' = Some schema_text"

fun observation_of :: "env \<Rightarrow> provider_capability \<Rightarrow> correlation \<Rightarrow> provider_observation result" where
  "observation_of E SERVICE_GET c =
     (if correlation_fields ''cloud-run-service-observation-v1''
           [''release_id'', ''revision'', ''service_etag'', ''generation'', ''observed_generation'',
            ''reconciling'', ''terminal_condition'', ''revision_traffic_percent''] [] c
      then bind_result (validate_service_observation E
        \<lparr>so_release_id = value_of c ''release_id'', so_revision = value_of c ''revision'',
         so_service_etag = value_of c ''service_etag'', so_generation = value_of c ''generation'',
         so_observed_generation = value_of c ''observed_generation'',
         so_reconciling = value_of c ''reconciling'',
         so_terminal_condition = value_of c ''terminal_condition'',
         so_revision_traffic_percent = value_of c ''revision_traffic_percent''\<rparr>)
        (\<lambda>o'. Inr (Service_Observation o'))
      else Inl (ValueError field_message))"
| "observation_of E REVISION_GET c =
     (if correlation_fields ''cloud-run-revision-observation-v1''
           [''release_id'', ''release_label'', ''revision'', ''image_digest'', ''configuration_sha256'',
            ''generation'', ''observed_generation'', ''reconciling'', ''terminal_condition'', ''readiness''] [] c
      then bind_result (validate_revision_observation E
        \<lparr>rvo_release_id = value_of c ''release_id'', rvo_release_label = value_of c ''release_label'',
         rvo_revision = value_of c ''revision'', rvo_image_digest = value_of c ''image_digest'',
         rvo_configuration_sha256 = value_of c ''configuration_sha256'',
         rvo_generation = value_of c ''generation'',
         rvo_observed_generation = value_of c ''observed_generation'',
         rvo_reconciling = value_of c ''reconciling'',
         rvo_terminal_condition = value_of c ''terminal_condition'',
         rvo_readiness = value_of c ''readiness''\<rparr>)
        (\<lambda>o'. Inr (Revision_Observation o'))
      else Inl (ValueError field_message))"
| "observation_of E OPERATION_GET c =
     (if correlation_fields ''cloud-run-operation-observation-v1''
           [''release_id'', ''revision'', ''operation_name'', ''operation_state''] [] c
      then bind_result (validate_operation_observation E
        \<lparr>oo_release_id = value_of c ''release_id'', oo_revision = value_of c ''revision'',
         oo_operation_name = value_of c ''operation_name'',
         oo_operation_state = value_of c ''operation_state''\<rparr>)
        (\<lambda>o'. Inr (Operation_Observation o'))
      else Inl (ValueError field_message))"
| "observation_of E REVISION_HEALTH c =
     (if correlation_fields ''cloud-run-health-observation-v1''
           [''release_id'', ''revision'', ''health_status''] [] c
      then bind_result (validate_health_observation E
        \<lparr>ho_release_id = value_of c ''release_id'', ho_revision = value_of c ''revision'',
         ho_health_status = value_of c ''health_status''\<rparr>)
        (\<lambda>o'. Inr (Health_Observation o'))
      else Inl (ValueError field_message))"
| "observation_of E FIRESTORE_GET c =
     (if correlation_fields ''firestore-document-observation-v1''
           [''release_id'', ''payload_sha256'', ''exists''] [''cloud_run_revision'', ''semantic_action_sha256''] c
      then bind_result (validate_document_observation E
        \<lparr>fo_release_id = value_of c ''release_id'',
         fo_cloud_run_revision = map_of c ''cloud_run_revision'',
         fo_payload_sha256 = value_of c ''payload_sha256'',
         fo_semantic_action_sha256 = map_of c ''semantic_action_sha256'',
         fo_exists = value_of c ''exists''\<rparr>)
        (\<lambda>o'. Inr (Document_Observation o'))
      else Inl (ValueError field_message))"
| "observation_of E DISPATCH_RECEIPT_GET c =
     (if correlation_fields ''dispatch-receipt-observation-v1''
           [''release_id'', ''semantic_action_sha256'', ''receipt_id'', ''provider_contact'', ''outcome''] [] c \<and>
         value_of c ''provider_contact'' = ''false''
      then bind_result (validate_receipt_observation E
        \<lparr>po_release_id = value_of c ''release_id'',
         po_semantic_action_sha256 = value_of c ''semantic_action_sha256'',
         po_receipt_id = value_of c ''receipt_id'', po_outcome = value_of c ''outcome''\<rparr>)
        (\<lambda>o'. Inr (Receipt_Observation o'))
      else Inl (ValueError field_message))"

declare observation_of.simps [simp del]

definition evidence_capability :: "normalized_evidence \<Rightarrow> provider_capability option" where
  "evidence_capability e = capability_of (ev_capability_name e) (ev_capability_version e)"

definition provider_observation_of :: "env \<Rightarrow> normalized_evidence \<Rightarrow> provider_observation result" where
  "provider_observation_of E e =
     (case evidence_capability e of
        None \<Rightarrow> violation ''evidence capability has no sealed provider rule''
      | Some c \<Rightarrow>
          if (epv_source (ev_provenance e), epv_adapter_version (ev_provenance e)) \<noteq> trusted_provenance c
          then violation ''evidence provenance does not name the trusted provider adapter''
          else case observation_of E c (ev_correlation e) of
            Inl _ \<Rightarrow> violation ''evidence correlation is not a typed provider observation''
          | Inr seen \<Rightarrow> Inr seen)"

section \<open>The record of the provider\<close>

fun observed_release :: "provider_observation \<Rightarrow> string" where
  "observed_release (Service_Observation s) = so_release_id s"
| "observed_release (Revision_Observation r) = rvo_release_id r"
| "observed_release (Operation_Observation p) = oo_release_id p"
| "observed_release (Health_Observation h) = ho_release_id h"
| "observed_release (Document_Observation d) = fo_release_id d"
| "observed_release (Receipt_Observation r) = po_release_id r"

text \<open>The revision of a Cloud Run observation; the other two name none.\<close>

fun observed_revision :: "provider_observation \<Rightarrow> string option" where
  "observed_revision (Service_Observation s) = Some (so_revision s)"
| "observed_revision (Revision_Observation r) = Some (rvo_revision r)"
| "observed_revision (Operation_Observation p) = Some (oo_revision p)"
| "observed_revision (Health_Observation h) = Some (ho_revision h)"
| "observed_revision _ = None"

fun double_slash :: "string \<Rightarrow> bool" where
  "double_slash (a # b # s) = (a = CHR ''/'' \<and> b = CHR ''/'' \<or> double_slash (b # s))"
| "double_slash _ = False"

definition cloud_run_record :: "env \<Rightarrow> semantic_action \<Rightarrow> provider_observation \<Rightarrow> string result" where
  "cloud_run_record E a seen =
     bind_result (target_text E a ''scope'' ''project'') (\<lambda>project.
     bind_result (target_text E a ''scope'' ''location'') (\<lambda>location.
     bind_result (target_text E a ''resource'' ''service'') (\<lambda>service.
     let service_record = ''projects/'' @ project @ ''/locations/'' @ location @ ''/services/'' @ service;
         operation_prefix = ''projects/'' @ project @ ''/locations/'' @ location @ ''/operations/'' in
     case seen of
       Service_Observation s \<Rightarrow> Inr service_record
     | Revision_Observation r \<Rightarrow> Inr (service_record @ ''/revisions/'' @ rvo_revision r)
     | Health_Observation h \<Rightarrow> Inr (service_record @ ''/revisions/'' @ ho_revision h @ ''/health'')
     | Operation_Observation p \<Rightarrow>
         if starts_with operation_prefix (oo_operation_name p) \<and>
            resource_component E (drop (length operation_prefix) (oo_operation_name p))
         then Inr (oo_operation_name p)
         else violation ''Cloud Run operation is outside the exact action project and location''
     | _ \<Rightarrow> violation ''Cloud Run evidence has the wrong observation type'')))"

definition document_path :: "env \<Rightarrow> string \<Rightarrow> bool" where
  "document_path E s \<longleftrightarrow>
     1 \<le> text_length s \<and> text_length s \<le> 512 \<and> \<not> starts_with ''/'' s \<and> last s \<noteq> CHR ''/'' \<and>
     \<not> double_slash s \<and> \<not> has_space E s"

definition firestore_record :: "env \<Rightarrow> semantic_action \<Rightarrow> string result" where
  "firestore_record E a =
     bind_result (target_text E a ''scope'' ''project'') (\<lambda>project.
     bind_result (target_text E a ''scope'' ''database'') (\<lambda>database.
     case map_of (tb_resource (sa_target a)) ''document'' of
       None \<Rightarrow> Inl (KeyError ''document'')
     | Some v \<Rightarrow>
         if json_is_text (document_path E) v
         then Inr (''projects/'' @ project @ ''/databases/'' @ database @ ''/documents/'' @
           field_text (tb_resource (sa_target a)) ''document'')
         else violation ''action target document is not a canonical relative document path''))"

section \<open>Status and binding\<close>

fun operation_status_of :: "string \<Rightarrow> operation_status" where
  "operation_status_of s =
     (if s = ''RUNNING'' then ACTIVE else if s = ''SUCCEEDED'' then TERMINAL_COMMITTED else UNRESOLVED)"

fun reconciling_state :: "provider_observation \<Rightarrow> bool" where
  "reconciling_state (Service_Observation s) = (so_reconciling s = ''true'')"
| "reconciling_state (Revision_Observation r) = (rvo_reconciling r = ''true'')"
| "reconciling_state _ = False"

definition validate_evidence_status :: "normalized_evidence \<Rightarrow> provider_observation \<Rightarrow> unit result" where
  "validate_evidence_status e seen =
     (let states = map ea_state (ev_effect_assertions e) in
      case seen of
        Operation_Observation p \<Rightarrow>
          bind_result (rule (ev_operation_status e = Some (operation_status_of (oo_operation_state p)))
            ''Cloud Run operation evidence has inconsistent proof semantics'') (\<lambda>_.
          if oo_operation_state p = ''SUCCEEDED''
          then rule (ESTABLISHED \<in> set states \<and> NOT_ESTABLISHED \<notin> set states)
            ''successful Cloud Run operation evidence must establish an effect''
          else rule (list_all (\<lambda>x. x = UNVERIFIED) states)
            ''non-successful Cloud Run operation evidence cannot establish effects'')
      | Receipt_Observation r \<Rightarrow>
          rule (ev_operation_status e = Some TERMINAL_NOT_COMMITTED \<and> states \<noteq> [] \<and>
              list_all (\<lambda>x. x = NOT_ESTABLISHED) states)
            ''dispatch receipt must positively prove pre-provider non-execution''
      | _ \<Rightarrow>
          bind_result (if reconciling_state seen
            then rule (ev_operation_status e \<in> {None, Some ACTIVE} \<and> NOT_ESTABLISHED \<notin> set states)
              ''reconciling Cloud Run state must remain authoritative pending''
            else rule (ev_operation_status e = None)
              ''settled provider state reads cannot assert an operation outcome'') (\<lambda>_.
          case seen of
            Document_Observation d \<Rightarrow>
              rule (\<not> (fo_exists d = ''false'' \<and> list_ex (\<lambda>x. x \<noteq> UNVERIFIED) states))
                ''a missing Firestore document is absence-only evidence''
          | _ \<Rightarrow> Inr ()))"

definition names_revision :: "semantic_action \<Rightarrow> string \<Rightarrow> bool" where
  "names_revision a s \<longleftrightarrow> field_is (\<lambda>v. v = JStr s) (sa_semantic_arguments a) ''revision''"

text \<open>The part of \<open>_validate_observation_binding\<close> that depends on the type of the observation.\<close>

fun observation_identity ::
  "recovery_action_profile \<Rightarrow> semantic_action \<Rightarrow> provider_observation \<Rightarrow> unit result" where
  "observation_identity p a (Revision_Observation r) =
     (let arguments = sa_semantic_arguments a in
      bind_result (rule (field_is (\<lambda>v. v = JStr (rvo_release_label r)) arguments ''release_id'')
        ''Cloud Run revision does not carry the exact release label'') (\<lambda>_.
      rule (p \<noteq> STAGE_CLOUD_RUN_REVISION \<or>
          field_is (\<lambda>v. v = JStr (rvo_image_digest r)) arguments ''image_digest'' \<and>
          field_is (\<lambda>v. v = JStr (rvo_configuration_sha256 r)) arguments ''configuration_sha256'')
        ''Cloud Run revision identity differs from the staged action''))"
| "observation_identity p a (Service_Observation s) =
     rule (p \<noteq> PROMOTE_CLOUD_RUN_TRAFFIC \<or> names_revision a (so_revision s))
       ''Cloud Run service traffic names another revision''"
| "observation_identity p a (Operation_Observation s) =
     rule (p \<noteq> PROMOTE_CLOUD_RUN_TRAFFIC \<or> names_revision a (oo_revision s))
       ''Cloud Run operation names another revision''"
| "observation_identity p a (Health_Observation h) =
     rule (p \<noteq> PROMOTE_CLOUD_RUN_TRAFFIC \<or> names_revision a (ho_revision h))
       ''Cloud Run health names another revision''"
| "observation_identity p a (Document_Observation d) =
     rule (field_is (\<lambda>v. v = JStr (fo_payload_sha256 d)) (sa_semantic_arguments a) ''payload_sha256'' \<and>
         fo_semantic_action_sha256 d \<in> {None, Some (sa_semantic_action_sha256 a)})
       ''Firestore record identity differs from the semantic action''"
| "observation_identity p a (Receipt_Observation r) =
     rule (po_semantic_action_sha256 r = sa_semantic_action_sha256 a)
       ''dispatch receipt belongs to another semantic action''"

declare observation_identity.simps [simp del]

definition stage_revision_of :: "env \<Rightarrow> semantic_action \<Rightarrow> string result" where
  "stage_revision_of E a = deterministic_stage_revision E
     (field_text (tb_resource (sa_target a)) ''service'') (field_text (sa_semantic_arguments a) ''release_id'')"

definition validate_observation_binding ::
  "env \<Rightarrow> recovery_action_profile \<Rightarrow> semantic_action \<Rightarrow> normalized_evidence \<Rightarrow> provider_observation \<Rightarrow>
   bool \<Rightarrow> unit result" where
  "validate_observation_binding E p a e seen require_expected_stage_revision =
     bind_result (rule (field_is (\<lambda>v. v = JStr (observed_release seen)) (sa_semantic_arguments a) ''release_id'')
       ''provider observation release does not match the semantic action'') (\<lambda>_.
     bind_result
       (if require_expected_stage_revision \<and> p = STAGE_CLOUD_RUN_REVISION \<and> observed_revision seen \<noteq> None
        then bind_result (stage_revision_of E a) (\<lambda>revision.
          rule (observed_revision seen = Some revision) ''Cloud Run observation names a different staged revision'')
        else Inr ()) (\<lambda>_.
     bind_result (observation_identity p a seen) (\<lambda>_.
     bind_result
       (if profile_on_cloud_run p then cloud_run_record E a seen
        else case seen of
          Document_Observation d \<Rightarrow> firestore_record E a
        | Receipt_Observation r \<Rightarrow> Inr (''dispatch-receipts/'' @ po_receipt_id r)
        | _ \<Rightarrow> violation ''provider observation target is unsupported'') (\<lambda>expected_record.
     rule (epv_source_record (ev_provenance e) = expected_record)
       ''provider source record does not match the exact action target''))))"

text \<open>One round of the loop of \<open>_validated_recovery_observations\<close>, and the function.\<close>

definition validated_observation ::
  "env \<Rightarrow> recovery_action_profile \<Rightarrow> semantic_action \<Rightarrow> bool \<Rightarrow> normalized_evidence \<Rightarrow> provider_observation result" where
  "validated_observation E p a require_expected_stage_revision e =
     bind_result (rule (case evidence_capability e of None \<Rightarrow> False | Some c \<Rightarrow> c \<in> set (profile_capabilities p))
       ''supporting evidence capability does not match the profile'') (\<lambda>_.
     bind_result (rule (target_eq (ev_target e) (sa_target a))
       ''supporting evidence target does not match the semantic action'') (\<lambda>_.
     bind_result (rule (ev_authority e = TARGET_STATE)
       ''supporting evidence is not authoritative target state'') (\<lambda>_.
     bind_result (provider_observation_of E e) (\<lambda>seen.
     bind_result (validate_evidence_status e seen) (\<lambda>_.
     bind_result (validate_observation_binding E p a e seen require_expected_stage_revision) (\<lambda>_. Inr seen))))))"

definition validated_recovery_observations ::
  "env \<Rightarrow> recovery_action_profile \<Rightarrow> semantic_action \<Rightarrow> normalized_evidence list \<Rightarrow> bool \<Rightarrow>
   provider_observation list result" where
  "validated_recovery_observations E p a evidence require_expected_stage_revision =
     bind_result (validate_recovery_action p a) (\<lambda>_.
     bind_result (rule (evidence \<noteq> []) ''recovery proof requires provider evidence'') (\<lambda>_.
     map_result (validated_observation E p a require_expected_stage_revision) evidence))"

definition validate_recovery_evidence ::
  "env \<Rightarrow> recovery_action_profile \<Rightarrow> semantic_action \<Rightarrow> normalized_evidence list \<Rightarrow> unit result" where
  "validate_recovery_evidence E p a evidence =
     bind_result (validated_recovery_observations E p a evidence True) (\<lambda>_. Inr ())"

end
