(* ===== verification/Recovery_Proofs.thy ===== *)
theory Recovery_Proofs
  imports Provider_Evidence
begin

text \<open>
  Which evidence proves a classification (\<open>evidence/recovery_rules.py\<close>): the consistency of the
  snapshots of one resource, the conflicts of pairs of evidence, the effects that a profile expects,
  what each observation says of an effect, and \<open>validate_recovery_proof\<close>.
\<close>

section \<open>Consistent observations\<close>

type_synonym snapshot = "normalized_evidence \<times> provider_observation"

definition resource_key :: "normalized_evidence \<Rightarrow> string \<times> string \<times> string" where
  "resource_key e = (ev_capability_name e, ev_capability_version e, epv_source_record (ev_provenance e))"

text \<open>The keys of a dictionary in the order of their first insertion.\<close>

definition insertion_order :: "'a list \<Rightarrow> 'a list" where
  "insertion_order ks = rev (remdups (rev ks))"

fun operation_of :: "provider_observation \<Rightarrow> operation_observation option" where
  "operation_of (Operation_Observation p) = Some p"
| "operation_of _ = None"

fun operations_of :: "snapshot list \<Rightarrow> (normalized_evidence \<times> operation_observation) list" where
  "operations_of [] = []"
| "operations_of ((e, seen) # rest) =
     (case operation_of seen of None \<Rightarrow> operations_of rest | Some p \<Rightarrow> (e, p) # operations_of rest)"

definition operation_identity :: "operation_observation \<Rightarrow> string \<times> string \<times> string" where
  "operation_identity p = (oo_release_id p, oo_revision p, oo_operation_name p)"

text \<open>The order of the polls: observation time, retrieval time, then identifier.\<close>

definition poll_key :: "normalized_evidence \<Rightarrow> time \<times> time \<times> string" where
  "poll_key e = (ev_observed_at e, epv_retrieved_at (ev_provenance e), ev_evidence_id e)"

definition poll_step :: "string \<Rightarrow> string \<Rightarrow> bool" where
  "poll_step previous current \<longleftrightarrow>
     previous = current \<or> previous = ''RUNNING'' \<and> current \<in> {''SUCCEEDED'', ''FAILED''}"

definition consistent_polls :: "(normalized_evidence \<times> operation_observation) list \<Rightarrow> unit result" where
  "consistent_polls polls =
     bind_result (rule (length (remdups (map (operation_identity \<circ> snd) polls)) = 1)
       ''provider evidence contains inconsistent operation identity'') (\<lambda>_.
     bind_result (rule
       (list_all (\<lambda>t. length (remdups (map (oo_operation_state \<circ> snd)
            (filter (\<lambda>(e, _). ev_observed_at e = t) polls))) = 1)
          (map (ev_observed_at \<circ> fst) polls))
       ''provider operation diverges at one observation time'') (\<lambda>_.
     rule (successively poll_step (map (oo_operation_state \<circ> snd) (sort_key (poll_key \<circ> fst) polls)))
       ''provider operation snapshots regress or disagree after termination''))"

definition consistent_snapshots :: "snapshot list \<Rightarrow> unit result" where
  "consistent_snapshots snapshots =
     (let seen = snd (hd snapshots);
          message = ''provider evidence contains inconsistent snapshots of one resource'' in
      if operation_of seen = None then rule (list_all (\<lambda>(_, s). s = seen) (tl snapshots)) message
      else bind_result (rule (length (operations_of snapshots) = length snapshots) message) (\<lambda>_.
        consistent_polls (operations_of snapshots)))"

definition require_consistent_observations ::
  "normalized_evidence list \<Rightarrow> provider_observation list \<Rightarrow> unit result" where
  "require_consistent_observations evidence observations =
     (let snapshots = zip evidence observations in
      bind_result (map_result
        (\<lambda>k. consistent_snapshots (filter (\<lambda>(e, _). resource_key e = k) snapshots))
        (insertion_order (map (resource_key \<circ> fst) snapshots))) (\<lambda>_. Inr ()))"

definition require_stage_revision_coherence :: "provider_observation list \<Rightarrow> unit result" where
  "require_stage_revision_coherence observations =
     rule (length (remdups (List.map_filter observed_revision observations)) \<le> 1)
       ''staging observations do not identify one exact revision''"

text \<open>The body of the \<open>try\<close> block, and \<open>combinations(..., 2)\<close>.\<close>

definition coherent ::
  "recovery_action_profile \<Rightarrow> normalized_evidence list \<Rightarrow> provider_observation list \<Rightarrow> unit result" where
  "coherent p evidence observations =
     bind_result (require_consistent_observations evidence observations) (\<lambda>_.
     if p = STAGE_CLOUD_RUN_REVISION then require_stage_revision_coherence observations else Inr ())"

fun combinations :: "'a list \<Rightarrow> ('a \<times> 'a) list" where
  "combinations [] = []"
| "combinations (x # xs) = map (Pair x) xs @ combinations xs"

definition pair_conflict :: "recovery_action_profile \<Rightarrow> snapshot \<times> snapshot \<Rightarrow> (string \<times> string) list result" where
  "pair_conflict p = (\<lambda>((a, seen), (b, seen')).
     case coherent p [a, b] [seen, seen'] of
       Inr _ \<Rightarrow> Inr []
     | Inl (RecoveryRuleViolation _) \<Rightarrow>
         Inr [(min (ev_evidence_id a) (ev_evidence_id b), max (ev_evidence_id a) (ev_evidence_id b))]
     | Inl e \<Rightarrow> Inl e)"

definition recovery_provider_conflict_pairs ::
  "env \<Rightarrow> recovery_action_profile \<Rightarrow> semantic_action \<Rightarrow> normalized_evidence list \<Rightarrow> (string \<times> string) list result" where
  "recovery_provider_conflict_pairs E p a evidence =
     bind_result (validated_recovery_observations E p a evidence False) (\<lambda>observations.
     bind_result (map_result (pair_conflict p) (combinations (zip evidence observations))) (\<lambda>conflicts.
     Inr (sorted_set (concat conflicts))))"

section \<open>Expected effects\<close>

abbreviation stage_revision_scope :: string where
  "stage_revision_scope \<equiv> ''cloud-run-revision-created''"

abbreviation stage_readiness_scope :: string where
  "stage_readiness_scope \<equiv> ''cloud-run-revision-ready''"

abbreviation stage_traffic_scope :: string where
  "stage_traffic_scope \<equiv> ''cloud-run-revision-zero-traffic''"

abbreviation promotion_traffic_scope :: string where
  "promotion_traffic_scope \<equiv> ''cloud-run-traffic-promoted''"

abbreviation firestore_record_scope :: string where
  "firestore_record_scope \<equiv> ''firestore-release-record-created''"

type_synonym effects = "(string \<times> expected_effect) list"

definition argument :: "semantic_action \<Rightarrow> string \<Rightarrow> json" where
  "argument a k = JStr (field_text (sa_semantic_arguments a) k)"

definition predicate_mismatch :: string where
  "predicate_mismatch = ''expected-effect predicates do not match the sealed action profile''"

text \<open>The predicates that the profile prescribes, by scope.\<close>

definition profile_predicates ::
  "env \<Rightarrow> recovery_action_profile \<Rightarrow> semantic_action \<Rightarrow> effects \<Rightarrow> (string \<times> json_object) list result" where
  "profile_predicates E p a effects =
     (let release_id = argument a ''release_id'' in
      case p of
        STAGE_CLOUD_RUN_REVISION \<Rightarrow>
          bind_result (stage_revision_of E a) (\<lambda>revision. Inr
            [(stage_revision_scope,
               [(''release_id'', release_id), (''image_digest'', argument a ''image_digest''),
                (''configuration_sha256'', argument a ''configuration_sha256''), (''revision'', JStr revision)]),
             (stage_readiness_scope,
               [(''release_id'', release_id), (''ready'', JBool True), (''revision'', JStr revision)]),
             (stage_traffic_scope,
               [(''release_id'', release_id), (''traffic_percent'', JInt 0), (''revision'', JStr revision)])])
      | PROMOTE_CLOUD_RUN_TRAFFIC \<Rightarrow> Inr
          [(promotion_traffic_scope,
             [(''release_id'', release_id), (''revision'', argument a ''revision''), (''percent'', JInt 100)])]
      | CREATE_FIRESTORE_RELEASE_RECORD \<Rightarrow>
          (let base = [(''release_id'', release_id), (''payload_sha256'', argument a ''payload_sha256'')];
               record_predicate = (case map_of effects firestore_record_scope of
                 None \<Rightarrow> [] | Some e \<Rightarrow> ee_predicate e) in
           bind_result
             (if py_eq (JObj record_predicate) (JObj base) then Inr ()
              else bind_result (rule
                (exact_fields record_predicate [''release_id'', ''payload_sha256'', ''cloud_run_revision''] \<and>
                 list_all (\<lambda>(k, v). field_is (\<lambda>w. py_eq w v) record_predicate k) base)
                predicate_mismatch) (\<lambda>_.
              require_text record_predicate ''cloud_run_revision'' cloud_run_revision)) (\<lambda>_.
           Inr [(firestore_record_scope, record_predicate)])))"

definition expected_effects_by_scope ::
  "env \<Rightarrow> recovery_action_profile \<Rightarrow> semantic_action \<Rightarrow> expected_effect list \<Rightarrow> effects result" where
  "expected_effects_by_scope E p a expected =
     bind_result (rule
       (map (\<lambda>e. canonical_sha256 E (expected_effect_json e)) expected = sa_expected_effect_sha256s a)
       ''expected effects do not match the semantic action identity'') (\<lambda>_.
     bind_result (rule (distinct (map ee_commit_scope expected)) ''recovery effect scopes must be unique'') (\<lambda>_.
     let effects = map (\<lambda>e. (ee_commit_scope e, e)) expected in
     bind_result (profile_predicates E p a effects) (\<lambda>predicates.
     bind_result (rule
       (set (map fst effects) = set (map fst predicates) \<and>
        list_all (\<lambda>(scope, predicate).
          case map_of effects scope of
            None \<Rightarrow> False
          | Some e \<Rightarrow> py_eq (JObj (ee_predicate e)) (JObj predicate)) predicates)
       predicate_mismatch) (\<lambda>_.
     Inr effects))))"

section \<open>What an observation says of an effect\<close>

fun observed_scopes :: "provider_observation \<Rightarrow> string list" where
  "observed_scopes (Service_Observation _) = [stage_traffic_scope, promotion_traffic_scope]"
| "observed_scopes (Revision_Observation _) = [stage_revision_scope, stage_readiness_scope]"
| "observed_scopes (Health_Observation _) = [stage_readiness_scope]"
| "observed_scopes (Operation_Observation _) = [stage_revision_scope, promotion_traffic_scope]"
| "observed_scopes (Document_Observation _) = [firestore_record_scope]"
| "observed_scopes (Receipt_Observation _) = [firestore_record_scope]"

definition settled_service :: "service_observation \<Rightarrow> bool" where
  "settled_service s \<longleftrightarrow> so_reconciling s = ''false'' \<and> so_terminal_condition s = ''SUCCEEDED''"

definition ready_revision :: "revision_observation \<Rightarrow> bool" where
  "ready_revision r \<longleftrightarrow>
     rvo_reconciling r = ''false'' \<and> rvo_terminal_condition r = ''SUCCEEDED'' \<and> rvo_readiness r = ''READY''"

definition assertion_of :: "bool \<Rightarrow> effect_assertion_state" where
  "assertion_of satisfied = (if satisfied then ESTABLISHED else NOT_ESTABLISHED)"

fun provider_effect_state :: "provider_observation \<Rightarrow> string \<Rightarrow> effect_assertion_state" where
  "provider_effect_state (Service_Observation s) scope =
     (if \<not> settled_service s then UNVERIFIED
      else if scope = stage_traffic_scope then assertion_of (so_revision_traffic_percent s = ''0'')
      else if scope = promotion_traffic_scope then assertion_of (so_revision_traffic_percent s = ''100'')
      else UNVERIFIED)"
| "provider_effect_state (Revision_Observation r) scope =
     (if scope = stage_revision_scope then ESTABLISHED
      else if scope = stage_readiness_scope then
        if ready_revision r then ESTABLISHED
        else if rvo_reconciling r = ''false'' then NOT_ESTABLISHED else UNVERIFIED
      else UNVERIFIED)"
| "provider_effect_state (Health_Observation h) scope = assertion_of (ho_health_status h = ''READY'')"
| "provider_effect_state (Operation_Observation p) scope =
     (if oo_operation_state p = ''SUCCEEDED'' \<and> scope \<in> {stage_revision_scope, promotion_traffic_scope}
      then ESTABLISHED else UNVERIFIED)"
| "provider_effect_state (Document_Observation d) scope =
     (if fo_exists d = ''true'' then ESTABLISHED else UNVERIFIED)"
| "provider_effect_state (Receipt_Observation _) scope = NOT_ESTABLISHED"

declare provider_effect_state.simps [simp del]

text \<open>
  The inverse dictionary, from effect to scope: for two effects of one identifier the later one
  stands. One assertion, then the assertions of one piece of evidence and of all; the result is the
  list of the states recorded for each effect.
\<close>

definition scope_by_effect :: "effects \<Rightarrow> (string \<times> string) list" where
  "scope_by_effect effects = rev (map (\<lambda>(scope, e). (ee_effect_id e, scope)) effects)"

definition recorded_assertion ::
  "(string \<times> string) list \<Rightarrow> provider_observation \<Rightarrow> effect_assertion \<Rightarrow> (string \<times> effect_assertion_state) result" where
  "recorded_assertion scopes seen x =
     (case map_of scopes (ea_effect_id x) of
        None \<Rightarrow> violation ''provider evidence asserts an undeclared expected effect''
      | Some scope \<Rightarrow>
          bind_result (rule (ea_state x = UNVERIFIED \<or> scope \<in> set (observed_scopes seen))
            ''provider capability asserted an effect outside its authority'') (\<lambda>_.
          bind_result (rule (ea_state x \<in> {UNVERIFIED, provider_effect_state seen scope})
            ''provider effect assertion contradicts its typed observation'') (\<lambda>_.
          Inr (ea_effect_id x, ea_state x))))"

definition recorded_assertions ::
  "env \<Rightarrow> (string \<times> string) list \<Rightarrow> normalized_evidence \<Rightarrow> (string \<times> effect_assertion_state) list result" where
  "recorded_assertions E scopes e =
     bind_result (provider_observation_of E e) (\<lambda>seen.
     map_result (recorded_assertion scopes seen) (ev_effect_assertions e))"

definition assertion_states ::
  "env \<Rightarrow> effects \<Rightarrow> normalized_evidence list \<Rightarrow> (string \<times> effect_assertion_state list) list result" where
  "assertion_states E effects evidence =
     (let scopes = scope_by_effect effects in
      bind_result (map_result (recorded_assertions E scopes) evidence) (\<lambda>recorded.
      Inr (map (\<lambda>i. (i, map snd (filter (\<lambda>(j, _). j = i) (concat recorded)))) (remdups (map fst scopes)))))"

section \<open>Proofs of a classification\<close>

fun service_of :: "provider_observation \<Rightarrow> service_observation option" where
  "service_of (Service_Observation s) = Some s"
| "service_of _ = None"

fun revision_of :: "provider_observation \<Rightarrow> revision_observation option" where
  "revision_of (Revision_Observation r) = Some r"
| "revision_of _ = None"

fun document_of :: "provider_observation \<Rightarrow> document_observation option" where
  "document_of (Document_Observation d) = Some d"
| "document_of _ = None"

fun is_receipt :: "provider_observation \<Rightarrow> bool" where
  "is_receipt (Receipt_Observation _) = True"
| "is_receipt _ = False"

definition one_service_etag :: "service_observation list \<Rightarrow> bool" where
  "one_service_etag services \<longleftrightarrow> length (remdups (map so_service_etag services)) = 1"

definition require_stage_commit :: "provider_observation list \<Rightarrow> unit result" where
  "require_stage_commit observations =
     (let services = List.map_filter service_of observations;
          revisions = List.map_filter revision_of observations in
      bind_result (rule (services \<noteq> [] \<and> revisions \<noteq> [])
        ''committed staging requires service and revision observations'') (\<lambda>_.
      bind_result (rule (list_all (\<lambda>s. settled_service s \<and> so_revision_traffic_percent s = ''0'') services)
        ''staged revision requires settled service state and zero traffic'') (\<lambda>_.
      bind_result (rule (list_all ready_revision revisions)
        ''staged revision is not terminally reconciled and ready'') (\<lambda>_.
      bind_result (require_stage_revision_coherence observations) (\<lambda>_.
      rule (one_service_etag services)
        ''staging observations do not carry one consistent service ETag'')))))"

definition require_promotion_commit :: "semantic_action \<Rightarrow> provider_observation list \<Rightarrow> unit result" where
  "require_promotion_commit a observations =
     (let services = List.map_filter service_of observations in
      bind_result (rule
        (services \<noteq> [] \<and>
         list_all (\<lambda>s. names_revision a (so_revision s) \<and> so_revision_traffic_percent s = ''100'' \<and>
           settled_service s) services)
        ''promotion requires settled 100-percent traffic to the exact revision'') (\<lambda>_.
      rule (one_service_etag services)
        ''promotion observations do not carry one consistent service ETag''))"

definition require_firestore_commit ::
  "semantic_action \<Rightarrow> effects \<Rightarrow> provider_observation list \<Rightarrow> unit result" where
  "require_firestore_commit a effects observations =
     (let documents = List.map_filter document_of observations in
      bind_result (rule (documents \<noteq> [] \<and> list_all (\<lambda>d. fo_exists d = ''true'') documents)
        ''Firestore commit requires the exact release record to exist'') (\<lambda>_.
      case map_of effects firestore_record_scope of
        None \<Rightarrow> Inl (KeyError firestore_record_scope)
      | Some e \<Rightarrow>
          rule (case map_of (ee_predicate e) ''cloud_run_revision'' of
              None \<Rightarrow> True
            | Some JNull \<Rightarrow> True
            | Some v \<Rightarrow> list_all (\<lambda>d. map_option JStr (fo_cloud_run_revision d) = Some v \<and>
                fo_semantic_action_sha256 d = Some (sa_semantic_action_sha256 a)) documents)
            ''Firestore commit is not bound to the intended Cloud Run revision''))"

definition unresolved :: "provider_observation \<Rightarrow> bool" where
  "unresolved seen \<longleftrightarrow>
     (case operation_of seen of
        Some p \<Rightarrow> oo_operation_state p \<in> {''RUNNING'', ''FAILED''}
      | None \<Rightarrow> reconciling_state seen)"

text \<open>
  The states of an effect without \<open>UNVERIFIED\<close>, and the effects whose definitive states are exactly
  the given one; the sets of the code are lists here.
\<close>

definition definitive_states :: "effect_assertion_state list \<Rightarrow> effect_assertion_state list" where
  "definitive_states xs = remdups (filter (\<lambda>x. x \<noteq> UNVERIFIED) xs)"

definition effects_in :: "effect_assertion_state \<Rightarrow> (string \<times> effect_assertion_state list) list \<Rightarrow> string list" where
  "effects_in x states = map fst (filter (\<lambda>(_, xs). definitive_states xs = [x]) states)"

definition proof_rule ::
  "recovery_action_profile \<Rightarrow> semantic_action \<Rightarrow> effects \<Rightarrow> provider_observation list \<Rightarrow>
   string list \<Rightarrow> string list \<Rightarrow> string list \<Rightarrow> classification \<Rightarrow> unit result" where
  "proof_rule p a effects observations effect_ids established not_established c =
     (case c of
        UNKNOWN \<Rightarrow> Inr ()
      | COMMITTED \<Rightarrow>
          bind_result (rule (set established = set effect_ids \<and> not_established = [])
            ''committed proof does not establish every declared effect'') (\<lambda>_.
          case p of
            STAGE_CLOUD_RUN_REVISION \<Rightarrow> require_stage_commit observations
          | PROMOTE_CLOUD_RUN_TRAFFIC \<Rightarrow> require_promotion_commit a observations
          | CREATE_FIRESTORE_RELEASE_RECORD \<Rightarrow> require_firestore_commit a effects observations)
      | NOT_COMMITTED \<Rightarrow>
          rule (p = CREATE_FIRESTORE_RELEASE_RECORD \<and> list_ex is_receipt observations \<and>
              set not_established = set effect_ids \<and> established = [] \<and> list_all is_receipt observations)
            ''not-committed proof requires only a positive pre-provider receipt''
      | PENDING \<Rightarrow>
          rule (list_ex unresolved observations) ''pending proof requires typed unresolved Cloud Run state''
      | PARTIAL \<Rightarrow>
          bind_result (rule
            (p = STAGE_CLOUD_RUN_REVISION \<and> established \<noteq> [] \<and> not_established \<noteq> [] \<and>
             set established \<union> set not_established = set effect_ids)
            ''partial proof requires explicit mixed Cloud Run stage effects'') (\<lambda>_.
          case map_of effects stage_revision_scope of
            None \<Rightarrow> Inl (KeyError stage_revision_scope)
          | Some e \<Rightarrow>
              rule (ee_effect_id e \<notin> set established \<or> list_ex (\<lambda>s. revision_of s \<noteq> None) observations)
                ''partial staged revision creation requires an exact revision read''))"

definition validate_recovery_proof ::
  "env \<Rightarrow> recovery_action_profile \<Rightarrow> semantic_action \<Rightarrow> expected_effect list \<Rightarrow> classification \<Rightarrow>
   normalized_evidence list \<Rightarrow> unit result" where
  "validate_recovery_proof E p a expected c evidence =
     bind_result (validate_recovery_evidence E p a evidence) (\<lambda>_.
     bind_result (expected_effects_by_scope E p a expected) (\<lambda>effects.
     bind_result (map_result (provider_observation_of E) evidence) (\<lambda>observations.
     bind_result (if c = UNKNOWN then Inr () else coherent p evidence observations) (\<lambda>_.
     bind_result (assertion_states E effects evidence) (\<lambda>states.
     bind_result (rule (list_all (\<lambda>(_, xs). length (definitive_states xs) \<le> 1) states)
       ''provider evidence contains conflicting effects'') (\<lambda>_.
     proof_rule p a effects observations (map fst states) (effects_in ESTABLISHED states)
       (effects_in NOT_ESTABLISHED states) c))))))"

section \<open>The precondition of a dispatch\<close>

definition recovery_precondition ::
  "recovery_action_profile \<Rightarrow> normalized_evidence list \<Rightarrow> bool \<Rightarrow> json result" where
  "recovery_precondition p evidence retry =
     (case profile_precondition p of
        NO_PRECONDITION \<Rightarrow> Inr (JObj [(''none'', JBool True)])
      | FIRESTORE_MUST_NOT_EXIST \<Rightarrow>
          bind_result (rule
            (\<not> retry \<or> evidence \<noteq> [] \<and>
             list_all (\<lambda>e. evidence_capability e = Some DISPATCH_RECEIPT_GET \<and>
               ev_operation_status e = Some TERMINAL_NOT_COMMITTED) evidence)
            ''Firestore retry precondition requires a positive dispatch receipt'') (\<lambda>_.
          Inr (JObj [(''exists'', JBool False)]))
      | CLOUD_RUN_SERVICE_ETAG \<Rightarrow>
          (let services = filter (\<lambda>e. evidence_capability e = Some SERVICE_GET) evidence;
               etags = remdups (List.map_filter (\<lambda>e. map_of (ev_correlation e) ''service_etag'') services) in
           bind_result (rule
             (services \<noteq> [] \<and>
              list_all (\<lambda>e. ''service_etag'' \<in> set (map fst (ev_correlation e))) services)
             ''promotion requires a service_etag from service evidence'') (\<lambda>_.
           bind_result (rule (length etags = 1) ''promotion requires one consistent service_etag'') (\<lambda>_.
           Inr (JObj [(''service_etag'', JStr (hd etags))])))))"

definition recovery_precondition_sha256 ::
  "env \<Rightarrow> recovery_action_profile \<Rightarrow> normalized_evidence list \<Rightarrow> bool \<Rightarrow> string result" where
  "recovery_precondition_sha256 E p evidence retry =
     bind_result (map_result (provider_observation_of E) evidence) (\<lambda>_.
     bind_result (recovery_precondition p evidence retry) (value_sha256 E))"

end
