(* ===== verification/Recovery_Proof_Laws.thy ===== *)
theory Recovery_Proof_Laws
  imports Recovery_Proofs
begin

text \<open>
  What the proofs of \<open>evidence/recovery_rules.py\<close> guarantee. The consistency of all the evidence is a
  relation between its pairs; so the conflict pairs are empty exactly when the whole is coherent. A
  proof of a classification rests on trusted observations of the exact action, and the definitive
  classifications exclude each other.
\<close>

section \<open>Consistency is a relation between pairs\<close>

definition polls_agree ::
  "normalized_evidence \<times> operation_observation \<Rightarrow> normalized_evidence \<times> operation_observation \<Rightarrow> bool" where
  "polls_agree = (\<lambda>(e, p) (e', p').
     operation_identity p = operation_identity p' \<and>
     (ev_observed_at e = ev_observed_at e' \<longrightarrow> oo_operation_state p = oo_operation_state p') \<and>
     (poll_key e < poll_key e' \<longrightarrow> poll_step (oo_operation_state p) (oo_operation_state p')) \<and>
     (poll_key e' < poll_key e \<longrightarrow> poll_step (oo_operation_state p') (oo_operation_state p)))"

definition snapshots_agree :: "snapshot \<Rightarrow> snapshot \<Rightarrow> bool" where
  "snapshots_agree = (\<lambda>(e, x) (e', x').
     case (operation_of x, operation_of x') of
       (Some p, Some p') \<Rightarrow> polls_agree (e, p) (e', p')
     | (None, None) \<Rightarrow> x = x'
     | _ \<Rightarrow> False)"

lemma polls_agree_refl: "polls_agree x x"
  by (auto simp: polls_agree_def)

lemma polls_agree_sym: "polls_agree x y \<Longrightarrow> polls_agree y x"
  by (auto simp: polls_agree_def)

lemma snapshots_agree_refl: "snapshots_agree x x"
  by (cases x) (auto simp: snapshots_agree_def polls_agree_refl split: option.split)

lemma snapshots_agree_sym: "snapshots_agree x y \<Longrightarrow> snapshots_agree y x"
  by (auto simp: snapshots_agree_def intro: polls_agree_sym split: option.splits)

lemma poll_step_trans: "transp poll_step"
  by (auto simp: transp_def poll_step_def)

lemma not_empty_of_member: "x \<in> set xs \<Longrightarrow> xs \<noteq> []"
  by auto

lemma one_value: "xs \<noteq> [] \<Longrightarrow> length (remdups (map f xs)) = 1 \<longleftrightarrow> (\<forall>x\<in>set xs. \<forall>y\<in>set xs. f x = f y)"
proof -
  assume xs: "xs \<noteq> []"
  have "length (remdups (map f xs)) = card (f ` set xs)" by (simp add: length_remdups_card_conv)
  also have "(\<dots> = 1) \<longleftrightarrow> (\<forall>x\<in>set xs. \<forall>y\<in>set xs. f x = f y)"
  proof
    assume "\<forall>x\<in>set xs. \<forall>y\<in>set xs. f x = f y"
    then have "f ` set xs \<subseteq> {f (hd xs)}" "f (hd xs) \<in> f ` set xs" using hd_in_set [OF xs] by blast+
    then have "f ` set xs = {f (hd xs)}" by blast
    then show "card (f ` set xs) = 1" by simp
  next
    assume "card (f ` set xs) = 1"
    then obtain v where "f ` set xs = {v}" by (auto simp: card_1_singleton_iff)
    then have "f x = v" if "x \<in> set xs" for x using that by blast
    then show "\<forall>x\<in>set xs. \<forall>y\<in>set xs. f x = f y" by simp
  qed
  finally show ?thesis .
qed

lemma ordered_polls:
  assumes "\<And>x y. x \<in> set polls \<Longrightarrow> y \<in> set polls \<Longrightarrow> key x = key y \<Longrightarrow> state x = state y"
  shows "successively poll_step (map state (sort_key key polls)) \<longleftrightarrow>
    (\<forall>x\<in>set polls. \<forall>y\<in>set polls. key x < key y \<longrightarrow> poll_step (state x) (state y))"
    (is "?left \<longleftrightarrow> ?right")
proof -
  let ?sorted = "sort_key key polls"
  have ascending: "sorted_wrt (\<lambda>x y. key x \<le> key y) ?sorted" using sorted_sort_key [of key polls] by (simp add: sorted_map)
  have "?left \<longleftrightarrow> sorted_wrt (\<lambda>x y. poll_step (state x) (state y)) ?sorted"
    using poll_step_trans by (subst successively_iff_sorted_wrt_strong) (auto simp: sorted_wrt_map transp_def)
  also have "\<dots> \<longleftrightarrow> ?right"
  proof
    assume steps: "sorted_wrt (\<lambda>x y. poll_step (state x) (state y)) ?sorted"
    show ?right
    proof (intro ballI impI)
      fix x y assume "x \<in> set polls" "y \<in> set polls" and less: "key x < key y"
      then obtain i j where ij: "i < length ?sorted" "j < length ?sorted" "?sorted ! i = x" "?sorted ! j = y"
        by (metis in_set_conv_nth set_sort)
      have "i < j"
      proof (rule ccontr)
        assume "\<not> i < j"
        then have "j < i \<or> i = j" by auto
        then have "key y \<le> key x" using ascending ij unfolding sorted_wrt_iff_nth_less by auto
        with less show False by simp
      qed
      then show "poll_step (state x) (state y)" using steps ij unfolding sorted_wrt_iff_nth_less by blast
    qed
  next
    assume ?right
    then have "poll_step (state x) (state y)" if "x \<in> set polls" "y \<in> set polls" "key x \<le> key y" for x y
      using that assms [OF that(1,2)] unfolding le_less by (auto simp: poll_step_def)
    then show "sorted_wrt (\<lambda>x y. poll_step (state x) (state y)) ?sorted"
      by (intro sorted_wrt_mono_rel [OF _ ascending]) simp
  qed
  finally show ?thesis .
qed

lemma consistent_polls_pairs:
  assumes "polls \<noteq> []"
  shows "consistent_polls polls = Inr () \<longleftrightarrow> (\<forall>x\<in>set polls. \<forall>y\<in>set polls. polls_agree x y)"
proof -
  let ?state = "oo_operation_state \<circ> snd" and ?at = "ev_observed_at \<circ> fst" and ?key = "poll_key \<circ> fst"
  let ?one = "\<lambda>t. length (remdups (map ?state (filter (\<lambda>(e, _). ev_observed_at e = t) polls))) = 1"
  let ?same = "\<forall>x\<in>set polls. \<forall>y\<in>set polls. ?at x = ?at y \<longrightarrow> ?state x = ?state y"
  have one: "?one (?at z) \<longleftrightarrow>
      (\<forall>x\<in>set polls. \<forall>y\<in>set polls. ?at x = ?at z \<longrightarrow> ?at y = ?at z \<longrightarrow> ?state x = ?state y)"
    if "z \<in> set polls" for z
  proof -
    let ?at_time = "filter (\<lambda>(e, _). ev_observed_at e = ?at z) polls"
    have members: "set ?at_time = {x \<in> set polls. ?at x = ?at z}" by (simp add: case_prod_unfold)
    have "z \<in> set ?at_time" unfolding members using that by simp
    then have "?at_time \<noteq> []" by (rule not_empty_of_member)
    from one_value [OF this, of ?state] show ?thesis unfolding members by blast
  qed
  have "list_all ?one (map ?at polls) \<longleftrightarrow> (\<forall>z\<in>set polls. ?one (?at z))"
    by (simp add: list_all_iff)
  also have "\<dots> \<longleftrightarrow> (\<forall>z\<in>set polls. \<forall>x\<in>set polls. \<forall>y\<in>set polls.
      ?at x = ?at z \<longrightarrow> ?at y = ?at z \<longrightarrow> ?state x = ?state y)"
    by (rule ball_cong [OF refl one])
  also have "\<dots> \<longleftrightarrow> ?same" by (metis (no_types))
  finally have times: "list_all ?one (map ?at polls) \<longleftrightarrow> ?same" .
  have key: "?key x = ?key y \<Longrightarrow> ?at x = ?at y" for x y :: "normalized_evidence \<times> operation_observation"
    by (simp add: poll_key_def)
  let ?identity = "operation_identity \<circ> snd"
  let ?same_identity = "\<forall>x\<in>set polls. \<forall>y\<in>set polls. ?identity x = ?identity y"
  let ?steps = "\<forall>x\<in>set polls. \<forall>y\<in>set polls. ?key x < ?key y \<longrightarrow> poll_step (?state x) (?state y)"
  have "consistent_polls polls = Inr () \<longleftrightarrow> ?same_identity \<and> ?same \<and>
      successively poll_step (map ?state (sort_key ?key polls))"
    unfolding consistent_polls_def by (simp only: bind_result_eq_Inr rule_Inr times one_value [OF assms] simp_thms)
  also have "\<dots> \<longleftrightarrow> ?same_identity \<and> ?same \<and> ?steps"
  proof (rule conj_cong [OF refl conj_cong [OF refl]])
    assume ?same
    then show "successively poll_step (map ?state (sort_key ?key polls)) \<longleftrightarrow> ?steps"
      using key by (intro ordered_polls) blast
  qed
  also have "\<dots> \<longleftrightarrow> (\<forall>x\<in>set polls. \<forall>y\<in>set polls. polls_agree x y)"
    unfolding polls_agree_def case_prod_unfold comp_def by blast
  finally show ?thesis .
qed

lemma operations_of_eq: "operations_of snapshots =
    List.map_filter (\<lambda>(e, seen). map_option (Pair e) (operation_of seen)) snapshots"
  by (induction snapshots rule: operations_of.induct) (auto split: option.split)

lemma operations_of_all:
  "length (operations_of snapshots) \<le> length snapshots \<and>
   (length (operations_of snapshots) = length snapshots \<longleftrightarrow>
     (\<forall>(e, seen)\<in>set snapshots. operation_of seen \<noteq> None))"
  by (induction snapshots rule: operations_of.induct) (auto split: option.split)

lemma set_operations_of:
  "set (operations_of snapshots) = {(e, p). (e, Operation_Observation p) \<in> set snapshots}"
  by (induction snapshots rule: operations_of.induct)
    (auto split: option.splits elim!: operation_of.elims)

lemma operation_of_SomeD: "operation_of seen = Some p \<Longrightarrow> seen = Operation_Observation p"
  by (cases seen) simp_all

lemma all_agree_with_head:
  assumes "snapshots \<noteq> []" "operation_of (snd (hd snapshots)) = None"
  shows "list_all (\<lambda>(_, s). s = snd (hd snapshots)) (tl snapshots) \<longleftrightarrow>
    (\<forall>x\<in>set snapshots. \<forall>y\<in>set snapshots. snapshots_agree x y)"
proof -
  obtain e seen rest where snapshots: "snapshots = (e, seen) # rest" using assms(1) by (cases snapshots) auto
  have seen: "operation_of seen = None" using assms(2) snapshots by simp
  have agree: "snapshots_agree (e', seen) x \<longleftrightarrow> snd x = seen" for e' x
    using seen by (cases x) (auto simp: snapshots_agree_def split: option.split)
  have "list_all (\<lambda>(_, s). s = seen) rest \<longleftrightarrow> (\<forall>y\<in>set snapshots. snd y = seen)"
    by (auto simp: list_all_iff snapshots)
  also have "\<dots> \<longleftrightarrow> (\<forall>x\<in>set snapshots. \<forall>y\<in>set snapshots. snapshots_agree x y)"
  proof
    assume all: "\<forall>y\<in>set snapshots. snd y = seen"
    show "\<forall>x\<in>set snapshots. \<forall>y\<in>set snapshots. snapshots_agree x y"
    proof (intro ballI)
      fix x y assume "x \<in> set snapshots" "y \<in> set snapshots"
      then have "x = (fst x, seen)" "snd y = seen" using all by auto
      then show "snapshots_agree x y" using agree by metis
    qed
  next
    assume "\<forall>x\<in>set snapshots. \<forall>y\<in>set snapshots. snapshots_agree x y"
    then have "\<forall>y\<in>set snapshots. snapshots_agree (e, seen) y" by (simp add: snapshots)
    then show "\<forall>y\<in>set snapshots. snd y = seen" by (simp add: agree)
  qed
  finally show ?thesis by (simp add: snapshots)
qed

lemma consistent_snapshots_pairs:
  assumes "snapshots \<noteq> []"
  shows "consistent_snapshots snapshots = Inr () \<longleftrightarrow>
    (\<forall>x\<in>set snapshots. \<forall>y\<in>set snapshots. snapshots_agree x y)"
proof (cases "operation_of (snd (hd snapshots))")
  case None
  then show ?thesis
    using all_agree_with_head [OF assms None] by (simp add: consistent_snapshots_def)
next
  case (Some p)
  let ?all = "\<forall>(e, seen)\<in>set snapshots. operation_of seen \<noteq> None"
  have "consistent_snapshots snapshots = Inr () \<longleftrightarrow> ?all \<and> consistent_polls (operations_of snapshots) = Inr ()"
    using Some operations_of_all by (simp add: consistent_snapshots_def)
  also have "\<dots> \<longleftrightarrow> ?all \<and>
      (\<forall>x\<in>set (operations_of snapshots). \<forall>y\<in>set (operations_of snapshots). polls_agree x y)"
  proof (rule conj_cong [OF refl], rule consistent_polls_pairs)
    assume ?all
    then have "length (operations_of snapshots) = length snapshots" using operations_of_all by blast
    then show "operations_of snapshots \<noteq> []" using assms by auto
  qed
  also have "\<dots> \<longleftrightarrow> (\<forall>x\<in>set snapshots. \<forall>y\<in>set snapshots. snapshots_agree x y)" (is "?left \<longleftrightarrow> ?right")
  proof
    assume ?left
    then show ?right
      by (auto simp: set_operations_of snapshots_agree_def split: option.splits dest!: operation_of_SomeD)
  next
    assume right: ?right
    have "operation_of seen \<noteq> None" if "(e, seen) \<in> set snapshots" for e seen
    proof -
      have "snapshots_agree (hd snapshots) (e, seen)" using right that hd_in_set [OF assms] by blast
      then show ?thesis using Some by (auto simp: snapshots_agree_def split: option.splits prod.splits)
    qed
    moreover have "polls_agree (e, p) (e', p')"
      if "(e, Operation_Observation p) \<in> set snapshots" "(e', Operation_Observation p') \<in> set snapshots" for e p e' p'
      using bspec [OF bspec [OF right that(1)] that(2)] by (simp add: snapshots_agree_def)
    ultimately show ?left by (auto simp: set_operations_of)
  qed
  finally show ?thesis .
qed

lemma map_result_unit: "(\<exists>ys. map_result f xs = Inr ys) \<longleftrightarrow> (\<forall>x\<in>set xs. \<exists>y. f x = Inr y)"
  by (induction xs) auto

lemma require_consistent_observations_pairs:
  "require_consistent_observations evidence observations = Inr () \<longleftrightarrow>
    (\<forall>x\<in>set (zip evidence observations). \<forall>y\<in>set (zip evidence observations).
      resource_key (fst x) = resource_key (fst y) \<longrightarrow> snapshots_agree x y)"
proof -
  let ?snapshots = "zip evidence observations"
  let ?group = "\<lambda>k. filter (\<lambda>(e, _). resource_key e = k) ?snapshots"
  let ?keys = "insertion_order (map (resource_key \<circ> fst) ?snapshots)"
  have keys: "set ?keys = (resource_key \<circ> fst) ` set ?snapshots"
    by (simp add: insertion_order_def)
  have members: "set (?group k) = {x \<in> set ?snapshots. resource_key (fst x) = k}" for k
    by (simp add: case_prod_unfold)
  have "require_consistent_observations evidence observations = Inr () \<longleftrightarrow>
      (\<forall>k\<in>set ?keys. consistent_snapshots (?group k) = Inr ())"
    by (simp add: require_consistent_observations_def Let_def map_result_unit)
  also have "\<dots> \<longleftrightarrow> (\<forall>k\<in>set ?keys. \<forall>x\<in>set (?group k). \<forall>y\<in>set (?group k). snapshots_agree x y)"
  proof (rule ball_cong [OF refl], rule consistent_snapshots_pairs)
    fix k assume "k \<in> set ?keys"
    then obtain x where "x \<in> set (?group k)" unfolding keys members by auto
    then show "?group k \<noteq> []" by (rule not_empty_of_member)
  qed
  finally show ?thesis unfolding keys members by auto
qed

lemma coherence_pairs:
  "require_stage_revision_coherence observations = Inr () \<longleftrightarrow>
    (\<forall>x\<in>set observations. \<forall>y\<in>set observations.
      observed_revision x = None \<or> observed_revision y = None \<or> observed_revision x = observed_revision y)"
proof -
  let ?revisions = "List.map_filter observed_revision observations"
  have members: "set ?revisions = {r. \<exists>x\<in>set observations. observed_revision x = Some r}"
    by (induction observations) (auto split: option.splits)
  have "length (remdups ?revisions) \<le> 1 \<longleftrightarrow> (\<forall>r\<in>set ?revisions. \<forall>s\<in>set ?revisions. r = s)"
    by (simp add: length_remdups_card_conv card_le_Suc0_iff_eq)
  also have "\<dots> \<longleftrightarrow> (\<forall>x\<in>set observations. \<forall>y\<in>set observations.
      observed_revision x = None \<or> observed_revision y = None \<or> observed_revision x = observed_revision y)"
    unfolding members by auto (metis not_None_eq option.inject)+
  finally show ?thesis by (simp add: require_stage_revision_coherence_def)
qed

text \<open>Two snapshots that a profile can keep together.\<close>

definition compatible :: "recovery_action_profile \<Rightarrow> snapshot \<Rightarrow> snapshot \<Rightarrow> bool" where
  "compatible p x y \<longleftrightarrow>
     (resource_key (fst x) = resource_key (fst y) \<longrightarrow> snapshots_agree x y) \<and>
     (p = STAGE_CLOUD_RUN_REVISION \<longrightarrow>
       observed_revision (snd x) = None \<or> observed_revision (snd y) = None \<or>
       observed_revision (snd x) = observed_revision (snd y))"

lemma compatible_refl: "compatible p x x"
  by (simp add: compatible_def snapshots_agree_refl)

lemma compatible_sym: "compatible p x y \<Longrightarrow> compatible p y x"
  by (auto simp: compatible_def intro: snapshots_agree_sym)

lemma coherent_pairs:
  assumes "length evidence = length observations"
  shows "coherent p evidence observations = Inr () \<longleftrightarrow>
    (\<forall>x\<in>set (zip evidence observations). \<forall>y\<in>set (zip evidence observations). compatible p x y)"
proof -
  have "set observations = snd ` set (zip evidence observations)"
    using assms by (metis map_snd_zip set_map)
  then show ?thesis
    by (simp add: coherent_def require_consistent_observations_pairs coherence_pairs compatible_def) blast
qed

section \<open>Conflict pairs\<close>

lemma combinations_all:
  assumes "\<And>x. P x x" "\<And>x y. P x y \<Longrightarrow> P y x"
  shows "(\<forall>(x, y)\<in>set (combinations xs). P x y) \<longleftrightarrow> (\<forall>x\<in>set xs. \<forall>y\<in>set xs. P x y)"
proof (induction xs)
  case (Cons x xs)
  have "(\<forall>(x, y)\<in>set (combinations (x # xs)). P x y) \<longleftrightarrow>
      (\<forall>y\<in>set xs. P x y) \<and> (\<forall>(x, y)\<in>set (combinations xs). P x y)"
    by auto
  then show ?case unfolding Cons.IH using assms by auto
qed simp

lemma coherent_violation: "coherent p evidence observations = Inl e \<Longrightarrow> \<exists>m. e = RecoveryRuleViolation m"
proof -
  have rule: "rule ok m = Inl e \<Longrightarrow> \<exists>m. e = RecoveryRuleViolation m" for ok m and e :: exn
    by (auto simp: rule_def require_def split: if_splits)
  have mapped: "map_result f xs = Inl e \<Longrightarrow> (\<And>x e'. f x = Inl e' \<Longrightarrow> \<exists>m. e' = RecoveryRuleViolation m) \<Longrightarrow>
      \<exists>m. e = RecoveryRuleViolation m" for f :: "'a \<Rightarrow> 'b result" and xs e
    by (induction xs) (auto simp: bind_result_def split: sum.splits)
  have polls: "consistent_polls polls = Inl e' \<Longrightarrow> \<exists>m. e' = RecoveryRuleViolation m" for polls e'
    by (auto simp: consistent_polls_def bind_result_def dest: rule split: sum.splits)
  have group: "consistent_snapshots snapshots = Inl e' \<Longrightarrow> \<exists>m. e' = RecoveryRuleViolation m" for snapshots e'
    by (auto simp: consistent_snapshots_def Let_def bind_result_def dest: rule polls
        split: sum.splits if_splits)
  show "coherent p evidence observations = Inl e \<Longrightarrow> \<exists>m. e = RecoveryRuleViolation m"
    by (auto simp: coherent_def require_consistent_observations_def require_stage_revision_coherence_def
        Let_def bind_result_def dest: rule mapped [OF _ group] split: sum.splits if_splits)
qed

lemma pair_conflict_result:
  "pair_conflict p (x, y) = Inr (if compatible p x y then [] else
     [(min (ev_evidence_id (fst x)) (ev_evidence_id (fst y)), max (ev_evidence_id (fst x)) (ev_evidence_id (fst y)))])"
proof -
  obtain a seen b seen' where xy: "x = (a, seen)" "y = (b, seen')" by (metis prod.exhaust)
  have "coherent p [a, b] [seen, seen'] = Inr () \<longleftrightarrow> compatible p x y"
    using compatible_refl [of p] compatible_sym [of p] by (subst coherent_pairs) (auto simp: xy)
  then show ?thesis
    using coherent_violation [of p "[a, b]" "[seen, seen']"]
    by (cases "coherent p [a, b] [seen, seen']") (auto simp: pair_conflict_def xy)
qed

lemma conflict_pairs_result:
  assumes "validated_recovery_observations E p a evidence False = Inr observations"
  shows "\<exists>conflicts. recovery_provider_conflict_pairs E p a evidence = Inr conflicts \<and>
    (conflicts = [] \<longleftrightarrow>
      (\<forall>x\<in>set (zip evidence observations). \<forall>y\<in>set (zip evidence observations). compatible p x y))"
proof -
  let ?pairs = "combinations (zip evidence observations)"
  let ?found = "\<lambda>(x, y). if compatible p x y then [] else
     [(min (ev_evidence_id (fst x)) (ev_evidence_id (fst y)), max (ev_evidence_id (fst x)) (ev_evidence_id (fst y)))]"
  have "map_result (pair_conflict p) ?pairs = Inr (map ?found ?pairs)"
    by (auto simp: map_result_eq_Inr list.rel_map pair_conflict_result intro!: list.rel_refl)
  then have "recovery_provider_conflict_pairs E p a evidence = Inr (sorted_set (concat (map ?found ?pairs)))"
    by (simp add: recovery_provider_conflict_pairs_def assms)
  moreover have "sorted_set (concat (map ?found ?pairs)) = [] \<longleftrightarrow> (\<forall>(x, y)\<in>set ?pairs. compatible p x y)"
    by (auto simp: case_prod_unfold split: if_splits)
  moreover note combinations_all [of "compatible p" "zip evidence observations", OF compatible_refl compatible_sym]
  ultimately show ?thesis by simp
qed

lemma validated_length:
  "validated_recovery_observations E p a evidence b = Inr observations \<Longrightarrow> length evidence = length observations"
  by (auto simp: validated_recovery_observations_def map_result_eq_Inr dest: list_all2_lengthD)

lemma conflict_free:
  assumes "validated_recovery_observations E p a evidence False = Inr observations"
  shows "recovery_provider_conflict_pairs E p a evidence = Inr [] \<longleftrightarrow> coherent p evidence observations = Inr ()"
  using conflict_pairs_result [OF assms] coherent_pairs [OF validated_length [OF assms], of p] by auto

section \<open>What a proof rests on\<close>

text \<open>Evidence that is read from the provider that the profile trusts, about the target of the action.\<close>

definition trusted_read :: "recovery_action_profile \<Rightarrow> semantic_action \<Rightarrow> normalized_evidence \<Rightarrow> bool" where
  "trusted_read p a e \<longleftrightarrow>
     ev_authority e = TARGET_STATE \<and> target_eq (ev_target e) (sa_target a) \<and>
     (\<exists>c\<in>set (profile_capabilities p). evidence_capability e = Some c \<and>
        (epv_source (ev_provenance e), epv_adapter_version (ev_provenance e)) = trusted_provenance c)"

definition asserts :: "normalized_evidence \<Rightarrow> expected_effect \<Rightarrow> effect_assertion_state \<Rightarrow> bool" where
  "asserts e x state \<longleftrightarrow> (\<exists>s\<in>set (ev_effect_assertions e). ea_effect_id s = ee_effect_id x \<and> ea_state s = state)"

lemma provider_observation_ofD:
  assumes "provider_observation_of E e = Inr seen"
  shows "\<exists>c. evidence_capability e = Some c \<and> observation_of E c (ev_correlation e) = Inr seen \<and>
    (epv_source (ev_provenance e), epv_adapter_version (ev_provenance e)) = trusted_provenance c"
  using assms by (auto simp: provider_observation_of_def split: option.splits if_splits sum.splits)

lemma validated_observationD:
  assumes "validated_observation E p a b e = Inr seen"
  shows "trusted_read p a e" "provider_observation_of E e = Inr seen"
    "validate_evidence_status e seen = Inr ()" "validate_observation_binding E p a e seen b = Inr ()"
proof -
  show "provider_observation_of E e = Inr seen" "validate_evidence_status e seen = Inr ()"
      "validate_observation_binding E p a e seen b = Inr ()"
    using assms by (auto simp: validated_observation_def)
  with assms provider_observation_ofD [of E e seen] show "trusted_read p a e"
    by (auto simp: validated_observation_def trusted_read_def split: option.splits)
qed

lemma proof_parts:
  assumes "validate_recovery_proof E p a expected c evidence = Inr u"
  obtains effects observations states where
    "list_all2 (\<lambda>e seen. validated_observation E p a True e = Inr seen) evidence observations"
    "evidence \<noteq> []" "expected_effects_by_scope E p a expected = Inr effects"
    "c \<noteq> UNKNOWN \<Longrightarrow> coherent p evidence observations = Inr ()"
    "assertion_states E effects evidence = Inr states"
    "list_all (\<lambda>(_, xs). length (definitive_states xs) \<le> 1) states"
    "proof_rule p a effects observations (map fst states) (effects_in ESTABLISHED states)
       (effects_in NOT_ESTABLISHED states) c = Inr ()"
proof -
  obtain seen effects observations states where
      seen: "validated_recovery_observations E p a evidence True = Inr seen" and
      rest: "expected_effects_by_scope E p a expected = Inr effects"
        "map_result (provider_observation_of E) evidence = Inr observations"
        "c \<noteq> UNKNOWN \<Longrightarrow> coherent p evidence observations = Inr ()"
        "assertion_states E effects evidence = Inr states"
        "list_all (\<lambda>(_, xs). length (definitive_states xs) \<le> 1) states"
        "proof_rule p a effects observations (map fst states) (effects_in ESTABLISHED states)
          (effects_in NOT_ESTABLISHED states) c = Inr ()"
    using assms by (auto simp: validate_recovery_proof_def validate_recovery_evidence_def split: if_splits)
  have valid: "list_all2 (\<lambda>e seen. validated_observation E p a True e = Inr seen) evidence seen" "evidence \<noteq> []"
    using seen by (auto simp: validated_recovery_observations_def map_result_eq_Inr)
  then have "map_result (provider_observation_of E) evidence = Inr seen"
    unfolding map_result_eq_Inr by (auto elim!: list_all2_mono dest: validated_observationD)
  with rest(2) have "seen = observations" by simp
  with that valid rest show ?thesis by blast
qed

lemma observation_member:
  assumes "list_all2 (\<lambda>e seen. validated_observation E p a b e = Inr seen) evidence observations"
  shows "e \<in> set evidence \<Longrightarrow> \<exists>seen\<in>set observations. validated_observation E p a b e = Inr seen"
    "seen \<in> set observations \<Longrightarrow> \<exists>e\<in>set evidence. validated_observation E p a b e = Inr seen"
  using assms by (induction evidence observations rule: list_all2_induct) auto

lemma definitive_singleton: "definitive_states xs = [x] \<longleftrightarrow>
    x \<noteq> UNVERIFIED \<and> x \<in> set xs \<and> (\<forall>y\<in>set xs. y = x \<or> y = UNVERIFIED)"
proof -
  let ?kept = "filter (\<lambda>x. x \<noteq> UNVERIFIED) xs"
  have "remdups ?kept = [x] \<longleftrightarrow> set ?kept = {x}"
  proof
    assume kept: "set ?kept = {x}"
    then have "length (remdups ?kept) = 1" by (simp add: length_remdups_card_conv)
    then obtain y where "remdups ?kept = [y]" by (auto simp: length_Suc_conv)
    moreover from this have "set ?kept = {y}" by (metis set_remdups list.set(1,2))
    ultimately show "remdups ?kept = [x]" using kept by simp
  qed (metis set_remdups list.set(1,2))
  then show ?thesis unfolding definitive_states_def by auto
qed

lemma expected_effectsD:
  assumes "expected_effects_by_scope E p a expected = Inr effects"
  shows "effects = map (\<lambda>e. (ee_commit_scope e, e)) expected" "distinct (map ee_commit_scope expected)"
    "\<exists>predicates. profile_predicates E p a effects = Inr predicates \<and> set (map fst effects) = set (map fst predicates)"
  using assms by (auto simp: expected_effects_by_scope_def Let_def)

lemma expected_nonempty:
  assumes "expected_effects_by_scope E p a expected = Inr effects"
  shows "expected \<noteq> []"
proof
  assume "expected = []"
  with expected_effectsD(1,3) [OF assms] obtain predicates where
      "profile_predicates E p a effects = Inr predicates" "predicates = []" by auto
  then show False by (cases p) (simp_all add: profile_predicates_def Let_def)
qed

lemma expected_scope:
  assumes "effects = map (\<lambda>e. (ee_commit_scope e, e)) expected" "distinct (map ee_effect_id expected)"
    and "x \<in> set expected"
  shows "map_of (scope_by_effect effects) (ee_effect_id x) = Some (ee_commit_scope x)"
proof -
  have "distinct (map fst (scope_by_effect effects))"
    using assms(1,2) by (simp add: scope_by_effect_def comp_def flip: rev_map)
  moreover have "(ee_effect_id x, ee_commit_scope x) \<in> set (scope_by_effect effects)"
    using assms(1,3) by (auto simp: scope_by_effect_def)
  ultimately show ?thesis by simp
qed

lemma set_scope_by_effect:
  "effects = map (\<lambda>e. (ee_commit_scope e, e)) expected \<Longrightarrow>
   set (map fst (scope_by_effect effects)) = ee_effect_id ` set expected"
  by (force simp: scope_by_effect_def)

lemma recorded_assertion_Inr:
  assumes "recorded_assertion scopes seen x = Inr y"
  shows "y = (ea_effect_id x, ea_state x) \<and> (\<exists>scope. map_of scopes (ea_effect_id x) = Some scope \<and>
    (ea_state x = UNVERIFIED \<or> scope \<in> set (observed_scopes seen) \<and> ea_state x = provider_effect_state seen scope))"
  using assms by (auto simp: recorded_assertion_def split: option.splits)

lemma map_result_members:
  assumes "map_result f xs = Inr ys"
  shows "x \<in> set xs \<Longrightarrow> \<exists>y\<in>set ys. f x = Inr y" "y \<in> set ys \<Longrightarrow> \<exists>x\<in>set xs. f x = Inr y"
proof -
  have "list_all2 (\<lambda>x y. f x = Inr y) xs ys" using assms by (simp add: map_result_eq_Inr)
  then show "x \<in> set xs \<Longrightarrow> \<exists>y\<in>set ys. f x = Inr y" "y \<in> set ys \<Longrightarrow> \<exists>x\<in>set xs. f x = Inr y"
    by (induction xs ys rule: list_all2_induct) auto
qed

lemma recorded_member:
  assumes "map_result (recorded_assertions E scopes) evidence = Inr recorded"
  shows "(i, state) \<in> set (concat recorded) \<longleftrightarrow>
    (\<exists>e\<in>set evidence. \<exists>s\<in>set (ev_effect_assertions e). ea_effect_id s = i \<and> ea_state s = state)"
proof -
  have one: "(i, state) \<in> set ys \<longleftrightarrow> (\<exists>s\<in>set (ev_effect_assertions e). ea_effect_id s = i \<and> ea_state s = state)"
    if "recorded_assertions E scopes e = Inr ys" for e ys
  proof -
    obtain seen where "map_result (recorded_assertion scopes seen) (ev_effect_assertions e) = Inr ys"
      using \<open>recorded_assertions E scopes e = Inr ys\<close> by (auto simp: recorded_assertions_def)
    from map_result_members [OF this] show ?thesis by (metis prod.inject recorded_assertion_Inr)
  qed
  have "(i, state) \<in> set (concat recorded) \<longleftrightarrow> (\<exists>ys\<in>set recorded. (i, state) \<in> set ys)" by simp
  also have "\<dots> \<longleftrightarrow> (\<exists>e\<in>set evidence. \<exists>s\<in>set (ev_effect_assertions e). ea_effect_id s = i \<and> ea_state s = state)"
    using map_result_members [OF assms] one by metis
  finally show ?thesis .
qed

lemma assertion_statesD:
  assumes "assertion_states E effects evidence = Inr states"
  shows "set (map fst states) = set (map fst (scope_by_effect effects))"
    and "(i, xs) \<in> set states \<Longrightarrow>
      set xs = {x. \<exists>e\<in>set evidence. \<exists>s\<in>set (ev_effect_assertions e). ea_effect_id s = i \<and> ea_state s = x}"
    and "e \<in> set evidence \<Longrightarrow> s \<in> set (ev_effect_assertions e) \<Longrightarrow> ea_state s \<noteq> UNVERIFIED \<Longrightarrow>
      \<exists>seen scope. provider_observation_of E e = Inr seen \<and>
        map_of (scope_by_effect effects) (ea_effect_id s) = Some scope \<and>
        scope \<in> set (observed_scopes seen) \<and> provider_effect_state seen scope = ea_state s"
proof -
  obtain recorded where recorded: "map_result (recorded_assertions E (scope_by_effect effects)) evidence = Inr recorded"
      and states: "states = map (\<lambda>i. (i, map snd (filter (\<lambda>(j, _). j = i) (concat recorded))))
        (remdups (map fst (scope_by_effect effects)))"
    using assms by (auto simp: assertion_states_def Let_def)
  show "set (map fst states) = set (map fst (scope_by_effect effects))" by (simp add: states comp_def)
  show "set xs = {x. \<exists>e\<in>set evidence. \<exists>s\<in>set (ev_effect_assertions e). ea_effect_id s = i \<and> ea_state s = x}"
    if "(i, xs) \<in> set states"
  proof -
    have xs: "xs = map snd (filter (\<lambda>(j, _). j = i) (concat recorded))"
      using \<open>(i, xs) \<in> set states\<close> unfolding states by auto
    have "set xs = {x. (i, x) \<in> set (concat recorded)}" unfolding xs by force
    then show ?thesis unfolding recorded_member [OF recorded] .
  qed
  show "\<exists>seen scope. provider_observation_of E e = Inr seen \<and>
      map_of (scope_by_effect effects) (ea_effect_id s) = Some scope \<and>
      scope \<in> set (observed_scopes seen) \<and> provider_effect_state seen scope = ea_state s"
    if e: "e \<in> set evidence" and s: "s \<in> set (ev_effect_assertions e)" "ea_state s \<noteq> UNVERIFIED"
  proof -
    obtain ys seen where "provider_observation_of E e = Inr seen"
        "map_result (recorded_assertion (scope_by_effect effects) seen) (ev_effect_assertions e) = Inr ys"
      using map_result_members(1) [OF recorded e] by (auto simp: recorded_assertions_def)
    with map_result_members(1) [OF _ s(1)] s(2) show ?thesis by (metis recorded_assertion_Inr)
  qed
qed

lemma effects_in_iff:
  assumes "assertion_states E effects evidence = Inr states"
    and "effects = map (\<lambda>e. (ee_commit_scope e, e)) expected" "x \<in> set expected" "state \<noteq> UNVERIFIED"
  shows "ee_effect_id x \<in> set (effects_in state states) \<longleftrightarrow>
    (\<exists>e\<in>set evidence. asserts e x state) \<and>
    (\<forall>e\<in>set evidence. \<forall>other. asserts e x other \<longrightarrow> other \<in> {state, UNVERIFIED})"
proof -
  have "ee_effect_id x \<in> set (map fst states)"
    using assertion_statesD(1) [OF assms(1)] set_scope_by_effect [OF assms(2)] assms(3) by simp
  then obtain xs where xs: "(ee_effect_id x, xs) \<in> set states" by auto
  have members: "set xs' = {y. \<exists>e\<in>set evidence. asserts e x y}" if "(ee_effect_id x, xs') \<in> set states" for xs'
    using assertion_statesD(2) [OF assms(1) that] by (simp add: asserts_def)
  have "ee_effect_id x \<in> set (effects_in state states) \<longleftrightarrow>
      (\<exists>xs'. (ee_effect_id x, xs') \<in> set states \<and> definitive_states xs' = [state])"
    by (force simp: effects_in_def)
  also have "\<dots> \<longleftrightarrow> (\<exists>e\<in>set evidence. asserts e x state) \<and>
      (\<forall>e\<in>set evidence. \<forall>other. asserts e x other \<longrightarrow> other = state \<or> other = UNVERIFIED)"
    using xs members [OF xs] members assms(4) unfolding definitive_singleton by blast
  finally show ?thesis by simp
qed

section \<open>Committed, not committed, partial\<close>

text \<open>
  What the provider must have reported for a committed action: for a staged revision, that the
  revision of the action exists with its image, is ready and takes no traffic; for a promotion, that
  the service has settled with all its traffic on the revision; for a release record, the document.
\<close>

fun provider_committed ::
  "env \<Rightarrow> recovery_action_profile \<Rightarrow> semantic_action \<Rightarrow> provider_observation list \<Rightarrow> bool" where
  "provider_committed E STAGE_CLOUD_RUN_REVISION a observations =
     (\<exists>s r. Service_Observation s \<in> set observations \<and> Revision_Observation r \<in> set observations \<and>
        settled_service s \<and> so_revision_traffic_percent s = ''0'' \<and> ready_revision r \<and>
        stage_revision_of E a = Inr (so_revision s) \<and> rvo_revision r = so_revision s \<and>
        field_is (\<lambda>v. v = JStr (rvo_image_digest r)) (sa_semantic_arguments a) ''image_digest'')"
| "provider_committed E PROMOTE_CLOUD_RUN_TRAFFIC a observations =
     (\<exists>s. Service_Observation s \<in> set observations \<and> settled_service s \<and>
        so_revision_traffic_percent s = ''100'' \<and> names_revision a (so_revision s))"
| "provider_committed E CREATE_FIRESTORE_RELEASE_RECORD a observations =
     (\<exists>d. Document_Observation d \<in> set observations \<and> fo_exists d = ''true'' \<and>
        field_is (\<lambda>v. v = JStr (fo_payload_sha256 d)) (sa_semantic_arguments a) ''payload_sha256'')"

lemma set_map_filter: "x \<in> set (List.map_filter f xs) \<longleftrightarrow> (\<exists>y\<in>set xs. f y = Some x)"
  by (induction xs) (auto split: option.splits)

lemma map_filter_nonempty: "List.map_filter f xs \<noteq> [] \<longleftrightarrow> (\<exists>y\<in>set xs. \<exists>x. f y = Some x)"
  by (metis ex_in_conv set_empty set_map_filter)

lemma observer_eq:
  "service_of seen = Some s \<longleftrightarrow> seen = Service_Observation s"
  "revision_of seen = Some r \<longleftrightarrow> seen = Revision_Observation r"
  "document_of seen = Some d \<longleftrightarrow> seen = Document_Observation d"
  by (cases seen; simp)+

lemma bindingD:
  assumes "validated_observation E p a b e = Inr seen"
  shows "observation_identity p a seen = Inr ()"
    and "b \<Longrightarrow> p = STAGE_CLOUD_RUN_REVISION \<Longrightarrow> observed_revision seen = Some r \<Longrightarrow> stage_revision_of E a = Inr r"
  using validated_observationD(4) [OF assms] by (auto simp: validate_observation_binding_def)

lemma commit_rule:
  assumes "list_all2 (\<lambda>e seen. validated_observation E p a True e = Inr seen) evidence observations"
    and "proof_rule p a effects observations ids established not_established COMMITTED = Inr u"
  shows "provider_committed E p a observations"
proof -
  have bound: "observation_identity p a seen = Inr ()"
      "p = STAGE_CLOUD_RUN_REVISION \<Longrightarrow> observed_revision seen = Some r \<Longrightarrow> stage_revision_of E a = Inr r"
    if "seen \<in> set observations" for seen r
    using observation_member(2) [OF assms(1) that] bindingD by blast+
  show ?thesis
  proof (cases p)
    case STAGE_CLOUD_RUN_REVISION
    with assms(2) have commit: "require_stage_commit observations = Inr ()" by (simp add: proof_rule_def)
    then obtain s r where sr: "Service_Observation s \<in> set observations" "Revision_Observation r \<in> set observations"
        "settled_service s" "so_revision_traffic_percent s = ''0''" "ready_revision r"
      by (auto simp: require_stage_commit_def Let_def map_filter_nonempty list_all_iff set_map_filter observer_eq)
    have "stage_revision_of E a = Inr (so_revision s)" "stage_revision_of E a = Inr (rvo_revision r)"
      using bound(2) [OF sr(1) STAGE_CLOUD_RUN_REVISION] bound(2) [OF sr(2) STAGE_CLOUD_RUN_REVISION] by simp_all
    with sr bound(1) [OF sr(2)] show ?thesis
      by (auto simp: STAGE_CLOUD_RUN_REVISION observation_identity.simps Let_def)
  next
    case PROMOTE_CLOUD_RUN_TRAFFIC
    with assms(2) have "require_promotion_commit a observations = Inr ()" by (simp add: proof_rule_def)
    then show ?thesis
      by (auto simp: PROMOTE_CLOUD_RUN_TRAFFIC require_promotion_commit_def Let_def map_filter_nonempty
          list_all_iff set_map_filter observer_eq)
  next
    case CREATE_FIRESTORE_RELEASE_RECORD
    with assms(2) have "require_firestore_commit a effects observations = Inr ()" by (simp add: proof_rule_def)
    then obtain d where "Document_Observation d \<in> set observations" "fo_exists d = ''true''"
      by (auto simp: require_firestore_commit_def Let_def map_filter_nonempty list_all_iff set_map_filter
          observer_eq)
    with bound(1) [of "Document_Observation d"] show ?thesis
      by (auto simp: CREATE_FIRESTORE_RELEASE_RECORD observation_identity.simps)
  qed
qed

lemma committed_effects:
  assumes committed: "validate_recovery_proof E p a expected COMMITTED evidence = Inr u"
    and ids: "distinct (map ee_effect_id expected)" and x: "x \<in> set expected"
  shows "\<exists>e\<in>set evidence. \<exists>seen. trusted_read p a e \<and> asserts e x ESTABLISHED \<and>
      provider_observation_of E e = Inr seen \<and> ee_commit_scope x \<in> set (observed_scopes seen) \<and>
      provider_effect_state seen (ee_commit_scope x) = ESTABLISHED"
    and "\<forall>e\<in>set evidence. \<not> asserts e x NOT_ESTABLISHED"
proof -
  from committed obtain effects observations states where
      valid: "list_all2 (\<lambda>e seen. validated_observation E p a True e = Inr seen) evidence observations" and
      effects: "expected_effects_by_scope E p a expected = Inr effects" and
      states: "assertion_states E effects evidence = Inr states" and
      rule: "proof_rule p a effects observations (map fst states) (effects_in ESTABLISHED states)
        (effects_in NOT_ESTABLISHED states) COMMITTED = Inr ()"
    by (rule proof_parts) blast
  note effects_eq = expected_effectsD(1) [OF effects]
  have "ee_effect_id x \<in> set (map fst states)"
    using assertion_statesD(1) [OF states] set_scope_by_effect [OF effects_eq] x by simp
  then have "ee_effect_id x \<in> set (effects_in ESTABLISHED states)"
    using rule by (simp add: proof_rule_def)
  then have established: "\<exists>e\<in>set evidence. asserts e x ESTABLISHED"
      "\<forall>e\<in>set evidence. \<forall>other. asserts e x other \<longrightarrow> other \<in> {ESTABLISHED, UNVERIFIED}"
    using effects_in_iff [OF states effects_eq x] by simp_all
  then show "\<forall>e\<in>set evidence. \<not> asserts e x NOT_ESTABLISHED" by blast
  from established(1) obtain e s where e: "e \<in> set evidence" "asserts e x ESTABLISHED"
      and s: "s \<in> set (ev_effect_assertions e)" "ea_effect_id s = ee_effect_id x" "ea_state s = ESTABLISHED"
    by (auto simp: asserts_def)
  have "trusted_read p a e" using observation_member(1) [OF valid e(1)] validated_observationD(1) by blast
  moreover obtain seen where "provider_observation_of E e = Inr seen"
      "ee_commit_scope x \<in> set (observed_scopes seen)"
      "provider_effect_state seen (ee_commit_scope x) = ESTABLISHED"
    using assertion_statesD(3) [OF states e(1) s(1)] expected_scope [OF effects_eq ids x] s by auto
  ultimately show "\<exists>e\<in>set evidence. \<exists>seen. trusted_read p a e \<and> asserts e x ESTABLISHED \<and>
      provider_observation_of E e = Inr seen \<and> ee_commit_scope x \<in> set (observed_scopes seen) \<and>
      provider_effect_state seen (ee_commit_scope x) = ESTABLISHED"
    using e by blast
qed

lemma committed_state:
  assumes "validate_recovery_proof E p a expected COMMITTED evidence = Inr u"
  shows "\<exists>observations. map_result (provider_observation_of E) evidence = Inr observations \<and>
    provider_committed E p a observations"
proof -
  from assms obtain effects observations states where
      valid: "list_all2 (\<lambda>e seen. validated_observation E p a True e = Inr seen) evidence observations" and
      rule: "proof_rule p a effects observations (map fst states) (effects_in ESTABLISHED states)
        (effects_in NOT_ESTABLISHED states) COMMITTED = Inr ()"
    by (rule proof_parts) blast
  have "map_result (provider_observation_of E) evidence = Inr observations"
    using valid unfolding map_result_eq_Inr by (auto elim!: list_all2_mono dest: validated_observationD)
  with commit_rule [OF valid rule] show ?thesis by blast
qed

lemma receipt_observer: "is_receipt seen \<longleftrightarrow> (\<exists>r. seen = Receipt_Observation r)"
  by (cases seen) simp_all

lemma not_committed_receipts:
  assumes "validate_recovery_proof E p a expected NOT_COMMITTED evidence = Inr u"
  shows "p = CREATE_FIRESTORE_RELEASE_RECORD" "evidence \<noteq> []"
    and "e \<in> set evidence \<Longrightarrow> trusted_read p a e \<and> ev_operation_status e = Some TERMINAL_NOT_COMMITTED \<and>
      (\<exists>r. provider_observation_of E e = Inr (Receipt_Observation r) \<and>
        po_semantic_action_sha256 r = sa_semantic_action_sha256 a)"
proof -
  from assms obtain effects observations states where
      valid: "list_all2 (\<lambda>e seen. validated_observation E p a True e = Inr seen) evidence observations" and
      nonempty: "evidence \<noteq> []" and
      rule: "proof_rule p a effects observations (map fst states) (effects_in ESTABLISHED states)
        (effects_in NOT_ESTABLISHED states) NOT_COMMITTED = Inr ()"
    by (rule proof_parts) blast
  show "p = CREATE_FIRESTORE_RELEASE_RECORD" using rule by (simp add: proof_rule_def)
  show "evidence \<noteq> []" by (rule nonempty)
  show "trusted_read p a e \<and> ev_operation_status e = Some TERMINAL_NOT_COMMITTED \<and>
      (\<exists>r. provider_observation_of E e = Inr (Receipt_Observation r) \<and>
        po_semantic_action_sha256 r = sa_semantic_action_sha256 a)" if e: "e \<in> set evidence"
  proof -
    obtain seen where seen: "seen \<in> set observations" "validated_observation E p a True e = Inr seen"
      using observation_member(1) [OF valid e] by blast
    with rule obtain r where r: "seen = Receipt_Observation r"
      by (auto simp: proof_rule_def list_all_iff receipt_observer)
    show ?thesis
      using validated_observationD [OF seen(2)] bindingD(1) [OF seen(2)]
      by (simp add: r validate_evidence_status_def Let_def observation_identity.simps)
  qed
qed

text \<open>The evidence of one effect decides: the three definitive classifications exclude each other.\<close>

lemma definitive_exclusive:
  assumes "validate_recovery_proof E p a expected c evidence = Inr u"
    and "validate_recovery_proof E p a expected c' evidence = Inr u'"
    and "c \<in> {COMMITTED, NOT_COMMITTED, PARTIAL}" "c' \<in> {COMMITTED, NOT_COMMITTED, PARTIAL}"
  shows "c = c'"
proof -
  obtain effects observations states where
      effects: "expected_effects_by_scope E p a expected = Inr effects" and
      states: "assertion_states E effects evidence = Inr states" and
      valid: "list_all2 (\<lambda>e seen. validated_observation E p a True e = Inr seen) evidence observations" and
      rule: "proof_rule p a effects observations (map fst states) (effects_in ESTABLISHED states)
        (effects_in NOT_ESTABLISHED states) c = Inr ()"
    using proof_parts [OF assms(1)] by blast
  obtain effects' observations' states' where
      effects': "expected_effects_by_scope E p a expected = Inr effects'" and
      states': "assertion_states E effects' evidence = Inr states'" and
      rule': "proof_rule p a effects' observations' (map fst states') (effects_in ESTABLISHED states')
        (effects_in NOT_ESTABLISHED states') c' = Inr ()"
    using proof_parts [OF assms(2)] by blast
  have same: "states' = states" using effects effects' states states' by simp
  obtain x where "x \<in> set expected" using expected_nonempty [OF effects] by (cases expected) auto
  then have "set (map fst states) \<noteq> {}"
    unfolding assertion_statesD(1) [OF states] set_scope_by_effect [OF expected_effectsD(1) [OF effects]]
    by auto
  with rule rule' assms(3,4) show ?thesis
    unfolding same by (auto simp: proof_rule_def)
qed

end
