(* ===== verification/Permit_Authority.thy ===== *)
theory Permit_Authority
  imports Permit_Store Recovery_Rules
begin

text \<open>
  The controller's authority over permits (\<open>controller/permits.py\<close>): a verified certificate gives one
  permit, the store keeps it, and a dispatch is claimed only when it is the certified transition.

  A clock reading and a fresh claim identifier are arguments of the operation that asks for them. A
  certificate and a semantic action that are revalidated from their own JSON are the same values
  up to the order of members of their objects, which nothing below reads.
\<close>

section \<open>From a certificate to a permit\<close>

definition authority_error :: "string \<Rightarrow> 'a store_result" where
  "authority_error m = Inl (Store_Raised (PermitAuthorityError m))"

definition trusted_certificate :: "env \<Rightarrow> certificate \<Rightarrow> certificate result" where
  "trusted_certificate E c =
     (case validate_certificate E c of
        Inl _ \<Rightarrow> Inl (PermitAuthorityError ''verified certificate is invalid'')
      | Inr trusted \<Rightarrow> Inr trusted)"

definition trusted_semantic_action :: "env \<Rightarrow> semantic_action \<Rightarrow> semantic_action result" where
  "trusted_semantic_action E a =
     (case validate_semantic_action E a of
        Inl _ \<Rightarrow> Inl (PermitAuthorityError ''dispatch semantic action is invalid'')
      | Inr trusted \<Rightarrow> Inr trusted)"

text \<open>\<open>_ALLOWED_TRANSITIONS\<close>: stage, promote, record; only the record may be retried.\<close>

definition allowed_transition :: "string \<Rightarrow> permit_action \<Rightarrow> string option" where
  "allowed_transition version action = map_of
     [((profile_version STAGE_CLOUD_RUN_REVISION, PA_CONTINUE), profile_version PROMOTE_CLOUD_RUN_TRAFFIC),
      ((profile_version PROMOTE_CLOUD_RUN_TRAFFIC, PA_CONTINUE), profile_version CREATE_FIRESTORE_RELEASE_RECORD),
      ((profile_version CREATE_FIRESTORE_RELEASE_RECORD, PA_RETRY), profile_version CREATE_FIRESTORE_RELEASE_RECORD)]
     (version, action)"

definition target_profile_version :: "certificate \<Rightarrow> string result" where
  "target_profile_version c =
     (case vc_transition c of
        None \<Rightarrow> Inl (PermitAuthorityError ''certificate does not authorize a transition'')
      | Some t \<Rightarrow>
        (case allowed_transition (vc_action_profile_version c) (ct_action t) of
           None \<Rightarrow> Inl (PermitAuthorityError ''certificate transition is outside permit policy'')
         | Some expected \<Rightarrow>
           (case filter (\<lambda>p. profile_version p = expected \<and> profile_tool_name p = ct_tool_name t \<and>
                recovery_version = ct_tool_version t) recovery_action_profiles of
              [p] \<Rightarrow> Inr (profile_version p)
            | _ \<Rightarrow> Inl (PermitAuthorityError ''certificate transition profile is not exact''))))"

definition issued_permit :: "env \<Rightarrow> certificate \<Rightarrow> certified_transition \<Rightarrow> string \<Rightarrow> string \<Rightarrow> action_permit" where
  "issued_permit E c t permit_id profile =
     \<lparr>ap_permit_id = permit_id, ap_certificate_id = vc_certificate_id c,
      ap_certificate_sha256 = canonical_sha256 E (certificate_json c), ap_chain_id = vc_chain_id c,
      ap_source_node_id = ct_source_node_id t, ap_target_node_id = ct_target_node_id t,
      ap_semantic_action_sha256 = ct_semantic_action_sha256 t, ap_action = ct_action t,
      ap_action_profile_version = profile, ap_action_policy_version = vc_action_policy_version c,
      ap_tool_name = ct_tool_name t, ap_tool_version = ct_tool_version t,
      ap_arguments_sha256 = ct_arguments_sha256 t, ap_target_sha256 = ct_target_sha256 t,
      ap_precondition_sha256 = ct_precondition_sha256 t, ap_issued_at = vc_issued_at c,
      ap_expires_at = vc_expires_at c, ap_state = ISSUED, ap_revision = 0, ap_claim_id = None,
      ap_claimed_at = None, ap_completed_at = None, ap_completion_outcome = None, ap_expired_at = None\<rparr>"

definition action_permit_from_certificate :: "env \<Rightarrow> certificate \<Rightarrow> action_permit option result" where
  "action_permit_from_certificate E c =
     bind_result (trusted_certificate E c) (\<lambda>trusted.
     case vc_transition trusted of
       None \<Rightarrow> Inr None
     | Some t \<Rightarrow>
         bind_result (target_profile_version trusted) (\<lambda>profile.
         bind_result (action_permit_id E (vc_certificate_id trusted) t) (\<lambda>permit_id.
         bind_result (validate_action_permit E (issued_permit E trusted t permit_id profile)) (\<lambda>p.
         Inr (Some p)))))"

text \<open>\<open>dispatch_arguments_sha256\<close> and \<open>dispatch_precondition_sha256\<close>.\<close>

definition dispatch_sha256 :: "env \<Rightarrow> json_object \<Rightarrow> string result" where
  "dispatch_sha256 E kvs = value_sha256 E (JObj kvs)"

section \<open>The authority\<close>

text \<open>The comparison in a \<open>try\<close> block that answers \<open>False\<close> for a \<open>TypeError\<close> or \<open>ValueError\<close>.\<close>

definition authority_agrees :: "env \<Rightarrow> action_permit \<Rightarrow> action_permit \<Rightarrow> bool result" where
  "authority_agrees E stored expected =
     (case same_action_permit_authority E stored expected of
        Inl e \<Rightarrow> if is_type_or_value_error e then Inr False else Inl e
      | Inr same \<Rightarrow> Inr same)"

definition authority_issue_permit ::
  "env \<Rightarrow> 'w permit_ops \<Rightarrow> string \<Rightarrow> certificate \<Rightarrow> time \<Rightarrow> 'w \<Rightarrow> action_permit option store_result \<times> 'w" where
  "authority_issue_permit E ops mutation_id c now w =
     (case action_permit_from_certificate E c of
        Inl e \<Rightarrow> (Inl (Store_Raised e), w)
      | Inr None \<Rightarrow> (Inr None, w)
      | Inr (Some p) \<Rightarrow>
          if now < ap_issued_at p \<or> ap_expires_at p \<le> now
          then (authority_error ''certificate is outside its permit issuance interval'', w)
          else (case issue_permit E ops mutation_id p w of
            (Inl e, w) \<Rightarrow> (Inl e, w)
          | (Inr stored, w) \<Rightarrow>
            (case authority_agrees E stored p of
               Inl e \<Rightarrow> (Inl (Store_Raised e), w)
             | Inr same \<Rightarrow>
                 (if same then Inr (Some stored) else authority_error ''permit store returned another authority'', w))))"

definition authority_get_permit ::
  "env \<Rightarrow> 'w permit_ops \<Rightarrow> string \<Rightarrow> 'w \<Rightarrow> action_permit store_result \<times> 'w" where
  "authority_get_permit E ops permit_id w =
     (case get_permit E ops permit_id w of
        (Inl e, w) \<Rightarrow> (Inl e, w)
      | (Inr p, w) \<Rightarrow>
          (if ap_permit_id p = permit_id then Inr p else authority_error ''permit store returned an invalid permit'', w))"

text \<open>What a caller asks to dispatch.\<close>

record dispatch =
  dp_semantic_action :: semantic_action
  dp_tool_name :: string
  dp_tool_version :: string
  dp_arguments :: json_object
  dp_target :: target_binding
  dp_precondition :: json_object

definition validated_dispatch :: "env \<Rightarrow> dispatch \<Rightarrow> recovery_action_profile result" where
  "validated_dispatch E d =
     bind_result (trusted_semantic_action E (dp_semantic_action d)) (\<lambda>a.
     case validate_recovery_dispatch E a (dp_tool_name d) (dp_tool_version d) (dp_arguments d) (dp_target d)
         (dp_precondition d) of
       Inl e \<Rightarrow>
         if is_type_or_value_error e
         then Inl (PermitAuthorityError ''dispatch does not match a sealed recovery action'') else Inl e
     | Inr profile \<Rightarrow> Inr profile)"

text \<open>The request that the authority sends when the dispatch is the certified one.\<close>

definition dispatch_request ::
  "env \<Rightarrow> string \<Rightarrow> action_permit \<Rightarrow> action_permit \<Rightarrow> dispatch \<Rightarrow> string \<Rightarrow> time \<Rightarrow> claim_request result" where
  "dispatch_request E permit_id expected persisted d claim_id requested_at =
     bind_result (validated_dispatch E d) (\<lambda>profile.
     bind_result (dispatch_sha256 E (dp_arguments d)) (\<lambda>arguments_sha256.
     bind_result (dispatch_sha256 E (dp_precondition d)) (\<lambda>precondition_sha256.
     let target_sha256 = canonical_sha256 E (target_binding_json (dp_target d)) in
     bind_result (require
       (profile_version profile = ap_action_profile_version expected \<and>
        sa_semantic_action_sha256 (dp_semantic_action d) = ap_semantic_action_sha256 expected \<and>
        arguments_sha256 = ap_arguments_sha256 expected \<and>
        target_sha256 = ap_target_sha256 expected \<and>
        precondition_sha256 = ap_precondition_sha256 expected)
       (PermitAuthorityError ''dispatch does not match the certified transition'')) (\<lambda>_.
     let request =
       \<lparr>cq_permit_id = permit_id, cq_claim_id = claim_id,
        cq_issued_permit_sha256 = permit_sha256 E persisted,
        cq_certificate_id = ap_certificate_id persisted,
        cq_certificate_sha256 = ap_certificate_sha256 persisted, cq_chain_id = ap_chain_id persisted,
        cq_source_node_id = ap_source_node_id persisted, cq_target_node_id = ap_target_node_id persisted,
        cq_semantic_action_sha256 = ap_semantic_action_sha256 persisted,
        cq_action_profile_version = ap_action_profile_version persisted,
        cq_action_policy_version = ap_action_policy_version persisted,
        cq_tool_name = dp_tool_name d, cq_tool_version = dp_tool_version d,
        cq_arguments_sha256 = arguments_sha256, cq_target_sha256 = target_sha256,
        cq_precondition_sha256 = precondition_sha256, cq_requested_at = requested_at\<rparr> in
     bind_result (require (claim_request_ok E request) (ValueError field_message)) (\<lambda>_. Inr request)))))"

definition claimed_answer ::
  "env \<Rightarrow> action_permit \<Rightarrow> string \<Rightarrow> time \<Rightarrow> time \<Rightarrow> action_permit \<Rightarrow> action_permit result" where
  "claimed_answer E persisted claim_id requested_at checked_at claimed =
     bind_result (validate_action_permit E (claimed_copy persisted claim_id requested_at)) (\<lambda>expected_claimed.
     bind_result (require (claimed = expected_claimed)
       (PermitAuthorityError ''permit store returned an invalid claim'')) (\<lambda>_.
     bind_result (require (requested_at \<le> checked_at \<and> checked_at < ap_expires_at claimed)
       (PermitAuthorityError ''durably claimed permit requires outcome reconciliation'')) (\<lambda>_. Inr claimed)))"

definition claim_for_dispatch ::
  "env \<Rightarrow> 'w permit_ops \<Rightarrow> (nat \<Rightarrow> string) \<Rightarrow> string \<Rightarrow> certificate \<Rightarrow> dispatch \<Rightarrow> string \<Rightarrow> time \<Rightarrow> time \<Rightarrow>
   'w \<Rightarrow> action_permit store_result \<times> 'w" where
  "claim_for_dispatch E ops fresh permit_id c d claim_id requested_at checked_at w =
     (case bind_result (trusted_certificate E c) (action_permit_from_certificate E) of
        Inl e \<Rightarrow> (Inl (Store_Raised e), w)
      | Inr None \<Rightarrow> (authority_error ''certificate does not authorize dispatch'', w)
      | Inr (Some expected) \<Rightarrow>
        if permit_id \<noteq> ap_permit_id expected
        then (authority_error ''permit identifier does not match certificate'', w)
        else (case get_permit E ops permit_id w of
          (Inl e, w) \<Rightarrow> (Inl e, w)
        | (Inr persisted, w) \<Rightarrow>
          (case authority_agrees E persisted expected of
             Inl e \<Rightarrow> (Inl (Store_Raised e), w)
           | Inr False \<Rightarrow> (authority_error ''durable permit does not match the certificate authority'', w)
           | Inr True \<Rightarrow>
             (case dispatch_request E permit_id expected persisted d claim_id requested_at of
                Inl e \<Rightarrow> (Inl (Store_Raised e), w)
              | Inr request \<Rightarrow>
                (case claim_permit E ops fresh request w of
                   (Inl e, w) \<Rightarrow> (Inl e, w)
                 | (Inr claimed, w) \<Rightarrow>
                     (case claimed_answer E persisted claim_id requested_at checked_at claimed of
                        Inl e \<Rightarrow> (Inl (Store_Raised e), w)
                      | Inr p \<Rightarrow> (Inr p, w)))))))"

definition complete_dispatch ::
  "env \<Rightarrow> 'w permit_ops \<Rightarrow> (nat \<Rightarrow> string) \<Rightarrow> action_permit \<Rightarrow> completion_outcome \<Rightarrow> time \<Rightarrow> 'w \<Rightarrow>
   action_permit store_result \<times> 'w" where
  "complete_dispatch E ops fresh claimed outcome completed_at w =
     (case ap_claim_id claimed of
        None \<Rightarrow> (authority_error ''an exact claimed permit is required'', w)
      | Some claim_id \<Rightarrow>
        if ap_state claimed \<noteq> CLAIMED then (authority_error ''an exact claimed permit is required'', w)
        else let request =
            \<lparr>kq_permit_id = ap_permit_id claimed, kq_claim_id = claim_id,
             kq_claimed_permit_sha256 = permit_sha256 E claimed, kq_outcome = outcome,
             kq_completed_at = completed_at\<rparr> in
          if \<not> completion_request_ok E request then (Inl (Store_Raised (ValueError field_message)), w)
          else (case complete_permit E ops fresh request w of
            (Inl e, w) \<Rightarrow> (Inl e, w)
          | (Inr completed, w) \<Rightarrow>
            (case validate_action_permit E (completed_copy claimed completed_at outcome) of
               Inl e \<Rightarrow> (Inl (Store_Raised e), w)
             | Inr expected \<Rightarrow>
                 (if completed = expected then Inr completed
                  else authority_error ''permit store returned an invalid completion'', w))))"

section \<open>A claimed dispatch\<close>

text \<open>The permit that a certificate gives carries exactly its transition, for one sealed profile.\<close>

lemma permit_certified:
  assumes "action_permit_from_certificate E c = Inr (Some p)"
  obtains t profile permit_id where "vc_transition c = Some t" "validate_certificate E c = Inr c" "valid_permit E p"
    "allowed_transition (vc_action_profile_version c) (ct_action t) = Some (profile_version profile)"
    "profile_tool_name profile = ct_tool_name t" "recovery_version = ct_tool_version t"
    "p = issued_permit E c t permit_id (profile_version profile)"
proof -
  have trusted: "trusted_certificate E c = Inr x \<Longrightarrow> x = c \<and> validate_certificate E c = Inr c" for x
    by (auto simp: trusted_certificate_def validate_certificate_def split: sum.splits)
  then obtain t version permit_id where t: "vc_transition c = Some t" "validate_certificate E c = Inr c"
      "target_profile_version c = Inr version" "p = issued_permit E c t permit_id version" "valid_permit E p"
    using assms by (auto simp: action_permit_from_certificate_def validate_action_permit_eq split: option.splits)
  obtain expected where expected: "allowed_transition (vc_action_profile_version c) (ct_action t) = Some expected"
    using t(1,3) by (cases "allowed_transition (vc_action_profile_version c) (ct_action t)")
      (auto simp: target_profile_version_def)
  let ?ps = "filter (\<lambda>p. profile_version p = expected \<and> profile_tool_name p = ct_tool_name t \<and>
      recovery_version = ct_tool_version t) recovery_action_profiles"
  obtain q where q: "?ps = [q]" "version = profile_version q"
    using t(1,3) expected by (auto simp: target_profile_version_def split: list.splits)
  then have "q \<in> set ?ps" by simp
  then have "profile_version q = expected" "profile_tool_name q = ct_tool_name t" "recovery_version = ct_tool_version t"
    by simp_all
  moreover from this expected
  have "allowed_transition (vc_action_profile_version c) (ct_action t) = Some (profile_version q)" by simp
  moreover have "p = issued_permit E c t permit_id (profile_version q)" using t(4) unfolding q(2) .
  ultimately show ?thesis using t(1,2,5) by (intro that)
qed

lemma permit_from_certificate:
  assumes "action_permit_from_certificate E c = Inr (Some p)"
  shows "vc_transition c = Some (sealed_transition p)" "ap_certificate_id p = vc_certificate_id c"
    "ap_expires_at p = vc_expires_at c" "ap_issued_at p = vc_issued_at c" "valid_permit E p"
    "ap_state p = ISSUED" "validate_certificate E c = Inr c"
    "allowed_transition (vc_action_profile_version c) (ap_action p) = Some (ap_action_profile_version p)"
proof -
  obtain t profile permit_id where parts: "vc_transition c = Some t" "validate_certificate E c = Inr c" "valid_permit E p"
      "allowed_transition (vc_action_profile_version c) (ct_action t) = Some (profile_version profile)"
      "p = issued_permit E c t permit_id (profile_version profile)"
    by (rule permit_certified [OF assms])
  from parts(1,4) show "vc_transition c = Some (sealed_transition p)"
      "allowed_transition (vc_action_profile_version c) (ap_action p) = Some (ap_action_profile_version p)"
    by (simp_all add: parts(5) issued_permit_def sealed_transition_def)
  show "ap_certificate_id p = vc_certificate_id c" "ap_expires_at p = vc_expires_at c"
      "ap_issued_at p = vc_issued_at c" "ap_state p = ISSUED"
    by (simp_all add: parts(5) issued_permit_def)
  show "valid_permit E p" "validate_certificate E c = Inr c" by (rule parts(3), rule parts(2))
qed

lemma profile_version_inj: "profile_version p = profile_version q \<Longrightarrow> p = q"
  by (metis option.inject profile_of_version)

lemma permit_profile:
  assumes "action_permit_from_certificate E c = Inr (Some p)"
    and "ap_action_profile_version p = profile_version profile"
  shows "ap_tool_name p = profile_tool_name profile" "ap_tool_version p = recovery_version"
proof -
  obtain t q permit_id where q: "profile_tool_name q = ct_tool_name t" "recovery_version = ct_tool_version t"
      "p = issued_permit E c t permit_id (profile_version q)"
    by (rule permit_certified [OF assms(1)])
  with assms(2) have "q = profile" by (intro profile_version_inj) (simp add: issued_permit_def)
  with q show "ap_tool_name p = profile_tool_name profile" "ap_tool_version p = recovery_version"
    by (simp_all add: issued_permit_def)
qed

text \<open>A dispatch is the one that a permit stands for.\<close>

definition dispatch_bound :: "env \<Rightarrow> dispatch \<Rightarrow> action_permit \<Rightarrow> bool" where
  "dispatch_bound E d p \<longleftrightarrow>
     (\<exists>profile. validated_dispatch E d = Inr profile \<and> profile_version profile = ap_action_profile_version p) \<and>
     sa_semantic_action_sha256 (dp_semantic_action d) = ap_semantic_action_sha256 p \<and>
     dispatch_sha256 E (dp_arguments d) = Inr (ap_arguments_sha256 p) \<and>
     canonical_sha256 E (target_binding_json (dp_target d)) = ap_target_sha256 p \<and>
     dispatch_sha256 E (dp_precondition d) = Inr (ap_precondition_sha256 p)"

lemma dispatch_requestD:
  assumes "dispatch_request E permit_id expected persisted d claim_id requested_at = Inr r"
  shows "claim_request_ok E r" "cq_permit_id r = permit_id" "cq_claim_id r = claim_id"
    "cq_requested_at r = requested_at" "dispatch_bound E d expected"
  using assms by (auto simp: dispatch_request_def dispatch_bound_def Let_def)

lemma dispatch_bound_cong:
  "permit_authority_fields p = permit_authority_fields q \<Longrightarrow> dispatch_bound E d p = dispatch_bound E d q"
  by (simp add: dispatch_bound_def permit_authority_fields_def)

lemma authority_agrees_fields:
  assumes "authority_agrees E p q = Inr True" "valid_permit E p" "valid_permit E q"
  shows "permit_authority_fields p = permit_authority_fields q"
proof -
  have "same_action_permit_authority E p q = Inr True"
    using assms(1) by (auto simp: authority_agrees_def split: sum.splits if_splits)
  moreover from this have "validate_action_permit_identity E p = Inr ()" "validate_action_permit_identity E q = Inr ()"
    by (auto simp: same_action_permit_authority_def)
  ultimately show ?thesis using same_authority_result [OF assms(2,3)] by simp
qed

context permit_port
begin

lemma claim_for_dispatch_parts:
  assumes E: "hexdigest_ok E" and w: "world_ok w"
    and c: "claim_for_dispatch E ops fresh permit_id c d claim_id requested_at checked_at w = (Inr p, w')"
  obtains expected persisted r w1 where
    "action_permit_from_certificate E c = Inr (Some expected)" "permit_id = ap_permit_id expected"
    "permit_authority_fields persisted = permit_authority_fields expected"
    "dispatch_request E permit_id expected persisted d claim_id requested_at = Inr r"
    "world_ok w1" "evolves (permit_legal E) (documents w) (documents w1)"
    "claim_permit E ops fresh r w1 = (Inr p, w')"
    "claimed_answer E persisted claim_id requested_at checked_at p = Inr p"
proof -
  obtain expected where expected: "action_permit_from_certificate E c = Inr (Some expected)"
      "permit_id = ap_permit_id expected"
    using c by (auto simp: claim_for_dispatch_def authority_error_def trusted_certificate_def validate_certificate_def
        split: sum.splits option.splits if_splits)
  have trusted: "trusted_certificate E c = Inr c"
    using permit_from_certificate(7) [OF expected(1)] by (simp add: trusted_certificate_def)
  obtain z w1 where read: "permit_read E ops permit_id w = (z, w1)" by (cases "permit_read E ops permit_id w")
  note law = permit_read_law [OF E w read]
  obtain s a where z: "z = Inr (s, a)"
    using c read expected by (cases z) (auto simp: claim_for_dispatch_def trusted get_permit_def)
  let ?persisted = "pa_permit a"
  have agrees: "authority_agrees E ?persisted expected = Inr True"
    using c read expected z
    by (auto simp: claim_for_dispatch_def trusted get_permit_def authority_error_def split: sum.splits bool.splits)
  have "permit_document_ok E (firestore_cas_document_path E ACTION_PERMIT permit_id) (cs_document s)"
      "a = cd_payload (cs_document s)" using law z by auto
  then have "valid_permit E ?persisted" by (auto simp: permit_document_ok_def intro: permit_run_valid)
  then have fields: "permit_authority_fields ?persisted = permit_authority_fields expected"
    using authority_agrees_fields [OF agrees] permit_from_certificate(5) [OF expected(1)] by simp
  obtain r where r: "dispatch_request E permit_id expected ?persisted d claim_id requested_at = Inr r"
    using c read expected z agrees
    by (cases "dispatch_request E permit_id expected ?persisted d claim_id requested_at")
      (auto simp: claim_for_dispatch_def trusted get_permit_def)
  obtain y w2 where y: "claim_permit E ops fresh r w1 = (y, w2)" by (cases "claim_permit E ops fresh r w1")
  have rest: "(case y of Inl e \<Rightarrow> (Inl e, w2) | Inr claimed \<Rightarrow>
      (case claimed_answer E ?persisted claim_id requested_at checked_at claimed of
         Inl e \<Rightarrow> (Inl (Store_Raised e), w2) | Inr p \<Rightarrow> (Inr p, w2))) = (Inr p, w')"
    using c read expected z agrees r y
    by (simp add: claim_for_dispatch_def trusted get_permit_def split: sum.splits)
  then obtain q where q: "y = Inr q" "claimed_answer E ?persisted claim_id requested_at checked_at q = Inr p" "w' = w2"
    by (auto split: sum.splits)
  moreover from this have "q = p" by (auto simp: claimed_answer_def)
  ultimately show ?thesis using that expected fields r law y by blast
qed

text \<open>A claimed dispatch is the certified transition, inside the validity of the certificate, and durable.\<close>

lemma claim_for_dispatch_law:
  assumes E: "hexdigest_ok E" and w: "world_ok w"
    and c: "claim_for_dispatch E ops fresh permit_id c d claim_id requested_at checked_at w = (Inr p, w')"
  shows "world_ok w' \<and> evolves (permit_legal E) (documents w) (documents w') \<and>
    validate_certificate E c = Inr c \<and> vc_transition c = Some (sealed_transition p) \<and>
    ap_permit_id p = permit_id \<and> ap_certificate_id p = vc_certificate_id c \<and>
    allowed_transition (vc_action_profile_version c) (ap_action p) = Some (ap_action_profile_version p) \<and>
    dispatch_bound E d p \<and>
    ap_state p = CLAIMED \<and> ap_claim_id p = Some claim_id \<and> ap_claimed_at p = Some requested_at \<and>
    requested_at \<le> checked_at \<and> checked_at < vc_expires_at c \<and>
    (\<exists>d t e. documents w' (firestore_cas_document_path E ACTION_PERMIT permit_id) = Some (d, t) \<and>
       e \<in> set (pa_audit_events (cd_payload d)) \<and> ae_kind e = K_CLAIMED \<and>
       ae_claim_id e = Some claim_id \<and> ae_occurred_at e = requested_at)"
proof -
  obtain expected persisted r w1 where parts:
      "action_permit_from_certificate E c = Inr (Some expected)" "permit_id = ap_permit_id expected"
      "permit_authority_fields persisted = permit_authority_fields expected"
      "dispatch_request E permit_id expected persisted d claim_id requested_at = Inr r"
      "world_ok w1" "evolves (permit_legal E) (documents w) (documents w1)"
      "claim_permit E ops fresh r w1 = (Inr p, w')"
      "claimed_answer E persisted claim_id requested_at checked_at p = Inr p"
    by (rule claim_for_dispatch_parts [OF E w c])
  note r = dispatch_requestD [OF parts(4)]
  note law = claim_permit_law [OF E r(1) parts(5,7)]
  have p: "p = claimed_copy persisted claim_id requested_at" "requested_at \<le> checked_at" "checked_at < ap_expires_at p"
    using parts(8) by (auto simp: claimed_answer_def validate_action_permit_eq)
  have same: "permit_authority_fields p = permit_authority_fields expected"
    using parts(3) by (simp add: p(1) permit_authority_fields_def claimed_copy_def)
  note certified = permit_from_certificate [OF parts(1)]
  have "sealed_transition p = sealed_transition expected" "ap_certificate_id p = ap_certificate_id expected"
      "ap_expires_at p = ap_expires_at expected" "ap_permit_id p = ap_permit_id expected"
      "ap_action p = ap_action expected" "ap_action_profile_version p = ap_action_profile_version expected"
    using same by (simp_all add: permit_authority_fields_def sealed_transition_def)
  moreover have "dispatch_bound E d p" using r(5) dispatch_bound_cong [OF same] by simp
  moreover have "ap_state p = CLAIMED" "ap_claim_id p = Some claim_id" "ap_claimed_at p = Some requested_at"
    by (simp_all add: p(1) claimed_copy_def)
  moreover have "evolves (permit_legal E) (documents w) (documents w')" using parts(6) law evolves_trans by blast
  moreover have "\<exists>d t e. documents w' (firestore_cas_document_path E ACTION_PERMIT permit_id) = Some (d, t) \<and>
       e \<in> set (pa_audit_events (cd_payload d)) \<and> ae_kind e = K_CLAIMED \<and>
       ae_claim_id e = Some claim_id \<and> ae_occurred_at e = requested_at"
    using law r(2,3,4) by auto
  ultimately show ?thesis using law certified parts(2) p(2,3) by simp
qed

text \<open>A certificate is dispatched once, by whatever clients and at whatever times.\<close>

lemma dispatched_once:
  assumes E: "hexdigest_ok E" and w: "world_ok w1" "world_ok w3"
    and evolve: "evolves (permit_legal E) (documents w2) (documents w3)"
    and c1: "claim_for_dispatch E ops fresh1 permit_id c1 d1 claim1 at1 checked1 w1 = (Inr p1, w2)"
    and c2: "claim_for_dispatch E ops fresh2 permit_id c2 d2 claim2 at2 checked2 w3 = (x, w4)"
  shows "x \<noteq> Inr p2"
proof
  assume "x = Inr p2"
  with c2 have c2: "claim_for_dispatch E ops fresh2 permit_id c2 d2 claim2 at2 checked2 w3 = (Inr p2, w4)" by simp
  obtain expected persisted r wa where first:
      "dispatch_request E permit_id expected persisted d1 claim1 at1 = Inr r"
      "world_ok wa" "claim_permit E ops fresh1 r wa = (Inr p1, w2)"
    by (rule claim_for_dispatch_parts [OF E w(1) c1])
  obtain expected' persisted' r' wb where second:
      "dispatch_request E permit_id expected' persisted' d2 claim2 at2 = Inr r'"
      "world_ok wb" "evolves (permit_legal E) (documents w3) (documents wb)"
      "claim_permit E ops fresh2 r' wb = (Inr p2, w4)"
    by (rule claim_for_dispatch_parts [OF E w(2) c2])
  note r = dispatch_requestD [OF first(1)] and r' = dispatch_requestD [OF second(1)]
  have "cq_permit_id r = cq_permit_id r'" using r(2) r'(2) by simp
  from claimed_permit_not_claimed_again [OF E r(1) r'(1) this first(2) second(2) _ first(3) second(4)]
  show False using evolves_trans [OF evolve second(3)] by blast
qed

end

section \<open>A dispatch without contention\<close>

lemma validated_dispatchD:
  assumes "validated_dispatch E d = Inr profile"
  shows "dp_tool_name d = profile_tool_name profile" "dp_tool_version d = recovery_version"
proof -
  have "\<And>a. trusted_semantic_action E (dp_semantic_action d) = Inr a \<Longrightarrow> a = dp_semantic_action d"
    by (auto simp: trusted_semantic_action_def validate_semantic_action_def split: sum.splits)
  moreover obtain a where a: "trusted_semantic_action E (dp_semantic_action d) = Inr a"
    using assms by (auto simp: validated_dispatch_def)
  ultimately have "validate_recovery_dispatch E (dp_semantic_action d) (dp_tool_name d) (dp_tool_version d)
      (dp_arguments d) (dp_target d) (dp_precondition d) = Inr profile"
    using assms
    by (cases "validate_recovery_dispatch E a (dp_tool_name d) (dp_tool_version d) (dp_arguments d) (dp_target d)
      (dp_precondition d)") (auto simp: validated_dispatch_def split: if_splits)
  note d = validate_recovery_dispatch_ok [OF this]
  from validate_recovery_action_ok [OF resolve_recovery_action_profile_ok(2) [OF d(1)]] d(2,3)
  show "dp_tool_name d = profile_tool_name profile" "dp_tool_version d = recovery_version" by simp_all
qed

text \<open>
  When the store holds the issued permit and nobody else writes, a dispatch that is the certified
  transition, at a time in the validity interval, is claimed.
\<close>

lemma quiet_dispatch:
  assumes E: "hexdigest_ok E" and c: "action_permit_from_certificate E c = Inr (Some p)"
    and identity: "validate_action_permit_identity E p = Inr ()"
    and docs: "pv_documents w (firestore_cas_document_path E ACTION_PERMIT (ap_permit_id p)) = Some (doc, t)"
    and doc: "permit_document_ok E (firestore_cas_document_path E ACTION_PERMIT (ap_permit_id p)) doc"
      "cd_logical_id doc = ap_permit_id p" "cas_document_ok E aggregate_bytes doc"
      "pa_permit (cd_payload doc) = p"
    and script: "pv_script w = quiet_turn # quiet_turn # quiet_turn # ts"
    and r: "dispatch_request E (ap_permit_id p) p p d claim_id at = Inr r"
    and time: "ae_occurred_at (last (pa_audit_events (cd_payload doc))) \<le> at" "ap_issued_at p \<le> at"
      "at \<le> checked_at" "checked_at < ap_expires_at p"
    and fresh: "identifier_ok E (fresh 0)" "fresh 0 \<noteq> cd_mutation_id doc"
    and size: "\<And>m. evaluate_permit_claim E p r (int (length (pa_audit_events (cd_payload doc))) + 1)
      (ae_occurred_at (last (pa_audit_events (cd_payload doc)))) = Inr m \<Longrightarrow>
      canonical_payload_ok (aggregate_bytes (extended (cd_payload doc) m))"
    and events: "int (length (pa_audit_events (cd_payload doc))) < int64_max"
  shows "fst (claim_for_dispatch E (google_cas E aggregate_bytes) fresh (ap_permit_id p) c d claim_id at checked_at w) =
    Inr (claimed_copy p claim_id at)"
proof -
  let ?ops = "google_cas E aggregate_bytes" and ?w = "w\<lparr>pv_script := quiet_turn # quiet_turn # ts\<rparr>"
  note certified = permit_from_certificate [OF c]
  note request = dispatch_requestD [OF r]
  have trusted: "trusted_certificate E c = Inr c" using certified(7) by (simp add: trusted_certificate_def)
  have get: "get_permit E ?ops (ap_permit_id p) w = (Inr p, ?w)"
    using quiet_read [OF E docs doc(1,2,3) script] doc(4) by (simp add: get_permit_def)
  have agrees: "authority_agrees E p p = Inr True"
    using same_authority_result [OF certified(5,5) identity identity] by (simp add: authority_agrees_def)
  obtain profile where profile: "validated_dispatch E d = Inr profile" "profile_version profile = ap_action_profile_version p"
    using request(5) by (auto simp: dispatch_bound_def)
  have "claim_bindings E p r"
    using r profile validated_dispatchD [OF profile(1)] permit_profile [OF c profile(2) [symmetric]]
    by (auto simp: dispatch_request_def Let_def claim_bindings_def)
  then have granted: "claim_granted E p r (ae_occurred_at (last (pa_audit_events (cd_payload doc))))"
    using time request(4) certified(6) by (simp add: claim_granted_def)
  have "fst (claim_permit E ?ops fresh r ?w) = Inr (claimed_copy p claim_id at)"
    using quiet_claim [OF E request(1), of ?w doc t ts fresh] docs doc fresh size events granted request(2,3,4)
    by simp
  then obtain w2 where claimed: "claim_permit E ?ops fresh r ?w = (Inr (claimed_copy p claim_id at), w2)"
    by (metis prod.collapse)
  have "at < ap_expires_at p" using time by simp
  then have "valid_permit E (claimed_copy p claim_id at)"
    using request(1,3,4) certified(5,6) time(2)
    by (intro valid_claimed_copy) (auto simp: claim_request_ok_def)
  then have "claimed_answer E p claim_id at checked_at (claimed_copy p claim_id at) = Inr (claimed_copy p claim_id at)"
    using time by (simp add: claimed_answer_def validate_action_permit_eq claimed_copy_def)
  then show ?thesis
    using trusted c get agrees r claimed by (simp add: claim_for_dispatch_def)
qed

end
