(* ===== verification/Recovery_Sample.thy ===== *)
theory Recovery_Sample
  imports Recovery_Proof_Laws Permit_Authority Sample
begin

text \<open>
  A concrete recovery for the witnesses: the action that creates a release record, what Firestore and
  the dispatcher say of it, and the certified retry of the action with its permit.
\<close>

section \<open>The action and its effect\<close>

lemma recovery_identifiers [simp]:
  "identifier_ok E ''release-1''" "identifier_ok E ''receipt-1''" "identifier_ok E ''semantic-action-v1''"
  "identifier_ok E ''effect-1''" "identifier_ok E ''create-firestore-release-record''"
  "identifier_ok E ''create-firestore-release-record-profile-v1''" "identifier_ok E ''evidence-1''"
  by (simp_all add: plain_identifier_ok plain_chars)

lemma dotted_identifiers [simp]:
  "identifier_ok E ''1.0.0''" "identifier_ok E ''google.firestore.document''"
  by (simp_all add: identifier_ok_def identifier_char_def identifier_start_def letter_or_digit_def
    path_text_not_sensitive path_char_def plain_chars)

definition record_effect :: expected_effect where
  "record_effect =
     \<lparr>ee_effect_id = ''effect-1'', ee_commit_scope = firestore_record_scope,
      ee_predicate = [(''release_id'', JStr ''release-1''), (''payload_sha256'', JStr zero_digest)],
      ee_description = ''record''\<rparr>"

definition record_target :: target_binding where
  "record_target =
     \<lparr>tb_target_kind = ''google.firestore.document'',
      tb_scope = [(''project'', JStr ''project-1''), (''database'', JStr ''main'')],
      tb_resource = [(''document'', JStr ''releases/release-1'')]\<rparr>"

definition record_arguments :: json_object where
  "record_arguments = [(''release_id'', JStr ''release-1''), (''payload_sha256'', JStr zero_digest)]"

definition record_effect_sha256 :: "env \<Rightarrow> string" where
  "record_effect_sha256 E = canonical_sha256 E (expected_effect_json record_effect)"

definition record_action_json :: "env \<Rightarrow> json" where
  "record_action_json E = JObj
     [(''action_profile_version'', JStr ''create-firestore-release-record-profile-v1''),
      (''expected_effect_sha256s'', strings_json [record_effect_sha256 E]),
      (''key_version'', JStr ''semantic-action-v1''), (''semantic_arguments'', JObj record_arguments),
      (''target'', target_binding_json record_target),
      (''tool_name'', JStr ''create-firestore-release-record''), (''tool_version'', JStr ''1.0.0'')]"

definition record_action :: "env \<Rightarrow> semantic_action" where
  "record_action E =
     \<lparr>sa_key_version = ''semantic-action-v1'', sa_tool_name = ''create-firestore-release-record'', sa_tool_version = ''1.0.0'',
      sa_semantic_arguments = record_arguments, sa_target = record_target,
      sa_expected_effect_sha256s = [record_effect_sha256 E],
      sa_action_profile_version = ''create-firestore-release-record-profile-v1'',
      sa_semantic_action_sha256 = env_sha256 E (json_bytes (record_action_json E))\<rparr>"

lemma hexdigests_ok [simp]: "hexdigest_ok E \<Longrightarrow> sha256_digest_ok (env_sha256 E b)"
  by (simp add: hexdigest_ok_def)

declare sample_hexdigest_ok [simp]

lemma zero_digest_text [simp]: "sha256_text zero_digest"
  using zero_digest_ok by (simp add: sha256_text_def sha256_digest_ok_def)

lemma record_action_valid: "validate_recovery_action CREATE_FIRESTORE_RELEASE_RECORD (record_action E) = Inr ()"
  by (simp add: validate_recovery_action_def validate_target_def validate_arguments_def Let_def
    require_exact_fields_def exact_fields_def field_is_def record_action_def record_target_def
    record_arguments_def recovery_version_def profile_target_kind_def profile_scope_fields_def
    profile_resource_fields_def identifier_pattern_def identifier_start_def identifier_char_def
    letter_or_digit_def plain_chars)

section \<open>Evidence\<close>

definition record_evidence ::
  "string \<Rightarrow> provider_capability \<Rightarrow> string \<Rightarrow> correlation \<Rightarrow> effect_assertion_state \<Rightarrow> operation_status option \<Rightarrow>
   normalized_evidence" where
  "record_evidence evidence_id c source_record observed state status =
     \<lparr>ev_evidence_id = evidence_id, ev_capability_name = capability_text c, ev_capability_version = recovery_version,
      ev_target = record_target,
      ev_provenance = \<lparr>epv_source = fst (trusted_provenance c), epv_source_record = source_record,
        epv_adapter_version = snd (trusted_provenance c), epv_retrieved_at = 150\<rparr>,
      ev_observed_at = 150, ev_freshness = \<lparr>fw_valid_from = 100, fw_valid_until = 200\<rparr>,
      ev_correlation = observed, ev_authority = TARGET_STATE, ev_authority_policy_version = ''policy-1'',
      ev_effect_assertions = [\<lparr>ea_effect_id = ''effect-1'', ea_state = state\<rparr>], ev_operation_status = status,
      ev_raw_observation = \<lparr>ro_sha256 = zero_digest, ro_reference = ''observation-1'', ro_byte_count = 1\<rparr>\<rparr>"

definition document_read :: "string \<Rightarrow> bool \<Rightarrow> normalized_evidence" where
  "document_read evidence_id present = record_evidence evidence_id FIRESTORE_GET
     ''projects/project-1/databases/main/documents/releases/release-1''
     [(''observation_schema'', ''firestore-document-observation-v1''), (''release_id'', ''release-1''),
      (''payload_sha256'', zero_digest), (''exists'', if present then ''true'' else ''false'')]
     (if present then ESTABLISHED else UNVERIFIED) None"

definition dispatch_receipt :: "env \<Rightarrow> normalized_evidence" where
  "dispatch_receipt E = record_evidence ''evidence-1'' DISPATCH_RECEIPT_GET ''dispatch-receipts/receipt-1''
     [(''observation_schema'', ''dispatch-receipt-observation-v1''), (''release_id'', ''release-1''),
      (''semantic_action_sha256'', sa_semantic_action_sha256 (record_action E)), (''receipt_id'', ''receipt-1''),
      (''provider_contact'', ''false''), (''outcome'', ''SUPPRESSED_BEFORE_DISPATCH'')]
     NOT_ESTABLISHED (Some TERMINAL_NOT_COMMITTED)"

definition document_seen :: "bool \<Rightarrow> provider_observation" where
  "document_seen present = Document_Observation
     \<lparr>fo_release_id = ''release-1'', fo_cloud_run_revision = None, fo_payload_sha256 = zero_digest,
      fo_semantic_action_sha256 = None, fo_exists = if present then ''true'' else ''false''\<rparr>"

definition receipt_seen :: "env \<Rightarrow> provider_observation" where
  "receipt_seen E = Receipt_Observation
     \<lparr>po_release_id = ''release-1'', po_semantic_action_sha256 = sa_semantic_action_sha256 (record_action E),
      po_receipt_id = ''receipt-1'', po_outcome = ''SUPPRESSED_BEFORE_DISPATCH''\<rparr>"

lemma record_capability [simp]: "evidence_capability (record_evidence i c r o' x s) = Some c"
  by (cases c) (simp_all add: evidence_capability_def record_evidence_def capability_of_def provider_capabilities_def)

lemma document_read_observed: "provider_observation_of E (document_read i present) = Inr (document_seen present)"
  by (simp add: provider_observation_of_def document_read_def)
    (simp add: record_evidence_def observation_of.simps correlation_fields_def value_of_def
      validate_document_observation_def document_seen_def boolean_text_def checked.simps)

lemma dispatch_receipt_observed: "hexdigest_ok E \<Longrightarrow> provider_observation_of E (dispatch_receipt E) = Inr (receipt_seen E)"
  by (simp add: provider_observation_of_def dispatch_receipt_def)
    (simp add: record_evidence_def observation_of.simps correlation_fields_def value_of_def
      validate_receipt_observation_def receipt_seen_def record_action_def checked.simps)

lemma record_texts [simp]:
  "resource_component E ''project-1''" "resource_component E ''main''" "document_path E ''releases/release-1''"
  by (simp_all add: resource_component_def document_path_def text_length_def has_space_def is_ascii_def regex_space_def)

lemma target_eq_refl [simp]: "target_eq record_target record_target"
  by (simp add: target_eq_def record_target_def)

lemma record_fields [simp]:
  "sa_target (record_action E) = record_target" "sa_semantic_arguments (record_action E) = record_arguments"
  "field_is P record_arguments ''release_id'' = P (JStr ''release-1'')"
  "field_is P record_arguments ''payload_sha256'' = P (JStr zero_digest)"
  by (simp_all add: record_action_def record_arguments_def field_is_def)

lemma document_read_validated:
  "validated_observation E CREATE_FIRESTORE_RELEASE_RECORD (record_action E) b (document_read i present) =
     Inr (document_seen present)"
proof -
  have "firestore_record E (record_action E) = Inr ''projects/project-1/databases/main/documents/releases/release-1''"
    by (simp add: firestore_record_def target_text_def Let_def record_target_def field_text_def)
  then have "validate_observation_binding E CREATE_FIRESTORE_RELEASE_RECORD (record_action E)
      (document_read i present) (document_seen present) b = Inr ()"
    by (simp add: validate_observation_binding_def document_seen_def observation_identity.simps)
      (simp add: document_read_def record_evidence_def)
  moreover have "validate_evidence_status (document_read i present) (document_seen present) = Inr ()"
    by (simp add: validate_evidence_status_def document_seen_def document_read_def record_evidence_def)
  ultimately show ?thesis
    by (simp add: validated_observation_def document_read_observed)
      (simp add: document_read_def profile_capabilities_def, simp add: record_evidence_def)
qed

lemma dispatch_receipt_validated:
  assumes [simp]: "hexdigest_ok E"
  shows "validated_observation E CREATE_FIRESTORE_RELEASE_RECORD (record_action E) b (dispatch_receipt E) = Inr (receipt_seen E)"
proof -
  have "validate_observation_binding E CREATE_FIRESTORE_RELEASE_RECORD (record_action E)
      (dispatch_receipt E) (receipt_seen E) b = Inr ()"
    by (simp add: validate_observation_binding_def receipt_seen_def observation_identity.simps)
      (simp add: dispatch_receipt_def record_evidence_def)
  moreover have "validate_evidence_status (dispatch_receipt E) (receipt_seen E) = Inr ()"
    by (simp add: validate_evidence_status_def receipt_seen_def dispatch_receipt_def record_evidence_def)
  ultimately show ?thesis
    by (simp add: validated_observation_def dispatch_receipt_observed)
      (simp add: dispatch_receipt_def profile_capabilities_def, simp add: record_evidence_def)
qed

section \<open>Proofs\<close>

lemma record_effects: "expected_effects_by_scope E CREATE_FIRESTORE_RELEASE_RECORD (record_action E) [record_effect] =
    Inr [(firestore_record_scope, record_effect)]"
proof -
  have "sa_expected_effect_sha256s (record_action E) = [canonical_sha256 E (expected_effect_json record_effect)]"
    by (simp add: record_action_def record_effect_sha256_def)
  then show ?thesis
    by (simp add: expected_effects_by_scope_def profile_predicates_def Let_def argument_def field_text_def)
      (simp add: record_effect_def record_arguments_def)
qed

lemma record_evidence_valid:
  assumes "list_all2 (\<lambda>e seen. validated_observation E CREATE_FIRESTORE_RELEASE_RECORD (record_action E) b e =
      Inr seen) evidence observations" "evidence \<noteq> []"
  shows "validated_recovery_observations E CREATE_FIRESTORE_RELEASE_RECORD (record_action E) evidence b =
    Inr observations"
  using assms record_action_valid by (simp add: validated_recovery_observations_def map_result_eq_Inr)

lemma one_document_valid: "validated_recovery_observations E CREATE_FIRESTORE_RELEASE_RECORD (record_action E)
    [document_read i present] b = Inr [document_seen present]"
  by (rule record_evidence_valid) (simp_all add: document_read_validated)

lemma one_receipt_valid: "hexdigest_ok E \<Longrightarrow> validated_recovery_observations E CREATE_FIRESTORE_RELEASE_RECORD (record_action E)
    [dispatch_receipt E] b = Inr [receipt_seen E]"
  by (rule record_evidence_valid) (simp_all add: dispatch_receipt_validated)

lemma two_documents_valid: "validated_recovery_observations E CREATE_FIRESTORE_RELEASE_RECORD (record_action E)
    [document_read ''evidence-1'' True, document_read ''evidence-2'' False] b =
      Inr [document_seen True, document_seen False]"
  by (rule record_evidence_valid) (simp_all add: document_read_validated)

lemma one_coherent:
  "length evidence = 1 \<Longrightarrow> length observations = 1 \<Longrightarrow> coherent p evidence observations = Inr ()"
  by (subst coherent_pairs) (auto simp: length_Suc_conv compatible_refl)

lemma effects_in_simps [simp]:
  "effects_in x [] = []"
  "effects_in x ((i, xs) # states) =
     (if definitive_states xs = [x] then i # effects_in x states else effects_in x states)"
  by (simp_all add: effects_in_def)

lemma record_committed: "validate_recovery_proof E CREATE_FIRESTORE_RELEASE_RECORD (record_action E) [record_effect]
    COMMITTED [document_read ''evidence-1'' True] = Inr ()"
  using one_document_valid [of E "''evidence-1''" True True]
  by (simp add: validate_recovery_proof_def validate_recovery_evidence_def record_effects document_read_observed
      one_coherent assertion_states_def scope_by_effect_def recorded_assertions_def Let_def)
    (simp add: document_read_def record_evidence_def recorded_assertion_def document_seen_def record_effect_def
      provider_effect_state.simps definitive_states_def proof_rule_def require_firestore_commit_def)

lemma record_not_committed:
  assumes [simp]: "hexdigest_ok E"
  shows "validate_recovery_proof E CREATE_FIRESTORE_RELEASE_RECORD (record_action E)
    [record_effect] NOT_COMMITTED [dispatch_receipt E] = Inr ()"
  using one_receipt_valid [of E True]
  by (simp add: validate_recovery_proof_def validate_recovery_evidence_def record_effects dispatch_receipt_observed
      one_coherent assertion_states_def scope_by_effect_def recorded_assertions_def Let_def)
    (simp add: dispatch_receipt_def record_evidence_def recorded_assertion_def receipt_seen_def record_effect_def
      provider_effect_state.simps definitive_states_def proof_rule_def)

section \<open>A certified retry\<close>

lemma record_keys [simp]:
  "\<not> is_sensitive_key E ''project''" "\<not> is_sensitive_key E ''database''" "\<not> is_sensitive_key E ''document''"
  "\<not> is_sensitive_key E ''release_id''" "\<not> is_sensitive_key E ''payload_sha256''" "\<not> is_sensitive_key E ''exists''"
  by (simp_all add: is_sensitive_key_def key_words_def normalized_key_def text_lower_def is_ascii_def
    lower_char_def plain_chars upper_letter_def sensitive_key_tokens_def sensitive_key_names_def)

lemma record_plain_texts [simp]:
  "\<not> contains_sensitive_material E ''project-1''" "\<not> contains_sensitive_material E ''main''"
  "\<not> contains_sensitive_material E ''releases/release-1''" "\<not> contains_sensitive_material E ''release-1''"
  by (simp_all add: path_text_not_sensitive path_char_def plain_chars)

lemma record_target_accepted [simp]: "accepted (validate_target_binding E) record_target"
  by (simp add: accepted_iff validate_target_binding_def target_binding_fields_ok_def json_object_ok_def
    record_target_def length_ok_def key_bounds_def text_length_def printable_text_ok)

lemma record_action_trusted:
  assumes [simp]: "hexdigest_ok E"
  shows "trusted_semantic_action E (record_action E) = Inr (record_action E)"
proof -
  have "json_object_ok E 0 64 record_arguments"
    by (simp add: json_object_ok_def record_arguments_def length_ok_def key_bounds_def text_length_def printable_text_ok)
  then have "semantic_action_fields_ok E (record_action E)"
    by (simp add: semantic_action_fields_ok_def length_ok_def)
      (simp add: record_action_def length_ok_def record_effect_sha256_def canonical_sha256_def)
  moreover have "semantic_action_sha256 E (sa_key_version (record_action E)) (sa_tool_name (record_action E))
      (sa_tool_version (record_action E)) (sa_semantic_arguments (record_action E)) (sa_target (record_action E))
      (sa_expected_effect_sha256s (record_action E)) (sa_action_profile_version (record_action E)) =
      Inr (sa_semantic_action_sha256 (record_action E))"
  proof -
    have "validate_json E 0 (record_action_json E)"
      by (simp add: record_action_json_def strings_json_def target_binding_json_def record_target_def
        record_arguments_def record_effect_sha256_def canonical_sha256_def key_bounds_def text_length_def printable_text_ok)
    then show ?thesis
      by (simp add: semantic_action_sha256_def value_sha256_def canonical_json_value_bytes_def)
        (simp add: record_action_def record_action_json_def)
  qed
  ultimately show ?thesis
    by (simp add: trusted_semantic_action_def validate_semantic_action_def checked.simps)
      (simp add: record_action_def record_arguments_def)
qed

definition retry_dispatch :: dispatch where
  "retry_dispatch =
     \<lparr>dp_semantic_action = (record_action sample_env), dp_tool_name = ''create-firestore-release-record'',
      dp_tool_version = ''1.0.0'', dp_arguments = record_arguments, dp_target = record_target,
      dp_precondition = [(''exists'', JBool False)]\<rparr>"

definition record_retry :: certified_transition where
  "record_retry =
     \<lparr>ct_action = PA_RETRY, ct_source_node_id = ''node-1'', ct_target_node_id = ''node-1'',
      ct_semantic_action_sha256 = sa_semantic_action_sha256 (record_action sample_env),
      ct_tool_name = ''create-firestore-release-record'', ct_tool_version = ''1.0.0'',
      ct_arguments_sha256 = env_sha256 sample_env (json_bytes (JObj record_arguments)),
      ct_target_sha256 = canonical_sha256 sample_env (target_binding_json record_target),
      ct_precondition_sha256 = env_sha256 sample_env (json_bytes (JObj [(''exists'', JBool False)]))\<rparr>"

definition retry_certificate :: certificate where
  "retry_certificate =
     \<lparr>vc_certificate_id = ''certificate-1'', vc_chain_id = ''chain-1'', vc_node_id = ''node-1'',
      vc_semantic_action_sha256 = sa_semantic_action_sha256 (record_action sample_env), vc_chain_sha256 = zero_digest,
      vc_node_sha256 = zero_digest, vc_envelope_sha256 = zero_digest, vc_report_sha256 = zero_digest,
      vc_proof_sha256 = zero_digest, vc_target = record_target,
      vc_target_sha256 = canonical_sha256 sample_env (target_binding_json record_target),
      vc_evidence =
        [\<lparr>eb_evidence_id = ''evidence-1'', eb_evidence_sha256 = zero_digest,
          eb_raw_observation_sha256 = zero_digest, eb_valid_until = 200\<rparr>],
      vc_authority_policy_version = ''policy-1'', vc_correlation_policy_version = ''policy-1'',
      vc_freshness_policy_version = ''policy-1'', vc_classification_policy_version = ''policy-1'',
      vc_action_policy_version = ''policy-1'',
      vc_action_profile_version = ''create-firestore-release-record-profile-v1'', vc_verifier_version = ''v1'',
      vc_classification = NOT_COMMITTED, vc_transition = Some record_retry,
      vc_issued_at = 100, vc_expires_at = 200\<rparr>"

definition retry_permit_id :: string where
  "retry_permit_id =
     ''permit-'' @ take 32 (env_sha256 sample_env (json_bytes (identity_json ''certificate-1'' record_retry)))"

definition retry_permit :: action_permit where
  "retry_permit = issued_permit sample_env retry_certificate record_retry retry_permit_id
     ''create-firestore-release-record-profile-v1''"

lemma record_digest_ok [simp]: "sha256_digest_ok (sa_semantic_action_sha256 (record_action sample_env))"
  by (simp add: record_action_def)

lemma record_retry_valid [simp]: "validate_certified_transition sample_env record_retry = Inr record_retry"
  by (simp add: validate_certified_transition_def certified_transition_fields_ok_def record_retry_def
    canonical_sha256_def)

lemma retry_certificate_valid: "validate_certificate sample_env retry_certificate = Inr retry_certificate"
proof -
  have "certificate_fields_ok sample_env retry_certificate"
    by (simp add: certificate_fields_ok_def retry_certificate_def length_ok_def evidence_binding_ok_def
      canonical_sha256_def option_ok_def accepted_iff [of "validate_certified_transition sample_env"])
  then show ?thesis
    by (simp add: validate_certificate_def checked.simps)
      (simp add: retry_certificate_def record_retry_def option_ok_def)
qed

lemma retry_permit_identity: "action_permit_id sample_env ''certificate-1'' record_retry = Inr retry_permit_id"
proof -
  have "validate_json sample_env 0 (identity_json ''certificate-1'' record_retry)"
    by (simp add: identity_json_def certified_transition_json_def record_retry_def action_permit_version_def
      canonical_sha256_def key_bounds_def text_length_def printable_text_ok)
  then show ?thesis
    by (simp add: action_permit_id_def value_sha256_def canonical_json_value_bytes_def retry_permit_id_def
      identity_json_def [symmetric])
qed

lemma retry_permit_id_ok [simp]: "identifier_ok E retry_permit_id"
  unfolding retry_permit_id_def by (rule permit_id_ok) simp

lemma retry_permit_valid: "valid_permit sample_env retry_permit"
  by (simp add: valid_permit_iff retry_permit_def issued_permit_def action_permit_fields_ok_def
    lifecycle_fields_match_def retry_certificate_def record_retry_def canonical_sha256_def option_ok_def)

lemma retry_permit_certified: "action_permit_from_certificate sample_env retry_certificate = Inr (Some retry_permit)"
proof -
  have "trusted_certificate sample_env retry_certificate = Inr retry_certificate"
    by (simp add: trusted_certificate_def retry_certificate_valid)
  moreover have "vc_transition retry_certificate = Some record_retry"
      "vc_certificate_id retry_certificate = ''certificate-1''"
    by (simp_all add: retry_certificate_def)
  moreover have "target_profile_version retry_certificate = Inr ''create-firestore-release-record-profile-v1''"
    by (simp add: target_profile_version_def retry_certificate_def record_retry_def allowed_transition_def
      recovery_action_profiles_def recovery_version_def)
  ultimately show ?thesis
    using retry_permit_valid
    by (simp add: action_permit_from_certificate_def retry_permit_identity retry_permit_def validate_action_permit_eq)
qed

lemma retry_permit_fields [simp]:
  "ap_permit_id retry_permit = retry_permit_id" "ap_state retry_permit = ISSUED" "ap_revision retry_permit = 0"
  "ap_issued_at retry_permit = 100" "ap_expires_at retry_permit = 200"
  by (simp_all add: retry_permit_def issued_permit_def retry_certificate_def)

lemma retry_identity: "validate_action_permit_identity sample_env retry_permit = Inr ()"
proof -
  have "sealed_transition retry_permit = record_retry" "ap_certificate_id retry_permit = ''certificate-1''"
    by (simp_all add: retry_permit_def issued_permit_def sealed_transition_def retry_certificate_def)
  then show ?thesis
    by (simp add: validate_action_permit_identity_def action_permit_transition_def retry_permit_identity)
qed

section \<open>The permit in the store\<close>

definition retry_request :: claim_request where
  "retry_request =
     \<lparr>cq_permit_id = retry_permit_id, cq_claim_id = ''claim-1'',
      cq_issued_permit_sha256 = permit_sha256 sample_env retry_permit,
      cq_certificate_id = ap_certificate_id retry_permit,
      cq_certificate_sha256 = ap_certificate_sha256 retry_permit, cq_chain_id = ap_chain_id retry_permit,
      cq_source_node_id = ap_source_node_id retry_permit, cq_target_node_id = ap_target_node_id retry_permit,
      cq_semantic_action_sha256 = ap_semantic_action_sha256 retry_permit,
      cq_action_profile_version = ap_action_profile_version retry_permit,
      cq_action_policy_version = ap_action_policy_version retry_permit,
      cq_tool_name = dp_tool_name retry_dispatch, cq_tool_version = dp_tool_version retry_dispatch,
      cq_arguments_sha256 = ap_arguments_sha256 retry_permit, cq_target_sha256 = ap_target_sha256 retry_permit,
      cq_precondition_sha256 = ap_precondition_sha256 retry_permit, cq_requested_at = 150\<rparr>"

lemma retry_request_ok: "claim_request_ok sample_env retry_request"
  by (simp add: claim_request_ok_def retry_request_def permit_sha256_ok sample_hexdigest_ok)
    (simp add: retry_permit_def issued_permit_def retry_certificate_def record_retry_def retry_dispatch_def
      canonical_sha256_def)

lemma retry_dispatch_valid: "validated_dispatch sample_env retry_dispatch = Inr CREATE_FIRESTORE_RELEASE_RECORD"
proof -
  have "resolve_recovery_action_profile (record_action sample_env) = Inr CREATE_FIRESTORE_RELEASE_RECORD"
    using record_action_valid profile_of_version [of CREATE_FIRESTORE_RELEASE_RECORD]
    by (simp add: resolve_recovery_action_profile_def record_action_def)
  then show ?thesis
    by (simp add: validated_dispatch_def retry_dispatch_def record_action_trusted validate_recovery_dispatch_def
        dispatch_precondition_ok_def exact_fields_def field_is_def)
      (simp add: record_action_def record_arguments_def rule_def)
qed

lemma retry_dispatch_requested:
  "dispatch_request sample_env retry_permit_id retry_permit retry_permit retry_dispatch ''claim-1'' 150 = Inr retry_request"
proof -
  have fields: "dp_arguments retry_dispatch = record_arguments" "dp_target retry_dispatch = record_target"
      "dp_precondition retry_dispatch = [(''exists'', JBool False)]" "dp_semantic_action retry_dispatch = (record_action sample_env)"
    by (simp_all add: retry_dispatch_def)
  have permit: "ap_arguments_sha256 retry_permit = env_sha256 sample_env (json_bytes (JObj record_arguments))"
      "ap_precondition_sha256 retry_permit = env_sha256 sample_env (json_bytes (JObj [(''exists'', JBool False)]))"
      "ap_target_sha256 retry_permit = canonical_sha256 sample_env (target_binding_json record_target)"
      "ap_semantic_action_sha256 retry_permit = sa_semantic_action_sha256 (record_action sample_env)"
      "ap_action_profile_version retry_permit = profile_version CREATE_FIRESTORE_RELEASE_RECORD"
    by (simp_all add: retry_permit_def issued_permit_def record_retry_def)
  have "dispatch_sha256 sample_env record_arguments = Inr (ap_arguments_sha256 retry_permit)"
      "dispatch_sha256 sample_env [(''exists'', JBool False)] = Inr (ap_precondition_sha256 retry_permit)"
    unfolding permit
    by (simp_all add: dispatch_sha256_def value_sha256_def canonical_json_value_bytes_def record_arguments_def
        key_bounds_def text_length_def printable_text_ok)
  then show ?thesis
    using retry_request_ok permit
    by (simp add: dispatch_request_def retry_dispatch_valid fields Let_def)
      (simp add: retry_request_def fields)
qed

definition retry_document :: permit_document where
  "retry_document =
     (let a = \<lparr>pa_permit = retry_permit, pa_audit_events = [issuance sample_env retry_permit]\<rparr>
      in \<lparr>cd_kind = ACTION_PERMIT, cd_logical_id = retry_permit_id, cd_revision = 0,
          cd_mutation_id = ''mutation-0'', cd_payload = a, cd_payload_sha256 = env_sha256 sample_env (aggregate_bytes a)\<rparr>)"

definition retry_path :: string where
  "retry_path = firestore_cas_document_path sample_env ACTION_PERMIT retry_permit_id"

lemma retry_run: "permit_run sample_env [issuance sample_env retry_permit] retry_permit"
  by (rule run_issued) (simp_all add: retry_permit_valid)

lemma retry_document_ok: "permit_document_ok sample_env retry_path retry_document"
  using retry_run retry_identity
  by (simp add: permit_document_ok_def retry_document_def retry_path_def Let_def)

definition retry_world :: "permit_aggregate provider" where
  "retry_world =
     \<lparr>pv_documents = [retry_path \<mapsto> (retry_document, 1)], pv_clock = 1,
      pv_script = replicate 8 quiet_turn\<rparr>"

lemma retry_world_ok:
  "permit_world_ok sample_env (provider_legal (permit_legal sample_env)) pv_documents retry_world"
  using retry_document_ok
  by (auto simp: permit_world_ok_def permit_documents_ok_def retry_world_def provider_legal_def provider_ok_def
      script_legal_def quiet_turn_def update_time_of_def)

lemma retry_document_fields [simp]:
  "cd_logical_id retry_document = retry_permit_id" "cd_mutation_id retry_document = ''mutation-0''"
  "cd_revision retry_document = 0" "cd_kind retry_document = ACTION_PERMIT"
  "pa_permit (cd_payload retry_document) = retry_permit"
  "pa_audit_events (cd_payload retry_document) = [issuance sample_env retry_permit]"
  by (simp_all add: retry_document_def Let_def)

section \<open>The claim\<close>

definition retry_claimed :: action_permit where
  "retry_claimed = claimed_copy retry_permit ''claim-1'' 150"

definition retry_claim_mutation :: permit_mutation where
  "retry_claim_mutation =
     \<lparr>pm_permit = retry_claimed,
      pm_event = permit_event sample_env retry_claimed 2 K_CLAIMED 150 (Some ''claim-1'') None None,
      pm_denial_reason = None\<rparr>"

lemma retry_claim_bindings: "claim_bindings sample_env retry_permit retry_request"
  by (simp add: claim_bindings_def retry_request_def)
    (simp add: retry_permit_def issued_permit_def record_retry_def retry_dispatch_def)

lemma retry_request_fields [simp]:
  "cq_permit_id retry_request = retry_permit_id" "cq_claim_id retry_request = ''claim-1''"
  "cq_requested_at retry_request = 150"
  by (simp_all add: retry_request_def)

lemma retry_claim_evaluates:
  "evaluate_permit_claim sample_env retry_permit retry_request 2 100 = Inr retry_claim_mutation"
proof -
  have n: "int_ok 1 2" by (simp add: int_ok_def int64_max_def)
  have g: "claim_granted sample_env retry_permit retry_request 100"
    using retry_claim_bindings by (simp add: claim_granted_def)
  obtain m where "evaluate_permit_claim sample_env retry_permit retry_request 2 100 = Inr m"
      "pm_denial_reason m = None"
    using claim_steps [OF sample_hexdigest_ok retry_permit_valid retry_request_ok n, of 100] g
    by (auto simp: step_result_def)
  then show ?thesis
    using retry_claim_bindings
    by (auto simp: evaluate_permit_claim_def mutation_eq retry_claim_mutation_def validate_action_permit_eq
      retry_claimed_def)
qed

lemma retry_digest_sizes [simp]:
  "length (env_sha256 sample_env b) = 64" "length (canonical_sha256 sample_env j) = 64"
  "length (sa_semantic_action_sha256 (record_action sample_env)) = 64" "length retry_permit_id = 39"
  by (simp_all add: length_digest canonical_sha256_def retry_permit_id_def)

lemma retry_permit_weights:
  "json_weight (action_permit_json retry_permit) \<le> 20000" "json_weight (action_permit_json retry_claimed) \<le> 20000"
proof -
  have authority: "json_members_weight (permit_authority_members retry_permit) \<le> 10000"
    using iso_text_sizes
    by (simp add: permit_authority_members_def time_json_def action_permit_version_def)
      (simp add: retry_permit_def issued_permit_def retry_certificate_def record_retry_def)
  have presentation: "json_members_weight (permit_presentation_members retry_permit) \<le> 1000"
    using iso_text_sizes
    by (simp add: permit_presentation_members_def time_json_def)
      (simp add: retry_permit_def issued_permit_def retry_certificate_def)
  have lifecycle: "json_members_weight (permit_lifecycle_members retry_permit) \<le> 1500"
      "json_members_weight (permit_lifecycle_members retry_claimed) \<le> 1500"
    using iso_text_sizes
    by (simp_all add: permit_lifecycle_members_def retry_claimed_def claimed_copy_def option_json_def time_json_def)
      (simp_all add: retry_permit_def issued_permit_def)
  have "permit_authority_members retry_claimed = permit_authority_members retry_permit"
      "permit_presentation_members retry_claimed = permit_presentation_members retry_permit"
    by (simp_all add: permit_authority_members_def permit_presentation_members_def retry_claimed_def claimed_copy_def)
  with authority presentation lifecycle
  show "json_weight (action_permit_json retry_permit) \<le> 20000" "json_weight (action_permit_json retry_claimed) \<le> 20000"
    by (simp_all add: action_permit_json_def)
qed

lemma retry_event_weights:
  "json_weight (audit_event_json (issuance sample_env retry_permit)) \<le> 3000"
  "json_weight (audit_event_json (pm_event retry_claim_mutation)) \<le> 3000"
  using iso_text_sizes
  by (simp_all add: audit_event_json_def issuance_def retry_claim_mutation_def permit_sha256_def
    time_json_def option_json_def) (simp_all add: retry_claimed_def claimed_copy_def)

lemma aggregate_size:
  assumes "json_weight (action_permit_json (pa_permit b)) \<le> 20000"
    and "json_items_weight (map audit_event_json (pa_audit_events b)) \<le> 20000"
  shows "canonical_payload_ok (aggregate_bytes b)"
  using assms length_json_bytes [of "JObj
     [(''schema_version'', JStr ''reconcile/firestore-action-permit-aggregate/v1''),
      (''permit'', action_permit_json (pa_permit b)),
      (''audit_events'', JArr (map audit_event_json (pa_audit_events b)))]"] json_bytes_not_Nil
  by (simp add: canonical_payload_ok_def aggregate_bytes_def payload_byte_ceiling_def)

lemma retry_sizes:
  "canonical_payload_ok (aggregate_bytes (cd_payload retry_document))"
  "canonical_payload_ok (aggregate_bytes (extended (cd_payload retry_document) retry_claim_mutation))"
proof -
  have "pm_permit retry_claim_mutation = retry_claimed" by (simp add: retry_claim_mutation_def)
  then show "canonical_payload_ok (aggregate_bytes (cd_payload retry_document))"
      "canonical_payload_ok (aggregate_bytes (extended (cd_payload retry_document) retry_claim_mutation))"
    by (intro aggregate_size; use retry_event_weights retry_permit_weights in \<open>simp add: extended_def\<close>)+
qed

lemma retry_document_stored: "cas_document_ok sample_env aggregate_bytes retry_document"
  using sample_hexdigest_ok retry_sizes(1)
  by (simp add: cas_document_ok_def) (simp add: retry_document_def Let_def)

lemma retry_dispatch_claimed:
  "fst (claim_for_dispatch sample_env sample_ops (\<lambda>_. ''mutation-1'') retry_permit_id retry_certificate retry_dispatch
     ''claim-1'' 150 160 retry_world) = Inr retry_claimed"
proof -
  have path: "firestore_cas_document_path sample_env ACTION_PERMIT retry_permit_id = retry_path"
    by (simp add: retry_path_def)
  have "pv_documents retry_world retry_path = Some (retry_document, 1)"
      "pv_script retry_world = quiet_turn # quiet_turn # quiet_turn # replicate 5 quiet_turn"
    by (simp_all add: retry_world_def numeral_eq_Suc)
  moreover have "canonical_payload_ok (aggregate_bytes (extended (cd_payload retry_document) m))"
    if "evaluate_permit_claim sample_env retry_permit retry_request 2 100 = Inr m" for m
    using that retry_claim_evaluates retry_sizes(2) by simp
  moreover have "ae_occurred_at (issuance sample_env retry_permit) = 100" by (simp add: issuance_def)
  ultimately show ?thesis
    using quiet_dispatch [OF sample_hexdigest_ok retry_permit_certified retry_identity, of retry_world retry_document 1
        "replicate 5 quiet_turn" retry_dispatch "''claim-1''" 150 retry_request 160 "\<lambda>_. ''mutation-1''"]
      retry_document_ok retry_document_stored retry_dispatch_requested
    by (simp add: path int64_max_def retry_claimed_def)
qed

end
