(* ===== verification/Recovery_Properties.thy ===== *)
theory Recovery_Properties
  imports Recovery_Sample
begin

text \<open>
  The properties of proof-scoped recovery: the authority that turns a certificate into one dispatch,
  and the provider evidence that proves a classification.
\<close>

section \<open>Dispatching a certificate\<close>

text \<open>
  C8: a certificate is dispatched once. After a dispatch of a permit is claimed, any writes of other
  clients and any failures of the provider, no dispatch of the same permit is claimed, whatever
  certificate, call, time and claim identifier come with it.
\<close>

theorem certificate_dispatched_once:
  assumes "hexdigest_ok E"
    and "permit_world_ok E (provider_legal (permit_legal E)) pv_documents w1"
    and "permit_world_ok E (provider_legal (permit_legal E)) pv_documents w3"
    and "evolves (permit_legal E) (pv_documents w2) (pv_documents w3)"
    and "claim_for_dispatch E (google_cas E aggregate_bytes) fresh1 permit_id c1 d1 claim1 at1 checked1 w1 = (Inr p1, w2)"
    and "claim_for_dispatch E (google_cas E aggregate_bytes) fresh2 permit_id c2 d2 claim2 at2 checked2 w3 = (x, w4)"
  shows "x \<noteq> Inr p2"
  by (rule hosted.dispatched_once [OF assms])

theorem certificate_dispatched_once_witness:
  "\<exists>w2. claim_for_dispatch sample_env sample_ops (\<lambda>_. ''mutation-1'') retry_permit_id retry_certificate
      retry_dispatch ''claim-1'' 150 160 retry_world = (Inr retry_claimed, w2) \<and>
     (\<forall>p. fst (claim_for_dispatch sample_env sample_ops (\<lambda>_. ''mutation-2'') retry_permit_id retry_certificate
      retry_dispatch ''claim-2'' 155 165 w2) \<noteq> Inr p)"
proof -
  obtain w2 where w2: "claim_for_dispatch sample_env sample_ops (\<lambda>_. ''mutation-1'') retry_permit_id
      retry_certificate retry_dispatch ''claim-1'' 150 160 retry_world = (Inr retry_claimed, w2)"
    using retry_dispatch_claimed by (metis prod.collapse)
  obtain x w4 where x: "claim_for_dispatch sample_env sample_ops (\<lambda>_. ''mutation-2'') retry_permit_id
      retry_certificate retry_dispatch ''claim-2'' 155 165 w2 = (x, w4)" by fastforce
  have "permit_world_ok sample_env (provider_legal (permit_legal sample_env)) pv_documents w2"
    using hosted.claim_for_dispatch_law [OF sample_hexdigest_ok retry_world_ok w2] by blast
  from certificate_dispatched_once [OF sample_hexdigest_ok retry_world_ok this evolves_refl w2 x] w2 x
  show ?thesis by simp
qed

text \<open>
  C9: what is dispatched is what was certified. A claimed dispatch has a valid certificate whose
  transition the permit carries, along the allowed transitions of the profiles; the call has the
  profile, the action, the arguments, the target and the precondition that the permit binds; it is
  claimed before the certificate expires, and the claim is in the stored history of the permit.
\<close>

theorem dispatch_is_certified:
  assumes "hexdigest_ok E"
    and "permit_world_ok E (provider_legal (permit_legal E)) pv_documents w"
    and "claim_for_dispatch E (google_cas E aggregate_bytes) fresh permit_id c d claim_id requested_at checked_at w =
      (Inr p, w')"
  shows "permit_world_ok E (provider_legal (permit_legal E)) pv_documents w' \<and>
    evolves (permit_legal E) (pv_documents w) (pv_documents w') \<and>
    validate_certificate E c = Inr c \<and> vc_transition c = Some (sealed_transition p) \<and>
    ap_permit_id p = permit_id \<and> ap_certificate_id p = vc_certificate_id c \<and>
    allowed_transition (vc_action_profile_version c) (ap_action p) = Some (ap_action_profile_version p) \<and>
    dispatch_bound E d p \<and>
    ap_state p = CLAIMED \<and> ap_claim_id p = Some claim_id \<and> ap_claimed_at p = Some requested_at \<and>
    requested_at \<le> checked_at \<and> checked_at < vc_expires_at c \<and>
    (\<exists>d t e. pv_documents w' (firestore_cas_document_path E ACTION_PERMIT permit_id) = Some (d, t) \<and>
       e \<in> set (pa_audit_events (cd_payload d)) \<and> ae_kind e = K_CLAIMED \<and>
       ae_claim_id e = Some claim_id \<and> ae_occurred_at e = requested_at)"
  by (rule hosted.claim_for_dispatch_law [OF assms])

theorem dispatch_is_certified_witness:
  "dispatch_bound sample_env retry_dispatch retry_claimed \<and> vc_transition retry_certificate = Some (sealed_transition retry_claimed)"
proof -
  obtain w' where "claim_for_dispatch sample_env sample_ops (\<lambda>_. ''mutation-1'') retry_permit_id
      retry_certificate retry_dispatch ''claim-1'' 150 160 retry_world = (Inr retry_claimed, w')"
    using retry_dispatch_claimed by (metis prod.collapse)
  from dispatch_is_certified [OF sample_hexdigest_ok retry_world_ok this] show ?thesis by blast
qed

section \<open>Proofs of a classification\<close>

text \<open>
  C15: a committed proof rests on the provider. Every expected effect is established by evidence read
  from the provider that the profile trusts, about the target of the action, whose typed observation
  has that effect in its authority and shows it; no evidence denies the effect; and the provider
  reported the committed state of the profile.
\<close>

theorem committed_proof_rests_on_provider:
  assumes "validate_recovery_proof E p a expected COMMITTED evidence = Inr ()"
    and "distinct (map ee_effect_id expected)"
  shows "(\<forall>x\<in>set expected.
      (\<exists>e\<in>set evidence. \<exists>seen. trusted_read p a e \<and> asserts e x ESTABLISHED \<and>
         provider_observation_of E e = Inr seen \<and> ee_commit_scope x \<in> set (observed_scopes seen) \<and>
         provider_effect_state seen (ee_commit_scope x) = ESTABLISHED) \<and>
      (\<forall>e\<in>set evidence. \<not> asserts e x NOT_ESTABLISHED)) \<and>
    (\<exists>observations. map_result (provider_observation_of E) evidence = Inr observations \<and>
      provider_committed E p a observations)"
  using committed_effects [OF assms] committed_state [OF assms(1)] by blast

theorem committed_proof_rests_on_provider_witness:
  "trusted_read CREATE_FIRESTORE_RELEASE_RECORD (record_action sample_env) (document_read ''evidence-1'' True) \<and>
   provider_committed sample_env CREATE_FIRESTORE_RELEASE_RECORD (record_action sample_env) [document_seen True]"
  using committed_proof_rests_on_provider [OF record_committed]
  by (auto simp: document_read_observed)

text \<open>
  C16: a retry needs a positive receipt. Only the release record has a proof that nothing was
  committed, and all its evidence is trusted receipts of this very action, each a terminal
  non-execution before any contact with the provider; absence alone never suffices.
\<close>

theorem not_committed_proof_needs_receipts:
  assumes "validate_recovery_proof E p a expected NOT_COMMITTED evidence = Inr ()"
  shows "p = CREATE_FIRESTORE_RELEASE_RECORD \<and> evidence \<noteq> [] \<and>
    (\<forall>e\<in>set evidence. trusted_read p a e \<and> ev_operation_status e = Some TERMINAL_NOT_COMMITTED \<and>
      (\<exists>r. provider_observation_of E e = Inr (Receipt_Observation r) \<and>
        po_semantic_action_sha256 r = sa_semantic_action_sha256 a))"
  using not_committed_receipts [OF assms] by blast

theorem not_committed_proof_needs_receipts_witness:
  "trusted_read CREATE_FIRESTORE_RELEASE_RECORD (record_action sample_env) (dispatch_receipt sample_env)"
  using not_committed_proof_needs_receipts [OF record_not_committed] by simp

text \<open>
  C17: one body of evidence proves one outcome. The evidence of an action is never a proof of two of
  the classifications committed, not committed and partial.
\<close>

theorem definitive_proofs_exclude_each_other:
  assumes "validate_recovery_proof E p a expected c evidence = Inr ()"
    and "validate_recovery_proof E p a expected c' evidence = Inr ()"
    and "c \<in> {COMMITTED, NOT_COMMITTED, PARTIAL}" "c' \<in> {COMMITTED, NOT_COMMITTED, PARTIAL}"
  shows "c = c'"
  by (rule definitive_exclusive [OF assms])

theorem definitive_proofs_exclude_each_other_witness:
  "validate_recovery_proof sample_env CREATE_FIRESTORE_RELEASE_RECORD (record_action sample_env) [record_effect]
     NOT_COMMITTED [document_read ''evidence-1'' True] \<noteq> Inr ()"
  using definitive_proofs_exclude_each_other [OF record_committed [of sample_env], of NOT_COMMITTED] by auto

text \<open>
  C18: the conflict pairs are complete. For admissible evidence, the search for contradictions in
  pairs finds none exactly when the evidence as a whole is coherent: the snapshots of each resource
  agree, the polls of each operation advance, and a staged release names one revision.
\<close>

theorem conflict_pairs_are_complete:
  assumes "validated_recovery_observations E p a evidence False = Inr observations"
  shows "recovery_provider_conflict_pairs E p a evidence = Inr [] \<longleftrightarrow> coherent p evidence observations = Inr ()"
  by (rule conflict_free [OF assms])

theorem conflict_pairs_are_complete_witness:
  "recovery_provider_conflict_pairs sample_env CREATE_FIRESTORE_RELEASE_RECORD (record_action sample_env)
     [document_read ''evidence-1'' True, document_read ''evidence-2'' False] \<noteq> Inr []"
proof -
  have "coherent CREATE_FIRESTORE_RELEASE_RECORD
      [document_read ''evidence-1'' True, document_read ''evidence-2'' False]
      [document_seen True, document_seen False] \<noteq> Inr ()"
    by (subst coherent_pairs)
      (simp_all add: compatible_def snapshots_agree_def resource_key_def document_read_def record_evidence_def
        document_seen_def)
  then show ?thesis using conflict_pairs_are_complete [OF two_documents_valid] by simp
qed

end
