(* ===== verification/Verification_Inputs.thy ===== *)
theory Verification_Inputs
  imports Classification Recovery_Proofs
begin

text \<open>
  The trusted inputs of a recovery verification (\<open>evidence/recovery_verification.py\<close>): the time of
  the verification, the stage-promote-record chain, the node and its envelope, the report against
  the sealed evaluation, and the admitted and the supporting evidence.

  The inputs are rehydrated, that is decoded from their own canonical JSON: here they are revalidated.
  Instants are in UTC, so a verification time without an offset does not occur.
\<close>

section \<open>Constants and errors\<close>

abbreviation recovery_chain_profile_version :: string where
  "recovery_chain_profile_version \<equiv> ''cloud-run-release-chain-v1''"

text \<open>\<open>_SUCCESSOR_PROFILE\<close>.\<close>

fun successor_profile :: "recovery_action_profile \<Rightarrow> recovery_action_profile option" where
  "successor_profile STAGE_CLOUD_RUN_REVISION = Some PROMOTE_CLOUD_RUN_TRAFFIC"
| "successor_profile PROMOTE_CLOUD_RUN_TRAFFIC = Some CREATE_FIRESTORE_RELEASE_RECORD"
| "successor_profile CREATE_FIRESTORE_RELEASE_RECORD = None"

definition unverifiable :: "bool \<Rightarrow> string \<Rightarrow> unit result" where
  "unverifiable bad m = require (\<not> bad) (RecoveryVerificationError m)"

lemma unverifiable_Inr [simp]: "unverifiable bad m = Inr u \<longleftrightarrow> \<not> bad"
  by (simp add: unverifiable_def)

text \<open>The refusals of a function that only raises, in its order.\<close>

fun refusals :: "(bool \<times> string) list \<Rightarrow> unit result" where
  "refusals [] = Inr ()"
| "refusals ((bad, m) # cs) = bind_result (unverifiable bad m) (\<lambda>_. refusals cs)"

lemma refusals_Inr [simp]: "refusals cs = Inr u \<longleftrightarrow> list_all (\<lambda>(bad, _). \<not> bad) cs"
  by (induction cs rule: refusals.induct) auto

declare refusals.simps [simp del]

text \<open>\<open>_rehydrate\<close>, with the validator of the class.\<close>

definition rehydrate :: "('a \<Rightarrow> 'a result) \<Rightarrow> string \<Rightarrow> 'a \<Rightarrow> 'a result" where
  "rehydrate validate class_name value =
     (case validate value of
        Inl _ \<Rightarrow> Inl (RecoveryVerificationError (class_name @ '' input failed contract validation''))
      | Inr trusted \<Rightarrow> Inr trusted)"

lemma rehydrate_Inr [simp]: "rehydrate validate n x = Inr y \<longleftrightarrow> validate x = Inr y"
  by (simp add: rehydrate_def split: sum.splits)

section \<open>The time of the verification\<close>

definition required_predecessors :: "recovery_chain \<Rightarrow> execution_envelope \<Rightarrow> investigation_report \<Rightarrow> time list" where
  "required_predecessors c x r =
     [rc_created_at c, xe_invoked_at x, ax_observed_at (xe_ambiguity x), ir_created_at r, ir_updated_at r] @
     map pu_completed_at (ir_probe_audit r) @
     concat (map (\<lambda>e. [fw_valid_from (ev_freshness e), ev_observed_at e, epv_retrieved_at (ev_provenance e)])
       (ir_evidence r))"

definition validate_time ::
  "time \<Rightarrow> recovery_chain \<Rightarrow> execution_envelope \<Rightarrow> investigation_report \<Rightarrow> unit result" where
  "validate_time verified_at c x r =
     (let ambiguous_at = ax_observed_at (xe_ambiguity x) in
      refusals
       [(ambiguous_at < xe_invoked_at x, ''ambiguous outcome precedes the bound invocation''),
        (ir_created_at r < ambiguous_at, ''report creation precedes the ambiguous outcome''),
        (ir_updated_at r < ambiguous_at, ''report completion precedes the ambiguous outcome''),
        (list_ex (\<lambda>a. pu_started_at a < ir_created_at r \<or> ir_updated_at r < pu_completed_at a) (ir_probe_audit r),
           ''probe audit timestamps fall outside the report interval''),
        (list_ex (\<lambda>e. ir_updated_at r < epv_retrieved_at (ev_provenance e)) (ir_evidence r),
           ''evidence retrieval occurs after the report update''),
        (verified_at < Max (set (required_predecessors c x r)),
           ''verification time precedes its trusted inputs'')])"

section \<open>The chain\<close>

text \<open>The resolution of a profile, with its errors as errors of the verification.\<close>

definition verified_profile :: "semantic_action \<Rightarrow> recovery_action_profile result" where
  "verified_profile a =
     (case resolve_recovery_action_profile a of
        Inl (TypeError m) \<Rightarrow> Inl (RecoveryVerificationError m)
      | Inl (RecoveryRuleViolation m) \<Rightarrow> Inl (RecoveryVerificationError m)
      | r \<Rightarrow> r)"

lemma verified_profile_Inr [simp]: "verified_profile a = Inr p \<longleftrightarrow> resolve_recovery_action_profile a = Inr p"
  by (auto simp: verified_profile_def split: sum.splits exn.splits)

text \<open>\<open>by_profile\<close>: the nodes of the chain by the profile of their action.\<close>

type_synonym profile_nodes = "(recovery_action_profile \<times> recovery_node) list"

fun nodes_by_profile :: "profile_nodes \<Rightarrow> recovery_node list \<Rightarrow> profile_nodes result" where
  "nodes_by_profile found [] = Inr found"
| "nodes_by_profile found (n # ns) =
     bind_result (verified_profile (rn_semantic_action n)) (\<lambda>p.
     bind_result (unverifiable (p \<in> fst ` set found)
       ''recovery chain contains a duplicate action profile'') (\<lambda>_.
     nodes_by_profile (found @ [(p, n)]) ns))"

definition chain_shape_message :: string where
  "chain_shape_message = ''recovery chain must contain exactly stage, promote, and record nodes''"

definition action_argument :: "recovery_node \<Rightarrow> string \<Rightarrow> string" where
  "action_argument n k = field_text (sa_semantic_arguments (rn_semantic_action n)) k"

definition action_target :: "recovery_node \<Rightarrow> target_binding" where
  "action_target n = sa_target (rn_semantic_action n)"

definition chain_topology :: "recovery_node \<Rightarrow> recovery_node \<Rightarrow> recovery_node \<Rightarrow> unit result" where
  "chain_topology stage promote record_node =
     (let release = action_argument stage ''release_id'' in
      refusals
       [(rn_depends_on stage \<noteq> [] \<or> rn_depends_on promote \<noteq> [rn_node_id stage] \<or>
           rn_depends_on record_node \<noteq> [rn_node_id promote],
           ''recovery chain must be the exact stage-to-promote-to-record topology''),
        (\<not> target_eq (action_target promote) (action_target stage) \<or>
           action_argument promote ''release_id'' \<noteq> release,
           ''stage and promotion must bind the same Cloud Run service and release''),
        (field_text (tb_scope (action_target record_node)) ''project'' \<noteq>
             field_text (tb_scope (action_target stage)) ''project'' \<or>
           action_argument record_node ''release_id'' \<noteq> release \<or>
           field_text (tb_resource (action_target record_node)) ''document'' \<noteq> ''releases/'' @ release,
           ''release record must bind the Cloud Run project and exact release document'')])"

definition validate_chain :: "recovery_chain \<Rightarrow> profile_nodes result" where
  "validate_chain c =
     bind_result (unverifiable (rc_chain_profile_version c \<noteq> recovery_chain_profile_version)
       ''recovery chain profile is unsupported'') (\<lambda>_.
     bind_result (unverifiable (length (rc_nodes c) \<noteq> length recovery_action_profiles) chain_shape_message) (\<lambda>_.
     bind_result (nodes_by_profile [] (rc_nodes c)) (\<lambda>found.
     case (map_of found STAGE_CLOUD_RUN_REVISION, map_of found PROMOTE_CLOUD_RUN_TRAFFIC,
         map_of found CREATE_FIRESTORE_RELEASE_RECORD) of
       (Some stage, Some promote, Some record_node) \<Rightarrow>
         bind_result (chain_topology stage promote record_node) (\<lambda>_. Inr found)
     | _ \<Rightarrow> Inl (RecoveryVerificationError chain_shape_message))))"

definition find_node :: "recovery_chain \<Rightarrow> string \<Rightarrow> recovery_node result" where
  "find_node c node_id =
     (case filter (\<lambda>n. rn_node_id n = node_id) (rc_nodes c) of
        [n] \<Rightarrow> Inr n
      | _ \<Rightarrow> Inl (RecoveryVerificationError ''recovery node is not present exactly once''))"

definition envelope_referenced :: "env \<Rightarrow> recovery_node \<Rightarrow> execution_envelope \<Rightarrow> bool" where
  "envelope_referenced E n x \<longleftrightarrow>
     xr_investigation_id (rn_envelope n) = xe_investigation_id x \<and>
     xr_operation_id (rn_envelope n) = xe_operation_id x \<and>
     xr_envelope_sha256 (rn_envelope n) = envelope_sha256 E x"

definition action_of_envelope :: "env \<Rightarrow> semantic_action \<Rightarrow> execution_envelope \<Rightarrow> bool" where
  "action_of_envelope E a x \<longleftrightarrow>
     (let invocation = ec_invocation (xe_context x) in
      sa_key_version a = ''semantic-action-v1'' \<and> sa_tool_name a = oi_tool_name invocation \<and>
      sa_tool_version a = oi_tool_version invocation \<and>
      py_eq (JObj (sa_semantic_arguments a)) (JObj (oi_arguments invocation)) \<and>
      target_eq (sa_target a) (xe_target x) \<and>
      sa_expected_effect_sha256s a =
        map (\<lambda>f. canonical_sha256 E (expected_effect_json f)) (xe_expected_effects x))"

definition validate_node_binding ::
  "env \<Rightarrow> recovery_node \<Rightarrow> execution_envelope \<Rightarrow> recovery_action_profile result" where
  "validate_node_binding E n x =
     (let a = rn_semantic_action n in
      bind_result (unverifiable (\<not> envelope_referenced E n x)
        ''recovery node references another envelope'') (\<lambda>_.
      bind_result (unverifiable (\<not> action_of_envelope E a x)
        ''recovery semantic action does not match the execution envelope'') (\<lambda>_.
      bind_result (verified_profile a) (\<lambda>p.
      bind_result (unverifiable
        (map_of (ec_correlation_fields (xe_context x)) ''release_id'' \<noteq>
           Some (field_text (sa_semantic_arguments a) ''release_id''))
        ''envelope release correlation does not match the semantic action'') (\<lambda>_. Inr p)))))"

section \<open>The report\<close>

text \<open>\<open>ProbeStopReason(text)\<close>.\<close>

definition stop_reasons :: "stop_reason list" where
  "stop_reasons =
     [SR_PROBE_COMPLETED, SR_INVALID_REQUEST, SR_UNKNOWN_CAPABILITY, SR_CAPABILITY_DISABLED,
      SR_CAPABILITY_NOT_ENABLED, SR_CAPABILITY_MUTATING, SR_CAPABILITY_SEMANTICS_AMBIGUOUS,
      SR_TARGET_KIND_MISMATCH, SR_TARGET_SCOPE_MISMATCH, SR_INVALID_EFFECT_REFERENCE,
      SR_INVALID_ARGUMENTS, SR_ARGUMENTS_TOO_LARGE, SR_TARGET_PARAMETER_INJECTION,
      SR_CORRELATION_MISMATCH, SR_PROBE_COUNT_EXHAUSTED, SR_CAPABILITY_PROBE_LIMIT_EXHAUSTED,
      SR_COST_BUDGET_EXHAUSTED, SR_ELAPSED_BUDGET_EXHAUSTED, SR_TOTAL_RESULT_BYTES_EXHAUSTED,
      SR_RESULT_TOO_LARGE, SR_PROBE_TIMEOUT, SR_PROBE_CANCELLED, SR_CAPABILITY_UNAVAILABLE,
      SR_MALFORMED_OBSERVATION]"

definition stop_reason_of :: "string \<Rightarrow> stop_reason result" where
  "stop_reason_of s =
     (case find (\<lambda>x. stop_reason_text x = s) stop_reasons of
        None \<Rightarrow> Inl (ValueError (s @ '' is not a valid ProbeStopReason''))
      | Some x \<Rightarrow> Inr x)"

definition audit_of_record :: "probe_audit \<Rightarrow> stop_reason \<Rightarrow> controller_audit" where
  "audit_of_record u reason =
     \<lparr>ca_sequence = pu_probe_sequence u, ca_capability_name = pu_capability_name u,
      ca_capability_version = pu_capability_version u, ca_request_sha256 = pu_request_sha256 u,
      ca_target_sha256 = pu_target_sha256 u, ca_outcome = pu_outcome u, ca_stop_reason = reason,
      ca_started_at = pu_started_at u, ca_completed_at = pu_completed_at u,
      ca_session_elapsed_ms = pu_session_elapsed_ms u, ca_probe_count_used = pu_probe_count_used u,
      ca_cost_units_used = pu_cost_units_used u, ca_result_bytes_acquired = pu_result_bytes_acquired u,
      ca_result_sha256 = pu_result_sha256 u, ca_result_byte_count = pu_result_byte_count u\<rparr>"

definition audit_record_sha256 :: "env \<Rightarrow> probe_audit \<Rightarrow> string result" where
  "audit_record_sha256 E u =
     bind_result (stop_reason_of (pu_stop_reason u)) (\<lambda>reason.
     bind_result (validate_controller_audit E (audit_of_record u reason)) (\<lambda>audit.
     Inr (controller_audit_sha256 E audit)))"

text \<open>
  Equality of two items of evidence: the objects of their targets and their correlations are
  dictionaries, which are compared without the order of their members.
\<close>

definition same_evidence :: "normalized_evidence \<Rightarrow> normalized_evidence \<Rightarrow> bool" where
  "same_evidence d e \<longleftrightarrow>
     d\<lparr>ev_target := ev_target e, ev_correlation := ev_correlation e\<rparr> = e \<and>
     target_eq (ev_target d) (ev_target e) \<and> set (ev_correlation d) = set (ev_correlation e)"

definition report_matches :: "investigation_report \<Rightarrow> core_evaluation \<Rightarrow> bool" where
  "report_matches r v \<longleftrightarrow>
     list_all2 same_evidence (ir_evidence r) (cv_evidence v) \<and>
     ir_evidence_decisions r = cv_decisions v \<and> ir_proof r = Some (cv_proof v) \<and>
     ir_classification r = Some (cv_classification v) \<and> ir_action_gate r = cv_action_gates v \<and>
     ir_missing_evidence r = cv_missing_evidence v"

definition audit_drift_message :: string where
  "audit_drift_message = ''report probe audit does not match the sealed evaluation''"

definition validate_attempt_audit :: "env \<Rightarrow> probe_audit \<times> evidence_attempt \<Rightarrow> unit result" where
  "validate_attempt_audit E = (\<lambda>(u, a).
     bind_result (unverifiable (pu_probe_sequence u \<noteq> at_probe_sequence a) audit_drift_message) (\<lambda>_.
     bind_result (audit_record_sha256 E u) (\<lambda>digest.
     unverifiable (digest \<noteq> at_controller_audit_sha256 a \<or> pu_evidence_ids u \<noteq> [attempt_id a])
       audit_drift_message)))"

definition validate_report ::
  "env \<Rightarrow> execution_envelope \<Rightarrow> investigation_report \<Rightarrow> core_evaluation \<Rightarrow> unit result" where
  "validate_report E x r v =
     bind_result (refusals
       [(ir_status r \<noteq> IS_COMPLETED, ''recovery requires a completed report''),
        (ir_investigation_id r \<noteq> xe_investigation_id x \<or> ir_envelope_sha256 r \<noteq> envelope_sha256 E x \<or>
           cv_envelope_sha256 v \<noteq> ir_envelope_sha256 r, ''report and evaluation envelope binding differs''),
        (\<not> report_matches r v, ''report does not reproduce the sealed deterministic evaluation''),
        (length (ir_probe_audit r) \<noteq> length (cv_attempts v), ''report omits deterministic probe audit'')]) (\<lambda>_.
     bind_result (map_result (validate_attempt_audit E) (zip (ir_probe_audit r) (cv_attempts v))) (\<lambda>_. Inr ()))"

section \<open>The evidence\<close>

definition admitted_ids :: "core_evaluation \<Rightarrow> string list" where
  "admitted_ids v = map ed_evidence_id (filter (\<lambda>d. ed_disposition d = ADMITTED) (cv_decisions v))"

definition evidence_escaped :: "execution_envelope \<Rightarrow> normalized_evidence \<Rightarrow> bool" where
  "evidence_escaped x e \<longleftrightarrow>
     \<not> target_eq (ev_target e) (xe_target x) \<or> ev_authority e \<noteq> TARGET_STATE \<or>
     (ev_capability_name e, ev_capability_version e) \<notin>
       set (map (\<lambda>c. (cref_name c, cref_version c)) (ec_enabled_capabilities (xe_context x))) \<or>
     ev_authority_policy_version e \<noteq> pr_authority (ec_policies (xe_context x)) \<or>
     \<not> correlation_matches (ec_correlation_fields (xe_context x)) (ev_correlation e)"

definition evidence_admitted :: "execution_envelope \<Rightarrow> core_evaluation \<Rightarrow> normalized_evidence list result" where
  "evidence_admitted x v =
     (let ids = set (admitted_ids v);
          admitted = sort_key ev_evidence_id (filter (\<lambda>e. ev_evidence_id e \<in> ids) (cv_evidence v)) in
      bind_result (refusals
        [(ids \<noteq> set (dp_admitted_evidence_ids (cv_proof v)), ''proof admitted-evidence identity drifted''),
         (set (map ev_evidence_id admitted) \<noteq> ids, ''admitted evidence is missing from evaluation''),
         (list_ex (evidence_escaped x) admitted,
           ''admitted evidence escaped target, policy, or correlation binding'')]) (\<lambda>_. Inr admitted))"

text \<open>The dictionary \<open>{item.evidence_id: item}\<close>: of two items with one identifier the later stands.\<close>

definition evidence_by_id :: "normalized_evidence list \<Rightarrow> string \<Rightarrow> normalized_evidence option" where
  "evidence_by_id evidence = map_of (rev (map (\<lambda>e. (ev_evidence_id e, e)) evidence))"

definition lookup_evidence :: "normalized_evidence list \<Rightarrow> string \<Rightarrow> normalized_evidence result" where
  "lookup_evidence evidence i =
     (case evidence_by_id evidence i of None \<Rightarrow> Inl (KeyError i) | Some e \<Rightarrow> Inr e)"

definition cited_ids :: "core_evaluation \<Rightarrow> normalized_evidence list \<Rightarrow> string list" where
  "cited_ids v admitted =
     concat (map ff_evidence_ids (dp_effect_findings (cv_proof v))) @
     (case dp_operation_status (cv_proof v) of
        None \<Rightarrow> []
      | Some s \<Rightarrow> map ev_evidence_id (filter (\<lambda>e. ev_operation_status e = Some s) admitted))"

definition supporting_evidence ::
  "core_evaluation \<Rightarrow> normalized_evidence list \<Rightarrow> normalized_evidence list result" where
  "supporting_evidence v admitted =
     bind_result (unverifiable (\<not> set (cited_ids v admitted) \<subseteq> set (map ev_evidence_id admitted))
       ''proof cites evidence that was not admitted'') (\<lambda>_.
     map_result (lookup_evidence admitted) (sorted_set (cited_ids v admitted)))"

end
