(* ===== verification/Recovery_Witness.thy ===== *)
theory Recovery_Witness
  imports Verification_Inputs
begin

text \<open>
  Ambiguity witnesses (\<open>_witness\<close> and its helpers in \<open>evidence/recovery_verification.py\<close>): the
  possible histories of an operation that the evidence does not settle, the conflicting pair that
  shows why, and the observations that would tell the histories apart.

  The effects of a proof have distinct identifiers, so a dictionary over the findings is a map over
  their list.
\<close>

section \<open>What identifies an artifact\<close>

definition evidence_sha256 :: "env \<Rightarrow> normalized_evidence \<Rightarrow> string" where
  "evidence_sha256 E e = canonical_sha256 E (normalized_evidence_json e)"

definition evidence_binding_of :: "env \<Rightarrow> normalized_evidence \<Rightarrow> evidence_binding result" where
  "evidence_binding_of E e =
     (let b = \<lparr>eb_evidence_id = ev_evidence_id e, eb_evidence_sha256 = evidence_sha256 E e,
        eb_raw_observation_sha256 = ro_sha256 (ev_raw_observation e),
        eb_valid_until = fw_valid_until (ev_freshness e)\<rparr> in
      bind_result (require (evidence_binding_ok E b) (ValueError field_message)) (\<lambda>_. Inr b))"

definition bindings :: "env \<Rightarrow> normalized_evidence list \<Rightarrow> evidence_binding list result" where
  "bindings E = map_result (evidence_binding_of E)"

definition finding_authority :: "effect_finding \<Rightarrow> json" where
  "finding_authority f = JObj
     [(''commit_scope'', JStr (ff_commit_scope f)),
      (''effect_id'', JStr (ff_effect_id f)),
      (''evidence_ids'', strings_json (sort (ff_evidence_ids f))),
      (''state'', JStr (effect_assertion_state_text (ff_state f)))]"

definition proof_authority :: "core_evaluation \<Rightarrow> json" where
  "proof_authority v =
     (let p = cv_proof v in JObj
       [(''admitted_evidence_ids'', strings_json (sort (dp_admitted_evidence_ids p))),
        (''conflicting_authority'', JBool (dp_conflicting_authority p)),
        (''effect_findings'', JArr (map finding_authority
           (sort_key (\<lambda>f. (ff_effect_id f, ff_commit_scope f)) (dp_effect_findings p)))),
        (''operation_status'', option_json (\<lambda>s. JStr (operation_status_text s)) (dp_operation_status p))])"

definition artifact_identifier :: "env \<Rightarrow> string \<Rightarrow> json_object \<Rightarrow> string result" where
  "artifact_identifier E prefix authority =
     bind_result (value_sha256 E (JObj authority)) (\<lambda>digest. Inr (prefix @ ''-'' @ digest))"

definition base_authority ::
  "env \<Rightarrow> recovery_chain \<Rightarrow> recovery_node \<Rightarrow> execution_envelope \<Rightarrow> core_evaluation \<Rightarrow>
   recovery_action_profile \<Rightarrow> normalized_evidence list \<Rightarrow> json_object" where
  "base_authority E c n x v p evidence =
     (let policies = ec_policies (xe_context x) in
     [(''action_profile_version'', JStr (profile_version p)),
      (''action_policy_version'', JStr (pr_action policies)),
      (''authority_policy_version'', JStr (pr_authority policies)),
      (''chain_sha256'', JStr (canonical_sha256 E (recovery_chain_json c))),
      (''classification'', JStr (classification_text (cv_classification v))),
      (''classification_policy_version'', JStr (pr_classification policies)),
      (''correlation_policy_version'', JStr ''exact-envelope-correlation-v1''),
      (''envelope_sha256'', JStr (envelope_sha256 E x)),
      (''evidence_sha256s'', strings_json (sort (map (evidence_sha256 E) evidence))),
      (''freshness_policy_version'', JStr ''envelope-freshness-window-v1''),
      (''node_sha256'', JStr (canonical_sha256 E (recovery_node_json n))),
      (''proof'', proof_authority v),
      (''semantic_action_sha256'', JStr (sa_semantic_action_sha256 (rn_semantic_action n))),
      (''verifier_version'', JStr ''recovery-verifier-v1'')])"

section \<open>Histories\<close>

type_synonym effect_states = "(string \<times> effect_assertion_state) list"

definition history_classification :: "effect_assertion_state list \<Rightarrow> classification" where
  "history_classification states =
     (if list_all (\<lambda>s. s = ESTABLISHED) states then COMMITTED
      else if list_all (\<lambda>s. s = NOT_ESTABLISHED) states then NOT_COMMITTED
      else if UNVERIFIED \<notin> set states \<and> ESTABLISHED \<in> set states \<and> NOT_ESTABLISHED \<in> set states then PARTIAL
      else UNKNOWN)"

definition compatible_with_history ::
  "normalized_evidence \<Rightarrow> effect_states \<Rightarrow> classification \<Rightarrow> bool" where
  "compatible_with_history e states c \<longleftrightarrow>
     list_all (\<lambda>a. case map_of states (ea_effect_id a) of
         None \<Rightarrow> True
       | Some s \<Rightarrow> ea_state a = UNVERIFIED \<or> ea_state a = s) (ev_effect_assertions e) \<and>
     (case ev_operation_status e of
        Some TERMINAL_NOT_COMMITTED \<Rightarrow> c = NOT_COMMITTED
      | Some TERMINAL_COMMITTED \<Rightarrow> c \<in> {COMMITTED, PARTIAL, UNKNOWN}
      | _ \<Rightarrow> True)"

text \<open>The effects of a history with the compatible evidence that states them.\<close>

definition states_effect :: "normalized_evidence \<Rightarrow> string \<Rightarrow> effect_assertion_state \<Rightarrow> bool" where
  "states_effect e i s \<longleftrightarrow> list_ex (\<lambda>a. ea_effect_id a = i \<and> ea_state a = s) (ev_effect_assertions e)"

definition hypothesized ::
  "env \<Rightarrow> normalized_evidence list \<Rightarrow> string list \<Rightarrow> string \<times> effect_assertion_state \<Rightarrow> hypothesized_effect result" where
  "hypothesized E evidence compatible = (\<lambda>(i, s). validate_hypothesized_effect E
     \<lparr>he_effect_id = i, he_state = s,
      he_cited_evidence_ids = sort (map ev_evidence_id
        (filter (\<lambda>e. ev_evidence_id e \<in> set compatible \<and> states_effect e i s) evidence))\<rparr>)"

definition built_history ::
  "env \<Rightarrow> string \<Rightarrow> classification \<Rightarrow> normalized_evidence list \<Rightarrow> effect_states \<Rightarrow> string list \<Rightarrow> string \<Rightarrow>
   possible_history result" where
  "built_history E history_id c evidence states compatible summary =
     bind_result (map_result (hypothesized E evidence compatible) states) (\<lambda>effects.
     validate_possible_history E
       \<lparr>ph_history_id = history_id, ph_classification = c, ph_effect_states = effects,
        ph_compatible_evidence_ids = compatible, ph_summary = summary\<rparr>)"

fun assignment_summary :: "effect_assertion_state \<Rightarrow> string" where
  "assignment_summary ESTABLISHED = ''The unresolved effects occurred before acknowledgement was lost.''"
| "assignment_summary NOT_ESTABLISHED = ''The unresolved effects did not occur before acknowledgement was lost.''"
| "assignment_summary UNVERIFIED = ''The operation remains active and the effects are not yet settled.''"

definition assigned_states :: "effect_assertion_state \<Rightarrow> bool \<Rightarrow> core_evaluation \<Rightarrow> effect_states" where
  "assigned_states assignment preserve_findings v =
     map (\<lambda>f. (ff_effect_id f,
         if \<not> preserve_findings \<or> ff_state f = UNVERIFIED then assignment else ff_state f))
       (dp_effect_findings (cv_proof v))"

text \<open>\<open>_history\<close>: the override of the classification is the argument \<open>override\<close>.\<close>

definition history ::
  "env \<Rightarrow> string \<Rightarrow> effect_assertion_state \<Rightarrow> core_evaluation \<Rightarrow> normalized_evidence list \<Rightarrow> bool \<Rightarrow>
   classification option \<Rightarrow> string list \<Rightarrow> possible_history result" where
  "history E history_id assignment v evidence preserve_findings override excluded =
     (let states = assigned_states assignment preserve_findings v;
          c = (case override of Some c \<Rightarrow> c | None \<Rightarrow> history_classification (map snd states));
          compatible = map ev_evidence_id (filter (\<lambda>e. ev_evidence_id e \<notin> set excluded \<and>
            compatible_with_history e states c) evidence) in
      built_history E history_id c evidence states compatible (assignment_summary assignment))"

section \<open>Conflicts\<close>

definition sorted_pair :: "string \<Rightarrow> string \<Rightarrow> string \<times> string" where
  "sorted_pair i j = (min i j, max i j)"

definition all_pairs :: "string list \<Rightarrow> string list \<Rightarrow> (string \<times> string) list" where
  "all_pairs is js = concat (map (\<lambda>i. map (sorted_pair i) js) is)"

definition stating :: "normalized_evidence list \<Rightarrow> string \<Rightarrow> effect_assertion_state \<Rightarrow> string list" where
  "stating evidence i s = map ev_evidence_id (filter (\<lambda>e. states_effect e i s) evidence)"

definition with_status :: "normalized_evidence list \<Rightarrow> operation_status \<Rightarrow> string list" where
  "with_status evidence s = map ev_evidence_id (filter (\<lambda>e. ev_operation_status e = Some s) evidence)"

definition incompatible_statuses :: "core_evaluation \<Rightarrow> (operation_status \<times> operation_status) list" where
  "incompatible_statuses v =
     [(TERMINAL_COMMITTED, TERMINAL_NOT_COMMITTED), (TERMINAL_NOT_COMMITTED, ACTIVE),
      (TERMINAL_NOT_COMMITTED, UNRESOLVED)] @
     (if list_all (\<lambda>f. ff_state f = ESTABLISHED) (dp_effect_findings (cv_proof v)) then []
      else [(TERMINAL_COMMITTED, ACTIVE), (TERMINAL_COMMITTED, UNRESOLVED)])"

definition generic_conflict_pairs ::
  "core_evaluation \<Rightarrow> normalized_evidence list \<Rightarrow> (string \<times> string) list" where
  "generic_conflict_pairs v evidence = sorted_set
     (concat (map (\<lambda>f. all_pairs (stating evidence (ff_effect_id f) ESTABLISHED)
          (stating evidence (ff_effect_id f) NOT_ESTABLISHED)) (dp_effect_findings (cv_proof v))) @
      concat (map (\<lambda>(s, t). all_pairs (with_status evidence s) (with_status evidence t))
          (incompatible_statuses v)) @
      all_pairs (map ev_evidence_id (filter
          (\<lambda>e. list_ex (\<lambda>a. ea_state a = ESTABLISHED) (ev_effect_assertions e)) evidence))
        (with_status evidence TERMINAL_NOT_COMMITTED))"

text \<open>The identifiers that the pairs hold against one of them.\<close>

definition conflicting_with :: "(string \<times> string) list \<Rightarrow> string \<Rightarrow> string list" where
  "conflicting_with pairs i =
     map (\<lambda>(l, r). if l = i then r else l) (filter (\<lambda>(l, r). i = l \<or> i = r) pairs)"

fun status_history :: "operation_status option \<Rightarrow> (effect_assertion_state \<times> classification) option" where
  "status_history (Some TERMINAL_COMMITTED) = Some (ESTABLISHED, COMMITTED)"
| "status_history (Some TERMINAL_NOT_COMMITTED) = Some (NOT_ESTABLISHED, NOT_COMMITTED)"
| "status_history (Some _) = Some (UNVERIFIED, PENDING)"
| "status_history None = None"

text \<open>\<open>status-\<close> and the lower case of the status.\<close>

fun status_history_id :: "operation_status \<Rightarrow> string" where
  "status_history_id ACTIVE = ''status-active''"
| "status_history_id UNRESOLVED = ''status-unresolved''"
| "status_history_id TERMINAL_COMMITTED = ''status-terminal_committed''"
| "status_history_id TERMINAL_NOT_COMMITTED = ''status-terminal_not_committed''"

definition outcome_signature :: "possible_history \<Rightarrow> classification \<times> effect_states" where
  "outcome_signature h =
     (ph_classification h, map (\<lambda>e. (he_effect_id e, he_state e)) (ph_effect_states h))"

text \<open>One history for each status of a pair that says nothing definitive of an effect.\<close>

definition status_of_item ::
  "env \<Rightarrow> (string \<times> string) list \<Rightarrow> core_evaluation \<Rightarrow> normalized_evidence list \<Rightarrow> normalized_evidence \<Rightarrow>
   possible_history result" where
  "status_of_item E pairs v evidence e =
     (case (ev_operation_status e, status_history (ev_operation_status e)) of
        (Some s, Some (assignment, c)) \<Rightarrow>
          history E (status_history_id s) assignment v evidence False (Some c)
            (conflicting_with pairs (ev_evidence_id e))
      | _ \<Rightarrow> Inl (KeyError ''None''))"

definition status_conflict_histories ::
  "env \<Rightarrow> string list \<Rightarrow> (string \<times> string) list \<Rightarrow> core_evaluation \<Rightarrow> normalized_evidence list \<Rightarrow>
   possible_history list option result" where
  "status_conflict_histories E conflict_ids pairs v evidence =
     (if length conflict_ids \<noteq> 2 then Inr None
      else bind_result (map_result (lookup_evidence evidence) conflict_ids) (\<lambda>pair.
        if list_ex (\<lambda>e. list_ex (\<lambda>a. ea_state a \<noteq> UNVERIFIED) (ev_effect_assertions e)) pair then Inr None
        else if list_ex (\<lambda>e. status_history (ev_operation_status e) = None) pair then Inr None
        else bind_result (map_result (status_of_item E pairs v evidence) pair) (\<lambda>histories.
          Inr (if distinct (map outcome_signature histories) then Some histories else None))))"

text \<open>The evidence that stands beside an anchor: greedily, in the order of the identifiers.\<close>

fun standing_beside :: "(string \<times> string) list \<Rightarrow> string list \<Rightarrow> string list \<Rightarrow> string list" where
  "standing_beside pairs selected [] = selected"
| "standing_beside pairs selected (i # is) =
     (if list_ex (\<lambda>s. (s, i) \<in> set pairs \<or> (i, s) \<in> set pairs) selected
      then standing_beside pairs selected is else standing_beside pairs (selected @ [i]) is)"

definition definitive_state :: "normalized_evidence list \<Rightarrow> string \<Rightarrow> effect_assertion_state" where
  "definitive_state candidates i =
     (case remdups (filter (\<lambda>s. s \<noteq> UNVERIFIED) (map ea_state (filter (\<lambda>a. ea_effect_id a = i)
         (concat (map ev_effect_assertions candidates))))) of
        [s] \<Rightarrow> s
      | _ \<Rightarrow> UNVERIFIED)"

definition pending_evidence :: "normalized_evidence \<Rightarrow> bool" where
  "pending_evidence e \<longleftrightarrow> ev_operation_status e \<in> {Some ACTIVE, Some UNRESOLVED}"

definition anchored_summary :: "string \<Rightarrow> string" where
  "anchored_summary anchor =
     ''Provider observation '' @ anchor @ '' is current; observations that contradict it are stale or superseded.''"

definition provider_conflict_history ::
  "env \<Rightarrow> (string \<times> string) list \<Rightarrow> core_evaluation \<Rightarrow> normalized_evidence list \<Rightarrow> string \<times> string \<Rightarrow>
   possible_history result" where
  "provider_conflict_history E pairs v evidence = (\<lambda>(history_id, anchor).
     let others = filter (\<lambda>i. i \<noteq> anchor) (sorted_set (map ev_evidence_id evidence)) in
     bind_result (map_result (lookup_evidence evidence) (standing_beside pairs [anchor] others)) (\<lambda>candidates.
     let states = map (\<lambda>f. (ff_effect_id f, definitive_state candidates (ff_effect_id f)))
           (dp_effect_findings (cv_proof v));
         settled_as = history_classification (map snd states);
         c = (if settled_as = UNKNOWN \<and> list_ex pending_evidence candidates then PENDING else settled_as);
         compatible = sort (map ev_evidence_id
           (filter (\<lambda>e. compatible_with_history e states c) candidates)) in
     built_history E history_id c candidates states compatible (anchored_summary anchor)))"

definition provider_conflict_histories ::
  "env \<Rightarrow> string list \<Rightarrow> (string \<times> string) list \<Rightarrow> core_evaluation \<Rightarrow> normalized_evidence list \<Rightarrow>
   possible_history list option result" where
  "provider_conflict_histories E conflict_ids pairs v evidence =
     (case conflict_ids of
        [i, j] \<Rightarrow>
          if (i, j) \<notin> set pairs then Inr None
          else bind_result (map_result (provider_conflict_history E pairs v evidence)
            [(''provider-state-1'', i), (''provider-state-2'', j)]) (\<lambda>histories. Inr (Some histories))
      | _ \<Rightarrow> Inr None)"

section \<open>Discriminating observations\<close>

definition effects_by_scope :: "execution_envelope \<Rightarrow> string list \<Rightarrow> (string \<times> string) list" where
  "effects_by_scope x open_ids =
     rev (map (\<lambda>f. (ee_commit_scope f, ee_effect_id f))
       (filter (\<lambda>f. ee_effect_id f \<in> set open_ids) (xe_expected_effects x)))"

fun observation_requirements :: "recovery_action_profile \<Rightarrow> (string \<times> provider_capability \<times> string) list" where
  "observation_requirements STAGE_CLOUD_RUN_REVISION =
     [(stage_revision_scope, REVISION_GET,
        ''Read the exact labelled revision and verify its image and configuration.''),
      (stage_readiness_scope, REVISION_HEALTH, ''Read health from the exact staged revision.''),
      (stage_traffic_scope, SERVICE_GET, ''Read settled service traffic for the exact staged revision.'')]"
| "observation_requirements PROMOTE_CLOUD_RUN_TRAFFIC =
     [(promotion_traffic_scope, SERVICE_GET,
        ''Read settled service traffic for the exact promoted revision.'')]"
| "observation_requirements CREATE_FIRESTORE_RELEASE_RECORD =
     [(firestore_record_scope, FIRESTORE_GET,
        ''Read the exact release document; matching existence proves commit.''),
      (firestore_record_scope, DISPATCH_RECEIPT_GET,
        ''Read a positive pre-provider dispatch receipt to prove non-execution.'')]"

definition profile_observations ::
  "(string \<times> string) list \<Rightarrow> string list \<Rightarrow> (string \<times> provider_capability \<times> string) list \<Rightarrow>
   discriminating_observation list" where
  "profile_observations effects history_ids requirements =
     List.map_filter (\<lambda>(scope, capability, description).
       map_option (\<lambda>i.
         \<lparr>do_observation_id = ''observe-'' @ capability_text capability, do_description = description,
          do_capability_name = Some (capability_text capability), do_capability_version = Some recovery_version,
          do_relevant_effect_ids = [i], do_distinguishes_history_ids = history_ids\<rparr>)
         (map_of effects scope)) requirements"

definition discriminating_observations ::
  "env \<Rightarrow> recovery_action_profile \<Rightarrow> execution_envelope \<Rightarrow> string list \<Rightarrow> string list \<Rightarrow>
   discriminating_observation list result" where
  "discriminating_observations E p x open_ids history_ids =
     (case profile_observations (effects_by_scope x open_ids) history_ids (observation_requirements p) of
        [] \<Rightarrow> map_result (validate_discriminating_observation E)
          [\<lparr>do_observation_id = ''validate-expected-effect-profile'',
            do_description =
              ''Validate the declared expected-effect profile before acquiring provider evidence.'',
            do_capability_name = None, do_capability_version = None,
            do_relevant_effect_ids = open_ids, do_distinguishes_history_ids = history_ids\<rparr>]
      | observations \<Rightarrow> map_result (validate_discriminating_observation E) observations)"

definition conflict_description :: "string \<Rightarrow> string" where
  "conflict_description name =
     (case map_of
       [(capability_text SERVICE_GET,
          ''Re-read the exact Cloud Run service to establish its current generation, ETag, revision, and traffic.''),
        (capability_text REVISION_GET,
          ''Re-read the exact Cloud Run revision to establish its current identity and readiness.''),
        (capability_text OPERATION_GET,
          ''Re-read the exact Cloud Run operation to establish its current lifecycle state.''),
        (capability_text REVISION_HEALTH,
          ''Repeat the exact revision health observation to establish its current readiness.''),
        (capability_text FIRESTORE_GET,
          ''Re-read the exact Firestore release record to establish its current existence and payload.''),
        (capability_text DISPATCH_RECEIPT_GET,
          ''Re-read the exact dispatch receipt to establish whether provider contact occurred.'')] name of
        Some description \<Rightarrow> description
      | None \<Rightarrow> ''Repeat the exact conflicting observation to establish current state.'')"

definition evidence_key :: "normalized_evidence \<Rightarrow> string \<times> string" where
  "evidence_key e = (ev_capability_name e, ev_capability_version e)"

definition conflict_observation ::
  "env \<Rightarrow> normalized_evidence list \<Rightarrow> string list \<Rightarrow> nat \<times> string \<times> string \<Rightarrow> discriminating_observation result" where
  "conflict_observation E selected history_ids = (\<lambda>(index, name, version).
     validate_discriminating_observation E
       \<lparr>do_observation_id = ''resolve-conflict-'' @ nat_text index, do_description = conflict_description name,
        do_capability_name = Some name, do_capability_version = Some version,
        do_relevant_effect_ids = sorted_set (map ea_effect_id (concat (map ev_effect_assertions
          (filter (\<lambda>e. evidence_key e = (name, version)) selected)))),
        do_distinguishes_history_ids = history_ids\<rparr>)"

definition conflict_discriminating_observations ::
  "env \<Rightarrow> string list \<Rightarrow> normalized_evidence list \<Rightarrow> string list \<Rightarrow> discriminating_observation list result" where
  "conflict_discriminating_observations E conflict_ids evidence history_ids =
     bind_result (map_result (lookup_evidence evidence) conflict_ids) (\<lambda>selected.
     map_result (conflict_observation E selected history_ids)
       (List.enumerate 1 (sorted_set (map evidence_key selected))))"

section \<open>The witness\<close>

text \<open>The conflicts, with a violation of the rules read as none.\<close>

definition witnessed_provider_conflicts ::
  "env \<Rightarrow> recovery_action_profile \<Rightarrow> semantic_action \<Rightarrow> normalized_evidence list \<Rightarrow> (string \<times> string) list result" where
  "witnessed_provider_conflicts E p a evidence =
     (case recovery_provider_conflict_pairs E p a evidence of
        Inl (RecoveryRuleViolation _) \<Rightarrow> Inr []
      | r \<Rightarrow> r)"

definition first_pair :: "(string \<times> string) list \<Rightarrow> string list" where
  "first_pair pairs = (case pairs of [] \<Rightarrow> [] | (i, j) # _ \<Rightarrow> [i, j])"

definition generic_histories ::
  "env \<Rightarrow> core_evaluation \<Rightarrow> normalized_evidence list \<Rightarrow> bool \<Rightarrow> possible_history list result" where
  "generic_histories E v evidence preserve =
     bind_result (history E ''effects-occurred'' ESTABLISHED v evidence preserve None []) (\<lambda>occurred.
     bind_result (history E ''effects-not-occurred'' NOT_ESTABLISHED v evidence preserve None []) (\<lambda>absent.
     Inr [occurred, absent]))"

definition witness_histories ::
  "env \<Rightarrow> string list \<Rightarrow> (string \<times> string) list \<Rightarrow> core_evaluation \<Rightarrow> normalized_evidence list \<Rightarrow> bool \<Rightarrow>
   possible_history list result" where
  "witness_histories E conflict_ids pairs v evidence preserve =
     (if conflict_ids = [] then generic_histories E v evidence preserve
      else bind_result (status_conflict_histories E conflict_ids pairs v evidence) (\<lambda>by_status.
        case by_status of
          Some histories \<Rightarrow> Inr histories
        | None \<Rightarrow> bind_result (provider_conflict_histories E conflict_ids pairs v evidence) (\<lambda>by_provider.
            case by_provider of
              Some histories \<Rightarrow> Inr histories
            | None \<Rightarrow> generic_histories E v evidence preserve)))"

definition unresolved_effect_ids :: "core_evaluation \<Rightarrow> string list" where
  "unresolved_effect_ids v =
     (let findings = dp_effect_findings (cv_proof v) in
      case filter (\<lambda>f. ff_state f = UNVERIFIED) findings of
        [] \<Rightarrow> map ff_effect_id findings
      | open_findings \<Rightarrow> map ff_effect_id open_findings)"

definition witness_authority ::
  "json_object \<Rightarrow> string list \<Rightarrow> discriminating_observation list \<Rightarrow> possible_history list \<Rightarrow> json_object" where
  "witness_authority base conflict_ids observations histories =
     base @
     [(''artifact_kind'', JStr ''ambiguity-witness''),
      (''conflicting_evidence_ids'', strings_json conflict_ids),
      (''discriminating_observations'', JArr (map discriminating_observation_json observations)),
      (''possible_histories'', JArr (map possible_history_json histories))]"

definition build_witness ::
  "env \<Rightarrow> recovery_chain \<Rightarrow> recovery_node \<Rightarrow> execution_envelope \<Rightarrow> investigation_report \<Rightarrow> core_evaluation \<Rightarrow>
   recovery_action_profile \<Rightarrow> normalized_evidence list \<Rightarrow> time \<Rightarrow> bool \<Rightarrow> ambiguity_witness result" where
  "build_witness E c n x r v p evidence verified_at preserve_findings =
     (let preserve = (preserve_findings \<and>
            list_ex (\<lambda>f. ff_state f = UNVERIFIED) (dp_effect_findings (cv_proof v)));
          generic = (if dp_conflicting_authority (cv_proof v) then generic_conflict_pairs v evidence else []);
          a = rn_semantic_action n in
      bind_result (witnessed_provider_conflicts E p a evidence) (\<lambda>provider.
      let conflict_ids = (if generic \<noteq> [] then first_pair generic else first_pair provider);
          pairs = sorted_set (provider @ generic) in
      bind_result (unverifiable (dp_conflicting_authority (cv_proof v) \<and> length conflict_ids \<noteq> 2)
        ''conflicting authority has no minimal contradictory evidence pair'') (\<lambda>_.
      bind_result (witness_histories E conflict_ids pairs v evidence preserve) (\<lambda>histories.
      let history_ids = map ph_history_id histories in
      bind_result
        (if conflict_ids \<noteq> [] then conflict_discriminating_observations E conflict_ids evidence history_ids
         else discriminating_observations E p x (unresolved_effect_ids v) history_ids) (\<lambda>observations.
      bind_result (artifact_identifier E ''witness''
        (witness_authority (base_authority E c n x v p evidence) conflict_ids observations histories)) (\<lambda>witness_id.
      bind_result (bindings E evidence) (\<lambda>evidence_bindings.
      validate_ambiguity_witness E
        \<lparr>aw_witness_id = witness_id, aw_chain_id = rc_chain_id c, aw_node_id = rn_node_id n,
         aw_semantic_action_sha256 = sa_semantic_action_sha256 a,
         aw_chain_sha256 = canonical_sha256 E (recovery_chain_json c),
         aw_node_sha256 = canonical_sha256 E (recovery_node_json n),
         aw_envelope_sha256 = envelope_sha256 E x,
         aw_report_sha256 = canonical_sha256 E (investigation_report_json r),
         aw_proof_sha256 = canonical_sha256 E (deterministic_proof_json (cv_proof v)),
         aw_target = sa_target a, aw_target_sha256 = canonical_sha256 E (target_binding_json (sa_target a)),
         aw_evidence = evidence_bindings, aw_possible_histories = histories,
         aw_discriminating_observations = observations, aw_conflicting_evidence_ids = conflict_ids,
         aw_verifier_version = ''recovery-verifier-v1'', aw_created_at = verified_at\<rparr>)))))))"

end
