(* ===== verification/Recovery_Verification.thy ===== *)
theory Recovery_Verification
  imports Recovery_Witness
begin

text \<open>
  \<open>verify_recovery\<close> of \<open>evidence/recovery_verification.py\<close>: from a chain, a node, its envelope, the
  report and the sealed evaluation of an investigation to a verified certificate or to an ambiguity
  witness. No output of a model is consulted.
\<close>

section \<open>Transitions\<close>

definition arguments_sha256 :: "env \<Rightarrow> recovery_node \<Rightarrow> string result" where
  "arguments_sha256 E n = value_sha256 E (JObj (sa_semantic_arguments (rn_semantic_action n)))"

text \<open>\<open>_successor\<close>: its only handled error is a refused resolution.\<close>

definition successor ::
  "recovery_chain \<Rightarrow> recovery_node \<Rightarrow> recovery_action_profile \<Rightarrow>
   (recovery_node \<times> recovery_action_profile) option result" where
  "successor c n p =
     (case successor_profile p of
        None \<Rightarrow> Inr None
      | Some expected \<Rightarrow>
        (case filter (\<lambda>m. rn_depends_on m = [rn_node_id n]) (rc_nodes c) of
           [m] \<Rightarrow>
             (case resolve_recovery_action_profile (rn_semantic_action m) of
                Inl (TypeError _) \<Rightarrow> Inr None
              | Inl (RecoveryRuleViolation _) \<Rightarrow> Inr None
              | Inl e \<Rightarrow> Inl e
              | Inr q \<Rightarrow> Inr (if q = expected then Some (m, q) else None))
         | _ \<Rightarrow> Inr None))"

definition certified_transition ::
  "env \<Rightarrow> permit_action \<Rightarrow> recovery_node \<Rightarrow> recovery_node \<Rightarrow> string \<Rightarrow> certified_transition option result" where
  "certified_transition E action source target precondition_sha256 =
     (let a = rn_semantic_action target in
      bind_result (arguments_sha256 E target) (\<lambda>arguments.
      bind_result (validate_certified_transition E
        \<lparr>ct_action = action, ct_source_node_id = rn_node_id source, ct_target_node_id = rn_node_id target,
         ct_semantic_action_sha256 = sa_semantic_action_sha256 a, ct_tool_name = sa_tool_name a,
         ct_tool_version = sa_tool_version a, ct_arguments_sha256 = arguments,
         ct_target_sha256 = canonical_sha256 E (target_binding_json (sa_target a)),
         ct_precondition_sha256 = precondition_sha256\<rparr>) (\<lambda>t. Inr (Some t))))"

text \<open>The digest of a precondition, and the transition that needs it: a violation gives none.\<close>

definition with_precondition ::
  "string result \<Rightarrow> (string \<Rightarrow> certified_transition option result) \<Rightarrow> certified_transition option result" where
  "with_precondition precondition transition =
     (case precondition of
        Inl (RecoveryRuleViolation _) \<Rightarrow> Inr None
      | Inl e \<Rightarrow> Inl e
      | Inr digest \<Rightarrow> transition digest)"

definition observed_revisions :: "normalized_evidence list \<Rightarrow> string list" where
  "observed_revisions evidence =
     List.map_filter (\<lambda>e.
       if evidence_capability e \<in> {Some REVISION_GET, Some REVISION_HEALTH}
       then map_of (ev_correlation e) ''revision'' else None) evidence"

definition continue_transition ::
  "env \<Rightarrow> recovery_chain \<Rightarrow> recovery_node \<Rightarrow> recovery_action_profile \<Rightarrow> normalized_evidence list \<Rightarrow>
   execution_envelope option \<Rightarrow> certified_transition option result" where
  "continue_transition E c n p evidence successor_envelope =
     bind_result (successor c n p) (\<lambda>next_node.
     case (next_node, successor_envelope) of
       (Some (m, q), Some y) \<Rightarrow>
         bind_result (validate_node_binding E m y) (\<lambda>validated.
         bind_result (unverifiable (validated \<noteq> q)
           ''successor envelope resolves to another action profile'') (\<lambda>_.
         if p = STAGE_CLOUD_RUN_REVISION \<and> set (observed_revisions evidence) \<noteq> {action_argument m ''revision''}
         then Inr None
         else with_precondition (recovery_precondition_sha256 E q evidence False)
           (certified_transition E PA_CONTINUE n m)))
     | _ \<Rightarrow> Inr None)"

definition evidence_reason_of :: "core_evaluation \<Rightarrow> string \<Rightarrow> evidence_reason result" where
  "evidence_reason_of v i =
     (case map_of (rev (map (\<lambda>d. (ed_evidence_id d, ed_reason d)) (cv_decisions v))) i of
        None \<Rightarrow> Inl (KeyError i)
      | Some reason \<Rightarrow> Inr reason)"

text \<open>The supporting evidence of affirmative non-execution; the lookup is only made for its status.\<close>

fun affirmative_evidence :: "core_evaluation \<Rightarrow> normalized_evidence list \<Rightarrow> normalized_evidence list result" where
  "affirmative_evidence v [] = Inr []"
| "affirmative_evidence v (e # es) =
     (if ev_operation_status e \<noteq> Some TERMINAL_NOT_COMMITTED then affirmative_evidence v es
      else bind_result (evidence_reason_of v (ev_evidence_id e)) (\<lambda>reason.
        bind_result (affirmative_evidence v es) (\<lambda>rest.
        Inr (if reason = AUTHORITATIVE_AFFIRMATIVE_NON_EXECUTION then e # rest else rest))))"

definition retry_transition ::
  "env \<Rightarrow> recovery_node \<Rightarrow> recovery_action_profile \<Rightarrow> core_evaluation \<Rightarrow> normalized_evidence list \<Rightarrow>
   certified_transition option result" where
  "retry_transition E n p v evidence =
     (if \<not> profile_retry_allowed p then Inr None
      else bind_result (affirmative_evidence v evidence) (\<lambda>positive.
        if positive = [] then Inr None
        else with_precondition (recovery_precondition_sha256 E p positive True)
          (certified_transition E PA_RETRY n n)))"

definition transition_of ::
  "env \<Rightarrow> recovery_chain \<Rightarrow> recovery_node \<Rightarrow> recovery_action_profile \<Rightarrow> core_evaluation \<Rightarrow>
   normalized_evidence list \<Rightarrow> execution_envelope option \<Rightarrow> certified_transition option result" where
  "transition_of E c n p v supporting successor_envelope =
     (case cv_classification v of
        COMMITTED \<Rightarrow> continue_transition E c n p supporting successor_envelope
      | NOT_COMMITTED \<Rightarrow> retry_transition E n p v supporting
      | _ \<Rightarrow> Inr None)"

section \<open>Certificates\<close>

text \<open>\<open>datetime.isoformat\<close> in UTC: the wire text with the offset in digits.\<close>

definition isoformat :: "time \<Rightarrow> string" where
  "isoformat t = butlast (iso_text t) @ ''+00:00''"

definition certificate_authority ::
  "env \<Rightarrow> json_object \<Rightarrow> time \<Rightarrow> normalized_evidence list \<Rightarrow> certified_transition option \<Rightarrow> json_object" where
  "certificate_authority E base expires_at supporting transition =
     base @
     [(''artifact_kind'', JStr ''verified-certificate''),
      (''expires_at'', JStr (isoformat expires_at)),
      (''supporting_evidence_sha256s'', strings_json (sort (map (evidence_sha256 E) supporting))),
      (''transition'', option_json certified_transition_json transition)]"

definition support_expiry :: "normalized_evidence list \<Rightarrow> time" where
  "support_expiry supporting = Min (set (map (\<lambda>e. fw_valid_until (ev_freshness e)) supporting))"

definition build_certificate ::
  "env \<Rightarrow> recovery_chain \<Rightarrow> recovery_node \<Rightarrow> execution_envelope \<Rightarrow> investigation_report \<Rightarrow> core_evaluation \<Rightarrow>
   recovery_action_profile \<Rightarrow> normalized_evidence list \<Rightarrow> normalized_evidence list \<Rightarrow> time \<Rightarrow>
   execution_envelope option \<Rightarrow> certificate result" where
  "build_certificate E c n x r v p relevant supporting verified_at successor_envelope =
     (let a = rn_semantic_action n; policies = ec_policies (xe_context x); expires_at = support_expiry supporting in
      bind_result (transition_of E c n p v supporting successor_envelope) (\<lambda>transition.
      bind_result (artifact_identifier E ''certificate''
        (certificate_authority E (base_authority E c n x v p relevant) expires_at supporting transition))
        (\<lambda>certificate_id.
      bind_result (bindings E supporting) (\<lambda>evidence_bindings.
      validate_certificate E
        \<lparr>vc_certificate_id = certificate_id, vc_chain_id = rc_chain_id c, vc_node_id = rn_node_id n,
         vc_semantic_action_sha256 = sa_semantic_action_sha256 a,
         vc_chain_sha256 = canonical_sha256 E (recovery_chain_json c),
         vc_node_sha256 = canonical_sha256 E (recovery_node_json n),
         vc_envelope_sha256 = envelope_sha256 E x,
         vc_report_sha256 = canonical_sha256 E (investigation_report_json r),
         vc_proof_sha256 = canonical_sha256 E (deterministic_proof_json (cv_proof v)),
         vc_target = sa_target a, vc_target_sha256 = canonical_sha256 E (target_binding_json (sa_target a)),
         vc_evidence = evidence_bindings, vc_authority_policy_version = pr_authority policies,
         vc_correlation_policy_version = ''exact-envelope-correlation-v1'',
         vc_freshness_policy_version = ''envelope-freshness-window-v1'',
         vc_classification_policy_version = pr_classification policies,
         vc_action_policy_version = pr_action policies,
         vc_action_profile_version = profile_version p, vc_verifier_version = ''recovery-verifier-v1'',
         vc_classification = cv_classification v, vc_transition = transition,
         vc_issued_at = verified_at, vc_expires_at = expires_at\<rparr>))))"

section \<open>The verification\<close>

text \<open>What the verification establishes before it decides.\<close>

record verified_inputs =
  vi_node :: recovery_node
  vi_profile :: recovery_action_profile
  vi_admitted :: "normalized_evidence list"
  vi_supporting :: "normalized_evidence list"

definition verified_inputs_of ::
  "env \<Rightarrow> recovery_chain \<Rightarrow> string \<Rightarrow> execution_envelope \<Rightarrow> investigation_report \<Rightarrow> core_evaluation \<Rightarrow> time \<Rightarrow>
   execution_envelope option \<Rightarrow> verified_inputs result" where
  "verified_inputs_of E c node_id x r v verified_at successor_envelope =
     bind_result (rehydrate (validate_recovery_chain E) ''RecoveryChain'' c) (\<lambda>_.
     bind_result (rehydrate (validate_execution_envelope E) ''ExecutionEnvelope'' x) (\<lambda>_.
     bind_result (rehydrate (validate_investigation_report E) ''InvestigationReport'' r) (\<lambda>_.
     bind_result (case successor_envelope of
         None \<Rightarrow> Inr ()
       | Some y \<Rightarrow> bind_result (rehydrate (validate_execution_envelope E) ''ExecutionEnvelope'' y) (\<lambda>_. Inr ())) (\<lambda>_.
     bind_result (validate_chain c) (\<lambda>_.
     bind_result (find_node c node_id) (\<lambda>n.
     bind_result (validate_node_binding E n x) (\<lambda>p.
     bind_result (validate_report E x r v) (\<lambda>_.
     bind_result (validate_time verified_at c x r) (\<lambda>_.
     bind_result (evidence_admitted x v) (\<lambda>admitted.
     bind_result (supporting_evidence v admitted) (\<lambda>supporting.
     Inr \<lparr>vi_node = n, vi_profile = p, vi_admitted = admitted, vi_supporting = supporting\<rparr>)))))))))))"

definition profile_evidence_valid ::
  "env \<Rightarrow> recovery_action_profile \<Rightarrow> semantic_action \<Rightarrow> execution_envelope \<Rightarrow> core_evaluation \<Rightarrow>
   normalized_evidence list \<Rightarrow> bool result" where
  "profile_evidence_valid E p a x v evidence =
     (case validate_recovery_proof E p a (xe_expected_effects x) (cv_classification v) evidence of
        Inl (RecoveryRuleViolation _) \<Rightarrow> Inr False
      | Inl e \<Rightarrow> Inl e
      | Inr _ \<Rightarrow> Inr True)"

definition stale_at :: "time \<Rightarrow> normalized_evidence \<Rightarrow> bool" where
  "stale_at verified_at e \<longleftrightarrow>
     \<not> (fw_valid_from (ev_freshness e) \<le> verified_at \<and> verified_at < fw_valid_until (ev_freshness e))"

type_synonym recovery_verdict = "certificate + ambiguity_witness"

definition verify_recovery ::
  "env \<Rightarrow> recovery_chain \<Rightarrow> string \<Rightarrow> execution_envelope \<Rightarrow> investigation_report \<Rightarrow> core_evaluation \<Rightarrow> time \<Rightarrow>
   execution_envelope option \<Rightarrow> recovery_verdict result" where
  "verify_recovery E c node_id x r v verified_at successor_envelope =
     bind_result (verified_inputs_of E c node_id x r v verified_at successor_envelope) (\<lambda>i.
     let n = vi_node i; p = vi_profile i; relevant = vi_admitted i; supporting = vi_supporting i in
     bind_result (profile_evidence_valid E p (rn_semantic_action n) x v relevant) (\<lambda>valid.
     let stale = list_ex (stale_at verified_at) supporting in
     if cv_classification v = UNKNOWN \<or> dp_conflicting_authority (cv_proof v) \<or> supporting = [] \<or>
        \<not> valid \<or> stale
     then bind_result (build_witness E c n x r v p relevant verified_at (valid \<and> \<not> stale)) (\<lambda>w. Inr (Inr w))
     else bind_result (build_certificate E c n x r v p relevant supporting verified_at successor_envelope)
       (\<lambda>certificate. Inr (Inl certificate))))"

end
