(* ===== verification/Verification_Laws.thy ===== *)
theory Verification_Laws
  imports Recovery_Verification Recovery_Proof_Laws Permit_Authority Report_Laws
begin

text \<open>
  What a verification guarantees: the inputs on which its verdict rests, what a certificate was
  issued on, where its transition leads, and how it turns into a permit.
\<close>

section \<open>The inputs\<close>

lemma validate_chain_eq: "validate_chain c = Inr found \<longleftrightarrow>
    rc_chain_profile_version c = recovery_chain_profile_version \<and>
    length (rc_nodes c) = length recovery_action_profiles \<and> nodes_by_profile [] (rc_nodes c) = Inr found \<and>
    (\<exists>stage promote record_node. map_of found STAGE_CLOUD_RUN_REVISION = Some stage \<and>
       map_of found PROMOTE_CLOUD_RUN_TRAFFIC = Some promote \<and>
       map_of found CREATE_FIRESTORE_RELEASE_RECORD = Some record_node \<and>
       chain_topology stage promote record_node = Inr ())"
  by (cases "nodes_by_profile [] (rc_nodes c)") (auto simp: validate_chain_def split: option.splits)

lemma nodes_by_profile_set:
  assumes "nodes_by_profile found ns = Inr all" "distinct (map fst found)"
  shows "set all = set found \<union> {(p, n). n \<in> set ns \<and> resolve_recovery_action_profile (rn_semantic_action n) = Inr p}"
    and "distinct (map fst all)"
    and "\<forall>n\<in>set ns. \<exists>p. resolve_recovery_action_profile (rn_semantic_action n) = Inr p"
proof -
  have "set all = set found \<union> {(p, n). n \<in> set ns \<and> resolve_recovery_action_profile (rn_semantic_action n) = Inr p} \<and>
      distinct (map fst all) \<and> (\<forall>n\<in>set ns. \<exists>p. resolve_recovery_action_profile (rn_semantic_action n) = Inr p)"
    using assms
  proof (induction ns arbitrary: found)
    case (Cons n ns)
    then obtain p where p: "resolve_recovery_action_profile (rn_semantic_action n) = Inr p" "p \<notin> fst ` set found"
        "nodes_by_profile (found @ [(p, n)]) ns = Inr all" by auto
    with Cons.prems(2) have "distinct (map fst (found @ [(p, n)]))" by simp
    from Cons.IH [OF p(3) this] p(1) show ?case by auto
  qed simp
  then show "set all = set found \<union> {(p, n). n \<in> set ns \<and> resolve_recovery_action_profile (rn_semantic_action n) = Inr p}"
    "distinct (map fst all)" "\<forall>n\<in>set ns. \<exists>p. resolve_recovery_action_profile (rn_semantic_action n) = Inr p"
    by blast+
qed

lemma find_nodeD: "find_node c i = Inr n \<Longrightarrow> n \<in> set (rc_nodes c) \<and> rn_node_id n = i"
proof -
  assume "find_node c i = Inr n"
  then have "filter (\<lambda>n. rn_node_id n = i) (rc_nodes c) = [n]" by (auto simp: find_node_def split: list.splits)
  then have "n \<in> set (filter (\<lambda>n. rn_node_id n = i) (rc_nodes c))" by simp
  then show ?thesis by simp
qed

lemma validate_node_binding_eq: "validate_node_binding E n x = Inr p \<longleftrightarrow>
    envelope_referenced E n x \<and> action_of_envelope E (rn_semantic_action n) x \<and>
    resolve_recovery_action_profile (rn_semantic_action n) = Inr p \<and>
    map_of (ec_correlation_fields (xe_context x)) ''release_id'' =
      Some (field_text (sa_semantic_arguments (rn_semantic_action n)) ''release_id'')"
  by (auto simp: validate_node_binding_def Let_def)

text \<open>The inputs that a verification accepts, as one fact.\<close>

definition inputs_coherent ::
  "env \<Rightarrow> recovery_chain \<Rightarrow> string \<Rightarrow> execution_envelope \<Rightarrow> investigation_report \<Rightarrow> core_evaluation \<Rightarrow> time \<Rightarrow>
   verified_inputs \<Rightarrow> bool" where
  "inputs_coherent E c node_id x r v t i \<longleftrightarrow>
     validate_recovery_chain E c = Inr c \<and> validate_execution_envelope E x = Inr x \<and>
     validate_investigation_report E r = Inr r \<and> (\<exists>found. validate_chain c = Inr found) \<and>
     find_node c node_id = Inr (vi_node i) \<and> validate_node_binding E (vi_node i) x = Inr (vi_profile i) \<and>
     validate_report E x r v = Inr () \<and> validate_time t c x r = Inr () \<and>
     evidence_admitted x v = Inr (vi_admitted i) \<and> supporting_evidence v (vi_admitted i) = Inr (vi_supporting i)"

lemma verified_inputs_ofD:
  assumes "verified_inputs_of E c node_id x r v t y = Inr i"
  shows "inputs_coherent E c node_id x r v t i"
    and "\<And>z. y = Some z \<Longrightarrow> validate_execution_envelope E z = Inr z"
proof -
  have same: "validate_recovery_chain E c = Inr c' \<Longrightarrow> c' = c" "validate_execution_envelope E z = Inr z' \<Longrightarrow> z' = z"
    "validate_investigation_report E r = Inr r' \<Longrightarrow> r' = r" for c' z z' r'
    by (simp_all add: validate_recovery_chain_eq validate_execution_envelope_def validate_investigation_report_def)
  show "inputs_coherent E c node_id x r v t i"
    using assms same unfolding verified_inputs_of_def inputs_coherent_def bind_result_eq_Inr rehydrate_Inr
    by fastforce
  show "validate_execution_envelope E z = Inr z" if "y = Some z" for z
    using assms same(2) [of z] unfolding verified_inputs_of_def bind_result_eq_Inr rehydrate_Inr that option.case
    by fastforce
qed

text \<open>The two verdicts.\<close>

lemma verify_recovery_certificate:
  assumes "verify_recovery E c node_id x r v t y = Inr (Inl cert)"
  obtains i where "verified_inputs_of E c node_id x r v t y = Inr i" "inputs_coherent E c node_id x r v t i"
    "validate_recovery_proof E (vi_profile i) (rn_semantic_action (vi_node i)) (xe_expected_effects x)
       (cv_classification v) (vi_admitted i) = Inr ()"
    "cv_classification v \<noteq> UNKNOWN" "\<not> dp_conflicting_authority (cv_proof v)" "vi_supporting i \<noteq> []"
    "list_all (\<lambda>e. \<not> stale_at t e) (vi_supporting i)"
    "build_certificate E c (vi_node i) x r v (vi_profile i) (vi_admitted i) (vi_supporting i) t y = Inr cert"
proof -
  obtain i valid where i: "verified_inputs_of E c node_id x r v t y = Inr i"
      "profile_evidence_valid E (vi_profile i) (rn_semantic_action (vi_node i)) x v (vi_admitted i) = Inr valid"
      "\<not> (cv_classification v = UNKNOWN \<or> dp_conflicting_authority (cv_proof v) \<or> vi_supporting i = [] \<or>
         \<not> valid \<or> list_ex (stale_at t) (vi_supporting i))"
      "build_certificate E c (vi_node i) x r v (vi_profile i) (vi_admitted i) (vi_supporting i) t y = Inr cert"
    using assms by (auto simp: verify_recovery_def Let_def split: if_splits)
  have "validate_recovery_proof E (vi_profile i) (rn_semantic_action (vi_node i)) (xe_expected_effects x)
       (cv_classification v) (vi_admitted i) = Inr ()"
    using i(2,3) by (auto simp: profile_evidence_valid_def split: sum.splits exn.splits)
  moreover have "list_all (\<lambda>e. \<not> stale_at t e) (vi_supporting i)" using i(3) by (auto simp: list_all_iff list_ex_iff)
  ultimately show ?thesis using i(3) by (intro that [OF i(1) verified_inputs_ofD(1) [OF i(1)] _ _ _ _ _ i(4)]) simp_all
qed

section \<open>The evidence of a certificate\<close>

lemma lookup_evidence_Inr:
  assumes "lookup_evidence evidence i = Inr e"
  shows "e \<in> set evidence" "ev_evidence_id e = i"
  using assms by (auto simp: lookup_evidence_def evidence_by_id_def dest!: map_of_SomeD split: option.splits)

lemma lookup_evidence_total: "i \<in> set (map ev_evidence_id evidence) \<Longrightarrow> \<exists>e. lookup_evidence evidence i = Inr e"
proof -
  assume "i \<in> set (map ev_evidence_id evidence)"
  then have "i \<in> fst ` set (rev (map (\<lambda>e. (ev_evidence_id e, e)) evidence))" by force
  then show ?thesis
    unfolding lookup_evidence_def evidence_by_id_def by (cases "map_of (rev (map (\<lambda>e. (ev_evidence_id e, e)) evidence)) i")
      (simp_all add: map_of_eq_None_iff)
qed

lemma lookup_all:
  assumes "map_result (lookup_evidence evidence) is = Inr es"
  shows "map ev_evidence_id es = is" "set es \<subseteq> set evidence"
proof -
  have found: "list_all2 (\<lambda>i e. lookup_evidence evidence i = Inr e) is es" using assms by (simp add: map_result_eq_Inr)
  then show "map ev_evidence_id es = is"
    by (induction rule: list_all2_induct) (simp_all add: lookup_evidence_Inr)
  from found show "set es \<subseteq> set evidence"
    by (induction rule: list_all2_induct) (simp_all add: lookup_evidence_Inr)
qed

lemma supporting_evidenceD:
  assumes "supporting_evidence v admitted = Inr supporting"
  shows "set supporting \<subseteq> set admitted" "map ev_evidence_id supporting = sorted_set (cited_ids v admitted)"
  using assms lookup_all [of admitted "sorted_set (cited_ids v admitted)" supporting]
  by (auto simp: supporting_evidence_def)

lemma evidence_admittedD:
  assumes "evidence_admitted x v = Inr admitted"
  shows "set admitted = {e \<in> set (cv_evidence v). ev_evidence_id e \<in> set (admitted_ids v)}"
    "set (admitted_ids v) = set (dp_admitted_evidence_ids (cv_proof v))"
    "\<forall>e\<in>set admitted. \<not> evidence_escaped x e"
    "admitted = sort_key ev_evidence_id (filter (\<lambda>e. ev_evidence_id e \<in> set (admitted_ids v)) (cv_evidence v))"
    "set (map ev_evidence_id admitted) = set (admitted_ids v)"
  using assms by (auto simp: evidence_admitted_def Let_def list_ex_iff)

definition binding_of :: "env \<Rightarrow> normalized_evidence \<Rightarrow> evidence_binding" where
  "binding_of E e =
     \<lparr>eb_evidence_id = ev_evidence_id e, eb_evidence_sha256 = evidence_sha256 E e,
      eb_raw_observation_sha256 = ro_sha256 (ev_raw_observation e), eb_valid_until = fw_valid_until (ev_freshness e)\<rparr>"

lemma evidence_binding_of_eq:
  "evidence_binding_of E e = Inr b \<longleftrightarrow> b = binding_of E e \<and> evidence_binding_ok E (binding_of E e)"
  by (auto simp: evidence_binding_of_def Let_def binding_of_def)

lemma bindings_eq:
  "bindings E es = Inr bs \<longleftrightarrow> bs = map (binding_of E) es \<and> list_all (\<lambda>e. evidence_binding_ok E (binding_of E e)) es"
proof -
  have "list_all2 (\<lambda>e b. evidence_binding_of E e = Inr b) es bs \<longleftrightarrow>
      bs = map (binding_of E) es \<and> list_all (\<lambda>e. evidence_binding_ok E (binding_of E e)) es"
    by (induction es arbitrary: bs) (auto simp: evidence_binding_of_eq list_all2_Cons1)
  then show ?thesis by (simp add: bindings_def map_result_eq_Inr)
qed

lemma build_certificateD:
  assumes "build_certificate E c n x r v p relevant supporting t y = Inr cert"
  shows "transition_of E c n p v supporting y = Inr (vc_transition cert)"
    "artifact_identifier E ''certificate'' (certificate_authority E (base_authority E c n x v p relevant)
       (support_expiry supporting) supporting (vc_transition cert)) = Inr (vc_certificate_id cert)"
    "vc_evidence cert = map (binding_of E) supporting" "validate_certificate E cert = Inr cert"
    "vc_chain_id cert = rc_chain_id c" "vc_node_id cert = rn_node_id n"
    "vc_semantic_action_sha256 cert = sa_semantic_action_sha256 (rn_semantic_action n)"
    "vc_envelope_sha256 cert = envelope_sha256 E x" "vc_target cert = sa_target (rn_semantic_action n)"
    "vc_report_sha256 cert = canonical_sha256 E (investigation_report_json r)"
    "vc_action_profile_version cert = profile_version p" "vc_classification cert = cv_classification v"
    "vc_action_policy_version cert = pr_action (ec_policies (xe_context x))"
    "vc_issued_at cert = t" "vc_expires_at cert = support_expiry supporting"
proof -
  have accepted: "validate_certificate E k = Inr cert \<Longrightarrow> cert = k \<and> validate_certificate E k = Inr k" for k
    by (simp add: validate_certificate_def)
  show "transition_of E c n p v supporting y = Inr (vc_transition cert)"
    "artifact_identifier E ''certificate'' (certificate_authority E (base_authority E c n x v p relevant)
       (support_expiry supporting) supporting (vc_transition cert)) = Inr (vc_certificate_id cert)"
    using assms unfolding build_certificate_def Let_def bind_result_eq_Inr bindings_eq by (auto dest!: accepted)
qed (use assms in \<open>auto simp: build_certificate_def Let_def bindings_eq validate_certificate_def\<close>)

lemma support_expiry_le: "e \<in> set supporting \<Longrightarrow> support_expiry supporting \<le> fw_valid_until (ev_freshness e)"
  by (simp add: support_expiry_def)

lemma support_expiry_less:
  assumes "supporting \<noteq> []" "list_all (\<lambda>e. \<not> stale_at t e) supporting"
  shows "t < support_expiry supporting"
  using assms by (auto simp: support_expiry_def list_all_iff stale_at_def)

definition support_cited :: "core_evaluation \<Rightarrow> normalized_evidence list \<Rightarrow> normalized_evidence list \<Rightarrow> bool" where
  "support_cited v admitted supporting \<longleftrightarrow>
     supporting \<noteq> [] \<and> set supporting \<subseteq> set admitted \<and>
     map ev_evidence_id supporting = sorted_set (cited_ids v admitted)"

lemma certificate_grounds:
  assumes "verify_recovery E c node_id x r v t y = Inr (Inl cert)"
  obtains n p admitted supporting where
    "find_node c node_id = Inr n" "validate_node_binding E n x = Inr p" "validate_report E x r v = Inr ()"
    "evidence_admitted x v = Inr admitted" "support_cited v admitted supporting"
    "validate_recovery_proof E p (rn_semantic_action n) (xe_expected_effects x) (vc_classification cert) admitted = Inr ()"
    "vc_classification cert = cv_classification v" "vc_classification cert \<noteq> UNKNOWN"
    "\<not> dp_conflicting_authority (cv_proof v)" "vc_evidence cert = map (binding_of E) supporting"
    "\<forall>e\<in>set supporting. fw_valid_from (ev_freshness e) \<le> t \<and> vc_expires_at cert \<le> fw_valid_until (ev_freshness e)"
    "vc_issued_at cert = t" "t < vc_expires_at cert" "validate_certificate E cert = Inr cert"
    "transition_of E c n p v supporting y = Inr (vc_transition cert)" "vc_node_id cert = node_id"
    "vc_action_profile_version cert = profile_version p"
proof -
  obtain i where i: "inputs_coherent E c node_id x r v t i"
    and proved: "validate_recovery_proof E (vi_profile i) (rn_semantic_action (vi_node i)) (xe_expected_effects x)
       (cv_classification v) (vi_admitted i) = Inr ()"
    and definitive: "cv_classification v \<noteq> UNKNOWN" "\<not> dp_conflicting_authority (cv_proof v)" "vi_supporting i \<noteq> []"
    and fresh: "list_all (\<lambda>e. \<not> stale_at t e) (vi_supporting i)"
    and built: "build_certificate E c (vi_node i) x r v (vi_profile i) (vi_admitted i) (vi_supporting i) t y = Inr cert"
    by (rule verify_recovery_certificate [OF assms])
  note cert = build_certificateD [OF built]
  have support: "support_cited v (vi_admitted i) (vi_supporting i)"
    using i definitive(3) supporting_evidenceD unfolding support_cited_def inputs_coherent_def by blast
  have window: "\<forall>e\<in>set (vi_supporting i). fw_valid_from (ev_freshness e) \<le> t \<and> vc_expires_at cert \<le> fw_valid_until (ev_freshness e)"
    using fresh support_expiry_le by (auto simp: cert(15) list_all_iff stale_at_def)
  have "vc_node_id cert = node_id" using i find_nodeD by (auto simp: cert(6) inputs_coherent_def)
  then show ?thesis
    using i proved definitive window support_expiry_less [OF definitive(3) fresh] cert support
    by (intro that [of "vi_node i" "vi_profile i" "vi_admitted i" "vi_supporting i"])
      (simp_all add: inputs_coherent_def)
qed

section \<open>Where a transition leads\<close>

lemma successorD:
  assumes "successor c n p = Inr (Some (m, q))"
  shows "m \<in> set (rc_nodes c)" "rn_depends_on m = [rn_node_id n]"
    "resolve_recovery_action_profile (rn_semantic_action m) = Inr q" "successor_profile p = Some q"
proof -
  obtain expected where expected: "successor_profile p = Some expected"
    using assms by (auto simp: successor_def split: option.splits)
  then obtain m' where m': "filter (\<lambda>m. rn_depends_on m = [rn_node_id n]) (rc_nodes c) = [m']"
      "resolve_recovery_action_profile (rn_semantic_action m') = Inr q" "m = m'" "q = expected"
    using assms by (auto simp: successor_def split: list.splits sum.splits exn.splits if_splits)
  then have "m \<in> set (filter (\<lambda>m. rn_depends_on m = [rn_node_id n]) (rc_nodes c))" by simp
  then show "m \<in> set (rc_nodes c)" "rn_depends_on m = [rn_node_id n]" by simp_all
  show "resolve_recovery_action_profile (rn_semantic_action m) = Inr q" "successor_profile p = Some q"
    using m' expected by simp_all
qed

text \<open>A transition names its target node exactly.\<close>

definition leads_to :: "env \<Rightarrow> certified_transition \<Rightarrow> recovery_node \<Rightarrow> bool" where
  "leads_to E t m \<longleftrightarrow>
     (let a = rn_semantic_action m in
      ct_target_node_id t = rn_node_id m \<and> ct_semantic_action_sha256 t = sa_semantic_action_sha256 a \<and>
      ct_tool_name t = sa_tool_name a \<and> ct_tool_version t = sa_tool_version a \<and>
      arguments_sha256 E m = Inr (ct_arguments_sha256 t) \<and>
      ct_target_sha256 t = canonical_sha256 E (target_binding_json (sa_target a)))"

lemma certified_transition_Inr:
  "certified_transition E action n m digest = Inr k \<Longrightarrow>
     \<exists>t. k = Some t \<and> leads_to E t m \<and> ct_action t = action \<and> ct_source_node_id t = rn_node_id n \<and>
       ct_precondition_sha256 t = digest"
  by (auto simp: certified_transition_def leads_to_def Let_def validate_certified_transition_def)

lemma with_precondition_Some:
  "with_precondition precondition f = Inr (Some t) \<longleftrightarrow> (\<exists>digest. precondition = Inr digest \<and> f digest = Inr (Some t))"
  by (auto simp: with_precondition_def split: sum.splits exn.splits)

lemma affirmative_evidence_subset:
  "affirmative_evidence v es = Inr ps \<Longrightarrow>
     set ps \<subseteq> {e \<in> set es. ev_operation_status e = Some TERMINAL_NOT_COMMITTED}"
  by (induction v es arbitrary: ps rule: affirmative_evidence.induct) (auto split: if_splits)

lemma continue_transitionD:
  assumes "continue_transition E c n p evidence y = Inr (Some t)"
  obtains m q z where "m \<in> set (rc_nodes c)" "rn_depends_on m = [rn_node_id n]" "successor_profile p = Some q"
    "y = Some z" "validate_node_binding E m z = Inr q" "leads_to E t m" "ct_action t = PA_CONTINUE"
    "ct_source_node_id t = rn_node_id n"
    "recovery_precondition_sha256 E q evidence False = Inr (ct_precondition_sha256 t)"
    "p = STAGE_CLOUD_RUN_REVISION \<Longrightarrow> set (observed_revisions evidence) = {action_argument m ''revision''}"
proof -
  obtain m q z where s: "successor c n p = Inr (Some (m, q))" "y = Some z" "validate_node_binding E m z = Inr q"
      "\<not> (p = STAGE_CLOUD_RUN_REVISION \<and> set (observed_revisions evidence) \<noteq> {action_argument m ''revision''})"
      "with_precondition (recovery_precondition_sha256 E q evidence False) (certified_transition E PA_CONTINUE n m) =
        Inr (Some t)"
  proof (cases "successor c n p")
    case (Inr found)
    then show ?thesis
      using assms that by (cases found; cases y) (auto simp: continue_transition_def split: if_splits)
  qed (use assms in \<open>simp add: continue_transition_def\<close>)
  obtain digest where digest: "recovery_precondition_sha256 E q evidence False = Inr digest"
      "certified_transition E PA_CONTINUE n m digest = Inr (Some t)"
    using s(5) by (auto simp: with_precondition_Some)
  show ?thesis
    using successorD [OF s(1)] s certified_transition_Inr [OF digest(2)] digest(1) by (intro that [of m q z]) auto
qed

lemma retry_transitionD:
  assumes "retry_transition E n p v evidence = Inr (Some t)"
  obtains positive where "profile_retry_allowed p" "positive \<noteq> []"
    "set positive \<subseteq> {e \<in> set evidence. ev_operation_status e = Some TERMINAL_NOT_COMMITTED}"
    "leads_to E t n" "ct_action t = PA_RETRY" "ct_source_node_id t = rn_node_id n"
    "recovery_precondition_sha256 E p positive True = Inr (ct_precondition_sha256 t)"
proof -
  obtain positive where r: "profile_retry_allowed p" "affirmative_evidence v evidence = Inr positive" "positive \<noteq> []"
      "with_precondition (recovery_precondition_sha256 E p positive True) (certified_transition E PA_RETRY n n) =
        Inr (Some t)"
    using assms by (auto simp: retry_transition_def split: if_splits)
  obtain digest where digest: "recovery_precondition_sha256 E p positive True = Inr digest"
      "certified_transition E PA_RETRY n n digest = Inr (Some t)"
    using r(4) by (auto simp: with_precondition_Some)
  show ?thesis
    using r affirmative_evidence_subset [OF r(2)] certified_transition_Inr [OF digest(2)] digest(1)
    by (intro that [of positive]) auto
qed

text \<open>The two ways on from a node: to its successor in the chain, or the action again.\<close>

definition continues_to ::
  "env \<Rightarrow> recovery_chain \<Rightarrow> recovery_node \<Rightarrow> recovery_action_profile \<Rightarrow> execution_envelope option \<Rightarrow>
   certified_transition \<Rightarrow> recovery_node \<Rightarrow> recovery_action_profile \<Rightarrow> bool" where
  "continues_to E c n p y t m q \<longleftrightarrow>
     ct_action t = PA_CONTINUE \<and> m \<in> set (rc_nodes c) \<and> rn_depends_on m = [rn_node_id n] \<and>
     successor_profile p = Some q \<and> (\<exists>z. y = Some z \<and> validate_node_binding E m z = Inr q)"

definition repeats ::
  "recovery_node \<Rightarrow> recovery_action_profile \<Rightarrow> certified_transition \<Rightarrow> recovery_node \<Rightarrow> recovery_action_profile \<Rightarrow> bool" where
  "repeats n p t m q \<longleftrightarrow>
     ct_action t = PA_RETRY \<and> m = n \<and> q = p \<and> p = CREATE_FIRESTORE_RELEASE_RECORD"

lemma transition_ofD:
  assumes "transition_of E c n p v supporting y = Inr (Some t)" "resolve_recovery_action_profile (rn_semantic_action n) = Inr p"
  obtains m q evidence where "leads_to E t m" "ct_source_node_id t = rn_node_id n"
    "resolve_recovery_action_profile (rn_semantic_action m) = Inr q" "set evidence \<subseteq> set supporting"
    "recovery_precondition_sha256 E q evidence (ct_action t = PA_RETRY) = Inr (ct_precondition_sha256 t)"
    "cv_classification v = COMMITTED \<and> evidence = supporting \<and> continues_to E c n p y t m q \<or>
     cv_classification v = NOT_COMMITTED \<and> repeats n p t m q \<and> evidence \<noteq> [] \<and>
       (\<forall>e\<in>set evidence. ev_operation_status e = Some TERMINAL_NOT_COMMITTED)"
proof (cases "cv_classification v")
  case COMMITTED
  then have "continue_transition E c n p supporting y = Inr (Some t)" using assms(1) by (simp add: transition_of_def)
  then obtain m q z where m: "m \<in> set (rc_nodes c)" "rn_depends_on m = [rn_node_id n]" "successor_profile p = Some q"
    "y = Some z" "validate_node_binding E m z = Inr q" "leads_to E t m" "ct_action t = PA_CONTINUE"
    "ct_source_node_id t = rn_node_id n"
    "recovery_precondition_sha256 E q supporting False = Inr (ct_precondition_sha256 t)"
    by (rule continue_transitionD)
  then show ?thesis
    using COMMITTED by (intro that [of m q supporting]) (simp_all add: continues_to_def validate_node_binding_eq)
next
  case NOT_COMMITTED
  then have "retry_transition E n p v supporting = Inr (Some t)" using assms(1) by (simp add: transition_of_def)
  then obtain positive where r: "profile_retry_allowed p" "positive \<noteq> []"
    "set positive \<subseteq> {e \<in> set supporting. ev_operation_status e = Some TERMINAL_NOT_COMMITTED}"
    "leads_to E t n" "ct_action t = PA_RETRY" "ct_source_node_id t = rn_node_id n"
    "recovery_precondition_sha256 E p positive True = Inr (ct_precondition_sha256 t)"
    by (rule retry_transitionD)
  from r(1) have "p = CREATE_FIRESTORE_RELEASE_RECORD" by (cases p) simp_all
  then show ?thesis
    using r NOT_COMMITTED assms(2) by (intro that [of n p positive]) (auto simp: repeats_def)
qed (use assms(1) in \<open>simp_all add: transition_of_def\<close>)

section \<open>From a certified transition to a permit\<close>

lemma transition_profile_allowed:
  assumes "continues_to E c n p y t m q \<or> repeats n p t m q"
  shows "allowed_transition (profile_version p) (ct_action t) = Some (profile_version q)"
  using assms by (cases p) (auto simp: continues_to_def repeats_def allowed_transition_def)

lemma exact_target_profile:
  assumes "vc_transition cert = Some t" "vc_action_profile_version cert = profile_version p"
    and "continues_to E c n p y t m q \<or> repeats n p t m q"
    and "leads_to E t m" "resolve_recovery_action_profile (rn_semantic_action m) = Inr q"
  shows "target_profile_version cert = Inr (profile_version q)"
proof -
  have tool: "ct_tool_name t = profile_tool_name q" "ct_tool_version t = recovery_version"
    using assms(4) validate_recovery_action_ok [OF resolve_recovery_action_profile_ok(2) [OF assms(5)]]
    by (simp_all add: leads_to_def Let_def)
  have "filter (\<lambda>p. profile_version p = profile_version q \<and> profile_tool_name p = profile_tool_name q) recovery_action_profiles = [q]"
    by (cases q) (simp_all add: recovery_action_profiles_def)
  then show ?thesis
    using assms(1,2) transition_profile_allowed [OF assms(3)] by (simp add: target_profile_version_def tool)
qed

lemma identity_json_valid:
  assumes "identifier_ok E certificate_id" "certified_transition_fields_ok E t"
  shows "validate_json E 0 (identity_json certificate_id t)"
proof -
  have "validate_unicode_text E (permit_action_text (ct_action t))"
    by (cases "ct_action t") (simp_all add: printable_text_ok)
  then show ?thesis
    using assms by (simp add: identity_json_def certified_transition_json_def certified_transition_fields_ok_def
        identifier_text_ok [of E] action_permit_version_def key_bounds_def text_length_def printable_text_ok)
qed

lemma permit_of_certificate:
  assumes "hexdigest_ok E" "validate_certificate E cert = Inr cert" "vc_transition cert = Some t"
    and "target_profile_version cert = Inr (profile_version q)"
  shows "\<exists>permit. action_permit_from_certificate E cert = Inr (Some permit)"
proof -
  have digest: "sha256_digest_ok (env_sha256 E b)" for b using assms(1) by (simp add: hexdigest_ok_def)
  have fields: "certificate_fields_ok E cert" "vc_issued_at cert < vc_expires_at cert"
    using assms(2) by (simp_all add: validate_certificate_def)
  then have t: "validate_certified_transition E t = Inr t"
    using assms(3) by (auto simp: certificate_fields_ok_def accepted_iff validate_certified_transition_def)
  then have tf: "certified_transition_fields_ok E t"
    "ct_action t = PA_RETRY \<longleftrightarrow> ct_target_node_id t = ct_source_node_id t"
    by (cases "ct_action t"; auto simp: validate_certified_transition_def)+
  let ?h = "env_sha256 E (json_bytes (identity_json (vc_certificate_id cert) t))"
  have "identifier_ok E (vc_certificate_id cert)" using fields by (simp add: certificate_fields_ok_def)
  moreover from this have "vc_certificate_id cert \<noteq> []" by (auto simp: identifier_ok_def)
  ultimately have id: "action_permit_id E (vc_certificate_id cert) t = Inr (''permit-'' @ take 32 ?h)"
    using identity_json_valid [OF _ tf(1)]
    by (simp add: action_permit_id_def value_sha256_def canonical_json_value_bytes_def identity_json_def [symmetric])
  have "identifier_ok E (profile_version q)"
    by (cases q) (simp_all add: plain_identifier_ok plain_chars)
  then have "valid_permit E (issued_permit E cert t (''permit-'' @ take 32 ?h) (profile_version q))"
    using fields tf permit_id_ok [OF digest]
    by (simp add: valid_permit_iff issued_permit_def action_permit_fields_ok_def lifecycle_fields_match_def
        certificate_fields_ok_def certified_transition_fields_ok_def canonical_sha256_def digest)
  then show ?thesis
    using assms(2-4) id
    by (simp add: action_permit_from_certificate_def trusted_certificate_def validate_action_permit_eq)
qed

end
