(* ===== verification/Verdict_Laws.thy ===== *)
theory Verdict_Laws
  imports Verification_Laws
begin

text \<open>
  A verification of coherent inputs reaches a verdict: what identifies an artifact can be encoded, a
  transition, a history, an observation is well formed, and so is the artifact that they make up.
\<close>

section \<open>The parts of coherent inputs\<close>

lemma report_parts:
  assumes "validate_investigation_report E r = Inr r" "ir_proof r = Some p"
  shows "accepted (validate_deterministic_proof E) p" "list_all (accepted (validate_normalized_evidence E)) (ir_evidence r)"
    "length (ir_evidence r) \<le> 64"
  using assms by (simp_all add: validate_investigation_report_def checked_passes investigation_report_fields_ok_def
    length_ok_def)

lemma same_evidence_fields:
  assumes "same_evidence d e"
  shows "ev_evidence_id d = ev_evidence_id e" "ev_freshness d = ev_freshness e"
    "ev_raw_observation d = ev_raw_observation e" "ev_effect_assertions d = ev_effect_assertions e"
    "ev_operation_status d = ev_operation_status e" "set (ev_correlation d) = set (ev_correlation e)"
    "ev_capability_name d = ev_capability_name e" "ev_capability_version d = ev_capability_version e"
  using assms by (cases d; cases e; auto simp: same_evidence_def)+

lemma report_matchesD:
  assumes "report_matches r v"
  shows "ir_proof r = Some (cv_proof v)" "length (ir_evidence r) = length (cv_evidence v)"
    "\<And>e. e \<in> set (cv_evidence v) \<Longrightarrow> \<exists>d\<in>set (ir_evidence r). same_evidence d e"
proof -
  have same: "list_all2 same_evidence (ir_evidence r) (cv_evidence v)" and "ir_proof r = Some (cv_proof v)"
    using assms by (simp_all add: report_matches_def)
  then show "ir_proof r = Some (cv_proof v)" "length (ir_evidence r) = length (cv_evidence v)"
    by (simp_all add: list_all2_lengthD)
  show "\<exists>d\<in>set (ir_evidence r). same_evidence d e" if "e \<in> set (cv_evidence v)" for e
    using same that by (metis in_set_conv_nth list_all2_conv_all_nth)
qed

text \<open>What a verification uses of the evidence that it admits.\<close>

definition bindable :: "env \<Rightarrow> normalized_evidence \<Rightarrow> bool" where
  "bindable E e \<longleftrightarrow>
     identifier_ok E (ev_evidence_id e) \<and> sha256_digest_ok (ro_sha256 (ev_raw_observation e)) \<and>
     time_ok (fw_valid_until (ev_freshness e)) \<and> identifier_ok E (ev_capability_name e) \<and>
     identifier_ok E (ev_capability_version e) \<and> length (ev_effect_assertions e) \<le> 64 \<and>
     list_all (\<lambda>a. identifier_ok E (ea_effect_id a)) (ev_effect_assertions e) \<and>
     list_all (\<lambda>(k, s). validate_unicode_text E s) (ev_correlation e)"

lemma evidence_bindable:
  assumes "accepted (validate_normalized_evidence E) d" "same_evidence d e"
  shows "bindable E e"
proof -
  have d: "normalized_evidence_fields_ok E d"
    using assms(1) by (auto simp: accepted_iff validate_normalized_evidence_def)
  then have "list_all (\<lambda>(k, s). validate_unicode_text E s) (ev_correlation d)"
    by (auto simp: normalized_evidence_fields_ok_def correlation_ok_def non_empty_text_ok_def bounded_text_ok_def
      list_all_iff)
  moreover have "time_ok (fw_valid_until (ev_freshness d))"
    using d by (auto simp: normalized_evidence_fields_ok_def accepted_iff validate_freshness_window_def)
  ultimately show ?thesis
    using d same_evidence_fields [OF assms(2)]
    by (simp add: bindable_def normalized_evidence_fields_ok_def raw_observation_ok_def length_ok_def list_all_iff)
qed

text \<open>The inputs, as far as the artifacts of a verdict need them.\<close>

lemma coherent_parts:
  assumes "inputs_coherent E c node_id x r v t i"
  defines "n \<equiv> vi_node i" and "policies \<equiv> ec_policies (xe_context x)"
  shows "n \<in> set (rc_nodes c)" "recovery_node_fields_ok E n" "validate_recovery_node E n = Inr n"
    "recovery_chain_fields_ok E c" "policy_references_ok E policies"
    "accepted (validate_deterministic_proof E) (cv_proof v)" "list_all (bindable E) (vi_admitted i)"
    "set (vi_supporting i) \<subseteq> set (vi_admitted i)" "length (vi_admitted i) \<le> 64"
proof -
  have coherent: "validate_recovery_chain E c = Inr c" "validate_execution_envelope E x = Inr x"
    "validate_investigation_report E r = Inr r" "find_node c node_id = Inr n"
    "validate_report E x r v = Inr ()" "evidence_admitted x v = Inr (vi_admitted i)"
    "supporting_evidence v (vi_admitted i) = Inr (vi_supporting i)"
    using assms by (simp_all add: inputs_coherent_def)
  show n: "n \<in> set (rc_nodes c)" using find_nodeD [OF coherent(4)] by simp
  show c: "recovery_chain_fields_ok E c" using coherent(1) by (simp add: validate_recovery_chain_eq)
  show "validate_recovery_node E n = Inr n"
    using c n by (auto simp: recovery_chain_fields_ok_def list_all_iff accepted_iff validate_recovery_node_def)
  then show "recovery_node_fields_ok E n" by (simp add: validate_recovery_node_def)
  show "policy_references_ok E policies"
    using envelope_acceptedD(5) [of E x] coherent(2) by (simp add: envelope_accepted_def accepted_iff policies_def)
  have matches: "report_matches r v" using coherent(5) by (simp add: validate_report_def)
  note report = report_parts [OF coherent(3) report_matchesD(1) [OF matches]]
  show "accepted (validate_deterministic_proof E) (cv_proof v)" by (rule report)
  note admitted = evidence_admittedD [OF coherent(6)]
  show "list_all (bindable E) (vi_admitted i)"
    unfolding list_all_iff
  proof
    fix e assume "e \<in> set (vi_admitted i)"
    then have "e \<in> set (cv_evidence v)" using admitted(1) by blast
    then obtain d where "d \<in> set (ir_evidence r)" "same_evidence d e" using report_matchesD(3) [OF matches] by blast
    then show "bindable E e" using evidence_bindable report(2) by (auto simp: list_all_iff)
  qed
  show "set (vi_supporting i) \<subseteq> set (vi_admitted i)" by (rule supporting_evidenceD [OF coherent(7)])
  have "length (vi_admitted i) \<le> length (cv_evidence v)" unfolding admitted(4) by simp
  then show "length (vi_admitted i) \<le> 64" using report(3) report_matchesD(2) [OF matches] by simp
qed

section \<open>What identifies an artifact can be encoded\<close>

lemma validate_strings:
  "d \<le> 11 \<Longrightarrow> list_all (validate_unicode_text E) ss \<Longrightarrow> validate_json E d (strings_json ss)"
  by (simp add: strings_json_def validate_json_items_iff list_all_iff)

lemma identifiers_text: "list_all (identifier_ok E) ss \<Longrightarrow> list_all (validate_unicode_text E) ss"
  by (auto simp: list_all_iff identifier_text_ok)

lemma digests_text: "list_all sha256_digest_ok ss \<Longrightarrow> list_all (validate_unicode_text E) ss"
  by (auto simp: list_all_iff)

lemma list_all_sort [simp]: "list_all P (sort_key f xs) = list_all P xs"
  by (simp add: list_all_iff)

lemma artifact_keys [simp]:
  "key_bounds E ''commit_scope''" "key_bounds E ''effect_id''" "key_bounds E ''evidence_ids''" "key_bounds E ''state''"
  "key_bounds E ''admitted_evidence_ids''" "key_bounds E ''conflicting_authority''" "key_bounds E ''effect_findings''"
  "key_bounds E ''operation_status''" "key_bounds E ''action_profile_version''" "key_bounds E ''action_policy_version''"
  "key_bounds E ''authority_policy_version''" "key_bounds E ''chain_sha256''" "key_bounds E ''classification''"
  "key_bounds E ''classification_policy_version''" "key_bounds E ''correlation_policy_version''"
  "key_bounds E ''envelope_sha256''" "key_bounds E ''evidence_sha256s''" "key_bounds E ''freshness_policy_version''"
  "key_bounds E ''node_sha256''" "key_bounds E ''proof''" "key_bounds E ''semantic_action_sha256''"
  "key_bounds E ''verifier_version''"
  by (simp_all add: key_bounds_def text_length_def printable_text_ok)

lemma finding_authority_valid:
  assumes "accepted (validate_effect_finding E) f"
  shows "validate_json E 3 (finding_authority f)"
  using assms
  by (auto simp: finding_authority_def accepted_iff validate_effect_finding_def identifier_text_ok [of E]
    validate_strings identifiers_text)

lemma proof_authority_valid:
  assumes "accepted (validate_deterministic_proof E) (cv_proof v)"
  shows "validate_json E 1 (proof_authority v)"
proof -
  let ?findings = "dp_effect_findings (cv_proof v)" and ?ids = "dp_admitted_evidence_ids (cv_proof v)"
  have "list_all (accepted (validate_effect_finding E)) ?findings" "list_all (identifier_ok E) ?ids"
    using assms by (auto simp: accepted_iff validate_deterministic_proof_def)
  then have "list_all (\<lambda>f. validate_json E 3 (finding_authority f)) ?findings"
      "validate_json E 2 (strings_json (sort ?ids))"
    by (auto simp: list_all_iff finding_authority_valid intro!: validate_strings identifiers_text)
  then show ?thesis
    by (cases "dp_operation_status (cv_proof v)")
      (auto simp: proof_authority_def Let_def validate_json_items_iff list_all_iff option_json_def numeral_eq_Suc)
qed

lemma sha256s_ok [simp]: "hexdigest_ok E \<Longrightarrow> sha256_digest_ok (env_sha256 E b)"
  "hexdigest_ok E \<Longrightarrow> sha256_digest_ok (canonical_sha256 E j)"
  by (simp_all add: hexdigest_ok_def canonical_sha256_def)

lemma base_authority_valid:
  assumes "hexdigest_ok E" "inputs_coherent E c node_id x r v t i"
  shows "validate_json_members E 1 (base_authority E c (vi_node i) x v p evidence)"
proof -
  note parts = coherent_parts [OF assms(2)]
  have "sha256_digest_ok (sa_semantic_action_sha256 (rn_semantic_action (vi_node i)))"
    using parts(2) by (auto simp: recovery_node_fields_ok_def accepted_iff validate_semantic_action_def
      semantic_action_fields_ok_def)
  moreover have "list_all (validate_unicode_text E) (map (evidence_sha256 E) evidence)"
    using assms(1) by (intro digests_text) (simp add: list_all_iff evidence_sha256_def)
  moreover have "validate_unicode_text E (profile_version p)"
    by (cases p) (simp_all add: printable_text_ok)
  ultimately show ?thesis
    using assms(1) parts(5) proof_authority_valid [OF parts(6)]
    by (simp add: base_authority_def Let_def policy_references_ok_def identifier_text_ok [of E] validate_strings
      envelope_sha256_def printable_text_ok)
qed

lemma isoformat_ok: "validate_unicode_text E (isoformat t)"
proof -
  let ?E = "E\<lparr>env_wide_text := (\<lambda>_. False)\<rparr>"
  have "ascii_text_ok (iso_text t)" "is_ascii (iso_text t)"
    using iso_text_ok [of ?E t] by (simp_all add: validate_unicode_text_def)
  then show ?thesis
    by (auto simp: validate_unicode_text_def isoformat_def ascii_text_ok_def is_ascii_def list_all_iff
      dest: in_set_butlastD)
qed

text \<open>An artifact is named after the digest of what it stands for.\<close>

definition artifact_name :: "env \<Rightarrow> string \<Rightarrow> json_object \<Rightarrow> string" where
  "artifact_name E prefix authority = prefix @ ''-'' @ env_sha256 E (json_bytes (JObj authority))"

lemma artifact_identifier_eq:
  assumes "validate_json_members E 1 authority" "length authority \<le> 128"
  shows "artifact_identifier E prefix authority = Inr (artifact_name E prefix authority)"
  using assms by (simp add: artifact_identifier_def value_sha256_def canonical_json_value_bytes_def artifact_name_def)

lemma artifact_name_ok:
  assumes "hexdigest_ok E" "identifier_ok E prefix" "list_all plain_char prefix" "length prefix \<le> 60"
  shows "identifier_ok E (artifact_name E prefix authority)"
proof (rule plain_identifier_ok)
  let ?d = "env_sha256 E (json_bytes (JObj authority))"
  have d: "length ?d = 64" "list_all lower_hex ?d"
    using assms(1) by (simp_all add: hexdigest_ok_def sha256_digest_ok_def)
  have "list_all plain_char ?d" by (rule list.pred_mono_strong [OF d(2)]) (rule lower_hex_plain)
  then show "list_all plain_char (artifact_name E prefix authority)"
    using assms(3) by (simp add: artifact_name_def plain_chars)
  show "length (artifact_name E prefix authority) \<le> 128" using assms(4) d(1) by (simp add: artifact_name_def)
  have "prefix \<noteq> []" "hd prefix \<noteq> CHR ''-''"
    using assms(2) by (auto simp: identifier_ok_def identifier_start_def letter_or_digit_def lower_letter_def digit_char_def
      upper_letter_def)
  then show "hd (artifact_name E prefix authority) \<noteq> CHR ''-''" by (simp add: artifact_name_def)
  show "artifact_name E prefix authority \<noteq> []" by (simp add: artifact_name_def)
qed

section \<open>Certificates\<close>

lemma arguments_sha256_eq:
  assumes "recovery_node_fields_ok E n"
  shows "arguments_sha256 E n = Inr (env_sha256 E (json_bytes (JObj (sa_semantic_arguments (rn_semantic_action n)))))"
proof -
  have "validate_json E 0 (JObj (sa_semantic_arguments (rn_semantic_action n)))"
    using assms by (auto simp: recovery_node_fields_ok_def accepted_iff validate_semantic_action_def
      semantic_action_fields_ok_def json_object_ok_def)
  then show ?thesis by (simp add: arguments_sha256_def value_sha256_def canonical_json_value_bytes_def)
qed

lemma certified_transition_total:
  assumes "hexdigest_ok E" "recovery_node_fields_ok E n" "recovery_node_fields_ok E m" "sha256_digest_ok digest"
    and "(action = PA_RETRY) = (rn_node_id m = rn_node_id n)"
  shows "\<exists>t. certified_transition E action n m digest = Inr (Some t)"
proof -
  have "semantic_action_fields_ok E (rn_semantic_action m)"
    using assms(3) by (auto simp: recovery_node_fields_ok_def accepted_iff validate_semantic_action_def)
  then show ?thesis
    using assms by (cases action) (simp_all add: certified_transition_def Let_def arguments_sha256_eq
      validate_certified_transition_def certified_transition_fields_ok_def semantic_action_fields_ok_def
      recovery_node_fields_ok_def)
qed

text \<open>The precondition of typed evidence has a digest, or the rules forbid the dispatch.\<close>

lemma precondition_total:
  assumes "hexdigest_ok E" "list_all (bindable E) evidence"
    and "\<forall>e\<in>set evidence. \<exists>seen. provider_observation_of E e = Inr seen"
  shows "(\<exists>digest. recovery_precondition_sha256 E p evidence retry = Inr digest \<and> sha256_digest_ok digest) \<or>
    (\<exists>m. recovery_precondition_sha256 E p evidence retry = Inl (RecoveryRuleViolation m))"
proof -
  have "\<exists>seen. map_result (provider_observation_of E) evidence = Inr seen"
    using assms(3) by (simp add: map_result_unit)
  moreover have "validate_json E 0 j" if j: "recovery_precondition p evidence retry = Inr j" for j
  proof (cases "profile_precondition p")
    case CLOUD_RUN_SERVICE_ETAG
    let ?services = "filter (\<lambda>e. evidence_capability e = Some SERVICE_GET) evidence"
    let ?etags = "remdups (List.map_filter (\<lambda>e. map_of (ev_correlation e) ''service_etag'') ?services)"
    have "length ?etags = 1" "j = JObj [(''service_etag'', JStr (hd ?etags))]"
      using j CLOUD_RUN_SERVICE_ETAG by (auto simp: recovery_precondition_def Let_def)
    moreover have "validate_unicode_text E s" if "s \<in> set ?etags" for s
      using that assms(2) by (auto simp: set_map_filter list_all_iff bindable_def dest!: map_of_SomeD)
    moreover have "hd ?etags \<in> set ?etags" using calculation(1) by (intro hd_in_set) auto
    ultimately show ?thesis by (simp add: key_bounds_def text_length_def printable_text_ok)
  qed (use j in \<open>auto simp: recovery_precondition_def key_bounds_def text_length_def printable_text_ok\<close>)
  moreover have "(\<exists>j. recovery_precondition p evidence retry = Inr j) \<or>
      (\<exists>m. recovery_precondition p evidence retry = Inl (RecoveryRuleViolation m))"
    by (cases "profile_precondition p") (auto simp: recovery_precondition_def Let_def rule_def require_def)
  ultimately show ?thesis
    using assms(1) by (auto simp: recovery_precondition_sha256_def value_sha256_def canonical_json_value_bytes_def
      simp del: bind_result_eq_Inr)
qed


definition certifying :: "env \<Rightarrow> recovery_chain \<Rightarrow> recovery_node \<Rightarrow> recovery_action_profile \<Rightarrow> bool" where
  "certifying E c n p \<longleftrightarrow>
     validate_recovery_chain E c = Inr c \<and> (\<exists>found. validate_chain c = Inr found) \<and> n \<in> set (rc_nodes c) \<and>
     resolve_recovery_action_profile (rn_semantic_action n) = Inr p"

lemma chain_node_ok:
  "validate_recovery_chain E c = Inr c \<Longrightarrow> m \<in> set (rc_nodes c) \<Longrightarrow>
     recovery_node_fields_ok E m \<and> rn_node_id m \<notin> set (rn_depends_on m)"
  by (auto simp: validate_recovery_chain_eq recovery_chain_fields_ok_def list_all_iff accepted_iff
    validate_recovery_node_def)

lemma successor_total:
  assumes "certifying E c n p"
  shows "\<exists>s. successor c n p = Inr s"
proof -
  obtain found where "nodes_by_profile [] (rc_nodes c) = Inr found"
    using assms by (auto simp: certifying_def validate_chain_eq)
  note resolved = nodes_by_profile_set(3) [OF this]
  show ?thesis
  proof (cases "successor_profile p")
    case (Some q)
    have "\<exists>s. successor c n p = Inr s" if f: "filter (\<lambda>m. rn_depends_on m = [rn_node_id n]) (rc_nodes c) = [m]" for m
    proof -
      have "m \<in> set (filter (\<lambda>m. rn_depends_on m = [rn_node_id n]) (rc_nodes c))" using f by simp
      then have "m \<in> set (rc_nodes c)" by simp
      then obtain q' where "resolve_recovery_action_profile (rn_semantic_action m) = Inr q'" using resolved by auto
      then show ?thesis using Some f by (simp add: successor_def)
    qed
    then show ?thesis
      using Some by (cases "filter (\<lambda>m. rn_depends_on m = [rn_node_id n]) (rc_nodes c)" rule: remdups_adj.cases)
        (auto simp: successor_def)
  qed (simp add: successor_def)
qed

lemma with_precondition_total:
  assumes "(\<exists>digest. precondition = Inr digest \<and> sha256_digest_ok digest) \<or> (\<exists>m. precondition = Inl (RecoveryRuleViolation m))"
    and "\<And>digest. sha256_digest_ok digest \<Longrightarrow> \<exists>t. f digest = Inr (Some t)"
  shows "\<exists>t. with_precondition precondition f = Inr t"
  using assms by (auto simp: with_precondition_def) blast

text \<open>The envelope of the successor, where there is one to continue with, is bound to its node.\<close>

definition successor_bound :: "env \<Rightarrow> recovery_chain \<Rightarrow> recovery_node \<Rightarrow> recovery_action_profile \<Rightarrow> execution_envelope option \<Rightarrow> bool" where
  "successor_bound E c n p y \<longleftrightarrow>
     (case (successor c n p, y) of
        (Inr (Some (m, q)), Some z) \<Rightarrow> validate_node_binding E m z = Inr q
      | _ \<Rightarrow> True)"

lemma continue_transition_total:
  assumes "hexdigest_ok E" "certifying E c n p" "successor_bound E c n p y" "list_all (bindable E) supporting"
    and "\<forall>e\<in>set supporting. \<exists>seen. provider_observation_of E e = Inr seen"
  shows "\<exists>t. continue_transition E c n p supporting y = Inr t"
proof -
  obtain s where s: "successor c n p = Inr s" using successor_total [OF assms(2)] by blast
  have nodes: "validate_recovery_chain E c = Inr c" "n \<in> set (rc_nodes c)" using assms(2) by (simp_all add: certifying_def)
  show ?thesis
  proof (cases "s = None \<or> y = None")
    case True
    then show ?thesis using s by (cases s; cases y) (auto simp: continue_transition_def)
  next
    case False
    then obtain m q z where mq: "s = Some (m, q)" "y = Some z" by auto
    have bound: "validate_node_binding E m z = Inr q" using assms(3) s mq by (simp add: successor_bound_def)
    note m = successorD [OF s [unfolded mq]]
    have "rn_node_id m \<noteq> rn_node_id n" using chain_node_ok [OF nodes(1) m(1)] m(2) by auto
    then have "\<exists>t. with_precondition (recovery_precondition_sha256 E q supporting False)
        (certified_transition E PA_CONTINUE n m) = Inr t"
      using precondition_total [OF assms(1,4,5)] chain_node_ok [OF nodes(1) m(1)] chain_node_ok [OF nodes] assms(1)
      by (intro with_precondition_total certified_transition_total) auto
    then show ?thesis using s mq bound by (simp add: continue_transition_def)
  qed
qed

lemma affirmative_evidence_total:
  "set (map ev_evidence_id es) \<subseteq> set (map ed_evidence_id (cv_decisions v)) \<Longrightarrow> \<exists>ps. affirmative_evidence v es = Inr ps"
proof (induction es)
  case (Cons e es)
  then obtain ps where ps: "affirmative_evidence v es = Inr ps" by auto
  let ?reasons = "rev (map (\<lambda>d. (ed_evidence_id d, ed_reason d)) (cv_decisions v))"
  have "fst ` set ?reasons = set (map ed_evidence_id (cv_decisions v))" by (simp add: image_image)
  moreover have "ev_evidence_id e \<in> set (map ed_evidence_id (cv_decisions v))" using Cons.prems by simp
  ultimately have "ev_evidence_id e \<in> fst ` set ?reasons" by (simp only:)
  then have "map_of ?reasons (ev_evidence_id e) \<noteq> None" by (simp only: map_of_eq_None_iff not_not)
  then obtain reason where "map_of ?reasons (ev_evidence_id e) = Some reason" by blast
  then have "evidence_reason_of v (ev_evidence_id e) = Inr reason"
    by (simp only: evidence_reason_of_def option.case)
  then show ?case using ps by (cases "ev_operation_status e = Some TERMINAL_NOT_COMMITTED") simp_all
qed simp


lemma retry_transition_total:
  assumes "hexdigest_ok E" "recovery_node_fields_ok E n" "list_all (bindable E) supporting"
    and "set (map ev_evidence_id supporting) \<subseteq> set (map ed_evidence_id (cv_decisions v))"
    and "\<forall>e\<in>set supporting. \<exists>seen. provider_observation_of E e = Inr seen"
  shows "\<exists>t. retry_transition E n p v supporting = Inr t"
proof -
  obtain positive where positive: "affirmative_evidence v supporting = Inr positive"
    using affirmative_evidence_total [OF assms(4)] by blast
  have sub: "set positive \<subseteq> set supporting" using affirmative_evidence_subset [OF positive] by blast
  then have "list_all (bindable E) positive" "\<forall>e\<in>set positive. \<exists>seen. provider_observation_of E e = Inr seen"
    using assms(3,5) by (auto simp: list_all_iff)
  note precondition_total [OF assms(1) this, of p True]
  then have "\<exists>t. with_precondition (recovery_precondition_sha256 E p positive True)
      (certified_transition E PA_RETRY n n) = Inr t"
    using assms(1,2) by (intro with_precondition_total certified_transition_total) auto
  then show ?thesis using positive by (auto simp: retry_transition_def)
qed

lemma transition_of_total:
  assumes "hexdigest_ok E" "certifying E c n p" "successor_bound E c n p y" "list_all (bindable E) supporting"
    and "set (map ev_evidence_id supporting) \<subseteq> set (map ed_evidence_id (cv_decisions v))"
    and "\<forall>e\<in>set supporting. \<exists>seen. provider_observation_of E e = Inr seen"
  shows "\<exists>t. transition_of E c n p v supporting y = Inr t"
proof -
  have "recovery_node_fields_ok E n" using assms(2) chain_node_ok by (auto simp: certifying_def)
  from retry_transition_total [OF assms(1) this assms(4-6)] continue_transition_total [OF assms(1-4,6)]
  show ?thesis by (cases "cv_classification v") (simp_all add: transition_of_def)
qed

text \<open>A transition fits the certificate that carries it.\<close>

definition fits :: "env \<Rightarrow> recovery_node \<Rightarrow> classification \<Rightarrow> certified_transition \<Rightarrow> bool" where
  "fits E n cls t \<longleftrightarrow>
     validate_certified_transition E t = Inr t \<and> ct_source_node_id t = rn_node_id n \<and>
     authorised_action cls = Some (ct_action t)"

lemma certified_transition_valid:
  "certified_transition E action n m digest = Inr (Some t) \<Longrightarrow> validate_certified_transition E t = Inr t"
  by (auto simp: certified_transition_def Let_def validate_certified_transition_def)

lemma transition_fits:
  assumes "transition_of E c n p v supporting y = Inr (Some t)"
  shows "fits E n (cv_classification v) t"
proof -
  obtain action m digest where "certified_transition E action n m digest = Inr (Some t)"
    and action: "authorised_action (cv_classification v) = Some action"
  proof (cases "cv_classification v")
    case COMMITTED
    then have "continue_transition E c n p supporting y = Inr (Some t)" using assms by (simp add: transition_of_def)
    then obtain m q digest where "certified_transition E PA_CONTINUE n m digest = Inr (Some t)"
      by (cases "successor c n p"; cases y)
        (auto simp: continue_transition_def with_precondition_Some split: option.splits if_splits)
    then show ?thesis using COMMITTED that by simp
  next
    case NOT_COMMITTED
    then have "retry_transition E n p v supporting = Inr (Some t)" using assms by (simp add: transition_of_def)
    then obtain digest where "certified_transition E PA_RETRY n n digest = Inr (Some t)"
      by (auto simp: retry_transition_def with_precondition_Some split: if_splits)
    then show ?thesis using NOT_COMMITTED that by simp
  qed (use assms in \<open>simp_all add: transition_of_def\<close>)
  then show ?thesis
    using certified_transition_Inr certified_transition_valid by (fastforce simp: fits_def)
qed

lemma transition_json_valid:
  assumes "validate_certified_transition E t = Inr t"
  shows "validate_json E 1 (certified_transition_json t)"
proof -
  have "certified_transition_fields_ok E t" using assms by (simp add: validate_certified_transition_def)
  moreover have "validate_unicode_text E (permit_action_text (ct_action t))"
    by (cases "ct_action t") (simp_all add: printable_text_ok)
  ultimately show ?thesis
    by (simp add: certified_transition_json_def certified_transition_fields_ok_def identifier_text_ok [of E]
      key_bounds_def text_length_def printable_text_ok)
qed

lemma certificate_authority_valid:
  assumes "hexdigest_ok E" "inputs_coherent E c node_id x r v t i"
    and "option_ok (\<lambda>t. validate_certified_transition E t = Inr t) transition"
  shows "validate_json_members E 1
    (certificate_authority E (base_authority E c (vi_node i) x v p evidence) expires_at supporting transition)"
proof -
  have "list_all (validate_unicode_text E) (sort (map (evidence_sha256 E) supporting))"
    using assms(1) by (intro digests_text) (simp add: list_all_iff evidence_sha256_def)
  then have "validate_json E 1 (strings_json (sort (map (evidence_sha256 E) supporting)))" by (intro validate_strings) simp
  moreover have "validate_json E 1 (option_json certified_transition_json transition)"
    using assms(3) transition_json_valid by (cases transition) (simp_all add: option_json_def option_ok_def)
  ultimately show ?thesis
    using base_authority_valid [OF assms(1,2)]
    by (simp add: certificate_authority_def isoformat_ok key_bounds_def text_length_def printable_text_ok)
qed


lemma support_size:
  assumes "supporting_evidence v admitted = Inr supporting" "length admitted \<le> 64"
  shows "distinct (map ev_evidence_id supporting)" "length supporting \<le> 64"
proof -
  note support = supporting_evidenceD [OF assms(1)]
  show ids: "distinct (map ev_evidence_id supporting)" unfolding support(2) by (simp add: sorted_set_def)
  have "length supporting = card (set supporting)" using ids by (simp add: distinct_map distinct_card)
  also have "\<dots> \<le> card (set admitted)" using support(1) by (intro card_mono) simp_all
  also have "\<dots> \<le> length admitted" by (rule card_length)
  finally show "length supporting \<le> 64" using assms(2) by simp
qed

lemma bindings_total:
  assumes "hexdigest_ok E" "list_all (bindable E) es"
  shows "bindings E es = Inr (map (binding_of E) es)" "list_all (\<lambda>e. evidence_binding_ok E (binding_of E e)) es"
  using assms by (auto simp: bindings_eq list_all_iff bindable_def evidence_binding_ok_def binding_of_def evidence_sha256_def)

lemma target_of_node: "recovery_node_fields_ok E n \<Longrightarrow> semantic_action_fields_ok E (rn_semantic_action n)"
  by (auto simp: recovery_node_fields_ok_def accepted_iff validate_semantic_action_def)

lemma build_certificate_total:
  assumes "hexdigest_ok E" "inputs_coherent E c node_id x r v t i" "time_ok t"
    and "transition_of E c (vi_node i) (vi_profile i) v (vi_supporting i) y = Inr transition"
    and "cv_classification v \<noteq> UNKNOWN" "vi_supporting i \<noteq> []" "list_all (\<lambda>e. \<not> stale_at t e) (vi_supporting i)"
    and "distinct (map (evidence_sha256 E) (vi_supporting i))"
  shows "\<exists>cert. build_certificate E c (vi_node i) x r v (vi_profile i) (vi_admitted i) (vi_supporting i) t y = Inr cert"
proof -
  let ?n = "vi_node i" and ?es = "vi_supporting i" and ?policies = "ec_policies (xe_context x)"
  note parts = coherent_parts [OF assms(2)]
  have support: "supporting_evidence v (vi_admitted i) = Inr ?es" using assms(2) by (simp add: inputs_coherent_def)
  note size = support_size [OF support parts(9)]
  have es: "list_all (bindable E) ?es" using parts(7,8) by (auto simp: list_all_iff)
  note bound = bindings_total [OF assms(1) es]
  have transition: "option_ok (fits E ?n (cv_classification v)) transition"
    using transition_fits assms(4) by (cases transition) (auto simp: option_ok_def)
  then have "option_ok (\<lambda>t. validate_certified_transition E t = Inr t) transition"
    by (cases transition) (simp_all add: option_ok_def fits_def)
  note authority = certificate_authority_valid [OF assms(1,2) this]
  let ?authority = "certificate_authority E (base_authority E c ?n x v (vi_profile i) (vi_admitted i))
    (support_expiry ?es) ?es transition"
  let ?id = "artifact_name E ''certificate'' ?authority"
  have id: "artifact_identifier E ''certificate'' ?authority = Inr ?id"
    by (rule artifact_identifier_eq [OF authority]) (simp add: certificate_authority_def base_authority_def Let_def)
  have id_ok: "identifier_ok E ?id"
    by (rule artifact_name_ok [OF assms(1)]) (simp_all add: plain_identifier_ok plain_chars)
  have action: "semantic_action_fields_ok E (rn_semantic_action ?n)" by (rule target_of_node [OF parts(2)])
  have expiry: "support_expiry ?es \<in> fw_valid_until ` ev_freshness ` set ?es"
    using Min_in [of "(\<lambda>e. fw_valid_until (ev_freshness e)) ` set ?es"] assms(6)
    by (simp add: support_expiry_def image_image)
  have "time_ok (support_expiry ?es)" using expiry es by (auto simp: list_all_iff bindable_def)
  moreover have "identifier_ok E (profile_version p)" "identifier_ok E ''exact-envelope-correlation-v1''"
    "identifier_ok E ''envelope-freshness-window-v1''" "identifier_ok E ''recovery-verifier-v1''" for p
    by (cases p; simp add: plain_identifier_ok plain_chars)+
  moreover have "identifier_ok E (rc_chain_id c)" using parts(4) by (simp add: recovery_chain_fields_ok_def)
  moreover have "(MIN e\<in>set ?es. eb_valid_until (binding_of E e)) = support_expiry ?es"
    "eb_evidence_id \<circ> binding_of E = ev_evidence_id" "eb_evidence_sha256 \<circ> binding_of E = evidence_sha256 E"
    by (simp_all add: binding_of_def support_expiry_def comp_def)
  moreover have "option_ok (accepted (validate_certified_transition E)) transition"
    "option_ok (\<lambda>t. ct_source_node_id t = rn_node_id ?n) transition"
    "option_ok (\<lambda>t. authorised_action (cv_classification v) = Some (ct_action t)) transition"
    using transition by (cases transition; simp add: option_ok_def fits_def accepted_iff)+
  ultimately show ?thesis
    unfolding build_certificate_def Let_def assms(4) id bound(1) bind_result_simps validate_certificate_def
    using assms(1,3,5,6,8) id_ok action parts(2,5) bound(2) size support_expiry_less [OF assms(6,7)]
    by (simp add: certificate_fields_ok_def semantic_action_fields_ok_def recovery_node_fields_ok_def
      policy_references_ok_def envelope_sha256_def length_ok_def image_image Suc_le_eq list_all_iff)
qed


text \<open>The inputs do not depend on the report and the time, and neither does the authority of a certificate.\<close>

lemma inputs_coherent_unique:
  "inputs_coherent E c node_id x r v t i \<Longrightarrow> inputs_coherent E c node_id x r' v t' j \<Longrightarrow> i = j"
  by (cases i; cases j) (auto simp: inputs_coherent_def)

lemma certificate_authority_unique:
  assumes "verify_recovery E c node_id x r v t y = Inr (Inl cert)"
    and "verify_recovery E c node_id x r' v t' y = Inr (Inl cert')"
  shows "cert' = cert\<lparr>vc_report_sha256 := vc_report_sha256 cert', vc_issued_at := vc_issued_at cert'\<rparr>"
proof -
  obtain i where i: "inputs_coherent E c node_id x r v t i"
    and b: "build_certificate E c (vi_node i) x r v (vi_profile i) (vi_admitted i) (vi_supporting i) t y = Inr cert"
    by (rule verify_recovery_certificate [OF assms(1)])
  obtain j where j: "inputs_coherent E c node_id x r' v t' j"
    and b': "build_certificate E c (vi_node j) x r' v (vi_profile j) (vi_admitted j) (vi_supporting j) t' y = Inr cert'"
    by (rule verify_recovery_certificate [OF assms(2)])
  have "j = i" by (rule inputs_coherent_unique [OF j i])
  note b' = b' [unfolded this]
  show ?thesis
    using b b' unfolding build_certificate_def Let_def bind_result_eq_Inr validate_certificate_def checked_eq_Inr
    by (elim exE conjE) auto
qed

lemma permit_authority_unique:
  assumes "action_permit_from_certificate E cert = Inr (Some permit)"
    and "action_permit_from_certificate E (cert\<lparr>vc_report_sha256 := d, vc_issued_at := t\<rparr>) = Inr (Some permit')"
  shows "permit_authority_fields permit' = permit_authority_fields permit"
proof -
  let ?cert = "cert\<lparr>vc_report_sha256 := d, vc_issued_at := t\<rparr>"
  have trusted: "trusted_certificate E k = Inr k' \<Longrightarrow> k' = k" for k k'
    by (auto simp: trusted_certificate_def validate_certificate_def split: sum.splits if_splits)
  have "target_profile_version ?cert = target_profile_version cert"
    by (cases "vc_transition cert") (simp_all add: target_profile_version_def)
  with assms show ?thesis
    by (auto simp: action_permit_from_certificate_def validate_action_permit_eq issued_permit_def
      permit_authority_fields_def dest!: trusted split: option.splits)
qed

end
