(* ===== verification/Verification_Sample.thy ===== *)
theory Verification_Sample
  imports Verdict_Laws Recovery_Sample
begin

text \<open>
  A concrete verification for the witnesses: the stage-promote-record chain of one release, the
  ambiguous creation of its record, the investigation that finds the dispatcher's receipt, and the
  certificate that allows one more attempt.
\<close>

section \<open>The environment\<close>

text \<open>
  A digest that tells the three actions of the chain apart: it looks at the first letter of the
  profile in the canonical JSON of an action.
\<close>

definition letter_digest :: "string \<Rightarrow> string" where
  "letter_digest s = replicate 64
     (case drop 27 s of
        [] \<Rightarrow> CHR ''0''
      | c # _ \<Rightarrow> if c = CHR ''c'' then CHR ''1'' else if c = CHR ''p'' then CHR ''2'' else CHR ''0'')"

definition verify_env :: env where
  "verify_env = sample_env\<lparr>env_sha256 := letter_digest\<rparr>"

lemma verify_hexdigest_ok [simp]: "hexdigest_ok verify_env"
  by (simp add: hexdigest_ok_def verify_env_def sha256_digest_ok_def letter_digest_def lower_hex_def list_all_iff
    split: list.splits)

section \<open>The actions of the chain\<close>

lemma cloud_identifiers [simp]:
  "identifier_ok E ''google.cloud_run.service''" "identifier_ok E ''node-3''"
  "identifier_ok E (profile_version p)" "identifier_ok E (profile_tool_name p)"
  "identifier_ok E ''investigation-1''" "identifier_ok E ''operation-1''" "identifier_ok E ''call-1''"
  "identifier_ok E recovery_chain_profile_version" "identifier_ok E ''reconcile-dispatch-receipt-get''"
proof -
  show "identifier_ok E ''google.cloud_run.service''"
    by (simp add: identifier_ok_def identifier_char_def identifier_start_def letter_or_digit_def
      label_text_not_sensitive [where k = "CHR ''h''"] label_char_def plain_chars)
  show "identifier_ok E (profile_version p)" "identifier_ok E (profile_tool_name p)"
    by (cases p; simp add: plain_identifier_ok plain_chars)+
qed (simp_all add: plain_identifier_ok plain_chars)

lemma cloud_keys [simp]:
  "\<not> is_sensitive_key E ''location''" "\<not> is_sensitive_key E ''service''" "\<not> is_sensitive_key E ''image_digest''"
  "\<not> is_sensitive_key E ''configuration_sha256''" "\<not> is_sensitive_key E ''revision''" "\<not> is_sensitive_key E ''percent''"
  by (simp_all add: is_sensitive_key_def key_words_def normalized_key_def text_lower_def is_ascii_def
    lower_char_def plain_chars upper_letter_def sensitive_key_tokens_def sensitive_key_names_def)

definition image_text :: string where
  "image_text = ''sha256:'' @ zero_digest"

lemma image_text_ok [simp]:
  "validate_unicode_text E image_text" "\<not> contains_sensitive_material E image_text" "image_digest image_text"
proof -
  show "\<not> contains_sensitive_material E image_text"
    by (rule evidence_text_not_sensitive)
      (simp add: image_text_def evidence_char_def zero_digest_def list_all_iff)
  show "validate_unicode_text E image_text"
    by (rule printable_text_ok) (simp add: image_text_def zero_digest_def list_all_iff)
  show "image_digest image_text"
    by (simp add: image_text_def image_digest_def)
qed

lemma cloud_texts [simp]:
  "\<not> contains_sensitive_material E ''europe-west1''" "\<not> contains_sensitive_material E ''service-1''"
  "\<not> contains_sensitive_material E ''service-1-r-1''"
  by (simp_all add: plain_text_not_sensitive plain_chars)

definition cloud_target :: target_binding where
  "cloud_target =
     \<lparr>tb_target_kind = ''google.cloud_run.service'',
      tb_scope = [(''project'', JStr ''project-1''), (''location'', JStr ''europe-west1'')],
      tb_resource = [(''service'', JStr ''service-1'')]\<rparr>"

definition cloud_arguments :: "recovery_action_profile \<Rightarrow> json_object" where
  "cloud_arguments p =
     (''release_id'', JStr ''release-1'') #
     (if p = STAGE_CLOUD_RUN_REVISION
      then [(''image_digest'', JStr image_text), (''configuration_sha256'', JStr zero_digest)]
      else [(''revision'', JStr ''service-1-r-1''), (''percent'', JInt 100)])"

definition cloud_action_json :: "recovery_action_profile \<Rightarrow> json" where
  "cloud_action_json p = JObj
     [(''action_profile_version'', JStr (profile_version p)),
      (''expected_effect_sha256s'', strings_json [zero_digest]),
      (''key_version'', JStr ''semantic-action-v1''), (''semantic_arguments'', JObj (cloud_arguments p)),
      (''target'', target_binding_json cloud_target),
      (''tool_name'', JStr (profile_tool_name p)), (''tool_version'', JStr ''1.0.0'')]"

definition cloud_action :: "env \<Rightarrow> recovery_action_profile \<Rightarrow> semantic_action" where
  "cloud_action E p =
     \<lparr>sa_key_version = ''semantic-action-v1'', sa_tool_name = profile_tool_name p, sa_tool_version = ''1.0.0'',
      sa_semantic_arguments = cloud_arguments p, sa_target = cloud_target,
      sa_expected_effect_sha256s = [zero_digest], sa_action_profile_version = profile_version p,
      sa_semantic_action_sha256 = env_sha256 E (json_bytes (cloud_action_json p))\<rparr>"

lemma cloud_target_accepted [simp]: "accepted (validate_target_binding E) cloud_target"
  by (simp add: accepted_iff validate_target_binding_def target_binding_fields_ok_def json_object_ok_def
    cloud_target_def length_ok_def key_bounds_def text_length_def printable_text_ok)

lemma cloud_arguments_ok [simp]:
  "json_object_ok E 0 64 (cloud_arguments p)" "free_of_sensitive_keys E (JObj (cloud_arguments p))"
  "free_of_sensitive_values E (JObj (cloud_arguments p))"
  by (simp_all add: json_object_ok_def cloud_arguments_def length_ok_def key_bounds_def text_length_def printable_text_ok)

lemma cloud_action_valid:
  assumes [simp]: "hexdigest_ok E"
  shows "validate_semantic_action E (cloud_action E p) = Inr (cloud_action E p)"
proof -
  have "semantic_action_fields_ok E (cloud_action E p)"
    by (simp add: semantic_action_fields_ok_def length_ok_def) (simp add: cloud_action_def length_ok_def)
  moreover have "semantic_action_sha256 E (sa_key_version (cloud_action E p)) (sa_tool_name (cloud_action E p))
      (sa_tool_version (cloud_action E p)) (sa_semantic_arguments (cloud_action E p)) (sa_target (cloud_action E p))
      (sa_expected_effect_sha256s (cloud_action E p)) (sa_action_profile_version (cloud_action E p)) =
      Inr (sa_semantic_action_sha256 (cloud_action E p))"
  proof -
    have "validate_json E (Suc 0) (JObj (cloud_arguments p))"
      by (simp add: cloud_arguments_def key_bounds_def text_length_def printable_text_ok)
    then have "validate_json E 0 (cloud_action_json p)"
      by (simp add: cloud_action_json_def strings_json_def target_binding_json_def cloud_target_def
        identifier_text_ok [of E] key_bounds_def text_length_def printable_text_ok)
    then show ?thesis
      by (simp add: semantic_action_sha256_def value_sha256_def canonical_json_value_bytes_def cloud_action_def
        cloud_action_json_def [symmetric])
  qed
  ultimately show ?thesis
    using cloud_arguments_ok(2,3) [of E p]
    by (simp add: validate_semantic_action_def) (simp add: cloud_action_def)
qed

lemma cloud_action_profile:
  assumes "p \<in> {STAGE_CLOUD_RUN_REVISION, PROMOTE_CLOUD_RUN_TRAFFIC}"
  shows "resolve_recovery_action_profile (cloud_action E p) = Inr p"
proof -
  have "validate_recovery_action p (cloud_action E p) = Inr ()"
    using assms
    by (auto simp: validate_recovery_action_def validate_target_def validate_arguments_def Let_def
      require_exact_fields_def exact_fields_def field_is_def cloud_action_def cloud_target_def cloud_arguments_def
      recovery_version_def profile_target_kind_def profile_scope_fields_def profile_resource_fields_def
      identifier_pattern_def identifier_start_def identifier_char_def letter_or_digit_def cloud_run_revision_def
      plain_chars)
  moreover have "sa_action_profile_version (cloud_action E p) = profile_version p"
    by (simp add: cloud_action_def)
  ultimately show ?thesis by (simp add: resolve_recovery_action_profile_def)
qed


lemma record_action_profile: "resolve_recovery_action_profile (record_action E) = Inr CREATE_FIRESTORE_RELEASE_RECORD"
  using record_action_valid [of E] profile_of_version [of CREATE_FIRESTORE_RELEASE_RECORD]
  by (simp add: resolve_recovery_action_profile_def record_action_def)

lemma record_action_validates:
  "hexdigest_ok E \<Longrightarrow> validate_semantic_action E (record_action E) = Inr (record_action E)"
  using record_action_trusted [of E] by (simp add: trusted_semantic_action_def split: sum.splits)

text \<open>The actions of the chain have three digests.\<close>

lemma profile_key: "json_string ''action_profile_version'' = CHR 0x22 # ''action_profile_version'' @ [CHR 0x22]"
  by (simp add: json_string_def escape_char_def)

lemma letter_digest_json:
  "escape_char c = [c] \<Longrightarrow>
   letter_digest (CHR ''{'' # json_string ''action_profile_version'' @ CHR '':'' # json_string (c # t) @ r) =
     replicate 64 (if c = CHR ''c'' then CHR ''1'' else if c = CHR ''p'' then CHR ''2'' else CHR ''0'')"
  unfolding profile_key by (simp add: letter_digest_def json_string_def)

lemma action_digests:
  "sa_semantic_action_sha256 (cloud_action verify_env STAGE_CLOUD_RUN_REVISION) = replicate 64 CHR ''0''"
  "sa_semantic_action_sha256 (cloud_action verify_env PROMOTE_CLOUD_RUN_TRAFFIC) = replicate 64 CHR ''2''"
  "sa_semantic_action_sha256 (record_action verify_env) = replicate 64 CHR ''1''"
  by (simp_all add: cloud_action_def record_action_def cloud_action_json_def record_action_json_def json_bytes_def
    verify_env_def letter_digest_json escape_char_def)


section \<open>The envelope and the chain\<close>

definition record_envelope :: execution_envelope where
  "record_envelope =
     \<lparr>xe_investigation_id = ''investigation-1'', xe_operation_id = ''operation-1'', xe_target = record_target,
      xe_invoked_at = 100, xe_ambiguity = \<lparr>ax_kind = TIMEOUT, ax_observed_at = 100, ax_detail = None\<rparr>,
      xe_expected_effects = [record_effect],
      xe_context =
        \<lparr>ec_invocation =
           \<lparr>oi_invocation_id = ''call-1'', oi_function_call_id = None,
            oi_tool_name = ''create-firestore-release-record'', oi_tool_version = ''1.0.0'',
            oi_arguments = record_arguments,
            oi_arguments_sha256 = env_sha256 verify_env (json_bytes (JObj record_arguments))\<rparr>,
         ec_enabled_capabilities = [\<lparr>cref_name = ''reconcile-dispatch-receipt-get'', cref_version = ''1.0.0''\<rparr>],
         ec_correlation_fields = [(''release_id'', ''release-1'')],
         ec_evidence_budget =
           \<lparr>eb_max_probes = 4, eb_max_elapsed_ms = 1000, eb_max_total_result_bytes = 1000, eb_max_cost_units = 10\<rparr>,
         ec_freshness = \<lparr>fp_max_age_seconds = 3600, fp_clock_skew_seconds = 0\<rparr>,
         ec_policies =
           \<lparr>pr_authority = ''policy-1'', pr_classification = ''policy-1'', pr_action = ''policy-1''\<rparr>\<rparr>\<rparr>"

lemma record_arguments_ok [simp]:
  "json_object_ok E 0 64 record_arguments" "validate_json E 0 (JObj record_arguments)"
  "free_of_sensitive_keys E (JObj record_arguments)" "free_of_sensitive_values E (JObj record_arguments)"
  by (simp_all add: json_object_ok_def record_arguments_def length_ok_def key_bounds_def text_length_def printable_text_ok)

lemma release_text [simp]: "non_empty_text_ok E ''release-1''" "non_empty_text_ok E ''record''"
  "\<not> contains_sensitive_material E ''record''"
  by (simp_all add: non_empty_text_ok_def bounded_text_ok_def text_length_def printable_text_ok
    plain_text_not_sensitive plain_chars)

lemma release_identifier [simp]: "identifier_ok E ''release_id''" "identifier_ok E firestore_record_scope"
  by (simp_all add: identifier_ok_def identifier_char_def identifier_start_def letter_or_digit_def
    label_text_not_sensitive [where k = "CHR ''g''"] label_char_def plain_chars plain_text_not_sensitive)

lemma record_effect_accepted: "accepted (validate_expected_effect E) record_effect"
  by (simp add: accepted_iff record_effect_def validate_expected_effect_def expected_effect_fields_ok_def
    json_object_ok_def length_ok_def key_bounds_def text_length_def printable_text_ok)

lemma record_envelope_accepted: "envelope_accepted verify_env record_envelope"
proof -
  have "accepted (validate_original_invocation verify_env) (ec_invocation (xe_context record_envelope))"
    using record_arguments_ok [of verify_env]
    by (simp add: accepted_iff record_envelope_def validate_original_invocation_def original_invocation_fields_ok_def
      value_sha256_def canonical_json_value_bytes_def)
  moreover have "accepted (validate_target_binding verify_env) (xe_target record_envelope)"
    by (simp add: record_envelope_def)
  ultimately show ?thesis
    using record_effect_accepted [of verify_env]
    by (simp add: envelope_accepted_def accepted_iff validate_execution_envelope_def execution_envelope_fields_ok_def)
      (simp add: record_envelope_def accepted_iff validate_envelope_context_def envelope_context_fields_ok_def
        validate_ambiguous_execution_def capability_ref_ok_def correlation_ok_def evidence_budget_ok_def
        freshness_policy_ok_def policy_references_ok_def int_ok_def int64_max_def length_ok_def
        correlation_keys_free_def correlation_values_free_def text_members_def)
qed

definition chain_node :: "string \<Rightarrow> semantic_action \<Rightarrow> string list \<Rightarrow> string \<Rightarrow> string \<Rightarrow> recovery_node" where
  "chain_node node_id a depends_on investigation envelope_digest =
     \<lparr>rn_node_id = node_id, rn_chain_profile_version = recovery_chain_profile_version, rn_semantic_action = a,
      rn_depends_on = depends_on,
      rn_envelope = \<lparr>xr_investigation_id = investigation, xr_operation_id = ''operation-1'',
        xr_envelope_sha256 = envelope_digest\<rparr>\<rparr>"

definition stage_node :: recovery_node where
  "stage_node = chain_node ''node-1'' (cloud_action verify_env STAGE_CLOUD_RUN_REVISION) [] ''chain-1'' zero_digest"

definition promote_node :: recovery_node where
  "promote_node =
     chain_node ''node-2'' (cloud_action verify_env PROMOTE_CLOUD_RUN_TRAFFIC) [''node-1''] ''call-1'' zero_digest"

definition record_node :: recovery_node where
  "record_node = chain_node ''node-3'' (record_action verify_env) [''node-2''] ''investigation-1''
     (envelope_sha256 verify_env record_envelope)"

definition release_chain :: recovery_chain where
  "release_chain =
     \<lparr>rc_chain_id = ''chain-1'', rc_chain_profile_version = recovery_chain_profile_version,
      rc_nodes = [stage_node, promote_node, record_node], rc_created_at = 100\<rparr>"

lemma release_nodes_ok:
  "validate_recovery_node verify_env stage_node = Inr stage_node"
  "validate_recovery_node verify_env promote_node = Inr promote_node"
  "validate_recovery_node verify_env record_node = Inr record_node"
  by (simp_all add: validate_recovery_node_def recovery_node_fields_ok_def stage_node_def promote_node_def
    record_node_def chain_node_def accepted_iff cloud_action_valid record_action_validates length_ok_def
    envelope_reference_ok_def envelope_sha256_def)

lemma release_chain_valid: "validate_recovery_chain verify_env release_chain = Inr release_chain"
proof -
  have nodes: "rc_nodes release_chain = [stage_node, promote_node, record_node]" by (simp add: release_chain_def)
  have fields: "recovery_chain_fields_ok verify_env release_chain"
    using release_nodes_ok
    by (simp add: recovery_chain_fields_ok_def release_chain_def accepted_iff length_ok_def)
  have visits: "visit_all (chain_dependencies release_chain) [] [] (map rn_node_id (rc_nodes release_chain)) =
      Inr [''node-3'', ''node-2'', ''node-1'']"
    by (simp add: chain_dependencies_def nodes stage_node_def promote_node_def record_node_def chain_node_def
      visit.simps del: bind_result_eq_Inr)
  have checks: "checked
       [(\<not> recovery_chain_fields_ok verify_env release_chain, field_message),
        (\<not> distinct (map rn_node_id (rc_nodes release_chain)), m1),
        (\<not> distinct (map (\<lambda>n. sa_semantic_action_sha256 (rn_semantic_action n)) (rc_nodes release_chain)), m2),
        (\<not> distinct (map (\<lambda>n. (xr_investigation_id (rn_envelope n), xr_operation_id (rn_envelope n),
             xr_envelope_sha256 (rn_envelope n))) (rc_nodes release_chain)), m3),
        (list_ex (\<lambda>n. rn_chain_profile_version n \<noteq> rc_chain_profile_version release_chain) (rc_nodes release_chain), m4),
        (list_ex (\<lambda>n. list_ex (\<lambda>d. d \<notin> set (map rn_node_id (rc_nodes release_chain))) (rn_depends_on n))
           (rc_nodes release_chain), m5)] release_chain = Inr release_chain" for m1 m2 m3 m4 m5
    using fields action_digests
    by (simp add: nodes)
      (simp add: stage_node_def promote_node_def record_node_def chain_node_def release_chain_def)
  show ?thesis
    by (simp only: validate_recovery_chain_def checks bind_result_simps visits)
qed


lemma release_profiles:
  "resolve_recovery_action_profile (rn_semantic_action stage_node) = Inr STAGE_CLOUD_RUN_REVISION"
  "resolve_recovery_action_profile (rn_semantic_action promote_node) = Inr PROMOTE_CLOUD_RUN_TRAFFIC"
  "resolve_recovery_action_profile (rn_semantic_action record_node) = Inr CREATE_FIRESTORE_RELEASE_RECORD"
  by (simp_all add: stage_node_def promote_node_def record_node_def chain_node_def cloud_action_profile
    record_action_profile)

lemma release_topology: "chain_topology stage_node promote_node record_node = Inr ()"
  by (simp add: chain_topology_def Let_def action_argument_def action_target_def stage_node_def promote_node_def
      record_node_def chain_node_def cloud_action_def)
    (simp add: target_eq_def cloud_target_def cloud_arguments_def record_action_def record_arguments_def
      record_target_def field_text_def)

definition release_by_profile :: profile_nodes where
  "release_by_profile =
     [(STAGE_CLOUD_RUN_REVISION, stage_node), (PROMOTE_CLOUD_RUN_TRAFFIC, promote_node),
      (CREATE_FIRESTORE_RELEASE_RECORD, record_node)]"

lemma release_chain_shape: "validate_chain release_chain = Inr release_by_profile"
  unfolding validate_chain_eq
  using release_topology
  by (simp add: release_chain_def recovery_action_profiles_def release_by_profile_def release_profiles)

lemma record_node_found: "find_node release_chain ''node-3'' = Inr record_node"
  by (simp add: find_node_def release_chain_def)
    (simp add: stage_node_def promote_node_def record_node_def chain_node_def)

lemma record_node_bound: "validate_node_binding verify_env record_node record_envelope = Inr CREATE_FIRESTORE_RELEASE_RECORD"
  unfolding validate_node_binding_eq release_profiles
  by (simp add: envelope_referenced_def action_of_envelope_def Let_def record_node_def chain_node_def)
    (simp add: record_action_def record_envelope_def record_arguments_def record_effect_sha256_def field_text_def)

section \<open>The investigation\<close>

definition receipt_audit :: controller_audit where
  "receipt_audit =
     \<lparr>ca_sequence = 1, ca_capability_name = Some ''reconcile-dispatch-receipt-get'',
      ca_capability_version = Some ''1.0.0'', ca_request_sha256 = Some zero_digest,
      ca_target_sha256 = target_sha256 verify_env record_envelope,
      ca_outcome = PO_COMPLETED, ca_stop_reason = SR_PROBE_COMPLETED, ca_started_at = 120, ca_completed_at = 150,
      ca_session_elapsed_ms = 10, ca_probe_count_used = 1, ca_cost_units_used = 1, ca_result_bytes_acquired = 1,
      ca_result_sha256 = Some zero_digest, ca_result_byte_count = Some 1\<rparr>"

definition receipt :: normalized_evidence where
  "receipt = dispatch_receipt verify_env"

definition receipt_attempt :: evidence_attempt where
  "receipt_attempt = attempt_for verify_env record_envelope receipt_audit (Some zero_digest) (Some receipt)
     (decide ''evidence-1'' ADMITTED AUTHORITATIVE_AFFIRMATIVE_NON_EXECUTION)"

lemma receipt_times [simp]: "time_ok 110" "time_ok 120" "time_ok 170"
  by (simp_all add: time_ok_def datetime_min_def datetime_max_def)

lemma receipt_audit_accepted: "audit_accepted verify_env receipt_audit"
  by (simp add: audit_accepted_def accepted_iff validate_controller_audit_def controller_audit_fields_ok_def
    receipt_audit_def int_ok_def int64_max_def target_sha256_def)

lemma receipt_keys [simp]:
  "\<not> is_sensitive_key E ''observation_schema''" "\<not> is_sensitive_key E ''semantic_action_sha256''"
  "\<not> is_sensitive_key E ''receipt_id''" "\<not> is_sensitive_key E ''provider_contact''" "\<not> is_sensitive_key E ''outcome''"
  by (simp_all add: is_sensitive_key_def key_words_def normalized_key_def text_lower_def is_ascii_def
    lower_char_def plain_chars upper_letter_def sensitive_key_tokens_def sensitive_key_names_def)

lemma receipt_identifiers [simp]:
  "identifier_ok E ''observation_schema''" "identifier_ok E ''semantic_action_sha256''"
  "identifier_ok E ''receipt_id''" "identifier_ok E ''provider_contact''" "identifier_ok E ''outcome''"
  "identifier_ok E ''reconcile-dispatcher''" "identifier_ok E ''reconcile-dispatch-receipt-v1''"
  "identifier_ok E ''observation-1''"
  by (simp_all add: plain_identifier_ok plain_chars)
    (simp_all add: identifier_ok_def identifier_char_def identifier_start_def letter_or_digit_def
      label_text_not_sensitive [where k = "CHR ''g''"] label_char_def plain_chars plain_text_not_sensitive)


lemma receipt_texts [simp]:
  "non_empty_text_ok E ''dispatch-receipt-observation-v1''" "\<not> contains_sensitive_material E ''dispatch-receipt-observation-v1''"
  "non_empty_text_ok E ''receipt-1''" "\<not> contains_sensitive_material E ''receipt-1''"
  "non_empty_text_ok E ''false''" "\<not> contains_sensitive_material E ''false''"
  "non_empty_text_ok E ''SUPPRESSED_BEFORE_DISPATCH''" "\<not> contains_sensitive_material E ''SUPPRESSED_BEFORE_DISPATCH''"
  "non_empty_text_ok E ''dispatch-receipts/receipt-1''" "\<not> contains_sensitive_material E ''dispatch-receipts/receipt-1''"
proof -
  have "\<not> list_ex (\<lambda>(a, b). regex_occurs (Seq a b) None ''SUPPRESSED_BEFORE_DISPATCH'') secret_patterns" by code_simp
  then show "\<not> contains_sensitive_material E ''SUPPRESSED_BEFORE_DISPATCH''"
    by (simp add: contains_sensitive_material_def is_ascii_def)
  show "\<not> contains_sensitive_material E ''dispatch-receipts/receipt-1''"
    by (simp add: path_text_not_sensitive path_char_def plain_chars)
qed (simp_all add: non_empty_text_ok_def bounded_text_ok_def text_length_def printable_text_ok plain_text_not_sensitive
    plain_chars)

lemma digest_non_empty [simp]: "sha256_digest_ok d \<Longrightarrow> non_empty_text_ok E d"
proof -
  assume d: "sha256_digest_ok d"
  then have "text_length d \<le> 64" "list_all lower_hex d" "d \<noteq> []"
    by (auto simp: sha256_digest_ok_def text_length_def intro: order.trans [OF length_filter_le])
  moreover from this(3) obtain c t where "d = c # t" by (cases d) auto
  moreover have "\<not> 128 \<le> (of_char c :: nat)" if "lower_hex c" for c
    using that by (auto simp: lower_hex_def)
  ultimately show ?thesis using d by (auto simp: non_empty_text_ok_def bounded_text_ok_def text_length_def)
qed

lemma receipt_valid: "validate_normalized_evidence verify_env receipt = Inr receipt"
proof -
  have action: "sha256_digest_ok (sa_semantic_action_sha256 (record_action verify_env))"
    by (simp add: record_action_def)
  then have "normalized_evidence_fields_ok verify_env receipt"
    by (simp add: normalized_evidence_fields_ok_def receipt_def dispatch_receipt_def)
      (simp add: record_evidence_def evidence_provenance_ok_def recovery_version_def
        accepted_iff [of validate_freshness_window] validate_freshness_window_def correlation_ok_def length_ok_def raw_observation_ok_def int_ok_def int64_max_def)
  then show ?thesis
    using action
    by (simp add: validate_normalized_evidence_def)
      (simp add: receipt_def dispatch_receipt_def record_evidence_def correlation_keys_free_def
        correlation_values_free_def text_members_def)
qed

lemma receipt_fields [simp]:
  "ev_evidence_id receipt = ''evidence-1''" "ev_operation_status receipt = Some TERMINAL_NOT_COMMITTED"
  "ev_effect_assertions receipt = [\<lparr>ea_effect_id = ''effect-1'', ea_state = NOT_ESTABLISHED\<rparr>]"
  "ev_freshness receipt = \<lparr>fw_valid_from = 100, fw_valid_until = 200\<rparr>"
  by (simp_all add: receipt_def dispatch_receipt_def record_evidence_def)

lemma decision_fields [simp]:
  "ed_evidence_id (decide i d r) = i" "ed_disposition (decide i d r) = d" "ed_reason (decide i d r) = r"
  by (simp_all add: decide_def)

lemma receipt_attempt_fields [simp]:
  "at_probe_sequence receipt_attempt = 1" "at_evidence receipt_attempt = Some receipt"
  "ed_disposition (at_decision receipt_attempt) = ADMITTED" "attempt_id receipt_attempt = ''evidence-1''"
  "at_decision receipt_attempt = decide ''evidence-1'' ADMITTED AUTHORITATIVE_AFFIRMATIVE_NON_EXECUTION"
  by (simp_all add: receipt_attempt_def attempt_for_def decide_def receipt_audit_def attempt_id_def)

lemma receipt_attempt_sound: "attempt_sound verify_env record_envelope receipt_audit receipt_attempt"
proof -
  have "accepted (validate_evidence_decision verify_env) (at_decision receipt_attempt)"
    by (simp add: accepted_iff validate_evidence_decision_def decide_def admitted_reasons_def)
  moreover have "evidence_sound verify_env record_envelope receipt_audit (at_decision receipt_attempt) receipt"
  proof -
    have "accepted (validate_normalized_evidence verify_env) receipt" using receipt_valid by (simp add: accepted_iff)
    then show ?thesis
      by (simp add: evidence_sound_def retained_sound_def expected_admitted_reason_def decide_def receipt_audit_def)
        (simp add: receipt_def dispatch_receipt_def record_evidence_def record_envelope_def record_effect_def
          correlation_matches_def recovery_version_def)
  qed
  ultimately show ?thesis
    by (simp add: attempt_sound_def) (simp add: receipt_attempt_def attempt_for_def receipt_audit_def)
qed

lemma receipt_records: "investigation_records verify_env record_envelope [receipt_audit] [receipt_attempt]"
  using receipt_attempt_sound record_envelope_accepted receipt_audit_accepted
  by (simp add: investigation_records_def classifiable_def)
    (simp add: capability_enabled_def receipt_audit_def record_envelope_def)


section \<open>The evaluation and the report\<close>

lemma receipt_items [simp]:
  "xe_expected_effects record_envelope = [record_effect]" "ee_effect_id record_effect = ''effect-1''"
  "ee_commit_scope record_effect = firestore_record_scope"
  "admitted_items [receipt_attempt] = [receipt]" "statuses_of [receipt] = [TERMINAL_NOT_COMMITTED]"
  "effect_values [receipt] ''effect-1'' = [(NOT_ESTABLISHED, ''evidence-1'')]"
  by (simp_all add: record_envelope_def record_effect_def admitted_items_def admitted_attempts_def statuses_of_def
    effect_values_def)

lemma receipt_agrees [simp]:
  "proved_effects [receipt] [record_effect] s = (if s = NOT_ESTABLISHED then [''effect-1''] else [])"
  "evidence_conflict [receipt] [record_effect] = False"
proof -
  show "proved_effects [receipt] [record_effect] s = (if s = NOT_ESTABLISHED then [''effect-1''] else [])" for s
    by (auto simp: proved_effects_def effect_state_def effect_conflicts_def)
  then show "evidence_conflict [receipt] [record_effect] = False"
    by (simp add: evidence_conflict_def effect_conflicts_def Let_def)
qed

lemma receipt_classification: "core_classification [receipt] [record_effect] = NOT_COMMITTED"
  by (simp add: core_classification_def core_status_def mixed_scopes_def commit_scopes_def Let_def)

lemma receipt_proof:
  "core_proof [receipt_attempt] [record_effect] =
     \<lparr>dp_effect_findings =
        [\<lparr>ff_effect_id = ''effect-1'', ff_commit_scope = firestore_record_scope, ff_state = NOT_ESTABLISHED,
          ff_evidence_ids = [''evidence-1'']\<rparr>],
      dp_operation_status = Some TERMINAL_NOT_COMMITTED, dp_conflicting_authority = False,
      dp_admitted_evidence_ids = [''evidence-1'']\<rparr>"
  by (simp add: core_proof_def core_finding_def core_status_def effect_state_def effect_conflicts_def Let_def sorted_set_def
    admitted_attempts_def)

lemma receipt_evaluated:
  obtains v where "classify verify_env record_envelope [receipt_attempt] = Inr v"
    "cv_envelope_sha256 v = envelope_sha256 verify_env record_envelope" "cv_attempts v = [receipt_attempt]"
    "cv_evidence v = [receipt]"
    "cv_decisions v = [decide ''evidence-1'' ADMITTED AUTHORITATIVE_AFFIRMATIVE_NON_EXECUTION]"
    "cv_proof v = core_proof [receipt_attempt] [record_effect]"
    "cv_classification v = NOT_COMMITTED"
proof -
  obtain v where v: "classify verify_env record_envelope [receipt_attempt] = Inr v"
    using classify_total [of verify_env record_envelope "[receipt_audit]" "[receipt_attempt]"] receipt_records
    by (auto simp: investigation_records_def)
  note eq = classify_eq [OF v record_envelope_accepted]
  show ?thesis
    using that [OF v] eq by (simp add: receipt_classification evidence_list_def)
qed

definition receipt_report :: "core_evaluation \<Rightarrow> investigation_report" where
  "receipt_report v = assembled_report verify_env record_envelope v [report_audit receipt_audit receipt_attempt] None
     110 160 0"

lemma receipt_report_valid:
  assumes "classify verify_env record_envelope [receipt_attempt] = Inr v"
  shows "validate_investigation_report verify_env (receipt_report v) = Inr (receipt_report v)"
  using assembled_report_accepted [OF receipt_records assms verify_hexdigest_ok, of None 110 160 0]
  by (simp add: receipt_report_def report_extras_ok_def int_ok_def int64_max_def)

lemma same_receipt: "same_evidence receipt receipt"
  by (simp add: same_evidence_def) (simp add: receipt_def dispatch_receipt_def record_evidence_def)

lemma receipt_audit_digest:
  "audit_record_sha256 verify_env (report_audit receipt_audit receipt_attempt) =
     Inr (controller_audit_sha256 verify_env receipt_audit)"
proof -
  have "audit_of_record (report_audit receipt_audit receipt_attempt) SR_PROBE_COMPLETED = receipt_audit"
    by (simp add: audit_of_record_def report_audit_def receipt_audit_def)
  moreover have "stop_reason_of (pu_stop_reason (report_audit receipt_audit receipt_attempt)) = Inr SR_PROBE_COMPLETED"
    by (simp add: stop_reason_of_def stop_reasons_def report_audit_def receipt_audit_def)
  moreover have "validate_controller_audit verify_env receipt_audit = Inr receipt_audit"
    using receipt_audit_accepted by (auto simp: audit_accepted_def accepted_iff validate_controller_audit_def)
  ultimately show ?thesis by (simp add: audit_record_sha256_def)
qed

lemma receipt_report_reproduces:
  assumes "classify verify_env record_envelope [receipt_attempt] = Inr v"
  shows "validate_report verify_env record_envelope (receipt_report v) v = Inr ()"
proof -
  note eq = classify_eq [OF assms record_envelope_accepted]
  have "validate_attempt_audit verify_env (report_audit receipt_audit receipt_attempt, receipt_attempt) = Inr ()"
    by (simp add: validate_attempt_audit_def receipt_audit_digest)
      (simp add: report_audit_def receipt_audit_def receipt_attempt_def attempt_for_def attempt_id_def)
  then show ?thesis
    using eq same_receipt
    by (simp add: validate_report_def receipt_report_def assembled_report_def report_matches_def evidence_list_def)
qed


section \<open>The verification\<close>

definition record_inputs :: verified_inputs where
  "record_inputs =
     \<lparr>vi_node = record_node, vi_profile = CREATE_FIRESTORE_RELEASE_RECORD, vi_admitted = [receipt],
      vi_supporting = [receipt]\<rparr>"

lemma receipt_admitted:
  assumes "classify verify_env record_envelope [receipt_attempt] = Inr v"
  shows "evidence_admitted record_envelope v = Inr [receipt]" "supporting_evidence v [receipt] = Inr [receipt]"
proof -
  note eq = classify_eq [OF assms record_envelope_accepted]
  have proved: "cv_proof v = core_proof [receipt_attempt] [record_effect]" "cv_evidence v = [receipt]"
    "admitted_ids v = [''evidence-1'']"
    using eq by (simp_all add: evidence_list_def admitted_ids_def)
  have "\<not> evidence_escaped record_envelope receipt"
    by (simp add: evidence_escaped_def)
      (simp add: receipt_def dispatch_receipt_def record_evidence_def record_envelope_def correlation_matches_def
        recovery_version_def)
  then show "evidence_admitted record_envelope v = Inr [receipt]"
    using proved by (simp add: evidence_admitted_def receipt_proof)
  show "supporting_evidence v [receipt] = Inr [receipt]"
    using proved by (simp add: supporting_evidence_def cited_ids_def receipt_proof lookup_evidence_def
      evidence_by_id_def sorted_set_def)
qed

lemma receipt_time:
  assumes "classify verify_env record_envelope [receipt_attempt] = Inr v" "t \<in> {160..<200}"
  shows "validate_time t release_chain record_envelope (receipt_report v) = Inr ()"
proof -
  have "cv_evidence v = [receipt]"
    using classify_eq(3) [OF assms(1) record_envelope_accepted] by (simp add: evidence_list_def)
  then have fields: "ir_evidence (receipt_report v) = [receipt]" "ir_created_at (receipt_report v) = 110"
    "ir_updated_at (receipt_report v) = 160"
    "ir_probe_audit (receipt_report v) = [report_audit receipt_audit receipt_attempt]"
    by (simp_all add: receipt_report_def assembled_report_def)
  have times: "pu_started_at (report_audit receipt_audit receipt_attempt) = 120"
    "pu_completed_at (report_audit receipt_audit receipt_attempt) = 150"
    "epv_retrieved_at (ev_provenance receipt) = 150" "ev_observed_at receipt = 150"
    "ax_observed_at (xe_ambiguity record_envelope) = 100" "xe_invoked_at record_envelope = 100"
    "rc_created_at release_chain = 100"
    by (simp_all add: report_audit_def receipt_audit_def receipt_def dispatch_receipt_def record_evidence_def
      record_envelope_def release_chain_def)
  show ?thesis
    using assms(2) by (simp add: validate_time_def required_predecessors_def fields times Let_def)
qed

lemma record_inputs_verified:
  assumes "classify verify_env record_envelope [receipt_attempt] = Inr v" "t \<in> {160..<200}"
  shows "verified_inputs_of verify_env release_chain ''node-3'' record_envelope (receipt_report v) v t None =
    Inr record_inputs"
proof -
  have "validate_execution_envelope verify_env record_envelope = Inr record_envelope"
    using record_envelope_accepted
    by (auto simp: envelope_accepted_def accepted_iff validate_execution_envelope_def)
  then show ?thesis
    using release_chain_valid receipt_report_valid [OF assms(1)] release_chain_shape record_node_found record_node_bound
      receipt_report_reproduces [OF assms(1)] receipt_time [OF assms] receipt_admitted [OF assms(1)]
    by (simp add: verified_inputs_of_def rehydrate_def record_inputs_def)
qed

lemma record_retry_certified:
  assumes v: "classify verify_env record_envelope [receipt_attempt] = Inr v" and t: "t \<in> {160..<200}"
  obtains cert k where
    "verify_recovery verify_env release_chain ''node-3'' record_envelope (receipt_report v) v t None = Inr (Inl cert)"
    "vc_transition cert = Some k"
proof -
  note eq = classify_eq [OF v record_envelope_accepted]
  note inputs = record_inputs_verified [OF v t]
  have cls: "cv_classification v = NOT_COMMITTED" "cv_proof v = core_proof [receipt_attempt] [record_effect]"
    using eq by (simp_all add: receipt_classification)
  have valid: "profile_evidence_valid verify_env CREATE_FIRESTORE_RELEASE_RECORD (rn_semantic_action record_node)
      record_envelope v [receipt] = Inr True"
    using record_not_committed [OF verify_hexdigest_ok] cls(1)
    by (simp add: profile_evidence_valid_def receipt_def record_node_def chain_node_def)
  have fresh: "\<not> stale_at t receipt" using t by (simp add: stale_at_def)
  have seen: "provider_observation_of verify_env receipt = Inr (receipt_seen verify_env)"
    using dispatch_receipt_observed [OF verify_hexdigest_ok] by (simp add: receipt_def)
  have capability: "evidence_capability receipt = Some DISPATCH_RECEIPT_GET"
    by (simp add: receipt_def dispatch_receipt_def)
  have "recovery_precondition_sha256 verify_env CREATE_FIRESTORE_RELEASE_RECORD [receipt] True =
      Inr (env_sha256 verify_env (json_bytes (JObj [(''exists'', JBool False)])))"
    using seen capability
    by (simp add: recovery_precondition_sha256_def recovery_precondition_def value_sha256_def
      canonical_json_value_bytes_def key_bounds_def text_length_def printable_text_ok)
  moreover have "affirmative_evidence v [receipt] = Inr [receipt]"
    using eq by (simp add: evidence_reason_of_def)
  moreover have "recovery_node_fields_ok verify_env record_node"
    using release_nodes_ok(3) by (simp add: validate_recovery_node_def)
  then obtain k where "certified_transition verify_env PA_RETRY record_node record_node
      (env_sha256 verify_env (json_bytes (JObj [(''exists'', JBool False)]))) = Inr (Some k)"
    using certified_transition_total [OF verify_hexdigest_ok _ _ sha256s_ok(1) [OF verify_hexdigest_ok],
        of record_node record_node PA_RETRY] by blast
  ultimately have k: "transition_of verify_env release_chain record_node CREATE_FIRESTORE_RELEASE_RECORD v [receipt] None =
      Inr (Some k)"
    using cls by (simp add: transition_of_def retry_transition_def with_precondition_def del: affirmative_evidence.simps)
  have time: "time_ok t" using t by (simp add: time_ok_def datetime_min_def datetime_max_def)
  obtain cert where cert: "build_certificate verify_env release_chain record_node record_envelope (receipt_report v) v
      CREATE_FIRESTORE_RELEASE_RECORD [receipt] [receipt] t None = Inr cert"
    using build_certificate_total [OF verify_hexdigest_ok verified_inputs_ofD(1) [OF inputs] time, of None "Some k"]
      k cls fresh by (auto simp: record_inputs_def)
  have "verify_recovery verify_env release_chain ''node-3'' record_envelope (receipt_report v) v t None = Inr (Inl cert)"
    using inputs valid cert fresh cls
    by (simp add: verify_recovery_def record_inputs_def receipt_proof Let_def)
  moreover have "vc_transition cert = Some k" using build_certificateD(1) [OF cert] k by simp
  ultimately show ?thesis by (rule that)
qed

end
