(* ===== verification/Witness_Laws.thy ===== *)
theory Witness_Laws
  imports Verdict_Laws
begin

text \<open>
  Evidence without a contradiction leads to a verdict: the rules of a profile fail only with a
  violation, which a verification handles, and the two histories of an unsettled operation, with the
  observations that tell them apart, are a well-formed ambiguity witness.
\<close>

section \<open>The rules fail only with a violation\<close>

definition violations_only :: "'a result \<Rightarrow> bool" where
  "violations_only r \<longleftrightarrow> (\<forall>e. r = Inl e \<longrightarrow> (\<exists>m. e = RecoveryRuleViolation m))"

lemma violations_only_Inr [simp]: "violations_only (Inr x)"
  by (simp add: violations_only_def)

lemma violations_only_rule [simp]: "violations_only (rule ok m)" "violations_only (violation m)"
  by (auto simp: violations_only_def rule_def require_def violation_def)

lemma violations_only_bind:
  "violations_only r \<Longrightarrow> (\<And>x. r = Inr x \<Longrightarrow> violations_only (f x)) \<Longrightarrow> violations_only (bind_result r f)"
  by (cases r) (auto simp: violations_only_def)

lemma violations_only_map: "(\<And>x. x \<in> set xs \<Longrightarrow> violations_only (f x)) \<Longrightarrow> violations_only (map_result f xs)"
proof (induction xs)
  case (Cons x xs)
  then show ?case by (auto intro!: violations_only_bind)
qed simp

lemma violations_only_coherent [simp]: "violations_only (coherent p evidence observations)"
  using coherent_violation by (auto simp: violations_only_def)

lemma violations_only_observation [simp]: "violations_only (provider_observation_of E e)"
  by (auto simp: provider_observation_of_def violations_only_def violation_def split: option.splits sum.splits if_splits)

lemma exact_field: "exact_fields kvs names \<Longrightarrow> k \<in> set names \<Longrightarrow> \<exists>v. map_of kvs k = Some v"
proof -
  assume "exact_fields kvs names" "k \<in> set names"
  then have "k \<in> fst ` set kvs" by (simp add: exact_fields_def)
  then show ?thesis by (metis domD dom_map_of_conv_image_fst)
qed

lemma target_text_violations:
  assumes "validate_recovery_action p a = Inr ()"
    and "k \<in> set (if s = ''scope'' then profile_scope_fields p else profile_resource_fields p)"
  shows "violations_only (target_text E a s k)"
proof -
  note exact = validate_recovery_action_ok(5,6) [OF assms(1)]
  then obtain v where "map_of (if s = ''scope'' then tb_scope (sa_target a) else tb_resource (sa_target a)) k = Some v"
    using assms(2) exact_field by (cases "s = ''scope''") (simp_all, blast+)
  then show ?thesis by (auto simp: target_text_def Let_def)
qed

lemma stage_revision_violations [simp]: "violations_only (stage_revision_of E a)"
  by (auto simp: stage_revision_of_def deterministic_stage_revision_def Let_def intro!: violations_only_bind)

lemma binding_violations:
  assumes "validate_recovery_action p a = Inr ()"
  shows "violations_only (validate_observation_binding E p a e obs b)"
proof -
  have "violations_only (cloud_run_record E a obs)" if "profile_on_cloud_run p"
    using that assms
    by (auto simp: cloud_run_record_def Let_def profile_scope_fields_def profile_resource_fields_def
      intro!: violations_only_bind target_text_violations split: provider_observation.split)
  moreover have "violations_only (firestore_record E a)" if cloud: "\<not> profile_on_cloud_run p"
  proof -
    obtain v where "map_of (tb_resource (sa_target a)) ''document'' = Some v"
      using exact_field [OF validate_recovery_action_ok(6) [OF assms], of "''document''"] cloud
      by (auto simp: profile_resource_fields_def)
    then show ?thesis
      using cloud assms
      by (auto simp: firestore_record_def profile_scope_fields_def intro!: violations_only_bind target_text_violations)
  qed
  moreover have "violations_only (observation_identity p a obs)"
    by (cases obs) (auto simp: observation_identity.simps Let_def intro!: violations_only_bind)
  ultimately show ?thesis
    unfolding validate_observation_binding_def
    by (auto intro!: violations_only_bind split: provider_observation.split)
qed

lemma status_violations [simp]: "violations_only (validate_evidence_status e obs)"
  by (cases obs) (auto simp: validate_evidence_status_def Let_def intro!: violations_only_bind)

lemma validated_violations:
  assumes "validate_recovery_action p a = Inr ()"
  shows "violations_only (validated_recovery_observations E p a evidence b)"
  unfolding validated_recovery_observations_def validated_observation_def
  using assms by (auto intro!: violations_only_bind violations_only_map binding_violations)

lemma require_text_violations:
  "exact_fields kvs names \<Longrightarrow> k \<in> set names \<Longrightarrow> violations_only (require_text kvs k P)"
  using exact_field [of kvs names k] by (auto simp: require_text_def)

lemma effects_violations: "violations_only (expected_effects_by_scope E p a expected)"
proof -
  have "violations_only (profile_predicates E p a effects)" for effects
  proof (cases p)
    case CREATE_FIRESTORE_RELEASE_RECORD
    then show ?thesis
      by (auto simp: profile_predicates_def Let_def intro!: violations_only_bind
        intro: require_text_violations split: option.split)
  qed (auto simp: profile_predicates_def Let_def intro!: violations_only_bind)
  then show ?thesis by (auto simp: expected_effects_by_scope_def Let_def intro!: violations_only_bind)
qed


lemma states_violations: "violations_only (assertion_states E effects evidence)"
proof -
  have "violations_only (recorded_assertion scopes obs x)" for scopes obs x
    by (auto simp: recorded_assertion_def intro!: violations_only_bind split: option.split)
  then have "violations_only (recorded_assertions E scopes e)" for scopes e
    by (auto simp: recorded_assertions_def intro!: violations_only_bind violations_only_map)
  then show ?thesis
    by (auto simp: assertion_states_def Let_def intro!: violations_only_bind violations_only_map)
qed

lemma proof_rule_violations:
  assumes "expected_effects_by_scope E p a expected = Inr effects"
  shows "violations_only (proof_rule p a effects observations ids established absent c)"
proof -
  obtain predicates where "profile_predicates E p a effects = Inr predicates"
    and scopes: "set (map fst effects) = set (map fst predicates)"
    using expected_effectsD(3) [OF assms] by blast
  then have known: "p = CREATE_FIRESTORE_RELEASE_RECORD \<Longrightarrow> firestore_record_scope \<in> fst ` set effects"
    "p = STAGE_CLOUD_RUN_REVISION \<Longrightarrow> stage_revision_scope \<in> fst ` set effects"
    unfolding set_map by (cases p; auto simp: profile_predicates_def Let_def)+
  have found: "k \<in> fst ` set effects \<Longrightarrow> map_of effects k \<noteq> None" for k by (simp add: map_of_eq_None_iff)
  have "violations_only (require_firestore_commit a effects observations)" if "p = CREATE_FIRESTORE_RELEASE_RECORD"
    using found [OF known(1) [OF that]]
    by (auto simp: require_firestore_commit_def Let_def intro!: violations_only_bind)
  moreover have "violations_only (require_stage_commit observations)" "violations_only (require_promotion_commit a observations)"
    by (auto simp: require_stage_commit_def require_promotion_commit_def require_stage_revision_coherence_def Let_def
      intro!: violations_only_bind)
  moreover have "\<exists>e. map_of effects stage_revision_scope = Some e" if "p = STAGE_CLOUD_RUN_REVISION"
    using found [OF known(2) [OF that]] by blast
  ultimately show ?thesis
    by (cases c; cases p) (auto simp: proof_rule_def intro!: violations_only_bind)
qed

lemma proof_violations:
  assumes "validate_recovery_action p a = Inr ()"
  shows "violations_only (validate_recovery_proof E p a expected c evidence)"
  unfolding validate_recovery_proof_def validate_recovery_evidence_def
  by (intro violations_only_bind violations_only_map validated_violations [OF assms] effects_violations
      states_violations violations_only_Inr violations_only_rule proof_rule_violations violations_only_observation)
    (auto intro: proof_rule_violations)

lemma profile_evidence_total:
  assumes "validate_recovery_action p a = Inr ()"
  shows "\<exists>valid. profile_evidence_valid E p a x v evidence = Inr valid"
  using proof_violations [OF assms, of E "xe_expected_effects x" "cv_classification v" evidence]
  by (auto simp: profile_evidence_valid_def violations_only_def split: sum.split exn.split)


section \<open>The two histories of an unsettled operation\<close>

text \<open>The evidence of a verification, as the artifacts need it.\<close>

definition citable :: "env \<Rightarrow> normalized_evidence list \<Rightarrow> bool" where
  "citable E es \<longleftrightarrow> list_all (bindable E) es \<and> distinct (map ev_evidence_id es) \<and> length es \<le> 64"

lemma coherent_citable:
  assumes "inputs_coherent E c node_id x r v t i"
  shows "citable E (vi_admitted i)"
proof -
  note parts = coherent_parts [OF assms]
  have coherent: "validate_investigation_report E r = Inr r" "report_matches r v" "evidence_admitted x v = Inr (vi_admitted i)"
    using assms by (simp_all add: inputs_coherent_def validate_report_def)
  have "passes (identity_checks r)"
    using coherent(1) by (simp add: validate_investigation_report_def passes_def reference_checks_def)
  then have "distinct (map ev_evidence_id (ir_evidence r))" by (simp add: identity_checks_def Let_def)
  moreover have "list_all2 same_evidence (ir_evidence r) (cv_evidence v)" using coherent(2) by (simp add: report_matches_def)
  then have "map ev_evidence_id (ir_evidence r) = map ev_evidence_id (cv_evidence v)"
    by (induction rule: list_all2_induct) (simp_all add: same_evidence_fields)
  ultimately have "distinct (map ev_evidence_id (cv_evidence v))" by simp
  then have "distinct (map ev_evidence_id (vi_admitted i))"
    unfolding evidence_admittedD(4) [OF coherent(3)] by (simp add: distinct_map inj_on_def)
  then show ?thesis using parts(7,9) by (simp add: citable_def)
qed

lemma cited_list:
  assumes "citable E es"
  defines "cited \<equiv> \<lambda>P. sort (map ev_evidence_id (filter P es))"
  shows "list_all (identifier_ok E) (cited P)" "distinct (cited P)" "length (cited P) \<le> 64"
    "list_all (identifier_ok E) (map ev_evidence_id (filter P es))" "distinct (map ev_evidence_id (filter P es))"
    "length (map ev_evidence_id (filter P es)) \<le> 64"
  using assms order.trans [OF length_filter_le, of es 64 P]
  by (auto simp: citable_def list_all_iff bindable_def distinct_map inj_on_def)

definition cited_effect :: "normalized_evidence list \<Rightarrow> string list \<Rightarrow> string \<times> effect_assertion_state \<Rightarrow> hypothesized_effect" where
  "cited_effect evidence fitting = (\<lambda>(i, s).
     \<lparr>he_effect_id = i, he_state = s,
      he_cited_evidence_ids = sort (map ev_evidence_id
        (filter (\<lambda>e. ev_evidence_id e \<in> set fitting \<and> states_effect e i s) evidence))\<rparr>)"

lemma hypothesized_eq:
  assumes "citable E evidence" "identifier_ok E i"
  shows "hypothesized E evidence fitting (i, s) = Inr (cited_effect evidence fitting (i, s))"
    "validate_hypothesized_effect E (cited_effect evidence fitting (i, s)) =
       Inr (cited_effect evidence fitting (i, s))"
  using assms cited_list [OF assms(1)]
  by (auto simp: hypothesized_def cited_effect_def validate_hypothesized_effect_def length_ok_def)

definition history_of :: "string \<Rightarrow> effect_assertion_state \<Rightarrow> effect_states \<Rightarrow> normalized_evidence list \<Rightarrow> possible_history" where
  "history_of history_id assignment states evidence =
     (let c = history_classification (map snd states);
          fitting = map ev_evidence_id (filter (\<lambda>e. compatible_with_history e states c) evidence) in
      \<lparr>ph_history_id = history_id, ph_classification = c, ph_effect_states = map (cited_effect evidence fitting) states,
       ph_compatible_evidence_ids = fitting, ph_summary = assignment_summary assignment\<rparr>)"

lemma history_of_id [simp]: "ph_history_id (history_of history_id assignment states evidence) = history_id"
  by (simp add: history_of_def Let_def)

lemma cited_effect_fields [simp]:
  "he_effect_id (cited_effect evidence fitting x) = fst x" "he_state (cited_effect evidence fitting x) = snd x"
  "set (he_cited_evidence_ids (cited_effect evidence fitting x)) \<subseteq> set fitting"
  by (auto simp: cited_effect_def split: prod.split)

lemma assignment_summary_ok: "non_empty_text_ok E (assignment_summary a)"
  by (cases a) (simp_all add: non_empty_text_ok_def bounded_text_ok_def text_length_def printable_text_ok)

lemma history_of_valid:
  assumes "citable E evidence" "identifier_ok E history_id" "states \<noteq> []" "length states \<le> 64"
    and "list_all (identifier_ok E) (map fst states)" "distinct (map fst states)"
  shows "validate_possible_history E (history_of history_id assignment states evidence) =
    Inr (history_of history_id assignment states evidence)"
proof -
  let ?h = "history_of history_id assignment states evidence"
  have states: "map he_state (ph_effect_states ?h) = map snd states" "map he_effect_id (ph_effect_states ?h) = map fst states"
    by (simp_all add: history_of_def Let_def comp_def)
  have "list_all (accepted (validate_hypothesized_effect E)) (ph_effect_states ?h)"
    using assms(1,5) hypothesized_eq(2) by (fastforce simp: history_of_def Let_def list_all_iff accepted_iff)
  then have fields: "possible_history_fields_ok E ?h"
    using assms(2-4) cited_list(4,6) [OF assms(1)] assignment_summary_ok
    by (simp add: possible_history_fields_ok_def length_ok_def Suc_le_eq) (simp add: history_of_def Let_def)
  moreover have "list_all (\<lambda>e. set (he_cited_evidence_ids e) \<subseteq> set (ph_compatible_evidence_ids ?h)) (ph_effect_states ?h)"
  proof -
    have "set (he_cited_evidence_ids e) \<subseteq> set ids" if member: "e \<in> set (map (cited_effect evidence ids) states)" for e ids
    proof -
      obtain y where "e = cited_effect evidence ids y" using member unfolding set_map by blast
      then show ?thesis by (simp only: cited_effect_fields)
    qed
    then show ?thesis unfolding history_of_def Let_def list_all_iff possible_history.simps by blast
  qed
  moreover have "distinct (ph_compatible_evidence_ids ?h)"
    using cited_list(5) [OF assms(1)] by (simp add: history_of_def Let_def)
  moreover have "ph_classification ?h = history_classification (map snd states)"
    by (simp add: history_of_def Let_def)
  ultimately show ?thesis
    using assms(6) unfolding validate_possible_history_def Let_def states
    by (auto simp: history_classification_def list_all_iff list_ex_iff split: if_splits)
qed

lemma history_eq:
  assumes "citable E evidence" "identifier_ok E history_id" "accepted (validate_deterministic_proof E) (cv_proof v)"
  shows "history E history_id assignment v evidence preserve None [] =
    Inr (history_of history_id assignment (assigned_states assignment preserve v) evidence)"
    and "validate_possible_history E (history_of history_id assignment (assigned_states assignment preserve v) evidence) =
      Inr (history_of history_id assignment (assigned_states assignment preserve v) evidence)"
proof -
  let ?findings = "dp_effect_findings (cv_proof v)" and ?states = "assigned_states assignment preserve v"
  have findings: "?findings \<noteq> []" "length ?findings \<le> 64" "list_all (accepted (validate_effect_finding E)) ?findings"
    "distinct (map ff_effect_id ?findings)"
    using assms(3) by (auto simp: accepted_iff validate_deterministic_proof_def length_ok_def)
  have ids: "map fst ?states = map ff_effect_id ?findings" by (simp add: assigned_states_def)
  have ok: "list_all (identifier_ok E) (map fst ?states)"
    using findings(3) unfolding ids by (auto simp: list_all_iff accepted_iff validate_effect_finding_def)
  have "map_result (hypothesized E evidence fitting) ?states = Inr (map (cited_effect evidence fitting) ?states)"
    for fitting
    using ok hypothesized_eq(1) [OF assms(1)]
    by (fastforce simp: map_result_eq_Inr list.rel_map list_all_iff intro!: list.rel_refl_strong)
  moreover show "validate_possible_history E (history_of history_id assignment ?states evidence) =
      Inr (history_of history_id assignment ?states evidence)"
    using findings ok ids by (intro history_of_valid [OF assms(1,2)]) (auto simp: assigned_states_def comp_def)
  ultimately show "history E history_id assignment v evidence preserve None [] =
      Inr (history_of history_id assignment ?states evidence)"
    by (simp add: history_def built_history_def history_of_def Let_def)
qed


lemma generic_histories_eq:
  assumes "citable E evidence" "accepted (validate_deterministic_proof E) (cv_proof v)"
  shows "generic_histories E v evidence preserve = Inr
    [history_of ''effects-occurred'' ESTABLISHED (assigned_states ESTABLISHED preserve v) evidence,
     history_of ''effects-not-occurred'' NOT_ESTABLISHED (assigned_states NOT_ESTABLISHED preserve v) evidence]"
proof -
  have "identifier_ok E ''effects-occurred''" "identifier_ok E ''effects-not-occurred''"
    by (simp_all add: plain_identifier_ok plain_chars)
  then show ?thesis using history_eq(1) [OF assms(1) _ assms(2)] by (simp add: generic_histories_def)
qed

text \<open>The two histories disagree on an effect that is open, or on every effect when none is kept.\<close>

lemma assigned_states_differ:
  assumes "accepted (validate_deterministic_proof E) (cv_proof v)"
    and "preserve \<Longrightarrow> list_ex (\<lambda>f. ff_state f = UNVERIFIED) (dp_effect_findings (cv_proof v))"
  shows "assigned_states ESTABLISHED preserve v \<noteq> assigned_states NOT_ESTABLISHED preserve v"
proof
  let ?findings = "dp_effect_findings (cv_proof v)"
  assume "assigned_states ESTABLISHED preserve v = assigned_states NOT_ESTABLISHED preserve v"
  then have same: "\<forall>f\<in>set ?findings. preserve \<and> ff_state f \<noteq> UNVERIFIED"
    by (auto simp: assigned_states_def map_eq_conv split: if_splits)
  have "?findings \<noteq> []" using assms(1) by (auto simp: accepted_iff validate_deterministic_proof_def length_ok_def)
  then obtain f where "f \<in> set ?findings" by (meson list.set_sel(1))
  then show False using same assms(2) by (auto simp: list_ex_iff)
qed

lemma signature_states:
  "history_signature (history_of i a states evidence) = history_signature (history_of j b states' evidence) \<Longrightarrow>
     states = states'"
proof -
  assume "history_signature (history_of i a states evidence) = history_signature (history_of j b states' evidence)"
  then have "map (\<lambda>(e, s, c). (e, s)) (fst (snd (history_signature (history_of i a states evidence)))) =
      map (\<lambda>(e, s, c). (e, s)) (fst (snd (history_signature (history_of j b states' evidence))))" by simp
  then show ?thesis by (simp add: history_signature_def history_of_def Let_def comp_def)
qed

section \<open>The observations that tell them apart\<close>

lemma open_effects:
  assumes "accepted (validate_deterministic_proof E) (cv_proof v)"
  shows "length (unresolved_effect_ids v) \<le> 64" "list_all (identifier_ok E) (unresolved_effect_ids v)"
    "distinct (unresolved_effect_ids v)"
proof -
  let ?findings = "dp_effect_findings (cv_proof v)"
  have findings: "length ?findings \<le> 64" "list_all (identifier_ok E) (map ff_effect_id ?findings)"
    "distinct (map ff_effect_id ?findings)"
    using assms by (auto simp: accepted_iff validate_deterministic_proof_def length_ok_def list_all_iff validate_effect_finding_def)
  have "unresolved_effect_ids v = map ff_effect_id ?findings \<or>
      unresolved_effect_ids v = map ff_effect_id (filter (\<lambda>f. ff_state f = UNVERIFIED) ?findings)"
    by (auto simp: unresolved_effect_ids_def Let_def split: list.split)
  then show "length (unresolved_effect_ids v) \<le> 64" "list_all (identifier_ok E) (unresolved_effect_ids v)"
    "distinct (unresolved_effect_ids v)"
    using findings order.trans [OF length_filter_le findings(1)]
    by (auto simp: list_all_iff distinct_map inj_on_def)
qed

definition telling :: "env \<Rightarrow> string list \<Rightarrow> discriminating_observation \<Rightarrow> bool" where
  "telling E history_ids d \<longleftrightarrow>
     validate_discriminating_observation E d = Inr d \<and> do_distinguishes_history_ids d = history_ids"

lemma dotted_version_ok: "identifier_ok E ''1.0.0''"
  by (simp add: identifier_ok_def identifier_char_def identifier_start_def letter_or_digit_def
    path_text_not_sensitive path_char_def plain_chars)

lemma observation_texts:
  "identifier_ok E (''observe-'' @ capability_text c)" "identifier_ok E (capability_text c)"
  "identifier_ok E recovery_version" "identifier_ok E ''validate-expected-effect-profile''"
  "list_all (\<lambda>(s, c, d). non_empty_text_ok E d) (observation_requirements p)"
  "non_empty_text_ok E ''Validate the declared expected-effect profile before acquiring provider evidence.''"
proof -
  show "identifier_ok E (''observe-'' @ capability_text c)" "identifier_ok E (capability_text c)"
    by (cases c; simp add: plain_identifier_ok plain_chars)+
  show "identifier_ok E recovery_version" by (simp add: recovery_version_def dotted_version_ok)
  show "list_all (\<lambda>(s, c, d). non_empty_text_ok E d) (observation_requirements p)"
    by (cases p) (simp_all add: non_empty_text_ok_def bounded_text_ok_def text_length_def printable_text_ok)
qed (simp_all add: plain_identifier_ok plain_chars non_empty_text_ok_def bounded_text_ok_def text_length_def printable_text_ok)


lemma length_map_filter: "length (List.map_filter f xs) \<le> length xs"
  by (induction xs) (auto split: option.split)

lemma map_result_fixed: "list_all (\<lambda>d. f d = Inr d) ds \<Longrightarrow> map_result f ds = Inr ds"
  by (auto simp: map_result_eq_Inr list_all2_same list_all_iff)

lemma expected_effect_ids:
  assumes "validate_execution_envelope E x = Inr x" "(scope, i) \<in> set (effects_by_scope x open_ids)"
  shows "identifier_ok E i"
proof -
  have "list_all (accepted (validate_expected_effect E)) (xe_expected_effects x)"
    using envelope_acceptedD(4) [of E x] assms(1) by (simp add: envelope_accepted_def accepted_iff)
  then show ?thesis
    using assms(2) by (auto simp: effects_by_scope_def list_all_iff accepted_iff validate_expected_effect_def
      expected_effect_fields_ok_def)
qed

lemma discriminating_total:
  assumes "validate_execution_envelope E x = Inr x" "length open_ids \<le> 64" "list_all (identifier_ok E) open_ids" "distinct open_ids"
    and "length_ok 2 8 history_ids" "list_all (identifier_ok E) history_ids" "distinct history_ids"
  shows "\<exists>ds. discriminating_observations E p x open_ids history_ids = Inr ds \<and> length_ok 1 8 ds \<and>
    list_all (telling E history_ids) ds"
proof -
  let ?ds = "profile_observations (effects_by_scope x open_ids) history_ids (observation_requirements p)"
  have found: "list_all (telling E history_ids) ?ds"
    unfolding list_all_iff
  proof
    fix d assume "d \<in> set ?ds"
    then obtain scope c description i where d: "(scope, c, description) \<in> set (observation_requirements p)"
      "map_of (effects_by_scope x open_ids) scope = Some i"
      "d = \<lparr>do_observation_id = ''observe-'' @ capability_text c, do_description = description,
        do_capability_name = Some (capability_text c), do_capability_version = Some recovery_version,
        do_relevant_effect_ids = [i], do_distinguishes_history_ids = history_ids\<rparr>"
      by (auto simp: profile_observations_def set_map_filter)
    have "identifier_ok E i" using expected_effect_ids [OF assms(1) map_of_SomeD [OF d(2)]] .
    moreover have "non_empty_text_ok E description" using observation_texts(5) [of E p] d(1) by (auto simp: list_all_iff)
    ultimately show "telling E history_ids d"
      using assms(5-7) observation_texts(1,2) [of E c] observation_texts(3) [of E]
      by (simp add: telling_def d(3) validate_discriminating_observation_def discriminating_observation_fields_ok_def
        length_ok_def option_ok_def)
  qed
  have size: "length ?ds \<le> 3"
    using length_map_filter [of _ "observation_requirements p"] unfolding profile_observations_def
    by (rule order.trans) (cases p; simp)
  let ?d = "\<lparr>do_observation_id = ''validate-expected-effect-profile'',
     do_description = ''Validate the declared expected-effect profile before acquiring provider evidence.'',
     do_capability_name = None, do_capability_version = None,
     do_relevant_effect_ids = open_ids, do_distinguishes_history_ids = history_ids\<rparr>"
  have fallback: "telling E history_ids ?d"
    using assms(2-7) observation_texts(4,6) [of E]
    by (simp add: telling_def validate_discriminating_observation_def discriminating_observation_fields_ok_def
      length_ok_def option_ok_def)
  have all: "map_result (validate_discriminating_observation E) ds = Inr ds" if "list_all (telling E history_ids) ds" for ds
    using that by (intro map_result_fixed) (simp add: list_all_iff telling_def)
  show ?thesis
  proof (cases ?ds)
    case Nil
    then have "discriminating_observations E p x open_ids history_ids = Inr [?d]"
      using all [of "[?d]"] fallback by (simp add: discriminating_observations_def)
    then show ?thesis using fallback by (simp add: length_ok_def)
  next
    case (Cons d ds)
    then have "discriminating_observations E p x open_ids history_ids = Inr ?ds"
      using all [OF found] by (simp add: discriminating_observations_def)
    then show ?thesis using found size Cons by (simp add: length_ok_def)
  qed
qed

section \<open>The witness\<close>

lemma observation_json_valid:
  assumes "telling E history_ids d"
  shows "validate_json E 2 (discriminating_observation_json d)"
proof -
  have d: "discriminating_observation_fields_ok E d"
    using assms by (simp add: telling_def validate_discriminating_observation_def)
  then have "validate_json E 3 (strings_json (do_relevant_effect_ids d))"
    "validate_json E 3 (strings_json (do_distinguishes_history_ids d))"
    by (auto simp: discriminating_observation_fields_ok_def intro!: validate_strings identifiers_text)
  moreover have "validate_json E 3 (option_json JStr o')" if "option_ok (identifier_ok E) o'" for o'
    using that by (cases o') (simp_all add: option_json_def option_ok_def identifier_text_ok)
  ultimately show ?thesis
    using d by (simp add: discriminating_observation_json_def discriminating_observation_fields_ok_def
      identifier_text_ok [of E] non_empty_text_ok_def bounded_text_ok_def key_bounds_def text_length_def
      printable_text_ok numeral_eq_Suc)
qed

lemma history_json_valid:
  assumes "validate_possible_history E h = Inr h"
  shows "validate_json E 2 (possible_history_json h)"
proof -
  have h: "possible_history_fields_ok E h" using assms by (simp add: validate_possible_history_def Let_def)
  have "validate_json E 4 (hypothesized_effect_json e)" if "e \<in> set (ph_effect_states h)" for e
  proof -
    have "validate_hypothesized_effect E e = Inr e"
      using h that by (auto simp: possible_history_fields_ok_def list_all_iff accepted_iff validate_hypothesized_effect_def)
    then have "identifier_ok E (he_effect_id e)" "validate_json E 5 (strings_json (he_cited_evidence_ids e))"
      by (auto simp: validate_hypothesized_effect_def intro!: validate_strings identifiers_text)
    then show ?thesis
      by (simp add: hypothesized_effect_json_def identifier_text_ok [of E] key_bounds_def text_length_def
        printable_text_ok numeral_eq_Suc)
  qed
  moreover have "validate_json E 3 (strings_json (ph_compatible_evidence_ids h))"
    using h by (auto simp: possible_history_fields_ok_def intro!: validate_strings identifiers_text)
  ultimately show ?thesis
    using h by (simp add: possible_history_json_def possible_history_fields_ok_def identifier_text_ok [of E]
      non_empty_text_ok_def bounded_text_ok_def validate_json_items_iff list_all_iff key_bounds_def text_length_def
      printable_text_ok numeral_eq_Suc)
qed


lemma witness_authority_valid:
  assumes "validate_json_members E 1 base" "list_all (validate_unicode_text E) conflict_ids"
    and "list_all (telling E history_ids) observations" "list_all (\<lambda>h. validate_possible_history E h = Inr h) histories"
  shows "validate_json_members E 1 (witness_authority base conflict_ids observations histories)"
proof -
  have "validate_json E 1 (strings_json conflict_ids)" using assms(2) by (intro validate_strings) simp_all
  then show ?thesis
    using assms(1,3,4) observation_json_valid history_json_valid
    by (auto simp: witness_authority_def validate_json_items_iff list_all_iff key_bounds_def text_length_def
      printable_text_ok numeral_2_eq_2)
qed

lemma two_histories_accepted:
  assumes "ambiguity_witness_fields_ok E w" "aw_target_sha256 w = canonical_sha256 E (target_binding_json (aw_target w))"
    and "distinct (map eb_evidence_id (aw_evidence w))" "aw_conflicting_evidence_ids w = []"
    and "aw_possible_histories w = [h, k]" "ph_history_id h \<noteq> ph_history_id k" "history_signature h \<noteq> history_signature k"
    and "set (ph_compatible_evidence_ids h) \<union> set (ph_compatible_evidence_ids k) \<subseteq> set (map eb_evidence_id (aw_evidence w))"
    and "list_all (telling E [ph_history_id h, ph_history_id k]) (aw_discriminating_observations w)"
  shows "validate_ambiguity_witness E w = Inr w"
proof -
  have "\<not> list_ex (\<lambda>d. \<not> set (do_distinguishes_history_ids d) \<subseteq> set (map ph_history_id [h, k])) (aw_discriminating_observations w)"
    using assms(9) by (auto simp: list_all_iff list_ex_iff telling_def)
  with assms(1-8) show ?thesis by (simp add: validate_ambiguity_witness_def Let_def)
qed

lemma build_witness_total:
  assumes "hexdigest_ok E" "inputs_coherent E c node_id x r v t i" "time_ok t"
    and "\<not> dp_conflicting_authority (cv_proof v)"
    and "witnessed_provider_conflicts E (vi_profile i) (rn_semantic_action (vi_node i)) (vi_admitted i) = Inr []"
  shows "\<exists>w. build_witness E c (vi_node i) x r v (vi_profile i) (vi_admitted i) t keep = Inr w"
proof -
  let ?n = "vi_node i" and ?es = "vi_admitted i"
  let ?keep = "keep \<and> list_ex (\<lambda>f. ff_state f = UNVERIFIED) (dp_effect_findings (cv_proof v))"
  note parts = coherent_parts [OF assms(2)]
  have es: "citable E ?es" by (rule coherent_citable [OF assms(2)])
  let ?occurred = "history_of ''effects-occurred'' ESTABLISHED (assigned_states ESTABLISHED ?keep v) ?es"
    and ?absent = "history_of ''effects-not-occurred'' NOT_ESTABLISHED (assigned_states NOT_ESTABLISHED ?keep v) ?es"
  have histories: "generic_histories E v ?es ?keep = Inr [?occurred, ?absent]"
    by (rule generic_histories_eq [OF es parts(6)])
  have ids: "identifier_ok E ''effects-occurred''" "identifier_ok E ''effects-not-occurred''"
    "identifier_ok E ''recovery-verifier-v1''"
    by (simp_all add: plain_identifier_ok plain_chars)
  have valid: "list_all (\<lambda>h. validate_possible_history E h = Inr h) [?occurred, ?absent]"
    using history_eq(2) [OF es ids(1) parts(6)] history_eq(2) [OF es ids(2) parts(6)] by simp
  let ?ids = "[''effects-occurred'', ''effects-not-occurred'']"
  have x: "validate_execution_envelope E x = Inr x" using assms(2) by (simp add: inputs_coherent_def)
  obtain ds where ds: "discriminating_observations E (vi_profile i) x (unresolved_effect_ids v) ?ids = Inr ds"
    "length_ok 1 8 ds" "list_all (telling E ?ids) ds"
    using discriminating_total [OF x open_effects [OF parts(6)], of ?ids] ids by (auto simp: length_ok_def)
  let ?authority = "witness_authority (base_authority E c ?n x v (vi_profile i) ?es) [] ds [?occurred, ?absent]"
  have "validate_json_members E 1 ?authority"
    by (rule witness_authority_valid [OF base_authority_valid [OF assms(1,2)] _ ds(3) valid]) simp
  then have id: "artifact_identifier E ''witness'' ?authority = Inr (artifact_name E ''witness'' ?authority)"
    by (rule artifact_identifier_eq) (simp add: witness_authority_def base_authority_def Let_def)
  have id_ok: "identifier_ok E (artifact_name E ''witness'' ?authority)"
    by (rule artifact_name_ok [OF assms(1)]) (simp_all add: plain_identifier_ok plain_chars)
  note bound = bindings_total [OF assms(1) parts(7)]
  have action: "semantic_action_fields_ok E (rn_semantic_action ?n)" by (rule target_of_node [OF parts(2)])
  let ?w = "\<lparr>aw_witness_id = artifact_name E ''witness'' ?authority, aw_chain_id = rc_chain_id c, aw_node_id = rn_node_id ?n,
     aw_semantic_action_sha256 = sa_semantic_action_sha256 (rn_semantic_action ?n),
     aw_chain_sha256 = canonical_sha256 E (recovery_chain_json c), aw_node_sha256 = canonical_sha256 E (recovery_node_json ?n),
     aw_envelope_sha256 = envelope_sha256 E x, aw_report_sha256 = canonical_sha256 E (investigation_report_json r),
     aw_proof_sha256 = canonical_sha256 E (deterministic_proof_json (cv_proof v)),
     aw_target = sa_target (rn_semantic_action ?n),
     aw_target_sha256 = canonical_sha256 E (target_binding_json (sa_target (rn_semantic_action ?n))),
     aw_evidence = map (binding_of E) ?es, aw_possible_histories = [?occurred, ?absent],
     aw_discriminating_observations = ds, aw_conflicting_evidence_ids = [],
     aw_verifier_version = ''recovery-verifier-v1'', aw_created_at = t\<rparr>"
  have bound_ids: "map eb_evidence_id (map (binding_of E) ?es) = map ev_evidence_id ?es"
    by (simp add: binding_of_def)
  have "list_all (accepted (validate_possible_history E)) [?occurred, ?absent]"
    using valid by (simp add: accepted_iff)
  moreover have "list_all (accepted (validate_discriminating_observation E)) ds"
    using ds(3) by (auto simp: list_all_iff telling_def accepted_iff)
  moreover have "identifier_ok E (rc_chain_id c)" using parts(4) by (simp add: recovery_chain_fields_ok_def)
  ultimately have fields: "ambiguity_witness_fields_ok E ?w"
    using assms(1,3) ds(2) id_ok ids(3) parts(2,9) bound(2) action
    by (simp add: ambiguity_witness_fields_ok_def semantic_action_fields_ok_def recovery_node_fields_ok_def
      envelope_sha256_def length_ok_def list.pred_map comp_def)
  have "validate_ambiguity_witness E ?w = Inr ?w"
  proof (rule two_histories_accepted [OF fields])
    show "history_signature ?occurred \<noteq> history_signature ?absent"
      using signature_states assigned_states_differ [OF parts(6), of ?keep] by blast
    show "set (ph_compatible_evidence_ids ?occurred) \<union> set (ph_compatible_evidence_ids ?absent) \<subseteq>
        set (map eb_evidence_id (aw_evidence ?w))"
      by (auto simp: history_of_def Let_def binding_of_def)
    show "distinct (map eb_evidence_id (aw_evidence ?w))" using es by (simp add: citable_def comp_def binding_of_def)
    show "list_all (telling E [ph_history_id ?occurred, ph_history_id ?absent]) (aw_discriminating_observations ?w)"
      using ds(3) by (simp only: history_of_id ambiguity_witness.simps)
    show "ph_history_id ?occurred \<noteq> ph_history_id ?absent" by (simp only: history_of_id) simp
  qed simp_all
  then have "build_witness E c ?n x r v (vi_profile i) ?es t keep = Inr ?w"
    unfolding build_witness_def Let_def assms(5) bind_result_simps
    using assms(4) histories ds(1) id bound(1)
    by (simp add: first_pair_def witness_histories_def)
  then show ?thesis by blast
qed


section \<open>The verdict\<close>

text \<open>When a verification certifies: the conditions of the code, as one.\<close>

definition certifiable :: "env \<Rightarrow> execution_envelope \<Rightarrow> core_evaluation \<Rightarrow> time \<Rightarrow> verified_inputs \<Rightarrow> bool" where
  "certifiable E x v t i \<longleftrightarrow>
     cv_classification v \<noteq> UNKNOWN \<and> \<not> dp_conflicting_authority (cv_proof v) \<and> vi_supporting i \<noteq> [] \<and>
     list_all (\<lambda>e. \<not> stale_at t e) (vi_supporting i) \<and>
     validate_recovery_proof E (vi_profile i) (rn_semantic_action (vi_node i)) (xe_expected_effects x)
       (cv_classification v) (vi_admitted i) = Inr ()"

lemma profile_valid_iff:
  "profile_evidence_valid E p a x v evidence = Inr valid \<Longrightarrow>
     valid \<longleftrightarrow> validate_recovery_proof E p a (xe_expected_effects x) (cv_classification v) evidence = Inr ()"
  by (auto simp: profile_evidence_valid_def split: sum.splits exn.splits)

lemma coherent_profile:
  assumes "inputs_coherent E c node_id x r v t i"
  shows "certifying E c (vi_node i) (vi_profile i)"
    "validate_recovery_action (vi_profile i) (rn_semantic_action (vi_node i)) = Inr ()"
    "set (map ev_evidence_id (vi_admitted i)) \<subseteq> set (map ed_evidence_id (cv_decisions v))"
    "set (vi_admitted i) \<subseteq> set (cv_evidence v)"
proof -
  have node: "resolve_recovery_action_profile (rn_semantic_action (vi_node i)) = Inr (vi_profile i)"
    using assms by (simp add: inputs_coherent_def validate_node_binding_eq)
  then show "validate_recovery_action (vi_profile i) (rn_semantic_action (vi_node i)) = Inr ()"
    by (rule resolve_recovery_action_profile_ok(2))
  show "certifying E c (vi_node i) (vi_profile i)"
    using assms node coherent_parts(1) [OF assms] by (simp add: certifying_def inputs_coherent_def)
  have "evidence_admitted x v = Inr (vi_admitted i)" using assms by (simp add: inputs_coherent_def)
  note admitted = evidence_admittedD [OF this]
  show "set (vi_admitted i) \<subseteq> set (cv_evidence v)" using admitted(1) by blast
  show "set (map ev_evidence_id (vi_admitted i)) \<subseteq> set (map ed_evidence_id (cv_decisions v))"
    unfolding admitted(5) by (auto simp: admitted_ids_def)
qed

lemma verification_total:
  assumes "hexdigest_ok E" "time_ok t" "verified_inputs_of E c node_id x r v t y = Inr i"
    and "successor_bound E c (vi_node i) (vi_profile i) y" "\<not> dp_conflicting_authority (cv_proof v)"
    and "witnessed_provider_conflicts E (vi_profile i) (rn_semantic_action (vi_node i)) (vi_admitted i) = Inr []"
    and "inj_on (evidence_sha256 E) (set (cv_evidence v))"
  shows "\<exists>verdict. verify_recovery E c node_id x r v t y = Inr verdict \<and> (isl verdict \<longleftrightarrow> certifiable E x v t i)"
proof -
  let ?n = "vi_node i" and ?p = "vi_profile i"
  note coherent = verified_inputs_ofD(1) [OF assms(3)]
  note parts = coherent_parts [OF coherent] and profile = coherent_profile [OF coherent]
  obtain valid where valid: "profile_evidence_valid E ?p (rn_semantic_action ?n) x v (vi_admitted i) = Inr valid"
    using profile_evidence_total [OF profile(2)] by blast
  have stale: "list_ex (stale_at t) es \<longleftrightarrow> \<not> list_all (\<lambda>e. \<not> stale_at t e) es" for es
    by (auto simp: list_ex_iff list_all_iff)
  show ?thesis
  proof (cases "certifiable E x v t i")
    case True
    have support: "supporting_evidence v (vi_admitted i) = Inr (vi_supporting i)" using coherent by (simp add: inputs_coherent_def)
    have es: "list_all (bindable E) (vi_supporting i)" using parts(7,8) by (auto simp: list_all_iff)
    have ids: "set (map ev_evidence_id (vi_supporting i)) \<subseteq> set (map ed_evidence_id (cv_decisions v))"
      using profile(3) parts(8) by auto
    have typed: "\<forall>e\<in>set (vi_supporting i). \<exists>obs. provider_observation_of E e = Inr obs"
    proof -
      obtain observations where "list_all2 (\<lambda>e obs. validated_observation E ?p (rn_semantic_action ?n) True e = Inr obs)
          (vi_admitted i) observations"
        using True proof_parts unfolding certifiable_def by metis
      then show ?thesis using observation_member(1) validated_observationD(2) parts(8) by (metis subsetD)
    qed
    obtain k where k: "transition_of E c ?n ?p v (vi_supporting i) y = Inr k"
      using transition_of_total [OF assms(1) profile(1) assms(4) es ids typed] by blast
    have "distinct (map (evidence_sha256 E) (vi_supporting i))"
    proof -
      have "distinct (vi_supporting i)" using support_size(1) [OF support parts(9)] by (simp add: distinct_map)
      moreover have "inj_on (evidence_sha256 E) (set (vi_supporting i))"
        using inj_on_subset [OF assms(7)] parts(8) profile(4) by blast
      ultimately show ?thesis by (simp add: distinct_map)
    qed
    then obtain cert where "build_certificate E c ?n x r v ?p (vi_admitted i) (vi_supporting i) t y = Inr cert"
      using build_certificate_total [OF assms(1) coherent assms(2) k] True by (auto simp: certifiable_def)
    then have "verify_recovery E c node_id x r v t y = Inr (Inl cert)"
      using assms(3) valid profile_valid_iff [OF valid] True
      by (simp add: verify_recovery_def Let_def certifiable_def stale)
    then show ?thesis using True by simp
  next
    case False
    obtain w where "build_witness E c ?n x r v ?p (vi_admitted i) t (valid \<and> \<not> list_ex (stale_at t) (vi_supporting i)) = Inr w"
      using build_witness_total [OF assms(1) coherent assms(2,5,6)] by blast
    then have "verify_recovery E c node_id x r v t y = Inr (Inr w)"
      using assms(3) valid profile_valid_iff [OF valid] False
      by (auto simp: verify_recovery_def Let_def certifiable_def stale)
    then show ?thesis using False by simp
  qed
qed

end
