(* ===== verification/Verification_Properties.thy ===== *)
theory Verification_Properties
  imports Verification_Sample Witness_Laws
begin

text \<open>
  The properties of \<open>verify_recovery\<close>, across the classification of an investigation, the proofs of the
  recovery rules, the certificate and the permit that is derived from it.
\<close>

text \<open>
  C10: a certificate rests on a proof. When the verification of a node ends in a certificate, the
  node of the chain is bound to the envelope, the report reproduces the sealed evaluation, and the
  admitted evidence is a valid proof of the certified classification under the rules of the node's
  profile; the classification is the evaluation's, it is not unknown and no authority conflicts. The
  certificate binds exactly the admitted evidence that the proof cites, all of it fresh at the time of
  the verification, and it expires no later than any of it.
\<close>

theorem certificate_rests_on_proof:
  assumes "verify_recovery E c node_id x r v t y = Inr (Inl cert)"
  shows "\<exists>n p admitted supporting.
    find_node c node_id = Inr n \<and> validate_node_binding E n x = Inr p \<and> validate_report E x r v = Inr () \<and>
    evidence_admitted x v = Inr admitted \<and>
    validate_recovery_proof E p (rn_semantic_action n) (xe_expected_effects x) (vc_classification cert) admitted =
      Inr () \<and>
    vc_classification cert = cv_classification v \<and> vc_classification cert \<noteq> UNKNOWN \<and>
    \<not> dp_conflicting_authority (cv_proof v) \<and>
    support_cited v admitted supporting \<and> vc_evidence cert = map (binding_of E) supporting \<and>
    (\<forall>e\<in>set supporting. fw_valid_from (ev_freshness e) \<le> t \<and> vc_expires_at cert \<le> fw_valid_until (ev_freshness e)) \<and>
    vc_issued_at cert = t \<and> t < vc_expires_at cert"
proof -
  obtain n p admitted supporting where
    "find_node c node_id = Inr n" "validate_node_binding E n x = Inr p" "validate_report E x r v = Inr ()"
    "evidence_admitted x v = Inr admitted" "support_cited v admitted supporting"
    "validate_recovery_proof E p (rn_semantic_action n) (xe_expected_effects x) (vc_classification cert) admitted = Inr ()"
    "vc_classification cert = cv_classification v" "vc_classification cert \<noteq> UNKNOWN"
    "\<not> dp_conflicting_authority (cv_proof v)" "vc_evidence cert = map (binding_of E) supporting"
    "\<forall>e\<in>set supporting. fw_valid_from (ev_freshness e) \<le> t \<and> vc_expires_at cert \<le> fw_valid_until (ev_freshness e)"
    "vc_issued_at cert = t" "t < vc_expires_at cert"
    using certificate_grounds [OF assms] by metis
  then show ?thesis by blast
qed

theorem certificate_rests_on_proof_witness:
  "\<exists>v cert. verify_recovery verify_env release_chain ''node-3'' record_envelope (receipt_report v) v 170 None =
       Inr (Inl cert) \<and>
     vc_classification cert \<noteq> UNKNOWN \<and> vc_issued_at cert = 170"
proof -
  obtain v where v: "classify verify_env record_envelope [receipt_attempt] = Inr v" by (rule receipt_evaluated)
  have "(170 :: time) \<in> {160..<200}" by simp
  from record_retry_certified [OF v this] obtain cert where
    cert: "verify_recovery verify_env release_chain ''node-3'' record_envelope (receipt_report v) v 170 None = Inr (Inl cert)" .
  then show ?thesis using certificate_rests_on_proof [OF cert] by blast
qed

text \<open>
  C11: a certified transition follows the chain. It starts at the verified node and names its target
  exactly: identifier, action digest, tool, arguments and target. It continues only from a committed
  node, to a node of the chain that depends on this one alone, whose action has the successor profile
  and is bound to the supplied envelope; it repeats only the uncommitted creation of a release
  record. Its precondition is read from the cited evidence.
\<close>

theorem certified_transition_follows_the_chain:
  assumes "verify_recovery E c node_id x r v t y = Inr (Inl cert)" "vc_transition cert = Some k"
  shows "\<exists>n p admitted supporting m q evidence.
    find_node c node_id = Inr n \<and> resolve_recovery_action_profile (rn_semantic_action n) = Inr p \<and>
    support_cited v admitted supporting \<and> ct_source_node_id k = node_id \<and> leads_to E k m \<and>
    resolve_recovery_action_profile (rn_semantic_action m) = Inr q \<and> set evidence \<subseteq> set supporting \<and>
    recovery_precondition_sha256 E q evidence (ct_action k = PA_RETRY) = Inr (ct_precondition_sha256 k) \<and>
    (vc_classification cert = COMMITTED \<and> continues_to E c n p y k m q \<or>
     vc_classification cert = NOT_COMMITTED \<and> repeats n p k m q)"
proof -
  obtain n p admitted supporting where g:
    "find_node c node_id = Inr n" "validate_node_binding E n x = Inr p" "support_cited v admitted supporting"
    "vc_classification cert = cv_classification v" "transition_of E c n p v supporting y = Inr (Some k)"
    "vc_node_id cert = node_id"
    using certificate_grounds [OF assms(1)] assms(2) by metis
  have p: "resolve_recovery_action_profile (rn_semantic_action n) = Inr p" using g(2) by (simp add: validate_node_binding_eq)
  obtain m q evidence where k: "leads_to E k m" "ct_source_node_id k = rn_node_id n"
    "resolve_recovery_action_profile (rn_semantic_action m) = Inr q" "set evidence \<subseteq> set supporting"
    "recovery_precondition_sha256 E q evidence (ct_action k = PA_RETRY) = Inr (ct_precondition_sha256 k)"
    "cv_classification v = COMMITTED \<and> continues_to E c n p y k m q \<or>
     cv_classification v = NOT_COMMITTED \<and> repeats n p k m q"
    by (rule transition_ofD [OF g(5) p]) blast+
  moreover have "rn_node_id n = node_id" using find_nodeD [OF g(1)] by simp
  ultimately show ?thesis using g p by metis
qed

theorem certified_transition_follows_the_chain_witness:
  "\<exists>v cert k. verify_recovery verify_env release_chain ''node-3'' record_envelope (receipt_report v) v 170 None =
       Inr (Inl cert) \<and>
     vc_transition cert = Some k \<and> ct_source_node_id k = ''node-3''"
proof -
  obtain v where v: "classify verify_env record_envelope [receipt_attempt] = Inr v" by (rule receipt_evaluated)
  have "(170 :: time) \<in> {160..<200}" by simp
  from record_retry_certified [OF v this] obtain cert k where
    cert: "verify_recovery verify_env release_chain ''node-3'' record_envelope (receipt_report v) v 170 None = Inr (Inl cert)"
    "vc_transition cert = Some k" .
  then show ?thesis using certified_transition_follows_the_chain [OF cert] by blast
qed

text \<open>
  C13: verifying again gives the same permit. Two verifications of the same chain, node, envelope,
  evaluation and successor, whatever the two reports and times are, give certificates that differ at
  most in the digest of the report and in the time of issue; so the permits derived from them have
  one identifier and agree in everything that carries authority.
\<close>

theorem reverification_gives_one_permit:
  assumes "verify_recovery E c node_id x r v t y = Inr (Inl cert)"
    and "verify_recovery E c node_id x r' v t' y = Inr (Inl cert')"
  shows "cert' = cert\<lparr>vc_report_sha256 := vc_report_sha256 cert', vc_issued_at := vc_issued_at cert'\<rparr> \<and>
    (\<forall>permit permit'. action_permit_from_certificate E cert = Inr (Some permit) \<longrightarrow>
       action_permit_from_certificate E cert' = Inr (Some permit') \<longrightarrow>
       ap_permit_id permit' = ap_permit_id permit \<and> permit_authority_fields permit' = permit_authority_fields permit)"
proof -
  note same = certificate_authority_unique [OF assms]
  then obtain d u where cert': "cert' = cert\<lparr>vc_report_sha256 := d, vc_issued_at := u\<rparr>" by blast
  have "permit_authority_fields permit' = permit_authority_fields permit"
    if "action_permit_from_certificate E cert = Inr (Some permit)" "action_permit_from_certificate E cert' = Inr (Some permit')"
    for permit permit'
    using permit_authority_unique [OF that(1) that(2) [unfolded cert']] .
  moreover have "ap_permit_id permit' = ap_permit_id permit"
    if "permit_authority_fields permit' = permit_authority_fields permit" for permit permit'
    using that by (simp add: permit_authority_fields_def)
  ultimately show ?thesis using same by blast
qed

theorem reverification_gives_one_permit_witness:
  "\<exists>v cert cert'. verify_recovery verify_env release_chain ''node-3'' record_envelope (receipt_report v) v 170 None =
       Inr (Inl cert) \<and>
     verify_recovery verify_env release_chain ''node-3'' record_envelope (receipt_report v) v 180 None =
       Inr (Inl cert') \<and>
     vc_certificate_id cert' = vc_certificate_id cert"
proof -
  obtain v where v: "classify verify_env record_envelope [receipt_attempt] = Inr v" by (rule receipt_evaluated)
  have t: "(170 :: time) \<in> {160..<200}" "(180 :: time) \<in> {160..<200}" by simp_all
  obtain cert where cert:
    "verify_recovery verify_env release_chain ''node-3'' record_envelope (receipt_report v) v 170 None = Inr (Inl cert)"
    by (rule record_retry_certified [OF v t(1)])
  obtain cert' where cert':
    "verify_recovery verify_env release_chain ''node-3'' record_envelope (receipt_report v) v 180 None = Inr (Inl cert')"
    by (rule record_retry_certified [OF v t(2)])
  have "vc_certificate_id (cert\<lparr>vc_report_sha256 := d, vc_issued_at := u\<rparr>) = vc_certificate_id cert" for d u by simp
  then have "vc_certificate_id cert' = vc_certificate_id cert"
    using reverification_gives_one_permit [OF cert cert'] by metis
  then show ?thesis using cert cert' by blast
qed

text \<open>
  C14: a certified transition gets its permit. Whenever a verification certifies a transition, the
  permit authority derives a permit from the certificate: for this transition, issued, expiring with
  the certificate.
\<close>

theorem certified_transition_gets_a_permit:
  assumes "hexdigest_ok E" "verify_recovery E c node_id x r v t y = Inr (Inl cert)" "vc_transition cert = Some k"
  shows "\<exists>permit. action_permit_from_certificate E cert = Inr (Some permit) \<and> sealed_transition permit = k \<and>
    ap_state permit = ISSUED \<and> ap_certificate_id permit = vc_certificate_id cert \<and>
    ap_expires_at permit = vc_expires_at cert"
proof -
  obtain n p admitted supporting where g:
    "validate_node_binding E n x = Inr p" "validate_certificate E cert = Inr cert"
    "transition_of E c n p v supporting y = Inr (Some k)" "vc_action_profile_version cert = profile_version p"
    using certificate_grounds [OF assms(2)] assms(3) by metis
  have p: "resolve_recovery_action_profile (rn_semantic_action n) = Inr p" using g(1) by (simp add: validate_node_binding_eq)
  obtain m q where k: "leads_to E k m" "resolve_recovery_action_profile (rn_semantic_action m) = Inr q"
    "continues_to E c n p y k m q \<or> repeats n p k m q"
    by (rule transition_ofD [OF g(3) p]) blast+
  have "target_profile_version cert = Inr (profile_version q)"
    by (rule exact_target_profile [OF assms(3) g(4) k(3,1,2)])
  then obtain permit where permit: "action_permit_from_certificate E cert = Inr (Some permit)"
    using permit_of_certificate [OF assms(1) g(2) assms(3)] by blast
  then show ?thesis using permit_from_certificate [OF permit] assms(3) by auto
qed

theorem certified_transition_gets_a_permit_witness:
  "\<exists>v cert permit. verify_recovery verify_env release_chain ''node-3'' record_envelope (receipt_report v) v 170 None =
       Inr (Inl cert) \<and>
     action_permit_from_certificate verify_env cert = Inr (Some permit) \<and> ap_state permit = ISSUED"
proof -
  obtain v where v: "classify verify_env record_envelope [receipt_attempt] = Inr v" by (rule receipt_evaluated)
  have "(170 :: time) \<in> {160..<200}" by simp
  from record_retry_certified [OF v this] obtain cert k where
    cert: "verify_recovery verify_env release_chain ''node-3'' record_envelope (receipt_report v) v 170 None = Inr (Inl cert)"
    "vc_transition cert = Some k" .
  then show ?thesis using certified_transition_gets_a_permit [OF verify_hexdigest_ok cert] by blast
qed


text \<open>
  C12: a verification without contradictions reaches a verdict. Once the trusted inputs are accepted
  and the successor's envelope, if any, is bound to its node, the verification never raises: it
  certifies exactly when the classification is known, the proof of the profile is valid and the cited
  evidence is there and fresh, and otherwise it answers with an ambiguity witness. The evidence is
  free of conflicts, in the proof and between the observations of the provider, and no two pieces of
  it have one digest.
\<close>

theorem verification_reaches_a_verdict:
  assumes "hexdigest_ok E" "time_ok t" "verified_inputs_of E c node_id x r v t y = Inr i"
    and "successor_bound E c (vi_node i) (vi_profile i) y" "\<not> dp_conflicting_authority (cv_proof v)"
    and "witnessed_provider_conflicts E (vi_profile i) (rn_semantic_action (vi_node i)) (vi_admitted i) = Inr []"
    and "inj_on (evidence_sha256 E) (set (cv_evidence v))"
  shows "\<exists>verdict. verify_recovery E c node_id x r v t y = Inr verdict \<and> (isl verdict \<longleftrightarrow> certifiable E x v t i)"
  by (rule verification_total [OF assms])

theorem verification_reaches_a_verdict_witness:
  "\<exists>v w. verify_recovery verify_env release_chain ''node-3'' record_envelope (receipt_report v) v 170 None =
     Inr w \<and> (isl w \<longleftrightarrow> certifiable verify_env record_envelope v 170 record_inputs)"
proof -
  obtain v where v: "classify verify_env record_envelope [receipt_attempt] = Inr v" by (rule receipt_evaluated)
  note eq = classify_eq [OF v record_envelope_accepted]
  have t: "(170 :: time) \<in> {160..<200}" by simp
  have "successor_bound verify_env release_chain (vi_node record_inputs) (vi_profile record_inputs) None"
    by (simp add: successor_bound_def split: sum.split option.split)
  moreover have "\<not> dp_conflicting_authority (cv_proof v)" using eq by (simp add: receipt_proof)
  moreover have "witnessed_provider_conflicts verify_env (vi_profile record_inputs)
      (rn_semantic_action (vi_node record_inputs)) (vi_admitted record_inputs) = Inr []"
    using one_receipt_valid [OF verify_hexdigest_ok, of False]
    by (simp add: witnessed_provider_conflicts_def recovery_provider_conflict_pairs_def record_inputs_def receipt_def
      record_node_def chain_node_def sorted_set_def)
  moreover have "inj_on (evidence_sha256 verify_env) (set (cv_evidence v))" using eq by (simp add: evidence_list_def)
  ultimately show ?thesis
    using verification_reaches_a_verdict [OF verify_hexdigest_ok receipt_times(3) record_inputs_verified [OF v t]]
    by blast
qed

end
