(* ===== verification/Recovery_Run.thy ===== *)
theory Recovery_Run
  imports Recovery_Rules Report_Contracts Permits
begin

text \<open>
  The contracts of one durable recovery run (\<open>contracts/recovery_run.py\<close>) and the dispatch receipt
  (\<open>contracts/recovery_scenario.py\<close>): the request, the launch permit of the first mutation, prepared
  actions and their scope, the events of a run and the snapshot that they project to.
\<close>

section \<open>The request\<close>

datatype run_policy = BLIND_RETRY | BLIND_ABORT | FIXED | ADAPTIVE

fun run_policy_text :: "run_policy \<Rightarrow> string" where
  "run_policy_text BLIND_RETRY = ''blind-retry''"
| "run_policy_text BLIND_ABORT = ''blind-abort''"
| "run_policy_text FIXED = ''fixed''"
| "run_policy_text ADAPTIVE = ''adaptive''"

datatype run_fault = NO_FAULT | DROP_AFTER_ACCEPT | PARTIAL_READ_OUTAGE | SUPPRESS_BEFORE_DISPATCH

fun run_fault_text :: "run_fault \<Rightarrow> string" where
  "run_fault_text NO_FAULT = ''no-fault''"
| "run_fault_text DROP_AFTER_ACCEPT = ''drop-after-accept''"
| "run_fault_text PARTIAL_READ_OUTAGE = ''acceptance-drop-after-accept-partial-read-outage''"
| "run_fault_text SUPPRESS_BEFORE_DISPATCH = ''suppress-before-dispatch''"

record run_request =
  rq_run_id :: string
  rq_policy :: run_policy
  rq_fault :: run_fault

text \<open>The pattern \<open>p5w-fixed-[0-9a-f]{32}\<close>, in full.\<close>

definition sealed_run_id :: "string \<Rightarrow> bool" where
  "sealed_run_id s \<longleftrightarrow> starts_with ''p5w-fixed-'' s \<and> length (drop 10 s) = 32 \<and> list_all lower_hex (drop 10 s)"

definition validate_run_request :: "env \<Rightarrow> run_request \<Rightarrow> run_request result" where
  "validate_run_request E r = checked
     [(\<not> identifier_ok E (rq_run_id r), field_message),
      (rq_fault r = PARTIAL_READ_OUTAGE \<and> rq_policy r \<noteq> FIXED,
         ''partial-read acceptance fault requires fixed policy''),
      (rq_fault r = PARTIAL_READ_OUTAGE \<and> \<not> sealed_run_id (rq_run_id r),
         ''partial-read acceptance fault requires a sealed run id'')] r"

definition run_request_json :: "run_request \<Rightarrow> json" where
  "run_request_json r = JObj
     [(''schema_version'', JStr ''reconcile/recovery-run-request/v1''),
      (''run_id'', JStr (rq_run_id r)),
      (''scenario'', JStr ''cloud-run-rollout''),
      (''policy'', JStr (run_policy_text (rq_policy r))),
      (''fault'', JStr (run_fault_text (rq_fault r)))]"

section \<open>Progress and the launch permit\<close>

datatype run_lifecycle = RL_ACCEPTED | RL_RUNNING | RL_COMPLETED | RL_ESCALATED | RL_FAILED | RL_CANCELLED

datatype node_state =
  NS_WAITING | NS_DISPATCH_PENDING | NS_DISPATCH_CLAIMED | NS_RECONCILING | NS_VERIFIED | NS_PERMITTED |
  NS_COMPLETED | NS_ESCALATED

datatype recovery_decision = RD_CONTINUE | RD_RETRY | RD_OBSERVE | RD_ESCALATE

datatype hypothesis_disposition =
  HD_SELECTED | HD_NO_PROBE | HD_DUPLICATE_PROBE | HD_BUDGET_EXHAUSTED | HD_UNSUPPORTED_PROBE |
  HD_UNSUPPORTED_ACTION | HD_INVALID_BINDING | HD_MODEL_UNAVAILABLE | HD_MODEL_TIMEOUT |
  HD_MALFORMED_MODEL_OUTPUT | HD_FIXED_FALLBACK

datatype failure_category =
  FC_CANCELLED | FC_INVALID_DEFINITION | FC_MODEL_UNAVAILABLE | FC_EVIDENCE_UNAVAILABLE |
  FC_DISPATCH_UNAVAILABLE | FC_DURABLE_STATE_UNAVAILABLE | FC_INTERNAL_FAILURE

datatype launch_state = LS_ISSUED | LS_CLAIMED | LS_COMPLETED

datatype dispatch_outcome = DX_SUCCEEDED | DX_REJECTED | DX_OUTCOME_UNKNOWN

datatype authority_kind = AK_LAUNCH_PERMIT | AK_ACTION_PERMIT

record node_progress =
  np_node_id :: string
  np_state :: node_state
  np_attempt :: int

definition node_progress_ok :: "env \<Rightarrow> node_progress \<Rightarrow> bool" where
  "node_progress_ok E n \<longleftrightarrow> identifier_ok E (np_node_id n) \<and> 0 \<le> np_attempt n \<and> np_attempt n \<le> 2"

record launch_permit =
  lp_launch_permit_id :: string
  lp_run_id :: string
  lp_node_id :: string
  lp_semantic_action_sha256 :: string
  lp_action_request_sha256 :: string
  lp_issued_at :: time
  lp_state :: launch_state
  lp_revision :: int
  lp_claim_id :: "string option"
  lp_claimed_at :: "time option"
  lp_completed_at :: "time option"
  lp_outcome :: "dispatch_outcome option"

definition launch_permit_fields_ok :: "env \<Rightarrow> launch_permit \<Rightarrow> bool" where
  "launch_permit_fields_ok E p \<longleftrightarrow>
     list_all (identifier_ok E) [lp_launch_permit_id p, lp_run_id p, lp_node_id p] \<and>
     sha256_digest_ok (lp_semantic_action_sha256 p) \<and> sha256_digest_ok (lp_action_request_sha256 p) \<and>
     time_ok (lp_issued_at p) \<and> 0 \<le> lp_revision p \<and> lp_revision p \<le> 2 \<and>
     option_ok (identifier_ok E) (lp_claim_id p) \<and> option_ok time_ok (lp_claimed_at p) \<and>
     option_ok time_ok (lp_completed_at p)"

definition launch_lifecycle_valid :: "launch_permit \<Rightarrow> bool" where
  "launch_lifecycle_valid p \<longleftrightarrow>
     (case lp_state p of
        LS_ISSUED \<Rightarrow> lp_revision p = 0 \<and> lp_claim_id p = None \<and> lp_claimed_at p = None \<and>
          lp_completed_at p = None \<and> lp_outcome p = None
      | LS_CLAIMED \<Rightarrow> lp_revision p = 1 \<and> lp_claim_id p \<noteq> None \<and> lp_claimed_at p \<noteq> None \<and>
          lp_completed_at p = None \<and> lp_outcome p = None
      | LS_COMPLETED \<Rightarrow> lp_revision p = 2 \<and> lp_claim_id p \<noteq> None \<and> lp_outcome p \<noteq> None \<and>
          (case (lp_claimed_at p, lp_completed_at p) of
             (Some claimed, Some completed) \<Rightarrow> claimed \<le> completed
           | _ \<Rightarrow> False))"

definition validate_launch_permit :: "env \<Rightarrow> launch_permit \<Rightarrow> launch_permit result" where
  "validate_launch_permit E p = checked
     [(\<not> launch_permit_fields_ok E p, field_message),
      (\<not> launch_lifecycle_valid p, ''launch permit fields do not match lifecycle state'')] p"

section \<open>Prepared actions\<close>

text \<open>Which node an authority may lead to; \<open>proof\<close> are the fields of its certificate.\<close>

definition authority_consistent ::
  "authority_kind \<Rightarrow> string \<Rightarrow> string \<Rightarrow> permit_action option \<Rightarrow> string option list \<Rightarrow> bool" where
  "authority_consistent kind source target action proof_fields \<longleftrightarrow>
     (case kind of
        AK_LAUNCH_PERMIT \<Rightarrow> source = target \<and> action = None \<and> list_all (\<lambda>x. x = None) proof_fields
      | AK_ACTION_PERMIT \<Rightarrow> list_all (\<lambda>x. x \<noteq> None) proof_fields \<and>
          (action = Some PA_RETRY \<and> source = target \<or> action = Some PA_CONTINUE \<and> source \<noteq> target))"

record prepared_action =
  px_authority_kind :: authority_kind
  px_run_id :: string
  px_chain_id :: string
  px_source_node_id :: string
  px_target_node_id :: string
  px_semantic_action_sha256 :: string
  px_tool_name :: string
  px_tool_version :: string
  px_arguments :: json_object
  px_arguments_sha256 :: string
  px_target :: target_binding
  px_target_sha256 :: string
  px_precondition :: json_object
  px_precondition_sha256 :: string
  px_request_payload :: json_object
  px_action_request_sha256 :: string
  px_permit_action :: "permit_action option"
  px_report_sha256 :: "string option"
  px_certificate_id :: "string option"
  px_certificate_sha256 :: "string option"

definition prepared_action_fields_ok :: "env \<Rightarrow> prepared_action \<Rightarrow> bool" where
  "prepared_action_fields_ok E x \<longleftrightarrow>
     list_all (identifier_ok E)
       [px_run_id x, px_chain_id x, px_source_node_id x, px_target_node_id x, px_tool_name x, px_tool_version x] \<and>
     list_all sha256_digest_ok
       [px_semantic_action_sha256 x, px_arguments_sha256 x, px_target_sha256 x, px_precondition_sha256 x,
        px_action_request_sha256 x] \<and>
     json_object_ok E 0 64 (px_arguments x) \<and> accepted (validate_target_binding E) (px_target x) \<and>
     json_object_ok E 1 32 (px_precondition x) \<and> json_object_ok E 1 32 (px_request_payload x) \<and>
     option_ok sha256_digest_ok (px_report_sha256 x) \<and> option_ok (identifier_ok E) (px_certificate_id x) \<and>
     option_ok sha256_digest_ok (px_certificate_sha256 x)"

definition secret_refusals :: "env \<Rightarrow> json_object \<Rightarrow> (bool \<times> string) list" where
  "secret_refusals E kvs =
     [(\<not> free_of_sensitive_keys E (JObj kvs), secret_keys_message),
      (\<not> free_of_sensitive_values E (JObj kvs), secret_values_message)]"

definition validate_prepared_action :: "env \<Rightarrow> prepared_action \<Rightarrow> prepared_action result" where
  "validate_prepared_action E x =
     bind_result (checked
       ((\<not> prepared_action_fields_ok E x, field_message) #
        concat (map (secret_refusals E) [px_arguments x, px_precondition x, px_request_payload x])) x) (\<lambda>x.
     bind_result (value_sha256 E (JObj (px_arguments x))) (\<lambda>arguments.
     bind_result (value_sha256 E (JObj (px_precondition x))) (\<lambda>precondition.
     bind_result (value_sha256 E (JObj (px_request_payload x))) (\<lambda>request_payload. checked
       [(px_arguments_sha256 x \<noteq> arguments \<or>
         px_target_sha256 x \<noteq> canonical_sha256 E (target_binding_json (px_target x)) \<or>
         px_precondition_sha256 x \<noteq> precondition \<or> px_action_request_sha256 x \<noteq> request_payload,
           ''prepared recovery action digest does not match its value''),
        (\<not> authority_consistent (px_authority_kind x) (px_source_node_id x) (px_target_node_id x)
            (px_permit_action x) [px_report_sha256 x, px_certificate_id x, px_certificate_sha256 x],
           ''prepared recovery action authority is inconsistent'')] x))))"

record action_scope =
  sc_authority_kind :: authority_kind
  sc_run_id :: string
  sc_source_node_id :: string
  sc_target_node_id :: string
  sc_semantic_action_sha256 :: string
  sc_action_request_sha256 :: string
  sc_authority_id :: string
  sc_authority_sha256 :: string
  sc_claim_id :: string
  sc_permit_action :: "permit_action option"
  sc_certificate_id :: "string option"
  sc_certificate_sha256 :: "string option"

definition action_scope_fields_ok :: "env \<Rightarrow> action_scope \<Rightarrow> bool" where
  "action_scope_fields_ok E s \<longleftrightarrow>
     list_all (identifier_ok E)
       [sc_run_id s, sc_source_node_id s, sc_target_node_id s, sc_authority_id s, sc_claim_id s] \<and>
     list_all sha256_digest_ok
       [sc_semantic_action_sha256 s, sc_action_request_sha256 s, sc_authority_sha256 s] \<and>
     option_ok (identifier_ok E) (sc_certificate_id s) \<and> option_ok sha256_digest_ok (sc_certificate_sha256 s)"

definition validate_action_scope :: "env \<Rightarrow> action_scope \<Rightarrow> action_scope result" where
  "validate_action_scope E s = checked
     [(\<not> action_scope_fields_ok E s, field_message),
      (\<not> authority_consistent (sc_authority_kind s) (sc_source_node_id s) (sc_target_node_id s)
          (sc_permit_action s) [sc_certificate_id s, sc_certificate_sha256 s],
         ''recovery action scope authority fields are inconsistent'')] s"

section \<open>Dispatch receipts\<close>

datatype receipt_outcome =
  RO_PROVIDER_CONTACTED | RO_SUPPRESSED_BEFORE_DISPATCH | RO_REJECTED_BEFORE_PROVIDER_CONTACT

record run_receipt =
  rcp_receipt_id :: string
  rcp_run_id :: string
  rcp_release_id :: string
  rcp_node_id :: string
  rcp_semantic_action_sha256 :: string
  rcp_action_request_sha256 :: string
  rcp_authority_id :: string
  rcp_claim_id :: string
  rcp_attempt :: int
  rcp_provider_contact :: bool
  rcp_outcome :: receipt_outcome
  rcp_recorded_at :: time

definition run_receipt_fields_ok :: "env \<Rightarrow> run_receipt \<Rightarrow> bool" where
  "run_receipt_fields_ok E r \<longleftrightarrow>
     list_all (identifier_ok E)
       [rcp_receipt_id r, rcp_run_id r, rcp_release_id r, rcp_node_id r, rcp_authority_id r, rcp_claim_id r] \<and>
     sha256_digest_ok (rcp_semantic_action_sha256 r) \<and> sha256_digest_ok (rcp_action_request_sha256 r) \<and>
     1 \<le> rcp_attempt r \<and> rcp_attempt r \<le> 2 \<and> time_ok (rcp_recorded_at r)"

definition validate_run_receipt :: "env \<Rightarrow> run_receipt \<Rightarrow> run_receipt result" where
  "validate_run_receipt E r = checked
     [(\<not> run_receipt_fields_ok E r, field_message),
      (rcp_provider_contact r \<noteq> (rcp_outcome r = RO_PROVIDER_CONTACTED),
         ''dispatch receipt outcome and provider contact disagree'')] r"

end
