(* ===== verification/Run_Snapshot.thy ===== *)
theory Run_Snapshot
  imports Recovery_Run
begin

text \<open>
  The events of a recovery run and the snapshot that they project to, with their validators
  (\<open>RecoveryRunEvent\<close> and \<open>RecoveryRunSnapshot\<close> of \<open>contracts/recovery_run.py\<close>).
\<close>

section \<open>Events\<close>

datatype run_event_type =
  ET_LIFECYCLE | ET_CHAIN | ET_NODE | ET_HYPOTHESIS | ET_EVIDENCE | ET_DECISION | ET_LAUNCH_PERMIT |
  ET_ACTION_PERMIT | ET_DISPATCH_RECEIPT

record run_payload =
  rpl_lifecycle :: "run_lifecycle option"
  rpl_failure_category :: "failure_category option"
  rpl_chain :: "recovery_chain option"
  rpl_node :: "node_progress option"
  rpl_hypothesis :: "gemini_hypothesis option"
  rpl_hypothesis_disposition :: "hypothesis_disposition option"
  rpl_report :: "investigation_report option"
  rpl_decision :: "recovery_decision option"
  rpl_certificate :: "certificate option"
  rpl_witness :: "ambiguity_witness option"
  rpl_launch_permit :: "launch_permit option"
  rpl_action_permit :: "action_permit option"
  rpl_dispatch_receipt :: "run_receipt option"
  rpl_note :: "string option"

definition empty_payload :: run_payload where
  "empty_payload =
     \<lparr>rpl_lifecycle = None, rpl_failure_category = None, rpl_chain = None, rpl_node = None, rpl_hypothesis = None,
      rpl_hypothesis_disposition = None, rpl_report = None, rpl_decision = None, rpl_certificate = None,
      rpl_witness = None, rpl_launch_permit = None, rpl_action_permit = None, rpl_dispatch_receipt = None,
      rpl_note = None\<rparr>"

definition run_payload_fields_ok :: "env \<Rightarrow> run_payload \<Rightarrow> bool" where
  "run_payload_fields_ok E p \<longleftrightarrow>
     option_ok (accepted (validate_recovery_chain E)) (rpl_chain p) \<and>
     option_ok (node_progress_ok E) (rpl_node p) \<and>
     option_ok (accepted (validate_gemini_hypothesis E)) (rpl_hypothesis p) \<and>
     option_ok (accepted (validate_investigation_report E)) (rpl_report p) \<and>
     option_ok (accepted (validate_certificate E)) (rpl_certificate p) \<and>
     option_ok (accepted (validate_ambiguity_witness E)) (rpl_witness p) \<and>
     option_ok (accepted (validate_launch_permit E)) (rpl_launch_permit p) \<and>
     option_ok (accepted (validate_action_permit E)) (rpl_action_permit p) \<and>
     option_ok (accepted (validate_run_receipt E)) (rpl_dispatch_receipt p) \<and>
     option_ok (non_empty_text_ok E) (rpl_note p)"

text \<open>The names of the fields that are not \<open>None\<close>.\<close>

definition present_field :: "string \<Rightarrow> 'a option \<Rightarrow> string list" where
  "present_field name x = (if x = None then [] else [name])"

definition payload_fields :: "run_payload \<Rightarrow> string list" where
  "payload_fields p =
     present_field ''lifecycle'' (rpl_lifecycle p) @ present_field ''failure_category'' (rpl_failure_category p) @
     present_field ''chain'' (rpl_chain p) @ present_field ''node'' (rpl_node p) @ present_field ''hypothesis'' (rpl_hypothesis p) @
     present_field ''hypothesis_disposition'' (rpl_hypothesis_disposition p) @ present_field ''report'' (rpl_report p) @
     present_field ''decision'' (rpl_decision p) @ present_field ''certificate'' (rpl_certificate p) @
     present_field ''witness'' (rpl_witness p) @ present_field ''launch_permit'' (rpl_launch_permit p) @
     present_field ''action_permit'' (rpl_action_permit p) @ present_field ''dispatch_receipt'' (rpl_dispatch_receipt p) @
     present_field ''note'' (rpl_note p)"

definition failed_lifecycle :: "run_payload \<Rightarrow> bool" where
  "failed_lifecycle p \<longleftrightarrow> rpl_lifecycle p \<in> {Some RL_FAILED, Some RL_CANCELLED}"

definition requires_hypothesis :: "run_payload \<Rightarrow> bool" where
  "requires_hypothesis p \<longleftrightarrow>
     rpl_hypothesis_disposition p \<in>
       {Some HD_SELECTED, Some HD_NO_PROBE, Some HD_DUPLICATE_PROBE, Some HD_BUDGET_EXHAUSTED,
        Some HD_UNSUPPORTED_PROBE, Some HD_UNSUPPORTED_ACTION, Some HD_INVALID_BINDING}"

fun expected_fields :: "run_event_type \<Rightarrow> run_payload \<Rightarrow> string list" where
  "expected_fields ET_LIFECYCLE p = ''lifecycle'' # (if failed_lifecycle p then [''failure_category''] else [])"
| "expected_fields ET_CHAIN p = [''chain'']"
| "expected_fields ET_NODE p = [''node'']"
| "expected_fields ET_HYPOTHESIS p =
     [''hypothesis_disposition'', ''note''] @ (if requires_hypothesis p then [''hypothesis''] else [])"
| "expected_fields ET_EVIDENCE p = [''report'']"
| "expected_fields ET_DECISION p =
     [''decision'', if rpl_certificate p \<noteq> None then ''certificate'' else ''witness'']"
| "expected_fields ET_LAUNCH_PERMIT p = [''launch_permit'']"
| "expected_fields ET_ACTION_PERMIT p = [''action_permit'']"
| "expected_fields ET_DISPATCH_RECEIPT p = [''dispatch_receipt'']"

text \<open>The decisions that a certificate supports. A certificate is never of an unknown outcome.\<close>

definition supported_decisions :: "certificate \<Rightarrow> recovery_decision list" where
  "supported_decisions c =
     (case vc_transition c of
        Some t \<Rightarrow> [if ct_action t = PA_CONTINUE then RD_CONTINUE else RD_RETRY]
      | None \<Rightarrow>
        (case vc_classification c of
           COMMITTED \<Rightarrow> [RD_CONTINUE, RD_ESCALATE]
         | NOT_COMMITTED \<Rightarrow> [RD_ESCALATE]
         | PARTIAL \<Rightarrow> [RD_ESCALATE]
         | PENDING \<Rightarrow> [RD_OBSERVE, RD_ESCALATE]
         | UNKNOWN \<Rightarrow> []))"

record run_event =
  re_run_id :: string
  re_cursor :: int
  re_type :: run_event_type
  re_occurred_at :: time
  re_payload :: run_payload

definition max_recovery_run_events :: int where "max_recovery_run_events = 512"

definition run_event_fields_ok :: "env \<Rightarrow> run_event \<Rightarrow> bool" where
  "run_event_fields_ok E e \<longleftrightarrow>
     identifier_ok E (re_run_id e) \<and> 1 \<le> re_cursor e \<and> re_cursor e \<le> max_recovery_run_events \<and>
     time_ok (re_occurred_at e) \<and> run_payload_fields_ok E (re_payload e)"

definition validate_run_event :: "env \<Rightarrow> run_event \<Rightarrow> run_event result" where
  "validate_run_event E e =
     (let p = re_payload e; t = re_type e in checked
     [(\<not> run_event_fields_ok E e, field_message),
      (t = ET_LIFECYCLE \<and> failed_lifecycle p \<noteq> (rpl_failure_category p \<noteq> None),
         ''failed lifecycle events require one failure category''),
      (t = ET_HYPOTHESIS \<and> requires_hypothesis p \<noteq> (rpl_hypothesis p \<noteq> None),
         ''hypothesis disposition does not match its model artifact''),
      (t = ET_DECISION \<and> (rpl_certificate p = None) = (rpl_witness p = None),
         ''a recovery decision requires one proof artifact''),
      (t = ET_DECISION \<and>
       \<not> option_ok (\<lambda>c. rpl_decision p \<in> Some ` set (supported_decisions c)) (rpl_certificate p),
         ''certificate does not support the recovery decision''),
      (t = ET_DECISION \<and> rpl_certificate p = None \<and> rpl_decision p \<noteq> Some RD_ESCALATE,
         ''an ambiguity witness requires escalation''),
      (set (payload_fields p) \<noteq> set (expected_fields t p),
         ''recovery event type does not match its payload'')] e)"

section \<open>Snapshots\<close>

record run_snapshot =
  rs_request :: run_request
  rs_request_sha256 :: string
  rs_lifecycle :: run_lifecycle
  rs_event_cursor :: int
  rs_revision :: int
  rs_chain :: recovery_chain
  rs_chain_sha256 :: string
  rs_active_node_id :: "string option"
  rs_nodes :: "node_progress list"
  rs_hypotheses :: "gemini_hypothesis list"
  rs_reports :: "investigation_report list"
  rs_certificates :: "certificate list"
  rs_witnesses :: "ambiguity_witness list"
  rs_launch_permit :: "launch_permit option"
  rs_action_permits :: "action_permit list"
  rs_dispatch_receipts :: "run_receipt list"
  rs_decision :: "recovery_decision option"
  rs_failure_category :: "failure_category option"
  rs_created_at :: time
  rs_updated_at :: time

definition run_snapshot_fields_ok :: "env \<Rightarrow> run_snapshot \<Rightarrow> bool" where
  "run_snapshot_fields_ok E s \<longleftrightarrow>
     accepted (validate_run_request E) (rs_request s) \<and> sha256_digest_ok (rs_request_sha256 s) \<and>
     1 \<le> rs_event_cursor s \<and> rs_event_cursor s \<le> max_recovery_run_events \<and>
     0 \<le> rs_revision s \<and> rs_revision s \<le> max_recovery_run_events - 1 \<and>
     accepted (validate_recovery_chain E) (rs_chain s) \<and> sha256_digest_ok (rs_chain_sha256 s) \<and>
     option_ok (identifier_ok E) (rs_active_node_id s) \<and>
     length_ok 1 32 (rs_nodes s) \<and> list_all (node_progress_ok E) (rs_nodes s) \<and>
     length_ok 0 64 (rs_hypotheses s) \<and> list_all (accepted (validate_gemini_hypothesis E)) (rs_hypotheses s) \<and>
     length_ok 0 64 (rs_reports s) \<and> list_all (accepted (validate_investigation_report E)) (rs_reports s) \<and>
     length_ok 0 32 (rs_certificates s) \<and> list_all (accepted (validate_certificate E)) (rs_certificates s) \<and>
     length_ok 0 32 (rs_witnesses s) \<and> list_all (accepted (validate_ambiguity_witness E)) (rs_witnesses s) \<and>
     option_ok (accepted (validate_launch_permit E)) (rs_launch_permit s) \<and>
     length_ok 0 32 (rs_action_permits s) \<and> list_all (valid_permit E) (rs_action_permits s) \<and>
     length_ok 0 64 (rs_dispatch_receipts s) \<and>
     list_all (accepted (validate_run_receipt E)) (rs_dispatch_receipts s) \<and>
     time_ok (rs_created_at s) \<and> time_ok (rs_updated_at s)"

definition is_terminal :: "run_lifecycle \<Rightarrow> bool" where
  "is_terminal l \<longleftrightarrow> l \<in> {RL_COMPLETED, RL_ESCALATED, RL_FAILED, RL_CANCELLED}"

text \<open>A node of the chain by its identifier: the identifiers of a chain are distinct.\<close>

definition chain_node_of :: "recovery_chain \<Rightarrow> string \<Rightarrow> recovery_node option" where
  "chain_node_of c i = find (\<lambda>n. rn_node_id n = i) (rc_nodes c)"

definition node_ok :: "recovery_chain \<Rightarrow> string \<Rightarrow> (recovery_node \<Rightarrow> bool) \<Rightarrow> bool" where
  "node_ok c i P \<longleftrightarrow> (case chain_node_of c i of None \<Rightarrow> False | Some n \<Rightarrow> P n)"

definition chain_node_ids :: "run_snapshot \<Rightarrow> string list" where
  "chain_node_ids s = map rn_node_id (rc_nodes (rs_chain s))"

definition launch_permit_bound :: "run_snapshot \<Rightarrow> launch_permit \<Rightarrow> bool" where
  "launch_permit_bound s p \<longleftrightarrow>
     (let first_node = hd (rc_nodes (rs_chain s)) in
      lp_run_id p = rq_run_id (rs_request s) \<and> lp_node_id p = rn_node_id first_node \<and>
      lp_semantic_action_sha256 p = sa_semantic_action_sha256 (rn_semantic_action first_node))"

definition action_permit_in_chain :: "run_snapshot \<Rightarrow> action_permit \<Rightarrow> bool" where
  "action_permit_in_chain s p \<longleftrightarrow>
     ap_chain_id p = rc_chain_id (rs_chain s) \<and>
     ap_source_node_id p \<in> set (chain_node_ids s) \<and> ap_target_node_id p \<in> set (chain_node_ids s)"

definition receipt_in_chain :: "run_snapshot \<Rightarrow> run_receipt \<Rightarrow> bool" where
  "receipt_in_chain s r \<longleftrightarrow>
     rcp_run_id r = rq_run_id (rs_request s) \<and>
     node_ok (rs_chain s) (rcp_node_id r) (\<lambda>n.
       map_of (sa_semantic_arguments (rn_semantic_action n)) ''release_id'' = Some (JStr (rcp_release_id r)) \<and>
       rcp_semantic_action_sha256 r = sa_semantic_action_sha256 (rn_semantic_action n))"

text \<open>The claimed authority that a receipt names: the launch permit or an action permit.\<close>

definition claimed_before :: "time option \<Rightarrow> run_receipt \<Rightarrow> bool" where
  "claimed_before claimed_at r \<longleftrightarrow> (case claimed_at of None \<Rightarrow> False | Some t \<Rightarrow> t \<le> rcp_recorded_at r)"

definition launch_matches :: "run_receipt \<Rightarrow> launch_permit \<Rightarrow> bool" where
  "launch_matches r p \<longleftrightarrow>
     lp_state p \<in> {LS_CLAIMED, LS_COMPLETED} \<and> lp_launch_permit_id p = rcp_authority_id r \<and>
     lp_claim_id p = Some (rcp_claim_id r) \<and> lp_node_id p = rcp_node_id r \<and>
     lp_action_request_sha256 p = rcp_action_request_sha256 r \<and> claimed_before (lp_claimed_at p) r"

definition permit_matches :: "run_receipt \<Rightarrow> action_permit \<Rightarrow> bool" where
  "permit_matches r p \<longleftrightarrow>
     ap_state p \<in> {CLAIMED, COMPLETED} \<and> ap_permit_id p = rcp_authority_id r \<and>
     ap_claim_id p = Some (rcp_claim_id r) \<and> ap_target_node_id p = rcp_node_id r \<and>
     ap_semantic_action_sha256 p = rcp_semantic_action_sha256 r \<and> claimed_before (ap_claimed_at p) r"

definition action_matches :: "run_snapshot \<Rightarrow> run_receipt \<Rightarrow> action_permit list" where
  "action_matches s r = filter (permit_matches r) (rs_action_permits s)"

definition launch_count :: "(launch_permit \<Rightarrow> bool) \<Rightarrow> run_snapshot \<Rightarrow> nat" where
  "launch_count P s = (case rs_launch_permit s of None \<Rightarrow> 0 | Some p \<Rightarrow> if P p then 1 else 0)"

definition expected_attempt :: "run_snapshot \<Rightarrow> run_receipt \<Rightarrow> int" where
  "expected_attempt s r =
     (case action_matches s r of [p] \<Rightarrow> if ap_action p = PA_RETRY then 2 else 1 | _ \<Rightarrow> 1)"

definition receipt_authorised :: "run_snapshot \<Rightarrow> run_receipt \<Rightarrow> bool" where
  "receipt_authorised s r \<longleftrightarrow>
     launch_count (launch_matches r) s + length (action_matches s r) = 1 \<and>
     rcp_attempt r = expected_attempt s r"

text \<open>What a certificate, a witness and a hypothesis are bound to: chain, node, report and action.\<close>

definition artifact_bound :: "env \<Rightarrow> run_snapshot \<Rightarrow> string \<times> string \<times> string \<times> string \<Rightarrow> bool" where
  "artifact_bound E s = (\<lambda>(chain_id, node_id, report_sha256, action_sha256).
     chain_id = rc_chain_id (rs_chain s) \<and>
     report_sha256 \<in> set (map (\<lambda>r. canonical_sha256 E (investigation_report_json r)) (rs_reports s)) \<and>
     node_ok (rs_chain s) node_id (\<lambda>n. action_sha256 = sa_semantic_action_sha256 (rn_semantic_action n)))"

definition artifacts :: "run_snapshot \<Rightarrow> (string \<times> string \<times> string \<times> string) list" where
  "artifacts s =
     map (\<lambda>c. (vc_chain_id c, vc_node_id c, vc_report_sha256 c, vc_semantic_action_sha256 c)) (rs_certificates s) @
     map (\<lambda>w. (aw_chain_id w, aw_node_id w, aw_report_sha256 w, aw_semantic_action_sha256 w)) (rs_witnesses s) @
     map (\<lambda>h. (gh_chain_id h, gh_node_id h, gh_report_sha256 h, gh_semantic_action_sha256 h)) (rs_hypotheses s)"

definition proof_bound :: "env \<Rightarrow> run_snapshot \<Rightarrow> string \<times> string \<times> string \<times> string \<times> target_binding \<Rightarrow> bool" where
  "proof_bound E s = (\<lambda>(node_id, chain_sha256, node_sha256, envelope_sha256, target).
     chain_sha256 = rs_chain_sha256 s \<and>
     node_ok (rs_chain s) node_id (\<lambda>n.
       node_sha256 = canonical_sha256 E (recovery_node_json n) \<and>
       envelope_sha256 = xr_envelope_sha256 (rn_envelope n) \<and>
       target_eq target (sa_target (rn_semantic_action n))))"

definition proofs :: "run_snapshot \<Rightarrow> (string \<times> string \<times> string \<times> string \<times> target_binding) list" where
  "proofs s =
     map (\<lambda>c. (vc_node_id c, vc_chain_sha256 c, vc_node_sha256 c, vc_envelope_sha256 c, vc_target c))
       (rs_certificates s) @
     map (\<lambda>w. (aw_node_id w, aw_chain_sha256 w, aw_node_sha256 w, aw_envelope_sha256 w, aw_target w))
       (rs_witnesses s)"

definition permit_certified :: "action_permit \<Rightarrow> certificate \<Rightarrow> bool" where
  "permit_certified p c \<longleftrightarrow>
     vc_certificate_id c = ap_certificate_id p \<and>
     (case vc_transition c of
        None \<Rightarrow> False
      | Some t \<Rightarrow>
        ap_chain_id p = vc_chain_id c \<and> ap_source_node_id p = ct_source_node_id t \<and>
        ap_target_node_id p = ct_target_node_id t \<and>
        ap_semantic_action_sha256 p = ct_semantic_action_sha256 t \<and> ap_action p = ct_action t \<and>
        ap_action_policy_version p = vc_action_policy_version c \<and> ap_tool_name p = ct_tool_name t \<and>
        ap_tool_version p = ct_tool_version t \<and> ap_arguments_sha256 p = ct_arguments_sha256 t \<and>
        ap_target_sha256 p = ct_target_sha256 t \<and> ap_precondition_sha256 p = ct_precondition_sha256 t \<and>
        ap_expires_at p = vc_expires_at c)"

definition validate_run_snapshot :: "env \<Rightarrow> run_snapshot \<Rightarrow> run_snapshot result" where
  "validate_run_snapshot E s = checked
     [(\<not> run_snapshot_fields_ok E s, field_message),
      (rs_request_sha256 s \<noteq> canonical_sha256 E (run_request_json (rs_request s)),
         ''recovery request digest does not match''),
      (rs_chain_sha256 s \<noteq> canonical_sha256 E (recovery_chain_json (rs_chain s)),
         ''recovery chain digest does not match''),
      (rs_revision s \<noteq> rs_event_cursor s - 1, ''recovery revision must follow the event cursor''),
      (map np_node_id (rs_nodes s) \<noteq> chain_node_ids s,
         ''recovery node progress must match the declared chain''),
      (\<not> option_ok (\<lambda>i. i \<in> set (map np_node_id (rs_nodes s))) (rs_active_node_id s),
         ''active recovery node is not declared''),
      (rs_updated_at s < rs_created_at s, ''recovery update cannot precede creation''),
      (is_terminal (rs_lifecycle s) \<and> rs_decision s = None \<and> rs_failure_category s = None,
         ''terminal recovery state requires a disposition''),
      (rs_failure_category s \<noteq> None \<and> rs_lifecycle s \<notin> {RL_FAILED, RL_CANCELLED},
         ''failure category requires a failed recovery state''),
      (\<not> option_ok (launch_permit_bound s) (rs_launch_permit s),
         ''launch permit is not bound to the first chain node''),
      (\<not> list_all (action_permit_in_chain s) (rs_action_permits s),
         ''action permit is not bound to this recovery chain''),
      (\<not> distinct (map rcp_receipt_id (rs_dispatch_receipts s)), ''dispatch receipt identifiers must be unique''),
      (\<not> list_all (receipt_in_chain s) (rs_dispatch_receipts s),
         ''dispatch receipt is not bound to this recovery chain''),
      (\<not> list_all (receipt_authorised s) (rs_dispatch_receipts s),
         ''dispatch receipt lacks matching claimed authority''),
      (\<not> list_all (artifact_bound E s) (artifacts s), ''recovery artifact is not bound to this chain''),
      (\<not> list_all (proof_bound E s) (proofs s), ''recovery proof binding changed''),
      (\<not> list_all (\<lambda>p. list_ex (permit_certified p) (rs_certificates s)) (rs_action_permits s),
         ''action permit is not bound to its certificate''),
      (rs_lifecycle s = RL_COMPLETED \<and> list_ex (\<lambda>n. np_state n \<noteq> NS_COMPLETED) (rs_nodes s),
         ''completed recovery requires every node to complete''),
      (rs_lifecycle s = RL_ESCALATED \<and> rs_witnesses s = [] \<and>
       \<not> list_ex (\<lambda>c. vc_transition c = None) (rs_certificates s),
         ''escalated recovery requires a non-authorizing proof'')] s"

end
