(* ===== verification/Run_Journal.thy ===== *)
theory Run_Journal
  imports Run_Snapshot Verification_Inputs
begin

text \<open>
  The append-only journal of a recovery run (\<open>persistence/recovery_runs.py\<close>): the projection of events
  to a snapshot, the aggregate of a snapshot with its events, and the claim and the completion of the
  launch permit.
\<close>

section \<open>Errors\<close>

text \<open>
  The errors of the store, a failed \<open>assert\<close>, and the exceptions of the contracts. The run of a
  \<open>RecoveryRunCorruptState\<close> is optional.
\<close>

datatype run_error =
    Run_Not_Found string
  | Run_Conflict string
  | Run_Corrupt_State "string option"
  | Launch_Claim_Denied string
  | Run_Assertion
  | Run_Raised exn

type_synonym 'a run_result = "run_error + 'a"

definition bind_run :: "'a run_result \<Rightarrow> ('a \<Rightarrow> 'b run_result) \<Rightarrow> 'b run_result" where
  "bind_run r f = (case r of Inl e \<Rightarrow> Inl e | Inr x \<Rightarrow> f x)"

lemma bind_run_simps [simp]: "bind_run (Inl e) f = Inl e" "bind_run (Inr x) f = f x"
  by (simp_all add: bind_run_def)

lemma bind_run_Inr [simp]: "bind_run r f = Inr y \<longleftrightarrow> (\<exists>x. r = Inr x \<and> f x = Inr y)"
  by (cases r) simp_all

definition raising :: "'a result \<Rightarrow> 'a run_result" where
  "raising r = map_sum Run_Raised id r"

lemma raising_Inr [simp]: "raising r = Inr x \<longleftrightarrow> r = Inr x" "raising (Inr x) = Inr x"
  by (cases r; simp add: raising_def)+

definition conflict_unless :: "bool \<Rightarrow> string \<Rightarrow> unit run_result" where
  "conflict_unless ok run_id = (if ok then Inr () else Inl (Run_Conflict run_id))"

lemma conflict_unless_Inr [simp]: "conflict_unless ok run_id = Inr u \<longleftrightarrow> ok"
  by (simp add: conflict_unless_def)

text \<open>\<open>assert payload.field is not None\<close>.\<close>

definition asserted :: "'a option \<Rightarrow> 'a run_result" where
  "asserted x = (case x of None \<Rightarrow> Inl Run_Assertion | Some y \<Rightarrow> Inr y)"

lemma asserted_Inr [simp]: "asserted x = Inr y \<longleftrightarrow> x = Some y" "asserted (Some y) = Inr y"
  by (cases x; simp add: asserted_def)+

section \<open>Equality of contracts\<close>

text \<open>
  \<open>==\<close> of Python on contracts that hold JSON objects, which are compared without the order of their
  members. A value equals itself.
\<close>

definition dict_eq :: "json_object \<Rightarrow> json_object \<Rightarrow> bool" where
  "dict_eq kvs lvs \<longleftrightarrow> kvs = lvs \<or> py_eq (JObj kvs) (JObj lvs)"

definition binding_eq :: "target_binding \<Rightarrow> target_binding \<Rightarrow> bool" where
  "binding_eq a b \<longleftrightarrow> a = b \<or> target_eq a b"

definition action_eq :: "semantic_action \<Rightarrow> semantic_action \<Rightarrow> bool" where
  "action_eq a b \<longleftrightarrow>
     a\<lparr>sa_semantic_arguments := sa_semantic_arguments b, sa_target := sa_target b\<rparr> = b \<and>
     dict_eq (sa_semantic_arguments a) (sa_semantic_arguments b) \<and> binding_eq (sa_target a) (sa_target b)"

definition chain_eq :: "recovery_chain \<Rightarrow> recovery_chain \<Rightarrow> bool" where
  "chain_eq c d \<longleftrightarrow>
     c\<lparr>rc_nodes := rc_nodes d\<rparr> = d \<and>
     list_all2 (\<lambda>m n. m\<lparr>rn_semantic_action := rn_semantic_action n\<rparr> = n \<and>
       action_eq (rn_semantic_action m) (rn_semantic_action n)) (rc_nodes c) (rc_nodes d)"

definition request_eq :: "probe_request \<Rightarrow> probe_request \<Rightarrow> bool" where
  "request_eq p q \<longleftrightarrow> p\<lparr>pq_arguments := pq_arguments q\<rparr> = q \<and> dict_eq (pq_arguments p) (pq_arguments q)"

definition hypothesis_eq :: "gemini_hypothesis \<Rightarrow> gemini_hypothesis \<Rightarrow> bool" where
  "hypothesis_eq h k \<longleftrightarrow>
     h\<lparr>gh_proposed_probe := gh_proposed_probe k\<rparr> = k \<and>
     rel_option request_eq (gh_proposed_probe h) (gh_proposed_probe k)"

definition report_eq :: "investigation_report \<Rightarrow> investigation_report \<Rightarrow> bool" where
  "report_eq r q \<longleftrightarrow>
     r\<lparr>ir_evidence := ir_evidence q\<rparr> = q \<and>
     list_all2 (\<lambda>d e. d = e \<or> same_evidence d e) (ir_evidence r) (ir_evidence q)"

definition certificate_eq :: "certificate \<Rightarrow> certificate \<Rightarrow> bool" where
  "certificate_eq c d \<longleftrightarrow> c\<lparr>vc_target := vc_target d\<rparr> = d \<and> binding_eq (vc_target c) (vc_target d)"

definition witness_eq :: "ambiguity_witness \<Rightarrow> ambiguity_witness \<Rightarrow> bool" where
  "witness_eq w u \<longleftrightarrow> w\<lparr>aw_target := aw_target u\<rparr> = u \<and> binding_eq (aw_target w) (aw_target u)"

definition payload_eq :: "run_payload \<Rightarrow> run_payload \<Rightarrow> bool" where
  "payload_eq p q \<longleftrightarrow>
     p\<lparr>rpl_chain := rpl_chain q, rpl_hypothesis := rpl_hypothesis q, rpl_report := rpl_report q,
       rpl_certificate := rpl_certificate q, rpl_witness := rpl_witness q\<rparr> = q \<and>
     rel_option chain_eq (rpl_chain p) (rpl_chain q) \<and>
     rel_option hypothesis_eq (rpl_hypothesis p) (rpl_hypothesis q) \<and>
     rel_option report_eq (rpl_report p) (rpl_report q) \<and>
     rel_option certificate_eq (rpl_certificate p) (rpl_certificate q) \<and>
     rel_option witness_eq (rpl_witness p) (rpl_witness q)"

definition event_eq :: "run_event \<Rightarrow> run_event \<Rightarrow> bool" where
  "event_eq d e \<longleftrightarrow> d\<lparr>re_payload := re_payload e\<rparr> = e \<and> payload_eq (re_payload d) (re_payload e)"

definition snapshot_eq :: "run_snapshot \<Rightarrow> run_snapshot \<Rightarrow> bool" where
  "snapshot_eq s t \<longleftrightarrow>
     s\<lparr>rs_chain := rs_chain t, rs_hypotheses := rs_hypotheses t, rs_reports := rs_reports t,
       rs_certificates := rs_certificates t, rs_witnesses := rs_witnesses t\<rparr> = t \<and>
     chain_eq (rs_chain s) (rs_chain t) \<and>
     list_all2 hypothesis_eq (rs_hypotheses s) (rs_hypotheses t) \<and>
     list_all2 report_eq (rs_reports s) (rs_reports t) \<and>
     list_all2 certificate_eq (rs_certificates s) (rs_certificates t) \<and>
     list_all2 witness_eq (rs_witnesses s) (rs_witnesses t)"

section \<open>Creation\<close>

definition initial_events :: "env \<Rightarrow> string \<Rightarrow> recovery_chain \<Rightarrow> time \<Rightarrow> run_event list result" where
  "initial_events E run_id c created_at = map_result (validate_run_event E)
     [\<lparr>re_run_id = run_id, re_cursor = 1, re_type = ET_LIFECYCLE, re_occurred_at = created_at,
       re_payload = empty_payload\<lparr>rpl_lifecycle := Some RL_ACCEPTED\<rparr>\<rparr>,
      \<lparr>re_run_id = run_id, re_cursor = 2, re_type = ET_CHAIN, re_occurred_at = created_at,
       re_payload = empty_payload\<lparr>rpl_chain := Some c\<rparr>\<rparr>]"

definition fresh_snapshot :: "env \<Rightarrow> run_request \<Rightarrow> recovery_chain \<Rightarrow> time \<Rightarrow> run_snapshot" where
  "fresh_snapshot E r c created_at =
     \<lparr>rs_request = r, rs_request_sha256 = canonical_sha256 E (run_request_json r), rs_lifecycle = RL_ACCEPTED,
      rs_event_cursor = 2, rs_revision = 1, rs_chain = c,
      rs_chain_sha256 = canonical_sha256 E (recovery_chain_json c), rs_active_node_id = None,
      rs_nodes = map (\<lambda>n. \<lparr>np_node_id = rn_node_id n, np_state = NS_WAITING, np_attempt = 0\<rparr>) (rc_nodes c),
      rs_hypotheses = [], rs_reports = [], rs_certificates = [], rs_witnesses = [], rs_launch_permit = None,
      rs_action_permits = [], rs_dispatch_receipts = [], rs_decision = None, rs_failure_category = None,
      rs_created_at = created_at, rs_updated_at = created_at\<rparr>"

definition initial_snapshot :: "env \<Rightarrow> run_request \<Rightarrow> recovery_chain \<Rightarrow> time \<Rightarrow> run_snapshot result" where
  "initial_snapshot E r c created_at = validate_run_snapshot E (fresh_snapshot E r c created_at)"

section \<open>The projection\<close>

fun node_moves :: "node_state \<Rightarrow> node_state list" where
  "node_moves NS_WAITING = [NS_DISPATCH_PENDING, NS_RECONCILING]"
| "node_moves NS_DISPATCH_PENDING = [NS_DISPATCH_CLAIMED, NS_RECONCILING]"
| "node_moves NS_DISPATCH_CLAIMED = [NS_RECONCILING, NS_COMPLETED]"
| "node_moves NS_RECONCILING = [NS_VERIFIED, NS_COMPLETED, NS_ESCALATED]"
| "node_moves NS_VERIFIED = [NS_PERMITTED, NS_DISPATCH_CLAIMED, NS_RECONCILING, NS_COMPLETED, NS_ESCALATED]"
| "node_moves NS_PERMITTED = [NS_DISPATCH_CLAIMED, NS_RECONCILING, NS_COMPLETED]"
| "node_moves _ = []"

definition replace_node :: "string \<Rightarrow> node_progress list \<Rightarrow> node_progress \<Rightarrow> node_progress list run_result" where
  "replace_node run_id nodes replacement =
     (case filter (\<lambda>n. np_node_id n = np_node_id replacement) nodes of
        [current] \<Rightarrow>
          bind_run (conflict_unless
            (np_state replacement \<in> set (node_moves (np_state current)) \<and>
             np_attempt current \<le> np_attempt replacement \<and> np_attempt replacement \<le> np_attempt current + 1)
            run_id) (\<lambda>_.
          Inr (map (\<lambda>n. if np_node_id n = np_node_id replacement then replacement else n) nodes))
      | _ \<Rightarrow> Inl (Run_Corrupt_State None))"

definition permit_moves :: "action_permit \<Rightarrow> action_permit \<Rightarrow> bool" where
  "permit_moves current replacement \<longleftrightarrow>
     ap_revision replacement = ap_revision current + 1 \<and>
     (ap_state current = ISSUED \<and> ap_state replacement \<in> {CLAIMED, EXPIRED} \<or>
      ap_state current = CLAIMED \<and> ap_state replacement = COMPLETED)"

text \<open>The comparison of two authorities, with its errors read as a difference.\<close>

definition same_authority_of :: "env \<Rightarrow> action_permit \<Rightarrow> action_permit \<Rightarrow> bool run_result" where
  "same_authority_of E current replacement =
     (case same_action_permit_authority E current replacement of
        Inl e \<Rightarrow> if is_type_or_value_error e then Inr False else Inl (Run_Raised e)
      | Inr same \<Rightarrow> Inr same)"

definition upsert_permit ::
  "env \<Rightarrow> string \<Rightarrow> action_permit list \<Rightarrow> action_permit \<Rightarrow> action_permit list run_result" where
  "upsert_permit E run_id permits replacement =
     (case filter (\<lambda>p. ap_permit_id p = ap_permit_id replacement) permits of
        [] \<Rightarrow>
          bind_run (conflict_unless (ap_revision replacement = 0 \<and> ap_state replacement = ISSUED) run_id) (\<lambda>_.
          Inr (permits @ [replacement]))
      | [current] \<Rightarrow>
          bind_run (same_authority_of E current replacement) (\<lambda>same.
          bind_run (conflict_unless (same \<and> permit_moves current replacement) run_id) (\<lambda>_.
          Inr (map (\<lambda>p. if ap_permit_id p = ap_permit_id replacement then replacement else p) permits)))
      | _ \<Rightarrow> Inl (Run_Corrupt_State None))"

definition terminal_authority_audit :: "run_snapshot \<Rightarrow> run_event \<Rightarrow> bool" where
  "terminal_authority_audit s e \<longleftrightarrow>
     is_terminal (rs_lifecycle s) \<and>
     (re_type e = ET_ACTION_PERMIT \<and>
        (case rpl_action_permit (re_payload e) of
           None \<Rightarrow> False
         | Some p \<Rightarrow> ap_permit_id p \<in> set (map ap_permit_id (rs_action_permits s))) \<or>
      re_type e = ET_LAUNCH_PERMIT \<and>
        (case (rpl_launch_permit (re_payload e), rs_launch_permit s) of
           (Some p, Some current) \<Rightarrow> lp_launch_permit_id current = lp_launch_permit_id p
         | _ \<Rightarrow> False))"

definition event_admitted :: "run_snapshot \<Rightarrow> run_event \<Rightarrow> bool" where
  "event_admitted s e \<longleftrightarrow>
     re_run_id e = rq_run_id (rs_request s) \<and> re_cursor e = rs_event_cursor s + 1 \<and>
     rs_updated_at s \<le> re_occurred_at e \<and>
     (is_terminal (rs_lifecycle s) \<longrightarrow> terminal_authority_audit s e)"

fun lifecycle_moves :: "run_lifecycle \<Rightarrow> run_lifecycle list" where
  "lifecycle_moves RL_ACCEPTED = [RL_RUNNING]"
| "lifecycle_moves RL_RUNNING = [RL_COMPLETED, RL_ESCALATED, RL_FAILED, RL_CANCELLED]"
| "lifecycle_moves _ = []"

definition snapshot_run_id :: "run_snapshot \<Rightarrow> string" where
  "snapshot_run_id s = rq_run_id (rs_request s)"

definition project_lifecycle :: "run_snapshot \<Rightarrow> run_payload \<Rightarrow> run_snapshot run_result" where
  "project_lifecycle s p =
     (case rpl_lifecycle p of
        None \<Rightarrow> Inl (Run_Corrupt_State (Some (snapshot_run_id s)))
      | Some l \<Rightarrow>
        bind_run (conflict_unless (l \<in> set (lifecycle_moves (rs_lifecycle s))) (snapshot_run_id s)) (\<lambda>_.
        Inr (s\<lparr>rs_lifecycle := l, rs_failure_category := rpl_failure_category p,
               rs_decision :=
                 (if l = RL_COMPLETED then
                    (case rs_decision s of None \<Rightarrow> Some RD_CONTINUE | Some d \<Rightarrow> Some d)
                  else if l = RL_ESCALATED then Some RD_ESCALATE else rs_decision s)\<rparr>)))"

definition same_launch_identity :: "launch_permit \<Rightarrow> launch_permit \<Rightarrow> bool" where
  "same_launch_identity p q \<longleftrightarrow>
     lp_launch_permit_id p = lp_launch_permit_id q \<and> lp_run_id p = lp_run_id q \<and>
     lp_node_id p = lp_node_id q \<and> lp_semantic_action_sha256 p = lp_semantic_action_sha256 q \<and>
     lp_action_request_sha256 p = lp_action_request_sha256 q \<and> lp_issued_at p = lp_issued_at q"

definition launch_moves :: "launch_permit \<Rightarrow> launch_permit \<Rightarrow> bool" where
  "launch_moves current replacement \<longleftrightarrow>
     lp_revision replacement = lp_revision current + 1 \<and>
     (lp_state current = LS_ISSUED \<and> lp_state replacement = LS_CLAIMED \<or>
      lp_state current = LS_CLAIMED \<and> lp_state replacement = LS_COMPLETED)"

definition project_launch :: "run_snapshot \<Rightarrow> launch_permit \<Rightarrow> run_snapshot run_result" where
  "project_launch s replacement =
     bind_run (conflict_unless
       (case rs_launch_permit s of
          Some current \<Rightarrow> same_launch_identity current replacement \<and> launch_moves current replacement
        | None \<Rightarrow> lp_state replacement = LS_ISSUED \<and> lp_revision replacement = 0) (snapshot_run_id s)) (\<lambda>_.
     Inr (s\<lparr>rs_launch_permit := Some replacement\<rparr>))"

text \<open>Here the launch permit is also compared by its action.\<close>

definition receipt_admitted :: "run_snapshot \<Rightarrow> run_receipt \<Rightarrow> bool" where
  "receipt_admitted s r \<longleftrightarrow>
     rs_lifecycle s = RL_RUNNING \<and> rcp_node_id r \<in> set (map np_node_id (rs_nodes s)) \<and>
     rcp_attempt r = expected_attempt s r \<and>
     launch_count (\<lambda>p. launch_matches r p \<and> lp_semantic_action_sha256 p = rcp_semantic_action_sha256 r) s +
       length (action_matches s r) = 1 \<and>
     rcp_receipt_id r \<notin> set (map rcp_receipt_id (rs_dispatch_receipts s))"

definition project_hypothesis :: "run_snapshot \<Rightarrow> run_payload \<Rightarrow> run_snapshot" where
  "project_hypothesis s p =
     (case rpl_hypothesis p of
        None \<Rightarrow> s
      | Some h \<Rightarrow>
        if rpl_hypothesis_disposition p = Some HD_INVALID_BINDING then s
        else s\<lparr>rs_hypotheses := rs_hypotheses s @ [h]\<rparr>)"

definition project_decision :: "run_snapshot \<Rightarrow> run_payload \<Rightarrow> run_snapshot run_result" where
  "project_decision s p =
     bind_run (asserted (rpl_decision p)) (\<lambda>d.
     case rpl_certificate p of
       Some c \<Rightarrow> Inr (s\<lparr>rs_decision := Some d, rs_certificates := rs_certificates s @ [c]\<rparr>)
     | None \<Rightarrow> bind_run (asserted (rpl_witness p)) (\<lambda>w.
         Inr (s\<lparr>rs_decision := Some d, rs_witnesses := rs_witnesses s @ [w]\<rparr>)))"

definition project_event :: "env \<Rightarrow> run_snapshot \<Rightarrow> run_event \<Rightarrow> run_snapshot run_result" where
  "project_event E s e =
     (let p = re_payload e; run_id = snapshot_run_id s in
      case re_type e of
        ET_LIFECYCLE \<Rightarrow> project_lifecycle s p
      | ET_CHAIN \<Rightarrow> Inl (Run_Conflict run_id)
      | ET_NODE \<Rightarrow>
          bind_run (asserted (rpl_node p)) (\<lambda>n.
          bind_run (replace_node run_id (rs_nodes s) n) (\<lambda>nodes.
          Inr (s\<lparr>rs_nodes := nodes, rs_active_node_id := Some (np_node_id n)\<rparr>)))
      | ET_HYPOTHESIS \<Rightarrow> Inr (project_hypothesis s p)
      | ET_EVIDENCE \<Rightarrow>
          bind_run (asserted (rpl_report p)) (\<lambda>r. Inr (s\<lparr>rs_reports := rs_reports s @ [r]\<rparr>))
      | ET_DECISION \<Rightarrow> project_decision s p
      | ET_LAUNCH_PERMIT \<Rightarrow> bind_run (asserted (rpl_launch_permit p)) (project_launch s)
      | ET_ACTION_PERMIT \<Rightarrow>
          bind_run (asserted (rpl_action_permit p)) (\<lambda>a.
          bind_run (upsert_permit E run_id (rs_action_permits s) a) (\<lambda>permits.
          Inr (s\<lparr>rs_action_permits := permits\<rparr>)))
      | ET_DISPATCH_RECEIPT \<Rightarrow>
          bind_run (asserted (rpl_dispatch_receipt p)) (\<lambda>r.
          bind_run (conflict_unless (receipt_admitted s r) run_id) (\<lambda>_.
          Inr (s\<lparr>rs_dispatch_receipts := rs_dispatch_receipts s @ [r]\<rparr>))))"

definition stamped :: "run_event \<Rightarrow> run_snapshot \<Rightarrow> run_snapshot" where
  "stamped e s =
     s\<lparr>rs_event_cursor := re_cursor e, rs_revision := re_cursor e - 1, rs_updated_at := re_occurred_at e\<rparr>"

definition apply_event :: "env \<Rightarrow> run_snapshot \<Rightarrow> run_event \<Rightarrow> run_snapshot run_result" where
  "apply_event E s e =
     bind_run (conflict_unless (event_admitted s e) (snapshot_run_id s)) (\<lambda>_.
     bind_run (project_event E s e) (\<lambda>projected.
     case validate_run_snapshot E (stamped e projected) of
       Inl _ \<Rightarrow> Inl (Run_Corrupt_State (Some (snapshot_run_id s)))
     | Inr t \<Rightarrow> Inr t))"

fun replay :: "env \<Rightarrow> run_snapshot \<Rightarrow> run_event list \<Rightarrow> run_snapshot run_result" where
  "replay E s [] = Inr s"
| "replay E s (e # es) = bind_run (apply_event E s e) (\<lambda>t. replay E t es)"

section \<open>The aggregate\<close>

record run_aggregate =
  ra_snapshot :: run_snapshot
  ra_events :: "run_event list"

definition aggregate_run_id :: "run_aggregate \<Rightarrow> string" where
  "aggregate_run_id a = snapshot_run_id (ra_snapshot a)"

definition validate_run_aggregate :: "env \<Rightarrow> run_aggregate \<Rightarrow> run_aggregate run_result" where
  "validate_run_aggregate E a =
     (let s = ra_snapshot a; es = ra_events a; created_at = re_occurred_at (hd es) in
      bind_run (raising (checked
       [(\<not> (accepted (validate_run_snapshot E) s \<and> list_all (accepted (validate_run_event E)) es), field_message),
        (es = [], ''recovery event history cannot be empty''),
        (map re_cursor es \<noteq> map int [1..<Suc (length es)], ''recovery event history is not contiguous''),
        (list_ex (\<lambda>e. re_run_id e \<noteq> snapshot_run_id s) es, ''recovery event history changed run identity''),
        (rs_event_cursor s \<noteq> int (length es), ''recovery snapshot cursor differs from event history'')] a)) (\<lambda>_.
      bind_run (raising (initial_snapshot E (rs_request s) (rs_chain s) created_at)) (\<lambda>fresh.
      bind_run (raising (initial_events E (snapshot_run_id s) (rs_chain s) created_at)) (\<lambda>prefix.
      bind_run (raising (checked
        [(\<not> list_all2 event_eq (take 2 es) prefix, ''recovery history has an invalid creation prefix'')] a)) (\<lambda>_.
      bind_run (replay E fresh (drop 2 es)) (\<lambda>replayed.
      raising (checked
        [(\<not> snapshot_eq replayed s, ''recovery event history does not reproduce its snapshot'')] a)))))))"

definition create_run_aggregate ::
  "env \<Rightarrow> run_request \<Rightarrow> recovery_chain \<Rightarrow> time \<Rightarrow> run_aggregate run_result" where
  "create_run_aggregate E r c created_at =
     bind_run (raising (initial_snapshot E r c created_at)) (\<lambda>s.
     bind_run (raising (initial_events E (rq_run_id r) c created_at)) (\<lambda>es.
     validate_run_aggregate E \<lparr>ra_snapshot = s, ra_events = es\<rparr>))"

text \<open>The event that is appended to an aggregate.\<close>

definition next_event ::
  "env \<Rightarrow> run_aggregate \<Rightarrow> run_event_type \<Rightarrow> run_payload \<Rightarrow> time \<Rightarrow> run_event result" where
  "next_event E a event_type payload occurred_at = validate_run_event E
     \<lparr>re_run_id = aggregate_run_id a, re_cursor = rs_event_cursor (ra_snapshot a) + 1, re_type = event_type,
      re_occurred_at = occurred_at, re_payload = payload\<rparr>"

definition append_event ::
  "env \<Rightarrow> run_aggregate \<Rightarrow> run_event_type \<Rightarrow> run_payload \<Rightarrow> time \<Rightarrow> run_aggregate run_result" where
  "append_event E a event_type payload occurred_at =
     bind_run (raising (next_event E a event_type payload occurred_at)) (\<lambda>e.
     bind_run (apply_event E (ra_snapshot a) e) (\<lambda>s.
     validate_run_aggregate E \<lparr>ra_snapshot = s, ra_events = ra_events a @ [e]\<rparr>))"

text \<open>\<open>_append_decoded_recovery_event\<close>: without the replay of the prefix.\<close>

definition append_decoded ::
  "env \<Rightarrow> run_aggregate \<Rightarrow> run_event_type \<Rightarrow> run_payload \<Rightarrow> time \<Rightarrow> run_aggregate run_result" where
  "append_decoded E a event_type payload occurred_at =
     bind_run (raising (next_event E a event_type payload occurred_at)) (\<lambda>e.
     bind_run (apply_event E (ra_snapshot a) e) (\<lambda>s.
     let es = ra_events a @ [e] in
     if re_cursor e \<noteq> int (length es) \<or> rs_event_cursor s \<noteq> int (length es) \<or> snapshot_run_id s \<noteq> re_run_id e
     then Inl (Run_Corrupt_State (Some (re_run_id e)))
     else Inr \<lparr>ra_snapshot = s, ra_events = es\<rparr>))"

section \<open>The launch permit\<close>

definition append_launch ::
  "env \<Rightarrow> run_aggregate \<Rightarrow> launch_permit \<Rightarrow> time \<Rightarrow> (run_aggregate \<times> launch_permit) run_result" where
  "append_launch E a permit occurred_at =
     bind_run (append_event E a ET_LAUNCH_PERMIT (empty_payload\<lparr>rpl_launch_permit := Some permit\<rparr>) occurred_at)
       (\<lambda>b. Inr (b, permit))"

definition claimed_launch :: "launch_permit \<Rightarrow> string \<Rightarrow> time \<Rightarrow> launch_permit" where
  "claimed_launch p claim_id claimed_at =
     p\<lparr>lp_state := LS_CLAIMED, lp_revision := 1, lp_claim_id := Some claim_id, lp_claimed_at := Some claimed_at\<rparr>"

definition completed_launch :: "launch_permit \<Rightarrow> dispatch_outcome \<Rightarrow> time \<Rightarrow> launch_permit" where
  "completed_launch p outcome completed_at =
     p\<lparr>lp_state := LS_COMPLETED, lp_revision := 2, lp_completed_at := Some completed_at, lp_outcome := Some outcome\<rparr>"

definition claim_recovery_launch ::
  "env \<Rightarrow> run_aggregate \<Rightarrow> string \<Rightarrow> string \<Rightarrow> string \<Rightarrow> time \<Rightarrow> (run_aggregate \<times> launch_permit) run_result" where
  "claim_recovery_launch E a launch_permit_id claim_id action_request_sha256 claimed_at =
     (case rs_launch_permit (ra_snapshot a) of
        None \<Rightarrow> Inl (Launch_Claim_Denied (aggregate_run_id a))
      | Some p \<Rightarrow>
        if lp_state p \<noteq> LS_ISSUED \<or> lp_launch_permit_id p \<noteq> launch_permit_id \<or>
           lp_action_request_sha256 p \<noteq> action_request_sha256 \<or> claimed_at < lp_issued_at p
        then Inl (Launch_Claim_Denied (aggregate_run_id a))
        else bind_run (raising (validate_launch_permit E (claimed_launch p claim_id claimed_at))) (\<lambda>claimed.
          append_launch E a claimed claimed_at))"

definition complete_recovery_launch ::
  "env \<Rightarrow> run_aggregate \<Rightarrow> string \<Rightarrow> string \<Rightarrow> dispatch_outcome \<Rightarrow> time \<Rightarrow>
   (run_aggregate \<times> launch_permit) run_result" where
  "complete_recovery_launch E a launch_permit_id claim_id outcome completed_at =
     (case rs_launch_permit (ra_snapshot a) of
        None \<Rightarrow> Inl (Launch_Claim_Denied (aggregate_run_id a))
      | Some p \<Rightarrow>
        if lp_state p \<noteq> LS_CLAIMED \<or> lp_launch_permit_id p \<noteq> launch_permit_id \<or> lp_claim_id p \<noteq> Some claim_id \<or>
           (case lp_claimed_at p of None \<Rightarrow> True | Some claimed_at \<Rightarrow> completed_at < claimed_at)
        then Inl (Launch_Claim_Denied (aggregate_run_id a))
        else bind_run (raising (validate_launch_permit E (completed_launch p outcome completed_at))) (\<lambda>completed.
          append_launch E a completed completed_at))"

end
