(* ===== verification/Run_Store.thy ===== *)
theory Run_Store
  imports Run_Journal
begin

text \<open>
  The store of recovery runs in memory (\<open>InMemoryRecoveryRunStore\<close> of
  \<open>persistence/recovery_runs.py\<close>). The lock of the store makes every operation one step on the map from
  identifiers to aggregates; an operation that raises leaves the map as it was.
\<close>

section \<open>The suffix of a history\<close>

record event_suffix =
  es_run_id :: string
  es_cursor :: int
  es_terminal :: bool
  es_events :: "run_event list"

definition validate_event_suffix :: "env \<Rightarrow> event_suffix \<Rightarrow> event_suffix result" where
  "validate_event_suffix E x =
     (let cursors = map re_cursor (es_events x) in checked
     [(\<not> (identifier_ok E (es_run_id x) \<and> 1 \<le> es_cursor x \<and> es_cursor x \<le> max_recovery_run_events \<and>
          list_all (accepted (validate_run_event E)) (es_events x)), field_message),
      (list_ex (\<lambda>e. re_run_id e \<noteq> es_run_id x) (es_events x), ''recovery event suffix changed run identity''),
      (cursors \<noteq> [] \<and> (cursors \<noteq> [hd cursors..es_cursor x] \<or> last cursors \<noteq> es_cursor x),
         ''recovery event suffix is not contiguous'')] x)"

section \<open>The operations\<close>

type_synonym run_store = "string \<Rightarrow> run_aggregate option"

definition empty_store :: run_store where
  "empty_store = (\<lambda>_. None)"

text \<open>\<open>self._aggregates[run_id]\<close>.\<close>

definition stored_run :: "run_store \<Rightarrow> string \<Rightarrow> run_aggregate run_result" where
  "stored_run S run_id = (case S run_id of None \<Rightarrow> Inl (Run_Not_Found run_id) | Some a \<Rightarrow> Inr a)"

text \<open>The replacement of a stored aggregate, with the answer to the caller.\<close>

definition replacing ::
  "run_store \<Rightarrow> string \<Rightarrow> (run_aggregate \<times> 'a) run_result \<Rightarrow> 'a run_result \<times> run_store" where
  "replacing S run_id r = (case r of Inl e \<Rightarrow> (Inl e, S) | Inr (a, x) \<Rightarrow> (Inr x, S(run_id := Some a)))"

definition store_create ::
  "env \<Rightarrow> run_request \<Rightarrow> recovery_chain \<Rightarrow> time \<Rightarrow> run_store \<Rightarrow> (run_snapshot \<times> bool) run_result \<times> run_store" where
  "store_create E r c created_at S =
     (case create_run_aggregate E r c created_at of
        Inl e \<Rightarrow> (Inl e, S)
      | Inr candidate \<Rightarrow>
        (case S (rq_run_id r) of
           Some current \<Rightarrow>
             (if rs_request (ra_snapshot current) \<noteq> r \<or> \<not> chain_eq (rs_chain (ra_snapshot current)) c
              then (Inl (Run_Conflict (rq_run_id r)), S)
              else (Inr (ra_snapshot current, False), S))
         | None \<Rightarrow> (Inr (ra_snapshot candidate, True), S(rq_run_id r := Some candidate))))"

definition store_get :: "string \<Rightarrow> run_store \<Rightarrow> run_snapshot run_result" where
  "store_get run_id S = bind_run (stored_run S run_id) (\<lambda>a. Inr (ra_snapshot a))"

definition store_events :: "env \<Rightarrow> string \<Rightarrow> int \<Rightarrow> run_store \<Rightarrow> event_suffix run_result" where
  "store_events E run_id after S =
     bind_run (stored_run S run_id) (\<lambda>a.
     bind_run (conflict_unless (0 \<le> after \<and> after \<le> int (length (ra_events a))) run_id) (\<lambda>_.
     raising (validate_event_suffix E
       \<lparr>es_run_id = run_id, es_cursor = int (length (ra_events a)),
        es_terminal = is_terminal (rs_lifecycle (ra_snapshot a)), es_events = drop (nat after) (ra_events a)\<rparr>)))"

definition store_append ::
  "env \<Rightarrow> string \<Rightarrow> int \<Rightarrow> run_event_type \<Rightarrow> run_payload \<Rightarrow> time \<Rightarrow> run_store \<Rightarrow>
   run_snapshot run_result \<times> run_store" where
  "store_append E run_id expected_revision event_type payload occurred_at S =
     replacing S run_id
       (bind_run (stored_run S run_id) (\<lambda>a.
        bind_run (conflict_unless (rs_revision (ra_snapshot a) = expected_revision) run_id) (\<lambda>_.
        bind_run (append_event E a event_type payload occurred_at) (\<lambda>b. Inr (b, ra_snapshot b)))))"

definition store_claim_launch ::
  "env \<Rightarrow> string \<Rightarrow> string \<Rightarrow> string \<Rightarrow> string \<Rightarrow> time \<Rightarrow> run_store \<Rightarrow> launch_permit run_result \<times> run_store" where
  "store_claim_launch E run_id launch_permit_id claim_id action_request_sha256 claimed_at S =
     replacing S run_id
       (bind_run (stored_run S run_id) (\<lambda>a.
        claim_recovery_launch E a launch_permit_id claim_id action_request_sha256 claimed_at))"

definition store_complete_launch ::
  "env \<Rightarrow> string \<Rightarrow> string \<Rightarrow> string \<Rightarrow> dispatch_outcome \<Rightarrow> time \<Rightarrow> run_store \<Rightarrow>
   launch_permit run_result \<times> run_store" where
  "store_complete_launch E run_id launch_permit_id claim_id outcome completed_at S =
     replacing S run_id
       (bind_run (stored_run S run_id) (\<lambda>a.
        complete_recovery_launch E a launch_permit_id claim_id outcome completed_at))"

section \<open>Calls\<close>

text \<open>The calls that can change the store, in any order and with any arguments.\<close>

datatype run_call =
    Create_Run run_request recovery_chain time
  | Append_Event string int run_event_type run_payload time
  | Claim_Launch string string string string time
  | Complete_Launch string string string dispatch_outcome time

fun after_call :: "env \<Rightarrow> run_call \<Rightarrow> run_store \<Rightarrow> run_store" where
  "after_call E (Create_Run r c t) S = snd (store_create E r c t S)"
| "after_call E (Append_Event i n k p t) S = snd (store_append E i n k p t S)"
| "after_call E (Claim_Launch i l c q t) S = snd (store_claim_launch E i l c q t S)"
| "after_call E (Complete_Launch i l c x t) S = snd (store_complete_launch E i l c x t S)"

definition after_calls :: "env \<Rightarrow> run_call list \<Rightarrow> run_store \<Rightarrow> run_store" where
  "after_calls E calls S = fold (after_call E) calls S"

end
