(* ===== verification/Run_Journal_Laws.thy ===== *)
theory Run_Journal_Laws
  imports Run_Store
begin

text \<open>
  The laws of the journal. An aggregate is genuine when its events replay to its snapshot: creation
  gives one and every appended event keeps it, so the validator of an aggregate, with its replay,
  accepts everything that the operations build.
\<close>

section \<open>Equality of contracts is reflexive\<close>

lemma eq_refl [simp]:
  "dict_eq kvs kvs" "binding_eq b b" "action_eq a a" "chain_eq c c" "request_eq p p" "report_eq r r"
  "certificate_eq v v" "witness_eq w w"
  by (auto simp: dict_eq_def binding_eq_def action_eq_def chain_eq_def request_eq_def report_eq_def
    certificate_eq_def witness_eq_def intro: list.rel_refl)

lemma hypothesis_eq_refl [simp]: "hypothesis_eq h h"
  by (simp add: hypothesis_eq_def option.rel_refl)

lemma payload_eq_refl [simp]: "payload_eq p p"
  by (simp add: payload_eq_def option.rel_refl)

lemma event_eq_refl [simp]: "event_eq e e"
  by (simp add: event_eq_def)

lemma snapshot_eq_refl [simp]: "snapshot_eq s s"
  by (simp add: snapshot_eq_def list.rel_refl)

section \<open>One event\<close>

lemma validate_run_event_Inr: "validate_run_event E e = Inr d \<Longrightarrow> d = e \<and> accepted (validate_run_event E) e"
  by (simp add: accepted_iff) (simp add: validate_run_event_def Let_def)

lemma validate_run_snapshot_Inr: "validate_run_snapshot E s = Inr t \<Longrightarrow> t = s"
  by (simp add: validate_run_snapshot_def)

lemma validate_launch_permit_Inr: "validate_launch_permit E p = Inr q \<Longrightarrow> q = p"
  by (simp add: validate_launch_permit_def)

lemma apply_eventD:
  assumes "apply_event E s e = Inr t"
  obtains projected where "event_admitted s e" "project_event E s e = Inr projected" "t = stamped e projected"
    "validate_run_snapshot E t = Inr t"
proof -
  obtain projected where p: "event_admitted s e" "project_event E s e = Inr projected"
      "(case validate_run_snapshot E (stamped e projected) of
         Inl _ \<Rightarrow> Inl (Run_Corrupt_State (Some (snapshot_run_id s))) | Inr t \<Rightarrow> Inr t) = Inr t"
    using assms by (auto simp: apply_event_def)
  then have "validate_run_snapshot E (stamped e projected) = Inr t"
    by (cases "validate_run_snapshot E (stamped e projected)") simp_all
  note p = p(1,2) this
  from validate_run_snapshot_Inr [OF p(3)] p that show thesis by simp
qed

text \<open>What a projection never changes.\<close>

definition run_identity :: "run_snapshot \<Rightarrow> run_request \<times> string \<times> recovery_chain \<times> string \<times> time" where
  "run_identity s = (rs_request s, rs_request_sha256 s, rs_chain s, rs_chain_sha256 s, rs_created_at s)"

lemma project_event_identity:
  assumes "project_event E s e = Inr t"
  shows "run_identity t = run_identity s \<and> rs_event_cursor t = rs_event_cursor s"
proof -
  have life: "run_identity t = run_identity s \<and> rs_event_cursor t = rs_event_cursor s"
    if "project_lifecycle s p = Inr t" for p
    using that by (auto simp: project_lifecycle_def run_identity_def split: option.splits)
  have launch: "run_identity t = run_identity s \<and> rs_event_cursor t = rs_event_cursor s"
    if "project_launch s p = Inr t" for p
    using that by (auto simp: project_launch_def run_identity_def)
  have decision: "run_identity t = run_identity s \<and> rs_event_cursor t = rs_event_cursor s"
    if "project_decision s p = Inr t" for p
    using that by (auto simp: project_decision_def run_identity_def split: option.splits)
  show ?thesis
    using assms life launch decision
    by (auto simp: project_event_def Let_def project_hypothesis_def run_identity_def
        split: run_event_type.splits option.splits if_splits)
qed

lemma apply_event_identity:
  assumes "apply_event E s e = Inr t"
  shows "run_identity t = run_identity s" "rs_event_cursor t = rs_event_cursor s + 1"
    "rs_event_cursor t = re_cursor e" "rs_revision t = rs_revision s + 1 \<or> rs_revision s \<noteq> rs_event_cursor s - 1"
    "rs_revision t = rs_event_cursor t - 1" "re_run_id e = snapshot_run_id s"
proof -
  obtain projected where p: "event_admitted s e" "project_event E s e = Inr projected" "t = stamped e projected"
    by (rule apply_eventD [OF assms])
  show "run_identity t = run_identity s" "rs_event_cursor t = rs_event_cursor s + 1"
    "rs_event_cursor t = re_cursor e" "rs_revision t = rs_revision s + 1 \<or> rs_revision s \<noteq> rs_event_cursor s - 1"
    "rs_revision t = rs_event_cursor t - 1" "re_run_id e = snapshot_run_id s"
    using project_event_identity [OF p(2)] p(1,3)
    by (auto simp: stamped_def run_identity_def event_admitted_def snapshot_run_id_def)
qed

lemma run_identity_run_id: "run_identity t = run_identity s \<Longrightarrow> snapshot_run_id t = snapshot_run_id s"
  by (simp add: run_identity_def snapshot_run_id_def)

section \<open>Replay\<close>

lemma replay_append: "replay E s (es @ ds) = bind_run (replay E s es) (\<lambda>t. replay E t ds)"
proof (induction es arbitrary: s)
  case (Cons e es)
  then show ?case by (cases "apply_event E s e") simp_all
qed simp

lemma replay_last: "replay E s (es @ [e]) = Inr t \<longleftrightarrow> (\<exists>u. replay E s es = Inr u \<and> apply_event E u e = Inr t)"
  by (auto simp: replay_append)

lemma replay_identity:
  assumes "replay E s es = Inr t"
  shows "run_identity t = run_identity s \<and> rs_event_cursor t = rs_event_cursor s + int (length es)"
  using assms
proof (induction es arbitrary: s)
  case (Cons e es)
  then obtain u where "apply_event E s e = Inr u" "replay E u es = Inr t" by auto
  then show ?case using Cons.IH [of u] apply_event_identity(1,2) [of E s e u] by simp
qed simp

section \<open>Genuine aggregates\<close>

definition genuine :: "env \<Rightarrow> run_aggregate \<Rightarrow> bool" where
  "genuine E a \<longleftrightarrow>
     (let s = ra_snapshot a; es = ra_events a; created_at = re_occurred_at (hd es) in
      accepted (validate_run_snapshot E) s \<and> list_all (accepted (validate_run_event E)) es \<and>
      map re_cursor es = map int [1..<Suc (length es)] \<and> list_all (\<lambda>e. re_run_id e = snapshot_run_id s) es \<and>
      rs_event_cursor s = int (length es) \<and> 2 \<le> length es \<and>
      initial_events E (snapshot_run_id s) (rs_chain s) created_at = Inr (take 2 es) \<and>
      (\<exists>fresh. initial_snapshot E (rs_request s) (rs_chain s) created_at = Inr fresh \<and>
        replay E fresh (drop 2 es) = Inr s))"

lemma genuine_accepted: "genuine E a \<Longrightarrow> validate_run_aggregate E a = Inr a"
  by (auto simp: genuine_def validate_run_aggregate_def Let_def list_ex_iff list_all_iff list.rel_refl)

lemma initial_events_eq:
  "initial_events E run_id c t = Inr es \<Longrightarrow>
     es = [\<lparr>re_run_id = run_id, re_cursor = 1, re_type = ET_LIFECYCLE, re_occurred_at = t,
            re_payload = empty_payload\<lparr>rpl_lifecycle := Some RL_ACCEPTED\<rparr>\<rparr>,
           \<lparr>re_run_id = run_id, re_cursor = 2, re_type = ET_CHAIN, re_occurred_at = t,
            re_payload = empty_payload\<lparr>rpl_chain := Some c\<rparr>\<rparr>] \<and>
     list_all (accepted (validate_run_event E)) es"
  by (auto simp: initial_events_def dest!: validate_run_event_Inr)

lemma create_genuine:
  assumes "create_run_aggregate E r c t = Inr a"
  shows "genuine E a \<and> rs_request (ra_snapshot a) = r \<and> rs_chain (ra_snapshot a) = c \<and>
    ra_snapshot a = fresh_snapshot E r c t \<and> length (ra_events a) = 2"
proof -
  obtain s es where s: "initial_snapshot E r c t = Inr s" "initial_events E (rq_run_id r) c t = Inr es"
      "validate_run_aggregate E \<lparr>ra_snapshot = s, ra_events = es\<rparr> = Inr a"
    using assms by (auto simp: create_run_aggregate_def)
  have a: "a = \<lparr>ra_snapshot = s, ra_events = es\<rparr>" using s(3) by (auto simp: validate_run_aggregate_def Let_def)
  have eq: "s = fresh_snapshot E r c t" "accepted (validate_run_snapshot E) s"
    using s(1) validate_run_snapshot_Inr by (auto simp: initial_snapshot_def accepted_iff)
  note es = initial_events_eq [OF s(2)]
  have "genuine E a"
    using s(1,2) eq es
    by (auto simp: genuine_def a Let_def fresh_snapshot_def snapshot_run_id_def upt_rec numeral_2_eq_2)
  then show ?thesis using eq es a by (auto simp: fresh_snapshot_def)
qed

lemma appended_genuine:
  assumes "genuine E a" "next_event E a k p t = Inr e" "apply_event E (ra_snapshot a) e = Inr s"
  shows "genuine E \<lparr>ra_snapshot = s, ra_events = ra_events a @ [e]\<rparr>"
proof -
  note id = apply_event_identity [OF assms(3)]
  have e: "accepted (validate_run_event E) e" "re_cursor e = int (length (ra_events a)) + 1"
      "re_run_id e = snapshot_run_id (ra_snapshot a)"
    using assms(1) validate_run_event_Inr [OF assms(2) [unfolded next_event_def]]
    by (simp_all add: aggregate_run_id_def genuine_def Let_def)
  have s: "accepted (validate_run_snapshot E) s"
    by (rule apply_eventD [OF assms(3)]) (auto simp: accepted_iff)
  have same: "rs_request s = rs_request (ra_snapshot a)" "rs_chain s = rs_chain (ra_snapshot a)"
    using id(1) by (simp_all add: run_identity_def)
  have es: "2 \<le> length (ra_events a)" using assms(1) by (simp add: genuine_def Let_def)
  then have hd: "hd (ra_events a @ [e]) = hd (ra_events a)" by (cases "ra_events a") simp_all
  show ?thesis
    using assms(1,3) e s same id(2) es run_identity_run_id [OF id(1)]
    unfolding genuine_def Let_def run_aggregate.simps hd by (auto simp: replay_append)
qed

lemma append_eventD:
  assumes "append_event E a k p t = Inr b"
  obtains e s where "next_event E a k p t = Inr e" "apply_event E (ra_snapshot a) e = Inr s"
    "b = \<lparr>ra_snapshot = s, ra_events = ra_events a @ [e]\<rparr>"
  using assms by (auto simp: append_event_def validate_run_aggregate_def Let_def)

lemma append_event_eq:
  assumes "genuine E a"
  shows "append_event E a k p t =
     bind_run (raising (next_event E a k p t)) (\<lambda>e.
     bind_run (apply_event E (ra_snapshot a) e) (\<lambda>s. Inr \<lparr>ra_snapshot = s, ra_events = ra_events a @ [e]\<rparr>))"
proof (cases "next_event E a k p t")
  case (Inr e)
  then show ?thesis
    using genuine_accepted [OF appended_genuine [OF assms Inr]]
    by (cases "apply_event E (ra_snapshot a) e") (simp_all add: append_event_def)
qed (simp add: append_event_def raising_def)

lemma append_decoded_eq:
  assumes "genuine E a"
  shows "append_decoded E a k p t = append_event E a k p t"
proof (cases "next_event E a k p t")
  case (Inr e)
  show ?thesis
  proof (cases "apply_event E (ra_snapshot a) e")
    case (Inr s)
    note id = apply_event_identity [OF Inr]
    have "rs_event_cursor (ra_snapshot a) = int (length (ra_events a))"
      using assms by (simp add: genuine_def Let_def)
    then show ?thesis
      using id(2,3,6) run_identity_run_id [OF id(1)] \<open>next_event E a k p t = Inr e\<close> Inr
      by (simp add: append_decoded_def append_event_eq [OF assms])
  qed (simp add: append_decoded_def append_event_eq [OF assms] Inr)
qed (simp add: append_decoded_def append_event_def raising_def)

lemma append_genuine: "genuine E a \<Longrightarrow> append_event E a k p t = Inr b \<Longrightarrow> genuine E b"
  by (auto elim: append_eventD intro: appended_genuine)

end
