(* ===== verification/Run_Store_Laws.thy ===== *)
theory Run_Store_Laws
  imports Run_Journal_Laws
begin

text \<open>
  The laws of the store: whatever is called, its aggregates stay genuine and their histories only
  grow, and along a growing history a launch permit is claimed once, the nodes make progress and a
  terminal run is settled.
\<close>

section \<open>Growing histories\<close>

definition grown :: "env \<Rightarrow> run_aggregate \<Rightarrow> run_aggregate \<Rightarrow> bool" where
  "grown E a b \<longleftrightarrow>
     (\<exists>es. ra_events b = ra_events a @ es \<and> replay E (ra_snapshot a) es = Inr (ra_snapshot b))"

lemma grown_refl [simp]: "grown E a a"
  unfolding grown_def by (rule exI [of _ "[]"]) simp

lemma grown_trans [trans]: "grown E a b \<Longrightarrow> grown E b c \<Longrightarrow> grown E a c"
  unfolding grown_def by (auto simp: replay_append)

lemma grown_run_id: "grown E a b \<Longrightarrow> aggregate_run_id b = aggregate_run_id a"
  unfolding grown_def aggregate_run_id_def using replay_identity run_identity_run_id by blast

lemma appended_grown: "append_event E a k p t = Inr b \<Longrightarrow> grown E a b \<and> ra_events b \<noteq> ra_events a"
proof (elim append_eventD)
  fix e s
  assume "apply_event E (ra_snapshot a) e = Inr s" "b = \<lparr>ra_snapshot = s, ra_events = ra_events a @ [e]\<rparr>"
  then show ?thesis by (auto simp: grown_def)
qed

lemma append_launchD:
  "append_launch E a q t = Inr (b, x) \<Longrightarrow> append_event E a ET_LAUNCH_PERMIT (empty_payload\<lparr>rpl_launch_permit := Some q\<rparr>) t = Inr b \<and> x = q"
  by (auto simp: append_launch_def)

lemma claim_recovery_launchD:
  assumes "claim_recovery_launch E a i c q t = Inr (b, x)"
  obtains p where "rs_launch_permit (ra_snapshot a) = Some p" "lp_state p = LS_ISSUED" "x = claimed_launch p c t"
    "append_event E a ET_LAUNCH_PERMIT (empty_payload\<lparr>rpl_launch_permit := Some x\<rparr>) t = Inr b"
proof -
  obtain p where p: "rs_launch_permit (ra_snapshot a) = Some p" "lp_state p = LS_ISSUED"
      "bind_run (raising (validate_launch_permit E (claimed_launch p c t))) (\<lambda>claimed. append_launch E a claimed t) =
        Inr (b, x)"
    using assms by (auto simp: claim_recovery_launch_def split: option.splits if_splits)
  then have "append_launch E a (claimed_launch p c t) t = Inr (b, x)"
    using validate_launch_permit_Inr by auto
  from append_launchD [OF this] p that show thesis by simp
qed

lemma claim_appends:
  "claim_recovery_launch E a i c q t = Inr (b, x) \<Longrightarrow> \<exists>k p t. append_event E a k p t = Inr b"
  by (blast elim: claim_recovery_launchD)

lemma complete_recovery_launchD:
  assumes "complete_recovery_launch E a i c outcome t = Inr (b, x)"
  shows "append_event E a ET_LAUNCH_PERMIT (empty_payload\<lparr>rpl_launch_permit := Some x\<rparr>) t = Inr b"
proof -
  obtain p where "bind_run (raising (validate_launch_permit E (completed_launch p outcome t)))
      (\<lambda>completed. append_launch E a completed t) = Inr (b, x)"
    using assms by (auto simp: complete_recovery_launch_def split: option.splits if_splits)
  then have "append_launch E a (completed_launch p outcome t) t = Inr (b, x)"
    using validate_launch_permit_Inr by auto
  from append_launchD [OF this] show ?thesis by simp
qed

lemma complete_appends:
  "complete_recovery_launch E a i c outcome t = Inr (b, x) \<Longrightarrow> \<exists>k p t. append_event E a k p t = Inr b"
  by (blast dest: complete_recovery_launchD)

section \<open>The store\<close>

definition store_ok :: "env \<Rightarrow> run_store \<Rightarrow> bool" where
  "store_ok E S \<longleftrightarrow> (\<forall>i a. S i = Some a \<longrightarrow> genuine E a \<and> aggregate_run_id a = i)"

definition store_grown :: "env \<Rightarrow> run_store \<Rightarrow> run_store \<Rightarrow> bool" where
  "store_grown E S T \<longleftrightarrow> (\<forall>i a. S i = Some a \<longrightarrow> (\<exists>b. T i = Some b \<and> grown E a b))"

lemma store_grown_refl [simp]: "store_grown E S S"
  by (auto simp: store_grown_def)

lemma store_grown_trans [trans]: "store_grown E S T \<Longrightarrow> store_grown E T U \<Longrightarrow> store_grown E S U"
  unfolding store_grown_def by (meson grown_trans)

lemma store_ok_empty [simp]: "store_ok E empty_store"
  by (simp add: store_ok_def empty_store_def)

lemma stored_run_Inr [simp]: "stored_run S i = Inr a \<longleftrightarrow> S i = Some a"
  by (auto simp: stored_run_def split: option.splits)

text \<open>An operation that appends an event.\<close>

lemma replacing_ok:
  assumes "store_ok E S"
    and "\<And>b x. r = Inr (b, x) \<Longrightarrow> \<exists>a k p t. S i = Some a \<and> append_event E a k p t = Inr b"
  shows "store_ok E (snd (replacing S i r)) \<and> store_grown E S (snd (replacing S i r))"
proof (cases r)
  case (Inr bx)
  obtain b x where r: "r = Inr (b, x)" using Inr by (cases bx) simp
  obtain a k p t where a: "S i = Some a" "append_event E a k p t = Inr b" using assms(2) [OF r] by blast
  have "genuine E a" "aggregate_run_id a = i" using assms(1) a(1) by (auto simp: store_ok_def)
  then have "genuine E b" "aggregate_run_id b = i" "grown E a b"
    using append_genuine [OF _ a(2)] appended_grown [OF a(2)] grown_run_id by auto
  then show ?thesis using assms(1) a(1) r by (auto simp: replacing_def store_ok_def store_grown_def)
qed (simp add: replacing_def assms(1))

lemma after_call_ok:
  assumes "store_ok E S"
  shows "store_ok E (after_call E c S) \<and> store_grown E S (after_call E c S)"
proof (cases c)
  case (Create_Run r ch t)
  show ?thesis
  proof (cases "create_run_aggregate E r ch t")
    case (Inr a)
    note new = create_genuine [OF Inr]
    then have "rs_request (ra_snapshot a) = r" by blast
    then have "aggregate_run_id a = rq_run_id r" by (simp add: aggregate_run_id_def snapshot_run_id_def)
    then show ?thesis
      using assms new Inr Create_Run
      by (auto simp: store_create_def store_ok_def store_grown_def split: option.splits)
  qed (use assms Create_Run in \<open>simp add: store_create_def\<close>)
next
  case (Append_Event i n k p t)
  show ?thesis
    unfolding Append_Event after_call.simps store_append_def by (rule replacing_ok [OF assms]) auto
next
  case (Claim_Launch i l c q t)
  show ?thesis
    unfolding Claim_Launch after_call.simps store_claim_launch_def
    by (rule replacing_ok [OF assms]) (auto dest: claim_appends)
next
  case (Complete_Launch i l c x t)
  show ?thesis
    unfolding Complete_Launch after_call.simps store_complete_launch_def
    by (rule replacing_ok [OF assms]) (auto dest: complete_appends)
qed

lemma after_calls_ok:
  "store_ok E S \<Longrightarrow> store_ok E (after_calls E cs S) \<and> store_grown E S (after_calls E cs S)"
proof (induction cs arbitrary: S)
  case (Cons c cs)
  note step = after_call_ok [OF Cons.prems, of c]
  show ?case using Cons.IH [of "after_call E c S"] step store_grown_trans by (auto simp: after_calls_def)
qed (simp add: after_calls_def)

lemma reachable_ok: "store_ok E (after_calls E cs empty_store)"
  using after_calls_ok [of E empty_store cs] by simp

lemma later_run:
  assumes "store_ok E S" "S i = Some a"
  obtains b where "after_calls E later S i = Some b" "genuine E b" "aggregate_run_id b = i" "grown E a b"
proof -
  have later: "store_ok E (after_calls E later S)" "store_grown E S (after_calls E later S)"
    using after_calls_ok [OF assms(1)] by blast+
  then obtain b where b: "after_calls E later S i = Some b" "grown E a b"
    using assms(2) unfolding store_grown_def by blast
  moreover have "genuine E b" "aggregate_run_id b = i" using later(1) b(1) unfolding store_ok_def by blast+
  ultimately show thesis by (intro that)
qed

lemma reachable_run:
  assumes "after_calls E calls empty_store i = Some a"
  shows "genuine E a" "aggregate_run_id a = i"
  using reachable_ok [of E calls] assms unfolding store_ok_def by blast+

section \<open>What a growing history keeps\<close>

text \<open>An invariant of single events holds along a replay.\<close>

lemma replay_invariant:
  assumes "replay E s es = Inr t" "P s" "\<And>u e v. P u \<Longrightarrow> apply_event E u e = Inr v \<Longrightarrow> P v"
  shows "P t"
  using assms(1,2) by (induction es arbitrary: s) (auto intro: assms(3))

lemma grown_invariant:
  assumes "grown E a b" "P (ra_snapshot a)" "\<And>u e v. P u \<Longrightarrow> apply_event E u e = Inr v \<Longrightarrow> P v"
  shows "P (ra_snapshot b)"
  using assms(1) replay_invariant [where P = P, OF _ assms(2,3)] by (auto simp: grown_def)

lemma stamped_fields [simp]:
  "rs_launch_permit (stamped e s) = rs_launch_permit s" "rs_nodes (stamped e s) = rs_nodes s"
  "rs_lifecycle (stamped e s) = rs_lifecycle s" "rs_action_permits (stamped e s) = rs_action_permits s"
  by (simp_all add: stamped_def)

subsection \<open>The launch permit\<close>

definition launch_spent :: "string \<Rightarrow> run_snapshot \<Rightarrow> bool" where
  "launch_spent i s \<longleftrightarrow>
     (\<exists>p. rs_launch_permit s = Some p \<and> lp_launch_permit_id p = i \<and> lp_state p \<noteq> LS_ISSUED)"

lemma project_launch_spent:
  "project_launch s q = Inr t \<Longrightarrow> launch_spent i s \<Longrightarrow> launch_spent i t"
  by (auto simp: project_launch_def launch_spent_def same_launch_identity_def launch_moves_def)

lemma project_event_spent:
  assumes "project_event E s e = Inr t" "launch_spent i s"
  shows "launch_spent i t"
  using assms project_launch_spent
  by (auto simp: project_event_def Let_def project_hypothesis_def project_lifecycle_def project_decision_def
      launch_spent_def split: run_event_type.splits option.splits if_splits)

lemma apply_event_spent: "launch_spent i s \<Longrightarrow> apply_event E s e = Inr t \<Longrightarrow> launch_spent i t"
  by (elim apply_eventD) (auto dest: project_event_spent simp: launch_spent_def)

lemma claimed_launch_spent:
  assumes "claim_recovery_launch E a i c q t = Inr (b, x)"
  shows "launch_spent (lp_launch_permit_id x) (ra_snapshot b) \<and> lp_state x = LS_CLAIMED \<and> lp_claim_id x = Some c"
proof -
  obtain p where p: "x = claimed_launch p c t"
      "append_event E a ET_LAUNCH_PERMIT (empty_payload\<lparr>rpl_launch_permit := Some x\<rparr>) t = Inr b"
    by (rule claim_recovery_launchD [OF assms])
  obtain e s where e: "next_event E a ET_LAUNCH_PERMIT (empty_payload\<lparr>rpl_launch_permit := Some x\<rparr>) t = Inr e"
      "apply_event E (ra_snapshot a) e = Inr s" "b = \<lparr>ra_snapshot = s, ra_events = ra_events a @ [e]\<rparr>"
    by (rule append_eventD [OF p(2)])
  have "re_type e = ET_LAUNCH_PERMIT" "rpl_launch_permit (re_payload e) = Some x"
    using validate_run_event_Inr [OF e(1) [unfolded next_event_def]] by simp_all
  then have "rs_launch_permit s = Some x"
    using e(2) by (elim apply_eventD) (auto simp: project_event_def Let_def project_launch_def)
  then show ?thesis using p(1) e(3) by (simp add: launch_spent_def claimed_launch_def)
qed

lemma spent_claim_denied:
  "launch_spent i (ra_snapshot a) \<Longrightarrow>
     claim_recovery_launch E a i' c q t = Inl (Launch_Claim_Denied (aggregate_run_id a))"
  by (auto simp: launch_spent_def claim_recovery_launch_def)

subsection \<open>Terminal runs\<close>

text \<open>
  What a terminal run has decided: everything but the state of the authorities that it has given,
  which their own stores still audit.
\<close>

definition run_outcome where
  "run_outcome s =
     ((rs_lifecycle s, rs_decision s, rs_failure_category s, rs_active_node_id s, rs_nodes s),
      (rs_hypotheses s, rs_reports s, rs_certificates s, rs_witnesses s, rs_dispatch_receipts s),
      map ap_permit_id (rs_action_permits s), map_option lp_launch_permit_id (rs_launch_permit s))"

lemma upsert_known:
  assumes "upsert_permit E i ps p = Inr qs" "ap_permit_id p \<in> set (map ap_permit_id ps)"
  shows "map ap_permit_id qs = map ap_permit_id ps"
proof -
  have "filter (\<lambda>q. ap_permit_id q = ap_permit_id p) ps \<noteq> []"
    using assms(2) by (auto simp: filter_empty_conv)
  then have "qs = map (\<lambda>q. if ap_permit_id q = ap_permit_id p then p else q) ps"
    using assms(1) by (auto simp: upsert_permit_def split: list.splits)
  then show ?thesis by simp
qed

lemma apply_event_terminal:
  assumes "is_terminal (rs_lifecycle s)" "apply_event E s e = Inr t"
  shows "run_outcome t = run_outcome s \<and> re_type e \<in> {ET_ACTION_PERMIT, ET_LAUNCH_PERMIT}"
proof -
  obtain projected where p: "event_admitted s e" "project_event E s e = Inr projected" "t = stamped e projected"
    by (rule apply_eventD [OF assms(2)])
  have outcome: "run_outcome t = run_outcome projected" using p(3) by (simp add: run_outcome_def stamped_def)
  have "terminal_authority_audit s e" using p(1) assms(1) by (simp add: event_admitted_def)
  then consider
    (action) a where "re_type e = ET_ACTION_PERMIT" "rpl_action_permit (re_payload e) = Some a"
      "ap_permit_id a \<in> set (map ap_permit_id (rs_action_permits s))"
  | (launch) q current where "re_type e = ET_LAUNCH_PERMIT" "rpl_launch_permit (re_payload e) = Some q"
      "rs_launch_permit s = Some current" "lp_launch_permit_id current = lp_launch_permit_id q"
    by (auto simp: terminal_authority_audit_def split: option.splits)
  then show ?thesis
  proof cases
    case action
    then obtain ps where "upsert_permit E (snapshot_run_id s) (rs_action_permits s) a = Inr ps"
        "projected = s\<lparr>rs_action_permits := ps\<rparr>"
      using p(2) by (auto simp: project_event_def Let_def)
    then show ?thesis using upsert_known action(1,3) outcome by (auto simp: run_outcome_def)
  next
    case launch
    then have "projected = s\<lparr>rs_launch_permit := Some q\<rparr>"
      using p(2) by (auto simp: project_event_def Let_def project_launch_def)
    then show ?thesis using launch outcome by (simp add: run_outcome_def)
  qed
qed

lemma replay_terminal:
  assumes "replay E s es = Inr t" "is_terminal (rs_lifecycle s)"
  shows "run_outcome t = run_outcome s \<and> list_all (\<lambda>e. re_type e \<in> {ET_ACTION_PERMIT, ET_LAUNCH_PERMIT}) es"
  using assms
proof (induction es arbitrary: s)
  case (Cons e es)
  then obtain u where u: "apply_event E s e = Inr u" "replay E u es = Inr t" by auto
  note step = apply_event_terminal [OF Cons.prems(2) u(1)]
  then have "is_terminal (rs_lifecycle u)" using Cons.prems(2) by (simp add: run_outcome_def)
  from Cons.IH [OF u(2) this] step show ?case by simp
qed simp

subsection \<open>The nodes\<close>

text \<open>
  One progress of a node after another: attempts never go back, and a completed or an escalated node
  stays as it is.
\<close>

definition node_progressed :: "node_progress \<Rightarrow> node_progress \<Rightarrow> bool" where
  "node_progressed m n \<longleftrightarrow>
     np_node_id n = np_node_id m \<and> np_attempt m \<le> np_attempt n \<and>
     (np_state m \<in> {NS_COMPLETED, NS_ESCALATED} \<longrightarrow> n = m)"

lemma node_progressed_refl [simp]: "node_progressed n n"
  by (simp add: node_progressed_def)

lemma nodes_progressed_refl [simp]: "list_all2 node_progressed ns ns"
  by (simp add: list.rel_refl)

lemma node_progressed_trans: "node_progressed l m \<Longrightarrow> node_progressed m n \<Longrightarrow> node_progressed l n"
  unfolding node_progressed_def by auto

lemma nodes_progressed_trans:
  "list_all2 node_progressed xs ys \<Longrightarrow> list_all2 node_progressed ys zs \<Longrightarrow> list_all2 node_progressed xs zs"
  by (rule list_all2_trans) (rule node_progressed_trans)

lemma replace_node_progressed:
  assumes "replace_node i ns r = Inr ms"
  shows "list_all2 node_progressed ns ms"
proof -
  obtain current where c: "filter (\<lambda>n. np_node_id n = np_node_id r) ns = [current]"
      "np_state r \<in> set (node_moves (np_state current))" "np_attempt current \<le> np_attempt r"
      "ms = map (\<lambda>n. if np_node_id n = np_node_id r then r else n) ns"
    using assms by (auto simp: replace_node_def split: list.splits)
  have "node_progressed n (if np_node_id n = np_node_id r then r else n)" if "n \<in> set ns" for n
  proof (cases "np_node_id n = np_node_id r")
    case True
    then have "n \<in> set (filter (\<lambda>n. np_node_id n = np_node_id r) ns)" using that by simp
    then have "n = current" using c(1) by simp
    then show ?thesis using True c(2,3) by (auto simp: node_progressed_def)
  qed simp
  then show ?thesis unfolding c(4) by (simp add: list_all2_map2 list_all2_same)
qed

lemma project_event_nodes:
  assumes "project_event E s e = Inr t"
  shows "list_all2 node_progressed (rs_nodes s) (rs_nodes t)"
  using assms replace_node_progressed
  by (auto simp: project_event_def Let_def project_hypothesis_def project_lifecycle_def project_decision_def
      project_launch_def split: run_event_type.splits option.splits if_splits)

lemma replay_nodes: "replay E s es = Inr t \<Longrightarrow> list_all2 node_progressed (rs_nodes s) (rs_nodes t)"
proof (induction es arbitrary: s)
  case (Cons e es)
  then obtain u where u: "apply_event E s e = Inr u" "replay E u es = Inr t" by auto
  have "list_all2 node_progressed (rs_nodes s) (rs_nodes u)"
    using u(1) by (elim apply_eventD) (simp add: project_event_nodes)
  then show ?case using Cons.IH [OF u(2)] nodes_progressed_trans by blast
qed simp

subsection \<open>Revisions\<close>

lemma grown_revision:
  assumes "genuine E a" "genuine E b" "grown E a b"
  shows "rs_revision (ra_snapshot a) \<le> rs_revision (ra_snapshot b)"
    "ra_events a \<noteq> ra_events b \<Longrightarrow> rs_revision (ra_snapshot a) < rs_revision (ra_snapshot b)"
proof -
  have "rs_revision (ra_snapshot x) = int (length (ra_events x)) - 1" if "genuine E x" for x
    using that by (auto simp: genuine_def Let_def accepted_iff validate_run_snapshot_def)
  then show "rs_revision (ra_snapshot a) \<le> rs_revision (ra_snapshot b)"
    "ra_events a \<noteq> ra_events b \<Longrightarrow> rs_revision (ra_snapshot a) < rs_revision (ra_snapshot b)"
    using assms by (auto simp: grown_def)
qed

lemma appended_revision:
  assumes "genuine E a" "append_event E a k p t = Inr b"
  shows "rs_revision (ra_snapshot b) = rs_revision (ra_snapshot a) + 1"
proof -
  obtain e s where e: "apply_event E (ra_snapshot a) e = Inr s" "b = \<lparr>ra_snapshot = s, ra_events = ra_events a @ [e]\<rparr>"
    by (rule append_eventD [OF assms(2)])
  have "rs_revision (ra_snapshot a) = rs_event_cursor (ra_snapshot a) - 1"
    using assms(1) by (auto simp: genuine_def Let_def accepted_iff validate_run_snapshot_def)
  then show ?thesis using apply_event_identity(2,5) [OF e(1)] e(2) by simp
qed

lemma snapshot_nodes:
  assumes "accepted (validate_run_snapshot E) s"
  shows "map np_node_id (rs_nodes s) = map rn_node_id (rc_nodes (rs_chain s))"
    "list_all (\<lambda>n. 0 \<le> np_attempt n \<and> np_attempt n \<le> 2) (rs_nodes s)"
  using assms
  by (auto simp: accepted_iff validate_run_snapshot_def chain_node_ids_def run_snapshot_fields_ok_def
    node_progress_ok_def list_all_iff)

end
