(* ===== verification/Run_Sample.thy ===== *)
theory Run_Sample
  imports Verification_Sample Run_Store_Laws
begin

text \<open>
  A concrete recovery run for the witnesses: the run of the release chain, its launch permit, and the
  states of its snapshot.
\<close>

lemma fresh_fields [simp]:
  "rs_request (fresh_snapshot E r c t) = r" "rs_chain (fresh_snapshot E r c t) = c"
  "rs_request_sha256 (fresh_snapshot E r c t) = canonical_sha256 E (run_request_json r)"
  "rs_chain_sha256 (fresh_snapshot E r c t) = canonical_sha256 E (recovery_chain_json c)"
  "rs_lifecycle (fresh_snapshot E r c t) = RL_ACCEPTED" "rs_event_cursor (fresh_snapshot E r c t) = 2"
  "rs_revision (fresh_snapshot E r c t) = 1" "rs_active_node_id (fresh_snapshot E r c t) = None"
  "rs_nodes (fresh_snapshot E r c t) =
     map (\<lambda>n. \<lparr>np_node_id = rn_node_id n, np_state = NS_WAITING, np_attempt = 0\<rparr>) (rc_nodes c)"
  "rs_hypotheses (fresh_snapshot E r c t) = []" "rs_reports (fresh_snapshot E r c t) = []"
  "rs_certificates (fresh_snapshot E r c t) = []" "rs_witnesses (fresh_snapshot E r c t) = []"
  "rs_launch_permit (fresh_snapshot E r c t) = None" "rs_action_permits (fresh_snapshot E r c t) = []"
  "rs_dispatch_receipts (fresh_snapshot E r c t) = []" "rs_decision (fresh_snapshot E r c t) = None"
  "rs_failure_category (fresh_snapshot E r c t) = None" "rs_created_at (fresh_snapshot E r c t) = t"
  "rs_updated_at (fresh_snapshot E r c t) = t"
  by (simp_all add: fresh_snapshot_def)

text \<open>A run that has no evidence yet: a fresh one that has moved on.\<close>

definition early_snapshot ::
  "env \<Rightarrow> run_request \<Rightarrow> recovery_chain \<Rightarrow> time \<Rightarrow> run_lifecycle \<Rightarrow> failure_category option \<Rightarrow> launch_permit option \<Rightarrow>
   int \<Rightarrow> time \<Rightarrow> run_snapshot" where
  "early_snapshot E r c created l f p n t =
     (fresh_snapshot E r c created)\<lparr>rs_lifecycle := l, rs_failure_category := f, rs_launch_permit := p,
       rs_event_cursor := n, rs_revision := n - 1, rs_updated_at := t\<rparr>"

lemma early_snapshot_valid:
  assumes "hexdigest_ok E" "validate_run_request E r = Inr r" "validate_recovery_chain E c = Inr c"
    and "time_ok created" "time_ok t" "created \<le> t" "2 \<le> n" "n \<le> max_recovery_run_events"
    and "l \<in> {RL_ACCEPTED, RL_RUNNING} \<and> f = None \<or> l \<in> {RL_FAILED, RL_CANCELLED} \<and> f \<noteq> None"
    and "option_ok (accepted (validate_launch_permit E)) p"
    and "option_ok (launch_permit_bound (fresh_snapshot E r c created)) p"
  shows "validate_run_snapshot E (early_snapshot E r c created l f p n t) =
    Inr (early_snapshot E r c created l f p n t)"
proof -
  have chain: "recovery_chain_fields_ok E c" using assms(3) by (simp add: validate_recovery_chain_eq)
  then have nodes: "length_ok 1 32 (rc_nodes c)" "list_all (\<lambda>n. identifier_ok E (rn_node_id n)) (rc_nodes c)"
    by (auto simp: recovery_chain_fields_ok_def validate_recovery_node_def recovery_node_fields_ok_def accepted_iff
      list_all_iff)
  let ?s = "early_snapshot E r c created l f p n t"
  have fields: "run_snapshot_fields_ok E ?s"
    using assms nodes
    by (simp add: run_snapshot_fields_ok_def early_snapshot_def accepted_iff length_ok_def list_all_iff
      node_progress_ok_def)
  have bound: "option_ok (launch_permit_bound ?s) p"
    using assms(11) by (cases p) (simp_all add: launch_permit_bound_def early_snapshot_def)
  have ids: "map np_node_id (rs_nodes ?s) = chain_node_ids ?s"
    by (simp add: chain_node_ids_def early_snapshot_def comp_def)
  have empty: "artifacts ?s = []" "proofs ?s = []"
    by (simp_all add: artifacts_def proofs_def early_snapshot_def)
  show ?thesis
    using fields bound ids empty assms(6,9)
    by (auto simp: validate_run_snapshot_def early_snapshot_def is_terminal_def)
qed

lemma initial_events_total:
  assumes "validate_recovery_chain E c = Inr c" "time_ok t" "identifier_ok E i"
  shows "\<exists>es. initial_events E i c t = Inr es"
  using assms
  by (simp add: initial_events_def validate_run_event_def Let_def run_event_fields_ok_def
    max_recovery_run_events_def run_payload_fields_ok_def empty_payload_def accepted_iff payload_fields_def
    present_field_def failed_lifecycle_def)

lemma creation_total:
  assumes "hexdigest_ok E" "validate_run_request E r = Inr r" "validate_recovery_chain E c = Inr c" "time_ok t"
  obtains a where "create_run_aggregate E r c t = Inr a" "genuine E a" "ra_snapshot a = fresh_snapshot E r c t"
proof -
  have "early_snapshot E r c t RL_ACCEPTED None None 2 t = fresh_snapshot E r c t"
    by (simp add: early_snapshot_def fresh_snapshot_def)
  then have s: "initial_snapshot E r c t = Inr (fresh_snapshot E r c t)"
    using early_snapshot_valid [OF assms(1,2,3,4,4), of 2 RL_ACCEPTED None None]
    by (simp add: initial_snapshot_def max_recovery_run_events_def)
  have "identifier_ok E (rq_run_id r)" using assms(2) by (simp add: validate_run_request_def)
  then obtain es where es: "initial_events E (rq_run_id r) c t = Inr es"
    using initial_events_total [OF assms(3,4)] by blast
  let ?a = "\<lparr>ra_snapshot = fresh_snapshot E r c t, ra_events = es\<rparr>"
  have "genuine E ?a"
    using s initial_events_eq [OF es] es validate_run_snapshot_Inr
    by (auto simp: genuine_def Let_def snapshot_run_id_def upt_rec numeral_2_eq_2 initial_snapshot_def accepted_iff)
  then have "create_run_aggregate E r c t = Inr ?a"
    using s es genuine_accepted by (simp add: create_run_aggregate_def)
  with \<open>genuine E ?a\<close> that show thesis by simp
qed

section \<open>The run of the release\<close>

definition release_request :: run_request where
  "release_request = \<lparr>rq_run_id = ''run-1'', rq_policy = FIXED, rq_fault = NO_FAULT\<rparr>"

lemma run_identifiers [simp]: "identifier_ok E ''run-1''" "identifier_ok E ''launch-1''" "identifier_ok E ''claim-1''"
  by (simp_all add: plain_identifier_ok plain_chars)

lemma release_request_valid: "validate_run_request E release_request = Inr release_request"
  by (simp add: validate_run_request_def release_request_def)

definition release_launch :: launch_permit where
  "release_launch =
     \<lparr>lp_launch_permit_id = ''launch-1'', lp_run_id = ''run-1'', lp_node_id = ''node-1'',
      lp_semantic_action_sha256 = sa_semantic_action_sha256 (rn_semantic_action stage_node),
      lp_action_request_sha256 = zero_digest, lp_issued_at = 210, lp_state = LS_ISSUED, lp_revision = 0,
      lp_claim_id = None, lp_claimed_at = None, lp_completed_at = None, lp_outcome = None\<rparr>"

definition claimed_release_launch :: launch_permit where
  "claimed_release_launch = claimed_launch release_launch ''claim-1'' 220"

text \<open>An event that moves an early run on.\<close>

lemma early_append:
  assumes a: "genuine E a" "ra_snapshot a = early_snapshot E r c created l f p n t"
    and e: "next_event E a k payload t' = Inr e" "t \<le> t'" "l \<in> {RL_ACCEPTED, RL_RUNNING}"
    and projected: "project_event E (early_snapshot E r c created l f p n t) e =
      Inr (early_snapshot E r c created l' f' p' n t)"
    and valid: "validate_run_snapshot E (early_snapshot E r c created l' f' p' (n + 1) t') =
      Inr (early_snapshot E r c created l' f' p' (n + 1) t')"
  shows "append_event E a k payload t' =
    Inr \<lparr>ra_snapshot = early_snapshot E r c created l' f' p' (n + 1) t', ra_events = ra_events a @ [e]\<rparr>"
proof -
  have fields: "re_run_id e = rq_run_id r" "re_cursor e = n + 1" "re_occurred_at e = t'"
    using validate_run_event_Inr [OF e(1) [unfolded next_event_def]] a(2)
    by (simp_all add: aggregate_run_id_def snapshot_run_id_def early_snapshot_def)
  have "event_admitted (early_snapshot E r c created l f p n t) e"
    using fields e(2,3) by (auto simp: event_admitted_def early_snapshot_def is_terminal_def)
  moreover have "stamped e (early_snapshot E r c created l' f' p' n t) =
      early_snapshot E r c created l' f' p' (n + 1) t'"
    using fields by (simp add: stamped_def early_snapshot_def)
  ultimately have "apply_event E (ra_snapshot a) e = Inr (early_snapshot E r c created l' f' p' (n + 1) t')"
    using a(2) projected valid by (simp add: apply_event_def)
  then show ?thesis using append_event_eq [OF a(1)] e(1) by simp
qed

definition release_run :: "run_lifecycle \<Rightarrow> failure_category option \<Rightarrow> launch_permit option \<Rightarrow> int \<Rightarrow> time \<Rightarrow> run_snapshot" where
  "release_run = early_snapshot verify_env release_request release_chain 200"

lemmas event_checks = next_event_def validate_run_event_def Let_def run_event_fields_ok_def
  max_recovery_run_events_def run_payload_fields_ok_def empty_payload_def accepted_iff payload_fields_def
  present_field_def failed_lifecycle_def aggregate_run_id_def snapshot_run_id_def

lemma run_times [simp]: "time_ok 200" "time_ok 210" "time_ok 220" "time_ok 230"
  by (simp_all add: time_ok_def datetime_min_def datetime_max_def)

lemma release_launch_fields:
  "lp_state release_launch = LS_ISSUED" "lp_launch_permit_id release_launch = ''launch-1''"
  "lp_action_request_sha256 release_launch = zero_digest" "lp_issued_at release_launch = 210"
  by (simp_all add: release_launch_def)

lemma release_launch_valid:
  "validate_launch_permit verify_env release_launch = Inr release_launch"
  "validate_launch_permit verify_env claimed_release_launch = Inr claimed_release_launch"
proof -
  have "sha256_digest_ok (sa_semantic_action_sha256 (rn_semantic_action stage_node))"
    using release_nodes_ok(1)
    by (simp add: validate_recovery_node_def recovery_node_fields_ok_def accepted_iff validate_semantic_action_def
      semantic_action_fields_ok_def)
  then show "validate_launch_permit verify_env release_launch = Inr release_launch"
    "validate_launch_permit verify_env claimed_release_launch = Inr claimed_release_launch"
    by (simp_all add: validate_launch_permit_def launch_permit_fields_ok_def launch_lifecycle_valid_def
      release_launch_def claimed_release_launch_def claimed_launch_def)
qed

lemma release_launch_bound:
  "launch_permit_bound (fresh_snapshot verify_env release_request release_chain 200) release_launch"
  "launch_permit_bound (fresh_snapshot verify_env release_request release_chain 200) claimed_release_launch"
  by (simp_all add: launch_permit_bound_def release_launch_def claimed_release_launch_def claimed_launch_def
    release_request_def release_chain_def stage_node_def chain_node_def Let_def)

lemma release_run_valid:
  assumes "l \<in> {RL_ACCEPTED, RL_RUNNING} \<and> f = None \<or> l \<in> {RL_FAILED, RL_CANCELLED} \<and> f \<noteq> None"
    and "p \<in> {None, Some release_launch, Some claimed_release_launch}" "time_ok t" "200 \<le> t" "2 \<le> n" "n \<le> 512"
  shows "validate_run_snapshot verify_env (release_run l f p n t) = Inr (release_run l f p n t)"
  unfolding release_run_def
  by (rule early_snapshot_valid)
    (use assms release_launch_valid release_launch_bound release_request_valid release_chain_valid in
      \<open>auto simp: max_recovery_run_events_def accepted_iff\<close>)

definition creation :: run_call where
  "creation = Create_Run release_request release_chain 200"

lemma release_created:
  obtains a where "after_call verify_env creation empty_store = empty_store(''run-1'' := Some a)"
    "genuine verify_env a" "ra_snapshot a = release_run RL_ACCEPTED None None 2 200"
proof -
  obtain a where a: "create_run_aggregate verify_env release_request release_chain 200 = Inr a" "genuine verify_env a"
      "ra_snapshot a = fresh_snapshot verify_env release_request release_chain 200"
    by (rule creation_total [OF verify_hexdigest_ok release_request_valid release_chain_valid run_times(1)])
  have "fresh_snapshot verify_env release_request release_chain 200 = release_run RL_ACCEPTED None None 2 200"
    by (simp add: release_run_def early_snapshot_def fresh_snapshot_def)
  moreover have "after_call verify_env creation empty_store = empty_store(''run-1'' := Some a)"
    using a(1) by (simp add: creation_def store_create_def empty_store_def release_request_def)
  ultimately show thesis using a(2,3) that by simp
qed

lemma stored_append:
  assumes "S ''run-1'' = Some a" "rs_revision (ra_snapshot a) = n" "append_event verify_env a k p t = Inr b"
  shows "store_append verify_env ''run-1'' n k p t S = (Inr (ra_snapshot b), S(''run-1'' := Some b))"
  using assms by (simp add: store_append_def replacing_def stored_run_def conflict_unless_def)

definition launch_issue :: run_call where
  "launch_issue = Append_Event ''run-1'' 1 ET_LAUNCH_PERMIT (empty_payload\<lparr>rpl_launch_permit := Some release_launch\<rparr>) 210"

lemma launch_issued:
  assumes "S ''run-1'' = Some a" "genuine verify_env a" "ra_snapshot a = release_run RL_ACCEPTED None None 2 200"
  obtains b where "store_append verify_env ''run-1'' 1 ET_LAUNCH_PERMIT
      (empty_payload\<lparr>rpl_launch_permit := Some release_launch\<rparr>) 210 S = (Inr (ra_snapshot b), S(''run-1'' := Some b))"
    "genuine verify_env b" "ra_snapshot b = release_run RL_ACCEPTED None (Some release_launch) 3 210"
proof -
  let ?p = "empty_payload\<lparr>rpl_launch_permit := Some release_launch\<rparr>"
  obtain e where e: "next_event verify_env a ET_LAUNCH_PERMIT ?p 210 = Inr e"
      "re_type e = ET_LAUNCH_PERMIT" "re_payload e = ?p"
    using assms(3) release_launch_valid(1)
    by (simp add: event_checks release_run_def early_snapshot_def release_request_def)
  have "append_event verify_env a ET_LAUNCH_PERMIT ?p 210 =
      Inr \<lparr>ra_snapshot = release_run RL_ACCEPTED None (Some release_launch) (2 + 1) 210, ra_events = ra_events a @ [e]\<rparr>"
    unfolding release_run_def
    by (rule early_append [OF assms(2) assms(3) [unfolded release_run_def] e(1)])
      (use e(2,3) release_run_valid [of RL_ACCEPTED None "Some release_launch" 210 3] in
        \<open>simp_all add: project_event_def project_launch_def conflict_unless_def release_launch_def
          early_snapshot_def empty_payload_def release_run_def\<close>)
  moreover have "rs_revision (ra_snapshot a) = 1" using assms(3) by (simp add: release_run_def early_snapshot_def)
  moreover note append_genuine [OF assms(2)]
  ultimately show thesis using that assms(1) by (simp add: stored_append)
qed

lemma launch_issue_succeeds:
  assumes "S ''run-1'' = Some a" "genuine verify_env a" "ra_snapshot a = release_run RL_ACCEPTED None None 2 200"
  shows "\<exists>s. store_append verify_env ''run-1'' 1 ET_LAUNCH_PERMIT
      (empty_payload\<lparr>rpl_launch_permit := Some release_launch\<rparr>) 210 S = (Inr s, after_call verify_env launch_issue S)"
  by (rule launch_issued [of S a]) (use assms in \<open>simp_all add: launch_issue_def\<close>)

lemma release_issued:
  obtains a where "after_calls verify_env [creation, launch_issue] empty_store = empty_store(''run-1'' := Some a)"
    "genuine verify_env a" "ra_snapshot a = release_run RL_ACCEPTED None (Some release_launch) 3 210"
proof -
  obtain a where a: "after_call verify_env creation empty_store = empty_store(''run-1'' := Some a)"
      "genuine verify_env a" "ra_snapshot a = release_run RL_ACCEPTED None None 2 200"
    by (rule release_created)
  show thesis
    by (rule launch_issued [of "empty_store(''run-1'' := Some a)" a])
      (use a that in \<open>simp_all add: after_calls_def launch_issue_def\<close>)
qed

lemma release_claimed:
  assumes "S ''run-1'' = Some a" "genuine verify_env a"
    "ra_snapshot a = release_run RL_ACCEPTED None (Some release_launch) 3 210"
  obtains b where "store_claim_launch verify_env ''run-1'' ''launch-1'' ''claim-1'' zero_digest 220 S =
    (Inr claimed_release_launch, S(''run-1'' := Some b))"
proof -
  let ?p = "empty_payload\<lparr>rpl_launch_permit := Some claimed_release_launch\<rparr>"
  obtain e where e: "next_event verify_env a ET_LAUNCH_PERMIT ?p 220 = Inr e"
      "re_type e = ET_LAUNCH_PERMIT" "re_payload e = ?p"
    using assms(3) release_launch_valid(2)
    by (simp add: event_checks release_run_def early_snapshot_def release_request_def)
  have appended: "append_event verify_env a ET_LAUNCH_PERMIT ?p 220 =
      Inr \<lparr>ra_snapshot = release_run RL_ACCEPTED None (Some claimed_release_launch) (3 + 1) 220,
        ra_events = ra_events a @ [e]\<rparr>"
    unfolding release_run_def
    by (rule early_append [OF assms(2) assms(3) [unfolded release_run_def] e(1)])
      (use e(2,3) release_run_valid [of RL_ACCEPTED None "Some claimed_release_launch" 220 4] in
        \<open>simp_all add: project_event_def project_launch_def conflict_unless_def release_launch_def
          same_launch_identity_def launch_moves_def claimed_release_launch_def claimed_launch_def
          early_snapshot_def empty_payload_def release_run_def\<close>)
  have launch: "rs_launch_permit (ra_snapshot a) = Some release_launch"
    using assms(3) by (simp add: release_run_def early_snapshot_def)
  have "claim_recovery_launch verify_env a ''launch-1'' ''claim-1'' zero_digest 220 =
      append_launch verify_env a claimed_release_launch 220"
    using launch release_launch_valid(2) unfolding claimed_release_launch_def claim_recovery_launch_def
    by (simp add: release_launch_fields)
  then show thesis
    using that assms(1) by (simp add: store_claim_launch_def append_launch_def appended replacing_def stored_run_def)
qed

definition run_failure :: "run_call list" where
  "run_failure =
     [Append_Event ''run-1'' 1 ET_LIFECYCLE (empty_payload\<lparr>rpl_lifecycle := Some RL_RUNNING\<rparr>) 210,
      Append_Event ''run-1'' 2 ET_LIFECYCLE
        (empty_payload\<lparr>rpl_lifecycle := Some RL_FAILED, rpl_failure_category := Some FC_INTERNAL_FAILURE\<rparr>) 220]"

lemma release_moved:
  assumes "S ''run-1'' = Some a" "genuine verify_env a" "ra_snapshot a = release_run l None None n t"
    and "l' \<in> set (lifecycle_moves l)" "l' \<in> {RL_RUNNING} \<and> f = None \<or> l' \<in> {RL_FAILED, RL_CANCELLED} \<and> f \<noteq> None"
    and "t \<le> t'" "time_ok t'" "200 \<le> t'" "2 \<le> n" "n < 512"
  obtains b where "store_append verify_env ''run-1'' (n - 1) ET_LIFECYCLE
      (empty_payload\<lparr>rpl_lifecycle := Some l', rpl_failure_category := f\<rparr>) t' S =
      (Inr (ra_snapshot b), S(''run-1'' := Some b))"
    "genuine verify_env b" "ra_snapshot b = release_run l' f None (n + 1) t'"
proof -
  let ?p = "empty_payload\<lparr>rpl_lifecycle := Some l', rpl_failure_category := f\<rparr>"
  have live: "l \<in> {RL_ACCEPTED, RL_RUNNING}" using assms(4) by (cases l) simp_all
  define e where "e = \<lparr>re_run_id = ''run-1'', re_cursor = n + 1, re_type = ET_LIFECYCLE, re_occurred_at = t', re_payload = ?p\<rparr>"
  have failed: "failed_lifecycle ?p \<longleftrightarrow> f \<noteq> None"
    using assms(5) by (auto simp: failed_lifecycle_def)
  have fields: "set (payload_fields ?p) = set (expected_fields ET_LIFECYCLE ?p)"
    by (simp add: failed) (simp add: payload_fields_def present_field_def empty_payload_def)
  have "run_event_fields_ok verify_env e"
    using assms(7,9,10) by (simp add: e_def run_event_fields_ok_def max_recovery_run_events_def
      run_payload_fields_ok_def empty_payload_def)
  then have "validate_run_event verify_env e = Inr e"
    using fields failed by (simp add: validate_run_event_def e_def Let_def empty_payload_def)
  then have next_e: "next_event verify_env a ET_LIFECYCLE ?p t' = Inr e"
    using assms(3) by (simp add: next_event_def e_def aggregate_run_id_def snapshot_run_id_def release_run_def
      early_snapshot_def release_request_def)
  have e: "next_event verify_env a ET_LIFECYCLE ?p t' = Inr e" "re_type e = ET_LIFECYCLE" "re_payload e = ?p"
    by (rule next_e) (simp_all add: e_def)
  have projected: "project_event verify_env (early_snapshot verify_env release_request release_chain 200 l None None n t) e =
      Inr (early_snapshot verify_env release_request release_chain 200 l' f None n t)"
  proof -
    have l': "l' \<noteq> RL_COMPLETED" "l' \<noteq> RL_ESCALATED" using assms(5) by auto
    show ?thesis
      by (simp add: project_event_def Let_def e(2,3) project_lifecycle_def conflict_unless_def l')
        (simp add: assms(4) l' early_snapshot_def)
  qed
  have "append_event verify_env a ET_LIFECYCLE ?p t' =
      Inr \<lparr>ra_snapshot = release_run l' f None (n + 1) t', ra_events = ra_events a @ [e]\<rparr>"
    unfolding release_run_def
    by (rule early_append [OF assms(2) assms(3) [unfolded release_run_def] e(1) assms(6) live projected])
      (use release_run_valid [of l' f None t' "n + 1"] assms(5,7-10) in \<open>auto simp: release_run_def\<close>)
  moreover have "rs_revision (ra_snapshot a) = n - 1" using assms(3) by (simp add: release_run_def early_snapshot_def)
  moreover note append_genuine [OF assms(2)]
  ultimately show thesis using that assms(1) by (simp add: stored_append)
qed

lemma release_failed:
  obtains a where "after_calls verify_env (creation # run_failure) empty_store ''run-1'' = Some a"
    "rs_lifecycle (ra_snapshot a) = RL_FAILED"
proof -
  obtain a where a: "after_call verify_env creation empty_store = empty_store(''run-1'' := Some a)"
      "genuine verify_env a" "ra_snapshot a = release_run RL_ACCEPTED None None 2 200"
    by (rule release_created)
  let ?S = "empty_store(''run-1'' := Some a)"
  obtain b where b: "store_append verify_env ''run-1'' (2 - 1) ET_LIFECYCLE
      (empty_payload\<lparr>rpl_lifecycle := Some RL_RUNNING, rpl_failure_category := None\<rparr>) 210 ?S =
      (Inr (ra_snapshot b), ?S(''run-1'' := Some b))"
    "genuine verify_env b" "ra_snapshot b = release_run RL_RUNNING None None (2 + 1) 210"
    by (rule release_moved [of ?S a RL_ACCEPTED 2 200 RL_RUNNING None 210]) (use a in simp_all)
  let ?T = "?S(''run-1'' := Some b)"
  obtain c where c: "store_append verify_env ''run-1'' (3 - 1) ET_LIFECYCLE
      (empty_payload\<lparr>rpl_lifecycle := Some RL_FAILED, rpl_failure_category := Some FC_INTERNAL_FAILURE\<rparr>) 220 ?T =
      (Inr (ra_snapshot c), ?T(''run-1'' := Some c))"
    "ra_snapshot c = release_run RL_FAILED (Some FC_INTERNAL_FAILURE) None (3 + 1) 220"
    by (rule release_moved [of ?T b RL_RUNNING 3 210 RL_FAILED "Some FC_INTERNAL_FAILURE" 220]) (use b in simp_all)
  have running: "empty_payload\<lparr>rpl_lifecycle := Some RL_RUNNING, rpl_failure_category := None\<rparr> =
      empty_payload\<lparr>rpl_lifecycle := Some RL_RUNNING\<rparr>"
    by (simp add: empty_payload_def)
  have "after_calls verify_env (creation # run_failure) empty_store ''run-1'' = Some c"
    using a(1) b(1) c(1) by (simp add: after_calls_def run_failure_def running)
  moreover have "rs_lifecycle (ra_snapshot c) = RL_FAILED" using c(2) by (simp add: release_run_def early_snapshot_def)
  ultimately show thesis by (rule that)
qed

end
