(* ===== verification/Run_Properties.thy ===== *)
theory Run_Properties
  imports Run_Sample
begin

text \<open>
  The properties of recovery runs: of every store that any calls, with any arguments and in any order,
  can build.
\<close>

text \<open>
  C20: stored runs replay. Every aggregate in the store is kept under its own run and passes its
  validator; its events, projected one after another from the creation of the run, give exactly its
  snapshot; and whatever is called later, the run stays, with the same events and only new ones after
  them.
\<close>

theorem stored_runs_replay:
  assumes "after_calls E calls empty_store i = Some a"
  shows "aggregate_run_id a = i \<and> validate_run_aggregate E a = Inr a \<and>
    (\<exists>fresh. initial_snapshot E (rs_request (ra_snapshot a)) (rs_chain (ra_snapshot a))
       (re_occurred_at (hd (ra_events a))) = Inr fresh \<and>
       replay E fresh (drop 2 (ra_events a)) = Inr (ra_snapshot a)) \<and>
    (\<exists>b es. after_calls E later (after_calls E calls empty_store) i = Some b \<and> ra_events b = ra_events a @ es)"
proof -
  note ok = reachable_run [OF assms]
  then have "\<exists>fresh. initial_snapshot E (rs_request (ra_snapshot a)) (rs_chain (ra_snapshot a))
       (re_occurred_at (hd (ra_events a))) = Inr fresh \<and>
       replay E fresh (drop 2 (ra_events a)) = Inr (ra_snapshot a)"
    by (simp add: genuine_def Let_def)
  moreover have "\<exists>b es. after_calls E later (after_calls E calls empty_store) i = Some b \<and> ra_events b = ra_events a @ es"
    by (rule later_run [OF reachable_ok assms]) (auto simp: grown_def)
  ultimately show ?thesis using ok genuine_accepted by blast
qed

theorem stored_runs_replay_witness:
  "\<exists>a. after_calls verify_env (creation # run_failure) empty_store ''run-1'' = Some a \<and>
     validate_run_aggregate verify_env a = Inr a"
proof -
  obtain a where a: "after_calls verify_env (creation # run_failure) empty_store ''run-1'' = Some a"
    by (rule release_failed)
  from stored_runs_replay [OF a] a show ?thesis by blast
qed

text \<open>
  C21: the replay that an append to decoded state skips is redundant. On every stored run the append
  that does not replay the history and the append that does give the same answer, errors included.
\<close>

theorem decoded_append_agrees:
  assumes "after_calls E calls empty_store i = Some a"
  shows "append_decoded E a k payload t = append_event E a k payload t"
proof -
  show ?thesis by (rule append_decoded_eq) (rule reachable_run [OF assms])
qed

theorem decoded_append_agrees_witness:
  "\<exists>a. after_calls verify_env (creation # run_failure) empty_store ''run-1'' = Some a \<and>
     append_decoded verify_env a ET_CHAIN empty_payload 230 = append_event verify_env a ET_CHAIN empty_payload 230"
proof -
  obtain a where a: "after_calls verify_env (creation # run_failure) empty_store ''run-1'' = Some a"
    by (rule release_failed)
  from decoded_append_agrees [OF a] a show ?thesis by blast
qed

text \<open>
  C19: a launch is claimed once. When a claim of the launch permit of a run is answered with the
  permit, the permit is claimed under the claim that was asked for, and every later claim in this run
  is denied, whatever was called in between and whatever is claimed.
\<close>

theorem launch_is_claimed_once:
  assumes "store_claim_launch E i l c q t (after_calls E calls empty_store) = (Inr permit, S)"
  shows "lp_state permit = LS_CLAIMED \<and> lp_claim_id permit = Some c \<and>
    fst (store_claim_launch E i l' c' q' t' (after_calls E later S)) = Inl (Launch_Claim_Denied i)"
proof -
  let ?S = "after_calls E calls empty_store"
  have S: "S = after_call E (Claim_Launch i l c q t) ?S" using assms by simp
  obtain a b where a: "?S i = Some a" "claim_recovery_launch E a l c q t = Inr (b, permit)" "S i = Some b"
    using assms by (auto simp: store_claim_launch_def replacing_def split: sum.splits)
  note spent = claimed_launch_spent [OF a(2)]
  have "store_ok E S" using S after_call_ok [OF reachable_ok] by blast
  then obtain d where d: "after_calls E later S i = Some d" "genuine E d" "aggregate_run_id d = i" "grown E b d"
    using a(3) by (rule later_run)
  have "launch_spent (lp_launch_permit_id permit) (ra_snapshot d)"
    by (rule grown_invariant [OF d(4)]) (use spent apply_event_spent in blast)+
  then have "claim_recovery_launch E d l' c' q' t' = Inl (Launch_Claim_Denied i)"
    using spent_claim_denied d(3) by metis
  then show ?thesis using spent d(1) by (simp add: store_claim_launch_def stored_run_def replacing_def)
qed

theorem launch_is_claimed_once_witness:
  "\<exists>S. store_claim_launch verify_env ''run-1'' ''launch-1'' ''claim-1'' zero_digest 220
       (after_calls verify_env [creation, launch_issue] empty_store) = (Inr claimed_release_launch, S) \<and>
     fst (store_claim_launch verify_env ''run-1'' ''launch-1'' ''claim-1'' zero_digest 220
       (after_calls verify_env [] S)) = Inl (Launch_Claim_Denied ''run-1'')"
proof -
  obtain a where a: "after_calls verify_env [creation, launch_issue] empty_store = empty_store(''run-1'' := Some a)"
      "genuine verify_env a" "ra_snapshot a = release_run RL_ACCEPTED None (Some release_launch) 3 210"
    by (rule release_issued)
  let ?S = "after_calls verify_env [creation, launch_issue] empty_store"
  obtain b where b: "store_claim_launch verify_env ''run-1'' ''launch-1'' ''claim-1'' zero_digest 220 ?S =
      (Inr claimed_release_launch, ?S(''run-1'' := Some b))"
    by (rule release_claimed [of ?S a]) (use a in simp_all)
  from launch_is_claimed_once [OF b] b show ?thesis by blast
qed

text \<open>
  C22: no update is lost. Of all appends that expect one revision of a run at most one succeeds: once
  an append has, every later one that expects the same revision is answered with a conflict.
\<close>

theorem no_update_is_lost:
  assumes "store_append E i n k payload t (after_calls E calls empty_store) = (Inr s, S)"
  shows "rs_revision s = n + 1 \<and>
    fst (store_append E i n k' payload' t' (after_calls E later S)) = Inl (Run_Conflict i)"
proof -
  let ?S = "after_calls E calls empty_store"
  have S: "S = after_call E (Append_Event i n k payload t) ?S" using assms by simp
  obtain a b where a: "?S i = Some a" "rs_revision (ra_snapshot a) = n" "append_event E a k payload t = Inr b"
      "S i = Some b" "s = ra_snapshot b"
    using assms by (auto simp: store_append_def replacing_def split: sum.splits)
  have S_ok: "store_ok E S" using S after_call_ok [OF reachable_ok] by blast
  then obtain d where d: "after_calls E later S i = Some d" "genuine E d" "aggregate_run_id d = i" "grown E b d"
    using a(4) by (rule later_run)
  have genuine: "genuine E a" "genuine E b" using reachable_run(1) [OF a(1)] S_ok a(4) by (auto simp: store_ok_def)
  have "n < rs_revision (ra_snapshot b)"
    using grown_revision(2) [OF genuine(1,2)] appended_grown [OF a(3)] a(2) by metis
  also have "\<dots> \<le> rs_revision (ra_snapshot d)" by (rule grown_revision(1) [OF genuine(2) d(2,4)])
  finally have "rs_revision (ra_snapshot d) \<noteq> n" by simp
  moreover have "rs_revision s = n + 1" using appended_revision [OF genuine(1) a(3)] a(2,5) by simp
  ultimately show ?thesis using d(1) by (simp add: store_append_def stored_run_def replacing_def conflict_unless_def)
qed

theorem no_update_is_lost_witness:
  "\<exists>s S. store_append verify_env ''run-1'' 1 ET_LAUNCH_PERMIT
       (empty_payload\<lparr>rpl_launch_permit := Some release_launch\<rparr>) 210 (after_calls verify_env [creation] empty_store) =
       (Inr s, S) \<and>
     fst (store_append verify_env ''run-1'' 1 ET_EVIDENCE empty_payload 230 (after_calls verify_env [] S)) =
       Inl (Run_Conflict ''run-1'')"
proof -
  obtain a where a: "after_calls verify_env [creation] empty_store ''run-1'' = Some a"
      "genuine verify_env a" "ra_snapshot a = release_run RL_ACCEPTED None None 2 200"
    by (rule release_created) (simp add: after_calls_def)
  let ?S = "after_calls verify_env [creation] empty_store"
  obtain s where s: "store_append verify_env ''run-1'' 1 ET_LAUNCH_PERMIT
      (empty_payload\<lparr>rpl_launch_permit := Some release_launch\<rparr>) 210 ?S = (Inr s, after_call verify_env launch_issue ?S)"
    using launch_issue_succeeds [of ?S a] a by blast
  from no_update_is_lost [OF s] s show ?thesis by blast
qed



text \<open>
  Nodes make progress. Whatever is called, the nodes of a run stay the nodes of its chain, their
  attempts never go back and are at most two, and a completed or an escalated node stays as it is.
\<close>

theorem nodes_make_progress:
  assumes "after_calls E calls empty_store i = Some a"
  shows "\<exists>b. after_calls E later (after_calls E calls empty_store) i = Some b \<and>
    map np_node_id (rs_nodes (ra_snapshot b)) = map rn_node_id (rc_nodes (rs_chain (ra_snapshot a))) \<and>
    list_all2 node_progressed (rs_nodes (ra_snapshot a)) (rs_nodes (ra_snapshot b)) \<and>
    list_all (\<lambda>n. 0 \<le> np_attempt n \<and> np_attempt n \<le> 2) (rs_nodes (ra_snapshot b))"
proof -
  let ?T = "after_calls E later (after_calls E calls empty_store)"
  obtain b where b: "?T i = Some b" "grown E a b" "genuine E b"
    by (rule later_run [OF reachable_ok assms])
  then have valid: "accepted (validate_run_snapshot E) (ra_snapshot b)" by (simp add: genuine_def Let_def)
  have "list_all2 node_progressed (rs_nodes (ra_snapshot a)) (rs_nodes (ra_snapshot b))"
    using b(2) replay_nodes by (auto simp: grown_def)
  moreover have "rs_chain (ra_snapshot b) = rs_chain (ra_snapshot a)"
    using b(2) replay_identity unfolding grown_def run_identity_def by blast
  ultimately show ?thesis using snapshot_nodes [OF valid] b(1) by auto
qed

theorem nodes_make_progress_witness:
  "\<exists>a b. after_calls verify_env [creation] empty_store ''run-1'' = Some a \<and>
     after_calls verify_env run_failure (after_calls verify_env [creation] empty_store) ''run-1'' = Some b \<and>
     list_all2 node_progressed (rs_nodes (ra_snapshot a)) (rs_nodes (ra_snapshot b))"
proof -
  obtain a where a: "after_calls verify_env [creation] empty_store ''run-1'' = Some a"
    by (rule release_created) (simp add: after_calls_def)
  from nodes_make_progress [OF a, of run_failure] a show ?thesis by blast
qed

end
