(* ===== verification/Spec2Isabelle.thy ===== *)
theory Spec2Isabelle
  imports Permit_Properties Contract_Properties Evidence_Properties Controller_Properties
    Recovery_Properties Verification_Properties Run_Properties
begin

text \<open>
  A verification development for the Python package under \<open>src/reconcile\<close>: the program that
  investigates an operation whose outcome is unknown, classifies it on evidence, and hands out
  single-use permits for what may be done next.

  \<^bold>\<open>The program.\<close> An execution envelope describes an ambiguous operation: its target, the effects it
  should have had, and a budget. A strategy (\<open>baseline.py\<close>, a fixed plan) sends probe requests to the
  probe controller (\<open>controller/executor.py\<close>), which alone may call a provider; it checks each request
  against a frozen registry of capabilities (\<open>controller/capabilities.py\<close>), spends the budget, enforces
  deadlines and writes an audit of every attempt. The evidence engine (\<open>evidence/engine.py\<close>) takes each
  audited run through the admission pipeline (\<open>evidence/admission.py\<close>), where a registered rule of the
  target (\<open>evidence/rules.py\<close>) reads the observation; the classifier (\<open>evidence/classification.py\<close>)
  decides from the admitted evidence, and \<open>evidence/reporting.py\<close> assembles a report that the contract
  \<open>contracts/report.py\<close> checks again from the proof. For recovery, sealed action profiles and typed
  provider observations (\<open>evidence/recovery_rules.py\<close>) say which evidence proves a classification; the
  verifier (\<open>evidence/recovery_verification.py\<close>) turns a chain of actions, a report and the sealed
  evaluation into a certificate or into an ambiguity witness; a verified certificate gives one permit (\<open>controller/permits.py\<close>), which is issued, claimed and
  completed in a compare-and-swap store (\<open>persistence/permits.py\<close>, \<open>hosted/firestore_cas.py\<close>,
  \<open>hosted/firestore_permits.py\<close>).

  \<^bold>\<open>The theories.\<close> In the order of their imports:
  \<^item> \<open>Prelude\<close>: exceptions, results, the library environment \<open>env\<close>, lists. \<open>Registry\<close>: a locale for the
    registries that are filled, frozen and then read.
  \<^item> \<open>Canonical_Json\<close>, \<open>Timestamps\<close> (\<open>contracts/base.py\<close>): the JSON screen, the canonical encoding,
    digests and the text of an instant. \<open>Security\<close> (\<open>security.py\<close>): sensitive keys, the credential
    patterns as regular expressions, redaction. \<open>Sha256\<close>: the digest of the standard library, for the
    sample environment.
  \<^item> \<open>Contracts\<close>, \<open>Envelope\<close>, \<open>Recovery_Contracts\<close>, \<open>Report_Contracts\<close> (\<open>contracts/*.py\<close>): every contract as
    a record, with its field checks, its model validator and its dump.
  \<^item> \<open>Permits\<close> (\<open>persistence/permits.py\<close>), \<open>Permit_Machine\<close> (the life cycle of a permit as an inductive
    step relation, and the simulation of it by the code), \<open>Firestore_Cas\<close> (\<open>hosted/firestore_cas.py\<close> over
    a provider that may fail, and other clients that may write, at every call), \<open>Permit_Store\<close>
    (\<open>hosted/firestore_permits.py\<close>), \<open>Permit_Authority\<close> (\<open>controller/permits.py\<close>).
  \<^item> \<open>Probes\<close>, \<open>Rules\<close>, \<open>Reason_Labels\<close>, \<open>Admission\<close>, \<open>Classification\<close>, \<open>Reporting\<close> (\<open>evidence/*.py\<close>), with
    their laws in \<open>Admission_Laws\<close>, \<open>Classification_Laws\<close>, \<open>Report_Laws\<close>, \<open>Engine_Laws\<close>, and
    \<open>Evidence_Meaning\<close>: what the admitted evidence says, without the machinery.
  \<^item> \<open>Capabilities\<close>, \<open>Steps\<close> (operations on a state that may raise, and rules for how they end),
    \<open>Controller_Session\<close> (\<open>controller/executor.py\<close>), \<open>Controller_Laws\<close> (the invariant of a session),
    \<open>Baseline\<close> and \<open>Baseline_Laws\<close> (\<open>baseline.py\<close>).
  \<^item> \<open>Recovery_Rules\<close>, \<open>Provider_Evidence\<close>, \<open>Recovery_Proofs\<close> (\<open>evidence/recovery_rules.py\<close>) and
    \<open>Recovery_Proof_Laws\<close>.
  \<^item> \<open>Verification_Inputs\<close>, \<open>Recovery_Witness\<close>, \<open>Recovery_Verification\<close>
    (\<open>evidence/recovery_verification.py\<close>): the trusted inputs, the possible histories and conflicts of a
    witness, and \<open>verify_recovery\<close> with its transitions and certificates. \<open>Verification_Laws\<close> says what a
    certificate rests on, \<open>Verdict_Laws\<close> that coherent inputs give one, \<open>Witness_Laws\<close> that they
    otherwise give a witness.
  \<^item> \<open>Recovery_Run\<close>, \<open>Run_Snapshot\<close> (\<open>contracts/recovery_run.py\<close>): the request, launch permit, prepared
    actions, events and snapshot of a durable recovery run. \<open>Run_Journal\<close>, \<open>Run_Store\<close>
    (\<open>persistence/recovery_runs.py\<close>): the projection of events, aggregates that replay their history, and
    the store in memory, whose lock makes an operation one step. \<open>Run_Journal_Laws\<close>, \<open>Run_Store_Laws\<close>:
    what every sequence of calls keeps.
  \<^item> \<open>Sample\<close>, \<open>Evidence_Sample\<close>, \<open>Controller_Sample\<close>, \<open>Recovery_Sample\<close>,
    \<open>Verification_Sample\<close>, \<open>Run_Sample\<close>: concrete instances. \<open>Permit_Properties\<close>, \<open>Recovery_Properties\<close>,
    \<open>Verification_Properties\<close>, \<open>Run_Properties\<close>, \<open>Contract_Properties\<close>, \<open>Evidence_Properties\<close> and
    \<open>Controller_Properties\<close> state the properties of the program, each with an instance.

  \<^bold>\<open>State and code.\<close> A class with fields is a record whose selectors carry a prefix of the class (\<open>ap_\<close>
  for \<open>ActionPermit\<close>, \<open>ss_\<close> for a session of the controller); an enumeration is a datatype; a dictionary
  is an association list in the order of insertion; a validator is the list of its refusals in the order
  of the code, and a contract that exists has passed its validator. A function that can raise returns a
  sum; a method of a stateful object returns the result with the new state. Text is its UTF-8 bytes,
  an instant is in microseconds, monotonic time in nanoseconds, and integers are \<open>int\<close> with the bounds
  that the contracts put on them (\<open>int_ok\<close>). The guards \<open>type(x) is not C\<close> are the types of HOL.

  \<^bold>\<open>Parameters.\<close> \<open>env\<close> holds what the code asks of libraries: SHA-256, of which only the form of its result
  is used, and the Unicode tables. \<open>schema_library\<close> is \<open>jsonschema\<close>, \<open>decode\<close> is the decoding of an
  observation by pydantic, and a rule of a target is a function. The world outside a session
  (\<open>surroundings\<close>: clocks, handlers, an observer) answers the calls by their number; the provider of the
  store follows a script of faults and writes of other clients, and the theorems hold for every script.

  \<^bold>\<open>Bounds.\<close> The store tries a write 64 times (\<open>max_cas_attempts\<close>, as the code), a report holds at most 64
  attempts and a fixed plan 64 steps, as their contracts say. No definition uses fuel: the search of a
  recovery chain terminates by the number of unvisited nodes, every other recursion is structural.

  \<^bold>\<open>What is shown.\<close>
  \<^item> Permits: a claim is granted once for all clients and faults, what the store reports is durable, an
    audit history is accepted exactly when it is a run of the machine and then records every kind of
    transition once, after which the next claim or completion is denied, and a certificate leads to one
    dispatch, which is exactly the certified transition.
  \<^item> Recovery proofs: a committed proof rests on what trusted providers reported, a proof of non-execution
    only on receipts that precede any contact, the definitive classifications exclude each other, and
    the search for conflicts in pairs is complete.
  \<^item> Verification: a certificate rests on a valid proof, its transition follows the chain and gets a
    permit, verifying again gives the same permit, and without contradictions in the evidence every
    verification of accepted inputs reaches a verdict. With contradictory evidence two provider
    histories can coincide, which the contract of a witness refuses; the theorem leaves that case out.
  \<^item> Recovery runs: for every sequence of calls a stored run replays to its snapshot, a launch is claimed
    once, no update is lost, the append without replay agrees with the one with replay, and a terminal
    run is settled.
  \<^item> Contracts: the encoding and the timestamps are injective, a chain is accepted exactly when it is
    acyclic, and the search always ends.
  \<^item> Evidence: a run becomes an attempt exactly when its request has a digest, admitted evidence is the
    reading of the audited bytes, an investigation ends in a report, a classification means what the evidence says
    independently of order, duplicates and explanations, and the report contract agrees with it.
  \<^item> Controller: a probe is dispatched only when it is allowed, a session keeps its budget and its
    audit trail, and a fixed plan ends in a validated report.
  Digests are treated as digests: where an equality of texts is concluded from an equality of digests,
  the statement allows for a collision of two explicit texts. That an investigation and a fixed plan end
  in a report excludes such a collision among the at most 64 texts from which they name their own
  attempts (\<open>names_collide\<close>, \<open>attempt_names_collide\<close>).

  \<^bold>\<open>Not modelled.\<close> The workflow that drives a recovery run, the storage of recovery runs in
  SQLite and Firestore, the adaptive strategy with its language model (\<open>adaptive.py\<close>), the SQLite and Firestore storage of runs and
  events, provider adapters, HTTP services, command line and terminal, and the qualification tooling of
  the repository. Of the modelled files: the decoding of received bytes, the multi-document writes of
  the store, and the progress events of a fixed plan.
\<close>

end
